(* ===== verification/Prelude.thy ===== *)
theory Prelude
  imports "HOL-Library.AList" "HOL-Library.Char_ord" "HOL-Library.List_Lexorder"
begin

text \<open>
  Shared vocabulary of the development: Python exceptions as values, the result type of
  an operation that may raise, insertion-ordered dictionaries, the list searches the code
  writes as \<open>next(... for ... in reversed(...))\<close>, the string operations of the standard
  library, and the lemmas on them that the component theories use by name or through the
  collections \<open>dict_simps\<close> and \<open>search_simps\<close>.
\<close>

named_theorems dict_simps "insertion-ordered dictionaries"
named_theorems search_simps "first and last matching elements of a list"
named_theorems result_simps "results that may be an exception"

section \<open>Exceptions and results\<close>

text \<open>
  One constructor per exception class the sources raise or let through; the string is
  \<open>str(error)\<close>. \<open>IntegrityError\<close> is SQLite's, raised on a violated primary key or foreign key.
\<close>

datatype py_error =
    ValueError string
  | RuntimeError string
  | KeyError string
  | TypeError string
  | OSError string
  | IntegrityError string
  | AssertionError
  | StopIteration
  | CancelledError
  | TimeoutError
  | RemoteTaskError string
  | RemoteTaskCanceled string
  | InvalidParamsError string
  | ToolError string
  | IndexError string
  | ContentTypeNotSupportedError string
  | TaskNotFoundError
  | TaskNotCancelableError string
  | SandboxControlError string
  | BlockingIOError
  | OutputLimitError
  | AttributeError string
  | PyJWTError string
  | HTTPError string
  | CalledProcessError string
  | TimeoutExpired

type_synonym 'a result = "py_error + 'a"

text \<open>\<open>str(error)\<close> and \<open>type(error).__name__\<close>.\<close>

fun error_text :: "py_error \<Rightarrow> string" where
  "error_text (ValueError s) = s"
| "error_text (RuntimeError s) = s"
| "error_text (KeyError s) = [CHR 0x27] @ s @ [CHR 0x27]"
| "error_text (TypeError s) = s"
| "error_text (OSError s) = s"
| "error_text (IntegrityError s) = s"
| "error_text (RemoteTaskError s) = s"
| "error_text (RemoteTaskCanceled s) = s"
| "error_text (InvalidParamsError s) = s"
| "error_text (ToolError s) = s"
| "error_text (IndexError s) = s"
| "error_text (ContentTypeNotSupportedError s) = s"
| "error_text (TaskNotCancelableError s) = s"
| "error_text (SandboxControlError s) = s"
| "error_text (AttributeError s) = s"
| "error_text (PyJWTError s) = s"
| "error_text (HTTPError s) = s"
| "error_text (CalledProcessError s) = s"
| "error_text _ = []"

definition error_class :: "py_error \<Rightarrow> string" where
  "error_class e = (case e of ValueError _ \<Rightarrow> ''ValueError'' | RuntimeError _ \<Rightarrow> ''RuntimeError''
     | KeyError _ \<Rightarrow> ''KeyError'' | TypeError _ \<Rightarrow> ''TypeError'' | OSError _ \<Rightarrow> ''FileNotFoundError''
     | IntegrityError _ \<Rightarrow> ''IntegrityError'' | AssertionError \<Rightarrow> ''AssertionError''
     | StopIteration \<Rightarrow> ''StopIteration'' | CancelledError \<Rightarrow> ''CancelledError''
     | TimeoutError \<Rightarrow> ''TimeoutError'' | RemoteTaskError _ \<Rightarrow> ''RemoteTaskError''
     | RemoteTaskCanceled _ \<Rightarrow> ''RemoteTaskCanceled'' | InvalidParamsError _ \<Rightarrow> ''InvalidParamsError''
     | ToolError _ \<Rightarrow> ''ToolError'' | IndexError _ \<Rightarrow> ''IndexError''
     | ContentTypeNotSupportedError _ \<Rightarrow> ''ContentTypeNotSupportedError''
     | TaskNotFoundError \<Rightarrow> ''TaskNotFoundError'' | TaskNotCancelableError _ \<Rightarrow> ''TaskNotCancelableError''
     | SandboxControlError _ \<Rightarrow> ''SandboxControlError'' | BlockingIOError \<Rightarrow> ''BlockingIOError''
     | OutputLimitError \<Rightarrow> ''OutputLimitError'' | AttributeError _ \<Rightarrow> ''AttributeError''
     | PyJWTError _ \<Rightarrow> ''PyJWTError'' | HTTPError _ \<Rightarrow> ''HTTPError''
     | CalledProcessError _ \<Rightarrow> ''CalledProcessError'' | TimeoutExpired \<Rightarrow> ''TimeoutExpired'')"

text \<open>The exceptions that \<open>except OSError\<close> takes.\<close>

definition os_error :: "py_error \<Rightarrow> bool" where
  "os_error e = (case e of OSError _ \<Rightarrow> True | BlockingIOError \<Rightarrow> True | TimeoutError \<Rightarrow> True | _ \<Rightarrow> False)"

definition rbind :: "'a result \<Rightarrow> ('a \<Rightarrow> 'b result) \<Rightarrow> 'b result" where
  "rbind m f = (case m of Inl e \<Rightarrow> Inl e | Inr x \<Rightarrow> f x)"

definition guard :: "bool \<Rightarrow> py_error \<Rightarrow> unit result" where
  "guard b e = (if b then Inr () else Inl e)"

lemma rbind_simps [simp, result_simps]:
  "rbind (Inl e) f = Inl e" "rbind (Inr x) f = f x"
  by (simp_all add: rbind_def)

lemma rbind_eq_Inr [result_simps]: "rbind m f = Inr y \<longleftrightarrow> (\<exists>x. m = Inr x \<and> f x = Inr y)"
  by (cases m) simp_all

lemma rbind_eq_Inl [result_simps]:
  "rbind m f = Inl e \<longleftrightarrow> m = Inl e \<or> (\<exists>x. m = Inr x \<and> f x = Inl e)"
  by (cases m) simp_all

lemma guard_eq [result_simps]:
  "guard b e = Inr u \<longleftrightarrow> b" "guard b e = Inl d \<longleftrightarrow> \<not> b \<and> d = e"
  by (auto simp: guard_def)

lemma guard_simps [simp]: "guard True e = Inr ()" "guard False e = Inl e"
  by (simp_all add: guard_def)

text \<open>A comprehension over an operation that may raise stops at the first exception.\<close>

fun traverse :: "('a \<Rightarrow> 'b result) \<Rightarrow> 'a list \<Rightarrow> 'b list result" where
  "traverse f [] = Inr []"
| "traverse f (x # xs) = rbind (f x) (\<lambda>y. rbind (traverse f xs) (\<lambda>ys. Inr (y # ys)))"

lemma traverse_Inr_iff:
  "traverse f xs = Inr ys \<longleftrightarrow> list_all2 (\<lambda>x y. f x = Inr y) xs ys"
  by (induction xs arbitrary: ys) (auto simp: rbind_eq_Inr list_all2_Cons1)

lemma traverse_length: "traverse f xs = Inr ys \<Longrightarrow> length ys = length xs"
  by (auto simp: traverse_Inr_iff dest: list_all2_lengthD)

lemma traverse_append:
  "traverse f (xs @ ys) = rbind (traverse f xs) (\<lambda>us. rbind (traverse f ys) (\<lambda>vs. Inr (us @ vs)))"
proof (induction xs)
  case Nil
  show ?case by (cases "traverse f ys") simp_all
next
  case (Cons x xs)
  show ?case
    by (cases "f x"; cases "traverse f xs"; cases "traverse f ys") (simp_all add: Cons.IH)
qed

lemma traverse_map_Inr: "(\<And>x. x \<in> set xs \<Longrightarrow> f x = Inr (g x)) \<Longrightarrow> traverse f xs = Inr (map g xs)"
  by (induction xs) simp_all

lemma traverse_Inl_mem: "traverse f xs = Inl e \<Longrightarrow> \<exists>x \<in> set xs. f x = Inl e"
  by (induction xs) (auto simp: rbind_eq_Inl)

section \<open>First and last matches\<close>

text \<open>
  \<open>next((x for x in xs if p(x)), None)\<close> is \<open>List.find p xs\<close>; over \<open>reversed(xs)\<close> it is
  \<open>find_last\<close>.
\<close>

definition find_last :: "('a \<Rightarrow> bool) \<Rightarrow> 'a list \<Rightarrow> 'a option" where
  "find_last p xs = List.find p (rev xs)"

lemma find_last_simps [simp, search_simps]:
  "find_last p [] = None"
  "find_last p (xs @ [x]) = (if p x then Some x else find_last p xs)"
  by (simp_all add: find_last_def)

lemma find_append:
  "List.find p (xs @ ys) = (case List.find p xs of None \<Rightarrow> List.find p ys | Some x \<Rightarrow> Some x)"
  by (induction xs) simp_all

lemma find_last_append [search_simps]:
  "find_last p (xs @ ys) = (case find_last p ys of None \<Rightarrow> find_last p xs | Some y \<Rightarrow> Some y)"
  by (simp add: find_last_def find_append split: option.split)

lemma find_last_Cons [search_simps]:
  "find_last p (x # xs) =
     (case find_last p xs of None \<Rightarrow> if p x then Some x else None | Some y \<Rightarrow> Some y)"
  using find_last_append [of p "[x]" xs] by (simp add: find_last_def split: option.splits)

lemma find_SomeD: "List.find p xs = Some x \<Longrightarrow> x \<in> set xs \<and> p x"
  by (induction xs) (auto split: if_splits)

lemma find_None_iff2: "List.find p xs = None \<longleftrightarrow> (\<forall>x \<in> set xs. \<not> p x)"
  by (auto simp: find_None_iff)

lemma find_last_SomeD: "find_last p xs = Some x \<Longrightarrow> x \<in> set xs \<and> p x"
  by (auto simp: find_last_def dest: find_SomeD)

lemma find_last_None_iff: "find_last p xs = None \<longleftrightarrow> (\<forall>x \<in> set xs. \<not> p x)"
  by (simp add: find_last_def find_None_iff2)

lemma find_last_eq_last_filter:
  "find_last p xs = (if filter p xs = [] then None else Some (last (filter p xs)))"
  by (induction xs rule: rev_induct) auto

lemma find_last_split:
  assumes "find_last p xs = Some x"
  shows "\<exists>ys zs. xs = ys @ x # zs \<and> p x \<and> (\<forall>z \<in> set zs. \<not> p z)"
  using assms
proof (induction xs rule: rev_induct)
  case Nil
  then show ?case by simp
next
  case (snoc a xs)
  show ?case
  proof (cases "p a")
    case True
    with snoc.prems have "xs @ [a] = xs @ x # []" "p x" by simp_all
    then show ?thesis by fastforce
  next
    case False
    with snoc obtain ys zs where "xs = ys @ x # zs" "p x" "\<forall>z \<in> set zs. \<not> p z" by auto
    with False have "xs @ [a] = ys @ x # (zs @ [a])" "\<forall>z \<in> set (zs @ [a]). \<not> p z" by auto
    with \<open>p x\<close> show ?thesis by blast
  qed
qed

lemma distinct_map_filter_on: "distinct (map f xs) \<Longrightarrow> distinct (map f (filter p xs))"
  by (induction xs) auto

lemma distinct_map_eq:
  "distinct (map f xs) \<Longrightarrow> x \<in> set xs \<Longrightarrow> y \<in> set xs \<Longrightarrow> f x = f y \<Longrightarrow> x = y"
  by (auto simp: distinct_map dest: inj_onD)

section \<open>Insertion-ordered dictionaries\<close>

text \<open>
  A Python dictionary iterates in insertion order and keeps a key's position when its value
  is overwritten; \<open>AList.update\<close> does the same on association lists.
\<close>

abbreviation dict_set :: "'k \<Rightarrow> 'v \<Rightarrow> ('k \<times> 'v) list \<Rightarrow> ('k \<times> 'v) list" where
  "dict_set \<equiv> AList.update"

fun dict_of :: "('a \<Rightarrow> 'k) \<Rightarrow> 'a list \<Rightarrow> ('k \<times> 'a) list \<Rightarrow> ('k \<times> 'a) list" where
  "dict_of key [] d = d"
| "dict_of key (x # xs) d = dict_of key xs (dict_set (key x) x d)"

lemma keys_dict_set [dict_simps]: "set (map fst (dict_set k v d)) = insert k (set (map fst d))"
  by (induction d) auto

lemma distinct_dict_set [dict_simps]:
  "distinct (map fst d) \<Longrightarrow> distinct (map fst (dict_set k v d))"
  by (rule AList.distinct_update)

lemma keys_dict_of [dict_simps]:
  "set (map fst (dict_of key xs d)) = key ` set xs \<union> set (map fst d)"
  by (induction xs arbitrary: d) (simp_all add: keys_dict_set [simplified])

lemma distinct_dict_of [dict_simps]:
  "distinct (map fst d) \<Longrightarrow> distinct (map fst (dict_of key xs d))"
  by (induction xs arbitrary: d) (simp_all add: AList.distinct_update)

lemma map_of_dict_of [dict_simps]:
  "map_of (dict_of key xs d) k =
     (case find_last (\<lambda>x. key x = k) xs of None \<Rightarrow> map_of d k | Some x \<Rightarrow> Some x)"
  by (induction xs arbitrary: d)
    (auto simp: find_last_Cons AList.update_conv split: option.split)

section \<open>Strings\<close>

definition starts_with :: "string \<Rightarrow> string \<Rightarrow> bool" where
  "starts_with s p \<longleftrightarrow> take (length p) s = p"

definition ends_with :: "string \<Rightarrow> string \<Rightarrow> bool" where
  "ends_with s p \<longleftrightarrow> length p \<le> length s \<and> drop (length s - length p) s = p"

text \<open>\<open>s.split(c)\<close> for a one-character separator: always at least one part.\<close>

fun split_on :: "char \<Rightarrow> string \<Rightarrow> string list" where
  "split_on c [] = [[]]"
| "split_on c (x # xs) =
     (if x = c then [] # split_on c xs
      else case split_on c xs of [] \<Rightarrow> [[x]] | p # ps \<Rightarrow> (x # p) # ps)"

definition join :: "string \<Rightarrow> string list \<Rightarrow> string" where
  "join sep xs = (case xs of [] \<Rightarrow> [] | y # ys \<Rightarrow> y @ concat (map (\<lambda>z. sep @ z) ys))"

lemma split_on_nonempty [simp]: "split_on c xs \<noteq> []"
  by (induction xs) (auto split: list.splits)

lemma join_split_on: "join [c] (split_on c xs) = xs"
proof (induction xs)
  case Nil
  show ?case by (simp add: join_def)
next
  case (Cons x xs)
  obtain p ps where p: "split_on c xs = p # ps" by (cases "split_on c xs") auto
  with Cons.IH show ?case by (auto simp: join_def)
qed

lemma split_on_sep_free: "p \<in> set (split_on c xs) \<Longrightarrow> c \<notin> set p"
  by (induction xs arbitrary: p) (auto split: list.splits if_splits)

text \<open>\<open>str(n)\<close> of a natural number and of an integer, in decimal.\<close>

fun nat_str :: "nat \<Rightarrow> string" where
  "nat_str n = (if n < 10 then [char_of (48 + n)]
                else nat_str (n div 10) @ [char_of (48 + n mod 10)])"

declare nat_str.simps [simp del]

definition int_str :: "int \<Rightarrow> string" where
  "int_str i = (if i < 0 then ''-'' @ nat_str (nat (- i)) else nat_str (nat i))"

definition lower_char :: "char \<Rightarrow> char" where
  "lower_char c = (if 65 \<le> (of_char c :: nat) \<and> (of_char c :: nat) \<le> 90
                   then char_of ((of_char c :: nat) + 32) else c)"

definition is_digit :: "char \<Rightarrow> bool" where
  "is_digit c \<longleftrightarrow> 48 \<le> (of_char c :: nat) \<and> (of_char c :: nat) \<le> 57"

definition is_lower_hex :: "char \<Rightarrow> bool" where
  "is_lower_hex c \<longleftrightarrow> is_digit c \<or> 97 \<le> (of_char c :: nat) \<and> (of_char c :: nat) \<le> 102"

definition is_ascii_alnum :: "char \<Rightarrow> bool" where
  "is_ascii_alnum c \<longleftrightarrow> is_digit c
     \<or> 65 \<le> (of_char c :: nat) \<and> (of_char c :: nat) \<le> 90
     \<or> 97 \<le> (of_char c :: nat) \<and> (of_char c :: nat) \<le> 122"

lemma starts_with_iff: "starts_with s p \<longleftrightarrow> (\<exists>t. s = p @ t)"
  by (auto simp: starts_with_def) (metis append_take_drop_id)

lemma starts_with_append [simp]: "starts_with (p @ t) p"
  by (auto simp: starts_with_iff)

end
