(* ===== verification/Json.thy ===== *)
theory Json
  imports Prelude "HOL-Library.Multiset" Complex_Main
begin

text \<open>
  JSON values as the Python code sees them (\<open>dict\<close>, \<open>list\<close>, \<open>str\<close>, \<open>int\<close>, \<open>float\<close>, \<open>bool\<close>,
  \<open>None\<close>), dictionary access, Python's truth value and equality on them, and the compact
  key-sorted rendering \<open>json.dumps(value, sort_keys=True, separators=(",", ":"))\<close> whose SHA-256
  digest identifies every artifact. Strings are lists of code points below 256. A finite float
  is the rational it denotes.
\<close>

datatype json =
    JNull
  | JBool bool
  | JInt int
  | JFloat rat
  | JStr string
  | JArr "json list"
  | JObj "(string \<times> json) list"

type_synonym jdict = "(string \<times> json) list"

text \<open>
  What the models use of \<open>hashlib\<close> and of \<open>float.__repr__\<close>: the hex digest of a text, and the
  shortest decimal text of a float. Every definition that hashes takes this record.
\<close>

record pyenv =
  sha256 :: "string \<Rightarrow> string"
  float_repr :: "rat \<Rightarrow> string"

section \<open>Access\<close>

definition dget :: "jdict \<Rightarrow> string \<Rightarrow> json" where
  "dget d k = (case map_of d k of None \<Rightarrow> JNull | Some v \<Rightarrow> v)"

definition dindex :: "jdict \<Rightarrow> string \<Rightarrow> json result" where
  "dindex d k = (case map_of d k of None \<Rightarrow> Inl (KeyError k) | Some v \<Rightarrow> Inr v)"

fun truthy :: "json \<Rightarrow> bool" where
  "truthy JNull = False"
| "truthy (JBool b) = b"
| "truthy (JInt i) = (i \<noteq> 0)"
| "truthy (JFloat q) = (q \<noteq> 0)"
| "truthy (JStr s) = (s \<noteq> [])"
| "truthy (JArr xs) = (xs \<noteq> [])"
| "truthy (JObj kvs) = (kvs \<noteq> [])"

lemma dindex_Inr_iff: "dindex d k = Inr v \<longleftrightarrow> map_of d k = Some v"
  by (simp add: dindex_def split: option.split)

lemma dindex_dget: "dindex d k = Inr v \<Longrightarrow> dget d k = v"
  by (simp add: dindex_def dget_def split: option.splits)

section \<open>Python equality\<close>

text \<open>
  \<open>==\<close> compares numbers by value across \<open>bool\<close>, \<open>int\<close> and \<open>float\<close>, and dictionaries without
  regard to the order of their keys.
\<close>

fun py_norm :: "json \<Rightarrow> json" where
  "py_norm JNull = JNull"
| "py_norm (JBool b) = JFloat (if b then 1 else 0)"
| "py_norm (JInt i) = JFloat (of_int i)"
| "py_norm (JFloat q) = JFloat q"
| "py_norm (JStr s) = JStr s"
| "py_norm (JArr xs) = JArr (map py_norm xs)"
| "py_norm (JObj kvs) = JObj (sort_key fst (map (\<lambda>(k, v). (k, py_norm v)) kvs))"

definition py_eq :: "json \<Rightarrow> json \<Rightarrow> bool" where
  "py_eq a b \<longleftrightarrow> py_norm a = py_norm b"

lemma py_eq_equiv: "py_eq a a" "py_eq a b \<Longrightarrow> py_eq b a" "py_eq a b \<Longrightarrow> py_eq b c \<Longrightarrow> py_eq a c"
  by (simp_all add: py_eq_def)

section \<open>Canonical rendering\<close>

definition hex_digit :: "nat \<Rightarrow> char" where
  "hex_digit n = (if n < 10 then char_of (48 + n) else char_of (87 + n))"

definition escape_char :: "char \<Rightarrow> string" where
  "escape_char c = (let n = (of_char c :: nat) in
     if n = 34 then [CHR 0x5C, c]
     else if n = 92 then [CHR 0x5C, c]
     else if n = 10 then [CHR 0x5C, CHR ''n'']
     else if n = 13 then [CHR 0x5C, CHR ''r'']
     else if n = 9 then [CHR 0x5C, CHR ''t'']
     else if n = 12 then [CHR 0x5C, CHR ''f'']
     else if n = 8 then [CHR 0x5C, CHR ''b'']
     else if 32 \<le> n \<and> n \<le> 126 then [c]
     else [CHR 0x5C, CHR ''u'', CHR ''0'', CHR ''0'',
           hex_digit (n div 16), hex_digit (n mod 16)])"

definition quote :: "string \<Rightarrow> string" where
  "quote s = [CHR 0x22] @ concat (map escape_char s) @ [CHR 0x22]"

fun dumps :: "pyenv \<Rightarrow> json \<Rightarrow> string" where
  "dumps E JNull = ''null''"
| "dumps E (JBool b) = (if b then ''true'' else ''false'')"
| "dumps E (JInt i) = int_str i"
| "dumps E (JFloat q) = float_repr E q"
| "dumps E (JStr s) = quote s"
| "dumps E (JArr xs) = ''['' @ join '','' (map (dumps E) xs) @ '']''"
| "dumps E (JObj kvs) =
     ''{'' @ join '',''
       (map (\<lambda>(k, t). quote k @ '':'' @ t)
         (sort_key fst (map (\<lambda>(k, v). (k, dumps E v)) kvs))) @ ''}''"

section \<open>\<open>repr\<close> and \<open>str\<close>\<close>

definition printable :: "char \<Rightarrow> bool" where
  "printable c = (let n = (of_char c :: nat) in 32 \<le> n \<and> n \<le> 126 \<or> 161 \<le> n \<and> n \<noteq> 173)"

definition repr_char :: "char \<Rightarrow> char \<Rightarrow> string" where
  "repr_char q c = (let n = (of_char c :: nat) in
     if c = q \<or> n = 92 then [CHR 0x5C, c]
     else if n = 10 then [CHR 0x5C, CHR ''n'']
     else if n = 13 then [CHR 0x5C, CHR ''r'']
     else if n = 9 then [CHR 0x5C, CHR ''t'']
     else if printable c then [c]
     else [CHR 0x5C, CHR ''x'', hex_digit (n div 16), hex_digit (n mod 16)])"

definition repr_str :: "string \<Rightarrow> string" where
  "repr_str s = (let q = (if CHR 0x27 \<in> set s \<and> CHR 0x22 \<notin> set s then CHR 0x22 else CHR 0x27) in
     [q] @ concat (map (repr_char q) s) @ [q])"

fun py_repr :: "pyenv \<Rightarrow> json \<Rightarrow> string" where
  "py_repr E JNull = ''None''"
| "py_repr E (JBool b) = (if b then ''True'' else ''False'')"
| "py_repr E (JInt i) = int_str i"
| "py_repr E (JFloat q) = float_repr E q"
| "py_repr E (JStr s) = repr_str s"
| "py_repr E (JArr xs) = ''['' @ join '', '' (map (py_repr E) xs) @ '']''"
| "py_repr E (JObj kvs) = ''{'' @ join '', '' (map (\<lambda>(k, t). repr_str k @ '': '' @ t)
     (map (\<lambda>(k, v). (k, py_repr E v)) kvs)) @ ''}''"

fun py_str :: "pyenv \<Rightarrow> json \<Rightarrow> string" where
  "py_str E (JStr s) = s"
| "py_str E v = py_repr E v"

section \<open>Digests\<close>

text \<open>\<open>hashlib.sha256(json.dumps(content, sort_keys=True, separators=(",", ":")).encode()).hexdigest()\<close>\<close>

definition content_digest :: "pyenv \<Rightarrow> jdict \<Rightarrow> string" where
  "content_digest E c = sha256 E (dumps E (JObj c))"

text \<open>
  The digest depends on a dictionary only through its key/value associations: the order in
  which the keys were inserted is immaterial.
\<close>

lemma sort_key_distinct_mset:
  assumes "mset xs = mset ys" and "distinct (map f xs)"
  shows "sort_key f xs = sort_key f ys"
proof (rule properties_for_sort_key)
  have inj: "inj_on f (set xs)" using assms(2) by (simp add: distinct_map)
  have eq: "set ys = set xs" using mset_eq_setD [OF assms(1)] by simp
  show "mset (sort_key f ys) = mset xs" using assms(1) by simp
  show "sorted (map f (sort_key f ys))" by simp
  fix k
  assume "k \<in> set (sort_key f ys)"
  then have k: "k \<in> set xs" using eq by simp
  have only_k: "filter (\<lambda>x. f k = f x) zs = replicate (count (mset zs) k) k"
    if "set zs = set xs" for zs
  proof -
    have "filter (\<lambda>x. f k = f x) zs = filter ((=) k) zs"
      using inj k that by (intro filter_cong) (auto dest: inj_onD)
    then show ?thesis by (simp add: replicate_count_mset_eq_filter_eq)
  qed
  show "filter (\<lambda>x. f k = f x) (sort_key f ys) = filter (\<lambda>x. f k = f x) xs"
    using assms(1) eq by (simp add: only_k)
qed

lemma dumps_key_order:
  assumes "mset c = mset d" and "distinct (map fst c)"
  shows "dumps E (JObj c) = dumps E (JObj d)"
proof -
  let ?r = "\<lambda>(k, v). (k :: string, dumps E v)"
  have "mset (map ?r c) = mset (map ?r d)" using assms(1) by (simp add: mset_map)
  moreover have "distinct (map fst (map ?r c))"
    using assms(2) by (simp add: case_prod_beta comp_def)
  ultimately have "sort_key fst (map ?r c) = sort_key fst (map ?r d)"
    by (rule sort_key_distinct_mset)
  then show ?thesis by simp
qed

lemma content_digest_key_order:
  "mset c = mset d \<Longrightarrow> distinct (map fst c) \<Longrightarrow> content_digest E c = content_digest E d"
  unfolding content_digest_def by (metis dumps_key_order)

end
