(* ===== verification/Domain.thy ===== *)
theory Domain
  imports Json
begin

text \<open>
  The data model of \<open>domain/models.py\<close>: the enumerations with their wire values, the records
  that travel between the hub, its storage and the specialists, and the validators Pydantic
  runs on them. Field names carry a prefix per class (\<open>md_\<close> for \<open>ArtifactMetadata\<close>, \<open>wr_\<close> for
  \<open>WorkflowRun\<close>, \<dots>). Times are natural numbers, ordered as the ISO texts are.
\<close>

section \<open>Enumerations\<close>

datatype run_status =
  PENDING | RUNNING | INPUT_REQUIRED | COMPLETED | FAILED | CANCELED | BLOCKED

fun run_status_value :: "run_status \<Rightarrow> string" where
  "run_status_value PENDING = ''pending''"
| "run_status_value RUNNING = ''running''"
| "run_status_value INPUT_REQUIRED = ''input_required''"
| "run_status_value COMPLETED = ''completed''"
| "run_status_value FAILED = ''failed''"
| "run_status_value CANCELED = ''canceled''"
| "run_status_value BLOCKED = ''blocked''"

definition TERMINAL_RUN_STATUSES :: "run_status set" where
  "TERMINAL_RUN_STATUSES = {COMPLETED, FAILED, CANCELED, BLOCKED}"

datatype stage_name =
  PREFLIGHT | INTAKE | REQUIREMENTS | DISCOVERY | PLANNING | IMPLEMENTATION
| INTEGRATION | EVALUATION | RELEASE

fun stage_value :: "stage_name \<Rightarrow> string" where
  "stage_value PREFLIGHT = ''preflight''"
| "stage_value INTAKE = ''intake''"
| "stage_value REQUIREMENTS = ''requirements''"
| "stage_value DISCOVERY = ''discovery''"
| "stage_value PLANNING = ''planning''"
| "stage_value IMPLEMENTATION = ''implementation''"
| "stage_value INTEGRATION = ''integration''"
| "stage_value EVALUATION = ''evaluation''"
| "stage_value RELEASE = ''release''"

definition STAGE_ORDER :: "stage_name list" where
  "STAGE_ORDER = [PREFLIGHT, INTAKE, REQUIREMENTS, DISCOVERY, PLANNING, IMPLEMENTATION,
                  INTEGRATION, EVALUATION, RELEASE]"

lemma set_STAGE_ORDER [simp]: "set STAGE_ORDER = UNIV"
  by (auto simp: STAGE_ORDER_def intro: stage_name.exhaust)

lemma distinct_STAGE_ORDER [simp]: "distinct STAGE_ORDER"
  by (simp add: STAGE_ORDER_def)

text \<open>The lifecycle order of the stages as the library's linear order.\<close>

fun stage_index :: "stage_name \<Rightarrow> nat" where
  "stage_index PREFLIGHT = 0"
| "stage_index INTAKE = 1"
| "stage_index REQUIREMENTS = 2"
| "stage_index DISCOVERY = 3"
| "stage_index PLANNING = 4"
| "stage_index IMPLEMENTATION = 5"
| "stage_index INTEGRATION = 6"
| "stage_index EVALUATION = 7"
| "stage_index RELEASE = 8"

lemma stage_index_inj: "stage_index a = stage_index b \<Longrightarrow> a = b"
  by (cases a; cases b) simp_all

instantiation stage_name :: linorder
begin

definition less_eq_stage_name :: "stage_name \<Rightarrow> stage_name \<Rightarrow> bool" where
  "less_eq_stage_name a b \<longleftrightarrow> stage_index a \<le> stage_index b"

definition less_stage_name :: "stage_name \<Rightarrow> stage_name \<Rightarrow> bool" where
  "less_stage_name a b \<longleftrightarrow> stage_index a < stage_index b"

instance
  by standard (auto simp: less_eq_stage_name_def less_stage_name_def intro: stage_index_inj)

end

lemma sorted_STAGE_ORDER: "sorted STAGE_ORDER"
  by (simp add: STAGE_ORDER_def less_eq_stage_name_def)

lemma stage_value_inj: "stage_value a = stage_value b \<longleftrightarrow> a = b"
  by (cases a; cases b) simp_all

datatype artifact_kind =
  HOST_CAPABILITY_REPORT | SANDBOX_QUALIFICATION_REPORT | SANDBOX_RECOVERY_REPORT
| PROJECT_BRIEF | REQUIREMENTS_SPEC | ARCHITECTURE_DECISION | UX_SPECIFICATION
| THREAT_MODEL | TEST_PLAN | IMPLEMENTATION_PLAN | CODE_CHANGE | INTEGRATED_SOURCE
| BUILD_REPORT | TEST_REPORT | STATIC_ANALYSIS_REPORT | QUALITY_GATE_REPORT
| REPAIR_REQUEST | EVALUATION_REPORT | RELEASE_BUNDLE | HUMAN_REQUEST | HUMAN_RESPONSE

fun artifact_kind_value :: "artifact_kind \<Rightarrow> string" where
  "artifact_kind_value HOST_CAPABILITY_REPORT = ''host_capability_report''"
| "artifact_kind_value SANDBOX_QUALIFICATION_REPORT = ''sandbox_qualification_report''"
| "artifact_kind_value SANDBOX_RECOVERY_REPORT = ''sandbox_recovery_report''"
| "artifact_kind_value PROJECT_BRIEF = ''project_brief''"
| "artifact_kind_value REQUIREMENTS_SPEC = ''requirements_spec''"
| "artifact_kind_value ARCHITECTURE_DECISION = ''architecture_decision''"
| "artifact_kind_value UX_SPECIFICATION = ''ux_specification''"
| "artifact_kind_value THREAT_MODEL = ''threat_model''"
| "artifact_kind_value TEST_PLAN = ''test_plan''"
| "artifact_kind_value IMPLEMENTATION_PLAN = ''implementation_plan''"
| "artifact_kind_value CODE_CHANGE = ''code_change''"
| "artifact_kind_value INTEGRATED_SOURCE = ''integrated_source''"
| "artifact_kind_value BUILD_REPORT = ''build_report''"
| "artifact_kind_value TEST_REPORT = ''test_report''"
| "artifact_kind_value STATIC_ANALYSIS_REPORT = ''static_analysis_report''"
| "artifact_kind_value QUALITY_GATE_REPORT = ''quality_gate_report''"
| "artifact_kind_value REPAIR_REQUEST = ''repair_request''"
| "artifact_kind_value EVALUATION_REPORT = ''evaluation_report''"
| "artifact_kind_value RELEASE_BUNDLE = ''release_bundle''"
| "artifact_kind_value HUMAN_REQUEST = ''human_request''"
| "artifact_kind_value HUMAN_RESPONSE = ''human_response''"

lemma artifact_kind_value_inj: "artifact_kind_value a = artifact_kind_value b \<longleftrightarrow> a = b"
  by (cases a; cases b; simp)

datatype capability_status = PASS | WARN | FAIL | UNAVAILABLE

section \<open>Project scope\<close>

definition project_id_for_run :: "pyenv \<Rightarrow> string \<Rightarrow> string" where
  "project_id_for_run E run_id = ''project_'' @ take 32 (sha256 E run_id)"

definition resolve_project :: "pyenv \<Rightarrow> string \<Rightarrow> string \<Rightarrow> string result" where
  "resolve_project E project_id run_id =
     (let expected = project_id_for_run E run_id in
      if project_id \<noteq> [] \<and> project_id \<noteq> expected
      then Inl (ValueError ''Project identity does not match workflow run'')
      else Inr expected)"

lemma resolve_project_Inr: "resolve_project E p r = Inr q \<Longrightarrow> q = project_id_for_run E r"
  by (auto simp: resolve_project_def Let_def split: if_splits)

section \<open>Records\<close>

record capability_check =
  cc_name :: string
  cc_status :: capability_status
  cc_detail :: string
  cc_required :: bool

record host_capability_report =
  hc_generated_at :: nat
  hc_ready :: bool
  hc_degraded :: bool
  hc_os_id :: string
  hc_os_version :: string
  hc_architecture :: string
  hc_kernel :: string
  hc_checks :: "capability_check list"

record artifact_metadata =
  md_project_id :: string
  md_current_snapshot :: bool
  md_schema_version :: string
  md_artifact_id :: string
  md_kind :: artifact_kind
  md_workflow_run_id :: string
  md_stage_id :: stage_name
  md_parent_artifact_ids :: "string list"
  md_producing_agent :: string
  md_model_id :: "string option"
  md_prompt_version :: "string option"
  md_execution :: jdict
  md_created_at :: nat
  md_content_sha256 :: string

record artifact_record =
  ar_metadata :: artifact_metadata
  ar_content_path :: "string list"

text \<open>The dictionaries \<open>{"metadata": \<dots>, "content": \<dots>}\<close> that agents receive.\<close>

record artifact_view =
  av_metadata :: artifact_metadata
  av_content :: jdict

abbreviation av_kind :: "artifact_view \<Rightarrow> artifact_kind" where
  "av_kind v \<equiv> md_kind (av_metadata v)"

abbreviation av_id :: "artifact_view \<Rightarrow> string" where
  "av_id v \<equiv> md_artifact_id (av_metadata v)"

abbreviation av_producer :: "artifact_view \<Rightarrow> string" where
  "av_producer v \<equiv> md_producing_agent (av_metadata v)"

record stage_record =
  sr_name :: stage_name
  sr_status :: run_status
  sr_started_at :: "nat option"
  sr_finished_at :: "nat option"
  sr_error :: "string option"

record workflow_run =
  wr_project_id :: string
  wr_run_id :: string
  wr_idea :: string
  wr_status :: run_status
  wr_current_stage :: "stage_name option"
  wr_created_at :: nat
  wr_updated_at :: nat
  wr_error :: "string option"
  wr_stages :: "stage_record list"

record event_record =
  ev_event_id :: nat
  ev_run_id :: string
  ev_event_type :: string
  ev_payload :: jdict
  ev_created_at :: nat

record delegated_task =
  dt_invocation_id :: string
  dt_run_id :: string
  dt_stage :: stage_name
  dt_agent :: string
  dt_endpoint :: string
  dt_context_id :: string
  dt_task_id :: "string option"
  dt_state :: string
  dt_attempts :: nat
  dt_repair_attempt :: nat

record agent_context =
  cx_project_id :: string
  cx_retry_attempt :: nat
  cx_run_id :: string
  cx_idea :: string
  cx_stage :: stage_name
  cx_artifacts :: "artifact_view list"
  cx_human_response :: "jdict option"
  cx_repair_attempt :: nat
  cx_repair_feedback :: "jdict option"
  cx_repair_artifact_id :: "string option"
  cx_repair_artifact_sha256 :: "string option"

datatype prompt_kind = Clarification | Approval | Evaluation_decision

fun prompt_kind_value :: "prompt_kind \<Rightarrow> string" where
  "prompt_kind_value Clarification = ''clarification''"
| "prompt_kind_value Approval = ''approval''"
| "prompt_kind_value Evaluation_decision = ''evaluation_decision''"

datatype decision = Submit | Approve | Reject | Accept | Repair

fun decision_value :: "decision \<Rightarrow> string" where
  "decision_value Submit = ''submit''"
| "decision_value Approve = ''approve''"
| "decision_value Reject = ''reject''"
| "decision_value Accept = ''accept''"
| "decision_value Repair = ''repair''"

record human_prompt =
  hp_kind :: prompt_kind
  hp_question :: string

definition human_prompt_valid :: "human_prompt \<Rightarrow> bool" where
  "human_prompt_valid p \<longleftrightarrow> 3 \<le> length (hp_question p) \<and> length (hp_question p) \<le> 2000"

record execution_metadata =
  em_execution_id :: "string option"
  em_model_id :: string
  em_prompt_version :: string
  em_input_tokens :: "int option"
  em_output_tokens :: "int option"
  em_cost_usd :: "rat option"
  em_cost_basis :: string

record human_action =
  ha_action_id :: string
  ha_surface_id :: string
  ha_artifact_sha256 :: string
  ha_version :: int
  ha_decision :: decision
  ha_answer :: string

definition human_action_valid :: "human_action \<Rightarrow> bool" where
  "human_action_valid a \<longleftrightarrow>
     1 \<le> length (ha_action_id a) \<and> length (ha_action_id a) \<le> 100 \<and> length (ha_answer a) \<le> 4000"

text \<open>The dictionary \<open>accept_action\<close> stores in \<open>HumanInteraction.response\<close>.\<close>

record human_response =
  hr_action :: human_action
  hr_actor :: string
  hr_answered_at :: nat
  hr_decision :: decision
  hr_answer :: string
  hr_artifact_id :: string
  hr_artifact_sha256 :: string
  hr_action_id :: string

record human_interaction =
  hi_surface_id :: string
  hi_run_id :: string
  hi_stage :: stage_name
  hi_agent :: string
  hi_task_id :: string
  hi_context_id :: string
  hi_prompt :: human_prompt
  hi_artifact_id :: string
  hi_artifact_sha256 :: string
  hi_version :: int
  hi_messages :: "json list"
  hi_response :: "human_response option"

record agent_result =
  ag_artifact_kind :: artifact_kind
  ag_content :: jdict
  ag_markdown :: string
  ag_human_prompt :: "human_prompt option"
  ag_execution :: execution_metadata

record requirements_spec =
  rq_product_name :: string
  rq_functional_requirements :: "string list"
  rq_non_functional_requirements :: "string list"
  rq_acceptance_criteria :: "string list"
  rq_exclusions :: "string list"
  rq_open_questions :: "string list"

section \<open>Validation of dictionaries\<close>

text \<open>
  Pydantic's checks for the field types the models use here: a \<open>str\<close> field accepts a string
  only, a \<open>list[str]\<close> field a list of strings only; a missing field is an error.
\<close>

definition str_field :: "jdict \<Rightarrow> string \<Rightarrow> string result" where
  "str_field d k = (case map_of d k of Some (JStr s) \<Rightarrow> Inr s
     | Some _ \<Rightarrow> Inl (ValueError k) | None \<Rightarrow> Inl (ValueError k))"

fun as_str :: "json \<Rightarrow> string option" where
  "as_str (JStr s) = Some s"
| "as_str _ = None"

definition str_list_field :: "jdict \<Rightarrow> string \<Rightarrow> string list result" where
  "str_list_field d k = (case map_of d k of
       Some (JArr xs) \<Rightarrow>
         (if list_all (\<lambda>x. as_str x \<noteq> None) xs then Inr (map (the \<circ> as_str) xs)
          else Inl (ValueError k))
     | _ \<Rightarrow> Inl (ValueError k))"

definition requirements_model_validate :: "jdict \<Rightarrow> requirements_spec result" where
  "requirements_model_validate d =
     rbind (str_field d ''product_name'') (\<lambda>n.
     rbind (str_list_field d ''functional_requirements'') (\<lambda>f.
     rbind (str_list_field d ''non_functional_requirements'') (\<lambda>nf.
     rbind (str_list_field d ''acceptance_criteria'') (\<lambda>a.
     rbind (str_list_field d ''exclusions'') (\<lambda>x.
     rbind (str_list_field d ''open_questions'') (\<lambda>q.
       Inr \<lparr>rq_product_name = n, rq_functional_requirements = f,
            rq_non_functional_requirements = nf, rq_acceptance_criteria = a,
            rq_exclusions = x, rq_open_questions = q\<rparr>))))))"

section \<open>Dumping records\<close>

definition jopt :: "('a \<Rightarrow> json) \<Rightarrow> 'a option \<Rightarrow> json" where
  "jopt f x = (case x of None \<Rightarrow> JNull | Some v \<Rightarrow> f v)"

definition jstrs :: "string list \<Rightarrow> json" where
  "jstrs xs = JArr (map JStr xs)"

definition execution_dump :: "execution_metadata \<Rightarrow> jdict" where
  "execution_dump x =
    [(''execution_id'', jopt JStr (em_execution_id x)),
     (''model_id'', JStr (em_model_id x)),
     (''prompt_version'', JStr (em_prompt_version x)),
     (''input_tokens'', jopt JInt (em_input_tokens x)),
     (''output_tokens'', jopt JInt (em_output_tokens x)),
     (''cost_usd'', jopt JFloat (em_cost_usd x)),
     (''cost_basis'', JStr (em_cost_basis x))]"

definition metadata_dump :: "artifact_metadata \<Rightarrow> jdict" where
  "metadata_dump m =
    [(''project_id'', JStr (md_project_id m)),
     (''current_snapshot'', JBool (md_current_snapshot m)),
     (''schema_version'', JStr (md_schema_version m)),
     (''artifact_id'', JStr (md_artifact_id m)),
     (''kind'', JStr (artifact_kind_value (md_kind m))),
     (''workflow_run_id'', JStr (md_workflow_run_id m)),
     (''stage_id'', JStr (stage_value (md_stage_id m))),
     (''parent_artifact_ids'', jstrs (md_parent_artifact_ids m)),
     (''producing_agent'', JStr (md_producing_agent m)),
     (''model_id'', jopt JStr (md_model_id m)),
     (''prompt_version'', jopt JStr (md_prompt_version m)),
     (''execution'', JObj (md_execution m)),
     (''created_at'', JInt (int (md_created_at m))),
     (''content_sha256'', JStr (md_content_sha256 m))]"

definition view_dump :: "artifact_view \<Rightarrow> json" where
  "view_dump v = JObj [(''metadata'', JObj (metadata_dump (av_metadata v))),
                       (''content'', JObj (av_content v))]"

definition context_dump :: "agent_context \<Rightarrow> jdict" where
  "context_dump c =
    [(''project_id'', JStr (cx_project_id c)),
     (''retry_attempt'', JInt (int (cx_retry_attempt c))),
     (''run_id'', JStr (cx_run_id c)),
     (''idea'', JStr (cx_idea c)),
     (''stage'', JStr (stage_value (cx_stage c))),
     (''artifacts'', JArr (map view_dump (cx_artifacts c))),
     (''human_response'', jopt JObj (cx_human_response c)),
     (''repair_attempt'', JInt (int (cx_repair_attempt c))),
     (''repair_feedback'', jopt JObj (cx_repair_feedback c)),
     (''repair_artifact_id'', jopt JStr (cx_repair_artifact_id c)),
     (''repair_artifact_sha256'', jopt JStr (cx_repair_artifact_sha256 c))]"

definition action_dump :: "human_action \<Rightarrow> jdict" where
  "action_dump a =
    [(''action_id'', JStr (ha_action_id a)), (''surface_id'', JStr (ha_surface_id a)),
     (''artifact_sha256'', JStr (ha_artifact_sha256 a)), (''version'', JInt (ha_version a)),
     (''decision'', JStr (decision_value (ha_decision a))), (''answer'', JStr (ha_answer a))]"

definition response_dump :: "human_response \<Rightarrow> jdict" where
  "response_dump r =
    [(''action'', JObj (action_dump (hr_action r))), (''actor'', JStr (hr_actor r)),
     (''answered_at'', JInt (int (hr_answered_at r))),
     (''decision'', JStr (decision_value (hr_decision r))), (''answer'', JStr (hr_answer r)),
     (''artifact_id'', JStr (hr_artifact_id r)),
     (''artifact_sha256'', JStr (hr_artifact_sha256 r)), (''action_id'', JStr (hr_action_id r))]"

definition interaction_dump :: "human_interaction \<Rightarrow> jdict" where
  "interaction_dump i =
    [(''surface_id'', JStr (hi_surface_id i)), (''run_id'', JStr (hi_run_id i)),
     (''stage'', JStr (stage_value (hi_stage i))), (''agent'', JStr (hi_agent i)),
     (''task_id'', JStr (hi_task_id i)), (''context_id'', JStr (hi_context_id i)),
     (''prompt'', JObj [(''kind'', JStr (prompt_kind_value (hp_kind (hi_prompt i)))),
                        (''question'', JStr (hp_question (hi_prompt i)))]),
     (''artifact_id'', JStr (hi_artifact_id i)),
     (''artifact_sha256'', JStr (hi_artifact_sha256 i)), (''version'', JInt (hi_version i)),
     (''messages'', JArr (hi_messages i)),
     (''response'', jopt (JObj \<circ> response_dump) (hi_response i))]"

definition task_dump :: "delegated_task \<Rightarrow> jdict" where
  "task_dump t =
    [(''invocation_id'', JStr (dt_invocation_id t)), (''run_id'', JStr (dt_run_id t)),
     (''stage'', JStr (stage_value (dt_stage t))), (''agent'', JStr (dt_agent t)),
     (''endpoint'', JStr (dt_endpoint t)), (''context_id'', JStr (dt_context_id t)),
     (''task_id'', jopt JStr (dt_task_id t)), (''state'', JStr (dt_state t)),
     (''attempts'', JInt (int (dt_attempts t))),
     (''repair_attempt'', JInt (int (dt_repair_attempt t)))]"

lemmas dump_defs =
  execution_dump_def metadata_dump_def view_dump_def context_dump_def action_dump_def
  response_dump_def interaction_dump_def task_dump_def

end
