(* ===== verification/Snapshots.thy ===== *)
theory Snapshots
  imports Domain
begin

text \<open>
  \<open>storage/snapshots.py\<close>: which artifact kinds are kept as one current snapshot per producer,
  and which downstream kinds a new snapshot invalidates. The lemmas show that invalidation is
  the strict order of the lifecycle groups.
\<close>

definition SNAPSHOT_KINDS :: "artifact_kind list" where
  "SNAPSHOT_KINDS =
    [PROJECT_BRIEF, REQUIREMENTS_SPEC, ARCHITECTURE_DECISION, UX_SPECIFICATION, THREAT_MODEL,
     TEST_PLAN, IMPLEMENTATION_PLAN, CODE_CHANGE, INTEGRATED_SOURCE, BUILD_REPORT, TEST_REPORT,
     STATIC_ANALYSIS_REPORT, QUALITY_GATE_REPORT, EVALUATION_REPORT, RELEASE_BUNDLE]"

definition GROUPS :: "artifact_kind list list" where
  "GROUPS =
    [[PROJECT_BRIEF],
     [REQUIREMENTS_SPEC],
     [ARCHITECTURE_DECISION, UX_SPECIFICATION, THREAT_MODEL, TEST_PLAN],
     [IMPLEMENTATION_PLAN],
     [CODE_CHANGE],
     [INTEGRATED_SOURCE],
     [BUILD_REPORT, TEST_REPORT, STATIC_ANALYSIS_REPORT],
     [QUALITY_GATE_REPORT],
     [EVALUATION_REPORT],
     [RELEASE_BUNDLE]]"

text \<open>The loop of \<open>invalidated_kinds\<close>: the groups after the first one that holds the kind.\<close>

fun invalidated_from :: "artifact_kind list list \<Rightarrow> artifact_kind \<Rightarrow> artifact_kind list" where
  "invalidated_from [] kind = []"
| "invalidated_from (g # gs) kind =
     (if kind \<in> set g then concat gs else invalidated_from gs kind)"

definition invalidated_kinds :: "artifact_kind \<Rightarrow> artifact_kind list" where
  "invalidated_kinds kind = invalidated_from GROUPS kind"

section \<open>Invalidation is the order of the groups\<close>

text \<open>The position of a kind's group; kinds that are not snapshots have none.\<close>

fun group_rank :: "artifact_kind \<Rightarrow> nat option" where
  "group_rank PROJECT_BRIEF = Some 0"
| "group_rank REQUIREMENTS_SPEC = Some 1"
| "group_rank ARCHITECTURE_DECISION = Some 2"
| "group_rank UX_SPECIFICATION = Some 2"
| "group_rank THREAT_MODEL = Some 2"
| "group_rank TEST_PLAN = Some 2"
| "group_rank IMPLEMENTATION_PLAN = Some 3"
| "group_rank CODE_CHANGE = Some 4"
| "group_rank INTEGRATED_SOURCE = Some 5"
| "group_rank BUILD_REPORT = Some 6"
| "group_rank TEST_REPORT = Some 6"
| "group_rank STATIC_ANALYSIS_REPORT = Some 6"
| "group_rank QUALITY_GATE_REPORT = Some 7"
| "group_rank EVALUATION_REPORT = Some 8"
| "group_rank RELEASE_BUNDLE = Some 9"
| "group_rank _ = None"

lemma invalidated_kinds_iff:
  "j \<in> set (invalidated_kinds k) \<longleftrightarrow>
     (\<exists>a b. group_rank k = Some a \<and> group_rank j = Some b \<and> a < b)"
  by (cases k; simp add: invalidated_kinds_def GROUPS_def; cases j; simp)

lemma snapshot_kinds_rank: "k \<in> set SNAPSHOT_KINDS \<longleftrightarrow> group_rank k \<noteq> None"
  by (cases k) (simp_all add: SNAPSHOT_KINDS_def)

lemma invalidated_irrefl: "k \<notin> set (invalidated_kinds k)"
  by (simp add: invalidated_kinds_iff)

lemma invalidated_trans:
  "j \<in> set (invalidated_kinds k) \<Longrightarrow> i \<in> set (invalidated_kinds j) \<Longrightarrow> i \<in> set (invalidated_kinds k)"
  by (auto simp: invalidated_kinds_iff)

text \<open>
  Publishing a snapshot invalidates exactly the kinds of the later lifecycle groups: the
  relation is irreflexive and transitive (so no kind can invalidate itself through others), it
  relates any two snapshot kinds of different groups in one direction, and it never touches a
  kind that is kept as an individual record (decisions, human responses, host reports).
\<close>

theorem invalidation_strict_order:
  "k \<notin> set (invalidated_kinds k)
   \<and> (j \<in> set (invalidated_kinds k) \<and> i \<in> set (invalidated_kinds j)
        \<longrightarrow> i \<in> set (invalidated_kinds k))
   \<and> (j \<in> set (invalidated_kinds k) \<longrightarrow> j \<in> set SNAPSHOT_KINDS \<and> k \<in> set SNAPSHOT_KINDS)
   \<and> (j \<in> set SNAPSHOT_KINDS \<and> k \<in> set SNAPSHOT_KINDS \<and> group_rank j \<noteq> group_rank k
        \<longrightarrow> j \<in> set (invalidated_kinds k) \<or> k \<in> set (invalidated_kinds j))"
  by (intro conjI impI)
    (auto simp: invalidated_irrefl invalidated_kinds_iff snapshot_kinds_rank)

text \<open>At three kinds of three stages the order is as the lifecycle has it.\<close>

theorem invalidation_strict_order_witness:
  "TEST_REPORT \<in> set (invalidated_kinds CODE_CHANGE)
   \<and> EVALUATION_REPORT \<in> set (invalidated_kinds TEST_REPORT)
   \<and> EVALUATION_REPORT \<in> set (invalidated_kinds CODE_CHANGE)"
proof -
  have h: "TEST_REPORT \<in> set (invalidated_kinds CODE_CHANGE)"
    "EVALUATION_REPORT \<in> set (invalidated_kinds TEST_REPORT)"
    by (simp_all add: invalidated_kinds_def GROUPS_def)
  then show ?thesis
    using invalidation_strict_order [of CODE_CHANGE TEST_REPORT EVALUATION_REPORT] by blast
qed

end
