(* ===== verification/SourceBundle.thy ===== *)
theory SourceBundle
  imports Domain
begin

text \<open>
  \<open>tools/models.py\<close>: the source bundle an implementation agent may deliver, with the path rules
  that keep it inside its directory, and the same checks as the trusted worker repeats them in
  \<open>sandbox/worker.py\<close>. The lemmas show that an accepted path never leaves the directory it is
  joined to and that validation is a round trip on the dumped form.
\<close>

section \<open>Source files\<close>

record source_file =
  sf_path :: string
  sf_content :: string

text \<open>\<open>PurePosixPath(value).suffix\<close> of a name that does not start with a dot.\<close>

definition path_suffix :: "string \<Rightarrow> string" where
  "path_suffix name = (if CHR ''.'' \<in> set name
     then CHR ''.'' # rev (takeWhile (\<lambda>c. c \<noteq> CHR ''.'') (rev name)) else [])"

definition SOURCE_SUFFIXES :: "string list" where
  "SOURCE_SUFFIXES = [''.py'', ''.ts'', ''.tsx'', ''.js'', ''.jsx'', ''.mjs'', ''.json'',
                      ''.html'', ''.css'', ''.md'', ''.txt'']"

definition BUILD_DIRS :: "string list" where
  "BUILD_DIRS = [''node_modules'', ''dist'', ''__pycache__'']"

text \<open>The condition of \<open>safe_source_path\<close> without its suffix set, which the worker varies.\<close>

definition bad_path :: "string list \<Rightarrow> string \<Rightarrow> bool" where
  "bad_path suffixes value \<longleftrightarrow>
     starts_with value ''/''
     \<or> CHR 0x5C \<in> set value
     \<or> CHR '':'' \<in> set value
     \<or> CHR 0x00 \<in> set value
     \<or> list_ex (\<lambda>part. starts_with part ''.'' \<or> part = []) (split_on (CHR ''/'') value)
     \<or> path_suffix (last (split_on (CHR ''/'') value)) \<notin> set suffixes
     \<or> list_ex (\<lambda>part. part \<in> set BUILD_DIRS) (split_on (CHR ''/'') value)"

definition safe_source_path :: "string \<Rightarrow> string result" where
  "safe_source_path value =
     (if bad_path SOURCE_SUFFIXES value
      then Inl (ValueError ''Expected a relative source file path without traversal or build output'')
      else Inr value)"

fun source_file_validate :: "json \<Rightarrow> source_file result" where
  "source_file_validate (JObj d) =
     (if set (map fst d) \<noteq> {''path'', ''content''} then Inl (ValueError ''SourceFile'')
      else rbind (str_field d ''path'') (\<lambda>p.
           rbind (str_field d ''content'') (\<lambda>c.
           if length p < 1 \<or> 200 < length p \<or> 65536 < length c
           then Inl (ValueError ''SourceFile'')
           else rbind (safe_source_path p) (\<lambda>p'. Inr \<lparr>sf_path = p', sf_content = c\<rparr>))))"
| "source_file_validate _ = Inl (ValueError ''SourceFile'')"

section \<open>Source bundles\<close>

text \<open>\<open>len(text.encode())\<close>: UTF-8 takes one byte below 128 and two for the other code points here.\<close>

definition utf8_length :: "string \<Rightarrow> nat" where
  "utf8_length s = sum_list (map (\<lambda>c. if (of_char c :: nat) < 128 then 1 else 2) s)"

definition bounded_bundle :: "source_file list \<Rightarrow> source_file list result" where
  "bounded_bundle files =
     (if \<not> distinct (map sf_path files) then Inl (ValueError ''Duplicate source paths'')
      else if 262144 < sum_list (map (utf8_length \<circ> sf_content) files)
      then Inl (ValueError ''Source bundle exceeds 256 KiB'')
      else Inr files)"

definition source_bundle :: "source_file list \<Rightarrow> source_file list result" where
  "source_bundle files =
     (if length files < 1 \<or> 50 < length files then Inl (ValueError ''SourceBundle'')
      else bounded_bundle files)"

fun bundle_files :: "json \<Rightarrow> source_file list result" where
  "bundle_files (JArr xs) = traverse source_file_validate xs"
| "bundle_files _ = Inl (ValueError ''files'')"

definition source_bundle_validate :: "jdict \<Rightarrow> source_file list result" where
  "source_bundle_validate d =
     (if set (map fst d) \<noteq> {''files''} then Inl (ValueError ''SourceBundle'')
      else rbind (bundle_files (dget d ''files'')) source_bundle)"

definition source_file_dump :: "source_file \<Rightarrow> json" where
  "source_file_dump f = JObj [(''path'', JStr (sf_path f)), (''content'', JStr (sf_content f))]"

definition source_bundle_dump :: "source_file list \<Rightarrow> jdict" where
  "source_bundle_dump files = [(''files'', JArr (map source_file_dump files))]"

section \<open>The worker's own check\<close>

definition WORKER_SUFFIXES :: "string list" where
  "WORKER_SUFFIXES = [''.py'', ''.ts'', ''.tsx'', ''.js'', ''.jsx'', ''.json'', ''.html'',
                      ''.css'', ''.md'', ''.txt'']"

text \<open>
  The loop of the worker's \<open>main\<close> over the received files: 2 is its exit code for a rejected
  payload; on success every file has been written.
\<close>

fun worker_files :: "source_file list \<Rightarrow> string list \<Rightarrow> (string \<times> string) list \<Rightarrow>
    nat + (string \<times> string) list" where
  "worker_files [] seen written = Inr written"
| "worker_files (f # fs) seen written =
     (if bad_path WORKER_SUFFIXES (sf_path f) \<or> sf_path f \<in> set seen then Inl 2
      else worker_files fs (sf_path f # seen) (written @ [(sf_path f, sf_content f)]))"

definition worker_accepts :: "source_file list \<Rightarrow> nat + (string \<times> string) list" where
  "worker_accepts files =
     (if \<not> (1 \<le> length files \<and> length files \<le> 50)
         \<or> 262144 < sum_list (map (utf8_length \<circ> sf_content) files) then Inl 2
      else worker_files files [] [])"

section \<open>Accepted paths stay inside\<close>

text \<open>
  What the file system makes of a list of components: \<open>..\<close> leaves a directory, empty
  components and \<open>.\<close> stay.
\<close>

fun resolve_parts :: "string list \<Rightarrow> string list \<Rightarrow> string list" where
  "resolve_parts base [] = base"
| "resolve_parts base (p # ps) =
     (if p = ''..'' then resolve_parts (butlast base) ps
      else if p = [] \<or> p = ''.'' then resolve_parts base ps
      else resolve_parts (base @ [p]) ps)"

lemma resolve_parts_plain:
  "list_all (\<lambda>p. p \<noteq> [] \<and> \<not> starts_with p ''.'') ps \<Longrightarrow> resolve_parts base ps = base @ ps"
  by (induction ps arbitrary: base) (auto simp: starts_with_def)

lemma safe_source_path_parts:
  assumes "safe_source_path v = Inr w"
  shows "w = v" and "list_all (\<lambda>p. p \<noteq> [] \<and> \<not> starts_with p ''.'') (split_on (CHR ''/'') v)"
    and "path_suffix (last (split_on (CHR ''/'') v)) \<in> set SOURCE_SUFFIXES"
    and "list_all (\<lambda>p. p \<notin> set BUILD_DIRS) (split_on (CHR ''/'') v)"
  using assms
  by (auto simp: safe_source_path_def bad_path_def list_all_iff list_ex_iff split: if_splits)

lemma source_file_validate_path:
  "source_file_validate j = Inr f \<Longrightarrow> safe_source_path (sf_path f) = Inr (sf_path f)"
proof (cases j)
  case (JObj d)
  moreover assume "source_file_validate j = Inr f"
  ultimately obtain p c q where "safe_source_path p = Inr q" and "f = \<lparr>sf_path = q, sf_content = c\<rparr>"
    by (auto simp: rbind_eq_Inr simp del: set_map split: if_split_asm)
  then show ?thesis using safe_source_path_parts(1) [of p q] by simp
qed simp_all

lemma source_bundle_Inr:
  "source_bundle fs = Inr gs \<longleftrightarrow> gs = fs \<and> 1 \<le> length fs \<and> length fs \<le> 50
     \<and> distinct (map sf_path fs) \<and> sum_list (map (utf8_length \<circ> sf_content) fs) \<le> 262144"
  by (auto simp: source_bundle_def bounded_bundle_def Suc_le_eq)

lemma source_bundle_validate_files:
  assumes "source_bundle_validate d = Inr fs"
  shows "f \<in> set fs \<Longrightarrow> safe_source_path (sf_path f) = Inr (sf_path f)"
    and "distinct (map sf_path fs)" and "1 \<le> length fs \<and> length fs \<le> 50"
    and "sum_list (map (utf8_length \<circ> sf_content) fs) \<le> 262144"
proof -
  from assms have b: "bundle_files (dget d ''files'') = Inr fs" and s: "source_bundle fs = Inr fs"
    by (auto simp: source_bundle_validate_def rbind_eq_Inr source_bundle_Inr split: if_splits)
  from b obtain xs where "traverse source_file_validate xs = Inr fs"
    by (cases "dget d ''files''") auto
  then have "list_all2 (\<lambda>x y. source_file_validate x = Inr y) xs fs"
    by (simp add: traverse_Inr_iff)
  then show "f \<in> set fs \<Longrightarrow> safe_source_path (sf_path f) = Inr (sf_path f)"
    by (auto simp: list_all2_conv_all_nth in_set_conv_nth dest: source_file_validate_path)
  from s show "distinct (map sf_path fs)" "1 \<le> length fs \<and> length fs \<le> 50"
    "sum_list (map (utf8_length \<circ> sf_content) fs) \<le> 262144"
    by (auto simp: source_bundle_Inr)
qed

lemma accepted_path_resolves:
  "safe_source_path v = Inr v \<Longrightarrow> resolve_parts dir (split_on (CHR ''/'') v) = dir @ split_on (CHR ''/'') v"
  by (rule resolve_parts_plain) (rule safe_source_path_parts(2))

lemma split_on_inj: "split_on c a = split_on c b \<Longrightarrow> a = b"
  by (metis join_split_on)

text \<open>
  C24. Whatever directory a validated bundle is written to, every file lands strictly inside it:
  resolving the path from \<open>dir\<close> only appends components, no two files of the bundle resolve to
  the same place, and the bundle is within the count and size limits.
\<close>

theorem bundle_paths_contained:
  assumes "source_bundle_validate d = Inr fs"
  shows "(\<forall>f \<in> set fs. \<exists>ps. ps \<noteq> [] \<and> resolve_parts dir (split_on (CHR ''/'') (sf_path f)) = dir @ ps)
    \<and> distinct (map (\<lambda>f. resolve_parts dir (split_on (CHR ''/'') (sf_path f))) fs)
    \<and> length fs \<le> 50 \<and> sum_list (map (utf8_length \<circ> sf_content) fs) \<le> 262144"
proof -
  note v = source_bundle_validate_files [OF assms]
  have r: "resolve_parts dir (split_on (CHR ''/'') (sf_path f)) = dir @ split_on (CHR ''/'') (sf_path f)"
    if "f \<in> set fs" for f
    using v(1) [OF that] by (rule accepted_path_resolves)
  have "map (\<lambda>f. resolve_parts dir (split_on (CHR ''/'') (sf_path f))) fs
      = map (\<lambda>p. dir @ split_on (CHR ''/'') p) (map sf_path fs)"
    using r by simp
  moreover have "inj_on (\<lambda>p. dir @ split_on (CHR ''/'') p) (set (map sf_path fs))"
    by (rule inj_onI) (simp add: split_on_inj)
  ultimately have "distinct (map (\<lambda>f. resolve_parts dir (split_on (CHR ''/'') (sf_path f))) fs)"
    using v(2) by (simp only: distinct_map simp_thms)
  with r v show ?thesis by (metis split_on_nonempty)
qed

text \<open>A small bundle of one file, used by the witnesses.\<close>

definition tiny_bundle :: "source_file list" where
  "tiny_bundle = [\<lparr>sf_path = ''backend/api.py'', sf_content = ''x = 1''\<rparr>]"

lemmas bundle_eval = source_bundle_validate_def source_bundle_dump_def source_file_dump_def
  source_bundle_def bounded_bundle_def dget_def str_field_def safe_source_path_def bad_path_def
  starts_with_def path_suffix_def SOURCE_SUFFIXES_def BUILD_DIRS_def utf8_length_def

lemma tiny_bundle_validates: "source_bundle_validate (source_bundle_dump tiny_bundle) = Inr tiny_bundle"
  by (simp add: bundle_eval tiny_bundle_def)

theorem bundle_paths_contained_witness:
  "resolve_parts [''workspace''] (split_on (CHR ''/'') ''backend/api.py'')
     = [''workspace'', ''backend'', ''api.py'']
   \<and> (\<exists>ps. ps \<noteq> [] \<and> [''workspace'', ''backend'', ''api.py''] = [''workspace''] @ ps)"
  using bundle_paths_contained [OF tiny_bundle_validates, of "[''workspace'']"]
  by (auto simp: tiny_bundle_def starts_with_def)

section \<open>Round trip\<close>

lemma source_file_validate_dump:
  assumes "safe_source_path (sf_path f) = Inr (sf_path f)"
    and "1 \<le> length (sf_path f)" "length (sf_path f) \<le> 200" "length (sf_content f) \<le> 65536"
  shows "source_file_validate (source_file_dump f) = Inr f"
  using assms by (auto simp: source_file_dump_def str_field_def)

lemma bundle_validate_dump:
  assumes "1 \<le> length fs \<and> length fs \<le> 50 \<and> distinct (map sf_path fs)
      \<and> sum_list (map (utf8_length \<circ> sf_content) fs) \<le> 262144"
    and "list_all (\<lambda>f. safe_source_path (sf_path f) = Inr (sf_path f) \<and> 1 \<le> length (sf_path f)
           \<and> length (sf_path f) \<le> 200 \<and> length (sf_content f) \<le> 65536) fs"
  shows "source_bundle_validate (source_bundle_dump fs) = Inr fs"
proof -
  have "traverse source_file_validate (map source_file_dump fs) = Inr fs"
    using assms(2)
    by (auto simp: traverse_Inr_iff list_all2_conv_all_nth list_all_length
        intro!: source_file_validate_dump)
  with assms(1) show ?thesis
    by (simp add: source_bundle_validate_def source_bundle_dump_def dget_def source_bundle_Inr)
qed

text \<open>
  C26. Validating the dumped form of a bundle gives the bundle back, exactly when the bundle is one
  the validator could have produced: the hub re-validates every stored bundle without loss.
\<close>

theorem bundle_round_trip:
  "source_bundle_validate (source_bundle_dump fs) = Inr fs \<longleftrightarrow>
     (1 \<le> length fs \<and> length fs \<le> 50 \<and> distinct (map sf_path fs)
      \<and> sum_list (map (utf8_length \<circ> sf_content) fs) \<le> 262144
      \<and> list_all (\<lambda>f. safe_source_path (sf_path f) = Inr (sf_path f) \<and> 1 \<le> length (sf_path f)
           \<and> length (sf_path f) \<le> 200 \<and> length (sf_content f) \<le> 65536) fs)"
    (is "?L \<longleftrightarrow> ?R")
proof
  assume ?R
  then show ?L using bundle_validate_dump by blast
next
  assume L: ?L
  then have "list_all2 (\<lambda>x y. source_file_validate x = Inr y) (map source_file_dump fs) fs"
    and s: "source_bundle fs = Inr fs"
    by (auto simp: source_bundle_validate_def source_bundle_dump_def dget_def rbind_eq_Inr
        source_bundle_Inr traverse_Inr_iff)
  then have v: "source_file_validate (source_file_dump f) = Inr f" if "f \<in> set fs" for f
    using that by (auto simp: list_all2_conv_all_nth in_set_conv_nth)
  have "1 \<le> length (sf_path f) \<and> length (sf_path f) \<le> 200 \<and> length (sf_content f) \<le> 65536"
    if "f \<in> set fs" for f
    using v [OF that]
    by (simp add: source_file_dump_def str_field_def Suc_le_eq not_less split: if_split_asm)
  with s source_bundle_validate_files(1) [OF L] show ?R
    by (auto simp: source_bundle_Inr list_all_iff)
qed

section \<open>The worker agrees, except on one suffix\<close>

lemma worker_files_ok:
  "list_all (\<lambda>f. \<not> bad_path WORKER_SUFFIXES (sf_path f)) fs \<Longrightarrow> distinct (map sf_path fs) \<Longrightarrow>
   set seen \<inter> set (map sf_path fs) = {} \<Longrightarrow>
   worker_files fs seen written = Inr (written @ map (\<lambda>f. (sf_path f, sf_content f)) fs)"
  by (induction fs arbitrary: seen written) auto

lemma bad_path_worker:
  "bad_path WORKER_SUFFIXES p \<longleftrightarrow>
     bad_path SOURCE_SUFFIXES p \<or> path_suffix (last (split_on (CHR ''/'') p)) = ''.mjs''"
  by (auto simp: bad_path_def WORKER_SUFFIXES_def SOURCE_SUFFIXES_def)

text \<open>
  The trusted worker writes out every bundle the hub validated, file by file and unchanged,
  provided no file is an \<open>.mjs\<close> module; with such a file the worker rejects the whole payload with
  exit code 2 although the hub's validator admits the suffix.
\<close>

theorem worker_accepts_validated:
  assumes "source_bundle_validate d = Inr fs"
  shows "worker_accepts fs =
     (if list_ex (\<lambda>f. path_suffix (last (split_on (CHR ''/'') (sf_path f))) = ''.mjs'') fs then Inl 2
      else Inr (map (\<lambda>f. (sf_path f, sf_content f)) fs))"
proof -
  note v = source_bundle_validate_files [OF assms]
  have hub: "\<not> bad_path SOURCE_SUFFIXES (sf_path f)" if "f \<in> set fs" for f
    using v(1) [OF that] by (auto simp: safe_source_path_def split: if_splits)
  have size: "worker_accepts fs = worker_files fs [] []"
    using v(3,4) by (simp add: worker_accepts_def)
  have rejects: "worker_files gs seen written = Inl 2"
    if "list_ex (\<lambda>f. bad_path WORKER_SUFFIXES (sf_path f)) gs" for gs seen written
    using that by (induction gs arbitrary: seen written) auto
  show ?thesis
  proof (cases "list_ex (\<lambda>f. bad_path WORKER_SUFFIXES (sf_path f)) fs")
    case True
    then have "list_ex (\<lambda>f. path_suffix (last (split_on (CHR ''/'') (sf_path f))) = ''.mjs'') fs"
      using hub by (auto simp: list_ex_iff bad_path_worker)
    with True show ?thesis by (simp add: size rejects)
  next
    case False
    then have "\<not> list_ex (\<lambda>f. path_suffix (last (split_on (CHR ''/'') (sf_path f))) = ''.mjs'') fs"
      by (auto simp: list_ex_iff bad_path_worker)
    moreover have "worker_files fs [] [] = Inr ([] @ map (\<lambda>f. (sf_path f, sf_content f)) fs)"
      using False v(2) by (intro worker_files_ok) (auto simp: list_ex_iff list_all_iff)
    ultimately show ?thesis by (simp add: size)
  qed
qed

definition mjs_bundle :: "source_file list" where
  "mjs_bundle = [\<lparr>sf_path = ''ui/src/util.mjs'', sf_content = ''export {}''\<rparr>]"

lemma mjs_bundle_validates: "source_bundle_validate (source_bundle_dump mjs_bundle) = Inr mjs_bundle"
  by (simp add: bundle_eval mjs_bundle_def)

theorem worker_accepts_validated_witness:
  "worker_accepts tiny_bundle = Inr [(''backend/api.py'', ''x = 1'')]
   \<and> worker_accepts mjs_bundle = Inl 2"
  using worker_accepts_validated [OF tiny_bundle_validates]
    worker_accepts_validated [OF mjs_bundle_validates]
  by (simp add: tiny_bundle_def mjs_bundle_def path_suffix_def)

end
