(* ===== verification/Storage.thy ===== *)
theory Storage
  imports Snapshots SourceBundle
begin

text \<open>
  \<open>storage/artifacts.py\<close>: the artifact store. A project directory holds one directory per current
  snapshot (\<open>current/stage/producer/kind\<close>) and one per immutable record
  (\<open>records/stage/artifact_id\<close>), each with its content, rendering and manifest. Directories are
  the values of a finite-support map from path components; the project lock makes each
  operation atomic, so an operation is one function of the store. Writes that the host fails
  (full disk) are outside the model.
\<close>

section \<open>State\<close>

record artifact_dir =
  ad_content :: "jdict option"
  ad_markdown :: "string option"
  ad_manifest :: "artifact_metadata option"
  ad_source :: "(string \<times> string) list option"

record store =
  st_root :: "string list"
  st_dirs :: "string list \<Rightarrow> artifact_dir option"
  st_descriptors :: "string list \<Rightarrow> jdict option"

definition empty_store :: "string list \<Rightarrow> store" where
  "empty_store root_path = \<lparr>st_root = root_path, st_dirs = Map.empty, st_descriptors = Map.empty\<rparr>"

definition project_path :: "pyenv \<Rightarrow> store \<Rightarrow> string \<Rightarrow> string list" where
  "project_path E st run_id = st_root st @ [''projects'', project_id_for_run E run_id]"

definition initialize_project :: "pyenv \<Rightarrow> string \<Rightarrow> string \<Rightarrow> store \<Rightarrow> store" where
  "initialize_project E run_id idea st =
     st\<lparr>st_descriptors := (st_descriptors st)(project_path E st run_id \<mapsto>
        [(''project_id'', JStr (project_id_for_run E run_id)), (''run_id'', JStr run_id),
         (''idea'', JStr idea)])\<rparr>"

section \<open>Writing\<close>

text \<open>The keyword arguments of \<open>ArtifactStore.write\<close> (here \<open>write_artifact\<close>).\<close>

record write_request =
  wq_run_id :: string
  wq_stage :: stage_name
  wq_kind :: artifact_kind
  wq_producing_agent :: string
  wq_content :: jdict
  wq_markdown :: string
  wq_parent_artifact_ids :: "string list"
  wq_model_id :: "string option"
  wq_prompt_version :: string
  wq_execution :: jdict

definition safe_producer :: "string \<Rightarrow> bool" where
  "safe_producer s \<longleftrightarrow>
     s \<noteq> [] \<and> list_all (\<lambda>c. is_ascii_alnum c \<or> c = CHR ''_'' \<or> c = CHR ''-'') s"

definition is_snapshot :: "artifact_kind \<Rightarrow> string \<Rightarrow> bool" where
  "is_snapshot kind producing_agent \<longleftrightarrow>
     kind \<in> set SNAPSHOT_KINDS \<and> producing_agent \<noteq> ''trusted-sandbox-service''"

definition is_space :: "char \<Rightarrow> bool" where
  "is_space c = (let n = (of_char c :: nat) in
     9 \<le> n \<and> n \<le> 13 \<or> 28 \<le> n \<and> n \<le> 32 \<or> n = 133 \<or> n = 160)"

definition rstrip :: "string \<Rightarrow> string" where
  "rstrip s = rev (dropWhile is_space (rev s))"

definition release_source :: "write_request \<Rightarrow> source_file list option result" where
  "release_source q =
     (case map_of (wq_content q) ''files'' of
        Some files \<Rightarrow> (if wq_kind q = RELEASE_BUNDLE
           then rbind (source_bundle_validate [(''files'', files)]) (\<lambda>fs. Inr (Some fs))
           else Inr None)
      | None \<Rightarrow> Inr None)"

definition make_metadata :: "pyenv \<Rightarrow> string \<Rightarrow> nat \<Rightarrow> write_request \<Rightarrow> artifact_metadata" where
  "make_metadata E uid now q =
     \<lparr>md_project_id = project_id_for_run E (wq_run_id q),
      md_current_snapshot = is_snapshot (wq_kind q) (wq_producing_agent q),
      md_schema_version = ''1.0'',
      md_artifact_id = ''art_'' @ uid,
      md_kind = wq_kind q,
      md_workflow_run_id = wq_run_id q,
      md_stage_id = wq_stage q,
      md_parent_artifact_ids = wq_parent_artifact_ids q,
      md_producing_agent = wq_producing_agent q,
      md_model_id = wq_model_id q,
      md_prompt_version = Some (wq_prompt_version q),
      md_execution = wq_execution q,
      md_created_at = now,
      md_content_sha256 = content_digest E (wq_content q)\<rparr>"

definition destination :: "pyenv \<Rightarrow> store \<Rightarrow> artifact_metadata \<Rightarrow> string list" where
  "destination E st m =
     (let project = project_path E st (md_workflow_run_id m) in
      if md_current_snapshot m
      then project @ [''current'', stage_value (md_stage_id m), md_producing_agent m,
                      artifact_kind_value (md_kind m)]
      else project @ [''records'', stage_value (md_stage_id m), md_artifact_id m])"

text \<open>\<open>(project / "current").glob("*/*/*/manifest.json")\<close> and the removal of what it finds.\<close>

definition in_current :: "string list \<Rightarrow> string list \<Rightarrow> bool" where
  "in_current project p \<longleftrightarrow>
     length p = length project + 4 \<and> take (length project) p = project
     \<and> p ! length project = ''current''"

definition manifest_kind :: "artifact_dir option \<Rightarrow> artifact_kind option" where
  "manifest_kind d = Option.bind d (\<lambda>d. map_option md_kind (ad_manifest d))"

definition remove_invalidated :: "string list \<Rightarrow> artifact_kind list \<Rightarrow>
    (string list \<Rightarrow> artifact_dir option) \<Rightarrow> string list \<Rightarrow> artifact_dir option" where
  "remove_invalidated project kinds dirs p =
     (if in_current project p \<and> (case manifest_kind (dirs p) of None \<Rightarrow> False
                                 | Some k \<Rightarrow> k \<in> set kinds)
      then None else dirs p)"

text \<open>
  A file written with \<open>json.dumps(\<dots>, sort_keys=True)\<close> and loaded again has its keys sorted.
\<close>

fun jsort :: "json \<Rightarrow> json" where
  "jsort (JArr xs) = JArr (map jsort xs)"
| "jsort (JObj kvs) = JObj (sort_key fst (map (\<lambda>(k, v). (k, jsort v)) kvs))"
| "jsort j = j"

definition dsort :: "jdict \<Rightarrow> jdict" where
  "dsort d = sort_key fst (map (\<lambda>(k, v). (k, jsort v)) d)"

definition empty_dir :: artifact_dir where
  "empty_dir = \<lparr>ad_content = None, ad_markdown = None, ad_manifest = None, ad_source = None\<rparr>"

definition write_artifact :: "pyenv \<Rightarrow> string \<Rightarrow> nat \<Rightarrow> write_request \<Rightarrow> store \<Rightarrow>
    artifact_record result \<times> store" where
  "write_artifact E uid now q st =
     (if \<not> safe_producer (wq_producing_agent q)
      then (Inl (ValueError ''Unsafe artifact producer''), st)
      else case release_source q of
        Inl e \<Rightarrow> (Inl e, st)
      | Inr source \<Rightarrow>
          let metadata = make_metadata E uid now q;
              project = project_path E st (wq_run_id q);
              dest = destination E st metadata;
              dirs = (if md_current_snapshot metadata
                      then remove_invalidated project (invalidated_kinds (wq_kind q)) (st_dirs st)
                      else st_dirs st);
              old = (case dirs dest of None \<Rightarrow> empty_dir | Some d \<Rightarrow> d);
              new = old\<lparr>ad_content := Some (dsort (wq_content q)),
                        ad_markdown := Some (rstrip (wq_markdown q) @ [CHR 0x0A]),
                        ad_manifest := Some metadata,
                        ad_source := (case source of None \<Rightarrow> ad_source old
                          | Some fs \<Rightarrow> Some (map (\<lambda>f. (sf_path f, sf_content f)) fs))\<rparr>;
              st' = st\<lparr>st_dirs := dirs(dest \<mapsto> new)\<rparr>;
              identity = (case st_descriptors st project of Some i \<Rightarrow> i
                | None \<Rightarrow> [(''project_id'', JStr (md_project_id metadata)),
                           (''run_id'', JStr (wq_run_id q))]);
              st'' = (if wq_kind q = PROJECT_BRIEF
                then st'\<lparr>st_descriptors := (st_descriptors st)(project \<mapsto>
                  dict_set ''scope_sha256'' (JStr (md_content_sha256 metadata))
                    (dict_set ''scope_path''
                       (JStr (join ''/'' (drop (length project) dest)))
                      (dict_set ''scope_artifact_id'' (JStr (md_artifact_id metadata)) identity)))\<rparr>
                else st')
          in (Inr \<lparr>ar_metadata = metadata, ar_content_path = dest\<rparr>, st''))"

section \<open>Reading\<close>

definition read_content :: "pyenv \<Rightarrow> store \<Rightarrow> artifact_record \<Rightarrow> jdict result" where
  "read_content E st record' =
     (let m = ar_metadata record' in
      case st_dirs st (ar_content_path record') of
        None \<Rightarrow> Inl (OSError ''content.json'')
      | Some d \<Rightarrow>
          if (case ad_manifest d of None \<Rightarrow> False
              | Some stored \<Rightarrow> md_artifact_id stored \<noteq> md_artifact_id m)
          then Inl (ValueError (''Artifact snapshot superseded: '' @ md_artifact_id m))
          else case ad_content d of
            None \<Rightarrow> Inl (OSError ''content.json'')
          | Some content \<Rightarrow>
              if content_digest E content \<noteq> md_content_sha256 m
              then Inl (ValueError (''Artifact integrity check failed: '' @ md_artifact_id m))
              else Inr content)"

section \<open>Sorting keys does not change the digest\<close>

lemma insort_key_map:
  "insort_key fst (k, g v) (map (\<lambda>(k, v). (k, g v)) xs) = map (\<lambda>(k, v). (k, g v)) (insort_key fst (k, v) xs)"
  by (induction xs) auto

lemma sort_key_map_snd:
  "sort_key fst (map (\<lambda>(k, v). (k, g v)) xs) = map (\<lambda>(k, v). (k, g v)) (sort_key fst xs)"
  by (induction xs) (auto simp: insort_key_map)

lemma dumps_jsort: "dumps E (jsort j) = dumps E j"
proof (induction j)
  case (JArr xs)
  then have "map (dumps E) (map jsort xs) = map (dumps E) xs" by simp
  then show ?case by (metis dumps.simps(6) jsort.simps(1))
next
  case (JObj kvs)
  then have step: "map (\<lambda>(k, v). (k, dumps E v)) (map (\<lambda>(k, v). (k, jsort v)) kvs)
      = map (\<lambda>(k, v). (k, dumps E v)) kvs"
    by auto
  have "sort_key fst (map (\<lambda>(k, v). (k, dumps E v)) (sort_key fst (map (\<lambda>(k, v). (k, jsort v)) kvs)))
      = map (\<lambda>(k, v). (k, dumps E v)) (sort_key fst (map (\<lambda>(k, v). (k, jsort v)) kvs))"
    by (simp only: sort_key_map_snd sort_key_id_if_sorted sorted_sort_key)
  also have "\<dots> = sort_key fst (map (\<lambda>(k, v). (k, dumps E v)) kvs)"
    by (simp only: sort_key_map_snd [symmetric] step)
  finally show ?case by (simp only: jsort.simps dumps.simps)
qed simp_all

lemma content_digest_dsort [simp]: "content_digest E (dsort c) = content_digest E c"
  using dumps_jsort [of E "JObj c"] by (simp add: content_digest_def dsort_def)

section \<open>Laws of the store\<close>

lemma make_metadata_simps [simp]:
  "md_project_id (make_metadata E uid now q) = project_id_for_run E (wq_run_id q)"
  "md_current_snapshot (make_metadata E uid now q) = is_snapshot (wq_kind q) (wq_producing_agent q)"
  "md_artifact_id (make_metadata E uid now q) = ''art_'' @ uid"
  "md_kind (make_metadata E uid now q) = wq_kind q"
  "md_workflow_run_id (make_metadata E uid now q) = wq_run_id q"
  "md_stage_id (make_metadata E uid now q) = wq_stage q"
  "md_parent_artifact_ids (make_metadata E uid now q) = wq_parent_artifact_ids q"
  "md_producing_agent (make_metadata E uid now q) = wq_producing_agent q"
  "md_execution (make_metadata E uid now q) = wq_execution q"
  "md_created_at (make_metadata E uid now q) = now"
  "md_content_sha256 (make_metadata E uid now q) = content_digest E (wq_content q)"
  by (simp_all add: make_metadata_def)

lemma write_artifact_metadata:
  assumes "write_artifact E uid now q st = (Inr r, st')"
  shows "ar_metadata r = make_metadata E uid now q"
    and "ar_content_path r = destination E st (make_metadata E uid now q)"
  using assms by (auto simp: write_artifact_def Let_def split: if_splits sum.splits)

lemma write_artifact_error: "write_artifact E uid now q st = (Inl e, st') \<Longrightarrow> st' = st"
  by (auto simp: write_artifact_def Let_def split: if_splits sum.splits)

lemma write_artifact_root: "write_artifact E uid now q st = (r, st') \<Longrightarrow> st_root st' = st_root st"
  by (auto simp: write_artifact_def Let_def split: if_splits sum.splits)

lemma write_artifact_dirs_dest:
  assumes "write_artifact E uid now q st = (Inr r, st')"
  shows "\<exists>d. st_dirs st' (ar_content_path r) = Some d \<and> ad_manifest d = Some (ar_metadata r)
    \<and> ad_content d = Some (dsort (wq_content q))"
  using assms by (auto simp: write_artifact_def Let_def split: if_splits sum.splits)

lemma write_artifact_dirs_other:
  assumes "write_artifact E uid now q st = (Inr r, st')" and "p \<noteq> ar_content_path r"
  shows "st_dirs st' p =
    (if is_snapshot (wq_kind q) (wq_producing_agent q)
     then remove_invalidated (project_path E st (wq_run_id q)) (invalidated_kinds (wq_kind q)) (st_dirs st) p
     else st_dirs st p)"
  using assms
  by (auto simp: write_artifact_def Let_def split: if_splits sum.splits)

lemma read_written:
  assumes "write_artifact E uid now q st = (Inr r, st')"
  shows "read_content E st' r = Inr (dsort (wq_content q))"
proof -
  obtain d where "st_dirs st' (ar_content_path r) = Some d" "ad_manifest d = Some (ar_metadata r)"
    "ad_content d = Some (dsort (wq_content q))"
    using write_artifact_dirs_dest [OF assms] by blast
  moreover have "md_content_sha256 (ar_metadata r) = content_digest E (wq_content q)"
    using write_artifact_metadata(1) [OF assms] by simp
  ultimately show ?thesis by (simp add: read_content_def Let_def)
qed

text \<open>A record is linked when it lies where its metadata says and the directory's manifest is its own.\<close>

definition linked :: "pyenv \<Rightarrow> store \<Rightarrow> artifact_record \<Rightarrow> bool" where
  "linked E st r \<longleftrightarrow> ar_content_path r = destination E st (ar_metadata r)
     \<and> (\<exists>d c. st_dirs st (ar_content_path r) = Some d \<and> ad_manifest d = Some (ar_metadata r)
          \<and> ad_content d = Some c \<and> content_digest E c = md_content_sha256 (ar_metadata r))"

lemma read_content_digest:
  "read_content E st r = Inr content \<Longrightarrow> content_digest E content = md_content_sha256 (ar_metadata r)"
  by (auto simp: read_content_def Let_def split: option.splits if_splits)

lemma linked_readable: "linked E st r \<Longrightarrow> \<exists>c. read_content E st r = Inr c"
  unfolding linked_def by (elim conjE exE) (simp add: read_content_def)

text \<open>Which indexed records a write displaces.\<close>

definition displaces :: "pyenv \<Rightarrow> artifact_metadata \<Rightarrow> artifact_metadata \<Rightarrow> bool" where
  "displaces E new old \<longleftrightarrow> md_workflow_run_id old = md_workflow_run_id new \<and> md_current_snapshot new \<and>
     (md_kind old = md_kind new \<and> md_producing_agent old = md_producing_agent new
      \<or> md_current_snapshot old \<and> md_kind old \<in> set (invalidated_kinds (md_kind new)))"

lemma project_path_eq: "st_root st' = st_root st \<Longrightarrow> project_path E st' r = project_path E st r"
  by (simp add: project_path_def)

lemma destination_eq: "st_root st' = st_root st \<Longrightarrow> destination E st' m = destination E st m"
  by (simp add: destination_def project_path_def)

lemma length_project_path [simp]: "length (project_path E st r) = length (st_root st) + 2"
  by (simp add: project_path_def)

lemma in_current_destination:
  "in_current (project_path E st run) (destination E st m) \<longleftrightarrow>
     md_current_snapshot m \<and> project_id_for_run E (md_workflow_run_id m) = project_id_for_run E run"
  by (auto simp: in_current_def destination_def Let_def project_path_def nth_append)

lemma destination_inj:
  assumes "destination E st m = destination E st m'"
  shows "md_current_snapshot m = md_current_snapshot m'
    \<and> project_id_for_run E (md_workflow_run_id m) = project_id_for_run E (md_workflow_run_id m')
    \<and> (md_current_snapshot m \<longrightarrow> md_stage_id m = md_stage_id m' \<and> md_producing_agent m = md_producing_agent m'
        \<and> md_kind m = md_kind m')
    \<and> (\<not> md_current_snapshot m \<longrightarrow> md_artifact_id m = md_artifact_id m')"
  using assms
  by (auto simp: destination_def Let_def project_path_def stage_value_inj artifact_kind_value_inj
      split: if_splits)


text \<open>The step that keeps an indexed record in place: it is neither overwritten nor purged.\<close>

lemma linked_preserved:
  assumes w: "write_artifact E uid now q st = (Inr r', st')"
    and l: "linked E st r" and keep: "\<not> displaces E (ar_metadata r') (ar_metadata r)"
    and run: "project_id_for_run E (md_workflow_run_id (ar_metadata r))
        = project_id_for_run E (wq_run_id q) \<longrightarrow> md_workflow_run_id (ar_metadata r) = wq_run_id q"
    and fresh: "md_artifact_id (ar_metadata r) \<noteq> ''art_'' @ uid"
  shows "linked E st' r"
proof -
  let ?m = "ar_metadata r" and ?n = "make_metadata E uid now q"
  have r': "ar_metadata r' = ?n" "ar_content_path r' = destination E st ?n"
    using write_artifact_metadata [OF w] by simp_all
  have root: "st_root st' = st_root st" using write_artifact_root [OF w] .
  have path: "ar_content_path r = destination E st ?m" using l by (simp add: linked_def)
  have other: "ar_content_path r \<noteq> ar_content_path r'"
  proof
    assume "ar_content_path r = ar_content_path r'"
    then have "destination E st ?m = destination E st ?n" using path r' by simp
    from destination_inj [OF this] keep run fresh r'(1) show False
      by (auto simp: displaces_def)
  qed
  have same: "st_dirs st' (ar_content_path r) = st_dirs st (ar_content_path r)"
  proof (cases "is_snapshot (wq_kind q) (wq_producing_agent q)")
    case True
    have "manifest_kind (st_dirs st (ar_content_path r)) = Some (md_kind ?m)"
      using l by (auto simp: linked_def manifest_kind_def)
    moreover have "\<not> (in_current (project_path E st (wq_run_id q)) (ar_content_path r)
        \<and> md_kind ?m \<in> set (invalidated_kinds (wq_kind q)))"
      using keep run r'(1) True path by (auto simp: in_current_destination displaces_def)
    ultimately show ?thesis
      using True by (auto simp: write_artifact_dirs_other [OF w other] remove_invalidated_def)
  next
    case False
    then show ?thesis by (simp add: write_artifact_dirs_other [OF w other])
  qed
  with l show ?thesis unfolding linked_def destination_eq [OF root] by (elim conjE) simp
qed

lemma linked_written:
  assumes w: "write_artifact E uid now q st = (Inr r, st')"
  shows "linked E st' r"
proof -
  have "md_content_sha256 (ar_metadata r) = content_digest E (wq_content q)"
    "ar_content_path r = destination E st (ar_metadata r)"
    using write_artifact_metadata [OF w] by (simp_all add:)
  with write_artifact_dirs_dest [OF w] show ?thesis
    by (auto simp: linked_def destination_eq [OF write_artifact_root [OF w]])
qed

lemma linked_read: "linked E st r \<Longrightarrow> st_dirs st' (ar_content_path r) = st_dirs st (ar_content_path r)
   \<Longrightarrow> read_content E st' r = read_content E st r"
  by (simp add: read_content_def)


text \<open>
  What a reader of a published artifact gets. A record read right after it was published
  returns its content (with sorted keys). After a second publication of the same project, the
  first record is refused as superseded if it occupied the same snapshot slot, is gone if its
  kind was invalidated, and still returns its own content otherwise: no reader ever receives
  content other than the one its record was published with.
\<close>

theorem published_content_stable:
  assumes w1: "write_artifact E uid1 t1 q1 st = (Inr r1, st1)"
    and w2: "write_artifact E uid2 t2 q2 st1 = (Inr r2, st2)"
    and ids: "uid1 \<noteq> uid2" and run: "wq_run_id q2 = wq_run_id q1"
  shows "read_content E st1 r1 = Inr (dsort (wq_content q1))
    \<and> read_content E st2 r2 = Inr (dsort (wq_content q2))
    \<and> read_content E st2 r1 =
       (if ar_content_path r1 = ar_content_path r2
        then Inl (ValueError (''Artifact snapshot superseded: art_'' @ uid1))
        else if is_snapshot (wq_kind q1) (wq_producing_agent q1)
             \<and> is_snapshot (wq_kind q2) (wq_producing_agent q2)
             \<and> wq_kind q1 \<in> set (invalidated_kinds (wq_kind q2))
        then Inl (OSError ''content.json'')
        else Inr (dsort (wq_content q1)))"
proof -
  note m1 = write_artifact_metadata [OF w1] and m2 = write_artifact_metadata [OF w2]
  obtain d1 where d1: "st_dirs st1 (ar_content_path r1) = Some d1" "ad_manifest d1 = Some (ar_metadata r1)"
    using write_artifact_dirs_dest [OF w1] by blast
  obtain d2 where d2: "st_dirs st2 (ar_content_path r2) = Some d2" "ad_manifest d2 = Some (ar_metadata r2)"
    using write_artifact_dirs_dest [OF w2] by blast
  have read1: "read_content E st1 r1 = Inr (dsort (wq_content q1))"
    and read2: "read_content E st2 r2 = Inr (dsort (wq_content q2))"
    using read_written [OF w1] read_written [OF w2] by simp_all
  have path1: "ar_content_path r1 = destination E st1 (make_metadata E uid1 t1 q1)"
    using m1 by (simp add: destination_eq [OF write_artifact_root [OF w1]])
  have cur: "in_current (project_path E st1 (wq_run_id q2)) (ar_content_path r1)
      \<longleftrightarrow> is_snapshot (wq_kind q1) (wq_producing_agent q1)"
    unfolding path1 in_current_destination using run by simp
  have kind1: "manifest_kind (st_dirs st1 (ar_content_path r1)) = Some (wq_kind q1)"
    using d1 m1 by (simp add: manifest_kind_def)
  have "read_content E st2 r1 =
       (if ar_content_path r1 = ar_content_path r2
        then Inl (ValueError (''Artifact snapshot superseded: art_'' @ uid1))
        else if is_snapshot (wq_kind q1) (wq_producing_agent q1)
             \<and> is_snapshot (wq_kind q2) (wq_producing_agent q2)
             \<and> wq_kind q1 \<in> set (invalidated_kinds (wq_kind q2))
        then Inl (OSError ''content.json'')
        else Inr (dsort (wq_content q1)))" (is "_ = ?R")
  proof (cases "ar_content_path r1 = ar_content_path r2")
    case True
    with d2 m1 m2 ids show ?thesis by (simp add: read_content_def)
  next
    case False
    note other = write_artifact_dirs_other [OF w2 False]
    show ?thesis
    proof (cases "is_snapshot (wq_kind q1) (wq_producing_agent q1)
        \<and> is_snapshot (wq_kind q2) (wq_producing_agent q2)
        \<and> wq_kind q1 \<in> set (invalidated_kinds (wq_kind q2))")
      case True
      with False other cur kind1 have "st_dirs st2 (ar_content_path r1) = None"
        by (simp add: remove_invalidated_def)
      with True False show ?thesis by (simp add: read_content_def)
    next
      case keep: False
      then have "st_dirs st2 (ar_content_path r1) = st_dirs st1 (ar_content_path r1)"
        using other cur kind1 by (auto simp: remove_invalidated_def)
      then have "read_content E st2 r1 = read_content E st1 r1" by (simp add: read_content_def)
      with read1 False keep show ?thesis by (simp only: if_False)
    qed
  qed
  with read1 read2 show ?thesis by blast
qed


text \<open>A concrete environment, store and two publications, shared by the witnesses.\<close>

definition demo_env :: pyenv where
  "demo_env = \<lparr>sha256 = (\<lambda>s. s), float_repr = (\<lambda>_. ''0.0'')\<rparr>"

definition demo_request :: "string \<Rightarrow> stage_name \<Rightarrow> artifact_kind \<Rightarrow> string \<Rightarrow> jdict \<Rightarrow> write_request" where
  "demo_request run stage kind producer c =
     \<lparr>wq_run_id = run, wq_stage = stage, wq_kind = kind, wq_producing_agent = producer,
      wq_content = c, wq_markdown = ''text'', wq_parent_artifact_ids = [], wq_model_id = None,
      wq_prompt_version = ''deterministic-v1'', wq_execution = []\<rparr>"

abbreviation demo_brief :: write_request where
  "demo_brief \<equiv> demo_request ''run_1'' INTAKE PROJECT_BRIEF ''intake-agent'' [(''idea'', JStr ''x'')]"

abbreviation demo_spec :: write_request where
  "demo_spec \<equiv> demo_request ''run_1'' REQUIREMENTS REQUIREMENTS_SPEC ''requirements-agent'' []"

lemma demo_request_simps [simp]:
  "wq_run_id (demo_request run stage kind producer c) = run"
  "wq_stage (demo_request run stage kind producer c) = stage"
  "wq_kind (demo_request run stage kind producer c) = kind"
  "wq_producing_agent (demo_request run stage kind producer c) = producer"
  "wq_content (demo_request run stage kind producer c) = c"
  by (simp_all add: demo_request_def)

lemma write_artifact_plain:
  assumes "safe_producer (wq_producing_agent q)" and "map_of (wq_content q) ''files'' = None"
  shows "\<exists>r st'. write_artifact E uid now q st = (Inr r, st')"
  using assms by (simp add: write_artifact_def release_source_def Let_def)

lemma demo_safe: "safe_producer ''intake-agent''" "safe_producer ''requirements-agent''"
  by (simp_all add: safe_producer_def is_ascii_alnum_def is_digit_def)

theorem published_content_stable_witness:
  "\<exists>r1 r2 st1 st2. write_artifact demo_env ''01'' 1 demo_spec (empty_store []) = (Inr r1, st1)
     \<and> write_artifact demo_env ''02'' 2 demo_brief st1 = (Inr r2, st2)
     \<and> read_content demo_env st1 r1 = Inr []
     \<and> read_content demo_env st2 r2 = Inr [(''idea'', JStr ''x'')]
     \<and> read_content demo_env st2 r1 = Inl (OSError ''content.json'')"
proof -
  obtain r1 st1 where w1: "write_artifact demo_env ''01'' 1 demo_spec (empty_store []) = (Inr r1, st1)"
    using write_artifact_plain [of demo_spec demo_env "''01''" 1 "empty_store []"] demo_safe by auto
  obtain r2 st2 where w2: "write_artifact demo_env ''02'' 2 demo_brief st1 = (Inr r2, st2)"
    using write_artifact_plain [of demo_brief demo_env "''02''" 2 st1] demo_safe by auto
  have paths: "ar_content_path r1 \<noteq> ar_content_path r2"
    using write_artifact_metadata(2) [OF w1] write_artifact_metadata(2) [OF w2]
      write_artifact_root [OF w1]
    by (simp add: destination_def project_path_def Let_def is_snapshot_def SNAPSHOT_KINDS_def)
  have inv: "is_snapshot REQUIREMENTS_SPEC ''requirements-agent''"
    "is_snapshot PROJECT_BRIEF ''intake-agent''" "REQUIREMENTS_SPEC \<in> set (invalidated_kinds PROJECT_BRIEF)"
    by (simp_all add: is_snapshot_def SNAPSHOT_KINDS_def invalidated_kinds_iff)
  show ?thesis
    using published_content_stable [OF w1 w2] w1 w2 paths inv
    by (auto simp: dsort_def)
qed

section \<open>The publication interface\<close>

text \<open>
  What a client that keeps an index of published records relies on: a publication that succeeds
  leaves its own record intact, keeps every intact record it does not displace, a failed one
  changes nothing, and intact records can be read.
\<close>

locale publication =
  fixes put :: "'q \<Rightarrow> 's \<Rightarrow> 'r result \<times> 's"
    and get :: "'s \<Rightarrow> 'r \<Rightarrow> 'c result"
    and intact :: "'s \<Rightarrow> 'r \<Rightarrow> bool"
    and displaced :: "'q \<Rightarrow> 'r \<Rightarrow> bool"
    and compatible :: "'q \<Rightarrow> 'r \<Rightarrow> bool"
  assumes put_intact: "put q s = (Inr r, s') \<Longrightarrow> intact s' r"
    and put_keeps: "put q s = (Inr r', s') \<Longrightarrow> intact s r \<Longrightarrow> compatible q r \<Longrightarrow> \<not> displaced q r
      \<Longrightarrow> intact s' r"
    and put_error: "put q s = (Inl e, s') \<Longrightarrow> s' = s"
    and intact_get: "intact s r \<Longrightarrow> \<exists>c. get s r = Inr c"
begin

definition index_ok :: "'s \<Rightarrow> 'r list \<Rightarrow> bool" where
  "index_ok s rs \<longleftrightarrow> (\<forall>r \<in> set rs. intact s r)"

lemma index_ok_publish:
  assumes "index_ok s rs" and "put q s = (Inr r, s')"
    and "\<forall>x \<in> set rs. compatible q x"
    and "set rs' \<subseteq> insert r {x \<in> set rs. \<not> displaced q x}"
  shows "index_ok s' rs'"
  unfolding index_ok_def
proof
  fix x
  assume "x \<in> set rs'"
  with assms(4) consider "x = r" | "x \<in> set rs" "\<not> displaced q x" by auto
  then show "intact s' x"
  proof cases
    case 1
    then show ?thesis using put_intact [OF assms(2)] by simp
  next
    case 2
    then show ?thesis using assms(1,3) by (auto simp: index_ok_def intro: put_keeps [OF assms(2)])
  qed
qed

lemma index_ok_readable: "index_ok s rs \<Longrightarrow> \<exists>cs. traverse (get s) rs = Inr cs"
proof (induction rs)
  case (Cons r rs)
  then have "intact s r" "index_ok s rs" by (auto simp: index_ok_def)
  with Cons.IH intact_get [of s r] show ?case by auto
qed simp

end

interpretation hub: publication
  "\<lambda>(uid, now, q). write_artifact E uid now q"
  "read_content E" "linked E"
  "\<lambda>(uid, now, q) r. displaces E (make_metadata E uid now q) (ar_metadata r)"
  "\<lambda>(uid, now, q) r. md_artifact_id (ar_metadata r) \<noteq> ''art_'' @ uid
     \<and> (project_id_for_run E (md_workflow_run_id (ar_metadata r)) = project_id_for_run E (wq_run_id q)
        \<longrightarrow> md_workflow_run_id (ar_metadata r) = wq_run_id q)"
  for E
proof (unfold_locales, goal_cases)
  case (1 q s r s')
  then show ?case by (auto intro: linked_written split: prod.splits)
next
  case (2 q s r' s' r)
  obtain uid now w where q: "q = (uid, now, w)" by (cases q)
  with 2 have w: "write_artifact E uid now w s = (Inr r', s')" by simp
  from 2 q show ?case
    using linked_preserved [OF w, of r] write_artifact_metadata(1) [OF w] by simp
next
  case (3 q s e s')
  then show ?case by (auto dest: write_artifact_error split: prod.splits)
next
  case (4 s r)
  then show ?case by (rule linked_readable)
qed

end
