(* ===== verification/Database.thy ===== *)
theory Database
  imports Storage
begin

text \<open>
  \<open>storage/database.py\<close>: the SQLite repository of runs, stages, artifacts, events, delegated
  tasks and human interactions. A table is the list of its rows in rowid order. Inserts check
  the primary key and the foreign key to \<open>runs\<close> (foreign keys are switched on), updates touch
  the matching rows only. Every operation runs under the write lock, so it is one function of
  the database; the clock reading is an argument.
\<close>

section \<open>State\<close>

record run_row =
  rr_run_id :: string
  rr_idea :: string
  rr_status :: run_status
  rr_current_stage :: "stage_name option"
  rr_created_at :: nat
  rr_updated_at :: nat
  rr_error :: "string option"

record stage_row =
  sg_run_id :: string
  sg_name :: stage_name
  sg_status :: run_status
  sg_started_at :: "nat option"
  sg_finished_at :: "nat option"
  sg_error :: "string option"

record database =
  db_runs :: "run_row list"
  db_stages :: "stage_row list"
  db_artifacts :: "artifact_record list"
  db_events :: "event_record list"
  db_event_seq :: nat
  db_delegated_tasks :: "(string \<times> delegated_task) list"
  db_human_interactions :: "human_interaction list"

definition empty_database :: database where
  "empty_database = \<lparr>db_runs = [], db_stages = [], db_artifacts = [], db_events = [],
     db_event_seq = 0, db_delegated_tasks = [], db_human_interactions = []\<rparr>"

definition run_ids :: "database \<Rightarrow> string list" where
  "run_ids db = map rr_run_id (db_runs db)"

section \<open>Runs and stages\<close>

definition find_run :: "database \<Rightarrow> string \<Rightarrow> run_row option" where
  "find_run db run_id = List.find (\<lambda>r. rr_run_id r = run_id) (db_runs db)"

definition stage_from_row :: "stage_row \<Rightarrow> stage_record" where
  "stage_from_row row = \<lparr>sr_name = sg_name row, sr_status = sg_status row,
     sr_started_at = sg_started_at row, sr_finished_at = sg_finished_at row, sr_error = sg_error row\<rparr>"

definition find_stage :: "database \<Rightarrow> string \<Rightarrow> stage_name \<Rightarrow> stage_row option" where
  "find_stage db run_id stage =
     find_last (\<lambda>s. sg_run_id s = run_id \<and> sg_name s = stage) (db_stages db)"

definition get_run :: "pyenv \<Rightarrow> database \<Rightarrow> string \<Rightarrow> workflow_run option result" where
  "get_run E db run_id = (case find_run db run_id of
       None \<Rightarrow> Inr None
     | Some row \<Rightarrow>
         rbind (traverse (\<lambda>name. case find_stage db run_id name of
                  None \<Rightarrow> Inl (KeyError (stage_value name))
                | Some s \<Rightarrow> Inr (stage_from_row s)) STAGE_ORDER)
           (\<lambda>stages. Inr (Some
              \<lparr>wr_project_id = project_id_for_run E (rr_run_id row), wr_run_id = rr_run_id row,
               wr_idea = rr_idea row, wr_status = rr_status row,
               wr_current_stage = rr_current_stage row, wr_created_at = rr_created_at row,
               wr_updated_at = rr_updated_at row, wr_error = rr_error row, wr_stages = stages\<rparr>)))"

definition create_run :: "pyenv \<Rightarrow> nat \<Rightarrow> string \<Rightarrow> string \<Rightarrow> database \<Rightarrow> workflow_run result \<times> database" where
  "create_run E now run_id idea db =
     (if run_id \<in> set (run_ids db) then (Inl (IntegrityError ''runs.run_id''), db)
      else
        let db' = db\<lparr>db_runs := db_runs db @
                       [\<lparr>rr_run_id = run_id, rr_idea = idea, rr_status = PENDING,
                         rr_current_stage = None, rr_created_at = now, rr_updated_at = now,
                         rr_error = None\<rparr>],
                     db_stages := db_stages db @ map (\<lambda>stage.
                       \<lparr>sg_run_id = run_id, sg_name = stage, sg_status = PENDING,
                        sg_started_at = None, sg_finished_at = None, sg_error = None\<rparr>) STAGE_ORDER\<rparr>
        in (case get_run E db' run_id of
              Inl e \<Rightarrow> (Inl e, db')
            | Inr None \<Rightarrow> (Inl AssertionError, db')
            | Inr (Some run) \<Rightarrow> (Inr run, db')))"

definition update_run :: "nat \<Rightarrow> string \<Rightarrow> run_status \<Rightarrow> stage_name option \<Rightarrow> string option \<Rightarrow>
    database \<Rightarrow> database" where
  "update_run now run_id status current_stage error db =
     db\<lparr>db_runs := map (\<lambda>r. if rr_run_id r = run_id
          then r\<lparr>rr_status := status, rr_current_stage := current_stage,
                 rr_updated_at := now, rr_error := error\<rparr> else r) (db_runs db)\<rparr>"

definition update_stage :: "nat \<Rightarrow> string \<Rightarrow> stage_name \<Rightarrow> run_status \<Rightarrow> string option \<Rightarrow>
    database \<Rightarrow> database" where
  "update_stage now run_id stage status error db =
     (let started = (if status = RUNNING then Some now else None);
          finished = (if status \<in> {COMPLETED, FAILED, CANCELED, BLOCKED} then Some now else None)
      in db\<lparr>db_stages := map (\<lambda>s. if sg_run_id s = run_id \<and> sg_name s = stage
          then s\<lparr>sg_status := status,
                 sg_started_at := (case sg_started_at s of None \<Rightarrow> started | Some t \<Rightarrow> Some t),
                 sg_finished_at := (if status \<in> {RUNNING, INPUT_REQUIRED} then None
                   else (case finished of None \<Rightarrow> sg_finished_at s | Some t \<Rightarrow> Some t)),
                 sg_error := error\<rparr> else s) (db_stages db)\<rparr>)"

text \<open>\<open>ORDER BY created_at DESC LIMIT ?\<close>; rows with equal times keep their scan order.\<close>

definition recent_run_ids :: "nat \<Rightarrow> database \<Rightarrow> string list" where
  "recent_run_ids limit db =
     take limit (map rr_run_id (rev (sort_key rr_created_at (rev (db_runs db)))))"

definition list_runs :: "pyenv \<Rightarrow> nat \<Rightarrow> database \<Rightarrow> workflow_run list result" where
  "list_runs E limit db =
     rbind (traverse (get_run E db) (recent_run_ids limit db))
       (\<lambda>rs. Inr (List.map_filter (\<lambda>r. r) rs))"

section \<open>Events\<close>

definition append_event :: "nat \<Rightarrow> string \<Rightarrow> string \<Rightarrow> jdict \<Rightarrow> database \<Rightarrow> nat result \<times> database" where
  "append_event now run_id event_type payload db =
     (if run_id \<notin> set (run_ids db) then (Inl (IntegrityError ''events.run_id''), db)
      else let event_id = db_event_seq db + 1 in
        (Inr event_id,
         db\<lparr>db_event_seq := event_id,
            db_events := db_events db @
              [\<lparr>ev_event_id = event_id, ev_run_id = run_id, ev_event_type = event_type,
                ev_payload = payload, ev_created_at = now\<rparr>]\<rparr>))"

definition events_after :: "database \<Rightarrow> string \<Rightarrow> nat \<Rightarrow> event_record list" where
  "events_after db run_id event_id =
     sort_key ev_event_id
       (filter (\<lambda>e. ev_run_id e = run_id \<and> event_id < ev_event_id e) (db_events db))"

section \<open>Recovery after a restart\<close>

definition interrupted_reason :: string where
  "interrupted_reason = ''Process restarted before completion; create a new run to retry.''"

definition interrupt_run :: "nat \<Rightarrow> workflow_run \<Rightarrow> database \<Rightarrow> nat result \<times> database" where
  "interrupt_run now run db =
     (let db1 = (case wr_current_stage run of None \<Rightarrow> db
            | Some stage \<Rightarrow> update_stage now (wr_run_id run) stage BLOCKED (Some interrupted_reason) db);
          db2 = update_run now (wr_run_id run) BLOCKED (wr_current_stage run)
                  (Some interrupted_reason) db1
      in append_event now (wr_run_id run) ''run.interrupted''
           [(''reason'', JStr interrupted_reason)] db2)"

fun recover_runs :: "nat \<Rightarrow> workflow_run list \<Rightarrow> database \<Rightarrow> unit result \<times> database" where
  "recover_runs now [] db = (Inr (), db)"
| "recover_runs now (run # runs) db =
     (if wr_status run \<notin> {PENDING, RUNNING, INPUT_REQUIRED} then recover_runs now runs db
      else case interrupt_run now run db of
             (Inl e, db') \<Rightarrow> (Inl e, db')
           | (Inr _, db') \<Rightarrow> recover_runs now runs db')"

definition recover_interrupted_runs :: "pyenv \<Rightarrow> nat \<Rightarrow> database \<Rightarrow> unit result \<times> database" where
  "recover_interrupted_runs E now db =
     (case list_runs E 10000 db of
        Inl e \<Rightarrow> (Inl e, db)
      | Inr runs \<Rightarrow> recover_runs now runs db)"

section \<open>Artifacts\<close>

definition same_slot :: "artifact_metadata \<Rightarrow> artifact_metadata \<Rightarrow> bool" where
  "same_slot previous m \<longleftrightarrow>
     md_kind previous = md_kind m \<and> md_producing_agent previous = md_producing_agent m"

definition deletes_row :: "artifact_metadata \<Rightarrow> artifact_record \<Rightarrow> bool" where
  "deletes_row m row \<longleftrightarrow>
     md_current_snapshot m \<and> md_workflow_run_id (ar_metadata row) = md_workflow_run_id m
     \<and> (same_slot (ar_metadata row) m
        \<or> md_current_snapshot (ar_metadata row)
          \<and> md_kind (ar_metadata row) \<in> set (invalidated_kinds (md_kind m)))"

definition insert_artifact :: "artifact_record \<Rightarrow> database \<Rightarrow> unit result \<times> database" where
  "insert_artifact artifact db =
     (let m = ar_metadata artifact;
          rows = filter (\<lambda>row. \<not> deletes_row m row) (db_artifacts db)
      in if md_artifact_id m \<in> (\<lambda>row. md_artifact_id (ar_metadata row)) ` set rows
         then (Inl (IntegrityError ''artifacts.artifact_id''), db)
         else if md_workflow_run_id m \<notin> set (run_ids db)
         then (Inl (IntegrityError ''artifacts.run_id''), db)
         else (Inr (), db\<lparr>db_artifacts := rows @ [artifact]\<rparr>))"

text \<open>
  A current snapshot is indexed only if its files are still its own: a publisher that was
  overtaken between writing and indexing is refused.
\<close>

definition add_artifact :: "pyenv \<Rightarrow> store \<Rightarrow> artifact_record \<Rightarrow> database \<Rightarrow> unit result \<times> database" where
  "add_artifact E st artifact db =
     (if md_current_snapshot (ar_metadata artifact)
      then case read_content E st artifact of
             Inl e \<Rightarrow> (Inl e, db)
           | Inr _ \<Rightarrow> insert_artifact artifact db
      else insert_artifact artifact db)"

definition list_artifacts :: "database \<Rightarrow> string \<Rightarrow> artifact_record list" where
  "list_artifacts db run_id =
     sort_key (\<lambda>a. md_created_at (ar_metadata a))
       (filter (\<lambda>a. md_workflow_run_id (ar_metadata a) = run_id) (db_artifacts db))"

definition get_artifact :: "database \<Rightarrow> string \<Rightarrow> artifact_record option" where
  "get_artifact db artifact_id =
     List.find (\<lambda>a. md_artifact_id (ar_metadata a) = artifact_id) (db_artifacts db)"

section \<open>Delegated tasks\<close>

text \<open>
  A row is the \<open>run_id\<close> column and the stored record; an upsert on an existing invocation
  replaces the record only.
\<close>

definition save_delegated_task :: "delegated_task \<Rightarrow> database \<Rightarrow> unit result \<times> database" where
  "save_delegated_task task db =
     (if dt_invocation_id task \<in> (dt_invocation_id \<circ> snd) ` set (db_delegated_tasks db)
      then (Inr (), db\<lparr>db_delegated_tasks := map (\<lambda>(run, t).
              if dt_invocation_id t = dt_invocation_id task then (run, task) else (run, t))
              (db_delegated_tasks db)\<rparr>)
      else if dt_run_id task \<notin> set (run_ids db)
      then (Inl (IntegrityError ''delegated_tasks.run_id''), db)
      else (Inr (), db\<lparr>db_delegated_tasks := db_delegated_tasks db @ [(dt_run_id task, task)]\<rparr>))"

definition list_delegated_tasks :: "database \<Rightarrow> string \<Rightarrow> delegated_task list" where
  "list_delegated_tasks db run_id =
     map snd (filter (\<lambda>(run, t). run = run_id) (db_delegated_tasks db))"

section \<open>Human interactions\<close>

definition save_interaction :: "human_interaction \<Rightarrow> database \<Rightarrow> unit result \<times> database" where
  "save_interaction i db =
     (if hi_surface_id i \<in> hi_surface_id ` set (db_human_interactions db)
      then (Inl (IntegrityError ''human_interactions.surface_id''), db)
      else if hi_run_id i \<notin> set (run_ids db)
      then (Inl (IntegrityError ''human_interactions.run_id''), db)
      else (Inr (), db\<lparr>db_human_interactions := db_human_interactions db @ [i]\<rparr>))"

definition list_interactions :: "database \<Rightarrow> string \<Rightarrow> human_interaction list" where
  "list_interactions db run_id = filter (\<lambda>i. hi_run_id i = run_id) (db_human_interactions db)"

fun allowed_decisions :: "prompt_kind \<Rightarrow> decision list" where
  "allowed_decisions Clarification = [Submit]"
| "allowed_decisions Approval = [Approve, Reject]"
| "allowed_decisions Evaluation_decision = [Accept, Repair]"

definition make_response :: "nat \<Rightarrow> human_action \<Rightarrow> human_interaction \<Rightarrow> human_response" where
  "make_response now action i =
     \<lparr>hr_action = action, hr_actor = ''local-learner'', hr_answered_at = now,
      hr_decision = ha_decision action, hr_answer = ha_answer action,
      hr_artifact_id = hi_artifact_id i, hr_artifact_sha256 = hi_artifact_sha256 i,
      hr_action_id = ha_action_id action\<rparr>"

text \<open>
  One transaction: the published file comes first, then the row of the response artifact, then
  the interaction itself. An exception at any point rolls the transaction back; the store keeps
  what \<open>publish_response\<close> wrote.
\<close>

definition accept_action :: "nat \<Rightarrow> string \<Rightarrow> human_action \<Rightarrow>
    (human_interaction \<Rightarrow> store \<Rightarrow> artifact_record result \<times> store) \<Rightarrow> store \<Rightarrow> database \<Rightarrow>
    (human_interaction \<times> bool) result \<times> store \<times> database" where
  "accept_action now run_id action publish_response st db =
     (case List.find (\<lambda>i. hi_surface_id i = ha_surface_id action \<and> hi_run_id i = run_id)
             (db_human_interactions db) of
        None \<Rightarrow> (Inl (ValueError ''Unknown surface''), st, db)
      | Some interaction \<Rightarrow>
          (case hi_response interaction of
             Some response \<Rightarrow>
               (if hr_action response = action then (Inr (interaction, False), st, db)
                else (Inl (ValueError ''Surface already answered; conflicting or stale action''), st, db))
           | None \<Rightarrow>
               if (case find_run db run_id of None \<Rightarrow> True | Some r \<Rightarrow> rr_status r \<noteq> INPUT_REQUIRED)
               then (Inl (ValueError ''Run is not waiting for human input''), st, db)
               else if ha_version action \<noteq> hi_version interaction
                 \<or> ha_artifact_sha256 action \<noteq> hi_artifact_sha256 interaction
               then (Inl (ValueError ''Stale artifact or surface version''), st, db)
               else if ha_decision action \<notin> set (allowed_decisions (hp_kind (hi_prompt interaction)))
                 \<or> ha_decision action = Submit \<and> ha_answer action = []
               then (Inl (ValueError ''Invalid decision or empty clarification answer''), st, db)
               else
                 let answered = interaction\<lparr>hi_response := Some (make_response now action interaction)\<rparr>
                 in case publish_response answered st of
                      (Inl e, st') \<Rightarrow> (Inl e, st', db)
                    | (Inr artifact, st') \<Rightarrow>
                        (case insert_artifact artifact db of
                           (Inl e, _) \<Rightarrow> (Inl e, st', db)
                         | (Inr _, db') \<Rightarrow>
                             (Inr (answered, True), st',
                              db'\<lparr>db_human_interactions := map (\<lambda>i.
                                 if hi_surface_id i = hi_surface_id answered then answered else i)
                                 (db_human_interactions db')\<rparr>))))"

section \<open>Well-formed databases\<close>

definition db_wf :: "database \<Rightarrow> bool" where
  "db_wf db \<longleftrightarrow>
     distinct (run_ids db)
     \<and> (\<forall>r \<in> set (run_ids db). \<forall>s. find_stage db r s \<noteq> None)
     \<and> distinct (map (\<lambda>a. md_artifact_id (ar_metadata a)) (db_artifacts db))
     \<and> (\<forall>a \<in> set (db_artifacts db). md_workflow_run_id (ar_metadata a) \<in> set (run_ids db))
     \<and> sorted_wrt (<) (map ev_event_id (db_events db))
     \<and> (\<forall>e \<in> set (db_events db). ev_event_id e \<le> db_event_seq db \<and> 0 < ev_event_id e
          \<and> ev_run_id e \<in> set (run_ids db))
     \<and> distinct (map (dt_invocation_id \<circ> snd) (db_delegated_tasks db))
     \<and> list_all (\<lambda>t. fst t \<in> set (run_ids db)) (db_delegated_tasks db)
     \<and> distinct (map hi_surface_id (db_human_interactions db))
     \<and> (\<forall>i \<in> set (db_human_interactions db). hi_run_id i \<in> set (run_ids db))"

text \<open>The tables an operation leaves alone, as rewriting rules.\<close>

lemma run_ids_simps [simp]:
  "run_ids (db\<lparr>db_stages := a\<rparr>) = run_ids db"
  "run_ids (db\<lparr>db_artifacts := b\<rparr>) = run_ids db"
  "run_ids (db\<lparr>db_events := c\<rparr>) = run_ids db"
  "run_ids (db\<lparr>db_event_seq := d\<rparr>) = run_ids db"
  "run_ids (db\<lparr>db_delegated_tasks := e\<rparr>) = run_ids db"
  "run_ids (db\<lparr>db_human_interactions := f\<rparr>) = run_ids db"
  by (simp_all add: run_ids_def)

lemma find_stage_simps [simp]:
  "find_stage (db\<lparr>db_runs := a\<rparr>) = find_stage db"
  "find_stage (db\<lparr>db_artifacts := b\<rparr>) = find_stage db"
  "find_stage (db\<lparr>db_events := c\<rparr>) = find_stage db"
  "find_stage (db\<lparr>db_event_seq := d\<rparr>) = find_stage db"
  "find_stage (db\<lparr>db_delegated_tasks := e\<rparr>) = find_stage db"
  "find_stage (db\<lparr>db_human_interactions := f\<rparr>) = find_stage db"
  by (simp_all add: find_stage_def fun_eq_iff)

lemma run_ids_update_run [simp]: "run_ids (update_run now r s c e db) = run_ids db"
  by (simp add: update_run_def run_ids_def)

lemma run_ids_update_stage [simp]: "run_ids (update_stage now r g s e db) = run_ids db"
  by (simp add: update_stage_def Let_def)

lemma find_last_map:
  "(\<And>x. p (f x) = p x) \<Longrightarrow> find_last p (map f xs) = map_option f (find_last p xs)"
  by (induction xs rule: rev_induct) simp_all

lemma find_stage_update_stage:
  "find_stage (update_stage now r g s e db) r' g' \<noteq> None \<longleftrightarrow> find_stage db r' g' \<noteq> None"
  unfolding find_stage_def update_stage_def Let_def
  by (simp add: find_last_map)

lemma db_wf_empty: "db_wf empty_database"
  by (simp add: db_wf_def empty_database_def run_ids_def)

lemma find_stage_new_run:
  "find_last (\<lambda>s. sg_run_id s = r \<and> sg_name s = g)
     (xs @ map (\<lambda>stage. \<lparr>sg_run_id = r, sg_name = stage, sg_status = PENDING,
        sg_started_at = None, sg_finished_at = None, sg_error = None\<rparr>) STAGE_ORDER) \<noteq> None"
proof -
  define row where "row = (\<lambda>stage. \<lparr>sg_run_id = r, sg_name = stage, sg_status = PENDING,
        sg_started_at = None, sg_finished_at = None, sg_error = None\<rparr>)"
  have "row g \<in> set (map row STAGE_ORDER)" by simp
  moreover have "sg_run_id (row g) = r \<and> sg_name (row g) = g" by (simp add: row_def)
  ultimately show ?thesis unfolding row_def [symmetric] find_last_None_iff set_append by blast
qed

lemma find_last_mono: "find_last p xs \<noteq> None \<Longrightarrow> find_last p (xs @ ys) \<noteq> None"
  by (auto simp: find_last_None_iff)

lemma get_run_Some:
  assumes "db_wf db" and "run_id \<in> set (run_ids db)"
  shows "\<exists>run. get_run E db run_id = Inr (Some run) \<and> wr_run_id run = run_id
    \<and> map sr_name (wr_stages run) = STAGE_ORDER"
proof -
  have "find_run db run_id \<noteq> None"
    using assms(2) by (auto simp: find_run_def run_ids_def find_None_iff2)
  then obtain row where row: "find_run db run_id = Some row" by auto
  then have id: "rr_run_id row = run_id" by (auto simp: find_run_def dest: find_SomeD)
  have stages: "\<exists>s. find_stage db run_id g = Some s \<and> sg_name s = g" for g
  proof -
    have "find_stage db run_id g \<noteq> None" using assms unfolding db_wf_def by blast
    then obtain s where "find_stage db run_id g = Some s" by blast
    then show ?thesis by (auto simp: find_stage_def dest: find_last_SomeD)
  qed
  then obtain f where f: "find_stage db run_id g = Some (f g)" "sg_name (f g) = g" for g by metis
  have "traverse (\<lambda>name. case find_stage db run_id name of None \<Rightarrow> Inl (KeyError (stage_value name))
      | Some s \<Rightarrow> Inr (stage_from_row s)) STAGE_ORDER = Inr (map (stage_from_row \<circ> f) STAGE_ORDER)"
    by (simp add: traverse_map_Inr f)
  moreover have "map (sr_name \<circ> (stage_from_row \<circ> f)) STAGE_ORDER = STAGE_ORDER"
    by (rule map_idI) (simp add: stage_from_row_def f)
  ultimately show ?thesis using row id by (simp add: get_run_def)
qed

lemma get_run_None_iff: "get_run E db run_id = Inr None \<longleftrightarrow> run_id \<notin> set (run_ids db)"
  by (auto simp: get_run_def find_run_def run_ids_def find_None_iff2 rbind_eq_Inr dest: find_SomeD
      split: option.splits)

lemma create_run_wf:
  assumes wf: "db_wf db" and create: "create_run E now r idea db = (res, db')"
  shows "db_wf db'" and "set (run_ids db) \<subseteq> set (run_ids db')"
    and "r \<notin> set (run_ids db) \<Longrightarrow> \<exists>run. res = Inr run \<and> wr_run_id run = r"
proof -
  show "db_wf db'"
  proof (cases "r \<in> set (run_ids db)")
    case True
    with wf create show ?thesis by (simp add: create_run_def)
  next
    case False
    define db1 where "db1 = db\<lparr>db_runs := db_runs db @
                       [\<lparr>rr_run_id = r, rr_idea = idea, rr_status = PENDING,
                         rr_current_stage = None, rr_created_at = now, rr_updated_at = now,
                         rr_error = None\<rparr>],
                     db_stages := db_stages db @ map (\<lambda>stage.
                       \<lparr>sg_run_id = r, sg_name = stage, sg_status = PENDING,
                        sg_started_at = None, sg_finished_at = None, sg_error = None\<rparr>) STAGE_ORDER\<rparr>"
    have db': "db' = db1"
      using create False unfolding create_run_def db1_def [symmetric] Let_def
      by (auto split: sum.splits option.splits)
    have ids: "run_ids db1 = run_ids db @ [r]" by (simp add: db1_def run_ids_def)
    have "find_stage db1 x s \<noteq> None" if "x \<in> set (run_ids db1)" for x s
    proof (cases "x = r")
      case True
      then show ?thesis using find_stage_new_run by (simp add: find_stage_def db1_def)
    next
      case False
      with that ids have "find_stage db x s \<noteq> None" using wf unfolding db_wf_def by auto
      then show ?thesis unfolding find_stage_def db1_def by (simp add: find_last_mono)
    qed
    with wf False ids show ?thesis unfolding db' db_wf_def
      by (auto simp: db1_def elim: list.pred_mono_strong)
  qed
  then have got: "r \<in> set (run_ids db') \<Longrightarrow> \<exists>run. get_run E db' r = Inr (Some run) \<and> wr_run_id run = r"
    using get_run_Some by blast
  show "set (run_ids db) \<subseteq> set (run_ids db')"
    using create by (auto simp: create_run_def Let_def run_ids_def split: if_splits sum.splits option.splits)
  show "\<exists>run. res = Inr run \<and> wr_run_id run = r" if "r \<notin> set (run_ids db)"
  proof -
    have "r \<in> set (run_ids db')"
      using create that
      by (auto simp: create_run_def Let_def run_ids_def split: if_splits sum.splits option.splits)
    with got obtain run where "get_run E db' r = Inr (Some run)" "wr_run_id run = r" by blast
    with create that show ?thesis
      by (auto simp: create_run_def Let_def split: sum.splits option.splits)
  qed
qed


lemma update_run_wf: "db_wf db \<Longrightarrow> db_wf (update_run now r s c e db)"
  unfolding db_wf_def run_ids_update_run by (simp add: update_run_def)

lemma update_stage_wf: "db_wf db \<Longrightarrow> db_wf (update_stage now r g s e db)"
  unfolding db_wf_def run_ids_update_stage find_stage_update_stage
  by (simp add: update_stage_def Let_def)

lemma append_event_wf:
  assumes "db_wf db" and "append_event now r t p db = (res, db')"
  shows "db_wf db'"
proof -
  have "ev_event_id e \<le> Suc (db_event_seq db)" if "e \<in> set (db_events db)" for e
    using that assms(1) le_SucI unfolding db_wf_def by blast
  with assms show ?thesis
    by (auto simp: db_wf_def append_event_def sorted_wrt_append Let_def less_Suc_eq_le split: if_splits)
qed

lemma insert_artifact_wf:
  assumes "db_wf db" and "insert_artifact a db = (res, db')"
  shows "db_wf db'"
  using assms
  by (auto simp: db_wf_def insert_artifact_def Let_def distinct_map_filter_on split: if_splits)

lemma add_artifact_wf:
  assumes "db_wf db" and "add_artifact E st a db = (res, db')"
  shows "db_wf db'"
  using assms insert_artifact_wf by (auto simp: add_artifact_def split: if_splits sum.splits)

lemma save_delegated_task_wf:
  assumes "db_wf db" and "save_delegated_task t db = (res, db')"
  shows "db_wf db'"
proof -
  have same: "map (dt_invocation_id \<circ> snd) (map (\<lambda>(run, t').
      if dt_invocation_id t' = dt_invocation_id t then (run, t) else (run, t')) xs)
      = map (dt_invocation_id \<circ> snd) xs" for xs
    by auto
  have runs: "list_all (\<lambda>t. fst t \<in> R) (map (\<lambda>(run, t').
      if dt_invocation_id t' = dt_invocation_id t then (run, t) else (run, t')) xs)
      = list_all (\<lambda>t. fst t \<in> R) xs" for xs R
    by (induction xs) (auto split: if_splits)
  show ?thesis
  proof (cases "dt_invocation_id t \<in> (dt_invocation_id \<circ> snd) ` set (db_delegated_tasks db)")
    case True
    then have "db' = db\<lparr>db_delegated_tasks := map (\<lambda>(run, t').
      if dt_invocation_id t' = dt_invocation_id t then (run, t) else (run, t')) (db_delegated_tasks db)\<rparr>"
      using assms(2) by (simp add: save_delegated_task_def)
    then show ?thesis using assms(1) by (simp add: db_wf_def same runs del: map_map)
  next
    case False
    with assms show ?thesis by (auto simp: db_wf_def save_delegated_task_def split: if_splits)
  qed
qed

lemma save_interaction_wf:
  assumes "db_wf db" and "save_interaction i db = (res, db')"
  shows "db_wf db'"
  using assms by (auto simp: db_wf_def save_interaction_def split: if_splits)

lemma answer_wf:
  assumes "db_wf db" and "hi_run_id i \<in> set (run_ids db)"
  shows "db_wf (db\<lparr>db_human_interactions := map (\<lambda>j.
     if hi_surface_id j = hi_surface_id i then i else j) (db_human_interactions db)\<rparr>)"
proof -
  have "map hi_surface_id (map (\<lambda>j. if hi_surface_id j = hi_surface_id i then i else j) xs)
      = map hi_surface_id xs" for xs
    by auto
  with assms show ?thesis unfolding db_wf_def by (auto simp del: map_map)
qed

lemma insert_artifact_ids: "insert_artifact a db = (res, db') \<Longrightarrow> run_ids db' = run_ids db"
  by (auto simp: insert_artifact_def Let_def split: if_splits)

lemma accept_action_wf:
  assumes wf: "db_wf db" and accept: "accept_action now r a pub st db = (res, st', db')"
  shows "db_wf db'"
proof (cases "\<exists>i fresh. res = Inr (i, True)")
  case False
  with accept wf show ?thesis
    by (auto simp: accept_action_def Let_def split: option.splits if_splits sum.splits prod.splits)
next
  case True
  then obtain i where "res = Inr (i, True)" by blast
  with accept obtain j x st1 db1 where j:
    "List.find (\<lambda>i. hi_surface_id i = ha_surface_id a \<and> hi_run_id i = r) (db_human_interactions db) = Some j"
    "i = j\<lparr>hi_response := Some (make_response now a j)\<rparr>"
    "insert_artifact x db = (Inr (), db1)"
    "db' = db1\<lparr>db_human_interactions := map (\<lambda>k.
       if hi_surface_id k = hi_surface_id i then i else k) (db_human_interactions db1)\<rparr>"
    by (auto simp: accept_action_def Let_def split: option.splits if_splits sum.splits prod.splits)
  have "j \<in> set (db_human_interactions db)" using find_SomeD [OF j(1)] by simp
  then have "hi_run_id i \<in> set (run_ids db1)"
    using wf j(2) insert_artifact_ids [OF j(3)] by (auto simp: db_wf_def)
  then show ?thesis using answer_wf insert_artifact_wf [OF wf j(3)] j(4) by simp
qed

lemma interrupt_run_wf:
  assumes "db_wf db" and "interrupt_run now run db = (res, db')"
  shows "db_wf db'"
  using assms
  by (auto simp: interrupt_run_def Let_def split: option.splits
      intro: append_event_wf update_run_wf update_stage_wf)

lemma recover_runs_wf:
  "db_wf db \<Longrightarrow> recover_runs now runs db = (res, db') \<Longrightarrow> db_wf db'"
proof (induction runs arbitrary: db)
  case (Cons run runs)
  obtain x db1 where x: "interrupt_run now run db = (x, db1)" by fastforce
  with Cons.prems interrupt_run_wf have "db_wf db1" by blast
  with Cons x show ?case by (auto split: if_splits sum.splits)
qed simp

lemma recover_interrupted_runs_wf:
  "db_wf db \<Longrightarrow> recover_interrupted_runs E now db = (res, db') \<Longrightarrow> db_wf db'"
  by (auto simp: recover_interrupted_runs_def dest: recover_runs_wf split: sum.splits)

section \<open>The repository as a transition system\<close>

inductive db_step :: "pyenv \<Rightarrow> database \<Rightarrow> database \<Rightarrow> bool" for E where
  step_create_run: "create_run E now r idea db = (res, db') \<Longrightarrow> db_step E db db'"
| step_update_run: "db_step E db (update_run now r status stage error db)"
| step_update_stage: "db_step E db (update_stage now r g status error db)"
| step_append_event: "append_event now r t payload db = (res, db') \<Longrightarrow> db_step E db db'"
| step_add_artifact: "add_artifact E st a db = (res, db') \<Longrightarrow> db_step E db db'"
| step_delegated_task: "save_delegated_task t db = (res, db') \<Longrightarrow> db_step E db db'"
| step_save_interaction: "save_interaction i db = (res, db') \<Longrightarrow> db_step E db db'"
| step_accept: "accept_action now r act pub st db = (res, st', db') \<Longrightarrow> db_step E db db'"
| step_recover: "recover_interrupted_runs E now db = (res, db') \<Longrightarrow> db_step E db db'"

definition db_reachable :: "pyenv \<Rightarrow> database \<Rightarrow> bool" where
  "db_reachable E db \<longleftrightarrow> (db_step E)\<^sup>*\<^sup>* empty_database db"

lemma db_step_wf: "db_step E db db' \<Longrightarrow> db_wf db \<Longrightarrow> db_wf db'"
  by (induction rule: db_step.induct)
    (auto intro: create_run_wf(1) update_run_wf update_stage_wf append_event_wf add_artifact_wf
      save_delegated_task_wf save_interaction_wf accept_action_wf recover_interrupted_runs_wf)

lemma db_steps_wf: "(db_step E)\<^sup>*\<^sup>* db db' \<Longrightarrow> db_wf db \<Longrightarrow> db_wf db'"
  by (induction rule: rtranclp_induct) (auto dest: db_step_wf)

lemma db_reachable_wf: "db_reachable E db \<Longrightarrow> db_wf db"
  by (auto simp: db_reachable_def intro: db_steps_wf db_wf_empty)

lemma list_runs_Inr:
  assumes "db_wf db"
  shows "\<exists>runs. list_runs E limit db = Inr runs
    \<and> map wr_run_id runs = recent_run_ids limit db"
proof -
  have ids: "set (recent_run_ids limit db) \<subseteq> set (run_ids db)"
    by (auto simp: recent_run_ids_def run_ids_def dest: in_set_takeD)
  have "\<exists>runs. traverse (get_run E db) rs = Inr (map Some runs) \<and> map wr_run_id runs = rs"
    if "set rs \<subseteq> set (run_ids db)" for rs
    using that
  proof (induction rs)
    case (Cons r rs)
    then obtain run where "get_run E db r = Inr (Some run)" "wr_run_id run = r"
      using get_run_Some [OF assms, of r] by auto
    moreover from Cons obtain runs where "traverse (get_run E db) rs = Inr (map Some runs)"
      "map wr_run_id runs = rs" by auto
    ultimately show ?case by (intro exI [of _ "run # runs"]) simp
  qed simp
  from this [OF ids] obtain runs where
    "traverse (get_run E db) (recent_run_ids limit db) = Inr (map Some runs)"
    "map wr_run_id runs = recent_run_ids limit db" by blast
  moreover have "List.map_filter (\<lambda>r. r) (map Some xs) = xs" for xs :: "workflow_run list"
    by (induction xs) (simp_all add: List.map_filter_simps)
  ultimately show ?thesis by (simp add: list_runs_def)
qed

text \<open>
  In every state the repository can reach, a run that was created can be read back with all
  nine stages in lifecycle order, an unknown run reads as absent, reading never raises, the run
  list is complete up to its limit, artifact ids are unique, and event ids increase strictly.
\<close>

theorem reachable_runs_readable:
  assumes "db_reachable E db"
  shows "(\<forall>r. if r \<in> set (run_ids db)
           then \<exists>run. get_run E db r = Inr (Some run) \<and> wr_run_id run = r
                  \<and> map sr_name (wr_stages run) = STAGE_ORDER
           else get_run E db r = Inr None)
    \<and> (\<exists>runs. list_runs E limit db = Inr runs \<and> map wr_run_id runs = recent_run_ids limit db)
    \<and> distinct (map (\<lambda>a. md_artifact_id (ar_metadata a)) (db_artifacts db))
    \<and> sorted_wrt (<) (map ev_event_id (db_events db))"
proof -
  have wf: "db_wf db" using db_reachable_wf [OF assms] .
  then have "distinct (map (\<lambda>a. md_artifact_id (ar_metadata a)) (db_artifacts db))"
    "sorted_wrt (<) (map ev_event_id (db_events db))" unfolding db_wf_def by blast+
  moreover have "if r \<in> set (run_ids db)
           then \<exists>run. get_run E db r = Inr (Some run) \<and> wr_run_id run = r
                  \<and> map sr_name (wr_stages run) = STAGE_ORDER
           else get_run E db r = Inr None" for r
    using get_run_Some [OF wf] get_run_None_iff by simp
  ultimately show ?thesis using list_runs_Inr [OF wf] by blast
qed

lemma demo_run_reachable:
  assumes "create_run E now r idea empty_database = (res, db)"
  shows "db_reachable E db"
  using step_create_run [OF assms] by (simp add: db_reachable_def)

lemma empty_run_ids [simp]: "run_ids empty_database = []"
  by (simp add: empty_database_def run_ids_def)

lemma run_ids_create:
  "create_run E now r idea db = (res, db') \<Longrightarrow>
     run_ids db' = (if r \<in> set (run_ids db) then run_ids db else run_ids db @ [r])"
  by (auto simp: create_run_def Let_def run_ids_def split: if_splits sum.splits option.splits)

theorem reachable_runs_readable_witness:
  "\<exists>db run. create_run demo_env 1 ''run_1'' ''idea'' empty_database = (Inr run, db)
     \<and> get_run demo_env db ''run_1'' = Inr (Some run) \<and> length (wr_stages run) = 9
     \<and> get_run demo_env db ''run_2'' = Inr None"
proof -
  obtain res db where c: "create_run demo_env 1 ''run_1'' ''idea'' empty_database = (res, db)"
    by fastforce
  have ids: "run_ids db = [''run_1'']" using run_ids_create [OF c] by simp
  obtain run where res: "res = Inr run" using create_run_wf(3) [OF db_wf_empty c] by auto
  then have got: "get_run demo_env db ''run_1'' = Inr (Some run)"
    using c by (auto simp: create_run_def Let_def split: if_splits sum.splits option.splits)
  note all = reachable_runs_readable [OF demo_run_reachable [OF c], of 1]
  from all [THEN conjunct1, rule_format, of "''run_1''"]
  have "map sr_name (wr_stages run) = STAGE_ORDER" using got ids by auto
  moreover from all [THEN conjunct1, rule_format, of "''run_2''"]
  have none: "get_run demo_env db ''run_2'' = Inr None" by (simp add: ids)
  ultimately have "length (map sr_name (wr_stages run)) = length STAGE_ORDER" by simp
  with got none c res show ?thesis by (simp add: STAGE_ORDER_def)
qed

section \<open>The event log\<close>

lemma events_frame [simp]:
  "db_events (update_run now r s c e db) = db_events db"
  "db_events (update_stage now r g s e db) = db_events db"
  by (simp_all add: update_run_def update_stage_def Let_def)

lemma insert_artifact_frame: "insert_artifact a db = (res, db') \<Longrightarrow>
   db_events db' = db_events db \<and> db_runs db' = db_runs db \<and> db_stages db' = db_stages db
   \<and> db_human_interactions db' = db_human_interactions db"
  by (auto simp: insert_artifact_def Let_def split: if_splits)

lemma append_event_prefix:
  "append_event now r t p db = (res, db') \<Longrightarrow> \<exists>es. db_events db' = db_events db @ es"
  by (auto simp: append_event_def Let_def split: if_splits)

lemma interrupt_run_prefix:
  "interrupt_run now run db = (res, db') \<Longrightarrow> \<exists>es. db_events db' = db_events db @ es"
  unfolding interrupt_run_def Let_def by (drule append_event_prefix) (simp split: option.splits)

lemma recover_runs_prefix:
  "recover_runs now runs db = (res, db') \<Longrightarrow> \<exists>es. db_events db' = db_events db @ es"
proof (induction runs arbitrary: db)
  case (Cons run runs)
  obtain x db1 where x: "interrupt_run now run db = (x, db1)" by fastforce
  with interrupt_run_prefix obtain es where "db_events db1 = db_events db @ es" by blast
  with Cons x show ?case by (fastforce split: if_splits sum.splits)
qed simp

lemma db_step_prefix: "db_step E db db' \<Longrightarrow> \<exists>es. db_events db' = db_events db @ es"
proof (induction rule: db_step.induct)
  case (step_create_run now r idea db res db')
  then show ?case by (auto simp: create_run_def Let_def split: if_splits sum.splits option.splits)
next
  case (step_add_artifact st a db res db')
  then show ?case by (auto simp: add_artifact_def split: if_splits sum.splits dest: insert_artifact_frame)
next
  case (step_accept now r act pub st db res st' db')
  then show ?case
    by (auto simp: accept_action_def Let_def split: option.splits if_splits sum.splits prod.splits
        dest: insert_artifact_frame)
next
  case (step_recover now db res db')
  then show ?case by (auto simp: recover_interrupted_runs_def dest: recover_runs_prefix split: sum.splits)
qed (auto simp: save_delegated_task_def save_interaction_def dest: append_event_prefix split: if_splits)

lemma db_steps_prefix: "(db_step E)\<^sup>*\<^sup>* db db' \<Longrightarrow> \<exists>es. db_events db' = db_events db @ es"
proof (induction rule: rtranclp_induct)
  case (step y z)
  then show ?case using db_step_prefix [of E y z] by fastforce
qed simp

lemma sort_key_strict_sorted: "sorted_wrt (<) (map f xs) \<Longrightarrow> sort_key f xs = xs"
  by (rule sort_key_id_if_sorted) (simp add: strict_sorted_imp_sorted)

lemma sorted_wrt_map_filter: "sorted_wrt P (map f xs) \<Longrightarrow> sorted_wrt P (map f (filter p xs))"
  by (induction xs) auto

lemma events_after_wf:
  assumes "db_wf db"
  shows "events_after db r k = filter (\<lambda>e. ev_run_id e = r \<and> k < ev_event_id e) (db_events db)"
  using assms unfolding events_after_def db_wf_def
  by (blast intro: sort_key_strict_sorted sorted_wrt_map_filter)

text \<open>Splitting a page off an increasing log.\<close>

lemma page_split:
  fixes f :: "'a \<Rightarrow> nat"
  assumes "sorted_wrt (<) (map f (xs @ ys))"
  shows "filter (\<lambda>x. p x \<and> k < f x) (xs @ ys) =
    filter (\<lambda>x. p x \<and> k < f x) xs
    @ filter (\<lambda>x. p x \<and> (if filter (\<lambda>x. p x \<and> k < f x) xs = [] then k
                          else f (last (filter (\<lambda>x. p x \<and> k < f x) xs))) < f x) (xs @ ys)"
    (is "_ = ?A @ filter (\<lambda>x. p x \<and> ?c < f x) _")
proof (cases "?A = []")
  case True
  then show ?thesis by simp
next
  case False
  have last: "last ?A \<in> set ?A" using False by (rule last_in_set)
  have inc: "sorted_wrt (\<lambda>x y. f x < f y) ?A"
    using assms by (auto simp: sorted_wrt_append sorted_wrt_map intro: sorted_wrt_filter)
  have up: "x = last ?A \<or> f x < f (last ?A)" if "x \<in> set ?A" for x
  proof -
    from that obtain us vs where split: "?A = us @ x # vs" by (meson split_list)
    show ?thesis
    proof (cases "vs = []")
      case False
      then have "last ?A \<in> set vs" unfolding split by simp
      with inc show ?thesis unfolding split by (simp add: sorted_wrt_append)
    qed (simp add: split)
  qed
  have none: "filter (\<lambda>x. p x \<and> f (last ?A) < f x) xs = []"
    unfolding filter_empty_conv
  proof (intro ballI notI)
    fix x
    assume "x \<in> set xs" and "p x \<and> f (last ?A) < f x"
    moreover have "k < f (last ?A)" using last by (simp only: set_filter mem_Collect_eq)
    ultimately have "x \<in> set ?A" by (auto intro: order.strict_trans)
    with up [OF this] \<open>p x \<and> f (last ?A) < f x\<close> show False by (auto dest: order.strict_implies_not_eq order.asym)
  qed
  have "f (last ?A) < f y" if "y \<in> set ys" for y
    using assms last that by (auto simp: sorted_wrt_append sorted_wrt_map)
  moreover have "k < f (last ?A)" using last by (simp only: set_filter mem_Collect_eq)
  ultimately have "filter (\<lambda>x. p x \<and> k < f x) ys = filter (\<lambda>x. p x \<and> f (last ?A) < f x) ys"
    by (intro filter_cong) (auto intro: order.strict_trans)
  with False none show ?thesis by simp
qed

lemma events_after_split:
  assumes "db_wf db" and "(db_step E)\<^sup>*\<^sup>* db db'"
  shows "events_after db' r k = events_after db r k @
    events_after db' r (if events_after db r k = [] then k else ev_event_id (last (events_after db r k)))"
proof -
  have wf: "db_wf db'" using db_steps_wf [OF assms(2)] assms(1) by blast
  obtain es where es: "db_events db' = db_events db @ es" using db_steps_prefix [OF assms(2)] by blast
  have "sorted_wrt (<) (map ev_event_id (db_events db @ es))" using wf es unfolding db_wf_def by simp
  from page_split [OF this, of "\<lambda>e. ev_run_id e = r" k]
  show ?thesis unfolding events_after_wf [OF assms(1)] events_after_wf [OF wf] es .
qed

text \<open>
  C5. A client that polls the event log misses nothing and sees nothing twice. Let it read the
  events of a run after some position, and let the repository then take any steps: reading again
  after the last event seen (or after the same position if there was none) returns exactly what
  the first read left out of a full read of the later log.
\<close>

theorem event_polling_lossless:
  assumes "db_reachable E db" and "(db_step E)\<^sup>*\<^sup>* db db'"
  shows "events_after db' r k = events_after db r k @
    events_after db' r (if events_after db r k = [] then k else ev_event_id (last (events_after db r k)))"
  by (rule events_after_split [OF db_reachable_wf [OF assms(1)] assms(2)])

lemma append_event_known:
  "r \<in> set (run_ids db) \<Longrightarrow> \<exists>db'. append_event now r t p db = (Inr (db_event_seq db + 1), db')
     \<and> db_events db' = db_events db @ [\<lparr>ev_event_id = db_event_seq db + 1, ev_run_id = r,
          ev_event_type = t, ev_payload = p, ev_created_at = now\<rparr>]"
  by (simp add: append_event_def Let_def)

lemma create_run_events:
  "create_run E now r idea db = (res, db') \<Longrightarrow> db_events db' = db_events db \<and> db_event_seq db' = db_event_seq db"
  by (auto simp: create_run_def Let_def split: if_splits sum.splits option.splits)

theorem event_polling_lossless_witness:
  "\<exists>db db' e. db_reachable demo_env db \<and> (db_step demo_env)\<^sup>*\<^sup>* db db'
     \<and> events_after db ''run_1'' 0 = [] \<and> events_after db' ''run_1'' 0 = [e]
     \<and> events_after db' ''run_1'' (ev_event_id e) = []"
proof -
  obtain res db where c: "create_run demo_env 1 ''run_1'' ''idea'' empty_database = (res, db)"
    by fastforce
  note reach = demo_run_reachable [OF c]
  have ids: "''run_1'' \<in> set (run_ids db)" using run_ids_create [OF c] by simp
  have seq: "db_events db = []" "db_event_seq db = 0"
    using create_run_events [OF c] by (simp_all add: empty_database_def)
  obtain db' where a: "append_event 2 ''run_1'' ''run.created'' [] db = (Inr 1, db')"
    "db_events db' = [\<lparr>ev_event_id = 1, ev_run_id = ''run_1'', ev_event_type = ''run.created'',
       ev_payload = [], ev_created_at = 2\<rparr>]" (is "_ = [?e]")
    using append_event_known [OF ids] seq by fastforce
  have step: "(db_step demo_env)\<^sup>*\<^sup>* db db'" using step_append_event [OF a(1)] by blast
  have reach': "db_reachable demo_env db'"
    using reach step unfolding db_reachable_def by (rule rtranclp_trans)
  have pages: "events_after db ''run_1'' 0 = []" "events_after db' ''run_1'' 0 = [?e]"
    using seq a(2) by (simp_all add: events_after_def)
  have "events_after db' ''run_1'' 0 = events_after db' ''run_1'' 0 @ events_after db' ''run_1'' (ev_event_id ?e)"
    using event_polling_lossless [OF reach' rtranclp.rtrancl_refl, of "''run_1''" 0] pages by simp
  then have "events_after db' ''run_1'' (ev_event_id ?e) = []" by simp
  with reach step pages show ?thesis by blast
qed

section \<open>Recovery\<close>

definition active_status :: "run_status \<Rightarrow> bool" where
  "active_status s \<longleftrightarrow> s \<in> {PENDING, RUNNING, INPUT_REQUIRED}"

definition block_row :: "nat \<Rightarrow> run_row \<Rightarrow> run_row" where
  "block_row now row = row\<lparr>rr_status := BLOCKED, rr_updated_at := now,
     rr_error := Some interrupted_reason\<rparr>"

lemma block_row_simps [simp]:
  "rr_run_id (block_row now row) = rr_run_id row"
  "rr_current_stage (block_row now row) = rr_current_stage row"
  "rr_status (block_row now row) = BLOCKED"
  by (simp_all add: block_row_def)

lemma interrupt_run_effect:
  assumes "wr_run_id run \<in> set (run_ids db)"
    and "\<forall>row \<in> set (db_runs db). rr_run_id row = wr_run_id run
      \<longrightarrow> rr_current_stage row = wr_current_stage run"
  shows "\<exists>n db'. interrupt_run now run db = (Inr n, db')
    \<and> db_runs db' = map (\<lambda>row. if rr_run_id row = wr_run_id run then block_row now row else row) (db_runs db)
    \<and> map ev_run_id (db_events db') = map ev_run_id (db_events db) @ [wr_run_id run]"
proof -
  have rows: "map (\<lambda>r. if rr_run_id r = wr_run_id run
        then r\<lparr>rr_status := BLOCKED, rr_current_stage := wr_current_stage run,
               rr_updated_at := now, rr_error := Some interrupted_reason\<rparr> else r) (db_runs db)
      = map (\<lambda>row. if rr_run_id row = wr_run_id run then block_row now row else row) (db_runs db)"
    using assms(2) by (intro map_cong refl) (auto simp: block_row_def)
  have runs: "db_runs (update_stage now r g s e db) = db_runs db" for r g s e
    by (simp add: update_stage_def Let_def)
  define db2 where "db2 = update_run now (wr_run_id run) BLOCKED (wr_current_stage run)
    (Some interrupted_reason) (case wr_current_stage run of None \<Rightarrow> db
      | Some stage \<Rightarrow> update_stage now (wr_run_id run) stage BLOCKED (Some interrupted_reason) db)"
  have db2: "run_ids db2 = run_ids db" "db_events db2 = db_events db"
    "db_runs db2 = map (\<lambda>row. if rr_run_id row = wr_run_id run then block_row now row else row) (db_runs db)"
    by (auto simp: db2_def rows [symmetric] runs update_run_def run_ids_def split: option.split)
  have "interrupt_run now run db
      = append_event now (wr_run_id run) ''run.interrupted'' [(''reason'', JStr interrupted_reason)] db2"
    by (simp add: interrupt_run_def db2_def Let_def)
  then show ?thesis using assms(1) db2 by (simp add: append_event_def Let_def)
qed

lemma recover_runs_effect:
  assumes "distinct (map wr_run_id runs)"
    and "\<forall>run \<in> set runs. wr_run_id run \<in> set (run_ids db)
      \<and> (\<forall>row \<in> set (db_runs db). rr_run_id row = wr_run_id run
          \<longrightarrow> rr_current_stage row = wr_current_stage run)"
  shows "\<exists>db'. recover_runs now runs db = (Inr (), db')
    \<and> db_runs db' = map (\<lambda>row. if rr_run_id row
         \<in> wr_run_id ` {run \<in> set runs. active_status (wr_status run)} then block_row now row else row) (db_runs db)
    \<and> map ev_run_id (db_events db') = map ev_run_id (db_events db)
         @ map wr_run_id (filter (\<lambda>run. active_status (wr_status run)) runs)"
  using assms
proof (induction runs arbitrary: db)
  case Nil
  then show ?case by simp
next
  case (Cons run runs)
  show ?case
  proof (cases "active_status (wr_status run)")
    case False
    from False have skip: "{x \<in> set (run # runs). active_status (wr_status x)}
        = {x \<in> set runs. active_status (wr_status x)}"
      "filter (\<lambda>x. active_status (wr_status x)) (run # runs) = filter (\<lambda>x. active_status (wr_status x)) runs"
      "recover_runs now (run # runs) db = recover_runs now runs db"
      by (auto simp: active_status_def)
    show ?thesis unfolding skip using Cons.prems by (intro Cons.IH) auto
  next
    case True
    let ?mark = "\<lambda>row. if rr_run_id row = wr_run_id run then block_row now row else row"
    obtain n db1 where one: "interrupt_run now run db = (Inr n, db1)"
      "db_runs db1 = map ?mark (db_runs db)"
      "map ev_run_id (db_events db1) = map ev_run_id (db_events db) @ [wr_run_id run]"
      using interrupt_run_effect [of run db now] Cons.prems by auto
    have ids: "run_ids db1 = run_ids db" using one(2) by (auto simp: run_ids_def)
    have "\<forall>x \<in> set runs. wr_run_id x \<in> set (run_ids db1)
      \<and> (\<forall>row \<in> set (db_runs db1). rr_run_id row = wr_run_id x
          \<longrightarrow> rr_current_stage row = wr_current_stage x)"
      using Cons.prems one(2) ids by auto
    then obtain db' where rest: "recover_runs now runs db1 = (Inr (), db')"
      "db_runs db' = map (\<lambda>row. if rr_run_id row
         \<in> wr_run_id ` {x \<in> set runs. active_status (wr_status x)} then block_row now row else row) (db_runs db1)"
      "map ev_run_id (db_events db') = map ev_run_id (db_events db1)
         @ map wr_run_id (filter (\<lambda>x. active_status (wr_status x)) runs)"
      using Cons.IH [of db1] Cons.prems(1) by auto
    have "recover_runs now (run # runs) db = (Inr (), db')"
      using True one(1) rest(1) by (simp add: active_status_def)
    moreover have "db_runs db' = map (\<lambda>row. if rr_run_id row
         \<in> wr_run_id ` {x \<in> set (run # runs). active_status (wr_status x)} then block_row now row else row) (db_runs db)"
      unfolding rest(2) one(2) map_map using True Cons.prems(1)
      by (intro map_cong refl) (auto simp: block_row_def)
    ultimately show ?thesis using True one(3) rest(3) by simp
  qed
qed

lemma get_run_row:
  assumes "get_run E db r = Inr (Some run)"
  shows "\<exists>row. find_run db r = Some row \<and> wr_run_id run = rr_run_id row
    \<and> wr_status run = rr_status row \<and> wr_current_stage run = rr_current_stage row"
  using assms by (auto simp: get_run_def rbind_eq_Inr split: option.splits)

lemma find_run_unique:
  assumes "distinct (run_ids db)" and "row \<in> set (db_runs db)"
  shows "find_run db (rr_run_id row) = Some row"
proof -
  have "find_run db (rr_run_id row) \<noteq> None" using assms(2) by (auto simp: find_run_def find_None_iff2)
  then obtain x where x: "find_run db (rr_run_id row) = Some x" by auto
  then have "x \<in> set (db_runs db)" "rr_run_id x = rr_run_id row"
    by (auto simp: find_run_def dest: find_SomeD)
  with assms have "x = row" unfolding run_ids_def by (auto simp: distinct_map dest: inj_onD)
  with x show ?thesis by simp
qed

lemma recent_all:
  assumes "length (db_runs db) \<le> limit"
  shows "set (recent_run_ids limit db) = set (run_ids db)"
    and "distinct (run_ids db) \<Longrightarrow> distinct (recent_run_ids limit db)"
proof -
  have eq: "recent_run_ids limit db = map rr_run_id (rev (sort_key rr_created_at (rev (db_runs db))))"
    using assms by (simp add: recent_run_ids_def)
  show "set (recent_run_ids limit db) = set (run_ids db)" by (simp add: eq run_ids_def)
  assume "distinct (run_ids db)"
  then show "distinct (recent_run_ids limit db)" by (simp add: eq run_ids_def distinct_map)
qed

text \<open>
  Recovery after a restart. With at most the 10000 runs that it reads, it always succeeds,
  turns every run that was pending, running or waiting for input into a blocked one and leaves
  every other row as it is, and appends exactly one event for every run it interrupted.
\<close>

theorem recovery_blocks_active_runs:
  assumes "db_reachable E db" and "length (db_runs db) \<le> 10000"
  shows "\<exists>db'. recover_interrupted_runs E now db = (Inr (), db')
    \<and> db_runs db' = map (\<lambda>row. if active_status (rr_status row) then block_row now row else row) (db_runs db)
    \<and> (\<forall>row \<in> set (db_runs db'). \<not> active_status (rr_status row))
    \<and> (\<exists>es. db_events db' = db_events db @ es \<and> distinct (map ev_run_id es)
         \<and> set (map ev_run_id es) = rr_run_id ` {row \<in> set (db_runs db). active_status (rr_status row)})"
proof -
  have wf: "db_wf db" using db_reachable_wf [OF assms(1)] .
  then have dist: "distinct (run_ids db)" unfolding db_wf_def by blast
  obtain runs where runs: "list_runs E 10000 db = Inr runs"
    "map wr_run_id runs = recent_run_ids 10000 db" using list_runs_Inr [OF wf] by blast
  have mem: "\<exists>row \<in> set (db_runs db). rr_run_id row = wr_run_id run \<and> wr_status run = rr_status row
      \<and> wr_current_stage run = rr_current_stage row" if "run \<in> set runs" for run
  proof -
    from runs(1) obtain os where os: "traverse (get_run E db) (recent_run_ids 10000 db) = Inr os"
      "runs = List.map_filter (\<lambda>r. r) os" by (auto simp: list_runs_def rbind_eq_Inr)
    with that have "Some run \<in> set os" by (auto simp: List.map_filter_def)
    with os(1) obtain r where "get_run E db r = Inr (Some run)"
      by (auto simp: traverse_Inr_iff list_all2_conv_all_nth in_set_conv_nth)
    with get_run_row show ?thesis by (fastforce simp: find_run_def dest: find_SomeD)
  qed
  have same: "row = row'" if "row \<in> set (db_runs db)" "row' \<in> set (db_runs db)"
    "rr_run_id row = rr_run_id row'" for row row'
    using that find_run_unique [OF dist] by (metis option.inject)
  have "\<forall>run \<in> set runs. wr_run_id run \<in> set (run_ids db)
      \<and> (\<forall>row \<in> set (db_runs db). rr_run_id row = wr_run_id run
          \<longrightarrow> rr_current_stage row = wr_current_stage run)"
    using mem same unfolding run_ids_def by (metis image_eqI list.set_map)
  moreover have "distinct (map wr_run_id runs)" using recent_all(2) [OF assms(2) dist] runs(2) by simp
  ultimately obtain db' where db': "recover_runs now runs db = (Inr (), db')"
    "db_runs db' = map (\<lambda>row. if rr_run_id row
         \<in> wr_run_id ` {run \<in> set runs. active_status (wr_status run)} then block_row now row else row) (db_runs db)"
    "map ev_run_id (db_events db') = map ev_run_id (db_events db)
         @ map wr_run_id (filter (\<lambda>run. active_status (wr_status run)) runs)"
    using recover_runs_effect [of runs db now] by blast
  have hit: "rr_run_id row \<in> wr_run_id ` {run \<in> set runs. active_status (wr_status run)}
      \<longleftrightarrow> active_status (rr_status row)" if row: "row \<in> set (db_runs db)" for row
  proof -
    have "rr_run_id row \<in> set (map wr_run_id runs)"
      unfolding runs(2) recent_all(1) [OF assms(2)] using row by (simp add: run_ids_def)
    then obtain run where "run \<in> set runs" "wr_run_id run = rr_run_id row" by auto
    with mem [of run] mem same [OF _ row] show ?thesis by (smt (verit) image_iff mem_Collect_eq)
  qed
  have rows: "db_runs db' = map (\<lambda>row. if active_status (rr_status row) then block_row now row else row) (db_runs db)"
    unfolding db'(2) using hit by (intro map_cong refl) simp
  obtain es where es: "db_events db' = db_events db @ es" using recover_runs_prefix [OF db'(1)] by blast
  with db'(3) have ids: "map ev_run_id es = map wr_run_id (filter (\<lambda>run. active_status (wr_status run)) runs)"
    by simp
  have "distinct (map ev_run_id es)" unfolding ids
    using \<open>distinct (map wr_run_id runs)\<close> by (rule distinct_map_filter_on)
  moreover have "set (map ev_run_id es) = rr_run_id ` {row \<in> set (db_runs db). active_status (rr_status row)}"
  proof -
    have "set (map ev_run_id es) = wr_run_id ` {run \<in> set runs. active_status (wr_status run)}"
      unfolding ids by auto
    also have "\<dots> = rr_run_id ` {row \<in> set (db_runs db). active_status (rr_status row)}" (is "?A = ?B")
    proof
      show "?A \<subseteq> ?B"
      proof
        fix r assume "r \<in> ?A"
        then obtain run where "run \<in> set runs" "active_status (wr_status run)" "r = wr_run_id run" by blast
        with mem [of run] obtain row where "row \<in> set (db_runs db)" "rr_run_id row = r"
            "active_status (rr_status row)" by auto
        then show "r \<in> ?B" by blast
      qed
      show "?B \<subseteq> ?A" using hit by blast
    qed
    finally show ?thesis .
  qed
  moreover have "\<forall>row \<in> set (db_runs db'). \<not> active_status (rr_status row)"
    unfolding rows by (auto simp: active_status_def)
  moreover have "recover_interrupted_runs E now db = (Inr (), db')"
    using runs(1) db'(1) by (simp add: recover_interrupted_runs_def)
  ultimately show ?thesis using rows es by blast
qed

lemma create_run_rows:
  assumes "create_run E now r idea db = (Inr run, db')"
  shows "db_runs db' = db_runs db @ [\<lparr>rr_run_id = r, rr_idea = idea, rr_status = PENDING,
    rr_current_stage = None, rr_created_at = now, rr_updated_at = now, rr_error = None\<rparr>]"
  using assms by (auto simp: create_run_def Let_def split: if_splits sum.splits option.splits)

theorem recovery_blocks_active_runs_witness:
  "\<exists>db db' run e. create_run demo_env 1 ''run_1'' ''idea'' empty_database = (Inr run, db)
     \<and> recover_interrupted_runs demo_env 5 db = (Inr (), db')
     \<and> map rr_status (db_runs db) = [PENDING] \<and> map rr_status (db_runs db') = [BLOCKED]
     \<and> db_events db' = [e]"
proof -
  obtain res db where c: "create_run demo_env 1 ''run_1'' ''idea'' empty_database = (res, db)"
    by fastforce
  obtain run where res: "res = Inr run" using create_run_wf(3) [OF db_wf_empty c] by auto
  have rows: "db_runs db = [\<lparr>rr_run_id = ''run_1'', rr_idea = ''idea'', rr_status = PENDING,
    rr_current_stage = None, rr_created_at = 1, rr_updated_at = 1, rr_error = None\<rparr>]"
    using create_run_rows [OF c [unfolded res]] by (simp add: empty_database_def)
  have ev: "db_events db = []" using create_run_events [OF c] by (simp add: empty_database_def)
  have "rr_run_id ` {row \<in> set (db_runs db). active_status (rr_status row)} = {''run_1''}"
  proof -
    have "rr_run_id ` {row \<in> set (db_runs db). active_status (rr_status row)}
        = set (map rr_run_id (filter (\<lambda>row. active_status (rr_status row)) (db_runs db)))" by auto
    also have "\<dots> = {''run_1''}" by (simp add: rows active_status_def)
    finally show ?thesis .
  qed
  note ids = this
  have "length (db_runs db) \<le> 10000" by (simp add: rows)
  from recovery_blocks_active_runs [OF demo_run_reachable [OF c] this, of 5, unfolded ids]
  obtain db' es where db': "recover_interrupted_runs demo_env 5 db = (Inr (), db')"
    "db_runs db' = map (\<lambda>row. if active_status (rr_status row) then block_row 5 row else row) (db_runs db)"
    "db_events db' = db_events db @ es" "distinct (map ev_run_id es)" "set (map ev_run_id es) = {''run_1''}"
    by (elim exE conjE) (rule that)
  have "length (map ev_run_id es) = 1"
    using distinct_card [OF db'(4)] unfolding db'(5) by simp
  then obtain e where "es = [e]" by (auto simp: length_Suc_conv)
  moreover have "map rr_status (db_runs db') = [BLOCKED]"
    unfolding db'(2) rows by (simp add: active_status_def)
  moreover have "map rr_status (db_runs db) = [PENDING]" unfolding rows by simp
  ultimately show ?thesis using c res db'(1,3) ev by auto
qed

section \<open>Human answers\<close>

lemma interactions_frame [simp]:
  "db_human_interactions (update_run now r s c e db) = db_human_interactions db"
  "db_human_interactions (update_stage now r g s e db) = db_human_interactions db"
  by (simp_all add: update_run_def update_stage_def Let_def)

lemma append_event_interactions:
  "append_event now r t p db = (res, db') \<Longrightarrow> db_human_interactions db' = db_human_interactions db"
  by (auto simp: append_event_def Let_def split: if_splits)

lemma recover_runs_interactions:
  "recover_runs now runs db = (res, db') \<Longrightarrow> db_human_interactions db' = db_human_interactions db"
proof (induction runs arbitrary: db)
  case (Cons run runs)
  obtain x db1 where x: "interrupt_run now run db = (x, db1)" by fastforce
  then have "db_human_interactions db1 = db_human_interactions db"
    unfolding interrupt_run_def Let_def
    by (drule_tac append_event_interactions) (simp split: option.splits)
  with Cons x show ?case by (fastforce split: if_splits sum.splits)
qed simp

lemma accept_action_cases:
  assumes "accept_action now r a pub st db = (res, st', db')"
  obtains (unchanged) "db' = db" "\<And>i. res \<noteq> Inr (i, True)"
  | (answered) j x where
    "List.find (\<lambda>i. hi_surface_id i = ha_surface_id a \<and> hi_run_id i = r) (db_human_interactions db) = Some j"
    "hi_response j = None" "ha_version a = hi_version j"
    "ha_artifact_sha256 a = hi_artifact_sha256 j"
    "ha_decision a \<in> set (allowed_decisions (hp_kind (hi_prompt j)))"
    "\<exists>row. find_run db r = Some row \<and> rr_status row = INPUT_REQUIRED"
    "res = Inr (j\<lparr>hi_response := Some (make_response now a j)\<rparr>, True)"
    "pub (j\<lparr>hi_response := Some (make_response now a j)\<rparr>) st = (Inr x, st')"
    "fst (insert_artifact x db) = Inr ()"
    "db_human_interactions db' = map (\<lambda>i. if hi_surface_id i = hi_surface_id j
        then j\<lparr>hi_response := Some (make_response now a j)\<rparr> else i) (db_human_interactions db)"
proof (cases "\<exists>i. res = Inr (i, True)")
  case False
  then have "db' = db" using assms
    by (auto simp: accept_action_def Let_def split: option.splits if_splits sum.splits prod.splits)
  with False that(1) show ?thesis by blast
next
  case True
  then obtain i where "res = Inr (i, True)" by blast
  with assms obtain j x db1 where j:
    "List.find (\<lambda>i. hi_surface_id i = ha_surface_id a \<and> hi_run_id i = r) (db_human_interactions db) = Some j"
    "hi_response j = None" "ha_version a = hi_version j" "ha_artifact_sha256 a = hi_artifact_sha256 j"
    "ha_decision a \<in> set (allowed_decisions (hp_kind (hi_prompt j)))"
    "\<exists>row. find_run db r = Some row \<and> rr_status row = INPUT_REQUIRED"
    "i = j\<lparr>hi_response := Some (make_response now a j)\<rparr>"
    "pub i st = (Inr x, st')" "insert_artifact x db = (Inr (), db1)"
    "db' = db1\<lparr>db_human_interactions := map (\<lambda>k.
       if hi_surface_id k = hi_surface_id i then i else k) (db_human_interactions db1)\<rparr>"
    by (auto simp: accept_action_def Let_def split: option.splits if_splits sum.splits prod.splits)
  then show ?thesis using insert_artifact_frame [OF j(9)] \<open>res = Inr (i, True)\<close>
    by (intro that(2) [of j x]) simp_all
qed

lemma answered_persists:
  assumes "db_step E db db'" and "db_wf db"
    and "i \<in> set (db_human_interactions db)" and "hi_response i \<noteq> None"
  shows "i \<in> set (db_human_interactions db')"
  using assms
proof (induction rule: db_step.induct)
  case (step_create_run now r idea db res db')
  then show ?case by (auto simp: create_run_def Let_def split: if_splits sum.splits option.splits)
next
  case (step_append_event now r t payload db res db')
  then show ?case by (simp add: append_event_interactions)
next
  case (step_add_artifact st a db res db')
  then show ?case by (auto simp: add_artifact_def split: if_splits sum.splits dest: insert_artifact_frame)
next
  case (step_delegated_task t db res db')
  then show ?case by (auto simp: save_delegated_task_def split: if_splits)
next
  case (step_save_interaction j db res db')
  then show ?case by (auto simp: save_interaction_def split: if_splits)
next
  case (step_accept now r act pub st db res st' db')
  from step_accept.hyps show ?case
  proof (cases rule: accept_action_cases)
    case unchanged
    with step_accept.prems show ?thesis by simp
  next
    case (answered j x)
    have j: "j \<in> set (db_human_interactions db)" using find_SomeD [OF answered(1)] by simp
    have "distinct (map hi_surface_id (db_human_interactions db))"
      using step_accept.prems(1) unfolding db_wf_def by blast
    from distinct_map_eq [OF this step_accept.prems(2) j] have "hi_surface_id i \<noteq> hi_surface_id j"
      using step_accept.prems(3) answered(2) by metis
    with step_accept.prems(2) show ?thesis unfolding answered(10) set_map
      by (intro image_eqI [of _ _ i]) simp_all
  qed
next
  case (step_recover now db res db')
  then show ?case
    by (auto simp: recover_interrupted_runs_def dest: recover_runs_interactions split: sum.splits)
qed simp_all

lemma answered_persists_steps:
  assumes "(db_step E)\<^sup>*\<^sup>* db db'" and "db_wf db"
    and "i \<in> set (db_human_interactions db)" and "hi_response i \<noteq> None"
  shows "i \<in> set (db_human_interactions db')"
  using assms
proof (induction rule: rtranclp_induct)
  case (step y z)
  then show ?case using answered_persists db_steps_wf by blast
qed simp

lemma find_interaction:
  assumes "db_wf db" and "i \<in> set (db_human_interactions db)"
  shows "List.find (\<lambda>j. hi_surface_id j = hi_surface_id i \<and> hi_run_id j = hi_run_id i)
    (db_human_interactions db) = Some i" (is "List.find ?p _ = _")
proof -
  have "List.find ?p (db_human_interactions db) \<noteq> None" using assms(2) by (auto simp: find_None_iff2)
  then obtain x where x: "List.find ?p (db_human_interactions db) = Some x" by auto
  have "distinct (map hi_surface_id (db_human_interactions db))"
    using assms(1) unfolding db_wf_def by blast
  from distinct_map_eq [OF this _ assms(2)] find_SomeD [OF x] have "x = i" by blast
  with x show ?thesis by simp
qed

text \<open>
  C9. A surface is answered exactly once. An accepted answer was checked against the artifact
  hash, the version and the decisions its prompt allows, in a run that waits for input. After
  any further steps of the repository, the same action is acknowledged without publishing
  again, and any other action on that surface is refused; neither changes anything.
\<close>

theorem answer_exactly_once:
  assumes "db_reachable E db"
    and "accept_action now r a pub st db = (Inr (i, True), st', db')"
    and "(db_step E)\<^sup>*\<^sup>* db' later"
  shows "hi_surface_id i = ha_surface_id a \<and> ha_artifact_sha256 a = hi_artifact_sha256 i
    \<and> ha_version a = hi_version i
    \<and> ha_decision a \<in> set (allowed_decisions (hp_kind (hi_prompt i)))
    \<and> (\<exists>row. find_run db r = Some row \<and> rr_status row = INPUT_REQUIRED)
    \<and> hi_response i = Some (make_response now a i)
    \<and> accept_action now' r a pub' st'' later = (Inr (i, False), st'', later)
    \<and> (\<forall>b. ha_surface_id b = ha_surface_id a \<and> b \<noteq> a \<longrightarrow>
         accept_action now' r b pub' st'' later
           = (Inl (ValueError ''Surface already answered; conflicting or stale action''), st'', later))"
proof -
  have wf: "db_wf db" using db_reachable_wf [OF assms(1)] .
  have wf': "db_wf db'" using accept_action_wf [OF wf assms(2)] .
  from assms(2) show ?thesis
  proof (cases rule: accept_action_cases)
    case unchanged
    then show ?thesis by blast
  next
    case (answered j x)
    have j: "j \<in> set (db_human_interactions db)" "hi_surface_id j = ha_surface_id a" "hi_run_id j = r"
      using find_SomeD [OF answered(1)] by simp_all
    have i: "i = j\<lparr>hi_response := Some (make_response now a j)\<rparr>" using answered(7) by simp
    have resp: "make_response now a i = make_response now a j" by (simp add: i make_response_def)
    have "i \<in> set (db_human_interactions db')"
      unfolding answered(10) set_map using j(1) by (intro image_eqI [of _ _ j]) (simp_all add: i)
    then have "i \<in> set (db_human_interactions later)"
      using answered_persists_steps [OF assms(3) wf'] by (simp add: i)
    from find_interaction [OF db_steps_wf [OF assms(3) wf'] this]
    have found: "List.find (\<lambda>k. hi_surface_id k = ha_surface_id a \<and> hi_run_id k = r)
        (db_human_interactions later) = Some i"
      using j by (simp add: i)
    have "hi_response i = Some (make_response now a i)" unfolding resp by (simp add: i)
    moreover have "hr_action (make_response now a i) = a" by (simp add: make_response_def)
    ultimately show ?thesis using answered(3-6) j found
      by (auto simp: accept_action_def i)
  qed
qed

lemma accept_action_fresh:
  assumes "List.find (\<lambda>i. hi_surface_id i = ha_surface_id a \<and> hi_run_id i = r) (db_human_interactions db) = Some j"
    and "hi_response j = None" and "find_run db r = Some row" and "rr_status row = INPUT_REQUIRED"
    and "ha_version a = hi_version j" and "ha_artifact_sha256 a = hi_artifact_sha256 j"
    and "ha_decision a \<in> set (allowed_decisions (hp_kind (hi_prompt j)))"
    and "ha_decision a = Submit \<Longrightarrow> ha_answer a \<noteq> []"
    and "pub (j\<lparr>hi_response := Some (make_response now a j)\<rparr>) st = (Inr x, st')"
    and "insert_artifact x db = (Inr (), db1)"
  shows "\<exists>db'. accept_action now r a pub st db
    = (Inr (j\<lparr>hi_response := Some (make_response now a j)\<rparr>, True), st', db')"
  using assms by (simp add: accept_action_def Let_def)

definition demo_interaction :: human_interaction where
  "demo_interaction = \<lparr>hi_surface_id = ''surface_1'', hi_run_id = ''run_1'', hi_stage = PLANNING,
     hi_agent = ''plan-agent'', hi_task_id = ''t'', hi_context_id = ''c'',
     hi_prompt = \<lparr>hp_kind = Approval, hp_question = ''Approve?''\<rparr>, hi_artifact_id = ''art_1'',
     hi_artifact_sha256 = ''ab'', hi_version = 1, hi_messages = [], hi_response = None\<rparr>"

definition demo_action :: human_action where
  "demo_action = \<lparr>ha_action_id = ''a1'', ha_surface_id = ''surface_1'', ha_artifact_sha256 = ''ab'',
     ha_version = 1, ha_decision = Approve, ha_answer = []\<rparr>"

definition demo_publish :: "human_interaction \<Rightarrow> store \<Rightarrow> artifact_record result \<times> store" where
  "demo_publish i = write_artifact demo_env ''03'' 7
     (demo_request (hi_run_id i) (hi_stage i) HUMAN_RESPONSE ''intake-agent'' [])"

theorem answer_exactly_once_witness:
  "\<exists>db i st' db'. db_reachable demo_env db
     \<and> accept_action 7 ''run_1'' demo_action demo_publish (empty_store []) db = (Inr (i, True), st', db')
     \<and> accept_action 8 ''run_1'' demo_action demo_publish st' db' = (Inr (i, False), st', db')
     \<and> (\<exists>e. accept_action 9 ''run_1'' (demo_action\<lparr>ha_decision := Reject\<rparr>) demo_publish st' db'
          = (Inl e, st', db'))"
proof -
  obtain res db0 where c: "create_run demo_env 1 ''run_1'' ''idea'' empty_database = (res, db0)"
    by fastforce
  obtain run where res: "res = Inr run" using create_run_wf(3) [OF db_wf_empty c] by auto
  define db1 where "db1 = update_run 2 ''run_1'' INPUT_REQUIRED (Some PLANNING) None db0"
  define db2 where "db2 = db1\<lparr>db_human_interactions := [demo_interaction]\<rparr>"
  have none: "db_human_interactions db0 = []" "db_artifacts db0 = []"
    using c [unfolded res] by (auto simp: create_run_def empty_database_def Let_def
        split: if_splits sum.splits option.splits)
  have save: "save_interaction demo_interaction db1 = (Inr (), db2)"
    using none run_ids_create [OF c]
    by (simp add: save_interaction_def db1_def db2_def demo_interaction_def)
  have "(db_step demo_env)\<^sup>*\<^sup>* db0 db2"
    using step_update_run [of demo_env db0 2 "''run_1''" INPUT_REQUIRED "Some PLANNING" None]
      step_save_interaction [OF save, of demo_env] unfolding db1_def [symmetric] by simp
  then have reach: "db_reachable demo_env db2"
    using demo_run_reachable [OF c] unfolding db_reachable_def by simp
  let ?i = "demo_interaction\<lparr>hi_response := Some (make_response 7 demo_action demo_interaction)\<rparr>"
  obtain x st' where x: "demo_publish ?i (empty_store []) = (Inr x, st')"
    using write_artifact_plain [of "demo_request (hi_run_id ?i) (hi_stage ?i) HUMAN_RESPONSE ''intake-agent'' []"]
      demo_safe unfolding demo_publish_def by fastforce
  then have "md_workflow_run_id (ar_metadata x) = ''run_1''"
    unfolding demo_publish_def by (drule_tac write_artifact_metadata(1)) (simp add: demo_interaction_def)
  moreover have "db_artifacts db2 = []" "run_ids db2 = [''run_1'']"
    using none run_ids_create [OF c] by (simp_all add: db2_def db1_def) (simp add: update_run_def)
  ultimately obtain db3 where ins: "insert_artifact x db2 = (Inr (), db3)"
    by (simp add: insert_artifact_def)
  obtain row where row: "find_run db2 ''run_1'' = Some row" "rr_status row = INPUT_REQUIRED"
    using create_run_rows [OF c [unfolded res]]
    by (simp add: db2_def db1_def update_run_def find_run_def empty_database_def)
  obtain db' where first: "accept_action 7 ''run_1'' demo_action demo_publish (empty_store []) db2
      = (Inr (?i, True), st', db')"
    using accept_action_fresh [of demo_action "''run_1''" db2 demo_interaction row demo_publish 7
        "empty_store []" x st' db3] row x ins
    by (auto simp: db2_def demo_action_def demo_interaction_def)
  note law = answer_exactly_once [OF reach first rtranclp.rtrancl_refl]
  have "accept_action 8 ''run_1'' demo_action demo_publish st' db' = (Inr (?i, False), st', db')"
    using law by blast
  moreover have "\<exists>e. accept_action 9 ''run_1'' (demo_action\<lparr>ha_decision := Reject\<rparr>) demo_publish st' db'
      = (Inl e, st', db')"
  proof -
    have "ha_surface_id (demo_action\<lparr>ha_decision := Reject\<rparr>) = ha_surface_id demo_action
      \<and> demo_action\<lparr>ha_decision := Reject\<rparr> \<noteq> demo_action"
      by (simp add: demo_action_def)
    with law show ?thesis by blast
  qed
  ultimately show ?thesis using reach first by blast
qed

end
