(* ===== verification/Hub.thy ===== *)
theory Hub
  imports Database
begin

text \<open>
  The primitive operations of \<open>orchestration/workflow.py\<close>: the hub's state is the artifact store
  and the database; an operation is a function of that state that returns a result and the new
  state. Random identifiers and clock readings come from the environment, indexed by a counter
  that every use advances. The invariant \<open>hub_wf\<close> says that every indexed artifact lies intact
  in the store; every primitive keeps it while it works on a known run (\<open>hub_ok\<close>).
\<close>

section \<open>State and composition\<close>

record world =
  wd_py :: pyenv
  wd_uid :: "nat \<Rightarrow> string"
  wd_clock :: "nat \<Rightarrow> nat"

record hub =
  hb_store :: store
  hb_db :: database
  hb_tick :: nat

type_synonym 'a hub_op = "hub \<Rightarrow> 'a result \<times> hub"

definition hreturn :: "'a \<Rightarrow> 'a hub_op" where
  "hreturn x = (\<lambda>h. (Inr x, h))"

definition hraise :: "py_error \<Rightarrow> 'a hub_op" where
  "hraise e = (\<lambda>h. (Inl e, h))"

definition hbind :: "'a hub_op \<Rightarrow> ('a \<Rightarrow> 'b hub_op) \<Rightarrow> 'b hub_op" where
  "hbind m f = (\<lambda>h. case m h of (Inl e, h') \<Rightarrow> (Inl e, h') | (Inr x, h') \<Rightarrow> f x h')"

definition hlift :: "(hub \<Rightarrow> 'a result) \<Rightarrow> 'a hub_op" where
  "hlift f = (\<lambda>h. (f h, h))"

definition on_db :: "(nat \<Rightarrow> database \<Rightarrow> 'a result \<times> database) \<Rightarrow> world \<Rightarrow> 'a hub_op" where
  "on_db f W = (\<lambda>h. case f (wd_clock W (hb_tick h)) (hb_db h) of
     (r, db') \<Rightarrow> (r, h\<lparr>hb_db := db', hb_tick := hb_tick h + 1\<rparr>))"

lemma hbind_simps [simp]: "hbind (hreturn x) f = f x" "hbind (hraise e) f = hraise e"
  by (simp_all add: hbind_def hreturn_def hraise_def)

lemma hbind_Inr: "hbind m f h = (Inr y, h') \<longleftrightarrow> (\<exists>x h1. m h = (Inr x, h1) \<and> f x h1 = (Inr y, h'))"
  by (auto simp: hbind_def split: prod.splits sum.splits)

text \<open>An operation keeps a predicate when it does so whether it returns or raises.\<close>

definition keeps :: "(hub \<Rightarrow> bool) \<Rightarrow> 'a hub_op \<Rightarrow> bool" where
  "keeps P m \<longleftrightarrow> (\<forall>h r h'. P h \<longrightarrow> m h = (r, h') \<longrightarrow> P h')"

named_theorems keeps_intros "operations that keep the hub's invariant"

lemma keepsD: "keeps P m \<Longrightarrow> m h = (r, h') \<Longrightarrow> P h \<Longrightarrow> P h'"
  by (auto simp: keeps_def)

lemma keeps_hreturn [keeps_intros]: "keeps P (hreturn x)"
  by (simp add: keeps_def hreturn_def)

lemma keeps_hraise [keeps_intros]: "keeps P (hraise e)"
  by (simp add: keeps_def hraise_def)

lemma keeps_hlift [keeps_intros]: "keeps P (hlift f)"
  by (simp add: keeps_def hlift_def)

lemma keeps_hbind [keeps_intros]:
  assumes "keeps P m" and "\<And>x. keeps P (f x)"
  shows "keeps P (hbind m f)"
  unfolding keeps_def
proof (intro allI impI)
  fix h r h'
  assume h: "P h" and step: "hbind m f h = (r, h')"
  obtain y h1 where y: "m h = (y, h1)" by fastforce
  then have "P h1" using keepsD [OF assms(1)] h by blast
  with y step assms(2) show "P h'"
    by (cases y) (auto simp: hbind_def intro: keepsD)
qed

lemma keeps_if [keeps_intros]: "keeps P m \<Longrightarrow> keeps P n \<Longrightarrow> keeps P (if b then m else n)"
  by simp

lemma keeps_option [keeps_intros]:
  "keeps P m \<Longrightarrow> (\<And>x. keeps P (f x)) \<Longrightarrow> keeps P (case z of None \<Rightarrow> m | Some x \<Rightarrow> f x)"
  by (cases z) simp_all

lemma keeps_sum [keeps_intros]:
  "(\<And>e. keeps P (f e)) \<Longrightarrow> (\<And>x. keeps P (g x)) \<Longrightarrow> keeps P (case z of Inl e \<Rightarrow> f e | Inr x \<Rightarrow> g x)"
  by (cases z) simp_all

section \<open>Primitives\<close>

definition event :: "world \<Rightarrow> string \<Rightarrow> string \<Rightarrow> jdict \<Rightarrow> unit hub_op" where
  "event W run_id event_type payload =
     hbind (on_db (\<lambda>now. append_event now run_id event_type payload) W) (\<lambda>_. hreturn ())"

definition set_run :: "world \<Rightarrow> string \<Rightarrow> run_status \<Rightarrow> stage_name option \<Rightarrow> string option \<Rightarrow> unit hub_op" where
  "set_run W run_id status stage error =
     on_db (\<lambda>now db. (Inr (), update_run now run_id status stage error db)) W"

definition set_stage :: "world \<Rightarrow> string \<Rightarrow> stage_name \<Rightarrow> run_status \<Rightarrow> string option \<Rightarrow> unit hub_op" where
  "set_stage W run_id stage status error =
     on_db (\<lambda>now db. (Inr (), update_stage now run_id stage status error db)) W"

definition stage_started :: "world \<Rightarrow> string \<Rightarrow> stage_name \<Rightarrow> unit hub_op" where
  "stage_started W run_id stage = hbind (set_stage W run_id stage RUNNING None) (\<lambda>_.
     event W run_id ''stage.started'' [(''stage'', JStr (stage_value stage))])"

definition stage_completed :: "world \<Rightarrow> string \<Rightarrow> stage_name \<Rightarrow> unit hub_op" where
  "stage_completed W run_id stage = hbind (set_stage W run_id stage COMPLETED None) (\<lambda>_.
     event W run_id ''stage.completed'' [(''stage'', JStr (stage_value stage))])"

definition write_op :: "world \<Rightarrow> write_request \<Rightarrow> artifact_record hub_op" where
  "write_op W q = (\<lambda>h.
     case write_artifact (wd_py W) (wd_uid W (hb_tick h)) (wd_clock W (hb_tick h)) q (hb_store h) of
       (r, st') \<Rightarrow> (r, h\<lparr>hb_store := st', hb_tick := hb_tick h + 1\<rparr>))"

definition add_op :: "world \<Rightarrow> artifact_record \<Rightarrow> unit hub_op" where
  "add_op W a = (\<lambda>h. case add_artifact (wd_py W) (hb_store h) a (hb_db h) of
     (r, db') \<Rightarrow> (r, h\<lparr>hb_db := db'\<rparr>))"

text \<open>
  The pair of calls \<open>artifacts.write\<close>, \<open>database.add_artifact\<close> with no suspension point between
  them, in which every artifact of a run is published.
\<close>

definition publish :: "world \<Rightarrow> write_request \<Rightarrow> artifact_record hub_op" where
  "publish W q = hbind (write_op W q) (\<lambda>a. hbind (add_op W a) (\<lambda>_. hreturn a))"

definition artifact_context :: "world \<Rightarrow> string \<Rightarrow> artifact_view list hub_op" where
  "artifact_context W run_id = hlift (\<lambda>h.
     traverse (\<lambda>r. rbind (read_content (wd_py W) (hb_store h) r) (\<lambda>c.
         Inr \<lparr>av_metadata = ar_metadata r, av_content = c\<rparr>))
       (list_artifacts (hb_db h) run_id))"

section \<open>The invariant\<close>

text \<open>
  Every indexed artifact lies intact in the store under an identifier drawn earlier, and the
  truncated hashes that name project directories do not collide on the runs that exist.
\<close>

definition hub_wf :: "world \<Rightarrow> hub \<Rightarrow> bool" where
  "hub_wf W h \<longleftrightarrow> db_wf (hb_db h)
     \<and> hub.index_ok (wd_py W) (hb_store h) (db_artifacts (hb_db h))
     \<and> (\<forall>a \<in> set (db_artifacts (hb_db h)). \<exists>k < hb_tick h. md_artifact_id (ar_metadata a) = ''art_'' @ wd_uid W k)
     \<and> inj_on (project_id_for_run (wd_py W)) (set (run_ids (hb_db h)))"

text \<open>The hub relies on \<open>uuid4\<close> not to repeat.\<close>

definition good_world :: "world \<Rightarrow> bool" where
  "good_world W \<longleftrightarrow> inj (wd_uid W)"

text \<open>The invariant while one run executes.\<close>

definition hub_ok :: "world \<Rightarrow> string \<Rightarrow> hub \<Rightarrow> bool" where
  "hub_ok W r h \<longleftrightarrow> good_world W \<and> hub_wf W h \<and> r \<in> set (run_ids (hb_db h))"

lemma on_db_keeps [keeps_intros]:
  assumes "\<And>now db x db'. db_wf db \<Longrightarrow> r \<in> set (run_ids db) \<Longrightarrow> f now db = (x, db')
    \<Longrightarrow> db_wf db' \<and> db_artifacts db' = db_artifacts db \<and> run_ids db' = run_ids db"
  shows "keeps (hub_ok W r) (on_db f W')"
  unfolding keeps_def
proof (intro allI impI)
  fix h x h'
  assume wf: "hub_ok W r h" and step: "on_db f W' h = (x, h')"
  obtain db' where f: "f (wd_clock W' (hb_tick h)) (hb_db h) = (x, db')"
    "h' = h\<lparr>hb_db := db', hb_tick := hb_tick h + 1\<rparr>"
    using step by (auto simp: on_db_def split: prod.splits)
  have "db_wf db' \<and> db_artifacts db' = db_artifacts (hb_db h) \<and> run_ids db' = run_ids (hb_db h)"
    using assms f(1) wf unfolding hub_ok_def hub_wf_def by blast
  then show "hub_ok W r h'" using wf unfolding hub_ok_def hub_wf_def f(2)
    by (simp add: less_Suc_eq) blast
qed

lemma artifacts_frame [simp]:
  "db_artifacts (update_run now r s c e db) = db_artifacts db"
  "db_artifacts (update_stage now r g s e db) = db_artifacts db"
  by (simp_all add: update_run_def update_stage_def Let_def)

lemma append_event_frame:
  "append_event now r t p db = (res, db') \<Longrightarrow> db_artifacts db' = db_artifacts db \<and> run_ids db' = run_ids db"
  by (auto simp: append_event_def Let_def split: if_splits)

lemma event_keeps [keeps_intros]: "keeps (hub_ok W r) (event W' r' t p)"
  unfolding event_def by (intro keeps_intros) (auto dest: append_event_wf append_event_frame)

lemma set_run_keeps [keeps_intros]: "keeps (hub_ok W r) (set_run W' r' s g e)"
  unfolding set_run_def by (intro keeps_intros) (auto intro: update_run_wf)

lemma set_stage_keeps [keeps_intros]: "keeps (hub_ok W r) (set_stage W' r' g s e)"
  unfolding set_stage_def by (intro keeps_intros) (auto intro: update_stage_wf)

lemma stage_started_keeps [keeps_intros]: "keeps (hub_ok W r) (stage_started W' r' g)"
  unfolding stage_started_def by (intro keeps_intros)

lemma stage_completed_keeps [keeps_intros]: "keeps (hub_ok W r) (stage_completed W' r' g)"
  unfolding stage_completed_def by (intro keeps_intros)

lemma artifact_context_keeps [keeps_intros]: "keeps (hub_ok W r) (artifact_context W' r')"
  unfolding artifact_context_def by (intro keeps_intros)

section \<open>Publishing keeps the index readable\<close>

lemma deletes_row_displaces: "deletes_row m row \<longleftrightarrow> displaces E m (ar_metadata row)"
  by (auto simp: deletes_row_def displaces_def same_slot_def)

lemma good_worldD:
  "good_world W \<Longrightarrow> wd_uid W k = wd_uid W j \<longleftrightarrow> k = j"
  by (auto simp: good_world_def inj_eq)

text \<open>What \<open>add_artifact\<close> does with a record that was just written.\<close>

lemma add_written:
  assumes "write_artifact E uid now q st = (Inr a, st')"
    and "\<forall>x \<in> set (db_artifacts db). md_artifact_id (ar_metadata x) \<noteq> ''art_'' @ uid"
  shows "add_artifact E st' a db =
    (if wq_run_id q \<in> set (run_ids db)
     then (Inr (), db\<lparr>db_artifacts := filter (\<lambda>row. \<not> displaces E (ar_metadata a) (ar_metadata row))
                         (db_artifacts db) @ [a]\<rparr>)
     else (Inl (IntegrityError ''artifacts.run_id''), db))"
proof -
  have m: "md_artifact_id (ar_metadata a) = ''art_'' @ uid" "md_workflow_run_id (ar_metadata a) = wq_run_id q"
    using write_artifact_metadata(1) [OF assms(1)] by simp_all
  have "add_artifact E st' a db = insert_artifact a db"
    using read_written [OF assms(1)] by (simp add: add_artifact_def)
  also have "\<dots> = (if wq_run_id q \<in> set (run_ids db)
     then (Inr (), db\<lparr>db_artifacts := filter (\<lambda>row. \<not> displaces E (ar_metadata a) (ar_metadata row))
                         (db_artifacts db) @ [a]\<rparr>)
     else (Inl (IntegrityError ''artifacts.run_id''), db))"
    using assms(2) unfolding insert_artifact_def Let_def m deletes_row_displaces [of _ _ E]
    by (auto simp: image_iff)
  finally show ?thesis .
qed

lemma publish_cases:
  assumes "hub_wf W h" and "good_world W" and "wq_run_id q \<in> set (run_ids (hb_db h))"
    and "publish W q h = (res, h')"
  obtains (refused) e where "res = Inl e" "h' = h\<lparr>hb_tick := hb_tick h + 1\<rparr>"
      "write_artifact (wd_py W) (wd_uid W (hb_tick h)) (wd_clock W (hb_tick h)) q (hb_store h) = (Inl e, hb_store h)"
  | (published) a st' where "res = Inr a"
      "write_artifact (wd_py W) (wd_uid W (hb_tick h)) (wd_clock W (hb_tick h)) q (hb_store h) = (Inr a, st')"
      "h' = h\<lparr>hb_store := st', hb_tick := hb_tick h + 1,
              hb_db := (hb_db h)\<lparr>db_artifacts :=
                filter (\<lambda>row. \<not> displaces (wd_py W) (ar_metadata a) (ar_metadata row))
                  (db_artifacts (hb_db h)) @ [a]\<rparr>\<rparr>"
proof (cases "write_artifact (wd_py W) (wd_uid W (hb_tick h)) (wd_clock W (hb_tick h)) q (hb_store h)")
  case (Pair r st')
  show ?thesis
  proof (cases r)
    case (Inl e)
    then have "st' = hb_store h" using Pair write_artifact_error by blast
    with Pair Inl assms(4) show ?thesis by (intro refused) (auto simp: publish_def hbind_def write_op_def)
  next
    case (Inr a)
    note w = Pair [unfolded Inr]
    have fresh: "\<forall>x \<in> set (db_artifacts (hb_db h)). md_artifact_id (ar_metadata x) \<noteq> ''art_'' @ wd_uid W (hb_tick h)"
      using assms(1) good_worldD [OF assms(2)] unfolding hub_wf_def by (metis less_irrefl same_append_eq)
    from assms(3,4) w add_written [OF w fresh] show ?thesis
      by (intro published [of a st']) (auto simp: publish_def hbind_def write_op_def add_op_def hreturn_def)
  qed
qed

lemma publish_keeps [keeps_intros]:
  assumes run: "wq_run_id q = r"
  shows "keeps (hub_ok W r) (publish W q)"
  unfolding keeps_def
proof (intro allI impI)
  fix h :: hub and res h'
  let ?E = "wd_py W" and ?u = "wd_uid W (hb_tick h)" and ?n = "wd_clock W (hb_tick h)"
  assume ok: "hub_ok W r h" and p: "publish W q h = (res, h')"
  then have wf: "hub_wf W h" and good: "good_world W" and known: "wq_run_id q \<in> set (run_ids (hb_db h))"
    by (simp_all add: hub_ok_def run)
  have ids: "\<exists>k < Suc (hb_tick h). md_artifact_id (ar_metadata a) = ''art_'' @ wd_uid W k"
    if "a \<in> set (db_artifacts (hb_db h))" for a
    using that wf less_SucI unfolding hub_wf_def by blast
  have compat: "\<forall>x \<in> set (db_artifacts (hb_db h)). md_artifact_id (ar_metadata x) \<noteq> ''art_'' @ ?u
     \<and> (project_id_for_run ?E (md_workflow_run_id (ar_metadata x)) = project_id_for_run ?E (wq_run_id q)
        \<longrightarrow> md_workflow_run_id (ar_metadata x) = wq_run_id q)"
  proof (intro ballI conjI impI)
    fix x
    assume x: "x \<in> set (db_artifacts (hb_db h))"
    show "md_artifact_id (ar_metadata x) \<noteq> ''art_'' @ ?u"
      using x wf good_worldD [OF good] unfolding hub_wf_def by (metis less_irrefl same_append_eq)
    have "md_workflow_run_id (ar_metadata x) \<in> set (run_ids (hb_db h))"
      using x wf unfolding hub_wf_def db_wf_def by blast
    then show "project_id_for_run ?E (md_workflow_run_id (ar_metadata x)) = project_id_for_run ?E (wq_run_id q)
        \<Longrightarrow> md_workflow_run_id (ar_metadata x) = wq_run_id q"
      using wf known unfolding hub_wf_def by (blast dest: inj_onD)
  qed
  note keep = hub.index_ok_publish [where E = ?E and q = "(?u, ?n, q)" and s = "hb_store h"
      and rs = "db_artifacts (hb_db h)", unfolded split_conv]
  from wf good known p show "hub_ok W r h'"
  proof (cases rule: publish_cases)
    case (refused e)
    with ok ids show ?thesis by (simp add: hub_ok_def hub_wf_def)
  next
    case (published a st')
    let ?rows = "filter (\<lambda>row. \<not> displaces ?E (ar_metadata a) (ar_metadata row)) (db_artifacts (hb_db h)) @ [a]"
    have "hub.index_ok ?E st' ?rows"
      using keep [OF _ published(2) compat] wf write_artifact_metadata(1) [OF published(2)]
      unfolding hub_wf_def by auto
    moreover have "db_wf ((hb_db h)\<lparr>db_artifacts := ?rows\<rparr>)"
      using wf compat known write_artifact_metadata(1) [OF published(2)]
      unfolding hub_wf_def db_wf_def by (auto simp: distinct_map_filter_on)
    moreover have "\<exists>k < Suc (hb_tick h). md_artifact_id (ar_metadata a) = ''art_'' @ wd_uid W k"
      using write_artifact_metadata(1) [OF published(2)] by (intro exI [of _ "hb_tick h"]) simp
    ultimately show ?thesis using ids ok unfolding hub_ok_def hub_wf_def published(3) by auto
  qed
qed

lemma artifact_context_readable:
  assumes "hub_wf W h"
  shows "\<exists>views. artifact_context W run h = (Inr views, h)
    \<and> map av_metadata views = map ar_metadata (list_artifacts (hb_db h) run)"
proof -
  let ?view = "\<lambda>r. rbind (read_content (wd_py W) (hb_store h) r) (\<lambda>c.
         Inr \<lparr>av_metadata = ar_metadata r, av_content = c\<rparr>)"
  have "\<exists>views. traverse ?view rs = Inr views \<and> map av_metadata views = map ar_metadata rs"
    if "set rs \<subseteq> set (db_artifacts (hb_db h))" for rs
    using that
  proof (induction rs)
    case (Cons r rs)
    have "linked (wd_py W) (hb_store h) r"
      using assms Cons.prems unfolding hub_wf_def hub.index_ok_def by simp
    from linked_readable [OF this] obtain c where "read_content (wd_py W) (hb_store h) r = Inr c" ..
    moreover from Cons obtain views where "traverse ?view rs = Inr views"
      "map av_metadata views = map ar_metadata rs" by auto
    ultimately show ?case by (simp add: exI [of _ "_ # views"])
  qed simp
  from this [of "list_artifacts (hb_db h) run"] show ?thesis
    by (auto simp: artifact_context_def hlift_def list_artifacts_def)
qed


section \<open>Invariants of one run's operations\<close>

text \<open>
  Whatever the hub does for a run it does through four operations of the database and the
  publication of artifacts. A predicate that these keep is kept by everything composed from them;
  the composites are treated once, here and in the locales that extend this one, for every such
  predicate.
\<close>

locale hub_invariant =
  fixes W :: world and r :: string and P :: "hub \<Rightarrow> bool"
  assumes event_inv [keeps_intros]: "keeps P (event W r t p)"
    and set_run_inv [keeps_intros]: "keeps P (set_run W r s g e)"
    and set_stage_inv [keeps_intros]: "keeps P (set_stage W r stage s e)"
    and publish_inv [keeps_intros]: "wq_run_id q = r \<Longrightarrow> keeps P (publish W q)"
begin

lemma stage_started_inv [keeps_intros]: "keeps P (stage_started W r g)"
  unfolding stage_started_def by (intro keeps_intros)

lemma stage_completed_inv [keeps_intros]: "keeps P (stage_completed W r g)"
  unfolding stage_completed_def by (intro keeps_intros)

lemma artifact_context_inv [keeps_intros]: "keeps P (artifact_context W r')"
  unfolding artifact_context_def by (intro keeps_intros)

end

interpretation ok: hub_invariant W r "hub_ok W r" for W r
  by unfold_locales (intro keeps_intros; simp)+

text \<open>A concrete world and hub, shared by the witnesses.\<close>

definition demo_world :: world where
  "demo_world = \<lparr>wd_py = demo_env, wd_uid = (\<lambda>k. replicate k CHR ''a''), wd_clock = (\<lambda>k. k)\<rparr>"

definition demo_hub :: hub where
  "demo_hub = \<lparr>hb_store = empty_store [],
     hb_db = snd (create_run demo_env 1 ''run_1'' ''idea'' empty_database), hb_tick = 0\<rparr>"

lemma demo_good: "good_world demo_world"
  by (auto simp: good_world_def demo_world_def inj_def dest: arg_cong [of _ _ length])

lemma demo_created: "\<exists>run. create_run demo_env 1 ''run_1'' ''idea'' empty_database = (Inr run, hb_db demo_hub)"
proof -
  obtain res db where c: "create_run demo_env 1 ''run_1'' ''idea'' empty_database = (res, db)"
    by fastforce
  with create_run_wf(3) [OF db_wf_empty c] show ?thesis by (auto simp: demo_hub_def)
qed

lemma demo_hub_runs: "run_ids (hb_db demo_hub) = [''run_1'']"
  using demo_created by (auto dest: run_ids_create)

lemma demo_hub_artifacts: "db_artifacts (hb_db demo_hub) = []"
proof -
  have "create_run E now r idea db = (res, db') \<Longrightarrow> db_artifacts db' = db_artifacts db" for E now r idea db res db'
    by (auto simp: create_run_def Let_def split: if_splits sum.splits option.splits)
  with demo_created show ?thesis by (force simp: empty_database_def)
qed

lemma demo_hub_wf: "hub_wf demo_world demo_hub"
proof -
  have "db_wf (hb_db demo_hub)" using demo_created create_run_wf(1) [OF db_wf_empty] by blast
  then show ?thesis by (simp add: hub_wf_def demo_hub_artifacts demo_hub_runs hub.index_ok_def)
qed

lemma demo_hub_ok: "hub_ok demo_world ''run_1'' demo_hub"
  by (simp add: hub_ok_def demo_good demo_hub_wf demo_hub_runs)


text \<open>
  A publisher that was overtaken cannot index a stale snapshot. If a second write replaces
  the first one's snapshot slot, or invalidates its kind, before the first is indexed, then
  whatever happened to the database in between, indexing the first record is refused and the
  database stays as it was.
\<close>

theorem overtaken_publisher_refused:
  assumes a: "write_artifact E u1 t1 q1 st = (Inr a, st1)"
    and b: "write_artifact E u2 t2 q2 st1 = (Inr b, st2)"
    and ids: "u1 \<noteq> u2" and run: "wq_run_id q2 = wq_run_id q1"
    and snap: "is_snapshot (wq_kind q1) (wq_producing_agent q1)" "is_snapshot (wq_kind q2) (wq_producing_agent q2)"
    and over: "wq_kind q1 \<in> set (invalidated_kinds (wq_kind q2))
      \<or> wq_stage q1 = wq_stage q2 \<and> wq_kind q1 = wq_kind q2 \<and> wq_producing_agent q1 = wq_producing_agent q2"
  shows "\<exists>e. add_artifact E st2 a db = (Inl e, db)"
proof -
  note ma = write_artifact_metadata [OF a] and mb = write_artifact_metadata [OF b]
  have "\<exists>e. read_content E st2 a = Inl e"
  proof (cases "ar_content_path a = ar_content_path b")
    case True
    with write_artifact_dirs_dest [OF b] ma mb ids show ?thesis by (auto simp: read_content_def)
  next
    case False
    have "destination E st (make_metadata E u1 t1 q1) = destination E st (make_metadata E u2 t2 q2)
        \<or> wq_kind q1 \<in> set (invalidated_kinds (wq_kind q2))"
      using over snap run by (auto simp: destination_def Let_def)
    then have inv: "wq_kind q1 \<in> set (invalidated_kinds (wq_kind q2))"
      using False ma(2) mb(2) destination_eq [OF write_artifact_root [OF a]] by auto
    obtain d where d: "st_dirs st1 (ar_content_path a) = Some d" "ad_manifest d = Some (ar_metadata a)"
      using write_artifact_dirs_dest [OF a] by blast
    have "in_current (project_path E st1 (wq_run_id q2)) (ar_content_path a)"
      unfolding ma(2) destination_eq [OF write_artifact_root [OF a], symmetric] in_current_destination
      using snap run by simp
    then have "st_dirs st2 (ar_content_path a) = None"
      using write_artifact_dirs_other [OF b False] snap inv d ma(1)
      by (simp add: remove_invalidated_def manifest_kind_def)
    then show ?thesis by (simp add: read_content_def)
  qed
  then show ?thesis using ma(1) snap by (auto simp: add_artifact_def)
qed

theorem overtaken_publisher_refused_witness:
  "\<exists>a b st1 st2 e. write_artifact demo_env ''01'' 1 demo_spec (empty_store []) = (Inr a, st1)
     \<and> write_artifact demo_env ''02'' 2 demo_spec st1 = (Inr b, st2)
     \<and> add_artifact demo_env st2 a (hb_db demo_hub) = (Inl e, hb_db demo_hub)"
proof -
  obtain a st1 where w1: "write_artifact demo_env ''01'' 1 demo_spec (empty_store []) = (Inr a, st1)"
    using write_artifact_plain [of demo_spec demo_env "''01''" 1 "empty_store []"] demo_safe by auto
  obtain b st2 where w2: "write_artifact demo_env ''02'' 2 demo_spec st1 = (Inr b, st2)"
    using write_artifact_plain [of demo_spec demo_env "''02''" 2 st1] demo_safe by auto
  have "is_snapshot REQUIREMENTS_SPEC ''requirements-agent''"
    by (simp add: is_snapshot_def SNAPSHOT_KINDS_def)
  then obtain e where "add_artifact demo_env st2 a (hb_db demo_hub) = (Inl e, hb_db demo_hub)"
    using overtaken_publisher_refused [OF w1 w2, of "hb_db demo_hub"] by auto
  with w1 w2 show ?thesis by auto
qed

end
