(* ===== verification/Catalog.thy ===== *)
theory Catalog
  imports Snapshots
begin

text \<open>
  \<open>agents/catalog.py\<close>: the specialists, the stage and the artifact kind of each, and the artifacts
  each one may read. The lemmas check the table as a pipeline: what an agent requires is
  produced before its stage, and what it publishes does not invalidate what the agents of the
  same stage require.
\<close>

section \<open>Contracts\<close>

record artifact_input =
  ai_kind :: artifact_kind
  ai_producer :: "string option"
  ai_required :: bool
  ai_fallback_kind :: "artifact_kind option"

record agent_spec =
  sp_name :: string
  sp_stage :: stage_name
  sp_artifact_kind :: artifact_kind
  sp_inputs :: "artifact_input list"
  sp_include_idea :: bool
  sp_context_contract_version :: string
  sp_prompt_version :: string
  sp_cacheable :: bool

definition CONTEXT_CONTRACT_VERSION :: string where
  "CONTEXT_CONTRACT_VERSION = ''aidlc-context-v3''"

definition GOAL_VERSION :: string where
  "GOAL_VERSION = ''aidlc-agent-goals-v4''"

definition agent_input :: "artifact_kind \<Rightarrow> string option \<Rightarrow> bool \<Rightarrow> artifact_kind option \<Rightarrow> artifact_input" where
  "agent_input kind producer required fallback_kind =
     \<lparr>ai_kind = kind, ai_producer = producer, ai_required = required,
      ai_fallback_kind = fallback_kind\<rparr>"

section \<open>The table\<close>

definition ROLES :: "(string \<times> stage_name \<times> artifact_kind) list" where
  "ROLES =
    [(''intake-agent'', INTAKE, PROJECT_BRIEF),
     (''requirements-agent'', REQUIREMENTS, REQUIREMENTS_SPEC),
     (''architecture-agent'', DISCOVERY, ARCHITECTURE_DECISION),
     (''ux-agent'', DISCOVERY, UX_SPECIFICATION),
     (''security-agent'', DISCOVERY, THREAT_MODEL),
     (''test-planner-agent'', DISCOVERY, TEST_PLAN),
     (''planning-agent'', PLANNING, IMPLEMENTATION_PLAN),
     (''backend-agent'', IMPLEMENTATION, CODE_CHANGE),
     (''frontend-agent'', IMPLEMENTATION, CODE_CHANGE),
     (''test-agent'', IMPLEMENTATION, CODE_CHANGE),
     (''build-agent'', INTEGRATION, BUILD_REPORT),
     (''validation-agent'', INTEGRATION, TEST_REPORT),
     (''static-analysis-agent'', INTEGRATION, STATIC_ANALYSIS_REPORT),
     (''evaluation-agent'', EVALUATION, EVALUATION_REPORT),
     (''release-agent'', RELEASE, RELEASE_BUNDLE)]"

definition INPUTS :: "(string \<times> artifact_input list) list" where
  "INPUTS =
    [(''intake-agent'',
       [agent_input PROJECT_BRIEF (Some ''intake-agent'') False None,
        agent_input HUMAN_RESPONSE None False None]),
     (''requirements-agent'',
       [agent_input PROJECT_BRIEF None True None,
        agent_input HUMAN_RESPONSE None False None]),
     (''architecture-agent'',
       [agent_input PROJECT_BRIEF None True None,
        agent_input REQUIREMENTS_SPEC None True None]),
     (''ux-agent'',
       [agent_input PROJECT_BRIEF None True None,
        agent_input REQUIREMENTS_SPEC None True None]),
     (''security-agent'',
       [agent_input PROJECT_BRIEF None True None,
        agent_input REQUIREMENTS_SPEC None True None]),
     (''test-planner-agent'',
       [agent_input PROJECT_BRIEF None True None,
        agent_input REQUIREMENTS_SPEC None True None]),
     (''planning-agent'',
       [agent_input REQUIREMENTS_SPEC None True None,
        agent_input ARCHITECTURE_DECISION None True None,
        agent_input UX_SPECIFICATION None True None,
        agent_input THREAT_MODEL None True None,
        agent_input TEST_PLAN None True None]),
     (''backend-agent'',
       [agent_input REQUIREMENTS_SPEC None True None,
        agent_input ARCHITECTURE_DECISION None True None,
        agent_input IMPLEMENTATION_PLAN None True None,
        agent_input INTEGRATED_SOURCE None False None,
        agent_input CODE_CHANGE (Some ''backend-agent'') False None]),
     (''frontend-agent'',
       [agent_input REQUIREMENTS_SPEC None True None,
        agent_input ARCHITECTURE_DECISION None True None,
        agent_input UX_SPECIFICATION None True None,
        agent_input IMPLEMENTATION_PLAN None True None,
        agent_input INTEGRATED_SOURCE None False None,
        agent_input CODE_CHANGE (Some ''frontend-agent'') False None]),
     (''test-agent'',
       [agent_input REQUIREMENTS_SPEC None True None,
        agent_input TEST_PLAN None True None,
        agent_input IMPLEMENTATION_PLAN None True None,
        agent_input INTEGRATED_SOURCE None False None,
        agent_input CODE_CHANGE (Some ''test-agent'') False None]),
     (''build-agent'',
       [agent_input INTEGRATED_SOURCE None False (Some CODE_CHANGE)]),
     (''validation-agent'',
       [agent_input REQUIREMENTS_SPEC None True None,
        agent_input TEST_PLAN None True None,
        agent_input INTEGRATED_SOURCE None False (Some CODE_CHANGE)]),
     (''static-analysis-agent'',
       [agent_input INTEGRATED_SOURCE None False (Some CODE_CHANGE)]),
     (''evaluation-agent'',
       [agent_input REQUIREMENTS_SPEC None True None,
        agent_input ARCHITECTURE_DECISION None True None,
        agent_input UX_SPECIFICATION None True None,
        agent_input THREAT_MODEL None True None,
        agent_input TEST_PLAN None True None,
        agent_input INTEGRATED_SOURCE None False None,
        agent_input BUILD_REPORT None True None,
        agent_input TEST_REPORT None True None,
        agent_input BUILD_REPORT (Some ''trusted-sandbox-service'') False None,
        agent_input TEST_REPORT (Some ''trusted-sandbox-service'') False None,
        agent_input STATIC_ANALYSIS_REPORT None True None,
        agent_input QUALITY_GATE_REPORT None True None]),
     (''release-agent'',
       [agent_input INTEGRATED_SOURCE None False None,
        agent_input QUALITY_GATE_REPORT None True None,
        agent_input EVALUATION_REPORT None True None,
        agent_input HUMAN_RESPONSE None False None])]"

definition IDEA_AGENTS :: "string list" where
  "IDEA_AGENTS = [''intake-agent'', ''requirements-agent'']"

definition AGENT_SPECS :: "agent_spec list" where
  "AGENT_SPECS = map (\<lambda>(name, stage, kind).
     \<lparr>sp_name = name, sp_stage = stage, sp_artifact_kind = kind,
      sp_inputs = the (map_of INPUTS name),
      sp_include_idea = name \<in> set IDEA_AGENTS,
      sp_context_contract_version = CONTEXT_CONTRACT_VERSION,
      sp_prompt_version = GOAL_VERSION,
      sp_cacheable = name \<noteq> ''intake-agent''\<rparr>) ROLES"

definition AGENTS_BY_STAGE :: "stage_name \<Rightarrow> agent_spec list" where
  "AGENTS_BY_STAGE stage =
     (if stage = PREFLIGHT then [] else filter (\<lambda>spec. sp_stage spec = stage) AGENT_SPECS)"

section \<open>The table as a pipeline\<close>

lemma spec_simps [simp]:
  "map sp_stage AGENT_SPECS = map (\<lambda>(n, s, k). s) ROLES"
  "map sp_artifact_kind AGENT_SPECS = map (\<lambda>(n, s, k). k) ROLES"
  "map sp_name AGENT_SPECS = map fst ROLES"
  by (simp_all add: AGENT_SPECS_def split_beta comp_def)

lemma specs_ball:
  "(\<forall>s \<in> set AGENT_SPECS. P (sp_name s) (sp_stage s) (sp_artifact_kind s) (sp_inputs s))
   \<longleftrightarrow> (\<forall>(n, s, k) \<in> set ROLES. P n s k (the (map_of INPUTS n)))"
  by (auto simp: AGENT_SPECS_def)

lemma specs_bex:
  "(\<exists>s \<in> set AGENT_SPECS. P (sp_name s) (sp_stage s) (sp_artifact_kind s) (sp_inputs s))
   \<longleftrightarrow> (\<exists>(n, s, k) \<in> set ROLES. P n s k (the (map_of INPUTS n)))"
  by (force simp: AGENT_SPECS_def)

lemma distinct_spec_names: "distinct (map sp_name AGENT_SPECS)"
  by (simp add: ROLES_def)

lemma stage_kind_rank:
  "(n, s, k) \<in> set ROLES \<Longrightarrow> group_rank k = Some (if s \<le> PLANNING then stage_index s - 1
     else if s = IMPLEMENTATION then 4 else if s = INTEGRATION then 6 else if s = EVALUATION then 8 else 9)
   \<and> INTAKE \<le> s"
  unfolding ROLES_def by (auto simp: less_eq_stage_name_def)


lemma spec_role: "s \<in> set AGENT_SPECS \<Longrightarrow> (sp_name s, sp_stage s, sp_artifact_kind s) \<in> set ROLES"
  by (auto simp: AGENT_SPECS_def)

lemma spec_inputs: "s \<in> set AGENT_SPECS \<Longrightarrow> sp_inputs s = the (map_of INPUTS (sp_name s))"
  by (auto simp: AGENT_SPECS_def)

lemma invalidates_later_stages:
  assumes "s \<in> set AGENT_SPECS" and "t \<in> set AGENT_SPECS"
  shows "sp_artifact_kind t \<in> set (invalidated_kinds (sp_artifact_kind s)) \<longleftrightarrow> sp_stage s < sp_stage t"
  using stage_kind_rank [OF spec_role [OF assms(1)]] stage_kind_rank [OF spec_role [OF assms(2)]]
  by (cases "sp_stage s"; cases "sp_stage t")
    (simp_all add: invalidated_kinds_iff less_eq_stage_name_def less_stage_name_def)

text \<open>The kinds an agent requires, by name, read off the table.\<close>

definition required_kinds :: "string \<Rightarrow> artifact_kind list" where
  "required_kinds name = map ai_kind (filter ai_required (the (map_of INPUTS name)))"

lemma required_kinds_table:
  "map (\<lambda>(n, s, k). required_kinds n) ROLES =
    [[], [PROJECT_BRIEF],
     [PROJECT_BRIEF, REQUIREMENTS_SPEC], [PROJECT_BRIEF, REQUIREMENTS_SPEC],
     [PROJECT_BRIEF, REQUIREMENTS_SPEC], [PROJECT_BRIEF, REQUIREMENTS_SPEC],
     [REQUIREMENTS_SPEC, ARCHITECTURE_DECISION, UX_SPECIFICATION, THREAT_MODEL, TEST_PLAN],
     [REQUIREMENTS_SPEC, ARCHITECTURE_DECISION, IMPLEMENTATION_PLAN],
     [REQUIREMENTS_SPEC, ARCHITECTURE_DECISION, UX_SPECIFICATION, IMPLEMENTATION_PLAN],
     [REQUIREMENTS_SPEC, TEST_PLAN, IMPLEMENTATION_PLAN],
     [], [REQUIREMENTS_SPEC, TEST_PLAN], [],
     [REQUIREMENTS_SPEC, ARCHITECTURE_DECISION, UX_SPECIFICATION, THREAT_MODEL, TEST_PLAN,
      BUILD_REPORT, TEST_REPORT, STATIC_ANALYSIS_REPORT, QUALITY_GATE_REPORT],
     [QUALITY_GATE_REPORT, EVALUATION_REPORT]]"
  unfolding ROLES_def required_kinds_def INPUTS_def by (simp add: agent_input_def)

lemma required_rank:
  assumes "(n, s, k) \<in> set ROLES" and "j \<in> set (required_kinds n)"
  shows "(\<exists>(m, s', k') \<in> set ROLES. k' = j \<and> s' < s) \<or> j = QUALITY_GATE_REPORT \<and> EVALUATION \<le> s"
proof -
  have "\<forall>((n, s, k), js) \<in> set (zip ROLES (map (\<lambda>(n, s, k). required_kinds n) ROLES)).
      \<forall>j \<in> set js. (\<exists>(m, s', k') \<in> set ROLES. k' = j \<and> s' < s) \<or> j = QUALITY_GATE_REPORT \<and> EVALUATION \<le> s"
    unfolding required_kinds_table
    by (simp add: ROLES_def less_stage_name_def less_eq_stage_name_def)
  moreover have "((n, s, k), required_kinds n) \<in> set (zip ROLES (map (\<lambda>(n, s, k). required_kinds n) ROLES))"
  proof -
    have "zip ROLES (map (\<lambda>(n, s, k). required_kinds n) ROLES)
        = map (\<lambda>x. (x, case x of (n, s, k) \<Rightarrow> required_kinds n)) ROLES"
      by (auto simp: zip_map2 zip_same_conv_map)
    then show ?thesis using assms(1) by force
  qed
  ultimately show ?thesis using assms(2) by fastforce
qed

text \<open>
  The agent table is a pipeline. A kind that an agent requires is published by an agent of
  an earlier stage or is the gate report the hub publishes when evaluation starts; an agent's
  output invalidates another agent's output exactly when the other's stage is later, so agents
  of one stage never invalidate each other and repeating a stage discards everything after it;
  and no agent invalidates a kind that an agent of its own or an earlier stage requires.
\<close>

theorem agent_table_is_pipeline:
  assumes "s \<in> set AGENT_SPECS" and "t \<in> set AGENT_SPECS" and "i \<in> set (sp_inputs t)" and "ai_required i"
  shows "((\<exists>u \<in> set AGENT_SPECS. sp_artifact_kind u = ai_kind i \<and> sp_stage u < sp_stage t)
      \<or> ai_kind i = QUALITY_GATE_REPORT \<and> EVALUATION \<le> sp_stage t)
    \<and> (sp_artifact_kind t \<in> set (invalidated_kinds (sp_artifact_kind s)) \<longleftrightarrow> sp_stage s < sp_stage t)
    \<and> (ai_kind i \<in> set (invalidated_kinds (sp_artifact_kind s)) \<longrightarrow> sp_stage s < sp_stage t)"
proof -
  have "ai_kind i \<in> set (required_kinds (sp_name t))"
    using assms(3,4) spec_inputs [OF assms(2)] by (auto simp: required_kinds_def)
  from required_rank [OF spec_role [OF assms(2)] this]
  have source: "(\<exists>u \<in> set AGENT_SPECS. sp_artifact_kind u = ai_kind i \<and> sp_stage u < sp_stage t)
      \<or> ai_kind i = QUALITY_GATE_REPORT \<and> EVALUATION \<le> sp_stage t"
    using specs_bex [of "\<lambda>n s k x. k = ai_kind i \<and> s < sp_stage t"] by fastforce
  have "sp_stage s < sp_stage t" if inv: "ai_kind i \<in> set (invalidated_kinds (sp_artifact_kind s))"
    using source
  proof
    assume "\<exists>u \<in> set AGENT_SPECS. sp_artifact_kind u = ai_kind i \<and> sp_stage u < sp_stage t"
    then obtain u where "u \<in> set AGENT_SPECS" "sp_artifact_kind u = ai_kind i" "sp_stage u < sp_stage t"
      by blast
    with invalidates_later_stages [OF assms(1)] inv show ?thesis by fastforce
  next
    assume "ai_kind i = QUALITY_GATE_REPORT \<and> EVALUATION \<le> sp_stage t"
    with inv stage_kind_rank [OF spec_role [OF assms(1)]] show ?thesis
      by (cases "sp_stage s"; cases "sp_stage t")
        (simp_all add: invalidated_kinds_iff less_eq_stage_name_def less_stage_name_def)
  qed
  with source invalidates_later_stages [OF assms(1,2)] show ?thesis by blast
qed

lemma requirements_spec_in:
  "\<exists>t \<in> set AGENT_SPECS. sp_stage t = REQUIREMENTS \<and> sp_artifact_kind t = REQUIREMENTS_SPEC
     \<and> agent_input PROJECT_BRIEF None True None \<in> set (sp_inputs t)"
proof -
  have "(\<exists>(n, s, k) \<in> set ROLES. s = REQUIREMENTS \<and> k = REQUIREMENTS_SPEC
      \<and> agent_input PROJECT_BRIEF None True None \<in> set (the (map_of INPUTS n)))"
    by (simp add: ROLES_def INPUTS_def)
  with specs_bex [of "\<lambda>n s k x. s = REQUIREMENTS \<and> k = REQUIREMENTS_SPEC
      \<and> agent_input PROJECT_BRIEF None True None \<in> set x"] show ?thesis by simp
qed

theorem agent_table_is_pipeline_witness:
  "\<exists>t \<in> set AGENT_SPECS. sp_stage t = REQUIREMENTS \<and> ai_required (agent_input PROJECT_BRIEF None True None)
     \<and> (\<exists>u \<in> set AGENT_SPECS. sp_artifact_kind u = PROJECT_BRIEF \<and> sp_stage u < sp_stage t)"
proof -
  obtain t where t: "t \<in> set AGENT_SPECS" "sp_stage t = REQUIREMENTS"
    "agent_input PROJECT_BRIEF None True None \<in> set (sp_inputs t)" using requirements_spec_in by blast
  have req: "ai_required (agent_input PROJECT_BRIEF None True None)"
    "ai_kind (agent_input PROJECT_BRIEF None True None) = PROJECT_BRIEF" by (simp_all add: agent_input_def)
  from agent_table_is_pipeline [OF t(1,1,3) req(1), THEN conjunct1] req(2)
  have "\<exists>u \<in> set AGENT_SPECS. sp_artifact_kind u = PROJECT_BRIEF \<and> sp_stage u < sp_stage t" by simp
  with t(1,2) req(1) show ?thesis by blast
qed

end
