(* ===== verification/Evaluation.thy ===== *)
theory Evaluation
  imports Domain
begin

text \<open>
  \<open>evaluation/models.py\<close>: the quality gate report, the rubric evaluation with its overall score,
  and the decision that ends or repeats the repair loop. Scores are Python floats, represented
  by the rationals they denote; \<open>double\<close> rounds to the nearest binary64 value (ties to even), as
  \<open>fsum\<close> and the division in \<open>fmean\<close> do. The range needed here lies below \<open>2 ^ 53\<close>.
\<close>

section \<open>Rounding to binary64\<close>

definition round_half_even :: "rat \<Rightarrow> int" where
  "round_half_even q =
     (let n = \<lfloor>q\<rfloor>; r = q - of_int n in
      if r < 1 / 2 then n else if 1 / 2 < r then n + 1 else if even n then n else n + 1)"

text \<open>The least scale, at most that of the subnormals, at which a value has 53 integer bits.\<close>

function grid :: "rat \<Rightarrow> nat \<Rightarrow> nat" where
  "grid q k = (if 1074 \<le> k \<or> 2 ^ 52 \<le> q * 2 ^ k then k else grid q (k + 1))"
  by auto
termination by (relation "measure (\<lambda>(q, k). 1074 - k)") auto

declare grid.simps [simp del]

definition double :: "rat \<Rightarrow> rat" where
  "double q = of_int (round_half_even (q * 2 ^ grid q 0)) / 2 ^ grid q 0"

lemma round_half_even_bounds:
  shows "q \<le> of_int n \<Longrightarrow> round_half_even q \<le> n"
    and "of_int n \<le> q \<Longrightarrow> n \<le> round_half_even q"
proof -
  show "round_half_even q \<le> n" if le: "q \<le> of_int n"
  proof (cases "\<lfloor>q\<rfloor> = n")
    case True
    then have "q = of_int n" using le floor_correct [of q] by linarith
    then show ?thesis by (simp add: round_half_even_def Let_def)
  next
    case False
    then have "\<lfloor>q\<rfloor> + 1 \<le> n" using le by linarith
    then show ?thesis by (simp add: round_half_even_def Let_def)
  qed
  show "n \<le> round_half_even q" if "of_int n \<le> q"
    using that by (auto simp: round_half_even_def Let_def le_floor_iff add_increasing2)
qed

text \<open>Rounding never crosses an integer.\<close>

lemma double_bounds:
  shows "q \<le> of_int n \<Longrightarrow> double q \<le> of_int n"
    and "of_int n \<le> q \<Longrightarrow> of_int n \<le> double q"
proof -
  let ?p = "2 ^ grid q 0 :: int"
  have p: "(0 :: rat) < 2 ^ grid q 0" by simp
  show "double q \<le> of_int n" if "q \<le> of_int n"
  proof -
    have "q * 2 ^ grid q 0 \<le> of_int (n * ?p)" using that by simp
    then have "round_half_even (q * 2 ^ grid q 0) \<le> n * ?p" by (rule round_half_even_bounds)
    then have "(of_int (round_half_even (q * 2 ^ grid q 0)) :: rat) \<le> of_int (n * ?p)"
      by (simp only: of_int_le_iff)
    then show ?thesis using p by (simp add: double_def pos_divide_le_eq)
  qed
  show "of_int n \<le> double q" if "of_int n \<le> q"
  proof -
    have "of_int (n * ?p) \<le> q * 2 ^ grid q 0" using that by simp
    then have "n * ?p \<le> round_half_even (q * 2 ^ grid q 0)" by (rule round_half_even_bounds)
    then have "of_int (n * ?p) \<le> (of_int (round_half_even (q * 2 ^ grid q 0)) :: rat)"
      by (simp only: of_int_le_iff)
    then show ?thesis using p by (simp add: double_def pos_le_divide_eq)
  qed
qed

section \<open>Gate reports\<close>

datatype gate_status = Passed | Failed | Not_executed

fun gate_status_value :: "gate_status \<Rightarrow> string" where
  "gate_status_value Passed = ''passed''"
| "gate_status_value Failed = ''failed''"
| "gate_status_value Not_executed = ''not_executed''"

record quality_gate =
  qg_name :: string
  qg_status :: gate_status
  qg_detail :: string
  qg_evidence_artifact_ids :: "string list"

datatype verdict = V_passed | V_failed | V_blocked

fun verdict_value :: "verdict \<Rightarrow> string" where
  "verdict_value V_passed = ''passed''"
| "verdict_value V_failed = ''failed''"
| "verdict_value V_blocked = ''blocked''"

record quality_gate_report =
  qr_profile :: string
  qr_run_id :: string
  qr_repair_attempt :: nat
  qr_verdict :: verdict
  qr_gates :: "quality_gate list"
  qr_source_artifact_ids :: "string list"
  qr_deferred_checks :: "string list"

definition default_deferred_checks :: "string list" where
  "default_deferred_checks =
    [''type checking'', ''integration and browser tests'', ''dependency and security scanning'',
     ''requirement-to-test coverage'', ''runsc/Kata comparison'']"

definition gate_dump :: "quality_gate \<Rightarrow> json" where
  "gate_dump g = JObj
    [(''name'', JStr (qg_name g)), (''status'', JStr (gate_status_value (qg_status g))),
     (''detail'', JStr (qg_detail g)),
     (''evidence_artifact_ids'', jstrs (qg_evidence_artifact_ids g))]"

definition gate_report_dump :: "quality_gate_report \<Rightarrow> jdict" where
  "gate_report_dump r =
    [(''profile'', JStr (qr_profile r)), (''run_id'', JStr (qr_run_id r)),
     (''repair_attempt'', JInt (int (qr_repair_attempt r))),
     (''verdict'', JStr (verdict_value (qr_verdict r))),
     (''gates'', JArr (map gate_dump (qr_gates r))),
     (''source_artifact_ids'', jstrs (qr_source_artifact_ids r)),
     (''deferred_checks'', jstrs (qr_deferred_checks r))]"

section \<open>Evaluations\<close>

record rubric_score =
  rb_applicable :: bool
  rb_score :: "rat option"
  rb_rationale :: string
  rb_evidence_artifact_ids :: "string list"

definition rubric_valid :: "rubric_score \<Rightarrow> bool" where
  "rubric_valid r \<longleftrightarrow>
     (case rb_score r of None \<Rightarrow> \<not> rb_applicable r | Some s \<Rightarrow> rb_applicable r \<and> 0 \<le> s \<and> s \<le> 1)
     \<and> 3 \<le> length (rb_rationale r) \<and> length (rb_rationale r) \<le> 2000
     \<and> length (rb_evidence_artifact_ids r) \<le> 50"

record evaluation_report =
  er_evaluated :: bool
  er_requirement_coverage :: "rubric_score option"
  er_mvp_completeness :: "rubric_score option"
  er_usability :: "rubric_score option"
  er_architecture :: "rubric_score option"
  er_maintainability :: "rubric_score option"
  er_risk_acceptance :: "rubric_score option"
  er_summary :: string
  er_recommended_repairs :: "string list"
  er_quality_gates :: "quality_gate_report option"

definition rubrics :: "evaluation_report \<Rightarrow> rubric_score option list" where
  "rubrics r =
    [er_requirement_coverage r, er_mvp_completeness r, er_usability r, er_architecture r,
     er_maintainability r, er_risk_acceptance r]"

text \<open>\<open>statistics.fmean\<close> of a nonempty list: the rounded exact sum, divided and rounded again.\<close>

definition fmean :: "rat list \<Rightarrow> rat" where
  "fmean xs = double (double (sum_list xs) / of_nat (length xs))"

definition applicable_scores :: "evaluation_report \<Rightarrow> rat option list" where
  "applicable_scores r =
     map rb_score (filter rb_applicable (List.map_filter (\<lambda>x. x) (rubrics r)))"

definition overall_score :: "evaluation_report \<Rightarrow> rat option result" where
  "overall_score r =
     (if \<not> er_evaluated r
      then (if \<exists>v \<in> set (rubrics r). v \<noteq> None
            then Inl (ValueError ''An unevaluated report cannot publish rubric scores'')
            else Inr None)
      else if \<exists>v \<in> set (rubrics r). v = None
      then Inl (ValueError ''An evaluated report requires all six rubric judgments'')
      else if applicable_scores r = [] then Inr None
      else case List.map_filter (\<lambda>x. x) (applicable_scores r) of
        [] \<Rightarrow> Inl (ValueError ''fmean requires at least one data point'')
      | s # ss \<Rightarrow> Inr (Some (fmean (s # ss))))"

definition evaluation_valid :: "evaluation_report \<Rightarrow> bool" where
  "evaluation_valid r \<longleftrightarrow>
     (\<forall>v \<in> set (rubrics r). case v of None \<Rightarrow> True | Some s \<Rightarrow> rubric_valid s)
     \<and> 3 \<le> length (er_summary r) \<and> length (er_summary r) \<le> 4000
     \<and> length (er_recommended_repairs r) \<le> 20
     \<and> (case overall_score r of Inl _ \<Rightarrow> False | Inr _ \<Rightarrow> True)"

section \<open>The repair decision\<close>

datatype repair_verdict = D_passed | D_deferred | D_repair | D_exhausted

fun repair_verdict_value :: "repair_verdict \<Rightarrow> string" where
  "repair_verdict_value D_passed = ''passed''"
| "repair_verdict_value D_deferred = ''deferred''"
| "repair_verdict_value D_repair = ''repair''"
| "repair_verdict_value D_exhausted = ''exhausted''"

definition repair_decision :: "quality_gate_report \<Rightarrow> evaluation_report \<Rightarrow> nat \<Rightarrow> nat \<Rightarrow> rat \<Rightarrow>
    decision option \<Rightarrow> repair_verdict result" where
  "repair_decision gates evaluation attempt limit threshold human_decision =
     rbind (overall_score evaluation) (\<lambda>score.
       let again = (if attempt < limit then D_repair else D_exhausted) in
       if human_decision = Some Accept then Inr D_passed
       else if human_decision = Some Repair then Inr again
       else case qr_verdict gates of
         V_blocked \<Rightarrow> Inr D_deferred
       | V_failed \<Rightarrow> Inr again
       | V_passed \<Rightarrow> (case score of
           None \<Rightarrow> Inr D_deferred
         | Some s \<Rightarrow> Inr (if threshold \<le> s then D_passed else again)))"


section \<open>Scores\<close>

lemma double_of_int: "double (of_int n) = of_int n"
  using double_bounds(1) [of "of_int n" n] double_bounds(2) [of n "of_int n"] by simp

lemma double_of_nat: "double (of_nat n) = of_nat n"
  using double_of_int [of "int n"] by simp

lemma fmean_bounded:
  assumes "xs \<noteq> []" and "\<forall>x \<in> set xs. 0 \<le> x \<and> x \<le> 1"
  shows "0 \<le> fmean xs \<and> fmean xs \<le> 1"
proof -
  have "0 \<le> sum_list xs \<and> sum_list xs \<le> of_nat (length xs)"
    using assms(2)
  proof (induction xs)
    case (Cons x xs)
    then have "0 \<le> x" "x \<le> 1" "0 \<le> sum_list xs" "sum_list xs \<le> of_nat (length xs)" by simp_all
    then show ?case using add_mono [of x 1 "sum_list xs" "of_nat (length xs)"] by simp
  qed simp
  then have "of_int 0 \<le> double (sum_list xs)" "double (sum_list xs) \<le> of_int (int (length xs))"
    using double_bounds(2) [of 0 "sum_list xs"] double_bounds(1) [of "sum_list xs" "int (length xs)"]
    by simp_all
  moreover have n: "(0 :: rat) < of_nat (length xs)" using assms(1) by simp
  ultimately have "of_int 0 \<le> double (sum_list xs) / of_nat (length xs)"
    "double (sum_list xs) / of_nat (length xs) \<le> of_int 1"
    by (simp_all add: pos_divide_le_eq)
  then show ?thesis unfolding fmean_def using double_bounds(2) [of 0] double_bounds(1) [of _ 1] by fastforce
qed

lemma fmean_const:
  assumes "xs \<noteq> []" and "\<forall>x \<in> set xs. x = of_int c"
  shows "fmean xs = of_int c"
proof -
  have "sum_list xs = of_int (c * int (length xs))"
    using assms(2)
  proof (induction xs)
    case (Cons x xs)
    then show ?case by (simp add: algebra_simps)
  qed simp
  then have "double (sum_list xs) = of_int c * of_nat (length xs)"
    using double_of_int [of "c * int (length xs)"] by simp
  then show ?thesis using assms(1) double_of_int [of c] by (simp add: fmean_def)
qed

lemma map_filter_id: "List.map_filter (\<lambda>x. x) (map Some ys) = ys"
  by (induction ys) (simp_all add: List.map_filter_simps)

lemma map_filter_all: "\<forall>x \<in> set xs. x \<noteq> None \<Longrightarrow> \<exists>ys. xs = map Some ys"
  by (induction xs) (auto intro: exI [of _ "_ # _"])

lemma applicable_scores_valid:
  assumes "evaluation_valid r"
  shows "\<exists>ys. applicable_scores r = map Some ys \<and> (\<forall>y \<in> set ys. 0 \<le> y \<and> y \<le> 1)"
proof -
  have ok: "rubric_valid s" if "Some s \<in> set (rubrics r)" for s
    using assms that by (fastforce simp: evaluation_valid_def)
  have mem: "Some s \<in> set (rubrics r)" if "s \<in> set (List.map_filter (\<lambda>x. x) (rubrics r))" for s
    using that by (auto simp: List.map_filter_def)
  have range: "\<exists>s. x = Some s \<and> 0 \<le> s \<and> s \<le> 1" if "x \<in> set (applicable_scores r)" for x
  proof -
    from that obtain u where u: "u \<in> set (List.map_filter (\<lambda>x. x) (rubrics r))" "rb_applicable u"
      "x = rb_score u" by (auto simp: applicable_scores_def)
    with ok [OF mem [OF u(1)]] show ?thesis by (auto simp: rubric_valid_def split: option.splits)
  qed
  then obtain ys where ys: "applicable_scores r = map Some ys"
    using map_filter_all [of "applicable_scores r"] by blast
  with range show ?thesis by (intro exI [of _ ys]) fastforce
qed

text \<open>
  C25. The overall score of a valid evaluation. It is always defined or absent, never an error;
  it is absent exactly when nothing was evaluated or no rubric applies; despite two roundings
  to binary64 it lies between 0 and 1, and six perfect (or six zero) judgments score exactly 1
  (exactly 0), so a threshold of 1 can be met.
\<close>

theorem overall_score_bounded:
  assumes "evaluation_valid r"
  shows "\<exists>score. overall_score r = Inr score
    \<and> (score = None \<longleftrightarrow> \<not> er_evaluated r \<or> applicable_scores r = [])
    \<and> (\<forall>v. score = Some v \<longrightarrow> 0 \<le> v \<and> v \<le> 1
        \<and> (set (applicable_scores r) = {Some 1} \<longrightarrow> v = 1)
        \<and> (set (applicable_scores r) = {Some 0} \<longrightarrow> v = 0))"
proof -
  obtain score where score: "overall_score r = Inr score"
    using assms by (cases "overall_score r") (auto simp: evaluation_valid_def)
  obtain ys where ys: "applicable_scores r = map Some ys" "\<forall>y \<in> set ys. 0 \<le> y \<and> y \<le> 1"
    using applicable_scores_valid [OF assms] by blast
  show ?thesis
  proof (cases "er_evaluated r \<and> ys \<noteq> []")
    case False
    with score ys show ?thesis by (auto simp: overall_score_def split: if_splits)
  next
    case True
    then have s: "score = Some (fmean ys)"
      using score by (auto simp: overall_score_def ys map_filter_id split: if_splits list.splits)
    have "fmean ys = 1" if "set (applicable_scores r) = {Some 1}"
    proof -
      from that have "\<forall>y \<in> set ys. y = of_int 1" unfolding ys by auto
      then show ?thesis using fmean_const [of ys 1] True by simp
    qed
    moreover have "fmean ys = 0" if "set (applicable_scores r) = {Some 0}"
    proof -
      from that have "\<forall>y \<in> set ys. y = of_int 0" unfolding ys by auto
      then show ?thesis using fmean_const [of ys 0] True by simp
    qed
    ultimately show ?thesis using score s True fmean_bounded [of ys] ys by simp
  qed
qed

definition demo_rubric :: "rat \<Rightarrow> rubric_score" where
  "demo_rubric s = \<lparr>rb_applicable = True, rb_score = Some s, rb_rationale = ''good'',
     rb_evidence_artifact_ids = []\<rparr>"

definition demo_evaluation :: "rat \<Rightarrow> evaluation_report" where
  "demo_evaluation s = \<lparr>er_evaluated = True, er_requirement_coverage = Some (demo_rubric s),
     er_mvp_completeness = Some (demo_rubric s), er_usability = Some (demo_rubric s),
     er_architecture = Some (demo_rubric s), er_maintainability = Some (demo_rubric s),
     er_risk_acceptance = Some (demo_rubric s), er_summary = ''fine'', er_recommended_repairs = [],
     er_quality_gates = None\<rparr>"

lemma demo_applicable: "applicable_scores (demo_evaluation s) = replicate 6 (Some s)"
  by (simp add: applicable_scores_def rubrics_def demo_evaluation_def demo_rubric_def
      List.map_filter_simps numeral_eq_Suc)

lemma demo_evaluation_valid:
  assumes "0 \<le> s" and "s \<le> 1"
  shows "evaluation_valid (demo_evaluation s)"
proof -
  have "rubric_valid (demo_rubric s)" using assms by (simp add: rubric_valid_def demo_rubric_def)
  then have "\<forall>v \<in> set (rubrics (demo_evaluation s)). case v of None \<Rightarrow> True | Some s \<Rightarrow> rubric_valid s"
    by (simp add: rubrics_def demo_evaluation_def)
  moreover have "\<exists>x. overall_score (demo_evaluation s) = Inr x"
    unfolding overall_score_def demo_applicable
    by (simp add: demo_evaluation_def rubrics_def List.map_filter_simps numeral_eq_Suc)
  ultimately show ?thesis by (auto simp: evaluation_valid_def demo_evaluation_def split: sum.split)
qed

theorem overall_score_bounded_witness: "overall_score (demo_evaluation 1) = Inr (Some 1)"
proof -
  have "evaluation_valid (demo_evaluation 1)" by (rule demo_evaluation_valid) simp_all
  from overall_score_bounded [OF this] show ?thesis
    unfolding demo_applicable by (auto simp: demo_evaluation_def)
qed

end
