(* ===== verification/Config.thy ===== *)
theory Config
  imports Evaluation
begin

text \<open>
  \<open>config.py\<close>: the settings with their defaults, how the environment of the process overrides
  them, and the checks of \<open>__post_init__\<close>. Rates and thresholds are the rationals of the
  configured floats. \<open>int\<close> on a string is written out; \<open>float\<close> on a string and \<open>Path.resolve\<close>, which
  reads the file system, belong to the process.
\<close>

record settings =
  cf_data_dir :: "string list"
  cf_required_host_os :: string
  cf_required_host_version :: string
  cf_enforce_host_preflight :: bool
  cf_model :: string
  cf_agent_mode :: string
  cf_llm_logging_enabled :: bool
  cf_human_gates_enabled :: bool
  cf_human_action_token :: string
  cf_input_cost_per_million :: "rat option"
  cf_output_cost_per_million :: "rat option"
  cf_reasoning_effort :: string
  cf_max_model_output_tokens :: int
  cf_max_implementation_output_tokens :: int
  cf_max_agent_steps :: nat
  cf_max_parallel_agents :: nat
  cf_task_timeout_seconds :: nat
  cf_a2a_base_url :: string
  cf_a2a_max_retries :: nat
  cf_a2a_retry_delay_seconds :: rat
  cf_a2a_poll_interval_seconds :: rat
  cf_a2a_cancel_timeout_seconds :: rat
  cf_mcp_enabled :: bool
  cf_mcp_url :: string
  cf_oidc_issuer :: string
  cf_mcp_client_id :: string
  cf_mcp_client_secret :: string
  cf_analysis_timeout_seconds :: nat
  cf_analysis_max_parallel_jobs :: nat
  cf_analysis_max_output_bytes :: nat
  cf_analysis_backend :: string
  cf_sandbox_image :: string
  cf_sandbox_execution_enabled :: bool
  cf_max_repair_attempts :: int
  cf_max_evaluation_repair_attempts :: int
  cf_evaluation_score_threshold :: rat
  cf_max_clarification_rounds :: nat
  cf_token_budget_per_phase_per_run :: int
  cf_sandbox_backend :: string
  cf_sandbox_network_enabled :: bool
  cf_require_kvm_for_microvm :: bool
  cf_a2ui_protocol_version :: string
  cf_general_purpose_subagent_enabled :: bool
  cf_require_requirements_approval :: bool
  cf_require_plan_approval :: bool
  cf_require_release_approval :: bool
  cf_cors_origins :: "string list"

definition post_init :: "settings \<Rightarrow> unit result" where
  "post_init s =
     rbind (guard (\<not> cf_token_budget_per_phase_per_run s \<le> 0)
       (ValueError ''Phase token budget per run must be greater than zero'')) (\<lambda>_.
     rbind (guard (\<not> (cf_max_model_output_tokens s \<le> 0 \<or> cf_max_implementation_output_tokens s \<le> 0))
       (ValueError ''Model output token limits must be greater than zero'')) (\<lambda>_.
     rbind (guard (\<not> cf_max_repair_attempts s < 0)
       (ValueError ''Structured-output repair attempts must not be negative'')) (\<lambda>_.
     rbind (guard (0 \<le> cf_max_evaluation_repair_attempts s \<and> cf_max_evaluation_repair_attempts s \<le> 10)
       (ValueError ''Evaluation repair attempts must be between 0 and 10'')) (\<lambda>_.
     guard (0 \<le> cf_evaluation_score_threshold s \<and> cf_evaluation_score_threshold s \<le> 1)
       (ValueError ''Evaluation score threshold must be between 0 and 1'')))))"

definition py_space :: "char \<Rightarrow> bool" where
  "py_space c = (let n = (of_char c :: nat) in
     9 \<le> n \<and> n \<le> 13 \<or> 28 \<le> n \<and> n \<le> 32 \<or> n = 133 \<or> n = 160)"

definition strip :: "string \<Rightarrow> string" where
  "strip s = rev (dropWhile py_space (rev (dropWhile py_space s)))"

text \<open>\<open>text.split()\<close>.\<close>

fun words_from :: "string \<Rightarrow> string \<Rightarrow> string list" where
  "words_from acc [] = (if acc = [] then [] else [rev acc])"
| "words_from acc (c # cs) =
     (if py_space c then (if acc = [] then [] else [rev acc]) @ words_from [] cs else words_from (c # acc) cs)"

definition env_bool :: "string option \<Rightarrow> bool \<Rightarrow> bool" where
  "env_bool setting preset = (case setting of None \<Rightarrow> preset
     | Some v \<Rightarrow> map lower_char (strip v) \<in> {''1'', ''true'', ''yes'', ''on''})"

text \<open>\<open>int(text)\<close> in base ten: blanks around, a sign, single underscores between digits.\<close>

fun digits_value :: "int \<Rightarrow> bool \<Rightarrow> string \<Rightarrow> int option" where
  "digits_value acc after_digit [] = (if after_digit then Some acc else None)"
| "digits_value acc after_digit (c # cs) =
     (if is_digit c then digits_value (10 * acc + (int (of_char c) - 48)) True cs
      else if c = CHR ''_'' \<and> after_digit then digits_value acc False cs
      else None)"

definition py_int :: "string \<Rightarrow> int result" where
  "py_int text =
     (let s = strip text; magnitude = (\<lambda>ds. case digits_value 0 False ds of
          None \<Rightarrow> Inl (ValueError (''invalid literal for int() with base 10'')) | Some i \<Rightarrow> Inr i)
      in case s of
           c # cs \<Rightarrow> if c = CHR ''-'' then rbind (magnitude cs) (\<lambda>i. Inr (- i))
                     else if c = CHR ''+'' then magnitude cs else magnitude s
         | [] \<Rightarrow> magnitude s)"

record process_env =
  pe_var :: "string \<Rightarrow> string option"
  pe_float :: "string \<Rightarrow> rat result"
  pe_resolve :: "string \<Rightarrow> string list"

definition getenv :: "process_env \<Rightarrow> string \<Rightarrow> string \<Rightarrow> string" where
  "getenv P name preset = (case pe_var P name of None \<Rightarrow> preset | Some v \<Rightarrow> v)"

text \<open>
  \<open>Settings()\<close>: the fields in their order, so that the first bad number is the one reported, then
  \<open>__post_init__\<close>.
\<close>

definition optional_float :: "process_env \<Rightarrow> string \<Rightarrow> rat option result" where
  "optional_float P name = (case pe_var P name of None \<Rightarrow> Inr None
     | Some v \<Rightarrow> rbind (pe_float P v) (\<lambda>q. Inr (Some q)))"

definition load_settings :: "process_env \<Rightarrow> settings result" where
  "load_settings P =
     rbind (optional_float P ''AIDLC_INPUT_COST_PER_MILLION'') (\<lambda>input_cost.
     rbind (optional_float P ''AIDLC_OUTPUT_COST_PER_MILLION'') (\<lambda>output_cost.
     rbind (py_int (getenv P ''AIDLC_MAX_MODEL_OUTPUT_TOKENS'' ''16384'')) (\<lambda>model_tokens.
     rbind (py_int (getenv P ''AIDLC_MAX_IMPLEMENTATION_OUTPUT_TOKENS'' ''32768'')) (\<lambda>implementation_tokens.
     rbind (py_int (getenv P ''AIDLC_MAX_EVALUATION_REPAIR_ATTEMPTS'' ''2'')) (\<lambda>repairs.
     rbind (pe_float P (getenv P ''AIDLC_EVALUATION_SCORE_THRESHOLD'' ''0.8'')) (\<lambda>threshold.
     rbind (py_int (getenv P ''AIDLC_TOKEN_BUDGET_PER_PHASE_PER_RUN'' ''100000'')) (\<lambda>budget.
     let s = \<lparr>cf_data_dir = pe_resolve P (getenv P ''AIDLC_DATA_DIR'' ''.aidlc-data''),
        cf_required_host_os = ''ubuntu'', cf_required_host_version = ''26.04'',
        cf_enforce_host_preflight = env_bool (pe_var P ''AIDLC_ENFORCE_HOST_PREFLIGHT'') True,
        cf_model = getenv P ''AIDLC_MODEL'' ''provider:model'',
        cf_agent_mode = getenv P ''AIDLC_AGENT_MODE'' ''deep'',
        cf_llm_logging_enabled = env_bool (pe_var P ''AIDLC_LLM_LOGGING_ENABLED'') True,
        cf_human_gates_enabled = env_bool (pe_var P ''AIDLC_HUMAN_GATES'') True,
        cf_human_action_token = getenv P ''AIDLC_HUMAN_ACTION_TOKEN'' ''local-learning-token'',
        cf_input_cost_per_million = input_cost, cf_output_cost_per_million = output_cost,
        cf_reasoning_effort = ''medium'', cf_max_model_output_tokens = model_tokens,
        cf_max_implementation_output_tokens = implementation_tokens,
        cf_max_agent_steps = 20, cf_max_parallel_agents = 3, cf_task_timeout_seconds = 600,
        cf_a2a_base_url = getenv P ''AIDLC_A2A_BASE_URL'' ''http://127.0.0.1:8001'',
        cf_a2a_max_retries = 2, cf_a2a_retry_delay_seconds = double (1 / 10),
        cf_a2a_poll_interval_seconds = double (1 / 10), cf_a2a_cancel_timeout_seconds = 5,
        cf_mcp_enabled = env_bool (pe_var P ''AIDLC_MCP_ENABLED'') True,
        cf_mcp_url = getenv P ''AIDLC_MCP_URL'' ''http://127.0.0.1:8002/mcp'',
        cf_oidc_issuer = getenv P ''AIDLC_OIDC_ISSUER'' ''http://127.0.0.1:8080/realms/aidlc'',
        cf_mcp_client_id = getenv P ''AIDLC_MCP_CLIENT_ID'' ''static-analysis-agent'',
        cf_mcp_client_secret = getenv P ''AIDLC_MCP_CLIENT_SECRET'' [],
        cf_analysis_timeout_seconds = 60, cf_analysis_max_parallel_jobs = 2,
        cf_analysis_max_output_bytes = 262144,
        cf_analysis_backend = getenv P ''AIDLC_ANALYSIS_BACKEND'' ''sandbox'',
        cf_sandbox_image = getenv P ''AIDLC_SANDBOX_IMAGE'' [],
        cf_sandbox_execution_enabled = env_bool (pe_var P ''AIDLC_SANDBOX_EXECUTION_ENABLED'') True,
        cf_max_repair_attempts = 2, cf_max_evaluation_repair_attempts = repairs,
        cf_evaluation_score_threshold = threshold, cf_max_clarification_rounds = 2,
        cf_token_budget_per_phase_per_run = budget,
        cf_sandbox_backend = getenv P ''AIDLC_SANDBOX_BACKEND'' ''runc'',
        cf_sandbox_network_enabled = False, cf_require_kvm_for_microvm = True,
        cf_a2ui_protocol_version = ''0.9.1'', cf_general_purpose_subagent_enabled = False,
        cf_require_requirements_approval = True, cf_require_plan_approval = True,
        cf_require_release_approval = True,
        cf_cors_origins = [''http://127.0.0.1:5173'', ''http://localhost:5173'']\<rparr>
     in rbind (post_init s) (\<lambda>_. Inr s))))))))"

definition database_path :: "settings \<Rightarrow> string list" where
  "database_path s = cf_data_dir s @ [''aidlc.sqlite3'']"

definition artifacts_root :: "settings \<Rightarrow> string list" where
  "artifacts_root s = cf_data_dir s @ [''artifacts'']"

lemma post_init_Inr: "post_init s = Inr u \<longleftrightarrow>
   0 < cf_token_budget_per_phase_per_run s \<and> 0 < cf_max_model_output_tokens s
   \<and> 0 < cf_max_implementation_output_tokens s \<and> 0 \<le> cf_max_repair_attempts s
   \<and> 0 \<le> cf_max_evaluation_repair_attempts s \<and> cf_max_evaluation_repair_attempts s \<le> 10
   \<and> 0 \<le> cf_evaluation_score_threshold s \<and> cf_evaluation_score_threshold s \<le> 1"
  by (auto simp: post_init_def rbind_eq_Inr guard_eq)

section \<open>Integers in the environment\<close>

lemma of_char_digit: "m < 10 \<Longrightarrow> of_char (char_of (48 + m) :: char) = 48 + (m :: nat)"
  by (simp add: of_char_of)

lemma is_digit_char_of: "m < 10 \<Longrightarrow> is_digit (char_of (48 + m))" for m :: nat
  by (simp add: is_digit_def of_char_digit)

lemma nat_str_digits: "list_all is_digit (nat_str n) \<and> nat_str n \<noteq> []"
proof (induction n rule: nat_str.induct)
  case (1 n)
  then show ?case using is_digit_char_of [of n] is_digit_char_of [of "n mod 10"]
    by (subst (1 2) nat_str.simps) auto
qed

lemma digits_value_digits:
  "list_all is_digit xs \<Longrightarrow> xs \<noteq> [] \<or> b \<Longrightarrow>
    digits_value acc b xs = Some (foldl (\<lambda>a c. 10 * a + (int (of_char c) - 48)) acc xs)"
  by (induction xs arbitrary: acc b) auto

lemma nat_str_value: "foldl (\<lambda>a c. 10 * a + (int (of_char c) - 48)) 0 (nat_str n) = int n"
proof (induction n rule: nat_str.induct)
  case (1 n)
  show ?case
  proof (cases "n < 10")
    case True
    then show ?thesis by (subst nat_str.simps) (simp add: of_char_digit)
  next
    case False
    then have "int n = 10 * int (n div 10) + int (n mod 10)" by presburger
    then show ?thesis using 1 False by (subst nat_str.simps) (simp add: of_char_digit)
  qed
qed

lemma digits_value_nat_str: "digits_value 0 False (nat_str n) = Some (int n)"
  using digits_value_digits [of "nat_str n" False 0] nat_str_digits [of n] by (simp add: nat_str_value)

lemma nat_str_inj: "nat_str m = nat_str n \<longleftrightarrow> m = n"
  using digits_value_nat_str [of m] digits_value_nat_str [of n] by (metis of_nat_eq_iff option.inject)

lemma strip_id: "xs \<noteq> [] \<Longrightarrow> \<not> py_space (hd xs) \<Longrightarrow> \<not> py_space (last xs) \<Longrightarrow> strip xs = xs"
proof -
  assume "xs \<noteq> []" "\<not> py_space (hd xs)" "\<not> py_space (last xs)"
  then have "dropWhile py_space xs = xs" "dropWhile py_space (rev xs) = rev xs"
    by (simp_all add: dropWhile_eq_self_iff hd_rev)
  then show ?thesis by (simp add: strip_def)
qed

lemma digit_chars: "is_digit c \<Longrightarrow> \<not> py_space c \<and> c \<noteq> CHR ''-'' \<and> c \<noteq> CHR ''+''"
  by (auto simp: is_digit_def py_space_def Let_def)

lemma py_int_int_str: "py_int (int_str i) = Inr i"
proof -
  let ?d = "nat_str (nat \<bar>i\<bar>)"
  obtain d ds where d: "?d = d # ds" using nat_str_digits by (cases ?d) auto
  have ok: "is_digit d" "is_digit (last ?d)"
    using nat_str_digits [of "nat \<bar>i\<bar>"] d by (auto simp: list_all_iff)
  have v: "digits_value 0 False ?d = Some \<bar>i\<bar>" by (simp add: digits_value_nat_str)
  show ?thesis
  proof (cases "i < 0")
    case True
    then have s: "int_str i = CHR ''-'' # ?d" by (simp add: int_str_def)
    have "\<not> py_space (CHR ''-'')" by (simp add: py_space_def)
    then have "strip (int_str i) = CHR ''-'' # ?d"
      unfolding s using digit_chars [OF ok(2)] d by (intro strip_id) auto
    then show ?thesis using v True by (simp add: py_int_def Let_def)
  next
    case False
    then have s: "int_str i = ?d" by (simp add: int_str_def)
    have "strip (int_str i) = ?d"
      unfolding s by (rule strip_id) (use d digit_chars [OF ok(1)] digit_chars [OF ok(2)] in auto)
    then show ?thesis using v False d digit_chars [OF ok(1)] by (simp add: py_int_def Let_def)
  qed
qed

text \<open>
  Integer settings survive the environment. The decimal text of any integer reads back as
  that integer; and an environment that sets the token budget, the model output limit and the
  number of evaluation repairs as decimal texts, and nothing else, is accepted exactly when all
  three are in their documented ranges, and then holds exactly those values; otherwise the
  settings are refused with an error.
\<close>

theorem integer_settings_round_trip:
  assumes "pe_var P = [''AIDLC_TOKEN_BUDGET_PER_PHASE_PER_RUN'' \<mapsto> int_str budget,
      ''AIDLC_MAX_MODEL_OUTPUT_TOKENS'' \<mapsto> int_str limit,
      ''AIDLC_MAX_EVALUATION_REPAIR_ATTEMPTS'' \<mapsto> int_str repairs]"
    and "pe_float P ''0.8'' = Inr t" and "0 \<le> t" and "t \<le> 1"
  shows "py_int (int_str i) = Inr i
    \<and> (case load_settings P of
         Inr s \<Rightarrow> 0 < budget \<and> 0 < limit \<and> 0 \<le> repairs \<and> repairs \<le> 10
           \<and> cf_token_budget_per_phase_per_run s = budget \<and> cf_max_model_output_tokens s = limit
           \<and> cf_max_evaluation_repair_attempts s = repairs \<and> cf_evaluation_score_threshold s = t
       | Inl e \<Rightarrow> \<not> (0 < budget \<and> 0 < limit \<and> 0 \<le> repairs \<and> repairs \<le> 10))"
proof -
  have implementation: "py_int ''32768'' = Inr 32768"
    by (simp add: py_int_def strip_def py_space_def Let_def is_digit_def)
  show ?thesis
    unfolding load_settings_def
    by (simp add: assms getenv_def optional_float_def py_int_int_str implementation Let_def post_init_def guard_def)
qed

theorem integer_settings_round_trip_witness:
  "\<exists>s. load_settings \<lparr>pe_var = [''AIDLC_TOKEN_BUDGET_PER_PHASE_PER_RUN'' \<mapsto> int_str 500,
      ''AIDLC_MAX_MODEL_OUTPUT_TOKENS'' \<mapsto> int_str 100, ''AIDLC_MAX_EVALUATION_REPAIR_ATTEMPTS'' \<mapsto> int_str 3],
      pe_float = (\<lambda>_. Inr (4 / 5)), pe_resolve = (\<lambda>p. [p])\<rparr> = Inr s
    \<and> cf_token_budget_per_phase_per_run s = 500 \<and> cf_max_evaluation_repair_attempts s = 3"
proof -
  let ?P = "\<lparr>pe_var = [''AIDLC_TOKEN_BUDGET_PER_PHASE_PER_RUN'' \<mapsto> int_str 500,
      ''AIDLC_MAX_MODEL_OUTPUT_TOKENS'' \<mapsto> int_str 100, ''AIDLC_MAX_EVALUATION_REPAIR_ATTEMPTS'' \<mapsto> int_str 3],
      pe_float = (\<lambda>_. Inr (4 / 5)), pe_resolve = (\<lambda>p. [p])\<rparr>"
  have "case load_settings ?P of Inr s \<Rightarrow> cf_token_budget_per_phase_per_run s = 500 \<and> cf_max_evaluation_repair_attempts s = 3
     | Inl e \<Rightarrow> False"
    using integer_settings_round_trip [of ?P 500 100 3 "4 / 5"] by (auto split: sum.splits)
  then show ?thesis by (auto split: sum.splits)
qed

end
