(* ===== verification/Interaction.thy ===== *)
theory Interaction
  imports Hub Catalog Config
begin

text \<open>
  Two services of \<open>orchestration/workflow.py\<close> that the specialists' invocations use, and
  \<open>human.py\<close>: the accounting of model executions with the phase budget, and the human
  interaction: publishing a draft with its request, waiting for the answer, and answering.
\<close>

section \<open>Environment of the orchestrator\<close>

text \<open>
  \<open>rt_draft_json\<close> is \<open>AgentResult.model_dump_json\<close>, used only to fingerprint a draft.
\<close>

record runtime =
  rt_world :: world
  rt_settings :: settings
  rt_draft_json :: "agent_result \<Rightarrow> string"

definition emit :: "'a runtime_scheme \<Rightarrow> string \<Rightarrow> string \<Rightarrow> jdict \<Rightarrow> unit hub_op" where
  "emit R = event (rt_world R)"

section \<open>Accounting\<close>

text \<open>\<open>payload.get(key) or 0\<close> of a field that holds an integer or \<open>None\<close>.\<close>

fun int_or_zero :: "json \<Rightarrow> int" where
  "int_or_zero (JInt i) = i"
| "int_or_zero (JBool True) = 1"
| "int_or_zero _ = 0"

definition opt_or_zero :: "int option \<Rightarrow> int" where
  "opt_or_zero x = (case x of None \<Rightarrow> 0 | Some i \<Rightarrow> i)"

record cache_info =
  ci_cache_key :: json
  ci_context_contract_version :: json
  ci_context_bytes :: json
  ci_baseline_context_bytes :: json
  ci_repair_attempt :: int
  ci_retry_attempt :: int

text \<open>The fields of the last context selection of the agent, for a call without a cache key.\<close>

definition selected_info :: "event_record list \<Rightarrow> string \<Rightarrow> cache_info" where
  "selected_info events agent =
     (let selected = (case find_last (\<lambda>e. ev_event_type e = ''agent.context_selected''
            \<and> dget (ev_payload e) ''agent'' = JStr agent) events of
          None \<Rightarrow> [] | Some e \<Rightarrow> ev_payload e)
      in \<lparr>ci_cache_key = dget selected ''cache_key'',
          ci_context_contract_version = dget selected ''context_contract_version'',
          ci_context_bytes = dget selected ''context_bytes'',
          ci_baseline_context_bytes = dget selected ''baseline_context_bytes'',
          ci_repair_attempt = int_or_zero (dget selected ''repair_attempt''),
          ci_retry_attempt = int_or_zero (dget selected ''retry_attempt'')\<rparr>)"

definition reported_tokens :: "event_record \<Rightarrow> int" where
  "reported_tokens e = int_or_zero (dget (ev_payload e) ''input_tokens'')
     + int_or_zero (dget (ev_payload e) ''output_tokens'')"

definition execution_tokens :: "execution_metadata \<Rightarrow> int" where
  "execution_tokens x = opt_or_zero (em_input_tokens x) + opt_or_zero (em_output_tokens x)"

definition in_phase :: "stage_name \<Rightarrow> event_record \<Rightarrow> bool" where
  "in_phase phase e \<longleftrightarrow> dget (ev_payload e) ''phase'' = JStr (stage_value phase)
     \<or> (\<exists>spec \<in> set (AGENTS_BY_STAGE phase). dget (ev_payload e) ''agent'' = JStr (sp_name spec))"

text \<open>The first event identifier that counts: evaluations start afresh with every retry.\<close>

definition latest_retry_event_id :: "stage_name \<Rightarrow> event_record list \<Rightarrow> nat" where
  "latest_retry_event_id phase events =
     (if phase = EVALUATION
      then fold max (map ev_event_id (filter (\<lambda>e. ev_event_type e = ''run.retry_requested'') events)) 0
      else 0)"

definition phase_total :: "stage_name \<Rightarrow> event_record list \<Rightarrow> int" where
  "phase_total phase events = sum_list (map reported_tokens
     (filter (\<lambda>e. ev_event_type e = ''agent.execution''
        \<and> latest_retry_event_id phase events < ev_event_id e \<and> in_phase phase e) events))"

definition execution_payload :: "string \<Rightarrow> stage_name \<Rightarrow> cache_info \<Rightarrow> execution_metadata \<Rightarrow> jdict" where
  "execution_payload agent phase info x =
     fold (\<lambda>(k, v). dict_set k v) (execution_dump x)
       [(''agent'', JStr agent), (''phase'', JStr (stage_value phase)),
        (''cache_key'', ci_cache_key info),
        (''context_contract_version'', ci_context_contract_version info),
        (''context_bytes'', ci_context_bytes info),
        (''baseline_context_bytes'', ci_baseline_context_bytes info),
        (''repair_attempt'', JInt (ci_repair_attempt info)),
        (''retry_attempt'', JInt (ci_retry_attempt info))]"

definition record_execution :: "'a runtime_scheme \<Rightarrow> string \<Rightarrow> string \<Rightarrow> agent_result \<Rightarrow> stage_name \<Rightarrow>
    cache_info option \<Rightarrow> unit hub_op" where
  "record_execution R run_id agent draft phase info =
     hbind (hlift (\<lambda>h. Inr (events_after (hb_db h) run_id 0))) (\<lambda>run_events.
       let x = ag_execution draft;
           known = (case em_execution_id x of None \<Rightarrow> False
             | Some i \<Rightarrow> i \<noteq> [] \<and> (\<exists>e \<in> set run_events. ev_event_type e = ''agent.execution''
                 \<and> dget (ev_payload e) ''execution_id'' = JStr i))
       in if known then hreturn ()
       else hbind (emit R run_id ''agent.execution'' (execution_payload agent phase
                (case info of None \<Rightarrow> selected_info run_events agent | Some i \<Rightarrow> i) x)) (\<lambda>_.
         let total = phase_total phase run_events + execution_tokens x in
         if cf_token_budget_per_phase_per_run (rt_settings R) < total
         then hraise (RuntimeError (''Reported phase token budget per run exceeded; further delegation stopped (phase=''
                @ stage_value phase @ '', reported_tokens='' @ int_str total @ '', limit=''
                @ int_str (cf_token_budget_per_phase_per_run (rt_settings R)) @ '', agent='' @ agent
                @ ''; configure AIDLC_TOKEN_BUDGET_PER_PHASE_PER_RUN)''))
         else hreturn ()))"

section \<open>The control surface\<close>

definition CATALOG_ID :: string where
  "CATALOG_ID = ''urn:aidlc:human-controls:v1''"

definition surface_decisions :: "prompt_kind \<Rightarrow> decision list" where
  "surface_decisions kind =
     (if kind = Clarification then [Submit]
      else if kind = Evaluation_decision then [Accept, Repair] else [Approve, Reject])"

definition title :: "string \<Rightarrow> string" where
  "title s = (case s of [] \<Rightarrow> [] | c # cs \<Rightarrow>
     (if 97 \<le> (of_char c :: nat) \<and> (of_char c :: nat) \<le> 122 then char_of ((of_char c :: nat) - 32) else c) # cs)"

definition surface_button :: "decision \<Rightarrow> json list" where
  "surface_button d = (let name = decision_value d in
    [JObj [(''id'', JStr (''label-'' @ name)), (''component'', JStr ''Text''),
           (''text'', JStr (title name)), (''variant'', JStr ''caption'')],
     JObj [(''id'', JStr (''button-'' @ name)), (''component'', JStr ''Button''),
           (''child'', JStr (''label-'' @ name)),
           (''action'', JObj [(''event'', JObj [(''name'', JStr name),
              (''context'', JObj [(''answer'', JObj [(''path'', JStr ''/answer'')])])])])]])"

definition surface_components :: "string \<Rightarrow> prompt_kind \<Rightarrow> json list" where
  "surface_components question kind =
    [JObj [(''id'', JStr ''root''), (''component'', JStr ''Column''),
           (''children'', jstrs ([''question'', ''answer'']
              @ map (\<lambda>d. ''button-'' @ decision_value d) (surface_decisions kind)))],
     JObj [(''id'', JStr ''question''), (''component'', JStr ''Text''), (''text'', JStr question),
           (''variant'', JStr ''caption'')],
     JObj [(''id'', JStr ''answer''), (''component'', JStr ''TextField''),
           (''label'', JStr (if kind = Clarification then ''Your answer'' else ''Optional comment'')),
           (''value'', JObj [(''path'', JStr ''/answer'')])]]
    @ concat (map surface_button (surface_decisions kind))"

definition surface_messages :: "string \<Rightarrow> string \<Rightarrow> prompt_kind \<Rightarrow> json list" where
  "surface_messages surface_id question kind =
    [JObj [(''version'', JStr ''v0.9.1''), (''createSurface'',
       JObj [(''surfaceId'', JStr surface_id), (''catalogId'', JStr CATALOG_ID)])],
     JObj [(''version'', JStr ''v0.9.1''), (''updateComponents'',
       JObj [(''surfaceId'', JStr surface_id), (''components'', JArr (surface_components question kind))])],
     JObj [(''version'', JStr ''v0.9.1''), (''updateDataModel'',
       JObj [(''surfaceId'', JStr surface_id), (''path'', JStr ''/''),
             (''value'', JObj [(''answer'', JStr [])])])]]"

section \<open>Asking\<close>

definition find_surface :: "database \<Rightarrow> string \<Rightarrow> string \<Rightarrow> human_interaction option" where
  "find_surface db run_id surface_id =
     List.find (\<lambda>i. hi_surface_id i = surface_id) (list_interactions db run_id)"

definition surface_id_for :: "'a runtime_scheme \<Rightarrow> delegated_task \<Rightarrow> agent_result \<Rightarrow> string" where
  "surface_id_for R mapping draft = dt_invocation_id mapping @ '':''
     @ take 20 (sha256 (wd_py (rt_world R)) (rt_draft_json R draft))"

definition draft_request :: "delegated_task \<Rightarrow> agent_result \<Rightarrow> string list \<Rightarrow> write_request" where
  "draft_request mapping draft parents =
     \<lparr>wq_run_id = dt_run_id mapping, wq_stage = dt_stage mapping, wq_kind = ag_artifact_kind draft,
      wq_producing_agent = dt_agent mapping, wq_content = ag_content draft,
      wq_markdown = ag_markdown draft, wq_parent_artifact_ids = parents,
      wq_model_id = Some (em_model_id (ag_execution draft)),
      wq_prompt_version = em_prompt_version (ag_execution draft),
      wq_execution = execution_dump (ag_execution draft)\<rparr>"

definition plain_request :: "string \<Rightarrow> stage_name \<Rightarrow> artifact_kind \<Rightarrow> string \<Rightarrow> jdict \<Rightarrow> string \<Rightarrow>
    string list \<Rightarrow> write_request" where
  "plain_request run_id stage kind producer content markdown parents =
     \<lparr>wq_run_id = run_id, wq_stage = stage, wq_kind = kind, wq_producing_agent = producer,
      wq_content = content, wq_markdown = markdown, wq_parent_artifact_ids = parents,
      wq_model_id = None, wq_prompt_version = ''deterministic-v1'', wq_execution = []\<rparr>"

definition new_interaction :: "delegated_task \<Rightarrow> string \<Rightarrow> human_prompt \<Rightarrow> string \<Rightarrow> artifact_record \<Rightarrow>
    human_interaction" where
  "new_interaction mapping task_id prompt surface_id artifact =
     \<lparr>hi_surface_id = surface_id, hi_run_id = dt_run_id mapping, hi_stage = dt_stage mapping,
      hi_agent = dt_agent mapping, hi_task_id = task_id, hi_context_id = dt_context_id mapping,
      hi_prompt = prompt, hi_artifact_id = md_artifact_id (ar_metadata artifact),
      hi_artifact_sha256 = md_content_sha256 (ar_metadata artifact), hi_version = 1,
      hi_messages = surface_messages surface_id (hp_question prompt) (hp_kind prompt),
      hi_response = None\<rparr>"

definition save_interaction_op :: "'a runtime_scheme \<Rightarrow> human_interaction \<Rightarrow> unit hub_op" where
  "save_interaction_op R i = on_db (\<lambda>_. save_interaction i) (rt_world R)"

definition publish_draft :: "'a runtime_scheme \<Rightarrow> delegated_task \<Rightarrow> agent_result \<Rightarrow> string \<Rightarrow> human_prompt \<Rightarrow>
    string \<Rightarrow> human_interaction hub_op" where
  "publish_draft R mapping draft task_id prompt surface_id =
     hbind (hlift (\<lambda>h. Inr (map (\<lambda>a. md_artifact_id (ar_metadata a))
        (list_artifacts (hb_db h) (dt_run_id mapping))))) (\<lambda>parents.
     hbind (publish (rt_world R) (draft_request mapping draft parents)) (\<lambda>artifact.
       let interaction = new_interaction mapping task_id prompt surface_id artifact in
     hbind (publish (rt_world R) (plain_request (dt_run_id mapping) (dt_stage mapping) HUMAN_REQUEST
        (dt_agent mapping) (interaction_dump interaction)
        (''# Human request'' @ [CHR 0x0A, CHR 0x0A] @ hp_question prompt)
        [md_artifact_id (ar_metadata artifact)])) (\<lambda>_.
     hbind (save_interaction_op R interaction) (\<lambda>_. hreturn interaction))))"

text \<open>\<open>_human_input\<close> up to its wait for the answer.\<close>

definition ask_human :: "'a runtime_scheme \<Rightarrow> delegated_task \<Rightarrow> agent_result \<Rightarrow> string hub_op" where
  "ask_human R mapping draft =
     hbind (record_execution R (dt_run_id mapping) (dt_agent mapping) draft (dt_stage mapping) None) (\<lambda>_.
     case (ag_human_prompt draft, dt_task_id mapping) of
       (Some prompt, Some task_id) \<Rightarrow>
         let surface_id = surface_id_for R mapping draft; run_id = dt_run_id mapping in
         hbind (hlift (\<lambda>h. Inr (find_surface (hb_db h) run_id surface_id))) (\<lambda>existing.
         hbind (case existing of
             Some i \<Rightarrow> hreturn i
           | None \<Rightarrow>
               hbind (hlift (\<lambda>h. Inr (length (filter (\<lambda>i. hp_kind (hi_prompt i) = Clarification)
                   (list_interactions (hb_db h) run_id))))) (\<lambda>rounds.
               if hp_kind prompt = Clarification \<and> cf_max_clarification_rounds (rt_settings R) \<le> rounds
               then hraise (RuntimeError ''Clarification round limit exceeded'')
               else publish_draft R mapping draft task_id prompt surface_id)) (\<lambda>interaction.
         hbind (set_stage (rt_world R) run_id (dt_stage mapping) INPUT_REQUIRED None) (\<lambda>_.
         hbind (set_run (rt_world R) run_id INPUT_REQUIRED (Some (dt_stage mapping)) None) (\<lambda>_.
         hbind (emit R run_id ''human.requested'' (interaction_dump interaction)) (\<lambda>_.
         hreturn surface_id)))))
     | _ \<Rightarrow> hraise (ValueError ''Missing human request or remote task identity''))"

text \<open>
  One iteration of the wait: nothing while there is no response, otherwise the run goes on and
  the answer, with all clarifications so far, is returned.
\<close>

definition poll_answer :: "'a runtime_scheme \<Rightarrow> delegated_task \<Rightarrow> string \<Rightarrow> jdict option hub_op" where
  "poll_answer R mapping surface_id =
     hbind (hlift (\<lambda>h. case find_surface (hb_db h) (dt_run_id mapping) surface_id of
         None \<Rightarrow> Inl StopIteration | Some i \<Rightarrow> Inr i)) (\<lambda>interaction.
     case hi_response interaction of
       None \<Rightarrow> hreturn None
     | Some response \<Rightarrow>
         hbind (set_stage (rt_world R) (dt_run_id mapping) (dt_stage mapping) RUNNING None) (\<lambda>_.
         hbind (set_run (rt_world R) (dt_run_id mapping) RUNNING (Some (dt_stage mapping)) None) (\<lambda>_.
         hlift (\<lambda>h. Inr (Some (dict_set ''previous_answers''
           (jstrs (List.map_filter (\<lambda>i. if hp_kind (hi_prompt i) = Clarification
                then map_option hr_answer (hi_response i) else None)
              (list_interactions (hb_db h) (dt_run_id mapping))))
           (response_dump response)))))))"

section \<open>Answering\<close>

definition response_request :: "string \<Rightarrow> human_action \<Rightarrow> human_interaction \<Rightarrow> write_request" where
  "response_request run_id action i = plain_request run_id (hi_stage i) HUMAN_RESPONSE ''local-learner''
     (case hi_response i of None \<Rightarrow> [] | Some r \<Rightarrow> response_dump r)
     (''# Human response'' @ [CHR 0x0A, CHR 0x0A] @ decision_value (ha_decision action)
        @ [CHR 0x0A, CHR 0x0A] @ ha_answer action)
     [hi_artifact_id i]"

definition accept_op :: "'a runtime_scheme \<Rightarrow> string \<Rightarrow> human_action \<Rightarrow> (human_interaction \<times> bool) hub_op" where
  "accept_op R run_id action = (\<lambda>h.
     let W = rt_world R; k = hb_tick h in
     case accept_action (wd_clock W k) run_id action
            (\<lambda>i. write_artifact (wd_py W) (wd_uid W k) (wd_clock W k) (response_request run_id action i))
            (hb_store h) (hb_db h) of
       (r, st', db') \<Rightarrow> (r, \<lparr>hb_store = st', hb_db = db', hb_tick = k + 1\<rparr>))"

definition respond :: "'a runtime_scheme \<Rightarrow> string \<Rightarrow> human_action \<Rightarrow> human_interaction hub_op" where
  "respond R run_id action =
     hbind (hlift (\<lambda>h. case find_surface (hb_db h) run_id (ha_surface_id action) of
         None \<Rightarrow> Inr ()
       | Some i \<Rightarrow>
           if hi_response i \<noteq> None then Inr ()
           else case find_last (\<lambda>t. dt_agent t = hi_agent i \<and> dt_stage t = hi_stage i)
                    (list_delegated_tasks (hb_db h) run_id) of
             None \<Rightarrow> Inr ()
           | Some latest \<Rightarrow> guard (dt_task_id latest = Some (hi_task_id i))
               (ValueError ''This approval request was superseded by a retry''))) (\<lambda>_.
     hbind (accept_op R run_id action) (\<lambda>(interaction, created).
     hbind (if created then emit R run_id ''human.responded''
          [(''surface_id'', JStr (hi_surface_id interaction)),
           (''decision'', JStr (decision_value (ha_decision action)))] else hreturn ()) (\<lambda>_.
     hreturn interaction)))"

section \<open>The services keep the invariant\<close>

lemma save_interaction_frame:
  "save_interaction i db = (res, db') \<Longrightarrow> db_artifacts db' = db_artifacts db \<and> run_ids db' = run_ids db"
  by (auto simp: save_interaction_def split: if_splits)

lemma save_interaction_op_keeps [keeps_intros]: "keeps (hub_ok W r) (save_interaction_op R i)"
  unfolding save_interaction_op_def
  by (intro keeps_intros) (auto dest: save_interaction_wf save_interaction_frame)

lemma request_run [simp]:
  "wq_run_id (draft_request mapping d ps) = dt_run_id mapping"
  "wq_run_id (plain_request run g k p c m ps) = run"
  "wq_run_id (response_request run a i) = run"
  by (simp_all add: draft_request_def plain_request_def response_request_def)

lemma is_snapshot_response: "\<not> is_snapshot HUMAN_RESPONSE p"
  by (simp add: is_snapshot_def SNAPSHOT_KINDS_def)

text \<open>What an accepted answer does to the store and the artifact table.\<close>

lemma accept_action_effect:
  assumes "accept_action now r a pub st db = (res, st', db')"
  shows "st' = st \<and> db' = db
    \<or> (\<exists>i x. pub i st = (x, st') \<and> r \<in> hi_run_id ` set (db_human_interactions db)
        \<and> (db' = db \<or> (\<exists>y db1. x = Inr y \<and> insert_artifact y db = (Inr (), db1)
             \<and> db_artifacts db' = db_artifacts db1 \<and> run_ids db' = run_ids db)))"
proof (cases "List.find (\<lambda>i. hi_surface_id i = ha_surface_id a \<and> hi_run_id i = r) (db_human_interactions db)")
  case None
  with assms show ?thesis by (simp add: accept_action_def)
next
  case (Some j)
  then have r: "r \<in> hi_run_id ` set (db_human_interactions db)" by (auto dest: find_SomeD)
  let ?i = "j\<lparr>hi_response := Some (make_response now a j)\<rparr>"
  obtain x st1 where x: "pub ?i st = (x, st1)" by fastforce
  show ?thesis
  proof (cases x)
    case (Inl e)
    with assms Some r x show ?thesis
      by (auto simp: accept_action_def Let_def split: option.splits if_splits)
  next
    case (Inr y)
    obtain u db1 where u: "insert_artifact y db = (u, db1)" by fastforce
    have "st' = st \<and> db' = db \<or> st' = st1 \<and> (db' = db
        \<or> u = Inr () \<and> db_artifacts db' = db_artifacts db1 \<and> run_ids db' = run_ids db1)"
      using assms Some x Inr u
      by (auto simp: accept_action_def Let_def split: option.splits if_splits sum.splits)
    with r x Inr u insert_artifact_ids [OF u] show ?thesis by metis
  qed
qed

lemma accept_op_keeps [keeps_intros]: "keeps (hub_ok (rt_world R) r) (accept_op R run a)"
  unfolding keeps_def
proof (intro allI impI)
  fix h :: hub and res h'
  let ?W = "rt_world R" and ?k = "hb_tick h"
  let ?E = "wd_py ?W"
  assume ok: "hub_ok ?W r h" and step: "accept_op R run a h = (res, h')"
  then have wf: "hub_wf ?W h" and good: "good_world ?W" by (simp_all add: hub_ok_def)
  obtain st' db' where acc: "accept_action (wd_clock ?W ?k) run a
      (\<lambda>i. write_artifact ?E (wd_uid ?W ?k) (wd_clock ?W ?k) (response_request run a i)) (hb_store h) (hb_db h)
      = (res, st', db')" and h': "h' = \<lparr>hb_store = st', hb_db = db', hb_tick = ?k + 1\<rparr>"
    using step by (auto simp: accept_op_def Let_def split: prod.splits)
  have dbwf: "db_wf db'" using accept_action_wf [OF _ acc] wf by (simp add: hub_wf_def)
  have ids: "\<exists>k < Suc ?k. md_artifact_id (ar_metadata x) = ''art_'' @ wd_uid ?W k"
    if "x \<in> set (db_artifacts (hb_db h))" for x
    using that wf less_SucI unfolding hub_wf_def by blast
  from accept_action_effect [OF acc]
  consider (same) "st' = hb_store h" "db' = hb_db h"
    | (wrote) i x where "write_artifact ?E (wd_uid ?W ?k) (wd_clock ?W ?k) (response_request run a i) (hb_store h) = (x, st')"
      "run \<in> hi_run_id ` set (db_human_interactions (hb_db h))"
      "db' = hb_db h \<or> (\<exists>y db1. x = Inr y \<and> insert_artifact y (hb_db h) = (Inr (), db1)
             \<and> db_artifacts db' = db_artifacts db1 \<and> run_ids db' = run_ids (hb_db h))"
    by blast
  then show "hub_ok ?W r h'"
  proof cases
    case same
    with ok ids dbwf h' show ?thesis by (simp add: hub_ok_def hub_wf_def)
  next
    case (wrote i x)
    note w = wrote(1) and run = wrote(2) and db' = wrote(3)
    have known: "run \<in> set (run_ids (hb_db h))"
      using wf run unfolding hub_wf_def db_wf_def by auto
    show ?thesis
    proof (cases x)
      case (Inl e)
      with w write_artifact_error have "st' = hb_store h" by blast
      with Inl ok ids dbwf h' db' show ?thesis by (auto simp: hub_ok_def hub_wf_def)
    next
      case (Inr y)
      note w = w [unfolded Inr]
      have meta: "ar_metadata y = make_metadata ?E (wd_uid ?W ?k) (wd_clock ?W ?k) (response_request run a i)"
        using write_artifact_metadata(1) [OF w] .
      have nosnap: "\<not> md_current_snapshot (ar_metadata y)"
        unfolding meta by (simp add: response_request_def plain_request_def is_snapshot_response)
      have keep: "linked ?E st' z" if z: "z \<in> set (db_artifacts (hb_db h))" for z
      proof (rule linked_preserved [OF w])
        show "linked ?E (hb_store h) z" using wf z unfolding hub_wf_def hub.index_ok_def by blast
        show "\<not> displaces ?E (ar_metadata y) (ar_metadata z)" using nosnap by (simp add: displaces_def)
        have "md_workflow_run_id (ar_metadata z) \<in> set (run_ids (hb_db h))"
          using wf z unfolding hub_wf_def db_wf_def by blast
        then show "project_id_for_run ?E (md_workflow_run_id (ar_metadata z))
            = project_id_for_run ?E (wq_run_id (response_request run a i))
            \<longrightarrow> md_workflow_run_id (ar_metadata z) = wq_run_id (response_request run a i)"
          using wf known unfolding hub_wf_def by (auto dest: inj_onD)
        show "md_artifact_id (ar_metadata z) \<noteq> ''art_'' @ wd_uid ?W ?k"
          using z wf good_worldD [OF good] unfolding hub_wf_def by (metis less_irrefl same_append_eq)
      qed
      from db' show ?thesis
      proof
        assume "db' = hb_db h"
        with ok ids h' keep show ?thesis unfolding hub_ok_def hub_wf_def hub.index_ok_def by simp
      next
        assume "\<exists>z db1. x = Inr z \<and> insert_artifact z (hb_db h) = (Inr (), db1)
             \<and> db_artifacts db' = db_artifacts db1 \<and> run_ids db' = run_ids (hb_db h)"
        then obtain db1 where "insert_artifact y (hb_db h) = (Inr (), db1)"
          "db_artifacts db' = db_artifacts db1" "run_ids db' = run_ids (hb_db h)" using Inr by auto
        then have "set (db_artifacts db') \<subseteq> insert y (set (db_artifacts (hb_db h)))"
          by (auto simp: insert_artifact_def Let_def split: if_splits)
        moreover have "\<exists>k < Suc ?k. md_artifact_id (ar_metadata y) = ''art_'' @ wd_uid ?W k"
          unfolding meta by (intro exI [of _ ?k]) simp
        ultimately show ?thesis using ok ids h' keep linked_written [OF w] dbwf \<open>run_ids db' = _\<close>
          unfolding hub_ok_def hub_wf_def hub.index_ok_def by auto
      qed
    qed
  qed
qed

lemma respond_keeps [keeps_intros]: "keeps (hub_ok (rt_world R) r) (respond R run a)"
  unfolding respond_def emit_def by (intro keeps_intros) (auto split: prod.split intro!: keeps_intros)

lemma save_delegated_task_frame:
  "save_delegated_task t db = (res, db') \<Longrightarrow> db_artifacts db' = db_artifacts db \<and> run_ids db' = run_ids db"
  by (auto simp: save_delegated_task_def split: if_splits)

lemma save_delegated_task_keeps [keeps_intros]:
  "keeps (hub_ok W r) (on_db (\<lambda>_. save_delegated_task t) W')"
  by (intro keeps_intros) (auto dest: save_delegated_task_wf save_delegated_task_frame)

text \<open>The services of a run, for every predicate that the operations below them keep.\<close>

locale service_invariant = hub_invariant "rt_world R" r P
  for R :: "'a runtime_scheme" and r :: string and P :: "hub \<Rightarrow> bool" +
  assumes save_interaction_inv [keeps_intros]: "hi_run_id i = r \<Longrightarrow> keeps P (save_interaction_op R i)"
    and save_task_inv [keeps_intros]: "dt_run_id t = r \<Longrightarrow> keeps P (on_db (\<lambda>_. save_delegated_task t) (rt_world R))"
    and respond_inv [keeps_intros]: "keeps P (respond R run a)"
begin

lemma emit_inv [keeps_intros]: "keeps P (emit R r t p)"
  unfolding emit_def by (intro keeps_intros)

lemma record_execution_inv [keeps_intros]: "keeps P (record_execution R r a d p i)"
  unfolding record_execution_def Let_def by (intro keeps_intros)

lemma publish_draft_inv [keeps_intros]:
  "dt_run_id m = r \<Longrightarrow> keeps P (publish_draft R m d t p s)"
  unfolding publish_draft_def Let_def by (intro keeps_intros) (simp_all add: new_interaction_def)

lemma ask_human_inv [keeps_intros]:
  assumes "dt_run_id m = r"
  shows "keeps P (ask_human R m d)"
proof -
  note [keeps_intros] = publish_draft_inv [OF assms]
  show ?thesis
    by (cases "ag_human_prompt d"; cases "dt_task_id m")
      (simp_all add: ask_human_def Let_def assms, (intro keeps_intros)+)
qed

lemma poll_answer_inv [keeps_intros]:
  assumes run: "dt_run_id m = r"
  shows "keeps P (poll_answer R m s)"
  unfolding poll_answer_def run by (intro keeps_intros)

end

interpretation ok: service_invariant R r "hub_ok (rt_world R) r" for R r
  by unfold_locales (intro keeps_intros)+

section \<open>The phase budget\<close>

lemma emit_known:
  assumes "hub_ok W r h"
  shows "\<exists>h'. event W r t p h = (Inr (), h')
    \<and> events_after (hb_db h') r 0 = events_after (hb_db h) r 0
        @ [\<lparr>ev_event_id = db_event_seq (hb_db h) + 1, ev_run_id = r, ev_event_type = t,
            ev_payload = p, ev_created_at = wd_clock W (hb_tick h)\<rparr>]
    \<and> (\<forall>e \<in> set (events_after (hb_db h) r 0). ev_event_id e < db_event_seq (hb_db h) + 1)"
proof -
  obtain h' res where h': "event W r t p h = (res, h')" by fastforce
  have wf: "db_wf (hb_db h)" and known: "r \<in> set (run_ids (hb_db h))"
    using assms by (simp_all add: hub_ok_def hub_wf_def)
  obtain db' where db': "append_event (wd_clock W (hb_tick h)) r t p (hb_db h) = (Inr (db_event_seq (hb_db h) + 1), db')"
    "db_events db' = db_events (hb_db h) @ [\<lparr>ev_event_id = db_event_seq (hb_db h) + 1, ev_run_id = r,
       ev_event_type = t, ev_payload = p, ev_created_at = wd_clock W (hb_tick h)\<rparr>]"
    using append_event_known [OF known] by blast
  then have eq: "res = Inr ()" "h' = h\<lparr>hb_db := db', hb_tick := hb_tick h + 1\<rparr>"
    using h' by (auto simp: event_def hbind_def on_db_def hreturn_def)
  have "db_wf db'" using append_event_wf [OF wf db'(1)] .
  moreover have "\<forall>e \<in> set (events_after (hb_db h) r 0). ev_event_id e < db_event_seq (hb_db h) + 1"
    using wf unfolding events_after_wf [OF wf] db_wf_def by fastforce
  ultimately show ?thesis using h' eq db'(2) by (simp add: events_after_wf [OF wf] events_after_wf)
qed

lemma execution_payload_get:
  "dget (execution_payload agent phase info x) ''phase'' = JStr (stage_value phase)"
  "dget (execution_payload agent phase info x) ''execution_id'' = jopt JStr (em_execution_id x)"
  "dget (execution_payload agent phase info x) ''input_tokens'' = jopt JInt (em_input_tokens x)"
  "dget (execution_payload agent phase info x) ''output_tokens'' = jopt JInt (em_output_tokens x)"
  by (simp_all add: execution_payload_def execution_dump_def dget_def)

lemma int_or_zero_opt [simp]: "int_or_zero (jopt JInt x) = opt_or_zero x"
  by (cases x) (simp_all add: jopt_def opt_or_zero_def)

lemma fold_max_bound: "\<forall>x \<in> set xs. x < n \<Longrightarrow> a < n \<Longrightarrow> fold max xs a < (n :: nat)"
  by (induction xs arbitrary: a) auto

lemma phase_total_snoc:
  assumes "ev_event_type e = ''agent.execution''" and "in_phase phase e"
    and "\<forall>x \<in> set events. ev_event_id x < ev_event_id e" and "0 < ev_event_id e"
  shows "phase_total phase (events @ [e]) = phase_total phase events + reported_tokens e"
proof -
  have same: "latest_retry_event_id phase (events @ [e]) = latest_retry_event_id phase events"
    using assms(1) by (simp add: latest_retry_event_id_def)
  have "latest_retry_event_id phase events < ev_event_id e"
    unfolding latest_retry_event_id_def using assms(3,4) by (auto intro!: fold_max_bound)
  with assms(1,2) same show ?thesis by (simp add: phase_total_def)
qed

definition already_recorded :: "event_record list \<Rightarrow> execution_metadata \<Rightarrow> bool" where
  "already_recorded events x \<longleftrightarrow> (\<exists>i. em_execution_id x = Some i \<and> i \<noteq> []
     \<and> (\<exists>e \<in> set events. ev_event_type e = ''agent.execution''
          \<and> dget (ev_payload e) ''execution_id'' = JStr i))"

text \<open>
  Every model execution is charged once, and the phase budget is enforced exactly. An
  execution whose identifier the run has already recorded changes nothing. Any other one is
  appended to the event log, raises the total of its phase by its reported tokens, and is
  accepted exactly when the new total stays within the budget: the event stays in the log either
  way, so the overrun is on record.
\<close>

theorem execution_charged_once:
  assumes ok: "hub_ok (rt_world R) run h"
    and step: "record_execution R run agent draft phase info h = (res, h')"
  shows "if already_recorded (events_after (hb_db h) run 0) (ag_execution draft)
    then res = Inr () \<and> h' = h
    else \<exists>e. events_after (hb_db h') run 0 = events_after (hb_db h) run 0 @ [e]
      \<and> already_recorded [e] (ag_execution draft) = (em_execution_id (ag_execution draft) \<notin> {None, Some []})
      \<and> phase_total phase (events_after (hb_db h') run 0)
          = phase_total phase (events_after (hb_db h) run 0) + execution_tokens (ag_execution draft)
      \<and> (res = Inr () \<longleftrightarrow> phase_total phase (events_after (hb_db h') run 0)
             \<le> cf_token_budget_per_phase_per_run (rt_settings R))"
proof -
  let ?x = "ag_execution draft" and ?es = "events_after (hb_db h) run 0"
  let ?info = "case info of None \<Rightarrow> selected_info ?es agent | Some i \<Rightarrow> i"
  have known: "(case em_execution_id ?x of None \<Rightarrow> False
      | Some i \<Rightarrow> i \<noteq> [] \<and> (\<exists>e \<in> set ?es. ev_event_type e = ''agent.execution''
          \<and> dget (ev_payload e) ''execution_id'' = JStr i)) = already_recorded ?es ?x"
    by (auto simp: already_recorded_def split: option.splits)
  note run = step [unfolded record_execution_def Let_def hbind_def hlift_def emit_def, simplified, unfolded known]
  show ?thesis
  proof (cases "already_recorded ?es ?x")
    case True
    with run show ?thesis by (simp add: hreturn_def)
  next
    case False
    obtain h1 where h1: "event (rt_world R) run ''agent.execution'' (execution_payload agent phase ?info ?x) h = (Inr (), h1)"
      "events_after (hb_db h1) run 0 = ?es
        @ [\<lparr>ev_event_id = db_event_seq (hb_db h) + 1, ev_run_id = run, ev_event_type = ''agent.execution'',
            ev_payload = execution_payload agent phase ?info ?x,
            ev_created_at = wd_clock (rt_world R) (hb_tick h)\<rparr>]" (is "_ = ?es @ [?e]")
      "\<forall>e \<in> set ?es. ev_event_id e < db_event_seq (hb_db h) + 1"
      using emit_known [OF ok] by blast
    have same: "h' = h1" and res: "res = Inr () \<longleftrightarrow>
        phase_total phase ?es + execution_tokens ?x \<le> cf_token_budget_per_phase_per_run (rt_settings R)"
      using run False h1(1) by (auto simp: hraise_def hreturn_def split: if_splits)
    have tokens: "reported_tokens ?e = execution_tokens ?x" and ph: "in_phase phase ?e"
      by (simp_all add: reported_tokens_def execution_tokens_def execution_payload_get in_phase_def)
    have "phase_total phase (?es @ [?e]) = phase_total phase ?es + execution_tokens ?x"
      using phase_total_snoc [OF _ ph, of ?es] h1(3) tokens by simp
    moreover have "already_recorded [?e] ?x = (em_execution_id ?x \<notin> {None, Some []})"
      by (cases "em_execution_id ?x") (auto simp: already_recorded_def execution_payload_get jopt_def)
    ultimately show ?thesis using False h1(2) res unfolding same by auto
  qed
qed


definition demo_settings :: settings where
  "demo_settings = \<lparr>cf_data_dir = [''data''], cf_required_host_os = ''ubuntu'',
     cf_required_host_version = ''26.04'', cf_enforce_host_preflight = True, cf_model = ''m'',
     cf_agent_mode = ''deep'', cf_llm_logging_enabled = True, cf_human_gates_enabled = True,
     cf_human_action_token = ''t'', cf_input_cost_per_million = None,
     cf_output_cost_per_million = None, cf_reasoning_effort = ''medium'',
     cf_max_model_output_tokens = 16384, cf_max_implementation_output_tokens = 32768,
     cf_max_agent_steps = 20, cf_max_parallel_agents = 3, cf_task_timeout_seconds = 600,
     cf_a2a_base_url = ''http://127.0.0.1:8001'', cf_a2a_max_retries = 2,
     cf_a2a_retry_delay_seconds = 1 / 8, cf_a2a_poll_interval_seconds = 1 / 8,
     cf_a2a_cancel_timeout_seconds = 5, cf_mcp_enabled = True, cf_mcp_url = [],
     cf_oidc_issuer = [], cf_mcp_client_id = [], cf_mcp_client_secret = [],
     cf_analysis_timeout_seconds = 60, cf_analysis_max_parallel_jobs = 2,
     cf_analysis_max_output_bytes = 262144, cf_analysis_backend = ''sandbox'',
     cf_sandbox_image = [], cf_sandbox_execution_enabled = True, cf_max_repair_attempts = 2,
     cf_max_evaluation_repair_attempts = 2, cf_evaluation_score_threshold = 4 / 5,
     cf_max_clarification_rounds = 2, cf_token_budget_per_phase_per_run = 100,
     cf_sandbox_backend = ''runc'', cf_sandbox_network_enabled = False,
     cf_require_kvm_for_microvm = True, cf_a2ui_protocol_version = ''0.9.1'',
     cf_general_purpose_subagent_enabled = False, cf_require_requirements_approval = True,
     cf_require_plan_approval = True, cf_require_release_approval = True, cf_cors_origins = []\<rparr>"

definition demo_runtime :: runtime where
  "demo_runtime = \<lparr>rt_world = demo_world, rt_settings = demo_settings, rt_draft_json = (\<lambda>_. [])\<rparr>"

definition demo_result :: "artifact_kind \<Rightarrow> jdict \<Rightarrow> int \<Rightarrow> agent_result" where
  "demo_result kind c tokens = \<lparr>ag_artifact_kind = kind, ag_content = c, ag_markdown = ''text'',
     ag_human_prompt = None, ag_execution = \<lparr>em_execution_id = Some ''x1'', em_model_id = ''m'',
       em_prompt_version = ''v'', em_input_tokens = Some tokens, em_output_tokens = None,
       em_cost_usd = None, em_cost_basis = ''unavailable''\<rparr>\<rparr>"

text \<open>150 tokens against a budget of 100: refused, but recorded.\<close>

theorem execution_charged_once_witness:
  "\<exists>e h e1. record_execution demo_runtime ''run_1'' ''intake-agent'' (demo_result PROJECT_BRIEF [] 150) INTAKE None demo_hub
      = (Inl e, h)
    \<and> events_after (hb_db h) ''run_1'' 0 = [e1] \<and> phase_total INTAKE [e1] = 150"
proof -
  have ok: "hub_ok (rt_world demo_runtime) ''run_1'' demo_hub"
    using demo_hub_ok by (simp add: demo_runtime_def)
  obtain res h where step: "record_execution demo_runtime ''run_1'' ''intake-agent''
      (demo_result PROJECT_BRIEF [] 150) INTAKE None demo_hub = (res, h)" by fastforce
  have none: "events_after (hb_db demo_hub) ''run_1'' 0 = []"
    using demo_created create_run_events by (fastforce simp: events_after_def empty_database_def)
  have tokens: "execution_tokens (ag_execution (demo_result PROJECT_BRIEF [] 150)) = 150"
    by (simp add: demo_result_def execution_tokens_def opt_or_zero_def)
  have budget: "cf_token_budget_per_phase_per_run (rt_settings demo_runtime) = 100"
    by (simp add: demo_runtime_def demo_settings_def)
  from execution_charged_once [OF ok step, unfolded none tokens budget]
  obtain e where e: "events_after (hb_db h) ''run_1'' 0 = [e]"
    "phase_total INTAKE [e] = phase_total INTAKE [] + 150" "res \<noteq> Inr ()"
    by (auto simp: already_recorded_def phase_total_def)
  then have "phase_total INTAKE [e] = 150" by (simp add: phase_total_def)
  moreover obtain er where "res = Inl er" using e(3) by (cases res) auto
  ultimately show ?thesis using step e(1) by blast
qed

end
