(* ===== verification/AgentContext.thy ===== *)
theory AgentContext
  imports Catalog Storage
begin

text \<open>
  \<open>orchestration/context.py\<close>: the projection of a run's artifacts that one specialist receives,
  its canonical bytes, the identifiers of its inputs and the key under which its output may be
  reused. The lemmas show that an agent sees only what its contract declares, always the latest
  of it, and that the key ignores retry bookkeeping.
\<close>

section \<open>Selection\<close>

definition matches :: "artifact_view \<Rightarrow> artifact_input \<Rightarrow> bool" where
  "matches v dep \<longleftrightarrow> av_kind v = ai_kind dep
     \<and> (case ai_producer dep of None \<Rightarrow> True | Some p \<Rightarrow> av_producer v = p)"

text \<open>\<open>latest_by_producer\<close>, read out in the order of the producers' names.\<close>

definition latest_by_producer :: "artifact_view list \<Rightarrow> artifact_view list" where
  "latest_by_producer items =
     (let d = dict_of av_producer items [] in
      map (\<lambda>name. the (map_of d name)) (sort (map fst d)))"

definition dependency_matches :: "artifact_view list \<Rightarrow> artifact_input \<Rightarrow> artifact_view list" where
  "dependency_matches artifacts dep =
     (let found = filter (\<lambda>v. matches v dep) artifacts in
      case ai_fallback_kind dep of
        None \<Rightarrow> found
      | Some kind \<Rightarrow> if found = []
          then latest_by_producer (filter (\<lambda>v. av_kind v = kind) artifacts) else found)"

definition missing_input :: "agent_spec \<Rightarrow> artifact_input \<Rightarrow> py_error" where
  "missing_input spec dep = ValueError (sp_name spec @ '' requires '' @ artifact_kind_value (ai_kind dep)
     @ (case ai_producer dep of None \<Rightarrow> [] | Some p \<Rightarrow> if p = [] then [] else '' from '' @ p))"

fun select_from :: "agent_spec \<Rightarrow> artifact_view list \<Rightarrow> artifact_input list \<Rightarrow> artifact_view list \<Rightarrow>
    artifact_view list result" where
  "select_from spec artifacts [] selected = Inr selected"
| "select_from spec artifacts (dep # deps) selected =
     (case dependency_matches artifacts dep of
        [] \<Rightarrow> if ai_required dep then Inl (missing_input spec dep)
              else select_from spec artifacts deps selected
      | m # ms \<Rightarrow>
          if ai_fallback_kind dep = Some (av_kind m)
          then select_from spec artifacts deps (selected @ m # ms)
          else select_from spec artifacts deps (selected @ [last (m # ms)]))"

definition select_agent_artifacts :: "agent_spec \<Rightarrow> artifact_view list \<Rightarrow> artifact_view list result" where
  "select_agent_artifacts spec artifacts = select_from spec artifacts (sp_inputs spec) []"

section \<open>Contexts\<close>

definition build_agent_context :: "pyenv \<Rightarrow> agent_spec \<Rightarrow> string \<Rightarrow> string \<Rightarrow> artifact_view list \<Rightarrow>
    nat \<Rightarrow> jdict option \<Rightarrow> nat \<Rightarrow> agent_context result" where
  "build_agent_context E spec run_id idea artifacts repair_attempt repair_feedback retry_attempt =
     (let repair_artifact = find_last (\<lambda>v. av_kind v = REPAIR_REQUEST) artifacts;
          repairing = (if repair_attempt = 0 then None else repair_artifact)
      in rbind (select_agent_artifacts spec artifacts) (\<lambda>selected. Inr
        \<lparr>cx_project_id = project_id_for_run E run_id,
         cx_retry_attempt = retry_attempt,
         cx_run_id = run_id,
         cx_idea = (if sp_include_idea spec then idea else []),
         cx_stage = sp_stage spec,
         cx_artifacts = selected,
         cx_human_response = None,
         cx_repair_attempt = repair_attempt,
         cx_repair_feedback = (if repair_attempt = 0 then None else repair_feedback),
         cx_repair_artifact_id = map_option av_id repairing,
         cx_repair_artifact_sha256 = map_option (\<lambda>v. md_content_sha256 (av_metadata v)) repairing\<rparr>))"

definition canonical_context_bytes :: "pyenv \<Rightarrow> agent_context \<Rightarrow> string" where
  "canonical_context_bytes E context = dumps E (JObj (context_dump context))"

definition context_input_artifact_ids :: "agent_context \<Rightarrow> string list" where
  "context_input_artifact_ids context =
     map av_id (cx_artifacts context)
     @ (case cx_repair_artifact_id context of None \<Rightarrow> [] | Some i \<Rightarrow> if i = [] then [] else [i])"

definition artifact_hash :: "pyenv \<Rightarrow> artifact_view \<Rightarrow> string" where
  "artifact_hash E v = (if md_content_sha256 (av_metadata v) \<noteq> []
     then md_content_sha256 (av_metadata v) else content_digest E (av_content v))"

definition cache_payload :: "pyenv \<Rightarrow> agent_spec \<Rightarrow> agent_context \<Rightarrow> string \<Rightarrow> jdict \<Rightarrow> jdict" where
  "cache_payload E spec context model_id runtime_profile =
    [(''agent'', JStr (sp_name spec)),
     (''model_id'', JStr model_id),
     (''prompt_version'', JStr (sp_prompt_version spec)),
     (''context_contract_version'', JStr (sp_context_contract_version spec)),
     (''idea'', JStr (cx_idea context)),
     (''artifact_hashes'', jstrs (map (artifact_hash E) (cx_artifacts context))),
     (''human_response'', jopt JObj (cx_human_response context)),
     (''repair_attempt'', JInt (int (cx_repair_attempt context))),
     (''repair_feedback'', jopt JObj (cx_repair_feedback context)),
     (''repair_artifact_sha256'', jopt JStr (cx_repair_artifact_sha256 context)),
     (''runtime_profile'', JObj runtime_profile)]"

definition context_cache_key :: "pyenv \<Rightarrow> agent_spec \<Rightarrow> agent_context \<Rightarrow> string \<Rightarrow> jdict \<Rightarrow> string" where
  "context_cache_key E spec context model_id runtime_profile =
     content_digest E (cache_payload E spec context model_id runtime_profile)"

section \<open>What an agent sees\<close>

text \<open>The part of the selection that one declared input contributes.\<close>

definition chosen :: "artifact_view list \<Rightarrow> artifact_input \<Rightarrow> artifact_view list" where
  "chosen artifacts dep = (case find_last (\<lambda>v. matches v dep) artifacts of
       Some v \<Rightarrow> [v]
     | None \<Rightarrow> (case ai_fallback_kind dep of None \<Rightarrow> []
         | Some kind \<Rightarrow> latest_by_producer (filter (\<lambda>v. av_kind v = kind) artifacts)))"

lemma latest_by_producer_mem: "v \<in> set (latest_by_producer items) \<Longrightarrow>
   find_last (\<lambda>w. av_producer w = av_producer v) items = Some v"
proof -
  assume v: "v \<in> set (latest_by_producer items)"
  let ?d = "dict_of av_producer items []"
  from v obtain name where name: "name \<in> set (map fst ?d)" "v = the (map_of ?d name)"
    by (auto simp: latest_by_producer_def Let_def)
  then obtain w where w: "map_of ?d name = Some w" by (cases "map_of ?d name") (auto simp: map_of_eq_None_iff)
  then have f: "find_last (\<lambda>x. av_producer x = name) items = Some w"
    by (simp add: map_of_dict_of split: option.splits)
  then have "av_producer w = name" by (auto dest: find_last_SomeD)
  with f name w show ?thesis by simp
qed

lemma sort_empty: "sort xs = [] \<longleftrightarrow> xs = []" for xs :: "string list"
  using set_sort [of "\<lambda>x. x" xs] by (cases xs) auto

lemma latest_by_producer_empty: "latest_by_producer items = [] \<longleftrightarrow> items = []"
proof -
  have "latest_by_producer items = [] \<longleftrightarrow> set (map fst (dict_of av_producer items [])) = {}"
    by (simp add: latest_by_producer_def Let_def sort_empty)
  also have "\<dots> \<longleftrightarrow> items = []" unfolding keys_dict_of by simp
  finally show ?thesis .
qed

text \<open>One snapshot per producer, in the order of the producers' names.\<close>

lemma latest_by_producer_sorted: "sorted (map av_producer (latest_by_producer items))
   \<and> distinct (map av_producer (latest_by_producer items))"
proof -
  let ?d = "dict_of av_producer items []"
  have "av_producer (the (map_of ?d name)) = name" if "name \<in> set (map fst ?d)" for name
  proof -
    from that obtain w where "map_of ?d name = Some w" by (cases "map_of ?d name") (auto simp: map_of_eq_None_iff)
    then show ?thesis by (auto simp: map_of_dict_of split: option.splits dest: find_last_SomeD)
  qed
  then have "map av_producer (latest_by_producer items) = sort (map fst ?d)"
    by (auto simp: latest_by_producer_def Let_def intro: map_idI)
  then show ?thesis by (simp add: distinct_dict_of)
qed


lemma find_last_filter: "find_last p xs = (if filter p xs = [] then None else Some (last (filter p xs)))"
  by (rule find_last_eq_last_filter)

lemma dependency_matches_chosen:
  assumes "ai_fallback_kind dep \<noteq> Some (ai_kind dep)"
  shows "dependency_matches artifacts dep = [] \<longleftrightarrow> chosen artifacts dep = []"
    and "dependency_matches artifacts dep = m # ms \<Longrightarrow>
      (if ai_fallback_kind dep = Some (av_kind m) then m # ms else [last (m # ms)]) = chosen artifacts dep"
proof -
  let ?found = "filter (\<lambda>v. matches v dep) artifacts"
  show "dependency_matches artifacts dep = [] \<longleftrightarrow> chosen artifacts dep = []"
    by (auto simp: dependency_matches_def chosen_def find_last_filter Let_def split: option.split)
  assume m: "dependency_matches artifacts dep = m # ms"
  show "(if ai_fallback_kind dep = Some (av_kind m) then m # ms else [last (m # ms)]) = chosen artifacts dep"
  proof (cases "?found = []")
    case True
    with m obtain kind where kind: "ai_fallback_kind dep = Some kind"
      "latest_by_producer (filter (\<lambda>v. av_kind v = kind) artifacts) = m # ms"
      by (auto simp: dependency_matches_def Let_def split: option.splits)
    have "find_last (\<lambda>w. av_producer w = av_producer m) (filter (\<lambda>v. av_kind v = kind) artifacts) = Some m"
      using latest_by_producer_mem [of m "filter (\<lambda>v. av_kind v = kind) artifacts"] kind(2) by simp
    then have "av_kind m = kind" by (auto dest: find_last_SomeD)
    with True kind show ?thesis by (simp add: chosen_def find_last_filter)
  next
    case False
    then have "dependency_matches artifacts dep = ?found"
      by (auto simp: dependency_matches_def Let_def split: option.split)
    with m have "?found = m # ms" by simp
    moreover from this have "m \<in> set ?found" by simp
    then have "av_kind m = ai_kind dep" by (simp add: matches_def)
    ultimately show ?thesis using assms by (auto simp: chosen_def find_last_filter)
  qed
qed

lemma select_from_spec:
  assumes "\<forall>dep \<in> set deps. ai_fallback_kind dep \<noteq> Some (ai_kind dep)"
  shows "select_from spec artifacts deps selected =
    (case List.find (\<lambda>d. ai_required d \<and> chosen artifacts d = []) deps of
       Some d \<Rightarrow> Inl (missing_input spec d)
     | None \<Rightarrow> Inr (selected @ concat (map (chosen artifacts) deps)))"
  using assms
proof (induction deps arbitrary: selected)
  case Nil
  show ?case by simp
next
  case (Cons dep deps)
  then have ok: "ai_fallback_kind dep \<noteq> Some (ai_kind dep)" by simp
  show ?case
  proof (cases "dependency_matches artifacts dep = []")
    case True
    moreover have "chosen artifacts dep = []" using True dependency_matches_chosen(1) [OF ok] by blast
    ultimately show ?thesis using Cons by (simp split: option.split)
  next
    case False
    then obtain m ms where m: "dependency_matches artifacts dep = m # ms" by (meson neq_Nil_conv)
    note pick = dependency_matches_chosen(2) [OF ok m] and some = dependency_matches_chosen(1) [OF ok]
    have "select_from spec artifacts (dep # deps) selected
        = select_from spec artifacts deps (selected @ chosen artifacts dep)"
      unfolding pick [symmetric] using m by simp
    moreover have "chosen artifacts dep \<noteq> []" using m some by (metis list.distinct(1))
    ultimately show ?thesis using Cons.IH [of "selected @ chosen artifacts dep"] Cons.prems
      by (simp split: option.split)
  qed
qed

lemma catalog_fallbacks:
  assumes "spec \<in> set AGENT_SPECS" and "dep \<in> set (sp_inputs spec)"
  shows "ai_fallback_kind dep \<noteq> Some (ai_kind dep)"
proof -
  have "\<forall>x \<in> set (map snd INPUTS). \<forall>d \<in> set x. ai_fallback_kind d \<noteq> Some (ai_kind d)"
    unfolding INPUTS_def by (simp add: agent_input_def)
  moreover have "\<forall>x \<in> set ROLES. map_of INPUTS (fst x) \<noteq> None"
    unfolding ROLES_def INPUTS_def by simp
  ultimately show ?thesis using spec_role [OF assms(1)] spec_inputs [OF assms(1)] assms(2)
    by (fastforce dest: map_of_SomeD)
qed

lemma chosen_mem:
  assumes "v \<in> set (chosen artifacts dep)"
  shows "v \<in> set artifacts \<and> (matches v dep \<or> ai_fallback_kind dep = Some (av_kind v))"
proof (cases "find_last (\<lambda>v. matches v dep) artifacts")
  case None
  with assms obtain kind where kind: "ai_fallback_kind dep = Some kind"
    "v \<in> set (latest_by_producer (filter (\<lambda>v. av_kind v = kind) artifacts))"
    by (cases "ai_fallback_kind dep") (simp_all add: chosen_def)
  from find_last_SomeD [OF latest_by_producer_mem [OF kind(2)]] kind(1) show ?thesis by simp
next
  case (Some w)
  with assms find_last_SomeD [OF Some] show ?thesis by (simp add: chosen_def)
qed

text \<open>
  A specialist receives exactly what its contract declares. Selection fails exactly when
  a required input has nothing to offer, naming the first such input; otherwise the context
  holds, in contract order, the latest artifact that matches each input, or the latest of every
  producer of the fallback kind when there is none. So everything it holds is an artifact of the
  run that some declared input asks for, and no other.
\<close>

theorem agent_sees_its_contract:
  assumes "spec \<in> set AGENT_SPECS"
  shows "(case List.find (\<lambda>d. ai_required d \<and> chosen artifacts d = []) (sp_inputs spec) of
       Some d \<Rightarrow> build_agent_context E spec run_id idea artifacts attempt feedback retry = Inl (missing_input spec d)
     | None \<Rightarrow> (\<exists>context. build_agent_context E spec run_id idea artifacts attempt feedback retry = Inr context
         \<and> cx_artifacts context = concat (map (chosen artifacts) (sp_inputs spec))
         \<and> (\<forall>v \<in> set (cx_artifacts context). v \<in> set artifacts
              \<and> (\<exists>d \<in> set (sp_inputs spec). matches v d \<or> ai_fallback_kind d = Some (av_kind v)))
         \<and> cx_idea context = (if sp_name spec \<in> set IDEA_AGENTS then idea else [])
         \<and> (attempt = 0 \<longrightarrow> cx_repair_feedback context = None \<and> cx_repair_artifact_id context = None)))"
proof -
  have select: "select_agent_artifacts spec artifacts =
      (case List.find (\<lambda>d. ai_required d \<and> chosen artifacts d = []) (sp_inputs spec) of
         Some d \<Rightarrow> Inl (missing_input spec d)
       | None \<Rightarrow> Inr (concat (map (chosen artifacts) (sp_inputs spec))))"
    unfolding select_agent_artifacts_def
    using select_from_spec [of "sp_inputs spec" spec artifacts "[]"] catalog_fallbacks [OF assms]
    by (auto split: option.split)
  have idea: "sp_include_idea spec \<longleftrightarrow> sp_name spec \<in> set IDEA_AGENTS"
    using assms by (auto simp: AGENT_SPECS_def)
  show ?thesis
  proof (cases "List.find (\<lambda>d. ai_required d \<and> chosen artifacts d = []) (sp_inputs spec)")
    case None
    have "\<forall>v \<in> set (concat (map (chosen artifacts) (sp_inputs spec))). v \<in> set artifacts
        \<and> (\<exists>d \<in> set (sp_inputs spec). matches v d \<or> ai_fallback_kind d = Some (av_kind v))"
      using chosen_mem by fastforce
    with None select idea show ?thesis by (simp add: build_agent_context_def Let_def)
  next
    case (Some d)
    with select show ?thesis by (simp add: build_agent_context_def Let_def)
  qed
qed

definition demo_view :: "artifact_kind \<Rightarrow> string \<Rightarrow> string \<Rightarrow> jdict \<Rightarrow> artifact_view" where
  "demo_view kind producer art_id c = \<lparr>av_metadata =
     \<lparr>md_project_id = ''p'', md_current_snapshot = True, md_schema_version = ''1.0'',
      md_artifact_id = art_id, md_kind = kind, md_workflow_run_id = ''run_1'', md_stage_id = INTAKE,
      md_parent_artifact_ids = [], md_producing_agent = producer, md_model_id = None,
      md_prompt_version = None, md_execution = [], md_created_at = 0, md_content_sha256 = art_id\<rparr>,
     av_content = c\<rparr>"

lemma demo_view_simps [simp]:
  "av_kind (demo_view k p i c) = k" "av_producer (demo_view k p i c) = p" "av_id (demo_view k p i c) = i"
  by (simp_all add: demo_view_def)

definition build_spec :: agent_spec where
  "build_spec = AGENT_SPECS ! 10"

lemma build_spec: "build_spec \<in> set AGENT_SPECS" "sp_name build_spec = ''build-agent''"
  "sp_inputs build_spec = [agent_input INTEGRATED_SOURCE None False (Some CODE_CHANGE)]"
proof -
  have len: "length ROLES = 15" by (simp add: ROLES_def)
  then show "build_spec \<in> set AGENT_SPECS" by (simp add: build_spec_def AGENT_SPECS_def)
  have role: "ROLES ! 10 = (''build-agent'', INTEGRATION, BUILD_REPORT)" by (simp add: ROLES_def)
  then show "sp_name build_spec = ''build-agent''"
    using len by (simp add: build_spec_def AGENT_SPECS_def)
  have "map_of INPUTS ''build-agent'' = Some [agent_input INTEGRATED_SOURCE None False (Some CODE_CHANGE)]"
    unfolding INPUTS_def by simp
  with role len show "sp_inputs build_spec = [agent_input INTEGRATED_SOURCE None False (Some CODE_CHANGE)]"
    by (simp add: build_spec_def AGENT_SPECS_def)
qed

text \<open>Without integrated source the build agent gets the latest change of each author.\<close>

theorem agent_sees_its_contract_witness:
  "\<exists>context. build_agent_context demo_env build_spec ''run_1'' ''idea''
      [demo_view CODE_CHANGE ''test-agent'' ''a1'' [], demo_view CODE_CHANGE ''backend-agent'' ''a2'' [],
       demo_view TEST_PLAN ''test-planner-agent'' ''a3'' [], demo_view CODE_CHANGE ''test-agent'' ''a4'' []] 0 None 0
    = Inr context \<and> map av_id (cx_artifacts context) = [''a2'', ''a4''] \<and> cx_idea context = []"
proof -
  let ?as = "[demo_view CODE_CHANGE ''test-agent'' ''a1'' [], demo_view CODE_CHANGE ''backend-agent'' ''a2'' [],
       demo_view TEST_PLAN ''test-planner-agent'' ''a3'' [], demo_view CODE_CHANGE ''test-agent'' ''a4'' []]"
  have "chosen ?as (agent_input INTEGRATED_SOURCE None False (Some CODE_CHANGE))
      = [demo_view CODE_CHANGE ''backend-agent'' ''a2'' [], demo_view CODE_CHANGE ''test-agent'' ''a4'' []]"
    by (simp add: chosen_def matches_def find_last_def agent_input_def latest_by_producer_def)
  with agent_sees_its_contract [OF build_spec(1), where artifacts = ?as and E = demo_env and run_id = "''run_1''"
      and idea = "''idea''" and attempt = 0 and feedback = None and retry = 0]
  show ?thesis by (auto simp: build_spec agent_input_def IDEA_AGENTS_def)
qed

end
