(* ===== verification/Sources.thy ===== *)
theory Sources
  imports Evaluation AgentContext Storage
begin

text \<open>
  \<open>agents/source.py\<close>: which source a specialist works on, who may write which files, how the hub
  merges the three authors' changes into one bundle, and what a release consists of. The models
  that Pydantic parses leniently (numbers given as text, say) and the trusted assets of the
  repository are the parameters \<open>schema\<close> and \<open>toolchain\<close>.
\<close>

section \<open>Parameters\<close>

text \<open>\<open>model_validate\<close> of the report models; the analysis report is read for its run and its findings.\<close>

record schema =
  sc_gates :: "jdict \<Rightarrow> quality_gate_report result"
  sc_evaluation :: "jdict \<Rightarrow> evaluation_report result"
  sc_execution :: "json \<Rightarrow> unit result"
  sc_analysis :: "jdict \<Rightarrow> (string \<times> nat) result"

text \<open>\<open>json.loads\<close>, the pinned \<open>package.json\<close>, and the text of each file under \<open>sandbox/react\<close>.\<close>

record toolchain =
  tc_loads :: "string \<Rightarrow> json result"
  tc_react_dependencies :: json
  tc_asset :: "string \<Rightarrow> string"

section \<open>Current source\<close>

definition current_sources :: "artifact_view list \<Rightarrow> artifact_view list" where
  "current_sources artifacts =
     (let integrated = filter (\<lambda>v. av_kind v = INTEGRATED_SOURCE) artifacts in
      if integrated \<noteq> [] then [last integrated]
      else map snd (dict_of av_producer (filter (\<lambda>v. av_kind v = CODE_CHANGE) artifacts) []))"

section \<open>Ownership\<close>

definition source_prefix :: "string \<Rightarrow> string result" where
  "source_prefix agent =
     (if agent = ''backend-agent'' then Inr ''backend/''
      else if agent = ''frontend-agent'' then Inr ''ui/''
      else if agent = ''test-agent'' then Inr ''tests/''
      else Inl (KeyError agent))"

definition file_name :: "string \<Rightarrow> string" where
  "file_name path = last (split_on (CHR ''/'') path)"

text \<open>The loop over the files of the frontend, in order.\<close>

fun frontend_files :: "toolchain \<Rightarrow> source_file list \<Rightarrow> unit result" where
  "frontend_files T [] = Inr ()"
| "frontend_files T (f # fs) =
     rbind (if sf_path f = ''ui/package.json''
        then rbind (tc_loads T (sf_content f)) (\<lambda>j.
          guard (py_eq j (tc_react_dependencies T))
            (ValueError ''Frontend dependencies and scripts must match the pinned toolchain''))
        else Inr ()) (\<lambda>_.
     rbind (guard (sf_path f \<noteq> ''ui/package-lock.json'')
        (ValueError ''The dependency lockfile is supplied by the trusted toolchain'')) (\<lambda>_.
     frontend_files T fs))"

definition validate_source_output :: "toolchain \<Rightarrow> string \<Rightarrow> source_file list \<Rightarrow> unit result" where
  "validate_source_output T agent files =
     rbind (source_prefix agent) (\<lambda>prefix.
     rbind (guard (list_all (\<lambda>f. starts_with (sf_path f) prefix) files)
       (ValueError (agent @ '' may write only '' @ prefix))) (\<lambda>_.
     if agent \<noteq> ''frontend-agent''
     then guard (list_all (\<lambda>f. ends_with (sf_path f) ''.py'') files)
       (ValueError ''Backend and test source must use standard-library Python'')
     else
       rbind (guard ({''ui/index.html'', ''ui/src/main.tsx'', ''ui/tsconfig.json''} \<subseteq> sf_path ` set files)
         (ValueError ''Frontend must include index.html, src/main.tsx and tsconfig.json'')) (\<lambda>_.
       rbind (guard (list_all (\<lambda>f. \<not> starts_with (file_name (sf_path f)) ''vite.config'') files)
         (ValueError ''Vite configuration is supplied by the trusted toolchain'')) (\<lambda>_.
       frontend_files T files))))"

section \<open>Integration\<close>

definition IMPLEMENTERS :: "string list" where
  "IMPLEMENTERS = [''backend-agent'', ''frontend-agent'', ''test-agent'']"

fun merge_from :: "toolchain \<Rightarrow> (string \<times> artifact_view) list \<Rightarrow> string list \<Rightarrow> source_file list \<Rightarrow>
    source_file list result" where
  "merge_from T latest [] files = Inr files"
| "merge_from T latest (name # names) files =
     (case map_of latest name of
        None \<Rightarrow> Inl (KeyError name)
      | Some item \<Rightarrow>
          rbind (source_bundle_validate (av_content item)) (\<lambda>source.
          rbind (validate_source_output T name source) (\<lambda>_.
          merge_from T latest names (files @ source))))"

definition merge_sources :: "toolchain \<Rightarrow> artifact_view list \<Rightarrow> source_file list result" where
  "merge_sources T artifacts =
     (let latest = dict_of av_producer (filter (\<lambda>v. av_kind v = CODE_CHANGE) artifacts) [] in
      if set (map fst latest) \<noteq> set IMPLEMENTERS
      then Inl (ValueError ''Integration requires source from all three implementation agents'')
      else rbind (merge_from T latest IMPLEMENTERS []) source_bundle)"

section \<open>Release\<close>

definition latest_of_kind :: "artifact_view list \<Rightarrow> artifact_kind \<Rightarrow> artifact_view result" where
  "latest_of_kind artifacts kind = (case find_last (\<lambda>v. av_kind v = kind) artifacts of
       None \<Rightarrow> Inl StopIteration | Some v \<Rightarrow> Inr v)"

definition human_acceptance :: "artifact_view list \<Rightarrow> artifact_view \<Rightarrow> bool" where
  "human_acceptance artifacts review \<longleftrightarrow> list_ex (\<lambda>v. av_kind v = HUMAN_RESPONSE
     \<and> dget (av_content v) ''decision'' = JStr ''accept''
     \<and> dget (av_content v) ''artifact_sha256'' = JStr (md_content_sha256 (av_metadata review))) artifacts"

definition TRUSTED_ASSETS :: "string list" where
  "TRUSTED_ASSETS = [''package.json'', ''package-lock.json'', ''vite.config.mjs'', ''tsconfig.json'']"

definition release_files :: "toolchain \<Rightarrow> source_file list \<Rightarrow> source_file list" where
  "release_files T files =
     filter (\<lambda>f. sf_path f \<notin> {''ui/package.json'', ''ui/tsconfig.json''}) files
     @ map (\<lambda>name. \<lparr>sf_path = ''ui/'' @ name, sf_content = tc_asset T name\<rparr>) TRUSTED_ASSETS"

definition dict_merge :: "jdict \<Rightarrow> jdict \<Rightarrow> jdict" where
  "dict_merge d e = fold (\<lambda>(k, v). dict_set k v) e d"

definition release_bundle :: "schema \<Rightarrow> toolchain \<Rightarrow> rat \<Rightarrow> artifact_view list \<Rightarrow> jdict \<Rightarrow> jdict result" where
  "release_bundle S T threshold artifacts notes =
     rbind (latest_of_kind artifacts QUALITY_GATE_REPORT) (\<lambda>gate.
     rbind (latest_of_kind artifacts EVALUATION_REPORT) (\<lambda>review.
     rbind (sc_gates S (av_content gate)) (\<lambda>gates.
     rbind (sc_evaluation S (av_content review)) (\<lambda>evaluation.
     rbind (overall_score evaluation) (\<lambda>score.
     rbind (guard (human_acceptance artifacts review
           \<or> qr_verdict gates = V_passed \<and> (case score of None \<Rightarrow> False | Some s \<Rightarrow> threshold \<le> s))
         (ValueError ''Release requires passing execution evidence and model evaluation'')) (\<lambda>_.
     rbind (latest_of_kind artifacts INTEGRATED_SOURCE) (\<lambda>source.
     rbind (source_bundle_validate (av_content source)) (\<lambda>files.
       Inr (dict_merge (dict_merge [(''status'', JStr ''released'')] notes)
         [(''files'', JArr (map source_file_dump (release_files T files))),
          (''source_artifact_id'', JStr (av_id source)),
          (''quality_gate_artifact_id'', JStr (av_id gate)),
          (''evaluation_artifact_id'', JStr (av_id review)),
          (''evidence_artifact_ids'', jstrs (map av_id artifacts))])))))))))"

section \<open>What integration accepts\<close>

lemma frontend_files_ok:
  "frontend_files T fs = Inr u \<Longrightarrow> f \<in> set fs \<Longrightarrow> sf_path f \<noteq> ''ui/package-lock.json''
   \<and> (sf_path f = ''ui/package.json'' \<longrightarrow>
        (\<exists>j. tc_loads T (sf_content f) = Inr j \<and> py_eq j (tc_react_dependencies T)))"
  by (induction fs) (auto simp: rbind_eq_Inr guard_eq split: if_splits)

text \<open>The contract of one author's bundle.\<close>

definition owned_by :: "toolchain \<Rightarrow> string \<Rightarrow> source_file list \<Rightarrow> bool" where
  "owned_by T agent files \<longleftrightarrow>
     (agent = ''backend-agent'' \<and> (\<forall>f \<in> set files. starts_with (sf_path f) ''backend/'' \<and> ends_with (sf_path f) ''.py'')
      \<or> agent = ''test-agent'' \<and> (\<forall>f \<in> set files. starts_with (sf_path f) ''tests/'' \<and> ends_with (sf_path f) ''.py'')
      \<or> agent = ''frontend-agent'' \<and> (\<forall>f \<in> set files. starts_with (sf_path f) ''ui/''
            \<and> \<not> starts_with (file_name (sf_path f)) ''vite.config'' \<and> sf_path f \<noteq> ''ui/package-lock.json''
            \<and> (sf_path f = ''ui/package.json'' \<longrightarrow>
                 (\<exists>j. tc_loads T (sf_content f) = Inr j \<and> py_eq j (tc_react_dependencies T))))
         \<and> {''ui/index.html'', ''ui/src/main.tsx'', ''ui/tsconfig.json''} \<subseteq> sf_path ` set files)"

lemma validate_source_output_owned:
  assumes "validate_source_output T agent files = Inr u"
  shows "owned_by T agent files"
proof -
  consider "agent = ''backend-agent''" | "agent = ''frontend-agent''" | "agent = ''test-agent''"
    using assms by (auto simp: validate_source_output_def source_prefix_def rbind_eq_Inr split: if_splits)
  then show ?thesis
  proof cases
    case 1
    with assms show ?thesis
      by (simp add: validate_source_output_def source_prefix_def rbind_eq_Inr guard_eq owned_by_def list_all_iff)
  next
    case 2
    with assms have "frontend_files T files = Inr u"
      and "list_all (\<lambda>f. starts_with (sf_path f) ''ui/'') files"
      and "list_all (\<lambda>f. \<not> starts_with (file_name (sf_path f)) ''vite.config'') files"
      and "{''ui/index.html'', ''ui/src/main.tsx'', ''ui/tsconfig.json''} \<subseteq> sf_path ` set files"
      by (simp_all add: validate_source_output_def source_prefix_def rbind_eq_Inr guard_eq)
    with 2 show ?thesis using frontend_files_ok unfolding owned_by_def list_all_iff by blast
  next
    case 3
    with assms show ?thesis
      by (simp add: validate_source_output_def source_prefix_def rbind_eq_Inr guard_eq owned_by_def list_all_iff)
  qed
qed

lemma find_last_of_filter: "find_last p (filter q xs) = find_last (\<lambda>x. q x \<and> p x) xs"
  by (induction xs rule: rev_induct) auto

lemma find_last_cong: "(\<And>x. x \<in> set xs \<Longrightarrow> p x = q x) \<Longrightarrow> find_last p xs = find_last q xs"
  by (induction xs rule: rev_induct) auto

text \<open>The change an author delivered last.\<close>

definition latest_change :: "artifact_view list \<Rightarrow> string \<Rightarrow> artifact_view option" where
  "latest_change artifacts agent =
     find_last (\<lambda>v. av_kind v = CODE_CHANGE \<and> av_producer v = agent) artifacts"

lemma latest_change_dict:
  "map_of (dict_of av_producer (filter (\<lambda>v. av_kind v = CODE_CHANGE) artifacts) []) name
    = latest_change artifacts name"
  by (simp add: map_of_dict_of find_last_of_filter latest_change_def split: option.split)

text \<open>
  C23. Integration takes exactly the latest delivery of each of the three authors, and nothing
  else is merged: the result is the backend, frontend and test bundles in this order, each
  confined to its author's directory and file types, the frontend without configuration or
  dependencies of its own; all paths are safe and distinct and the limits hold for the whole.
\<close>

theorem merge_respects_ownership:
  assumes "merge_sources T artifacts = Inr files"
  shows "\<exists>b u t vb vu vt. files = b @ u @ t
    \<and> latest_change artifacts ''backend-agent'' = Some vb \<and> source_bundle_validate (av_content vb) = Inr b
    \<and> latest_change artifacts ''frontend-agent'' = Some vu \<and> source_bundle_validate (av_content vu) = Inr u
    \<and> latest_change artifacts ''test-agent'' = Some vt \<and> source_bundle_validate (av_content vt) = Inr t
    \<and> owned_by T ''backend-agent'' b \<and> owned_by T ''frontend-agent'' u \<and> owned_by T ''test-agent'' t
    \<and> (\<forall>f \<in> set files. safe_source_path (sf_path f) = Inr (sf_path f))
    \<and> distinct (map sf_path files) \<and> length files \<le> 50
    \<and> sum_list (map (utf8_length \<circ> sf_content) files) \<le> 262144
    \<and> (\<forall>v \<in> set artifacts. av_kind v = CODE_CHANGE \<longrightarrow> av_producer v \<in> set IMPLEMENTERS)"
proof -
  let ?d = "dict_of av_producer (filter (\<lambda>v. av_kind v = CODE_CHANGE) artifacts) []"
  from assms have keys: "set (map fst ?d) = set IMPLEMENTERS"
    and parts: "merge_from T ?d IMPLEMENTERS [] = Inr files" and whole: "source_bundle files = Inr files"
    by (auto simp: merge_sources_def Let_def rbind_eq_Inr source_bundle_Inr simp del: set_map split: if_splits)
  from parts obtain vb b vu u vt t where
    v: "map_of ?d ''backend-agent'' = Some vb" "source_bundle_validate (av_content vb) = Inr b"
    "map_of ?d ''frontend-agent'' = Some vu" "source_bundle_validate (av_content vu) = Inr u"
    "map_of ?d ''test-agent'' = Some vt" "source_bundle_validate (av_content vt) = Inr t"
    and own: "validate_source_output T ''backend-agent'' b = Inr ()" "validate_source_output T ''frontend-agent'' u = Inr ()"
    "validate_source_output T ''test-agent'' t = Inr ()"
    and files: "files = b @ u @ t"
    by (auto simp: IMPLEMENTERS_def rbind_eq_Inr split: option.splits)
  have "\<forall>f \<in> set files. safe_source_path (sf_path f) = Inr (sf_path f)"
    using source_bundle_validate_files(1) [OF v(2)] source_bundle_validate_files(1) [OF v(4)]
      source_bundle_validate_files(1) [OF v(6)] by (auto simp: files)
  moreover have "\<forall>v \<in> set artifacts. av_kind v = CODE_CHANGE \<longrightarrow> av_producer v \<in> set IMPLEMENTERS"
    using keys unfolding keys_dict_of by auto
  ultimately show ?thesis using v files whole own [THEN validate_source_output_owned]
    unfolding latest_change_dict source_bundle_Inr by blast
qed

definition demo_file :: "string \<Rightarrow> source_file" where
  "demo_file p = \<lparr>sf_path = p, sf_content = ''x''\<rparr>"

definition demo_changes :: "artifact_view list" where
  "demo_changes =
    [demo_view CODE_CHANGE ''test-agent'' ''a3'' (source_bundle_dump [demo_file ''tests/t.py'']),
     demo_view CODE_CHANGE ''frontend-agent'' ''a2'' (source_bundle_dump
       [demo_file ''ui/index.html'', demo_file ''ui/src/main.tsx'', demo_file ''ui/tsconfig.json'']),
     demo_view CODE_CHANGE ''backend-agent'' ''a1'' (source_bundle_dump [demo_file ''backend/a.py''])]"


lemma demo_bundles:
  "source_bundle_validate (source_bundle_dump [demo_file ''backend/a.py'']) = Inr [demo_file ''backend/a.py'']"
  "source_bundle_validate (source_bundle_dump [demo_file ''tests/t.py'']) = Inr [demo_file ''tests/t.py'']"
  "source_bundle_validate (source_bundle_dump
       [demo_file ''ui/index.html'', demo_file ''ui/src/main.tsx'', demo_file ''ui/tsconfig.json''])
   = Inr [demo_file ''ui/index.html'', demo_file ''ui/src/main.tsx'', demo_file ''ui/tsconfig.json'']"
  by (simp_all add: bundle_eval demo_file_def)

lemma demo_owned:
  "validate_source_output T ''backend-agent'' [demo_file ''backend/a.py''] = Inr ()"
  "validate_source_output T ''test-agent'' [demo_file ''tests/t.py''] = Inr ()"
  "validate_source_output T ''frontend-agent''
     [demo_file ''ui/index.html'', demo_file ''ui/src/main.tsx'', demo_file ''ui/tsconfig.json''] = Inr ()"
  by (simp_all add: validate_source_output_def source_prefix_def starts_with_def ends_with_def
      file_name_def demo_file_def)

definition demo_source :: "source_file list" where
  "demo_source = [demo_file ''backend/a.py'', demo_file ''ui/index.html'', demo_file ''ui/src/main.tsx'',
     demo_file ''ui/tsconfig.json'', demo_file ''tests/t.py'']"

lemma demo_content [simp]: "av_content (demo_view k p i c) = c"
  by (simp add: demo_view_def)

lemma demo_merge: "merge_sources T demo_changes = Inr demo_source"
proof -
  have dict: "dict_of av_producer (filter (\<lambda>v. av_kind v = CODE_CHANGE) demo_changes) []
      = map (\<lambda>v. (av_producer v, v)) demo_changes"
    by (simp add: demo_changes_def)
  have keys: "set (map fst (map (\<lambda>v. (av_producer v, v)) demo_changes)) = set IMPLEMENTERS"
    by (auto simp: demo_changes_def IMPLEMENTERS_def)
  have "merge_from T (map (\<lambda>v. (av_producer v, v)) demo_changes) IMPLEMENTERS [] = Inr demo_source"
    by (simp add: demo_changes_def IMPLEMENTERS_def demo_bundles demo_owned demo_source_def)
  moreover have "source_bundle demo_source = Inr demo_source"
    by (simp add: source_bundle_def bounded_bundle_def demo_source_def demo_file_def utf8_length_def)
  ultimately show ?thesis unfolding merge_sources_def dict Let_def keys by simp
qed

theorem merge_respects_ownership_witness:
  "\<forall>T. merge_sources T demo_changes = Inr demo_source \<and> length demo_source \<le> 50
   \<and> (\<exists>vt. latest_change demo_changes ''test-agent'' = Some vt)"
proof
  fix T
  show "merge_sources T demo_changes = Inr demo_source \<and> length demo_source \<le> 50
     \<and> (\<exists>vt. latest_change demo_changes ''test-agent'' = Some vt)"
    using merge_respects_ownership [OF demo_merge [of T]] demo_merge [of T] by blast
qed

section \<open>What a release contains\<close>

lemma map_of_dict_merge: "distinct (map fst e) \<Longrightarrow> map_of (dict_merge d e) = map_of d ++ map_of e"
proof (induction e arbitrary: d)
  case (Cons kv e)
  obtain k v where kv: "kv = (k, v)" by (cases kv)
  have "map_of (dict_merge d (kv # e)) = (map_of d)(k \<mapsto> v) ++ map_of e"
    using Cons by (simp add: dict_merge_def kv AList.update_conv')
  also have "\<dots> = map_of d ++ map_of (kv # e)"
  proof -
    have "map_of e k = None" using Cons.prems kv by (simp add: map_of_eq_None_iff)
    then show ?thesis by (auto simp: kv map_add_def fun_eq_iff split: option.split)
  qed
  finally show ?case .
qed (simp add: dict_merge_def)



definition demo_gates :: "verdict \<Rightarrow> quality_gate_report" where
  "demo_gates v = \<lparr>qr_profile = ''python-react-v1'', qr_run_id = ''run_1'', qr_repair_attempt = 0,
     qr_verdict = v, qr_gates = [], qr_source_artifact_ids = [], qr_deferred_checks = []\<rparr>"

definition demo_schema :: schema where
  "demo_schema = \<lparr>sc_gates = (\<lambda>d. Inr (demo_gates (if dget d ''verdict'' = JStr ''passed'' then V_passed else V_failed))),
     sc_evaluation = (\<lambda>_. Inr (demo_evaluation 1)), sc_execution = (\<lambda>_. Inr ()),
     sc_analysis = (\<lambda>d. Inr (''run_1'', 0))\<rparr>"

definition demo_toolchain :: toolchain where
  "demo_toolchain = \<lparr>tc_loads = (\<lambda>_. Inr JNull), tc_react_dependencies = JNull, tc_asset = (\<lambda>name. name)\<rparr>"

definition demo_release_inputs :: "source_file list \<Rightarrow> string \<Rightarrow> artifact_view list" where
  "demo_release_inputs files verdict =
    [demo_view INTEGRATED_SOURCE ''trusted-integration-service'' ''s1'' (source_bundle_dump files),
     demo_view QUALITY_GATE_REPORT ''deterministic-quality-gates'' ''g1'' [(''verdict'', JStr verdict)],
     demo_view EVALUATION_REPORT ''evaluation-agent'' ''e1'' []]"

lemma demo_score: "overall_score (demo_evaluation 1) = Inr (Some 1)"
proof -
  have "applicable_scores (demo_evaluation 1) = map Some (replicate 6 1)"
    unfolding demo_applicable by simp
  then have "overall_score (demo_evaluation 1) = Inr (Some (fmean (replicate 6 1)))"
    unfolding overall_score_def map_filter_id
    by (simp add: demo_evaluation_def rubrics_def numeral_eq_Suc List.map_filter_simps)
  moreover have "fmean (replicate 6 1) = 1"
    using fmean_const [of "replicate 6 1" 1] by simp
  ultimately show ?thesis by simp
qed

lemma demo_latest [simp]:
  "latest_of_kind (demo_release_inputs files v) QUALITY_GATE_REPORT
     = Inr (demo_view QUALITY_GATE_REPORT ''deterministic-quality-gates'' ''g1'' [(''verdict'', JStr v)])"
  "latest_of_kind (demo_release_inputs files v) EVALUATION_REPORT
     = Inr (demo_view EVALUATION_REPORT ''evaluation-agent'' ''e1'' [])"
  "latest_of_kind (demo_release_inputs files v) INTEGRATED_SOURCE
     = Inr (demo_view INTEGRATED_SOURCE ''trusted-integration-service'' ''s1'' (source_bundle_dump files))"
  by (simp_all add: latest_of_kind_def demo_release_inputs_def find_last_Cons)

lemma demo_release:
  assumes "source_bundle_validate (source_bundle_dump files) = Inr files"
  shows "\<exists>d. release_bundle demo_schema T 1 (demo_release_inputs files ''passed'') notes = Inr d"
  using assms by (simp add: release_bundle_def demo_schema_def demo_score demo_gates_def dget_def)

lemma demo_source_validates: "source_bundle_validate (source_bundle_dump demo_source) = Inr demo_source"
  by (simp add: bundle_eval demo_source_def demo_file_def)


lemma filter_out_two:
  assumes "distinct (map f xs)"
  shows "length xs \<le> length (filter (\<lambda>x. f x \<notin> {a, b}) xs) + 2"
proof -
  let ?ys = "filter (\<lambda>x. f x \<in> {a, b}) xs"
  have "length ?ys = card (set (map f ?ys))"
    using distinct_card [OF distinct_map_filter_on [OF assms], of "\<lambda>x. f x \<in> {a, b}"] by simp
  also have "\<dots> \<le> card {a, b}" by (rule card_mono) auto
  also have "\<dots> \<le> 2" by (simp add: card_insert_if)
  finally show ?thesis using sum_length_filter_compl [of "\<lambda>x. f x \<in> {a, b}" xs] by simp
qed

lemma release_files_length:
  assumes "distinct (map sf_path files)"
  shows "length files + 2 \<le> length (release_files T files)"
  using filter_out_two [OF assms, of "''ui/package.json''" "''ui/tsconfig.json''"]
  by (simp add: release_files_def TRUSTED_ASSETS_def)

text \<open>
  A release of a large project cannot be stored. A bundle may hold 50 files, and integration
  accepts it; the release adds four trusted files and drops at most two, so from 49 files on the
  release agent's output no longer validates as a source bundle: the store refuses it and the
  run fails after its evaluation has passed.
\<close>

theorem large_release_refused:
  assumes r: "release_bundle S T threshold artifacts notes = Inr d"
    and s: "latest_of_kind artifacts INTEGRATED_SOURCE = Inr source"
    and f: "source_bundle_validate (av_content source) = Inr files" "49 \<le> length files"
    and q: "wq_kind q = RELEASE_BUNDLE" "wq_content q = d"
  shows "\<exists>e. write_artifact E uid now q st = (Inl e, st)"
proof -
  obtain e where e: "release_source q = Inl e"
  proof -
    have "dget d ''files'' = JArr (map source_file_dump (release_files T files))"
      using r s f(1)
      by (auto simp: release_bundle_def rbind_eq_Inr dget_def map_of_dict_merge map_add_def)
    then have m: "map_of d ''files'' = Some (JArr (map source_file_dump (release_files T files)))"
      by (auto simp: dget_def split: option.splits)
    have "51 \<le> length (release_files T files)"
      using release_files_length [OF source_bundle_validate_files(2) [OF f(1)], of T] f(2) by linarith
    then have "source_bundle ys = Inl (ValueError ''SourceBundle'')"
      if "traverse source_file_validate (map source_file_dump (release_files T files)) = Inr ys" for ys
      using traverse_length [OF that] by (simp add: source_bundle_def)
    then have "\<exists>e. source_bundle_validate [(''files'', JArr (map source_file_dump (release_files T files)))] = Inl e"
      by (cases "traverse source_file_validate (map source_file_dump (release_files T files))")
        (simp_all add: source_bundle_validate_def dget_def)
    then show ?thesis using that m q by (auto simp: release_source_def)
  qed
  then show ?thesis by (simp add: write_artifact_def)
qed

definition large_source :: "source_file list" where
  "large_source = map (\<lambda>n. demo_file (''backend/'' @ replicate (n + 1) (CHR ''a'') @ ''.py'')) [0..<50]"

lemma large_source_validates: "source_bundle_validate (source_bundle_dump large_source) = Inr large_source"
proof (rule bundle_validate_dump)
  have safe: "safe_source_path (''backend/'' @ replicate (Suc n) (CHR ''a'') @ ''.py'')
      = Inr (''backend/'' @ replicate (Suc n) (CHR ''a'') @ ''.py'')" for n
  proof -
    have split: "split_on (CHR ''/'') (replicate (Suc n) (CHR ''a'') @ ''.py'')
        = [replicate (Suc n) (CHR ''a'') @ ''.py'']"
    proof -
      have "CHR ''/'' \<notin> set xs \<Longrightarrow> split_on (CHR ''/'') xs = [xs]" for xs by (induction xs) auto
      then show ?thesis by simp
    qed
    have "takeWhile (\<lambda>c. c \<noteq> CHR ''.'') (rev (replicate (Suc n) (CHR ''a'') @ ''.py'')) = ''yp''"
      by simp
    then show ?thesis
      using split by (simp add: safe_source_path_def bad_path_def starts_with_def path_suffix_def
          SOURCE_SUFFIXES_def BUILD_DIRS_def)
  qed
  show "list_all (\<lambda>f. safe_source_path (sf_path f) = Inr (sf_path f) \<and> 1 \<le> length (sf_path f)
           \<and> length (sf_path f) \<le> 200 \<and> length (sf_content f) \<le> 65536) large_source"
    using safe by (auto simp: large_source_def demo_file_def list_all_iff)
  have "distinct (map sf_path large_source)"
  proof -
    have "inj (\<lambda>n. ''backend/'' @ replicate (n + 1) (CHR ''a'') @ ''.py'')"
      by (rule injI) (auto dest: arg_cong [of _ _ length])
    then show ?thesis unfolding large_source_def
      by (simp add: demo_file_def comp_def distinct_map inj_on_subset [OF _ subset_UNIV])
  qed
  then show "1 \<le> length large_source \<and> length large_source \<le> 50 \<and> distinct (map sf_path large_source)
      \<and> sum_list (map (utf8_length \<circ> sf_content) large_source) \<le> 262144"
    by (simp add: large_source_def demo_file_def utf8_length_def comp_def sum_list_triv)
qed

theorem large_release_refused_witness:
  "\<exists>d e. release_bundle demo_schema demo_toolchain 1 (demo_release_inputs large_source ''passed'') [] = Inr d
     \<and> write_artifact demo_env ''01'' 1 (demo_request ''run_1'' RELEASE RELEASE_BUNDLE ''release-agent'' d)
         (empty_store []) = (Inl e, empty_store [])"
proof -
  obtain d where d: "release_bundle demo_schema demo_toolchain 1 (demo_release_inputs large_source ''passed'') [] = Inr d"
    using demo_release [OF large_source_validates] by blast
  have "source_bundle_validate (av_content (demo_view INTEGRATED_SOURCE ''trusted-integration-service'' ''s1''
      (source_bundle_dump large_source))) = Inr large_source"
    using large_source_validates by simp
  from large_release_refused [OF d demo_latest(3) this]
  show ?thesis using d by (simp add: large_source_def)
qed

end
