(* ===== verification/Gates.thy ===== *)
theory Gates
  imports Sources
begin

text \<open>
  \<open>evaluation/gates.py\<close>: the deterministic quality gates. They look only at the artifacts of the
  run: their integrity, the requirements, the current source, and for every source the latest
  build, test and analysis evidence, which must name the source, its hash and its parent, come
  from the trusted producer and show a clean isolated execution. The text of Pydantic's own
  validation errors is abbreviated to the message inside.
\<close>

section \<open>Caught exceptions\<close>

text \<open>The classes in \<open>except (KeyError, TypeError, ValueError)\<close>.\<close>

fun caught :: "py_error \<Rightarrow> bool" where
  "caught (ValueError _) = True"
| "caught (KeyError _) = True"
| "caught (TypeError _) = True"
| "caught _ = False"

section \<open>Evidence checks\<close>

text \<open>\<open>re.search(r"Ran [1-9][0-9]* tests? in ", text)\<close>.\<close>

definition ran_tests_at :: "string \<Rightarrow> bool" where
  "ran_tests_at s \<longleftrightarrow> starts_with s ''Ran '' \<and>
     (let rest = drop 4 s; digits = takeWhile is_digit rest; after = dropWhile is_digit rest in
      digits \<noteq> [] \<and> hd digits \<noteq> CHR ''0''
      \<and> (starts_with after '' test in '' \<or> starts_with after '' tests in ''))"

fun ran_tests :: "string \<Rightarrow> bool" where
  "ran_tests [] = False"
| "ran_tests (c # cs) = (ran_tests_at (c # cs) \<or> ran_tests cs)"

text \<open>\<open>re.fullmatch(r"sha256:[a-f0-9]{64}", text)\<close>.\<close>

definition pinned_image :: "string \<Rightarrow> bool" where
  "pinned_image s \<longleftrightarrow> starts_with s ''sha256:'' \<and> length (drop 7 s) = 64
     \<and> list_all is_lower_hex (drop 7 s)"

definition image_text :: "json \<Rightarrow> string result" where
  "image_text v = (case v of JStr s \<Rightarrow> Inr s
     | _ \<Rightarrow> if truthy v then Inl (TypeError ''expected string or bytes-like object'') else Inr [])"

fun as_dict :: "json \<Rightarrow> jdict option" where
  "as_dict (JObj d) = Some d"
| "as_dict _ = None"

definition stderr_text :: "jdict \<Rightarrow> string result" where
  "stderr_text report = (case map_of report ''stderr'' of
       None \<Rightarrow> Inr []
     | Some (JStr s) \<Rightarrow> Inr s
     | Some _ \<Rightarrow> Inl (TypeError ''expected string or bytes-like object''))"

definition clean_execution :: "string \<Rightarrow> jdict \<Rightarrow> jdict \<Rightarrow> bool" where
  "clean_execution runtime report execution \<longleftrightarrow>
     dget report ''status'' = JStr ''completed''
     \<and> dget execution ''runtime'' = JStr runtime
     \<and> py_eq (dget execution ''exit_code'') (JInt 0)
     \<and> dget execution ''cleanup_succeeded'' = JBool True
     \<and> list_all (\<lambda>flag. dget execution flag = JBool False) [''timed_out'', ''output_truncated'', ''oom_killed'']"

definition check_execution :: "schema \<Rightarrow> string \<Rightarrow> jdict \<Rightarrow> unit result" where
  "check_execution S runtime report =
     rbind (dindex report ''execution'') (\<lambda>execution.
     rbind (sc_execution S execution) (\<lambda>_.
     rbind (dindex report ''status'') (\<lambda>_.
     case as_dict execution of
       None \<Rightarrow> Inl (ValueError ''SandboxExecution'')
     | Some ex \<Rightarrow>
         let bad = ValueError ''Execution failed, lacks pinned isolation evidence, or used another runtime'' in
         if \<not> clean_execution runtime report ex then Inl bad
         else rbind (image_text (dget ex ''image'')) (\<lambda>image. guard (pinned_image image) bad))))"

definition check_report :: "schema \<Rightarrow> artifact_kind \<Rightarrow> artifact_view \<Rightarrow> artifact_view \<Rightarrow> jdict \<Rightarrow> string \<Rightarrow> unit result" where
  "check_report S kind source artifact report runtime =
     (let analysis = (kind = STATIC_ANALYSIS_REPORT) in
      rbind (dindex report (if analysis then ''content_sha256'' else ''source_sha256'')) (\<lambda>hash.
      rbind (guard (hash = JStr (md_content_sha256 (av_metadata source)))
        (ValueError ''Evidence source hash mismatch'')) (\<lambda>_.
      rbind (guard (av_id source \<in> set (md_parent_artifact_ids (av_metadata artifact)))
        (ValueError ''Evidence manifest does not reference the source parent'')) (\<lambda>_.
      rbind (guard (av_producer artifact = (if analysis then ''static-analysis-agent'' else ''trusted-sandbox-service''))
        (ValueError ''Evidence was not published by the trusted execution service'')) (\<lambda>_.
      rbind (if analysis
         then rbind (sc_analysis S report) (\<lambda>(run_id, findings).
              rbind (guard (run_id = md_workflow_run_id (av_metadata source))
                (ValueError ''Analysis belongs to another run'')) (\<lambda>_.
              guard (findings = 0) (ValueError (''Static analysis has '' @ nat_str findings @ '' findings''))))
         else rbind (dindex report ''execution'') (\<lambda>execution.
              rbind (guard (py_eq (JObj (md_execution (av_metadata artifact))) execution)
                (ValueError ''Sandbox manifest and report execution disagree'')) (\<lambda>_.
              if kind = TEST_REPORT
              then rbind (stderr_text report) (\<lambda>text. guard (ran_tests text)
                (ValueError ''No executed unittest count in the trusted worker output''))
              else Inr ()))) (\<lambda>_.
      check_execution S runtime report))))))"

section \<open>One evidence gate\<close>

text \<open>The reports of an artifact of the kind that name the source, in the order of the loops.\<close>

definition artifact_reports :: "artifact_view \<Rightarrow> json list" where
  "artifact_reports artifact = (case map_of (av_content artifact) ''reports'' of
       None \<Rightarrow> [JObj (av_content artifact)]
     | Some (JArr xs) \<Rightarrow> xs
     | Some _ \<Rightarrow> [])"

definition candidates :: "artifact_kind \<Rightarrow> artifact_view \<Rightarrow> artifact_view list \<Rightarrow> (artifact_view \<times> jdict) list" where
  "candidates kind source artifacts =
     concat (map (\<lambda>artifact. map (\<lambda>d. (artifact, d))
         (filter (\<lambda>d. dget d (if kind = STATIC_ANALYSIS_REPORT then ''artifact_id'' else ''source_artifact_id'')
                      = JStr (av_id source))
           (List.map_filter as_dict (artifact_reports artifact))))
       (filter (\<lambda>artifact. av_kind artifact = kind) artifacts))"

record evidence_state =
  es_evidence :: "string list"
  es_failures :: "string list"
  es_missing :: "string list"

fun evidence_loop :: "schema \<Rightarrow> artifact_kind \<Rightarrow> artifact_view list \<Rightarrow> string \<Rightarrow> artifact_view list \<Rightarrow>
    evidence_state \<Rightarrow> evidence_state result" where
  "evidence_loop S kind artifacts runtime [] st = Inr st"
| "evidence_loop S kind artifacts runtime (source # sources) st =
     (let found = candidates kind source artifacts in
      if found = [] then evidence_loop S kind artifacts runtime sources
        (st\<lparr>es_missing := es_missing st @ [av_id source]\<rparr>)
      else let (artifact, report) = last found;
               st' = st\<lparr>es_evidence := es_evidence st @ [av_id artifact]\<rparr>
        in case check_report S kind source artifact report runtime of
             Inr _ \<Rightarrow> evidence_loop S kind artifacts runtime sources st'
           | Inl e \<Rightarrow> if caught e then evidence_loop S kind artifacts runtime sources
                 (st'\<lparr>es_failures := es_failures st' @ [av_id source @ '': '' @ error_text e]\<rparr>)
               else Inl e)"

definition execution_gate :: "schema \<Rightarrow> string \<Rightarrow> artifact_kind \<Rightarrow> artifact_view list \<Rightarrow> artifact_view list \<Rightarrow>
    string \<Rightarrow> bool \<Rightarrow> quality_gate result" where
  "execution_gate S name kind sources artifacts runtime ready =
     (if \<not> ready then Inr \<lparr>qg_name = name, qg_status = Not_executed,
        qg_detail = ''Requires executable source from every implementation specialist.'',
        qg_evidence_artifact_ids = []\<rparr>
      else rbind (evidence_loop S kind artifacts runtime sources
          \<lparr>es_evidence = [], es_failures = [], es_missing = []\<rparr>) (\<lambda>st.
        let details = es_failures st @ (if es_missing st = [] then []
              else [''Missing current-source evidence: '' @ join '', '' (es_missing st)])
        in Inr \<lparr>qg_name = name,
           qg_status = (if es_missing st \<noteq> [] then Not_executed
                        else if es_failures st \<noteq> [] then Failed else Passed),
           qg_detail = (if details \<noteq> [] then join ''; '' details
                        else ''Current-source '' @ name @ '' evidence passes under '' @ runtime @ ''.''),
           qg_evidence_artifact_ids = rev (remdups (rev (es_evidence st)))\<rparr>))"

section \<open>All gates\<close>

definition artifact_integrity :: "pyenv \<Rightarrow> agent_context \<Rightarrow> unit result" where
  "artifact_integrity E context =
     rbind (traverse (\<lambda>v.
         rbind (resolve_project E (md_project_id (av_metadata v)) (md_workflow_run_id (av_metadata v))) (\<lambda>_.
         guard (md_workflow_run_id (av_metadata v) = cx_run_id context
             \<and> content_digest E (av_content v) = md_content_sha256 (av_metadata v))
           (ValueError ''Artifact run identity or content hash mismatch'')))
       (cx_artifacts context)) (\<lambda>_.
     guard (distinct (map av_id (cx_artifacts context))) (ValueError ''Duplicate artifact identity''))"

definition requirements_gate :: "artifact_view list \<Rightarrow> quality_gate" where
  "requirements_gate artifacts =
     (case find_last (\<lambda>v. av_kind v = REQUIREMENTS_SPEC) artifacts of
        None \<Rightarrow> \<lparr>qg_name = ''requirements_schema'', qg_status = Not_executed,
          qg_detail = ''No requirements artifact is available.'', qg_evidence_artifact_ids = []\<rparr>
      | Some latest \<Rightarrow>
          let (status, detail) = (case rbind (requirements_model_validate (av_content latest)) (\<lambda>spec.
                 guard (rq_functional_requirements spec \<noteq> [] \<and> rq_acceptance_criteria spec \<noteq> [])
                   (ValueError ''Requirements and acceptance criteria must be nonempty'')) of
               Inr _ \<Rightarrow> (Passed, ''Requirements schema and acceptance criteria validate.'')
             | Inl e \<Rightarrow> (Failed, error_text e))
          in \<lparr>qg_name = ''requirements_schema'', qg_status = status, qg_detail = detail,
              qg_evidence_artifact_ids = [av_id latest]\<rparr>)"

definition is_bundle :: "artifact_view \<Rightarrow> bool" where
  "is_bundle v = (case source_bundle_validate (av_content v) of Inl _ \<Rightarrow> False | Inr _ \<Rightarrow> True)"

definition has_ui :: "artifact_view \<Rightarrow> bool" where
  "has_ui v = (case source_bundle_validate (av_content v) of Inl _ \<Rightarrow> False
     | Inr files \<Rightarrow> list_ex (\<lambda>f. starts_with (sf_path f) ''ui/'') files)"

definition GATE_KINDS :: "(string \<times> artifact_kind) list" where
  "GATE_KINDS = [(''build'', BUILD_REPORT), (''unit_tests'', TEST_REPORT),
                 (''static_analysis'', STATIC_ANALYSIS_REPORT)]"

definition gates_verdict :: "quality_gate list \<Rightarrow> verdict" where
  "gates_verdict gates =
     (if list_ex (\<lambda>g. qg_status g = Not_executed) gates then V_blocked
      else if list_ex (\<lambda>g. qg_status g = Failed) gates then V_failed else V_passed)"

definition evaluate_gates :: "pyenv \<Rightarrow> schema \<Rightarrow> agent_context \<Rightarrow> string \<Rightarrow> quality_gate_report result" where
  "evaluate_gates E S context runtime =
     (let artifacts = cx_artifacts context in
      case artifact_integrity E context of
        Inl e \<Rightarrow> Inr \<lparr>qr_profile = ''python-stdlib-v1'', qr_run_id = cx_run_id context,
          qr_repair_attempt = cx_repair_attempt context, qr_verdict = V_blocked,
          qr_gates = [\<lparr>qg_name = ''artifact_integrity'', qg_status = Failed, qg_detail = error_text e,
                       qg_evidence_artifact_ids = []\<rparr>],
          qr_source_artifact_ids = [], qr_deferred_checks = default_deferred_checks\<rparr>
      | Inr _ \<Rightarrow>
          let integrity = \<lparr>qg_name = ''artifact_integrity'', qg_status = Passed,
                qg_detail = ''Input manifests, run identity, and content hashes validate.'',
                qg_evidence_artifact_ids = map av_id artifacts\<rparr>;
              sources = current_sources artifacts;
              executable = filter is_bundle sources;
              ready = (sources \<noteq> [] \<and> length executable = length sources);
              source_gate = \<lparr>qg_name = ''executable_source'',
                qg_status = (if ready then Passed else Not_executed),
                qg_detail = (if ready then ''Current project source is a validated Python/React bundle.''
                  else ''Current implementation includes proposals or unsupported/missing source.''),
                qg_evidence_artifact_ids = map av_id sources\<rparr>
          in rbind (traverse (\<lambda>(name, kind). execution_gate S name kind executable artifacts runtime ready)
               GATE_KINDS) (\<lambda>evidence_gates.
             let gates = [integrity, requirements_gate artifacts, source_gate] @ evidence_gates;
                 react = list_ex has_ui executable
             in Inr \<lparr>qr_profile = (if react then ''python-react-v1'' else ''python-stdlib-v1''),
                  qr_run_id = cx_run_id context, qr_repair_attempt = cx_repair_attempt context,
                  qr_verdict = gates_verdict gates, qr_gates = gates,
                  qr_source_artifact_ids = map av_id executable,
                  qr_deferred_checks = [if react then ''backend type checking'' else ''type checking'',
                    ''integration and browser tests'', ''dependency and security scanning'',
                    ''requirement-to-test coverage'', ''runsc/Kata comparison'']\<rparr>))"

definition gates_markdown :: "quality_gate_report \<Rightarrow> string" where
  "gates_markdown report =
     ''# Deterministic quality gates'' @ [CHR 0x0A, CHR 0x0A] @ ''Profile: '' @ qr_profile report
     @ [CHR 0x0A, CHR 0x0A] @ verdict_value (qr_verdict report) @ [CHR 0x0A, CHR 0x0A]
     @ join [CHR 0x0A] (map (\<lambda>gate. ''- '' @ qg_name gate @ '': **'' @ gate_status_value (qg_status gate)
         @ ''** - '' @ qg_detail gate) (qr_gates report))"

section \<open>A passing verdict means complete evidence\<close>

text \<open>What makes one report clean evidence for one source, stated without the checking order.\<close>

definition clean_evidence :: "schema \<Rightarrow> artifact_kind \<Rightarrow> artifact_view \<Rightarrow> artifact_view \<Rightarrow> jdict \<Rightarrow> string \<Rightarrow> bool" where
  "clean_evidence S kind source artifact report runtime \<longleftrightarrow>
     map_of report (if kind = STATIC_ANALYSIS_REPORT then ''content_sha256'' else ''source_sha256'')
       = Some (JStr (md_content_sha256 (av_metadata source)))
     \<and> av_id source \<in> set (md_parent_artifact_ids (av_metadata artifact))
     \<and> av_producer artifact = (if kind = STATIC_ANALYSIS_REPORT then ''static-analysis-agent'' else ''trusted-sandbox-service'')
     \<and> (if kind = STATIC_ANALYSIS_REPORT
        then sc_analysis S report = Inr (md_workflow_run_id (av_metadata source), 0)
        else \<exists>x. map_of report ''execution'' = Some x \<and> py_eq (JObj (md_execution (av_metadata artifact))) x)
     \<and> (kind = TEST_REPORT \<longrightarrow> (\<exists>text. map_of report ''stderr'' = Some (JStr text) \<and> ran_tests text))
     \<and> (\<exists>ex image. map_of report ''execution'' = Some (JObj ex) \<and> sc_execution S (JObj ex) = Inr ()
          \<and> clean_execution runtime report ex
          \<and> dget ex ''image'' = JStr image \<and> pinned_image image)"

lemma pinned_image_nonempty: "pinned_image s \<Longrightarrow> s \<noteq> []"
  by (auto simp: pinned_image_def)

lemma as_dict_Some: "as_dict j = Some d \<longleftrightarrow> j = JObj d"
  by (cases j) auto

lemma image_text_pinned:
  "image_text v = Inr s \<Longrightarrow> pinned_image s \<Longrightarrow> v = JStr s"
  by (cases v) (auto simp: image_text_def dest: pinned_image_nonempty split: if_splits)

lemma check_execution_iff:
  "check_execution S runtime report = Inr u \<longleftrightarrow>
     (\<exists>ex image. map_of report ''execution'' = Some (JObj ex) \<and> sc_execution S (JObj ex) = Inr ()
          \<and> clean_execution runtime report ex
          \<and> dget ex ''image'' = JStr image \<and> pinned_image image)" (is "?L \<longleftrightarrow> ?R")
proof
  assume ?L
  then obtain x ex status image where
    "map_of report ''execution'' = Some x" "sc_execution S x = Inr ()" "as_dict x = Some ex"
    "clean_execution runtime report ex" "image_text (dget ex ''image'') = Inr image" "pinned_image image"
    by (auto simp: check_execution_def rbind_eq_Inr dindex_Inr_iff guard_eq Let_def
        split: option.splits if_splits)
  then show ?R using image_text_pinned by (auto simp: as_dict_Some)
next
  assume ?R
  then obtain ex image where r: "map_of report ''execution'' = Some (JObj ex)" "sc_execution S (JObj ex) = Inr ()"
    "clean_execution runtime report ex" "dget ex ''image'' = JStr image" "pinned_image image" by blast
  then have "map_of report ''status'' = Some (JStr ''completed'')"
    by (auto simp: clean_execution_def dget_def split: option.splits)
  with r show ?L by (simp add: check_execution_def dindex_def image_text_def)
qed

lemma stderr_ran_tests:
  "(\<exists>text. stderr_text report = Inr text \<and> ran_tests text)
   \<longleftrightarrow> (\<exists>text. map_of report ''stderr'' = Some (JStr text) \<and> ran_tests text)"
  by (auto simp: stderr_text_def split: option.splits json.splits)

lemma check_report_iff:
  "check_report S kind source artifact report runtime = Inr ()
     \<longleftrightarrow> clean_evidence S kind source artifact report runtime"
proof (cases "kind = STATIC_ANALYSIS_REPORT")
  case True
  then show ?thesis
    by (auto simp: check_report_def clean_evidence_def Let_def rbind_eq_Inr guard_eq dindex_Inr_iff
        check_execution_iff split: prod.splits)
next
  case False
  then show ?thesis
    by (auto simp: check_report_def clean_evidence_def Let_def rbind_eq_Inr guard_eq dindex_Inr_iff
        check_execution_iff stderr_ran_tests split: prod.splits)
qed

definition has_evidence :: "schema \<Rightarrow> artifact_kind \<Rightarrow> artifact_view list \<Rightarrow> string \<Rightarrow> artifact_view \<Rightarrow> bool" where
  "has_evidence S kind artifacts runtime source \<longleftrightarrow> candidates kind source artifacts \<noteq> []
     \<and> (case last (candidates kind source artifacts) of (artifact, report) \<Rightarrow>
          clean_evidence S kind source artifact report runtime)"

lemma evidence_loop_clean:
  assumes "evidence_loop S kind artifacts runtime sources st = Inr st'"
  shows "es_missing st' = [] \<and> es_failures st' = [] \<longleftrightarrow> es_missing st = [] \<and> es_failures st = []
    \<and> (\<forall>s \<in> set sources. has_evidence S kind artifacts runtime s)"
  using assms
proof (induction sources arbitrary: st)
  case Nil
  then show ?case by simp
next
  case (Cons source sources)
  show ?case
  proof (cases "candidates kind source artifacts = []")
    case True
    then have "\<not> has_evidence S kind artifacts runtime source" by (simp add: has_evidence_def)
    with True Cons.IH [of "st\<lparr>es_missing := es_missing st @ [av_id source]\<rparr>"] Cons.prems
    show ?thesis by simp
  next
    case False
    obtain artifact report where l: "last (candidates kind source artifacts) = (artifact, report)"
      by fastforce
    let ?st = "st\<lparr>es_evidence := es_evidence st @ [av_id artifact]\<rparr>"
    have has: "has_evidence S kind artifacts runtime source
        \<longleftrightarrow> check_report S kind source artifact report runtime = Inr ()"
      using False l by (simp add: has_evidence_def check_report_iff)
    show ?thesis
    proof (cases "check_report S kind source artifact report runtime")
      case (Inl e)
      with False l Cons.prems have "evidence_loop S kind artifacts runtime sources
          (?st\<lparr>es_failures := es_failures ?st @ [av_id source @ '': '' @ error_text e]\<rparr>) = Inr st'"
        by (simp add: Let_def split: if_splits)
      from Cons.IH [OF this] Inl has show ?thesis by simp
    next
      case (Inr u)
      with False l Cons.prems have "evidence_loop S kind artifacts runtime sources ?st = Inr st'" by simp
      from Cons.IH [OF this] Inr has show ?thesis by simp
    qed
  qed
qed

lemma evidence_loop_returns:
  assumes "\<forall>s \<in> set sources. has_evidence S kind artifacts runtime s"
  shows "\<exists>st'. evidence_loop S kind artifacts runtime sources st = Inr st'"
  using assms
proof (induction sources arbitrary: st)
  case (Cons source sources)
  obtain artifact report where l: "last (candidates kind source artifacts) = (artifact, report)"
    by fastforce
  have "candidates kind source artifacts \<noteq> []" "check_report S kind source artifact report runtime = Inr ()"
    using Cons.prems l by (simp_all add: has_evidence_def check_report_iff)
  with Cons l show ?case by simp
qed simp

lemma execution_gate_passes:
  "(\<exists>g. execution_gate S name kind sources artifacts runtime ready = Inr g \<and> qg_status g = Passed)
   \<longleftrightarrow> ready \<and> (\<forall>s \<in> set sources. has_evidence S kind artifacts runtime s)"
proof (cases ready)
  case False
  then show ?thesis by (simp add: execution_gate_def)
next
  case True
  let ?st = "\<lparr>es_evidence = [], es_failures = [], es_missing = []\<rparr>"
  show ?thesis
  proof (cases "evidence_loop S kind artifacts runtime sources ?st")
    case (Inl e)
    then have "\<not> (\<forall>s \<in> set sources. has_evidence S kind artifacts runtime s)"
      using evidence_loop_returns [of sources S kind artifacts runtime ?st] by auto
    with Inl True show ?thesis by (simp add: execution_gate_def)
  next
    case (Inr st')
    with evidence_loop_clean [OF Inr] True show ?thesis by (auto simp: execution_gate_def Let_def)
  qed
qed


text \<open>The conditions on the run's artifacts, as a specification of the gates.\<close>

definition integrity_holds :: "pyenv \<Rightarrow> agent_context \<Rightarrow> bool" where
  "integrity_holds E context \<longleftrightarrow>
     (\<forall>v \<in> set (cx_artifacts context). md_workflow_run_id (av_metadata v) = cx_run_id context
        \<and> (md_project_id (av_metadata v) = [] \<or> md_project_id (av_metadata v) = project_id_for_run E (cx_run_id context))
        \<and> content_digest E (av_content v) = md_content_sha256 (av_metadata v))
     \<and> distinct (map av_id (cx_artifacts context))"

definition requirements_hold :: "artifact_view list \<Rightarrow> bool" where
  "requirements_hold artifacts \<longleftrightarrow>
     (\<exists>v spec. find_last (\<lambda>v. av_kind v = REQUIREMENTS_SPEC) artifacts = Some v
        \<and> requirements_model_validate (av_content v) = Inr spec
        \<and> rq_functional_requirements spec \<noteq> [] \<and> rq_acceptance_criteria spec \<noteq> [])"

lemma artifact_integrity_iff: "artifact_integrity E context = Inr () \<longleftrightarrow> integrity_holds E context"
proof -
  let ?P = "\<lambda>v. rbind (resolve_project E (md_project_id (av_metadata v)) (md_workflow_run_id (av_metadata v))) (\<lambda>_.
         guard (md_workflow_run_id (av_metadata v) = cx_run_id context
             \<and> content_digest E (av_content v) = md_content_sha256 (av_metadata v))
           (ValueError ''Artifact run identity or content hash mismatch''))"
  have one: "?P v = Inr () \<longleftrightarrow> md_workflow_run_id (av_metadata v) = cx_run_id context
        \<and> (md_project_id (av_metadata v) = [] \<or> md_project_id (av_metadata v) = project_id_for_run E (cx_run_id context))
        \<and> content_digest E (av_content v) = md_content_sha256 (av_metadata v)" for v
    by (auto simp: resolve_project_def Let_def guard_def)
  have all: "(\<exists>us. traverse Q xs = Inr us) \<longleftrightarrow> (\<forall>v \<in> set xs. Q v = Inr ())"
    for Q :: "artifact_view \<Rightarrow> unit result" and xs
    by (induction xs) (auto simp: rbind_eq_Inr)
  have "artifact_integrity E context = Inr () \<longleftrightarrow> (\<exists>us. traverse ?P (cx_artifacts context) = Inr us)
      \<and> distinct (map av_id (cx_artifacts context))"
    by (auto simp only: artifact_integrity_def rbind_eq_Inr guard_eq)
  then show ?thesis unfolding all one integrity_holds_def .
qed

lemma requirements_gate_iff: "qg_status (requirements_gate artifacts) = Passed \<longleftrightarrow> requirements_hold artifacts"
proof (cases "find_last (\<lambda>v. av_kind v = REQUIREMENTS_SPEC) artifacts")
  case None
  then show ?thesis by (simp add: requirements_gate_def requirements_hold_def)
next
  case (Some v)
  then show ?thesis
    by (cases "requirements_model_validate (av_content v)")
      (auto simp: requirements_gate_def requirements_hold_def guard_def)
qed

lemma gates_verdict_passed: "gates_verdict gates = V_passed \<longleftrightarrow> (\<forall>g \<in> set gates. qg_status g = Passed)"
proof -
  have "qg_status g = Passed \<longleftrightarrow> qg_status g \<noteq> Not_executed \<and> qg_status g \<noteq> Failed" for g :: quality_gate
    by (cases "qg_status g") simp_all
  then show ?thesis by (auto simp: gates_verdict_def list_ex_iff)
qed

lemma all_bundles: "length (filter p xs) = length xs \<longleftrightarrow> (\<forall>x \<in> set xs. p x)"
  by (metis filter_id_conv length_filter_less nat_less_le)

text \<open>
  C8. The gates pass exactly when the evidence is complete. For a run's context the verdict is
  ``passed'' if and only if every artifact belongs to the run and matches its hash, with no
  identifier twice; the latest requirements validate and are not empty; there is current source,
  all of it a valid bundle; and for each source the latest build, test and analysis report that
  names it is clean: bound to the source's hash and identifier, published by the trusted
  producer, executed to completion under the configured runtime in a pinned image with no
  timeout, truncation or memory kill, with tests that ran and no findings.
\<close>

theorem gates_pass_iff_evidence_complete:
  "(\<exists>report. evaluate_gates E S context runtime = Inr report \<and> qr_verdict report = V_passed) \<longleftrightarrow>
     integrity_holds E context
     \<and> requirements_hold (cx_artifacts context)
     \<and> current_sources (cx_artifacts context) \<noteq> []
     \<and> (\<forall>source \<in> set (current_sources (cx_artifacts context)). is_bundle source
          \<and> (\<forall>kind \<in> {BUILD_REPORT, TEST_REPORT, STATIC_ANALYSIS_REPORT}.
               has_evidence S kind (cx_artifacts context) runtime source))"
proof (cases "artifact_integrity E context")
  case (Inl e)
  then have "\<not> integrity_holds E context" using artifact_integrity_iff by (metis Inl_Inr_False)
  with Inl show ?thesis by (auto simp: evaluate_gates_def Let_def)
next
  case (Inr u)
  let ?as = "cx_artifacts context" and ?ss = "current_sources (cx_artifacts context)"
  let ?ex = "filter is_bundle ?ss"
  let ?ready = "?ss \<noteq> [] \<and> length ?ex = length ?ss"
  let ?gate = "\<lambda>name kind. execution_gate S name kind ?ex ?as runtime ?ready"
  have ok: "integrity_holds E context" using Inr artifact_integrity_iff by simp
  have ready: "?ready \<longleftrightarrow> ?ss \<noteq> [] \<and> (\<forall>s \<in> set ?ss. is_bundle s)" by (simp add: all_bundles)
  have "(\<exists>report. evaluate_gates E S context runtime = Inr report \<and> qr_verdict report = V_passed) \<longleftrightarrow>
      (\<exists>b t a. ?gate ''build'' BUILD_REPORT = Inr b \<and> ?gate ''unit_tests'' TEST_REPORT = Inr t
        \<and> ?gate ''static_analysis'' STATIC_ANALYSIS_REPORT = Inr a
        \<and> qg_status (requirements_gate ?as) = Passed \<and> ?ready
        \<and> qg_status b = Passed \<and> qg_status t = Passed \<and> qg_status a = Passed)"
    using Inr by (auto simp: evaluate_gates_def Let_def GATE_KINDS_def rbind_eq_Inr gates_verdict_passed
        split: if_splits)
  also have "\<dots> \<longleftrightarrow> requirements_hold ?as \<and> ?ready
      \<and> (\<exists>b. ?gate ''build'' BUILD_REPORT = Inr b \<and> qg_status b = Passed)
      \<and> (\<exists>t. ?gate ''unit_tests'' TEST_REPORT = Inr t \<and> qg_status t = Passed)
      \<and> (\<exists>a. ?gate ''static_analysis'' STATIC_ANALYSIS_REPORT = Inr a \<and> qg_status a = Passed)"
    unfolding requirements_gate_iff by blast
  also have "\<dots> \<longleftrightarrow> requirements_hold ?as \<and> ?ready
      \<and> (\<forall>s \<in> set ?ex. has_evidence S BUILD_REPORT ?as runtime s)
      \<and> (\<forall>s \<in> set ?ex. has_evidence S TEST_REPORT ?as runtime s)
      \<and> (\<forall>s \<in> set ?ex. has_evidence S STATIC_ANALYSIS_REPORT ?as runtime s)"
    unfolding execution_gate_passes by blast
  finally show ?thesis using ok unfolding ready by auto
qed

text \<open>A run whose evidence is complete.\<close>

definition gate_view :: "artifact_kind \<Rightarrow> string \<Rightarrow> string \<Rightarrow> string list \<Rightarrow> jdict \<Rightarrow> jdict \<Rightarrow> artifact_view" where
  "gate_view kind producer art_id parents execution c = \<lparr>av_metadata =
     \<lparr>md_project_id = [], md_current_snapshot = True, md_schema_version = ''1.0'',
      md_artifact_id = art_id, md_kind = kind, md_workflow_run_id = ''run_1'', md_stage_id = INTEGRATION,
      md_parent_artifact_ids = parents, md_producing_agent = producer, md_model_id = None,
      md_prompt_version = None, md_execution = execution, md_created_at = 0,
      md_content_sha256 = content_digest demo_env c\<rparr>,
     av_content = c\<rparr>"

lemma gate_view_simps [simp]:
  "av_kind (gate_view k p i ps x c) = k" "av_producer (gate_view k p i ps x c) = p"
  "av_id (gate_view k p i ps x c) = i" "av_content (gate_view k p i ps x c) = c"
  "md_parent_artifact_ids (av_metadata (gate_view k p i ps x c)) = ps"
  "md_execution (av_metadata (gate_view k p i ps x c)) = x"
  "md_workflow_run_id (av_metadata (gate_view k p i ps x c)) = ''run_1''"
  "md_project_id (av_metadata (gate_view k p i ps x c)) = []"
  "md_content_sha256 (av_metadata (gate_view k p i ps x c)) = content_digest demo_env c"
  by (simp_all add: gate_view_def)

definition demo_image :: string where
  "demo_image = ''sha256:'' @ replicate 64 (CHR ''a'')"

definition demo_execution :: jdict where
  "demo_execution = [(''runtime'', JStr ''runc''), (''exit_code'', JInt 0), (''cleanup_succeeded'', JBool True),
     (''timed_out'', JBool False), (''output_truncated'', JBool False), (''oom_killed'', JBool False),
     (''image'', JStr demo_image)]"

definition demo_report :: "string \<Rightarrow> string \<Rightarrow> jdict" where
  "demo_report id_key hash_key = [(id_key, JStr ''s1''),
     (hash_key, JStr (content_digest demo_env (source_bundle_dump demo_source))),
     (''status'', JStr ''completed''), (''stderr'', JStr ''Ran 3 tests in 0.1s''),
     (''execution'', JObj demo_execution)]"

definition demo_spec_content :: jdict where
  "demo_spec_content = [(''product_name'', JStr ''p''), (''functional_requirements'', jstrs [''f'']),
     (''non_functional_requirements'', jstrs []), (''acceptance_criteria'', jstrs [''a'']),
     (''exclusions'', jstrs []), (''open_questions'', jstrs [])]"

definition demo_gate_artifacts :: "artifact_view list" where
  "demo_gate_artifacts =
    [gate_view REQUIREMENTS_SPEC ''requirements-agent'' ''r1'' [] [] demo_spec_content,
     gate_view INTEGRATED_SOURCE ''trusted-integration-service'' ''s1'' [] [] (source_bundle_dump demo_source),
     gate_view BUILD_REPORT ''trusted-sandbox-service'' ''b1'' [''s1''] demo_execution
       (demo_report ''source_artifact_id'' ''source_sha256''),
     gate_view TEST_REPORT ''trusted-sandbox-service'' ''t1'' [''s1''] demo_execution
       (demo_report ''source_artifact_id'' ''source_sha256''),
     gate_view STATIC_ANALYSIS_REPORT ''static-analysis-agent'' ''l1'' [''s1''] []
       [(''reports'', JArr [JObj (demo_report ''artifact_id'' ''content_sha256'')])]]"

definition demo_gate_context :: agent_context where
  "demo_gate_context = \<lparr>cx_project_id = [], cx_retry_attempt = 0, cx_run_id = ''run_1'', cx_idea = [],
     cx_stage = EVALUATION, cx_artifacts = demo_gate_artifacts, cx_human_response = None,
     cx_repair_attempt = 0, cx_repair_feedback = None, cx_repair_artifact_id = None,
     cx_repair_artifact_sha256 = None\<rparr>"

lemma demo_pinned: "pinned_image demo_image"
  by (simp add: pinned_image_def demo_image_def starts_with_def is_lower_hex_def list_all_iff)

lemma demo_clean: "clean_execution ''runc'' (demo_report a b) demo_execution"
  if "a \<noteq> ''status''" "b \<noteq> ''status''"
  using that by (simp add: clean_execution_def demo_report_def demo_execution_def dget_def py_eq_def)

lemma demo_ran: "ran_tests ''Ran 3 tests in 0.1s''"
  by (simp add: ran_tests_at_def starts_with_def is_digit_def)

lemma demo_report_get [simp]:
  "map_of (demo_report a b) a = Some (JStr ''s1'')"
  "a \<noteq> b \<Longrightarrow> map_of (demo_report a b) b
     = Some (JStr (content_digest demo_env (source_bundle_dump demo_source)))"
  "a \<noteq> ''stderr'' \<Longrightarrow> b \<noteq> ''stderr'' \<Longrightarrow> map_of (demo_report a b) ''stderr'' = Some (JStr ''Ran 3 tests in 0.1s'')"
  "a \<noteq> ''execution'' \<Longrightarrow> b \<noteq> ''execution'' \<Longrightarrow> map_of (demo_report a b) ''execution'' = Some (JObj demo_execution)"
  "a \<noteq> ''reports'' \<Longrightarrow> b \<noteq> ''reports'' \<Longrightarrow> map_of (demo_report a b) ''reports'' = None"
  by (simp_all add: demo_report_def)

lemma demo_image_get: "dget demo_execution ''image'' = JStr demo_image"
  by (simp add: demo_execution_def dget_def)

lemma demo_candidates:
  "candidates BUILD_REPORT (demo_gate_artifacts ! 1) demo_gate_artifacts
     = [(demo_gate_artifacts ! 2, demo_report ''source_artifact_id'' ''source_sha256'')]"
  "candidates TEST_REPORT (demo_gate_artifacts ! 1) demo_gate_artifacts
     = [(demo_gate_artifacts ! 3, demo_report ''source_artifact_id'' ''source_sha256'')]"
  "candidates STATIC_ANALYSIS_REPORT (demo_gate_artifacts ! 1) demo_gate_artifacts
     = [(demo_gate_artifacts ! 4, demo_report ''artifact_id'' ''content_sha256'')]"
  by (simp_all add: candidates_def demo_gate_artifacts_def artifact_reports_def dget_def
      List.map_filter_simps)

lemma demo_evidence:
  "has_evidence demo_schema BUILD_REPORT demo_gate_artifacts ''runc'' (demo_gate_artifacts ! 1)"
  "has_evidence demo_schema TEST_REPORT demo_gate_artifacts ''runc'' (demo_gate_artifacts ! 1)"
  "has_evidence demo_schema STATIC_ANALYSIS_REPORT demo_gate_artifacts ''runc'' (demo_gate_artifacts ! 1)"
  unfolding has_evidence_def demo_candidates
  by (simp_all add: clean_evidence_def demo_gate_artifacts_def demo_ran demo_pinned demo_clean
      demo_image_get demo_schema_def py_eq_def del: ran_tests.simps)

lemma demo_requirements: "requirements_hold demo_gate_artifacts"
proof -
  have "find_last (\<lambda>v. av_kind v = REQUIREMENTS_SPEC) demo_gate_artifacts = Some (demo_gate_artifacts ! 0)"
    by (simp add: demo_gate_artifacts_def find_last_Cons)
  moreover have "requirements_model_validate demo_spec_content = Inr
     \<lparr>rq_product_name = ''p'', rq_functional_requirements = [''f''], rq_non_functional_requirements = [],
      rq_acceptance_criteria = [''a''], rq_exclusions = [], rq_open_questions = []\<rparr>"
    by (simp add: requirements_model_validate_def demo_spec_content_def str_field_def str_list_field_def jstrs_def)
  ultimately show ?thesis
    unfolding requirements_hold_def by (simp add: demo_gate_artifacts_def)
qed

theorem gates_pass_iff_evidence_complete_witness:
  "\<exists>report. evaluate_gates demo_env demo_schema demo_gate_context ''runc'' = Inr report
     \<and> qr_verdict report = V_passed"
proof -
  have ctx: "cx_artifacts demo_gate_context = demo_gate_artifacts" "cx_run_id demo_gate_context = ''run_1''"
    by (simp_all add: demo_gate_context_def)
  have "integrity_holds demo_env demo_gate_context"
    unfolding integrity_holds_def ctx by (simp add: demo_gate_artifacts_def)
  moreover have "current_sources demo_gate_artifacts = [demo_gate_artifacts ! 1]"
    by (simp add: current_sources_def demo_gate_artifacts_def)
  moreover have "is_bundle (demo_gate_artifacts ! 1)"
    by (simp add: is_bundle_def demo_gate_artifacts_def demo_source_validates)
  ultimately show ?thesis
    using demo_requirements demo_evidence
    unfolding gates_pass_iff_evidence_complete ctx by simp
qed

end
