(* ===== verification/Workflow.thy ===== *)
theory Workflow
  imports Interaction Gates
begin

text \<open>
  \<open>orchestration/workflow.py\<close>: the workflow of one run. The host inspection, the reconciliation
  with the remote agents and what the agents do are the environment: for every stage it supplies
  a schedule, a list of the events that the concurrent invocations of the stage produce, in the
  order in which the event loop runs them. A schedule that ends with an invocation unfinished
  stands for a cancellation of the run at that point.
\<close>

section \<open>The environment\<close>

datatype hub_call =
    Emit string jdict
  | Delegate delegated_task
  | Ask delegated_task agent_result
  | Poll delegated_task string
  | Respond string human_action

datatype stage_action =
    Begin string
  | Call string hub_call
  | Return string agent_result
  | Fail string py_error

record orchestrator = runtime +
  rt_schema :: schema
  rt_toolchain :: toolchain
  rt_inspect :: "nat \<Rightarrow> host_capability_report result"
  rt_reconcile :: "nat \<Rightarrow> hub_call list \<times> unit result"
  rt_schedule :: "nat \<Rightarrow> stage_action list"

text \<open>
  What an invocation asks of the hub while it runs; the A2A client labels every delegation with
  the run of the context it was given.
\<close>

definition perform :: "orchestrator \<Rightarrow> string \<Rightarrow> hub_call \<Rightarrow> unit hub_op" where
  "perform R run_id c = (case c of
       Emit t p \<Rightarrow> emit R run_id t p
     | Delegate t \<Rightarrow> on_db (\<lambda>_. save_delegated_task (t\<lparr>dt_run_id := run_id\<rparr>)) (rt_world R)
     | Ask m d \<Rightarrow> hbind (ask_human R (m\<lparr>dt_run_id := run_id\<rparr>) d) (\<lambda>_. hreturn ())
     | Poll m s \<Rightarrow> hbind (poll_answer R (m\<lparr>dt_run_id := run_id\<rparr>) s) (\<lambda>_. hreturn ())
     | Respond other a \<Rightarrow> (\<lambda>h. case respond R other a h of (_, h') \<Rightarrow> (Inr (), h')))"

fun perform_all :: "orchestrator \<Rightarrow> string \<Rightarrow> hub_call list \<Rightarrow> unit hub_op" where
  "perform_all R run_id [] = hreturn ()"
| "perform_all R run_id (c # cs) = hbind (perform R run_id c) (\<lambda>_. perform_all R run_id cs)"

section \<open>Saved and cached outputs\<close>

definition stage_status :: "workflow_run \<Rightarrow> stage_name \<Rightarrow> run_status option" where
  "stage_status run stage = map_option sr_status (List.find (\<lambda>s. sr_name s = stage) (wr_stages run))"

definition saved_ids :: "event_record list \<Rightarrow> nat \<Rightarrow> json list" where
  "saved_ids events repair_attempt = map (\<lambda>e. dget (ev_payload e) ''artifact_id'')
     (filter (\<lambda>e. ev_event_type e = ''artifact.created''
        \<and> truthy (dget (ev_payload e) ''agent_completed'')
        \<and> py_eq (case map_of (ev_payload e) ''repair_attempt'' of None \<Rightarrow> JInt 0 | Some v \<Rightarrow> v)
            (JInt (int repair_attempt))) events)"

fun collect_saved :: "orchestrator \<Rightarrow> store \<Rightarrow> (artifact_record \<Rightarrow> bool) \<Rightarrow> artifact_record list \<Rightarrow>
    (string \<times> artifact_record) list \<Rightarrow> (string \<times> artifact_record) list result" where
  "collect_saved R st wanted [] saved = Inr saved"
| "collect_saved R st wanted (a # as) saved =
     (if wanted a
      then rbind (read_content (wd_py (rt_world R)) st a) (\<lambda>_.
             collect_saved R st wanted as (dict_set (md_producing_agent (ar_metadata a)) a saved))
      else collect_saved R st wanted as saved)"

definition has_integrated :: "database \<Rightarrow> string \<Rightarrow> bool" where
  "has_integrated db run_id \<longleftrightarrow>
     list_ex (\<lambda>a. md_kind (ar_metadata a) = INTEGRATED_SOURCE) (list_artifacts db run_id)"

definition saved_outputs :: "orchestrator \<Rightarrow> workflow_run \<Rightarrow> stage_name \<Rightarrow> nat \<Rightarrow>
    (string \<times> artifact_record) list hub_op" where
  "saved_outputs R run stage repair_attempt = hlift (\<lambda>h.
     let db = hb_db h; run_id = wr_run_id run;
         completed = (stage_status run stage = Some COMPLETED);
         ids = saved_ids (events_after db run_id 0) repair_attempt;
         expected = map (\<lambda>s. (sp_name s, sp_artifact_kind s)) (AGENTS_BY_STAGE stage);
         wanted = (\<lambda>a. md_stage_id (ar_metadata a) = stage
           \<and> map_of expected (md_producing_agent (ar_metadata a)) = Some (md_kind (ar_metadata a))
           \<and> (completed \<or> JStr (md_artifact_id (ar_metadata a)) \<in> set ids))
     in rbind (collect_saved R (hb_store h) wanted (list_artifacts db run_id) []) (\<lambda>saved.
        if stage = INTEGRATION \<and> \<not> has_integrated db run_id then Inr [] else Inr saved))"

definition cached_output :: "orchestrator \<Rightarrow> string \<Rightarrow> agent_spec \<Rightarrow> string \<Rightarrow> string list \<Rightarrow>
    artifact_record option hub_op" where
  "cached_output R run_id spec cache_key input_ids = hlift (\<lambda>h.
     case find_last (\<lambda>a. let m = ar_metadata a in
            md_producing_agent m = sp_name spec \<and> md_kind m = sp_artifact_kind spec
            \<and> dget (md_execution m) ''cache_key'' = JStr cache_key
            \<and> dget (md_execution m) ''context_contract_version'' = JStr (sp_context_contract_version spec)
            \<and> md_parent_artifact_ids m = input_ids) (list_artifacts (hb_db h) run_id) of
       None \<Rightarrow> Inr None
     | Some a \<Rightarrow> rbind (read_content (wd_py (rt_world R)) (hb_store h) a) (\<lambda>_. Inr (Some a)))"

definition runtime_profile :: "settings \<Rightarrow> pyenv \<Rightarrow> jdict" where
  "runtime_profile s E =
    [(''reasoning_effort'', JStr (cf_reasoning_effort s)),
     (''max_model_output_tokens'', JInt (cf_max_model_output_tokens s)),
     (''max_implementation_output_tokens'', JInt (cf_max_implementation_output_tokens s)),
     (''sandbox_backend'', JStr (cf_sandbox_backend s)),
     (''sandbox_image'', JStr (cf_sandbox_image s)),
     (''sandbox_execution_enabled'', JBool (cf_sandbox_execution_enabled s)),
     (''analysis_backend'', JStr (cf_analysis_backend s)),
     (''mcp_enabled'', JBool (cf_mcp_enabled s)),
     (''evaluation_score_threshold'', JFloat (cf_evaluation_score_threshold s))]"

section \<open>One invocation\<close>

record stage_run =
  sn_run :: workflow_run
  sn_stage :: stage_name
  sn_attempt :: nat
  sn_feedback :: "jdict option"
  sn_retry :: nat
  sn_saved :: "(string \<times> artifact_record) list"
  sn_context :: agent_context

record invocation =
  iv_input_ids :: "string list"
  iv_cache_key :: string
  iv_sha256 :: string
  iv_bytes :: nat
  iv_baseline_bytes :: nat

datatype agent_phase = Waiting | Active invocation | Done string

definition context_payload :: "stage_run \<Rightarrow> agent_spec \<Rightarrow> agent_context \<Rightarrow> invocation \<Rightarrow> jdict" where
  "context_payload G spec context iv =
    [(''agent'', JStr (sp_name spec)), (''stage'', JStr (stage_value (sn_stage G))),
     (''repair_attempt'', JInt (int (sn_attempt G))), (''retry_attempt'', JInt (int (sn_retry G))),
     (''input_artifact_ids'', jstrs (iv_input_ids iv)),
     (''context_contract_version'', JStr (sp_context_contract_version spec)),
     (''context_sha256'', JStr (iv_sha256 iv)), (''context_bytes'', JInt (int (iv_bytes iv))),
     (''baseline_context_bytes'', JInt (int (iv_baseline_bytes iv))),
     (''context_bytes_saved'', JInt (int (iv_baseline_bytes iv) - int (iv_bytes iv))),
     (''selected_artifact_count'', JInt (int (length (cx_artifacts context)))),
     (''baseline_artifact_count'', JInt (int (length (cx_artifacts (sn_context G))))),
     (''cache_key'', JStr (iv_cache_key iv))]"

definition make_invocation :: "orchestrator \<Rightarrow> stage_run \<Rightarrow> agent_spec \<Rightarrow> agent_context \<Rightarrow> invocation" where
  "make_invocation R G spec context =
     (let E = wd_py (rt_world R); text = canonical_context_bytes E context;
          baseline = (sn_context G)\<lparr>cx_repair_artifact_id := cx_repair_artifact_id context,
                                    cx_repair_artifact_sha256 := cx_repair_artifact_sha256 context\<rparr>
      in \<lparr>iv_input_ids = context_input_artifact_ids context,
          iv_cache_key = context_cache_key E spec context (cf_model (rt_settings R))
            (runtime_profile (rt_settings R) E),
          iv_sha256 = sha256 E text, iv_bytes = length text,
          iv_baseline_bytes = length (canonical_context_bytes E baseline)\<rparr>)"

text \<open>From the semaphore to the call of the remote agent, or to a cache hit.\<close>

definition begin_agent :: "orchestrator \<Rightarrow> stage_run \<Rightarrow> agent_spec \<Rightarrow> agent_phase hub_op" where
  "begin_agent R G spec = (let run_id = wr_run_id (sn_run G) in
     hbind (hlift (\<lambda>_. build_agent_context (wd_py (rt_world R)) spec run_id (wr_idea (sn_run G))
        (cx_artifacts (sn_context G)) (sn_attempt G) (sn_feedback G) (sn_retry G))) (\<lambda>context.
     let iv = make_invocation R G spec context; payload = context_payload G spec context iv in
     hbind (emit R run_id ''agent.context_selected'' payload) (\<lambda>_.
     hbind (if sp_cacheable spec then cached_output R run_id spec (iv_cache_key iv) (iv_input_ids iv)
            else hreturn None) (\<lambda>cached.
     case cached of
       Some a \<Rightarrow> hbind (emit R run_id ''agent.cache_hit''
            (dict_set ''artifact_id'' (JStr (md_artifact_id (ar_metadata a))) payload)) (\<lambda>_.
          hreturn (Done (md_artifact_id (ar_metadata a))))
     | None \<Rightarrow> hbind (emit R run_id ''agent.started'' payload) (\<lambda>_. hreturn (Active iv))))))"

definition output_request :: "stage_run \<Rightarrow> agent_spec \<Rightarrow> invocation \<Rightarrow> agent_result \<Rightarrow> write_request" where
  "output_request G spec iv r =
     \<lparr>wq_run_id = wr_run_id (sn_run G), wq_stage = sn_stage G, wq_kind = ag_artifact_kind r,
      wq_producing_agent = sp_name spec, wq_content = ag_content r, wq_markdown = ag_markdown r,
      wq_parent_artifact_ids = iv_input_ids iv, wq_model_id = Some (em_model_id (ag_execution r)),
      wq_prompt_version = em_prompt_version (ag_execution r),
      wq_execution = execution_dump (ag_execution r) @
        [(''cache_key'', JStr (iv_cache_key iv)),
         (''context_contract_version'', JStr (sp_context_contract_version spec)),
         (''context_sha256'', JStr (iv_sha256 iv)), (''context_bytes'', JInt (int (iv_bytes iv))),
         (''baseline_context_bytes'', JInt (int (iv_baseline_bytes iv)))]\<rparr>"

definition finish_agent :: "orchestrator \<Rightarrow> stage_run \<Rightarrow> agent_spec \<Rightarrow> invocation \<Rightarrow> agent_result \<Rightarrow> agent_phase hub_op" where
  "finish_agent R G spec iv r = (let run_id = wr_run_id (sn_run G) in
     hbind (record_execution R run_id (sp_name spec) r (sp_stage spec)
       (Some \<lparr>ci_cache_key = JStr (iv_cache_key iv),
              ci_context_contract_version = JStr (sp_context_contract_version spec),
              ci_context_bytes = JInt (int (iv_bytes iv)),
              ci_baseline_context_bytes = JInt (int (iv_baseline_bytes iv)),
              ci_repair_attempt = int (sn_attempt G), ci_retry_attempt = int (sn_retry G)\<rparr>)) (\<lambda>_.
     hbind (publish (rt_world R) (output_request G spec iv r)) (\<lambda>artifact.
     hbind (emit R run_id ''artifact.created''
       [(''artifact_id'', JStr (md_artifact_id (ar_metadata artifact))),
        (''kind'', JStr (artifact_kind_value (md_kind (ar_metadata artifact)))),
        (''stage'', JStr (stage_value (sn_stage G))), (''agent_completed'', JBool True),
        (''repair_attempt'', JInt (int (sn_attempt G)))]) (\<lambda>_.
     hbind (emit R run_id ''agent.completed''
       [(''agent'', JStr (sp_name spec)), (''stage'', JStr (stage_value (sn_stage G)))]) (\<lambda>_.
     hreturn (Done (md_artifact_id (ar_metadata artifact))))))))"

section \<open>The fan-out of a stage\<close>

text \<open>
  \<open>asyncio.TaskGroup\<close> over the specialists of a stage under a semaphore. \<open>Begin\<close> is the step in
  which an invocation acquires the semaphore (it does nothing while all slots are taken), \<open>Call\<close>
  one request of the running invocation to the hub, \<open>Return\<close> and \<open>Fail\<close> its end. The first
  exception ends the group: the others are cancelled and their later actions do not happen.
\<close>

type_synonym phases = "(string \<times> agent_phase) list"

fun is_active :: "agent_phase \<Rightarrow> bool" where
  "is_active (Active _) = True"
| "is_active _ = False"

fun done_id :: "agent_phase \<Rightarrow> string option" where
  "done_id (Done i) = Some i"
| "done_id _ = None"

definition active_count :: "phases \<Rightarrow> nat" where
  "active_count ph = length (filter (is_active \<circ> snd) ph)"

definition all_done :: "phases \<Rightarrow> bool" where
  "all_done ph \<longleftrightarrow> list_all (\<lambda>(_, p). done_id p \<noteq> None) ph"

definition find_spec :: "stage_run \<Rightarrow> string \<Rightarrow> agent_spec option" where
  "find_spec G name = List.find (\<lambda>s. sp_name s = name) (AGENTS_BY_STAGE (sn_stage G))"

definition advance :: "phases \<Rightarrow> string \<Rightarrow> agent_phase hub_op \<Rightarrow> phases hub_op" where
  "advance ph name m = hbind m (\<lambda>p. hreturn (dict_set name p ph))"

definition agent_step :: "orchestrator \<Rightarrow> stage_run \<Rightarrow> stage_action \<Rightarrow> phases \<Rightarrow> phases hub_op" where
  "agent_step R G a ph = (case a of
       Begin name \<Rightarrow>
         (case (map_of ph name, find_spec G name) of
            (Some Waiting, Some spec) \<Rightarrow>
              (case map_of (sn_saved G) name of
                 Some artifact \<Rightarrow> advance ph name
                   (hbind (emit R (wr_run_id (sn_run G)) ''agent.reused''
                      [(''agent'', JStr name), (''stage'', JStr (stage_value (sn_stage G)))]) (\<lambda>_.
                    hreturn (Done (md_artifact_id (ar_metadata artifact)))))
               | None \<Rightarrow>
                   if active_count ph < cf_max_parallel_agents (rt_settings R)
                   then advance ph name (begin_agent R G spec) else hreturn ph)
          | _ \<Rightarrow> hreturn ph)
     | Call name c \<Rightarrow>
         (case map_of ph name of
            Some (Active _) \<Rightarrow> hbind (perform R (wr_run_id (sn_run G)) c) (\<lambda>_. hreturn ph)
          | _ \<Rightarrow> hreturn ph)
     | Return name r \<Rightarrow>
         (case (map_of ph name, find_spec G name) of
            (Some (Active iv), Some spec) \<Rightarrow> advance ph name (finish_agent R G spec iv r)
          | _ \<Rightarrow> hreturn ph)
     | Fail name e \<Rightarrow>
         (case map_of ph name of Some (Active _) \<Rightarrow> hraise e | _ \<Rightarrow> hreturn ph))"

fun fan_out :: "orchestrator \<Rightarrow> stage_run \<Rightarrow> stage_action list \<Rightarrow> phases \<Rightarrow> string list hub_op" where
  "fan_out R G [] ph =
     (if all_done ph then hreturn (map (\<lambda>(_, p). the (done_id p)) ph) else hraise CancelledError)"
| "fan_out R G (a # as) ph =
     (if all_done ph then hreturn (map (\<lambda>(_, p). the (done_id p)) ph)
      else hbind (agent_step R G a ph) (fan_out R G as))"

section \<open>Stages\<close>

definition artifact_created :: "orchestrator \<Rightarrow> string \<Rightarrow> artifact_record \<Rightarrow> jdict \<Rightarrow> unit hub_op" where
  "artifact_created R run_id a rest = emit R run_id ''artifact.created''
     ([(''artifact_id'', JStr (md_artifact_id (ar_metadata a))),
       (''kind'', JStr (artifact_kind_value (md_kind (ar_metadata a))))] @ rest)"

definition integrate :: "orchestrator \<Rightarrow> workflow_run \<Rightarrow> string list \<Rightarrow> string list hub_op" where
  "integrate R run parent_ids = (let run_id = wr_run_id run in
     hbind (artifact_context (rt_world R) run_id) (\<lambda>artifacts.
     hbind (hlift (\<lambda>_. merge_sources (rt_toolchain R) artifacts)) (\<lambda>files.
     hbind (publish (rt_world R) (plain_request run_id INTEGRATION INTEGRATED_SOURCE
        ''trusted-integration-service'' (source_bundle_dump files) ''# Integrated project source'' parent_ids)) (\<lambda>a.
     hbind (artifact_created R run_id a [(''stage'', JStr (stage_value INTEGRATION))]) (\<lambda>_.
     hreturn (parent_ids @ [md_artifact_id (ar_metadata a)]))))))"

definition hub_context :: "orchestrator \<Rightarrow> workflow_run \<Rightarrow> stage_name \<Rightarrow> artifact_view list \<Rightarrow> nat \<Rightarrow>
    jdict option \<Rightarrow> nat \<Rightarrow> agent_context" where
  "hub_context R run stage artifacts repair_attempt repair_feedback retry_attempt =
     \<lparr>cx_project_id = project_id_for_run (wd_py (rt_world R)) (wr_run_id run),
      cx_retry_attempt = retry_attempt, cx_run_id = wr_run_id run, cx_idea = wr_idea run,
      cx_stage = stage, cx_artifacts = artifacts, cx_human_response = None,
      cx_repair_attempt = repair_attempt, cx_repair_feedback = repair_feedback,
      cx_repair_artifact_id = None, cx_repair_artifact_sha256 = None\<rparr>"

definition run_gates :: "orchestrator \<Rightarrow> workflow_run \<Rightarrow> agent_context \<Rightarrow> string list \<Rightarrow>
    (string list \<times> agent_context) hub_op" where
  "run_gates R run context parent_ids = (let run_id = wr_run_id run in
     hbind (hlift (\<lambda>_. evaluate_gates (wd_py (rt_world R)) (rt_schema R) context
        (cf_sandbox_backend (rt_settings R)))) (\<lambda>report.
     hbind (publish (rt_world R)
        ((plain_request run_id EVALUATION QUALITY_GATE_REPORT ''deterministic-quality-gates''
           (gate_report_dump report) (gates_markdown report) (map av_id (cx_artifacts context)))
         \<lparr>wq_prompt_version := qr_profile report\<rparr>)) (\<lambda>a.
     hbind (artifact_context (rt_world R) run_id) (\<lambda>artifacts.
     hbind (artifact_created R run_id a [(''stage'', JStr (stage_value EVALUATION))]) (\<lambda>_.
     hbind (emit R run_id ''quality_gates.completed''
       [(''artifact_id'', JStr (md_artifact_id (ar_metadata a))),
        (''verdict'', JStr (verdict_value (qr_verdict report))),
        (''repair_attempt'', JInt (int (cx_repair_attempt context)))]) (\<lambda>_.
     hreturn (parent_ids @ [md_artifact_id (ar_metadata a)],
       context\<lparr>cx_artifacts := artifacts\<rparr>)))))))"

definition run_stage :: "orchestrator \<Rightarrow> workflow_run \<Rightarrow> stage_name \<Rightarrow> string list \<Rightarrow> nat \<Rightarrow> jdict option \<Rightarrow>
    nat \<Rightarrow> bool \<Rightarrow> string list hub_op" where
  "run_stage R run stage parent_ids repair_attempt repair_feedback retry_attempt reuse_outputs =
     (let run_id = wr_run_id run; W = rt_world R in
     hbind (if reuse_outputs then saved_outputs R run stage repair_attempt else hreturn []) (\<lambda>saved.
     hbind (set_run W run_id RUNNING (Some stage) None) (\<lambda>_.
     hbind (stage_started W run_id stage) (\<lambda>_.
     hbind (hlift (\<lambda>h. Inr (has_integrated (hb_db h) run_id))) (\<lambda>integrated.
     hbind (if stage = INTEGRATION \<and> \<not> (reuse_outputs \<and> integrated)
            then integrate R run parent_ids else hreturn parent_ids) (\<lambda>parents.
     hbind (artifact_context W run_id) (\<lambda>artifacts.
     let context = hub_context R run stage artifacts repair_attempt repair_feedback retry_attempt in
     hbind (if stage = EVALUATION \<and> \<not> (saved \<noteq> [] \<and> list_ex (\<lambda>v. av_kind v = QUALITY_GATE_REPORT) artifacts)
            then run_gates R run context parents else hreturn (parents, context)) (\<lambda>(_, context').
     hbind (\<lambda>h. fan_out R
          \<lparr>sn_run = run, sn_stage = stage, sn_attempt = repair_attempt, sn_feedback = repair_feedback,
           sn_retry = retry_attempt, sn_saved = saved, sn_context = context'\<rparr>
          (rt_schedule R (hb_tick h)) (map (\<lambda>s. (sp_name s, Waiting)) (AGENTS_BY_STAGE stage)) h) (\<lambda>created.
     hbind (stage_completed W run_id stage) (\<lambda>_. hreturn created))))))))))"

section \<open>Preflight\<close>

definition capability_check_dump :: "capability_check \<Rightarrow> json" where
  "capability_check_dump c = JObj [(''name'', JStr (cc_name c)),
     (''status'', JStr (case cc_status c of PASS \<Rightarrow> ''pass'' | WARN \<Rightarrow> ''warn'' | FAIL \<Rightarrow> ''fail''
        | UNAVAILABLE \<Rightarrow> ''unavailable'')),
     (''detail'', JStr (cc_detail c)), (''required'', JBool (cc_required c))]"

definition capability_report_dump :: "host_capability_report \<Rightarrow> jdict" where
  "capability_report_dump r =
    [(''generated_at'', JInt (int (hc_generated_at r))), (''ready'', JBool (hc_ready r)),
     (''degraded'', JBool (hc_degraded r)), (''os_id'', JStr (hc_os_id r)),
     (''os_version'', JStr (hc_os_version r)), (''architecture'', JStr (hc_architecture r)),
     (''kernel'', JStr (hc_kernel r)), (''checks'', JArr (map capability_check_dump (hc_checks r)))]"

definition preflight_markdown :: "host_capability_report \<Rightarrow> string" where
  "preflight_markdown r = join [CHR 0x0A]
     ([''# Host capability report'', [], ''Ready: **'' @ (if hc_ready r then ''True'' else ''False'') @ ''**'', []]
      @ map (\<lambda>c. ''- `'' @ (case cc_status c of PASS \<Rightarrow> ''pass'' | WARN \<Rightarrow> ''warn'' | FAIL \<Rightarrow> ''fail''
        | UNAVAILABLE \<Rightarrow> ''unavailable'') @ ''` **'' @ cc_name c @ ''** - '' @ cc_detail c) (hc_checks r))"

definition blocked_reason :: string where
  "blocked_reason = ''Required host capabilities are unavailable. See the capability report.''"

definition preflight :: "orchestrator \<Rightarrow> string \<Rightarrow> unit hub_op" where
  "preflight R run_id = (let W = rt_world R in
     hbind (stage_started W run_id PREFLIGHT) (\<lambda>_.
     hbind (hlift (\<lambda>h. rt_inspect R (hb_tick h))) (\<lambda>report.
     hbind (publish W (plain_request run_id PREFLIGHT HOST_CAPABILITY_REPORT ''host-preflight''
        (capability_report_dump report) (preflight_markdown report) [])) (\<lambda>a.
     hbind (artifact_created R run_id a []) (\<lambda>_.
     if \<not> hc_ready report \<and> cf_enforce_host_preflight (rt_settings R)
     then hbind (set_stage W run_id PREFLIGHT BLOCKED (Some blocked_reason)) (\<lambda>_.
          hbind (set_run W run_id BLOCKED (Some PREFLIGHT) (Some blocked_reason)) (\<lambda>_.
          emit R run_id ''run.blocked'' [(''stage'', JStr (stage_value PREFLIGHT)),
            (''reason'', JStr blocked_reason)]))
     else hbind (if hc_ready report then hreturn () else emit R run_id ''preflight.override''
            [(''reason'', JStr ''AIDLC_ENFORCE_HOST_PREFLIGHT is false'')]) (\<lambda>_.
          stage_completed W run_id PREFLIGHT))))))"

section \<open>The evaluation and repair loop\<close>

text \<open>
  An exception carries the stage that was current when it was raised; \<open>at_stage\<close> tags the
  exceptions of an operation, \<open>xbind\<close> sequences tagged operations.
\<close>

type_synonym 'a exec_op = "hub \<Rightarrow> ((stage_name \<times> py_error) + 'a) \<times> hub"

definition at_stage :: "stage_name \<Rightarrow> 'a hub_op \<Rightarrow> 'a exec_op" where
  "at_stage stage m = (\<lambda>h. case m h of (Inl e, h') \<Rightarrow> (Inl (stage, e), h') | (Inr x, h') \<Rightarrow> (Inr x, h'))"

definition xbind :: "'a exec_op \<Rightarrow> ('a \<Rightarrow> 'b exec_op) \<Rightarrow> 'b exec_op" where
  "xbind m f = (\<lambda>h. case m h of (Inl e, h') \<Rightarrow> (Inl e, h') | (Inr x, h') \<Rightarrow> f x h')"

definition xreturn :: "'a \<Rightarrow> 'a exec_op" where
  "xreturn x = (\<lambda>h. (Inr x, h))"

definition human_decision :: "database \<Rightarrow> string \<Rightarrow> artifact_view \<Rightarrow> decision option" where
  "human_decision db run_id review =
     (case find_last (\<lambda>i. hi_stage i = EVALUATION \<and> hp_kind (hi_prompt i) = Evaluation_decision
          \<and> hi_response i \<noteq> None
          \<and> hi_artifact_sha256 i = md_content_sha256 (av_metadata review)) (list_interactions db run_id) of
        None \<Rightarrow> None | Some i \<Rightarrow> map_option hr_decision (hi_response i))"

datatype round_result = Stop "string list" | Again "string list" jdict

definition opt_decision :: "decision option \<Rightarrow> json" where
  "opt_decision d = jopt (JStr \<circ> decision_value) d"

text \<open>From the evaluation stage to the decision, with the events it records.\<close>

definition decide :: "orchestrator \<Rightarrow> workflow_run \<Rightarrow> nat \<Rightarrow>
    (repair_verdict \<times> artifact_view \<times> quality_gate_report \<times> evaluation_report) hub_op" where
  "decide R run attempt = (let run_id = wr_run_id run; S = rt_schema R; cfg = rt_settings R in
     hbind (artifact_context (rt_world R) run_id) (\<lambda>context.
     hbind (hlift (\<lambda>_. latest_of_kind context QUALITY_GATE_REPORT)) (\<lambda>gate.
     hbind (hlift (\<lambda>_. latest_of_kind context EVALUATION_REPORT)) (\<lambda>review.
     hbind (hlift (\<lambda>_. sc_gates S (av_content gate))) (\<lambda>gates.
     hbind (hlift (\<lambda>_. sc_evaluation S (av_content review))) (\<lambda>evaluation.
     hbind (hlift (\<lambda>h. Inr (human_decision (hb_db h) run_id review))) (\<lambda>human.
     hbind (hlift (\<lambda>_. repair_decision gates evaluation attempt
        (nat (cf_max_evaluation_repair_attempts cfg)) (cf_evaluation_score_threshold cfg) human)) (\<lambda>verdict.
     hbind (hlift (\<lambda>_. overall_score evaluation)) (\<lambda>score.
     hbind (emit R run_id ''evaluation.decision''
       [(''decision'', JStr (repair_verdict_value verdict)), (''repair_attempt'', JInt (int attempt)),
        (''quality_gate_artifact_id'', JStr (av_id gate)), (''evaluation_artifact_id'', JStr (av_id review)),
        (''overall_score'', jopt JFloat score), (''human_decision'', opt_decision human)]) (\<lambda>_.
     hreturn (verdict, gate, gates, evaluation)))))))))))"

definition rubric_dump :: "rubric_score \<Rightarrow> json" where
  "rubric_dump r = JObj
    [(''applicability'', JStr (if rb_applicable r then ''applicable'' else ''not_applicable'')),
     (''score'', jopt JFloat (rb_score r)), (''rationale'', JStr (rb_rationale r)),
     (''evidence_artifact_ids'', jstrs (rb_evidence_artifact_ids r))]"

definition evaluation_dump :: "evaluation_report \<Rightarrow> jdict" where
  "evaluation_dump r =
    [(''status'', JStr (if er_evaluated r then ''evaluated'' else ''not_evaluated'')),
     (''requirement_coverage'', jopt rubric_dump (er_requirement_coverage r)),
     (''mvp_completeness'', jopt rubric_dump (er_mvp_completeness r)),
     (''usability'', jopt rubric_dump (er_usability r)),
     (''architecture'', jopt rubric_dump (er_architecture r)),
     (''maintainability'', jopt rubric_dump (er_maintainability r)),
     (''risk_acceptance'', jopt rubric_dump (er_risk_acceptance r)),
     (''summary'', JStr (er_summary r)), (''recommended_repairs'', jstrs (er_recommended_repairs r)),
     (''quality_gates'', jopt (JObj \<circ> gate_report_dump) (er_quality_gates r))]"

definition repair_feedback :: "nat \<Rightarrow> quality_gate_report \<Rightarrow> evaluation_report \<Rightarrow> jdict" where
  "repair_feedback attempt gates evaluation =
    [(''attempt'', JInt (int attempt)), (''quality_gates'', JObj (gate_report_dump gates)),
     (''evaluation'', JObj (evaluation_dump evaluation))]"

definition request_repair :: "orchestrator \<Rightarrow> workflow_run \<Rightarrow> nat \<Rightarrow> artifact_view \<Rightarrow> jdict \<Rightarrow> string list \<Rightarrow>
    string list hub_op" where
  "request_repair R run attempt gate feedback parent_ids = (let run_id = wr_run_id run in
     hbind (publish (rt_world R) (plain_request run_id EVALUATION REPAIR_REQUEST ''orchestrator'' feedback
        (''# Repair request'' @ [CHR 0x0A, CHR 0x0A] @ ''Attempt '' @ nat_str attempt @ ''; preserve prior evidence.'')
        (parent_ids @ [av_id gate]))) (\<lambda>a.
     hbind (artifact_created R run_id a [(''stage'', JStr (stage_value EVALUATION))]) (\<lambda>_.
     hbind (emit R run_id ''repair.started'' [(''attempt'', JInt (int attempt)),
        (''artifact_id'', JStr (md_artifact_id (ar_metadata a)))]) (\<lambda>_.
     hreturn (parent_ids @ [md_artifact_id (ar_metadata a)])))))"

definition evaluation_round :: "orchestrator \<Rightarrow> workflow_run \<Rightarrow> nat \<Rightarrow> nat \<Rightarrow> jdict option \<Rightarrow> string list \<Rightarrow>
    round_result exec_op" where
  "evaluation_round R run retry attempt feedback parent_ids =
     xbind (at_stage EVALUATION (run_stage R run EVALUATION parent_ids attempt feedback retry (retry \<noteq> 0))) (\<lambda>parents.
     xbind (at_stage EVALUATION (decide R run attempt)) (\<lambda>(verdict, gate, gates, evaluation).
     if verdict = D_passed \<or> verdict = D_deferred then xreturn (Stop parents)
     else if verdict = D_exhausted
     then at_stage EVALUATION (hbind (emit R (wr_run_id run) ''repair.exhausted''
            [(''repair_attempts'', JInt (int attempt))]) (\<lambda>_.
          hraise (RuntimeError ''Evaluation repair limit exhausted; release withheld'')))
     else let feedback' = repair_feedback (attempt + 1) gates evaluation in
       xbind (at_stage EVALUATION (request_repair R run (attempt + 1) gate feedback' parents)) (\<lambda>parents1.
       xbind (at_stage IMPLEMENTATION
         (run_stage R run IMPLEMENTATION parents1 (attempt + 1) (Some feedback') retry False)) (\<lambda>parents2.
       xbind (at_stage INTEGRATION
         (run_stage R run INTEGRATION parents2 (attempt + 1) (Some feedback') retry False)) (\<lambda>parents3.
       xreturn (Again parents3 feedback'))))))"

lemma xbind_Inr: "xbind m f h = (Inr y, h') \<longleftrightarrow> (\<exists>x h1. m h = (Inr x, h1) \<and> f x h1 = (Inr y, h'))"
  by (auto simp: xbind_def split: prod.splits sum.splits)

lemma at_stage_Inr: "at_stage g m h = (Inr x, h') \<longleftrightarrow> m h = (Inr x, h')"
  by (auto simp: at_stage_def split: prod.splits sum.splits)

lemma repair_decision_repair:
  "repair_decision gates evaluation attempt limit threshold human = Inr D_repair \<Longrightarrow> attempt < limit"
  by (auto simp: repair_decision_def rbind_eq_Inr Let_def split: if_splits verdict.splits option.splits)

lemma decide_Inr:
  "decide R run attempt h = (Inr (verdict, gate, gates, evaluation), h') \<Longrightarrow>
    \<exists>human. repair_decision gates evaluation attempt (nat (cf_max_evaluation_repair_attempts (rt_settings R)))
       (cf_evaluation_score_threshold (rt_settings R)) human = Inr verdict"
  by (auto simp: decide_def hbind_Inr hlift_def hreturn_def Let_def)

text \<open>A round asks for another one only below the configured limit.\<close>

lemma evaluation_round_again:
  assumes "evaluation_round R run retry attempt feedback parents h = (Inr (Again ps fb), h')"
  shows "attempt < nat (cf_max_evaluation_repair_attempts (rt_settings R))"
proof -
  obtain verdict gate gates evaluation p1 h1 h2 where
    d: "decide R run attempt h1 = (Inr (verdict, gate, gates, evaluation), h2)"
    and rest: "(if verdict = D_passed \<or> verdict = D_deferred then xreturn (Stop p1)
     else if verdict = D_exhausted
     then at_stage EVALUATION (hbind (emit R (wr_run_id run) ''repair.exhausted''
            [(''repair_attempts'', JInt (int attempt))]) (\<lambda>_.
          hraise (RuntimeError ''Evaluation repair limit exhausted; release withheld'')))
     else let feedback' = repair_feedback (attempt + 1) gates evaluation in
       xbind (at_stage EVALUATION (request_repair R run (attempt + 1) gate feedback' p1)) (\<lambda>parents1.
       xbind (at_stage IMPLEMENTATION
         (run_stage R run IMPLEMENTATION parents1 (attempt + 1) (Some feedback') retry False)) (\<lambda>parents2.
       xbind (at_stage INTEGRATION
         (run_stage R run INTEGRATION parents2 (attempt + 1) (Some feedback') retry False)) (\<lambda>parents3.
       xreturn (Again parents3 feedback'))))) h2 = (Inr (Again ps fb), h')"
    using assms unfolding evaluation_round_def xbind_Inr at_stage_Inr by (auto simp only: split_paired_Ex split_conv)
  have "verdict = D_repair"
    using rest by (cases verdict) (auto simp: xreturn_def at_stage_Inr hbind_Inr hraise_def)
  with decide_Inr [OF d] show ?thesis using repair_decision_repair by blast
qed

function evaluation_loop :: "orchestrator \<Rightarrow> workflow_run \<Rightarrow> nat \<Rightarrow> nat \<Rightarrow> jdict option \<Rightarrow> string list \<Rightarrow>
    string list exec_op" where
  "evaluation_loop R run retry attempt feedback parent_ids h =
     (case evaluation_round R run retry attempt feedback parent_ids h of
        (Inl e, h') \<Rightarrow> (Inl e, h')
      | (Inr (Stop ps), h') \<Rightarrow> (Inr ps, h')
      | (Inr (Again ps fb), h') \<Rightarrow> evaluation_loop R run retry (attempt + 1) (Some fb) ps h')"
  by auto
termination
  by (relation "measure (\<lambda>(R, run, retry, attempt, fb, ps, h).
        nat (cf_max_evaluation_repair_attempts (rt_settings R)) - attempt)")
    (auto dest!: evaluation_round_again [OF sym])

declare evaluation_loop.simps [simp del]

section \<open>A whole run\<close>

definition LIFECYCLE :: "stage_name list" where
  "LIFECYCLE = [INTAKE, REQUIREMENTS, DISCOVERY, PLANNING, IMPLEMENTATION, INTEGRATION]"

definition resume_point :: "orchestrator \<Rightarrow> string \<Rightarrow> (nat \<times> jdict option) hub_op" where
  "resume_point R run_id =
     hbind (artifact_context (rt_world R) run_id) (\<lambda>artifacts.
     case find_last (\<lambda>v. av_kind v = REPAIR_REQUEST) artifacts of
       None \<Rightarrow> hreturn (0, None)
     | Some v \<Rightarrow> hbind (hlift (\<lambda>_. dindex (av_content v) ''attempt'')) (\<lambda>a.
         hreturn (nat (int_or_zero a), Some (av_content v))))"

fun run_lifecycle :: "orchestrator \<Rightarrow> workflow_run \<Rightarrow> nat \<Rightarrow> nat \<Rightarrow> jdict option \<Rightarrow> stage_name list \<Rightarrow>
    string list \<Rightarrow> string list exec_op" where
  "run_lifecycle R run retry attempt feedback [] parent_ids = xreturn parent_ids"
| "run_lifecycle R run retry attempt feedback (stage # stages) parent_ids =
     (let stage_attempt = (if stage \<in> {IMPLEMENTATION, INTEGRATION} then attempt else 0) in
      xbind (at_stage stage (if retry \<noteq> 0 then saved_outputs R run stage stage_attempt else hreturn [])) (\<lambda>saved.
      if retry \<noteq> 0 \<and> stage_status run stage = Some COMPLETED \<and> length saved = length (AGENTS_BY_STAGE stage)
      then xbind (at_stage stage (emit R (wr_run_id run) ''stage.reused''
                [(''stage'', JStr (stage_value stage))])) (\<lambda>_.
           run_lifecycle R run retry attempt feedback stages
             (map (\<lambda>(_, a). md_artifact_id (ar_metadata a)) saved))
      else xbind (at_stage stage (run_stage R run stage parent_ids stage_attempt
                (if stage_attempt \<noteq> 0 then feedback else None) retry (retry \<noteq> 0))) (\<lambda>created.
           run_lifecycle R run retry attempt feedback stages created)))"

definition reconcile :: "orchestrator \<Rightarrow> string \<Rightarrow> unit hub_op" where
  "reconcile R run_id = (\<lambda>h. case rt_reconcile R (hb_tick h) of
     (calls, outcome) \<Rightarrow> hbind (perform_all R run_id calls) (\<lambda>_. hlift (\<lambda>_. outcome)) h)"

text \<open>The release, and what follows it.\<close>

definition execute_release :: "orchestrator \<Rightarrow> workflow_run \<Rightarrow> nat \<Rightarrow> string list \<Rightarrow> unit exec_op" where
  "execute_release R run retry parent_ids =
     xbind (at_stage RELEASE (run_stage R run RELEASE parent_ids 0 None retry False)) (\<lambda>_.
     at_stage RELEASE (hbind (set_run (rt_world R) (wr_run_id run) COMPLETED (Some RELEASE) None) (\<lambda>_.
       emit R (wr_run_id run) ''run.completed'' [])))"

text \<open>The stages after an accepted preflight.\<close>

definition execute_stages :: "orchestrator \<Rightarrow> workflow_run \<Rightarrow> nat \<Rightarrow> unit exec_op" where
  "execute_stages R run retry =
     xbind (at_stage PREFLIGHT (hlift (\<lambda>h. Inr (map (\<lambda>a. md_artifact_id (ar_metadata a))
        (list_artifacts (hb_db h) (wr_run_id run)))))) (\<lambda>parent_ids.
     xbind (at_stage PREFLIGHT (if retry \<noteq> 0 then resume_point R (wr_run_id run) else hreturn (0, None))) (\<lambda>resume.
     xbind (run_lifecycle R run retry (fst resume) (snd resume) LIFECYCLE parent_ids) (\<lambda>parents.
     xbind (evaluation_loop R run retry (fst resume) (snd resume) parents) (\<lambda>parents'.
     execute_release R run retry parents'))))"

text \<open>The body of the \<open>try\<close> in \<open>_execute\<close>.\<close>

definition execute_body :: "orchestrator \<Rightarrow> workflow_run \<Rightarrow> nat \<Rightarrow> unit exec_op" where
  "execute_body R run retry = (let run_id = wr_run_id run; W = rt_world R in
     xbind (at_stage PREFLIGHT (if retry \<noteq> 0 then reconcile R run_id else hreturn ())) (\<lambda>_.
     xbind (at_stage PREFLIGHT (set_run W run_id RUNNING (Some PREFLIGHT) None)) (\<lambda>_.
     xbind (at_stage PREFLIGHT (preflight R run_id)) (\<lambda>_.
     xbind (at_stage PREFLIGHT (hlift (\<lambda>h. get_run (wd_py W) (hb_db h) run_id))) (\<lambda>refreshed.
     if (case refreshed of None \<Rightarrow> True | Some r \<Rightarrow> wr_status r = BLOCKED) then xreturn ()
     else execute_stages R run retry)))))"

text \<open>The two exception handlers of \<open>_execute\<close>.\<close>

definition failure_status :: "py_error \<Rightarrow> run_status" where
  "failure_status e = (case e of RemoteTaskCanceled _ \<Rightarrow> CANCELED | _ \<Rightarrow> FAILED)"

definition handle_error :: "orchestrator \<Rightarrow> string \<Rightarrow> stage_name \<Rightarrow> py_error \<Rightarrow> unit hub_op" where
  "handle_error R run_id stage e = (let W = rt_world R in
     if e = CancelledError
     then hbind (set_stage W run_id stage CANCELED None) (\<lambda>_.
          hbind (set_run W run_id CANCELED (Some stage) None) (\<lambda>_.
          emit R run_id ''run.canceled'' [(''stage'', JStr (stage_value stage))]))
     else let message = error_class e @ '': '' @ error_text e; status = failure_status e in
          hbind (set_stage W run_id stage status (Some message)) (\<lambda>_.
          hbind (set_run W run_id status (Some stage) (Some message)) (\<lambda>_.
          emit R run_id (''run.'' @ run_status_value status)
            [(''stage'', JStr (stage_value stage)), (''error'', JStr message)])))"

definition execute :: "orchestrator \<Rightarrow> string \<Rightarrow> nat \<Rightarrow> unit hub_op" where
  "execute R run_id retry = (\<lambda>h. case get_run (wd_py (rt_world R)) (hb_db h) run_id of
       Inl e \<Rightarrow> (Inl e, h)
     | Inr None \<Rightarrow> (Inr (), h)
     | Inr (Some run) \<Rightarrow>
         (case execute_body R run retry h of
            (Inr _, h') \<Rightarrow> (Inr (), h')
          | (Inl (stage, e), h') \<Rightarrow> handle_error R run_id stage e h'))"

section \<open>Commands on runs\<close>

text \<open>\<open>WorkflowOrchestrator.create_run\<close> up to the scheduling of \<open>execute\<close>.\<close>

definition start_run :: "orchestrator \<Rightarrow> string \<Rightarrow> workflow_run hub_op" where
  "start_run R idea = (\<lambda>h.
     let W = rt_world R; run_id = ''run_'' @ wd_uid W (hb_tick h);
         h1 = h\<lparr>hb_store := initialize_project (wd_py W) run_id idea (hb_store h), hb_tick := hb_tick h + 1\<rparr>
     in hbind (on_db (\<lambda>now. create_run (wd_py W) now run_id idea) W) (\<lambda>run.
        hbind (emit R run_id ''run.created'' [(''idea'', JStr idea)]) (\<lambda>_. hreturn run)) h1)"

text \<open>
  \<open>WorkflowOrchestrator.retry\<close> up to the scheduling of \<open>execute\<close> with the returned attempt; \<open>active\<close> says whether a
  task of the run is still running.
\<close>

definition retry_run :: "orchestrator \<Rightarrow> bool \<Rightarrow> string \<Rightarrow> (workflow_run \<times> nat) hub_op" where
  "retry_run R active run_id = (let W = rt_world R in
     hbind (hlift (\<lambda>h. get_run (wd_py W) (hb_db h) run_id)) (\<lambda>found.
     case found of
       None \<Rightarrow> hraise (ValueError ''Run not found'')
     | Some run \<Rightarrow>
         if wr_status run \<notin> {FAILED, BLOCKED, CANCELED}
         then hraise (ValueError ''Only failed, blocked, or canceled runs can be retried'')
         else if active then hraise (ValueError ''This run still has an active workflow'')
         else hbind (artifact_context W run_id) (\<lambda>_.
         hbind (hlift (\<lambda>h. Inr (1 + length (filter (\<lambda>e. ev_event_type e = ''run.retry_requested'')
             (events_after (hb_db h) run_id 0))))) (\<lambda>attempt.
         hbind (set_run W run_id PENDING (wr_current_stage run) None) (\<lambda>_.
         hbind (emit R run_id ''run.retry_requested'' [(''retry_attempt'', JInt (int attempt))]) (\<lambda>_.
         hbind (hlift (\<lambda>h. get_run (wd_py W) (hb_db h) run_id)) (\<lambda>result.
         case result of None \<Rightarrow> hraise AssertionError | Some r \<Rightarrow> hreturn (r, attempt))))))))"

text \<open>
  \<open>WorkflowOrchestrator.cancel\<close>: whether the task of the run is to be cancelled, given whether it is running and
  whether a cancellation is already under way.
\<close>

definition cancel_run :: "orchestrator \<Rightarrow> bool \<Rightarrow> bool \<Rightarrow> string \<Rightarrow> bool hub_op" where
  "cancel_run R active cancelling run_id =
     (if \<not> active \<or> cancelling then hreturn False
      else hbind (hlift (\<lambda>h. get_run (wd_py (rt_world R)) (hb_db h) run_id)) (\<lambda>found.
        hbind (case found of
            Some run \<Rightarrow> if wr_status run = PENDING
              then set_run (rt_world R) run_id CANCELED (wr_current_stage run) None else hreturn ()
          | None \<Rightarrow> hreturn ()) (\<lambda>_.
        hbind (emit R run_id ''run.cancellation_requested'' []) (\<lambda>_. hreturn True))))"

end
