(* ===== verification/Execution.thy ===== *)
theory Execution
  imports Workflow "HOL-Library.Sublist"
begin

text \<open>
  What every execution of a run guarantees: any predicate that the hub's primitive operations keep
  is kept by the whole workflow, whatever the remote agents do; every execution settles in a
  final status; and a run completes only after an accepted evaluation.
\<close>

section \<open>Every step keeps the invariant\<close>

lemma keeps_schedule:
  "(\<And>k. keeps P (m k)) \<Longrightarrow> keeps P (\<lambda>h. m (f h) h)"
  unfolding keeps_def by blast

lemma keeps_prod [keeps_intros]: "(\<And>a b. keeps P (f a b)) \<Longrightarrow> keeps P (case z of (a, b) \<Rightarrow> f a b)"
  by (cases z) simp

lemma keeps_ignored: "keeps P m \<Longrightarrow> keeps P (\<lambda>h. case m h of (_, h') \<Rightarrow> (Inr (), h'))"
  unfolding keeps_def by (auto split: prod.splits)

lemma output_request_run [simp]: "wq_run_id (output_request G spec iv r) = wr_run_id (sn_run G)"
  by (simp add: output_request_def)

text \<open>The same for operations whose exceptions carry a stage.\<close>

definition xkeeps :: "(hub \<Rightarrow> bool) \<Rightarrow> 'a exec_op \<Rightarrow> bool" where
  "xkeeps P m \<longleftrightarrow> (\<forall>h r h'. P h \<longrightarrow> m h = (r, h') \<longrightarrow> P h')"

lemma xkeepsD: "xkeeps P m \<Longrightarrow> m h = (r, h') \<Longrightarrow> P h \<Longrightarrow> P h'"
  by (auto simp: xkeeps_def)

named_theorems xkeeps_intros "tagged operations that keep the hub's invariant"

lemma xkeeps_xreturn [xkeeps_intros]: "xkeeps P (xreturn x)"
  by (simp add: xkeeps_def xreturn_def)

lemma xkeeps_at_stage [xkeeps_intros]: "keeps P m \<Longrightarrow> xkeeps P (at_stage g m)"
  unfolding xkeeps_def at_stage_def by (auto split: prod.splits sum.splits dest: keepsD)

lemma xkeeps_xbind [xkeeps_intros]:
  assumes "xkeeps P m" and "\<And>x. xkeeps P (f x)"
  shows "xkeeps P (xbind m f)"
  unfolding xkeeps_def
proof (intro allI impI)
  fix h r h'
  assume h: "P h" and step: "xbind m f h = (r, h')"
  obtain y h1 where y: "m h = (y, h1)" by fastforce
  then have "P h1" using xkeepsD [OF assms(1)] h by blast
  with y step assms(2) show "P h'"
    by (cases y) (auto simp: xbind_def intro: xkeepsD)
qed

lemma xkeeps_if [xkeeps_intros]: "xkeeps P m \<Longrightarrow> xkeeps P n \<Longrightarrow> xkeeps P (if b then m else n)"
  by simp

lemma xkeeps_prod [xkeeps_intros]: "(\<And>a b. xkeeps P (f a b)) \<Longrightarrow> xkeeps P (case z of (a, b) \<Rightarrow> f a b)"
  by (cases z) simp

lemma loop_cases [consumes 2, case_names error stop again]:
  assumes "evaluation_loop R run rt a fb ps h = (res, h')" and "evaluation_round R run rt a fb ps h = (x, h1)"
  obtains e where "x = Inl e" "res = Inl e" "h' = h1"
  | ps' where "x = Inr (Stop ps')" "res = Inr ps'" "h' = h1"
  | ps' fb' where "x = Inr (Again ps' fb')" "evaluation_loop R run rt (a + 1) (Some fb') ps' h1 = (res, h')"
  using assms by (subst (asm) evaluation_loop.simps) (auto split: sum.splits round_result.splits)

lemma execute_cases [consumes 1, case_names unreadable absent ran]:
  assumes "execute R r rt h = (res, h')"
  obtains e where "get_run (wd_py (rt_world R)) (hb_db h) r = Inl e" "res = Inl e" "h' = h"
  | "get_run (wd_py (rt_world R)) (hb_db h) r = Inr None" "res = Inr ()" "h' = h"
  | run x h1 where "get_run (wd_py (rt_world R)) (hb_db h) r = Inr (Some run)" "wr_run_id run = r"
      "execute_body R run rt h = (x, h1)"
      "(case x of Inr _ \<Rightarrow> (Inr (), h1) | Inl (stage, e) \<Rightarrow> handle_error R r stage e h1) = (res, h')"
proof (cases "get_run (wd_py (rt_world R)) (hb_db h) r")
  case (Inl e)
  with assms show ?thesis by (intro that(1)) (auto simp: execute_def)
next
  case (Inr found)
  show ?thesis
  proof (cases found)
    case None
    with Inr assms show ?thesis by (intro that(2)) (auto simp: execute_def)
  next
    case (Some run)
    obtain x h1 where x: "execute_body R run rt h = (x, h1)" by fastforce
    have "wr_run_id run = r"
      using get_run_row [OF Inr [unfolded Some]] by (auto simp: find_run_def dest: find_SomeD)
    with Inr Some assms x show ?thesis by (intro that(3) [of run x h1]) (auto simp: execute_def)
  qed
qed

text \<open>The whole workflow of a run, for every predicate that its services keep.\<close>

locale workflow_invariant = service_invariant R r P
  for R :: orchestrator and r :: string and P :: "hub \<Rightarrow> bool"
begin

lemma perform_inv [keeps_intros]: "keeps P (perform R r c)"
  by (cases c) (auto simp: perform_def intro!: keeps_intros keeps_ignored)

lemma perform_all_inv [keeps_intros]: "keeps P (perform_all R r cs)"
  by (induction cs) (auto intro!: keeps_intros)

lemma saved_outputs_inv [keeps_intros]: "keeps P (saved_outputs R run g a)"
  unfolding saved_outputs_def by (intro keeps_intros)

lemma cached_output_inv [keeps_intros]: "keeps P (cached_output R r' s k i)"
  unfolding cached_output_def by (intro keeps_intros)

lemma begin_agent_inv [keeps_intros]:
  assumes run: "wr_run_id (sn_run G) = r"
  shows "keeps P (begin_agent R G spec)"
  unfolding begin_agent_def Let_def run by (intro keeps_intros)

lemma finish_agent_inv [keeps_intros]:
  assumes run: "wr_run_id (sn_run G) = r"
  shows "keeps P (finish_agent R G spec iv x)"
  unfolding finish_agent_def Let_def run by (intro keeps_intros) (simp add: run)

lemma advance_inv [keeps_intros]: "keeps P m \<Longrightarrow> keeps P (advance ph n m)"
  unfolding advance_def by (intro keeps_intros)

lemma agent_step_inv [keeps_intros]:
  assumes "wr_run_id (sn_run G) = r"
  shows "keeps P (agent_step R G a ph)"
proof -
  note [intro!] = keeps_intros begin_agent_inv [OF assms] finish_agent_inv [OF assms]
  show ?thesis
    unfolding agent_step_def assms
    by (cases a) (auto split: option.splits agent_phase.splits)
qed

lemma fan_out_inv [keeps_intros]:
  assumes "wr_run_id (sn_run G) = r"
  shows "keeps P (fan_out R G as ph)"
  by (induction as arbitrary: ph) (auto intro!: keeps_intros agent_step_inv [OF assms])

lemma artifact_created_inv [keeps_intros]: "keeps P (artifact_created R r a d)"
  unfolding artifact_created_def by (intro keeps_intros)

lemma integrate_inv [keeps_intros]:
  assumes run: "wr_run_id run = r"
  shows "keeps P (integrate R run ps)"
  unfolding integrate_def Let_def run by (intro keeps_intros) (simp add: run)

lemma run_gates_inv [keeps_intros]:
  assumes run: "wr_run_id run = r"
  shows "keeps P (run_gates R run c ps)"
  unfolding run_gates_def Let_def run by (intro keeps_intros) (simp add: run plain_request_def)

lemma run_stage_inv [keeps_intros]:
  assumes "wr_run_id run = r"
  shows "keeps P (run_stage R run g ps a fb rt re)"
  unfolding run_stage_def Let_def assms
  by (intro keeps_intros keeps_schedule [where f = "\<lambda>h. rt_schedule R (hb_tick h)"]) (simp_all add: assms)

lemma preflight_inv [keeps_intros]: "keeps P (preflight R r)"
  unfolding preflight_def Let_def by (intro keeps_intros) simp

lemma decide_inv [keeps_intros]:
  assumes run: "wr_run_id run = r"
  shows "keeps P (decide R run a)"
  unfolding decide_def Let_def run by (intro keeps_intros)

lemma request_repair_inv [keeps_intros]:
  assumes run: "wr_run_id run = r"
  shows "keeps P (request_repair R run a g fb ps)"
  unfolding request_repair_def Let_def run by (intro keeps_intros) (simp add: run)

lemma resume_point_inv [keeps_intros]: "keeps P (resume_point R r')"
  unfolding resume_point_def by (intro keeps_intros)

lemma reconcile_inv [keeps_intros]: "keeps P (reconcile R r)"
proof -
  have one: "keeps P (hbind (perform_all R r calls) (\<lambda>_. hlift (\<lambda>_. outcome)))"
    for calls and outcome :: "unit result"
    by (intro keeps_intros)
  show ?thesis
    unfolding keeps_def reconcile_def by (auto split: prod.splits dest: keepsD [OF one])
qed

lemma handle_error_inv [keeps_intros]: "keeps P (handle_error R r g e)"
  unfolding handle_error_def Let_def by (intro keeps_intros)

lemma evaluation_round_inv:
  assumes "wr_run_id run = r"
  shows "xkeeps P (evaluation_round R run rt a fb ps)"
  unfolding evaluation_round_def Let_def assms
  by (intro xkeeps_intros keeps_intros run_stage_inv [OF assms] decide_inv [OF assms] request_repair_inv [OF assms])

lemma evaluation_loop_inv:
  assumes "wr_run_id run = r" and "P h"
    and "evaluation_loop R run rt a fb ps h = (res, h')"
  shows "P h'"
  using assms(2,3)
proof (induction "nat (cf_max_evaluation_repair_attempts (rt_settings R)) - a" arbitrary: a fb ps h res h'
    rule: less_induct)
  case less
  obtain x h1 where x: "evaluation_round R run rt a fb ps h = (x, h1)" by fastforce
  have ok: "P h1" using xkeepsD [OF evaluation_round_inv [OF assms(1)] x less.prems(1)] .
  from less.prems(2) x ok show ?case
  proof (cases rule: loop_cases)
    case (again ps' fb')
    have "nat (cf_max_evaluation_repair_attempts (rt_settings R)) - (a + 1)
        < nat (cf_max_evaluation_repair_attempts (rt_settings R)) - a"
      using evaluation_round_again [OF x [unfolded again(1)]] by simp
    from less.hyps [OF this ok again(2)] show ?thesis .
  qed simp_all
qed

lemma run_lifecycle_inv:
  assumes "wr_run_id run = r"
  shows "xkeeps P (run_lifecycle R run rt a fb gs ps)"
proof (induction gs arbitrary: ps)
  case Nil
  show ?case by (simp add: xkeeps_intros)
next
  case (Cons g gs)
  show ?case
    unfolding run_lifecycle.simps Let_def assms
    by (intro xkeeps_intros keeps_intros run_stage_inv [OF assms] Cons)
qed

lemma execute_body_inv:
  assumes "wr_run_id run = r"
  shows "xkeeps P (execute_body R run rt)"
proof -
  have loop: "xkeeps P (evaluation_loop R run rt a fb ps)" for a fb ps
    unfolding xkeeps_def using evaluation_loop_inv [OF assms] by blast
  show ?thesis
    unfolding execute_body_def execute_stages_def execute_release_def Let_def assms
    by (intro xkeeps_intros keeps_intros run_stage_inv [OF assms] run_lifecycle_inv [OF assms] loop)
qed

lemma execute_inv: "keeps P (execute R r rt)"
  unfolding keeps_def
proof (intro allI impI)
  fix h :: hub and res h'
  assume P: "P h" and step: "execute R r rt h = (res, h')"
  from step show "P h'"
  proof (cases rule: execute_cases)
    case (ran run x h1)
    have "P h1" using xkeepsD [OF execute_body_inv [OF ran(2)] ran(3) P] .
    then show ?thesis using ran(4) by (cases x) (auto dest: keepsD [OF handle_error_inv])
  qed (use P in simp_all)
qed

end

interpretation ok: workflow_invariant R r "hub_ok (rt_world R) r" for R r
  by unfold_locales

section \<open>Isolation of runs\<close>

text \<open>The log only grows, and the rows of the other runs stay as they are.\<close>

definition run_isolated :: "string \<Rightarrow> database \<Rightarrow> database \<Rightarrow> bool" where
  "run_isolated r db0 db \<longleftrightarrow> prefix (db_events db0) (db_events db)
     \<and> filter (\<lambda>x. rr_run_id x \<noteq> r) (db_runs db) = filter (\<lambda>x. rr_run_id x \<noteq> r) (db_runs db0)
     \<and> filter (\<lambda>s. sg_run_id s \<noteq> r) (db_stages db) = filter (\<lambda>s. sg_run_id s \<noteq> r) (db_stages db0)"

lemma keeps_on_db:
  assumes "\<And>now db x db'. f now db = (x, db') \<Longrightarrow> Q db \<Longrightarrow> Q db'"
  shows "keeps (\<lambda>h. Q (hb_db h)) (on_db f W)"
  unfolding keeps_def on_db_def using assms by (auto split: prod.splits)

lemma keeps_publish_db:
  assumes "\<And>db rows. Q db \<Longrightarrow> Q (db\<lparr>db_artifacts := rows\<rparr>)"
  shows "keeps (\<lambda>h. Q (hb_db h)) (publish W q)"
proof -
  have "keeps (\<lambda>h. Q (hb_db h)) (write_op W q)"
    unfolding keeps_def write_op_def by (auto split: prod.splits)
  moreover have "keeps (\<lambda>h. Q (hb_db h)) (add_op W a)" for a
    unfolding keeps_def add_op_def add_artifact_def insert_artifact_def Let_def
    using assms by (auto split: prod.splits if_splits sum.splits)
  ultimately show ?thesis unfolding publish_def by (intro keeps_intros)
qed

lemma filter_map_other:
  "(\<And>x. q x \<Longrightarrow> k x = r) \<Longrightarrow> (\<And>x. k (f x) = k x) \<Longrightarrow>
    filter (\<lambda>x. k x \<noteq> r) (map (\<lambda>x. if q x then f x else x) xs) = filter (\<lambda>x. k x \<noteq> r) xs"
  by (induction xs) auto

lemma run_isolated_update_run: "run_isolated r db0 db \<Longrightarrow> run_isolated r db0 (update_run now r s c e db)"
  by (simp add: run_isolated_def update_run_def filter_map_other [where k = rr_run_id])

lemma run_isolated_update_stage:
  assumes "run_isolated r db0 db"
  shows "run_isolated r db0 (update_stage now r g s e db)"
proof -
  have sel: "db_stages (db\<lparr>db_stages := x\<rparr>) = x" for x by simp
  have "filter (\<lambda>s. sg_run_id s \<noteq> r) (db_stages (update_stage now r g s e db))
      = filter (\<lambda>s. sg_run_id s \<noteq> r) (db_stages db)"
    unfolding update_stage_def Let_def sel by (rule filter_map_other) simp_all
  moreover have "db_events (update_stage now r g s e db) = db_events db" "db_runs (update_stage now r g s e db) = db_runs db"
    by (simp_all add: update_stage_def Let_def)
  ultimately show ?thesis using assms by (simp add: run_isolated_def)
qed

lemma run_isolated_append: "append_event now r' t p db = (x, db') \<Longrightarrow> run_isolated r db0 db \<Longrightarrow> run_isolated r db0 db'"
  by (auto simp: run_isolated_def append_event_def Let_def split: if_splits)

lemma run_isolated_other_tables [simp]:
  "run_isolated r db0 (db\<lparr>db_artifacts := a\<rparr>) = run_isolated r db0 db"
  "run_isolated r db0 (db\<lparr>db_human_interactions := i\<rparr>) = run_isolated r db0 db"
  "run_isolated r db0 (db\<lparr>db_delegated_tasks := t\<rparr>) = run_isolated r db0 db"
  by (simp_all add: run_isolated_def)

lemma accept_op_isolated: "keeps (\<lambda>h. run_isolated r db0 (hb_db h)) (accept_op R run a)"
  unfolding keeps_def accept_op_def Let_def accept_action_def insert_artifact_def
  by (auto split: prod.splits option.splits if_splits sum.splits)

lemma event_isolated: "keeps (\<lambda>h. run_isolated r db0 (hb_db h)) (event W r' t p)"
  unfolding event_def by (intro keeps_hbind keeps_hreturn keeps_on_db) (rule run_isolated_append)

interpretation isolated: workflow_invariant R r "\<lambda>h. run_isolated r db0 (hb_db h)" for R r db0
proof unfold_locales
  show "keeps (\<lambda>h. run_isolated r db0 (hb_db h)) (event (rt_world R) r t p)" for t p by (rule event_isolated)
  show "keeps (\<lambda>h. run_isolated r db0 (hb_db h)) (set_run (rt_world R) r s g e)" for s g e
    unfolding set_run_def by (rule keeps_on_db) (auto intro: run_isolated_update_run)
  show "keeps (\<lambda>h. run_isolated r db0 (hb_db h)) (set_stage (rt_world R) r stage s e)" for stage s e
    unfolding set_stage_def by (rule keeps_on_db) (auto intro: run_isolated_update_stage)
  show "keeps (\<lambda>h. run_isolated r db0 (hb_db h)) (publish (rt_world R) q)" for q
    by (rule keeps_publish_db) simp
  show "keeps (\<lambda>h. run_isolated r db0 (hb_db h)) (save_interaction_op R i)" for i
    unfolding save_interaction_op_def by (rule keeps_on_db) (auto simp: save_interaction_def split: if_splits)
  show "keeps (\<lambda>h. run_isolated r db0 (hb_db h)) (on_db (\<lambda>_. save_delegated_task t) (rt_world R))" for t
    by (rule keeps_on_db) (auto simp: save_delegated_task_def split: if_splits)
  show "keeps (\<lambda>h. run_isolated r db0 (hb_db h)) (respond R run a)" for run a
    unfolding respond_def emit_def
    by (intro keeps_hbind keeps_hlift accept_op_isolated keeps_prod keeps_if event_isolated keeps_hreturn)
qed

lemma execute_isolated:
  "execute R r retry h = (res, h') \<Longrightarrow> run_isolated r (hb_db h) (hb_db h')"
  by (rule keepsD [OF isolated.execute_inv]) (auto simp: run_isolated_def)

text \<open>Both invariants together.\<close>

definition runs_from :: "world \<Rightarrow> string \<Rightarrow> database \<Rightarrow> hub \<Rightarrow> bool" where
  "runs_from W r db0 h \<longleftrightarrow> hub_ok W r h \<and> run_isolated r db0 (hb_db h)"

lemma runs_from_keeps:
  assumes "keeps (hub_ok W r) m" and "keeps (\<lambda>h. run_isolated r db0 (hb_db h)) m"
  shows "keeps (runs_from W r db0) m"
  using assms unfolding keeps_def runs_from_def by blast

interpretation runs: workflow_invariant R r "runs_from (rt_world R) r db0" for R r db0
  by unfold_locales (intro runs_from_keeps ok.event_inv isolated.event_inv ok.set_run_inv isolated.set_run_inv
      ok.set_stage_inv isolated.set_stage_inv ok.publish_inv isolated.publish_inv ok.save_interaction_inv
      isolated.save_interaction_inv ok.save_task_inv isolated.save_task_inv ok.respond_inv isolated.respond_inv;
      assumption)+

section \<open>Every execution settles\<close>

definition status_of :: "hub \<Rightarrow> string \<Rightarrow> run_status option" where
  "status_of h run_id = map_option rr_status (find_run (hb_db h) run_id)"

lemma find_run_known: "r \<in> set (run_ids db) \<Longrightarrow> find_run db r \<noteq> None"
  by (auto simp: find_run_def run_ids_def find_None_iff2)

lemma find_run_update:
  assumes "r \<in> set (run_ids db)"
  shows "map_option rr_status (find_run (update_run now r s c e db) r) = Some s"
proof -
  have "List.find (\<lambda>x. rr_run_id x = r) (map (\<lambda>x. if rr_run_id x = r
          then x\<lparr>rr_status := s, rr_current_stage := c, rr_updated_at := now, rr_error := e\<rparr> else x) xs)
      = map_option (\<lambda>x. x\<lparr>rr_status := s, rr_current_stage := c, rr_updated_at := now, rr_error := e\<rparr>)
          (List.find (\<lambda>x. rr_run_id x = r) xs)" for xs
    by (induction xs) auto
  from this [of "db_runs db"] find_run_known [OF assms] show ?thesis
    unfolding find_run_def update_run_def by auto
qed

lemma set_run_known:
  assumes "hub_ok W r h"
  shows "\<exists>h'. set_run W r s g e h = (Inr (), h') \<and> status_of h' r = Some s \<and> hub_ok W r h'
    \<and> db_events (hb_db h') = db_events (hb_db h)"
proof -
  obtain res h' where h': "set_run W r s g e h = (res, h')" by fastforce
  then have "hub_ok W r h'" using keepsD [OF set_run_keeps] assms by blast
  moreover have "res = Inr () \<and> status_of h' r = Some s \<and> db_events (hb_db h') = db_events (hb_db h)"
    using h' find_run_update [of r "hb_db h"] assms
    by (auto simp: set_run_def on_db_def status_of_def hub_ok_def update_run_def)
  ultimately show ?thesis using h' by blast
qed

lemma set_stage_known:
  assumes "hub_ok W r h"
  shows "\<exists>h'. set_stage W r g s e h = (Inr (), h') \<and> hub_ok W r h'"
  using keepsD [OF set_stage_keeps _ assms] by (auto simp: set_stage_def on_db_def)

lemma event_known:
  assumes "hub_ok W r h"
  shows "\<exists>h'. event W r t p h = (Inr (), h') \<and> status_of h' r' = status_of h r' \<and> hub_ok W r h'
    \<and> (\<exists>e. db_events (hb_db h') = db_events (hb_db h) @ [e] \<and> ev_run_id e = r \<and> ev_event_type e = t \<and> ev_payload e = p)"
proof -
  have known: "r \<in> set (run_ids (hb_db h))" using assms by (simp add: hub_ok_def)
  obtain res h' where h': "event W r t p h = (res, h')" by fastforce
  then have "hub_ok W r h'" using keepsD [OF event_keeps] assms by blast
  with h' known show ?thesis
    by (auto simp: event_def hbind_def on_db_def hreturn_def append_event_def Let_def status_of_def find_run_def)
qed

text \<open>The event with which an execution ends.\<close>

definition ends_with_event :: "hub \<Rightarrow> string \<Rightarrow> string \<Rightarrow> bool" where
  "ends_with_event h run_id event_type \<longleftrightarrow> db_events (hb_db h) \<noteq> []
     \<and> ev_run_id (last (db_events (hb_db h))) = run_id \<and> ev_event_type (last (db_events (hb_db h))) = event_type"

lemma hbind_run: "m h = (Inr x, h1) \<Longrightarrow> hbind m f h = f x h1"
  by (simp add: hbind_def)

lemma handle_error_settles:
  assumes "hub_ok (rt_world R) r h"
  shows "\<exists>h' s. handle_error R r g e h = (Inr (), h') \<and> status_of h' r = Some s
    \<and> s = (if e = CancelledError then CANCELED else failure_status e)
    \<and> ends_with_event h' r (''run.'' @ run_status_value s)"
proof -
  let ?s = "if e = CancelledError then CANCELED else failure_status e"
  let ?msg = "if e = CancelledError then None else Some (error_class e @ '': '' @ error_text e)"
  obtain h1 where h1: "set_stage (rt_world R) r g ?s ?msg h = (Inr (), h1)" "hub_ok (rt_world R) r h1"
    using set_stage_known [OF assms] by blast
  obtain h2 where h2: "set_run (rt_world R) r ?s (Some g) ?msg h1 = (Inr (), h2)"
    "status_of h2 r = Some ?s" "hub_ok (rt_world R) r h2"
    using set_run_known [OF h1(2)] by blast
  let ?p = "if e = CancelledError then [(''stage'', JStr (stage_value g))]
    else [(''stage'', JStr (stage_value g)), (''error'', JStr (error_class e @ '': '' @ error_text e))]"
  obtain h3 ev where h3: "event (rt_world R) r (''run.'' @ run_status_value ?s) ?p h2 = (Inr (), h3)"
    "status_of h3 r = status_of h2 r" "db_events (hb_db h3) = db_events (hb_db h2) @ [ev]"
    "ev_run_id ev = r" "ev_event_type ev = ''run.'' @ run_status_value ?s"
    using event_known [OF h2(3), of "''run.'' @ run_status_value ?s" ?p r] by blast
  have "handle_error R r g e h = (Inr (), h3)"
  proof (cases "e = CancelledError")
    case True
    with h1(1) h2(1) h3(1) show ?thesis
      by (simp add: handle_error_def Let_def emit_def hbind_run)
  next
    case False
    with h1(1) h2(1) h3(1) show ?thesis
      by (simp add: handle_error_def Let_def emit_def hbind_run)
  qed
  with h2 h3 show ?thesis by (auto simp: ends_with_event_def)
qed

lemma get_run_status:
  assumes "get_run E (hb_db h) r = Inr (Some run)"
  shows "status_of h r = Some (wr_status run)" and "wr_run_id run = r"
  using get_run_row [OF assms] by (auto simp: status_of_def find_run_def dest: find_SomeD)

text \<open>The status of a run is changed by \<open>set_run\<close> alone.\<close>

lemma append_event_rows:
  "append_event now r t p db = (x, db') \<Longrightarrow> db_runs db' = db_runs db \<and> db_stages db' = db_stages db"
  by (auto simp: append_event_def Let_def split: if_splits)

lemma keeps_event_rows:
  assumes "\<And>db db'. db_runs db' = db_runs db \<Longrightarrow> db_stages db' = db_stages db \<Longrightarrow> Q db = Q db'"
  shows "keeps (\<lambda>h. Q (hb_db h)) (event W r t p)"
  unfolding event_def by (intro keeps_intros keeps_on_db) (metis append_event_rows assms)

abbreviation has_status :: "string \<Rightarrow> run_status option \<Rightarrow> database \<Rightarrow> bool" where
  "has_status r s db \<equiv> map_option rr_status (find_run db r) = s"

lemma keeps_has_status:
  "keeps (\<lambda>h. has_status r s (hb_db h)) (event W r' t p)"
  "keeps (\<lambda>h. has_status r s (hb_db h)) (set_stage W r' g st e)"
  "keeps (\<lambda>h. has_status r s (hb_db h)) (publish W q)"
proof -
  show "keeps (\<lambda>h. has_status r s (hb_db h)) (event W r' t p)"
    by (rule keeps_event_rows) (simp add: find_run_def)
  show "keeps (\<lambda>h. has_status r s (hb_db h)) (set_stage W r' g st e)"
    unfolding set_stage_def by (rule keeps_on_db) (auto simp: update_stage_def Let_def find_run_def)
  show "keeps (\<lambda>h. has_status r s (hb_db h)) (publish W q)"
    by (rule keeps_publish_db) (simp add: find_run_def)
qed

text \<open>The host was inspected and found ready, or the settings do not insist on it.\<close>

definition host_admitted :: "orchestrator \<Rightarrow> bool" where
  "host_admitted R \<longleftrightarrow> (\<exists>n report. rt_inspect R n = Inr report
     \<and> (hc_ready report \<or> \<not> cf_enforce_host_preflight (rt_settings R)))"

lemma preflight_status:
  assumes ok: "hub_ok (rt_world R) r h" and step: "preflight R r h = (Inr u, h')"
    and running: "status_of h r = Some RUNNING"
  shows "status_of h' r = Some RUNNING \<and> host_admitted R
    \<or> status_of h' r = Some BLOCKED \<and> ends_with_event h' r ''run.blocked''"
proof -
  let ?W = "rt_world R" and ?P = "\<lambda>h. has_status r (Some RUNNING) (hb_db h) \<and> hub_ok (rt_world R) r h"
  have both: "keeps ?P m" if "keeps (\<lambda>h. has_status r (Some RUNNING) (hb_db h)) m" "keeps (hub_ok ?W r) m"
    for m :: "'a hub_op" using that unfolding keeps_def by blast
  note steps = step [unfolded preflight_def Let_def hbind_Inr [of "stage_started (rt_world R) r PREFLIGHT"]
      hbind_Inr [of "hlift (\<lambda>h. rt_inspect R (hb_tick h))"] hbind_Inr [of "publish W q" for W q]
      hbind_Inr [of "artifact_created R r a []" for a]]
  from steps obtain u1 g1 report g2 a g3 u4 h1 where
    s1: "stage_started ?W r PREFLIGHT h = (Inr u1, g1)"
    and s2: "hlift (\<lambda>h. rt_inspect R (hb_tick h)) g1 = (Inr report, g2)"
    and s3: "publish ?W (plain_request r PREFLIGHT HOST_CAPABILITY_REPORT ''host-preflight''
          (capability_report_dump report) (preflight_markdown report) []) g2 = (Inr a, g3)"
    and s4: "artifact_created R r a [] g3 = (Inr u4, h1)"
    and rest: "(if \<not> hc_ready report \<and> cf_enforce_host_preflight (rt_settings R)
      then hbind (set_stage ?W r PREFLIGHT BLOCKED (Some blocked_reason)) (\<lambda>_.
          hbind (set_run ?W r BLOCKED (Some PREFLIGHT) (Some blocked_reason)) (\<lambda>_.
          emit R r ''run.blocked'' [(''stage'', JStr (stage_value PREFLIGHT)), (''reason'', JStr blocked_reason)]))
      else hbind (if hc_ready report then hreturn () else emit R r ''preflight.override''
            [(''reason'', JStr ''AIDLC_ENFORCE_HOST_PREFLIGHT is false'')]) (\<lambda>_.
          stage_completed ?W r PREFLIGHT)) h1 = (Inr u, h')"
    by (elim exE conjE) (rule that)
  have events: "keeps ?P (event ?W r t p)" for t p by (rule both [OF keeps_has_status(1) event_keeps])
  have stages: "keeps ?P (set_stage ?W r g s e)" for g s e by (rule both [OF keeps_has_status(2) set_stage_keeps])
  have publishes: "keeps ?P (publish ?W q)" if "wq_run_id q = r" for q
    by (rule both [OF keeps_has_status(3) publish_keeps [OF that]])
  have started: "keeps ?P (stage_started ?W r g)" for g
    unfolding stage_started_def by (rule keeps_hbind [OF stages events])
  have completed: "keeps ?P (stage_completed ?W r g)" for g
    unfolding stage_completed_def by (rule keeps_hbind [OF stages events])
  have emits: "keeps ?P (emit R r t p)" for t p
    unfolding emit_def by (rule events)
  have "?P h" using running ok by (simp add: status_of_def)
  then have "?P g1" by (rule keepsD [OF started s1])
  moreover have "g2 = g1" using s2 by (simp add: hlift_def)
  ultimately have "?P g2" by simp
  then have "?P g3" by (rule keepsD [OF publishes [OF request_run(2)] s3])
  then have p1: "?P h1" by (rule keepsD [OF emits s4 [unfolded artifact_created_def]])
  show ?thesis
  proof (cases "\<not> hc_ready report \<and> cf_enforce_host_preflight (rt_settings R)")
    case False
    have kept: "keeps ?P (hbind (if hc_ready report then hreturn () else emit R r ''preflight.override''
            [(''reason'', JStr ''AIDLC_ENFORCE_HOST_PREFLIGHT is false'')]) (\<lambda>_. stage_completed ?W r PREFLIGHT))"
      by (intro keeps_hbind keeps_if keeps_hreturn emits completed)
    have "host_admitted R" using s2 False unfolding host_admitted_def hlift_def by auto
    with keepsD [OF kept _ p1] rest False show ?thesis by (auto simp: status_of_def)
  next
    case True
    obtain h2 where h2: "set_stage ?W r PREFLIGHT BLOCKED (Some blocked_reason) h1 = (Inr (), h2)" "hub_ok ?W r h2"
      using set_stage_known p1 by blast
    obtain h3 where h3: "set_run ?W r BLOCKED (Some PREFLIGHT) (Some blocked_reason) h2 = (Inr (), h3)"
      "status_of h3 r = Some BLOCKED" "hub_ok ?W r h3" using set_run_known [OF h2(2)] by blast
    let ?p = "[(''stage'', JStr (stage_value PREFLIGHT)), (''reason'', JStr blocked_reason)]"
    obtain h4 ev where h4: "event ?W r ''run.blocked'' ?p h3 = (Inr (), h4)" "status_of h4 r = status_of h3 r"
      "db_events (hb_db h4) = db_events (hb_db h3) @ [ev]" "ev_run_id ev = r" "ev_event_type ev = ''run.blocked''"
      using event_known [OF h3(3), of "''run.blocked''" ?p r] by auto
    have "h' = h4" using rest True h2(1) h3(1) h4(1) by (simp add: hbind_run emit_def)
    then show ?thesis using h3(2) h4 by (auto simp: ends_with_event_def)
  qed
qed

lemma execute_release_Inr:
  assumes ok: "hub_ok (rt_world R) (wr_run_id run) h" and step: "execute_release R run retry parents h = (Inr (), h')"
  shows "status_of h' (wr_run_id run) = Some COMPLETED \<and> ends_with_event h' (wr_run_id run) ''run.completed''
    \<and> (\<exists>ids h1. run_stage R run RELEASE parents 0 None retry False h = (Inr ids, h1))
    \<and> prefix (db_events (hb_db h)) (db_events (hb_db h'))"
proof -
  let ?r = "wr_run_id run" and ?W = "rt_world R"
  from step [unfolded execute_release_def xbind_Inr at_stage_Inr] obtain ids h1 where
    release: "run_stage R run RELEASE parents 0 None retry False h = (Inr ids, h1)"
    and last: "hbind (set_run ?W ?r COMPLETED (Some RELEASE) None) (\<lambda>_. emit R ?r ''run.completed'' []) h1 = (Inr (), h')"
    by (elim exE conjE) (rule that)
  have from1: "runs_from ?W ?r (hb_db h) h1"
    by (rule keepsD [OF runs.run_stage_inv [OF refl] release]) (simp add: runs_from_def run_isolated_def ok)
  then have ok1: "hub_ok ?W ?r h1" by (simp add: runs_from_def)
  obtain h2 where h2: "set_run ?W ?r COMPLETED (Some RELEASE) None h1 = (Inr (), h2)"
    "status_of h2 ?r = Some COMPLETED" "hub_ok ?W ?r h2" "db_events (hb_db h2) = db_events (hb_db h1)"
    using set_run_known [OF ok1] by blast
  obtain h3 ev where h3: "event ?W ?r ''run.completed'' [] h2 = (Inr (), h3)"
    "status_of h3 ?r = status_of h2 ?r" "db_events (hb_db h3) = db_events (hb_db h2) @ [ev]"
    "ev_run_id ev = ?r" "ev_event_type ev = ''run.completed''"
    using event_known [OF h2(3), of "''run.completed''" "[]" ?r] by auto
  have "h' = h3" using last h2(1) h3(1) by (simp add: hbind_run emit_def)
  then show ?thesis
    using h2(2,4) h3 release from1 by (auto simp: ends_with_event_def runs_from_def run_isolated_def)
qed

lemma execute_stages_Inr:
  assumes ok: "runs_from (rt_world R) (wr_run_id run) db0 h" and step: "execute_stages R run retry h = (Inr (), h')"
  shows "status_of h' (wr_run_id run) = Some COMPLETED \<and> ends_with_event h' (wr_run_id run) ''run.completed''
    \<and> (\<exists>attempt feedback parents parents' h1 h2 ids h3.
         evaluation_loop R run retry attempt feedback parents h1 = (Inr parents', h2)
         \<and> run_stage R run RELEASE parents' 0 None retry False h2 = (Inr ids, h3)
         \<and> (attempt = 0 \<or> retry \<noteq> 0)
         \<and> runs_from (rt_world R) (wr_run_id run) db0 h1 \<and> prefix (db_events (hb_db h2)) (db_events (hb_db h')))"
proof -
  let ?r = "wr_run_id run" and ?W = "rt_world R"
  from step [unfolded execute_stages_def xbind_Inr at_stage_Inr]
  obtain parent_ids h4 resume h5 parents h6 parents' h7 where
    s4: "hlift (\<lambda>h. Inr (map (\<lambda>a. md_artifact_id (ar_metadata a)) (list_artifacts (hb_db h) ?r))) h
      = (Inr parent_ids, h4)"
    and s5: "(if retry \<noteq> 0 then resume_point R ?r else hreturn (0, None)) h4 = (Inr resume, h5)"
    and life: "run_lifecycle R run retry (fst resume) (snd resume) LIFECYCLE parent_ids h5 = (Inr parents, h6)"
    and loop: "evaluation_loop R run retry (fst resume) (snd resume) parents h6 = (Inr parents', h7)"
    and release: "execute_release R run retry parents' h7 = (Inr (), h')"
    by (elim exE conjE) (rule that)
  have "keeps (runs_from ?W ?r db0) (if retry \<noteq> 0 then resume_point R ?r else hreturn (0, None))"
    by (intro keeps_intros)
  moreover have "h4 = h" using s4 by (simp add: hlift_def)
  ultimately have "runs_from ?W ?r db0 h5" using s5 ok by (auto elim: keepsD)
  then have from6: "runs_from ?W ?r db0 h6" by (rule xkeepsD [OF runs.run_lifecycle_inv [OF refl] life])
  then have "runs_from ?W ?r db0 h7" by (rule runs.evaluation_loop_inv [OF refl _ loop])
  then have "hub_ok ?W ?r h7" by (simp add: runs_from_def)
  note released = execute_release_Inr [OF this release]
  have "fst resume = 0 \<or> retry \<noteq> 0" using s5 by (cases "retry = 0") (auto simp: hreturn_def)
  with released loop from6 show ?thesis by blast
qed

text \<open>A body that ends without an exception was blocked by the host or completed the release.\<close>

lemma execute_body_Inr:
  assumes ok: "hub_ok (rt_world R) (wr_run_id run) h" and step: "execute_body R run retry h = (Inr (), h')"
  shows "status_of h' (wr_run_id run) = Some BLOCKED \<and> ends_with_event h' (wr_run_id run) ''run.blocked''
    \<or> host_admitted R \<and> (\<exists>h1. runs_from (rt_world R) (wr_run_id run) (hb_db h) h1 \<and> execute_stages R run retry h1 = (Inr (), h'))"
proof -
  let ?r = "wr_run_id run" and ?W = "rt_world R"
  note body = step [unfolded execute_body_def Let_def xbind_Inr at_stage_Inr]
  from body obtain h1 h2 h3 u1 u2 u3 where
    s1: "(if retry \<noteq> 0 then reconcile R ?r else hreturn ()) h = (Inr u1, h1)"
    and s2: "set_run ?W ?r RUNNING (Some PREFLIGHT) None h1 = (Inr u2, h2)"
    and s3: "preflight R ?r h2 = (Inr u3, h3)"
    and s4: "\<exists>refreshed h4. hlift (\<lambda>h. get_run (wd_py ?W) (hb_db h) ?r) h3 = (Inr refreshed, h4)
      \<and> (if (case refreshed of None \<Rightarrow> True | Some r \<Rightarrow> wr_status r = BLOCKED) then xreturn ()
         else execute_stages R run retry) h4 = (Inr (), h')"
    by (elim exE conjE) (rule that, assumption+, blast)
  have "runs_from ?W ?r (hb_db h) h" by (simp add: runs_from_def run_isolated_def ok)
  moreover have "keeps (runs_from ?W ?r (hb_db h)) (if retry \<noteq> 0 then reconcile R ?r else hreturn ())"
    by (intro keeps_intros)
  ultimately have from1: "runs_from ?W ?r (hb_db h) h1" using s1 by (auto elim: keepsD)
  then have from2: "runs_from ?W ?r (hb_db h) h2" by (rule keepsD [OF runs.set_run_inv s2])
  then have from3: "runs_from ?W ?r (hb_db h) h3" by (rule keepsD [OF runs.preflight_inv s3])
  have "status_of h2 ?r = Some RUNNING"
    using set_run_known [of ?W ?r h1 RUNNING "Some PREFLIGHT" None] s2 from1 by (auto simp: runs_from_def)
  note preflight = preflight_status [OF _ s3 this]
  from from3 obtain refreshed where get: "get_run (wd_py ?W) (hb_db h3) ?r = Inr (Some refreshed)"
    using get_run_Some [of "hb_db h3" ?r "wd_py ?W"] unfolding runs_from_def hub_ok_def hub_wf_def by blast
  show ?thesis
  proof (cases "wr_status refreshed = BLOCKED")
    case True
    with s4 get have "h' = h3" by (auto simp: hlift_def xreturn_def)
    then show ?thesis using True get_run_status(1) [OF get] preflight from2 by (simp add: runs_from_def)
  next
    case False
    with s4 get have "execute_stages R run retry h3 = (Inr (), h')" by (simp add: hlift_def)
    moreover have "host_admitted R" using False get_run_status(1) [OF get] preflight from2 by (auto simp: runs_from_def)
    ultimately show ?thesis using from3 by blast
  qed
qed

text \<open>The last event of the log announces a status of the run.\<close>

definition announces :: "hub \<Rightarrow> string \<Rightarrow> run_status \<Rightarrow> bool" where
  "announces h r s \<longleftrightarrow> ends_with_event h r (''run.'' @ run_status_value s)"

lemma announces_simps:
  "ends_with_event h r ''run.completed'' = announces h r COMPLETED"
  "ends_with_event h r ''run.blocked'' = announces h r BLOCKED"
  by (simp_all add: announces_def)

lemma announces_once: "announces h r s \<Longrightarrow> announces h r t \<longleftrightarrow> t = s"
  by (cases s; cases t) (auto simp: announces_def ends_with_event_def)

lemma execute_outcome:
  assumes "hub_ok (rt_world R) r h"
  shows "\<exists>h'. execute R r retry h = (Inr (), h') \<and>
    ((\<exists>s. s \<in> {BLOCKED, FAILED, CANCELED} \<and> status_of h' r = Some s \<and> announces h' r s)
     \<or> host_admitted R \<and> (\<exists>run h1. wr_run_id run = r \<and> runs_from (rt_world R) r (hb_db h) h1 \<and> execute_stages R run retry h1 = (Inr (), h')))"
proof -
  obtain res h' where step: "execute R r retry h = (res, h')" by fastforce
  then show ?thesis
  proof (cases rule: execute_cases)
    case (unreadable e)
    with assms get_run_Some [of "hb_db h" r "wd_py (rt_world R)"] show ?thesis
      unfolding hub_ok_def hub_wf_def by force
  next
    case absent
    with assms get_run_Some [of "hb_db h" r "wd_py (rt_world R)"] show ?thesis
      unfolding hub_ok_def hub_wf_def by force
  next
    case (ran run x h1)
    show ?thesis
    proof (cases x)
      case (Inl f)
      obtain stage e where f: "f = (stage, e)" by (cases f)
      have ok1: "hub_ok (rt_world R) r h1" by (rule xkeepsD [OF ok.execute_body_inv [OF ran(2)] ran(3) assms])
      from handle_error_settles [OF ok1, of stage e] obtain h2 s where
        h2: "handle_error R r stage e h1 = (Inr (), h2)" "status_of h2 r = Some s"
          "s = (if e = CancelledError then CANCELED else failure_status e)"
          "announces h2 r s" unfolding announces_def by blast
      have "s \<in> {BLOCKED, FAILED, CANCELED}"
        unfolding h2(3) by (auto simp: failure_status_def split: py_error.split)
      with h2 ran(4) Inl f step show ?thesis by auto
    next
      case (Inr u)
      have eq: "execute R r retry h = (Inr (), h1)" using step ran(4) Inr by simp
      have "execute_body R run retry h = (Inr (), h1)" using ran(3) Inr by simp
      from execute_body_Inr [OF _ this, unfolded ran(2) announces_simps, OF assms] show ?thesis
      proof
        assume "status_of h1 r = Some BLOCKED \<and> announces h1 r BLOCKED"
        with eq show ?thesis by (intro exI [of _ h1] conjI disjI1 exI [of _ BLOCKED]) simp_all
      next
        assume "host_admitted R \<and> (\<exists>h2. runs_from (rt_world R) r (hb_db h) h2 \<and> execute_stages R run retry h2 = (Inr (), h1))"
        then obtain h2 where "runs_from (rt_world R) r (hb_db h) h2" "execute_stages R run retry h2 = (Inr (), h1)" "host_admitted R"
          by blast
        with eq ran(2) show ?thesis by (intro exI [of _ h1] conjI disjI2 exI [of _ run] exI [of _ h2])
      qed
    qed
  qed
qed

lemma completed_stages:
  assumes "runs_from (rt_world R) r db0 h" and "wr_run_id run = r" and "execute_stages R run retry h = (Inr (), h')"
  shows "status_of h' r = Some COMPLETED \<and> announces h' r COMPLETED"
  using execute_stages_Inr [of R run db0 h retry h', unfolded announces_simps] assms by simp


text \<open>
  A concrete orchestrator whose agents do nothing, so that a run is canceled in its first stage.
\<close>

definition demo_host :: host_capability_report where
  "demo_host = \<lparr>hc_generated_at = 0, hc_ready = True, hc_degraded = False, hc_os_id = ''ubuntu'',
     hc_os_version = ''26.04'', hc_architecture = ''x86_64'', hc_kernel = ''6'', hc_checks = []\<rparr>"

definition demo_orchestrator :: orchestrator where
  "demo_orchestrator = \<lparr>rt_world = demo_world, rt_settings = demo_settings, rt_draft_json = (\<lambda>_. []),
     rt_schema = demo_schema, rt_toolchain = demo_toolchain, rt_inspect = (\<lambda>_. Inr demo_host),
     rt_reconcile = (\<lambda>_. ([], Inr ())), rt_schedule = (\<lambda>_. [])\<rparr>"

lemma demo_orchestrator_ok: "hub_ok (rt_world demo_orchestrator) ''run_1'' demo_hub"
  using demo_hub_ok by (simp add: demo_orchestrator_def)


section \<open>What a completed run went through\<close>

lemma event_Inr:
  assumes "event W r t p h = (Inr u, h')"
  shows "\<exists>e. db_events (hb_db h') = db_events (hb_db h) @ [e] \<and> ev_run_id e = r \<and> ev_event_type e = t \<and> ev_payload e = p"
  using assms by (auto simp: event_def hbind_Inr on_db_def append_event_def Let_def hreturn_def split: prod.splits if_splits)

lemma evaluation_round_stop:
  assumes "evaluation_round R run retry attempt feedback parents h = (Inr (Stop ps), h')"
    and "wr_run_id run = r" and "runs_from (rt_world R) r db0 h"
  shows "\<exists>verdict gate gates evaluation h1. decide R run attempt h1 = (Inr (verdict, gate, gates, evaluation), h')
    \<and> (verdict = D_passed \<or> verdict = D_deferred) \<and> runs_from (rt_world R) r db0 h1"
proof -
  obtain verdict gate gates evaluation p1 h1 h2 where
    s: "run_stage R run EVALUATION parents attempt feedback retry (retry \<noteq> 0) h = (Inr p1, h1)"
    and d: "decide R run attempt h1 = (Inr (verdict, gate, gates, evaluation), h2)"
    and rest: "(if verdict = D_passed \<or> verdict = D_deferred then xreturn (Stop p1)
     else if verdict = D_exhausted
     then at_stage EVALUATION (hbind (emit R (wr_run_id run) ''repair.exhausted''
            [(''repair_attempts'', JInt (int attempt))]) (\<lambda>_.
          hraise (RuntimeError ''Evaluation repair limit exhausted; release withheld'')))
     else let feedback' = repair_feedback (attempt + 1) gates evaluation in
       xbind (at_stage EVALUATION (request_repair R run (attempt + 1) gate feedback' p1)) (\<lambda>parents1.
       xbind (at_stage IMPLEMENTATION
         (run_stage R run IMPLEMENTATION parents1 (attempt + 1) (Some feedback') retry False)) (\<lambda>parents2.
       xbind (at_stage INTEGRATION
         (run_stage R run INTEGRATION parents2 (attempt + 1) (Some feedback') retry False)) (\<lambda>parents3.
       xreturn (Again parents3 feedback'))))) h2 = (Inr (Stop ps), h')"
    using assms(1) unfolding evaluation_round_def xbind_Inr at_stage_Inr by (auto simp only: split_paired_Ex split_conv)
  have from1: "runs_from (rt_world R) r db0 h1" by (rule keepsD [OF runs.run_stage_inv [OF assms(2)] s assms(3)])
  show ?thesis
  proof (cases "verdict = D_passed \<or> verdict = D_deferred")
    case True
    with rest have "h' = h2" by (simp add: xreturn_def)
    with d True from1 show ?thesis by blast
  next
    case False
    with rest show ?thesis
      by (cases verdict) (auto simp: xreturn_def at_stage_Inr hbind_Inr hraise_def xbind_Inr Let_def)
  qed
qed

lemma evaluation_loop_accepts:
  assumes run: "wr_run_id run = r" and "runs_from (rt_world R) r db0 h"
    and "evaluation_loop R run retry a fb ps h = (Inr ps', h')"
  shows "\<exists>k verdict gate gates evaluation h1.
    (k = a \<or> k \<le> nat (cf_max_evaluation_repair_attempts (rt_settings R)))
    \<and> decide R run k h1 = (Inr (verdict, gate, gates, evaluation), h') \<and> (verdict = D_passed \<or> verdict = D_deferred)
    \<and> runs_from (rt_world R) r db0 h1"
  using assms(2,3)
proof (induction "nat (cf_max_evaluation_repair_attempts (rt_settings R)) - a" arbitrary: a fb ps h rule: less_induct)
  case less
  obtain x h1 where x: "evaluation_round R run retry a fb ps h = (x, h1)" by fastforce
  from less.prems(2) x show ?case
  proof (cases rule: loop_cases)
    case (stop ps'')
    with evaluation_round_stop [OF x [unfolded stop(1)] run less.prems(1)] show ?thesis by blast
  next
    case (again ps'' fb')
    have lt: "a < nat (cf_max_evaluation_repair_attempts (rt_settings R))"
      using evaluation_round_again [OF x [unfolded again(1)]] .
    have from1: "runs_from (rt_world R) r db0 h1"
      by (rule xkeepsD [OF runs.evaluation_round_inv [OF run] x less.prems(1)])
    have "nat (cf_max_evaluation_repair_attempts (rt_settings R)) - (a + 1)
        < nat (cf_max_evaluation_repair_attempts (rt_settings R)) - a" using lt by simp
    from less.hyps [OF this from1 again(2)] obtain k verdict gate gates evaluation h2 where
      k: "k = a + 1 \<or> k \<le> nat (cf_max_evaluation_repair_attempts (rt_settings R))"
      and d: "decide R run k h2 = (Inr (verdict, gate, gates, evaluation), h')"
        "verdict = D_passed \<or> verdict = D_deferred" "runs_from (rt_world R) r db0 h2"
      by (elim exE conjE) (rule that)
    have "k \<le> nat (cf_max_evaluation_repair_attempts (rt_settings R))" using k lt by auto
    with d show ?thesis by blast
  qed simp
qed

text \<open>
  An accepting decision: a person accepted the evaluation, or the gates passed and the score
  reaches the threshold; a deferred one: there is no verdict on the source, for want of evidence
  or of an applicable rubric, and nobody asked for a repair.
\<close>

definition decision_holds :: "settings \<Rightarrow> repair_verdict \<Rightarrow> quality_gate_report \<Rightarrow> evaluation_report \<Rightarrow>
    decision option \<Rightarrow> bool" where
  "decision_holds cfg v gates evaluation human \<longleftrightarrow> (case v of
       D_passed \<Rightarrow> human = Some Accept \<or> qr_verdict gates = V_passed
         \<and> (\<exists>s. overall_score evaluation = Inr (Some s) \<and> cf_evaluation_score_threshold cfg \<le> s)
     | D_deferred \<Rightarrow> human \<noteq> Some Accept \<and> human \<noteq> Some Repair \<and> (qr_verdict gates = V_blocked
         \<or> qr_verdict gates = V_passed \<and> overall_score evaluation = Inr None)
     | _ \<Rightarrow> False)"

lemma repair_decision_holds:
  assumes "repair_decision gates evaluation k limit (cf_evaluation_score_threshold cfg) human = Inr v"
    and "v = D_passed \<or> v = D_deferred"
  shows "decision_holds cfg v gates evaluation human"
  using assms by (auto simp: repair_decision_def rbind_eq_Inr decision_holds_def
      split: if_splits verdict.splits option.splits)

lemma decide_records:
  assumes "decide R run k h = (Inr (v, gate, gates, evaluation), h')"
  shows "\<exists>human e. repair_decision gates evaluation k (nat (cf_max_evaluation_repair_attempts (rt_settings R)))
        (cf_evaluation_score_threshold (rt_settings R)) human = Inr v
    \<and> db_events (hb_db h') = db_events (hb_db h) @ [e] \<and> ev_run_id e = wr_run_id run \<and> ev_event_type e = ''evaluation.decision''
    \<and> dget (ev_payload e) ''decision'' = JStr (repair_verdict_value v)
    \<and> dget (ev_payload e) ''repair_attempt'' = JInt (int k)"
proof -
  from assms [unfolded decide_def Let_def hbind_Inr hlift_def hreturn_def emit_def] obtain human u p where
    r: "repair_decision gates evaluation k (nat (cf_max_evaluation_repair_attempts (rt_settings R)))
        (cf_evaluation_score_threshold (rt_settings R)) human = Inr v"
    and e: "event (rt_world R) (wr_run_id run) ''evaluation.decision'' p h = (Inr u, h')"
    and p: "dget p ''decision'' = JStr (repair_verdict_value v)" "dget p ''repair_attempt'' = JInt (int k)"
    by (auto simp: dget_def artifact_context_def hlift_def)
  from event_Inr [OF e] r p show ?thesis by auto
qed


lemma accepted_stages:
  assumes "runs_from (rt_world R) r db0 h" and "wr_run_id run = r" and "execute_stages R run retry h = (Inr (), h')"
  shows "\<exists>old e new v gates evaluation human k. db_events (hb_db h') = db_events db0 @ old @ [e] @ new
    \<and> ev_run_id e = r \<and> ev_event_type e = ''evaluation.decision''
    \<and> dget (ev_payload e) ''decision'' = JStr (repair_verdict_value v)
    \<and> dget (ev_payload e) ''repair_attempt'' = JInt (int k)
    \<and> (retry \<noteq> 0 \<or> k \<le> nat (cf_max_evaluation_repair_attempts (rt_settings R)))
    \<and> decision_holds (rt_settings R) v gates evaluation human"
proof -
  from execute_stages_Inr [of R run db0 h retry h'] assms obtain a fb ps ps' h1 h2 where
    loop: "evaluation_loop R run retry a fb ps h1 = (Inr ps', h2)" and a: "a = 0 \<or> retry \<noteq> 0"
    and from1: "runs_from (rt_world R) r db0 h1" and later: "prefix (db_events (hb_db h2)) (db_events (hb_db h'))"
    by blast
  from evaluation_loop_accepts [OF assms(2) from1 loop] obtain k v gate gates evaluation g where
    k: "k = a \<or> k \<le> nat (cf_max_evaluation_repair_attempts (rt_settings R))"
    and d: "decide R run k g = (Inr (v, gate, gates, evaluation), h2)" and v: "v = D_passed \<or> v = D_deferred"
    and g: "runs_from (rt_world R) r db0 g" by blast
  from decide_records [OF d] obtain human e where
    r: "repair_decision gates evaluation k (nat (cf_max_evaluation_repair_attempts (rt_settings R)))
        (cf_evaluation_score_threshold (rt_settings R)) human = Inr v"
    and e: "db_events (hb_db h2) = db_events (hb_db g) @ [e]" "ev_run_id e = wr_run_id run"
      "ev_event_type e = ''evaluation.decision''" "dget (ev_payload e) ''decision'' = JStr (repair_verdict_value v)"
      "dget (ev_payload e) ''repair_attempt'' = JInt (int k)" by (elim exE conjE) (rule that)
  obtain old where old: "db_events (hb_db g) = db_events db0 @ old"
    using g by (auto simp: runs_from_def run_isolated_def elim: prefixE)
  obtain new where new: "db_events (hb_db h') = db_events (hb_db h2) @ new" using later by (auto elim: prefixE)
  have "db_events (hb_db h') = db_events db0 @ old @ [e] @ new" by (simp add: old new e(1))
  moreover have "retry \<noteq> 0 \<or> k \<le> nat (cf_max_evaluation_repair_attempts (rt_settings R))" using a k by auto
  ultimately show ?thesis using e(2-) assms(2) repair_decision_holds [OF r v]
    by (intro exI conjI) simp_all
qed



text \<open>
  Runs are isolated. Whatever happens while a run is executed, also answers that people
  give in other runs meanwhile, the event log only grows, and the rows of every other run and
  of its stages are untouched.
\<close>

theorem execution_isolated:
  "prefix (db_events (hb_db h)) (db_events (hb_db (snd (execute R r retry h))))
   \<and> filter (\<lambda>x. rr_run_id x \<noteq> r) (db_runs (hb_db (snd (execute R r retry h))))
       = filter (\<lambda>x. rr_run_id x \<noteq> r) (db_runs (hb_db h))
   \<and> filter (\<lambda>s. sg_run_id s \<noteq> r) (db_stages (hb_db (snd (execute R r retry h))))
       = filter (\<lambda>s. sg_run_id s \<noteq> r) (db_stages (hb_db h))"
proof -
  obtain res h' where step: "execute R r retry h = (res, h')" by fastforce
  have "run_isolated r (hb_db h) (hb_db h')" by (rule execute_isolated [OF step])
  then show ?thesis by (simp add: step run_isolated_def)
qed

section \<open>The fan-out of a stage\<close>

text \<open>The states of a fan-out: the phase of every specialist, and the hub.\<close>

inductive stage_step :: "orchestrator \<Rightarrow> stage_run \<Rightarrow> phases \<times> hub \<Rightarrow> phases \<times> hub \<Rightarrow> bool"
  for R :: orchestrator and G :: stage_run where
  action: "agent_step R G a ph h = (Inr ph', h') \<Longrightarrow> stage_step R G (ph, h) (ph', h')"

inductive_cases stage_stepE: "stage_step R G (ph, h) s"

definition initial_phases :: "stage_name \<Rightarrow> phases" where
  "initial_phases stage = map (\<lambda>s. (sp_name s, Waiting)) (AGENTS_BY_STAGE stage)"

text \<open>What an action does to the phases.\<close>

lemma begin_agent_phase:
  assumes "begin_agent R G spec h = (Inr p, h')"
  shows "\<exists>i. p = Done i \<or> (\<exists>iv. p = Active iv)"
  using assms unfolding begin_agent_def Let_def hbind_Inr
  by (elim exE conjE) (auto simp: hbind_Inr hreturn_def split: option.splits)

lemma finish_agent_phase: "finish_agent R G spec iv x h = (Inr p, h') \<Longrightarrow> \<exists>i. p = Done i"
  by (auto simp: finish_agent_def Let_def hbind_Inr hreturn_def)

text \<open>The discipline of the semaphore: what an action may do to the phases of the specialists.\<close>

inductive phase_move :: "nat \<Rightarrow> phases \<Rightarrow> phases \<Rightarrow> bool" for slots :: nat where
  stay: "phase_move slots ph ph"
| reuse: "map_of ph n = Some Waiting \<Longrightarrow> phase_move slots ph (dict_set n (Done i) ph)"
| acquire: "map_of ph n = Some Waiting \<Longrightarrow> active_count ph < slots \<Longrightarrow>
    phase_move slots ph (dict_set n (Active iv) ph)"
| release: "map_of ph n = Some (Active iv) \<Longrightarrow> phase_move slots ph (dict_set n (Done i) ph)"

lemma agent_step_phases:
  assumes "agent_step R G a ph h = (Inr ph', h')"
  shows "phase_move (cf_max_parallel_agents (rt_settings R)) ph ph'"
  using assms unfolding agent_step_def
  by (cases a) (auto simp: advance_def hbind_Inr hreturn_def hraise_def
      split: option.splits agent_phase.splits if_splits
      dest!: finish_agent_phase begin_agent_phase intro: phase_move.intros)

lemma active_count_set:
  assumes "distinct (map fst ph)" and "map_of ph n = Some p"
  shows "active_count (dict_set n q ph) + (if is_active p then 1 else 0) = active_count ph + (if is_active q then 1 else 0)"
  using assms
proof (induction ph)
  case (Cons x xs)
  show ?case
  proof (cases "fst x = n")
    case True
    with Cons show ?thesis by (cases x) (auto simp: active_count_def)
  next
    case False
    with Cons show ?thesis by (cases x) (auto simp: active_count_def)
  qed
qed simp

lemma keys_dict_set_known: "map_of ph n \<noteq> None \<Longrightarrow> map fst (dict_set n q ph) = map fst ph"
  by (induction ph) (auto split: if_splits)

lemma phase_move_invariant:
  assumes "phase_move slots ph ph'" and dist: "distinct (map fst ph)" and "active_count ph \<le> slots"
  shows "map fst ph' = map fst ph \<and> active_count ph' \<le> slots
    \<and> (\<forall>n i. map_of ph n = Some (Done i) \<longrightarrow> map_of ph' n = Some (Done i))"
  using assms(1)
proof (cases rule: phase_move.cases)
  case (reuse m i)
  with active_count_set [OF dist reuse(2), of "Done i"] assms(3) show ?thesis
    by (auto simp: keys_dict_set_known AList.update_conv')
next
  case (acquire m iv)
  with active_count_set [OF dist acquire(2), of "Active iv"] show ?thesis
    by (auto simp: keys_dict_set_known AList.update_conv')
next
  case (release m iv i)
  with active_count_set [OF dist release(2), of "Done i"] assms(3) show ?thesis
    by (auto simp: keys_dict_set_known AList.update_conv')
qed (use assms(3) in simp)

lemma stage_names_distinct: "distinct (map sp_name (AGENTS_BY_STAGE g))"
proof -
  have "distinct (map sp_name AGENT_SPECS)" by (simp add: ROLES_def)
  then show ?thesis by (simp add: AGENTS_BY_STAGE_def distinct_map_filter)
qed

lemma initial_phases_ok:
  "map fst (initial_phases g) = map sp_name (AGENTS_BY_STAGE g)" "active_count (initial_phases g) = 0"
  "distinct (map fst (initial_phases g))"
proof -
  show "map fst (initial_phases g) = map sp_name (AGENTS_BY_STAGE g)" by (simp add: initial_phases_def o_def)
  moreover show "active_count (initial_phases g) = 0"
    by (simp add: initial_phases_def active_count_def filter_empty_conv)
  ultimately show "distinct (map fst (initial_phases g))" by (simp add: stage_names_distinct)
qed

lemma done_in_order:
  assumes "distinct (map fst ph)" and "all_done ph"
  shows "map (map_of ph) (map fst ph) = map (Some \<circ> Done) (map (\<lambda>(_, p). the (done_id p)) ph)"
proof (rule nth_equalityI)
  fix k
  assume k: "k < length (map (map_of ph) (map fst ph))"
  obtain n p where x: "ph ! k = (n, p)" by fastforce
  with k have "(n, p) \<in> set ph" by (metis length_map nth_mem)
  with assms have "map_of ph n = Some p" "done_id p \<noteq> None" by (auto simp: all_done_def list_all_iff)
  with k x show "map (map_of ph) (map fst ph) ! k = map (Some \<circ> Done) (map (\<lambda>(_, p). the (done_id p)) ph) ! k"
    by (cases p) simp_all
qed simp

lemma stage_step_reachable:
  assumes "(stage_step R G)\<^sup>*\<^sup>* (ph0, h0) (ph, h)" and "distinct (map fst ph0)"
    and "active_count ph0 \<le> cf_max_parallel_agents (rt_settings R)"
  shows "map fst ph = map fst ph0 \<and> active_count ph \<le> cf_max_parallel_agents (rt_settings R)
    \<and> (\<forall>n i. map_of ph0 n = Some (Done i) \<longrightarrow> map_of ph n = Some (Done i))"
  using assms
proof (induction rule: rtranclp_induct2)
  case (step ph1 h1 ph2 h2)
  from step.hyps(2) have "phase_move (cf_max_parallel_agents (rt_settings R)) ph1 ph2"
    by (auto elim: stage_stepE dest: agent_step_phases)
  note move = phase_move_invariant [OF this]
  from step.IH [OF step.prems] step.prems(1) have "distinct (map fst ph1)" by simp
  from move [OF this] step.IH [OF step.prems] show ?case by simp
qed simp

lemma fan_out_Inr:
  assumes "fan_out R G as ph h = (Inr ids, h')"
  shows "\<exists>ph'. (stage_step R G)\<^sup>*\<^sup>* (ph, h) (ph', h') \<and> all_done ph' \<and> ids = map (\<lambda>(_, p). the (done_id p)) ph'"
  using assms
proof (induction as arbitrary: ph h)
  case Nil
  then show ?case by (auto simp: hreturn_def hraise_def split: if_splits)
next
  case (Cons a as)
  show ?case
  proof (cases "all_done ph")
    case True
    with Cons.prems show ?thesis by (auto simp: hreturn_def)
  next
    case False
    with Cons.prems obtain ph1 h1 where a: "agent_step R G a ph h = (Inr ph1, h1)"
      and rest: "fan_out R G as ph1 h1 = (Inr ids, h')" by (auto simp: hbind_Inr)
    from Cons.IH [OF rest] obtain ph' where "(stage_step R G)\<^sup>*\<^sup>* (ph1, h1) (ph', h')" "all_done ph'"
      "ids = map (\<lambda>(_, p). the (done_id p)) ph'" by blast
    with converse_rtranclp_into_rtranclp [of "stage_step R G", OF stage_step.action [OF a]] show ?thesis by blast
  qed
qed

text \<open>
  C3. The fan-out of a stage keeps its discipline under every schedule. In every state that it
  can reach, no more specialists are active than the semaphore has slots, each specialist of the
  stage has exactly one phase, and one that is done stays done with the same artifact. When the
  stage ends, the identifiers it returns are those of its specialists in the order of the
  catalog, whatever the order in which they finished.
\<close>

theorem fan_out_disciplined:
  assumes "(stage_step R G)\<^sup>*\<^sup>* (initial_phases (sn_stage G), h0) (ph, h)"
  shows "active_count ph \<le> cf_max_parallel_agents (rt_settings R)
    \<and> map fst ph = map sp_name (AGENTS_BY_STAGE (sn_stage G))
    \<and> (case fan_out R G as ph h of
         (Inl e, _) \<Rightarrow> True
       | (Inr ids, h') \<Rightarrow> length ids = length (AGENTS_BY_STAGE (sn_stage G))
           \<and> (\<exists>last. (stage_step R G)\<^sup>*\<^sup>* (ph, h) (last, h')
                \<and> map (\<lambda>s. map_of last (sp_name s)) (AGENTS_BY_STAGE (sn_stage G)) = map (Some \<circ> Done) ids
                \<and> (\<forall>n i. map_of ph n = Some (Done i) \<longrightarrow> map_of last n = Some (Done i))))"
proof -
  let ?slots = "cf_max_parallel_agents (rt_settings R)" and ?agents = "AGENTS_BY_STAGE (sn_stage G)"
  from stage_step_reachable [OF assms initial_phases_ok(3)] initial_phases_ok(1,2)
  have now: "map fst ph = map sp_name ?agents" "active_count ph \<le> ?slots" by simp_all
  then have dist: "distinct (map fst ph)" using initial_phases_ok(1,3) by simp
  obtain res h' where f: "fan_out R G as ph h = (res, h')" by fastforce
  show ?thesis
  proof (cases res)
    case (Inr ids)
    from fan_out_Inr [OF f [unfolded Inr]] obtain last where
      l: "(stage_step R G)\<^sup>*\<^sup>* (ph, h) (last, h')" "all_done last"
        "ids = map (\<lambda>(_, p). the (done_id p)) last" by blast
    from stage_step_reachable [OF l(1) dist now(2)] now
    have last: "map fst last = map sp_name ?agents" "\<forall>n i. map_of ph n = Some (Done i) \<longrightarrow> map_of last n = Some (Done i)"
      by simp_all
    with dist now have "distinct (map fst last)" by simp
    then have "map (map_of last) (map fst last) = map (Some \<circ> Done) ids"
      using l(2) unfolding l(3) by (rule done_in_order)
    then have "map (\<lambda>s. map_of last (sp_name s)) ?agents = map (Some \<circ> Done) ids"
      unfolding last(1) by (simp add: o_def)
    moreover have "length ids = length ?agents"
      using arg_cong [OF last(1), of length] by (simp add: l(3))
    ultimately show ?thesis using f Inr now l(1) last(2) by auto
  qed (use f now in simp)
qed

lemma demo_intake_agents: "map sp_name (AGENTS_BY_STAGE INTAKE) = [''intake-agent'']"
  by (simp add: AGENTS_BY_STAGE_def AGENT_SPECS_def ROLES_def)

definition demo_saved :: artifact_record where
  "demo_saved = \<lparr>ar_metadata = make_metadata demo_env ''01'' 1 demo_brief, ar_content_path = []\<rparr>"

definition demo_run :: workflow_run where
  "demo_run = \<lparr>wr_project_id = [], wr_run_id = ''run_1'', wr_idea = ''idea'', wr_status = RUNNING,
     wr_current_stage = None, wr_created_at = 0, wr_updated_at = 0, wr_error = None, wr_stages = []\<rparr>"

definition demo_stage :: stage_run where
  "demo_stage = \<lparr>sn_run = demo_run,
     sn_stage = INTAKE, sn_attempt = 0, sn_feedback = None, sn_retry = 1,
     sn_saved = [(''intake-agent'', demo_saved)],
     sn_context = hub_context demo_orchestrator demo_run INTAKE [] 0 None 1\<rparr>"

text \<open>A stage whose only specialist reuses its saved output.\<close>

theorem fan_out_disciplined_witness:
  "\<exists>ph h i. agent_step demo_orchestrator demo_stage (Begin ''intake-agent'') (initial_phases INTAKE) demo_hub = (Inr ph, h)
    \<and> active_count ph \<le> 3 \<and> fan_out demo_orchestrator demo_stage [] ph h = (Inr [i], h)"
proof -
  have stage: "sn_stage demo_stage = INTAKE" by (simp add: demo_stage_def)
  have init: "initial_phases INTAKE = [(''intake-agent'', Waiting)]"
    using initial_phases_ok(1) [of INTAKE] demo_intake_agents by (auto simp: initial_phases_def)
  obtain spec where spec: "find_spec demo_stage ''intake-agent'' = Some spec"
    using demo_intake_agents by (auto simp: find_spec_def stage)
  let ?i = "md_artifact_id (ar_metadata demo_saved)" and ?p = "[(''agent'', JStr ''intake-agent''), (''stage'', JStr (stage_value INTAKE))]"
  obtain h where h: "event (rt_world demo_orchestrator) ''run_1'' ''agent.reused'' ?p demo_hub = (Inr (), h)"
    using event_known [OF demo_orchestrator_ok, of "''agent.reused''" ?p] by blast
  have begin_: "agent_step demo_orchestrator demo_stage (Begin ''intake-agent'') (initial_phases INTAKE) demo_hub
      = (Inr [(''intake-agent'', Done ?i)], h)"
    using h spec unfolding init
    by (simp add: agent_step_def demo_stage_def demo_run_def advance_def emit_def hbind_run hreturn_def)
  then have "(stage_step demo_orchestrator demo_stage)\<^sup>*\<^sup>* (initial_phases (sn_stage demo_stage), demo_hub)
      ([(''intake-agent'', Done ?i)], h)" unfolding stage by (blast intro: stage_step.action)
  from fan_out_disciplined [OF this, of "[]"] begin_ show ?thesis
    by (auto simp: demo_orchestrator_def demo_settings_def all_done_def hreturn_def)
qed

section \<open>Starting and retrying\<close>

lemma linked_initialize [simp]: "linked E (initialize_project E' r idea st) a = linked E st a"
proof -
  have "destination E (initialize_project E' r idea st) m = destination E st m" for m
    by (simp add: destination_def initialize_project_def project_path_def Let_def)
  then show ?thesis by (simp add: linked_def initialize_project_def)
qed

lemma create_run_frame:
  "create_run E now r idea db = (res, db') \<Longrightarrow> db_artifacts db' = db_artifacts db"
  by (auto simp: create_run_def Let_def split: if_splits sum.splits option.splits)

lemma find_snoc: "List.find p (xs @ [x]) = (case List.find p xs of None \<Rightarrow> if p x then Some x else None | Some y \<Rightarrow> Some y)"
  by (induction xs) auto

lemma create_run_status:
  assumes "create_run E now r idea db = (Inr run, db')"
  shows "wr_run_id run = r \<and> wr_status run = PENDING \<and> wr_idea run = idea"
proof -
  have none: "List.find (\<lambda>x. rr_run_id x = r) (db_runs db) = None"
    using assms by (auto simp: create_run_def run_ids_def find_None_iff split: if_splits)
  from assms have got: "get_run E db' r = Inr (Some run)"
    and row: "find_run db' r = Some \<lparr>rr_run_id = r, rr_idea = idea, rr_status = PENDING,
        rr_current_stage = None, rr_created_at = now, rr_updated_at = now, rr_error = None\<rparr>"
    by (auto simp: create_run_def Let_def find_run_def none find_snoc
        split: if_splits sum.splits option.splits)
  from got row have "wr_idea run = idea"
    by (auto simp: get_run_def rbind_eq_Inr split: if_splits)
  with get_run_row [OF got] row show ?thesis by simp
qed

text \<open>
  A new run is ready to execute. If the generated identifier is new and its project
  directory collides with no other run's, creating a run succeeds, the run is pending with the
  idea it was given, and the invariant under which executions settle holds for it; the other
  runs and the published artifacts are untouched.
\<close>

theorem start_run_ready:
  assumes "good_world (rt_world R)" and "hub_wf (rt_world R) h"
    and "project_id_for_run (wd_py (rt_world R)) (''run_'' @ wd_uid (rt_world R) (hb_tick h))
      \<notin> project_id_for_run (wd_py (rt_world R)) ` set (run_ids (hb_db h))"
  shows "\<exists>run h'. start_run R idea h = (Inr run, h') \<and> wr_run_id run = ''run_'' @ wd_uid (rt_world R) (hb_tick h)
    \<and> wr_status run = PENDING \<and> wr_idea run = idea \<and> hub_ok (rt_world R) (wr_run_id run) h'
    \<and> db_artifacts (hb_db h') = db_artifacts (hb_db h)
    \<and> set (run_ids (hb_db h')) = insert (wr_run_id run) (set (run_ids (hb_db h)))"
proof -
  let ?W = "rt_world R" and ?r = "''run_'' @ wd_uid (rt_world R) (hb_tick h)"
  let ?h1 = "h\<lparr>hb_store := initialize_project (wd_py ?W) ?r idea (hb_store h), hb_tick := hb_tick h + 1\<rparr>"
  have new: "?r \<notin> set (run_ids (hb_db h))" using assms(3) by blast
  have wf: "db_wf (hb_db h)" using assms(2) by (simp add: hub_wf_def)
  obtain res db where c: "create_run (wd_py ?W) (wd_clock ?W (hb_tick h + 1)) ?r idea (hb_db h) = (res, db)" by fastforce
  from create_run_wf(3) [OF wf c new] obtain run where run: "res = Inr run" by blast
  note created = create_run_status [OF c [unfolded run]]
  let ?h2 = "h\<lparr>hb_store := initialize_project (wd_py ?W) ?r idea (hb_store h), hb_db := db, hb_tick := hb_tick h + 2\<rparr>"
  have ids: "run_ids db = run_ids (hb_db h) @ [?r]" using run_ids_create [OF c [unfolded run]] new by simp
  have "\<exists>k < hb_tick h + 2. md_artifact_id (ar_metadata a) = ''art_'' @ wd_uid ?W k" if "a \<in> set (db_artifacts db)" for a
    using that assms(2) create_run_frame [OF c] unfolding hub_wf_def by (metis add.commute trans_less_add2)
  then have ok2: "hub_ok ?W ?r ?h2"
    using assms create_run_wf(1) [OF wf c] create_run_frame [OF c] ids
    unfolding hub_ok_def hub_wf_def hub.index_ok_def by (auto simp: inj_on_insert)
  obtain h3 where h3: "event ?W ?r ''run.created'' [(''idea'', JStr idea)] ?h2 = (Inr (), h3)" "hub_ok ?W ?r h3"
    using event_known [OF ok2] by blast
  have "run_ids (hb_db h3) = run_ids db \<and> db_artifacts (hb_db h3) = db_artifacts db"
    using h3(1) append_event_frame by (fastforce simp: event_def hbind_Inr on_db_def hreturn_def split: prod.splits)
  moreover have "start_run R idea h = (Inr run, h3)"
    using c run h3(1) by (simp add: start_run_def Let_def on_db_def hbind_def emit_def hreturn_def)
  ultimately show ?thesis using created h3(2) ids create_run_frame [OF c] by auto
qed

theorem start_run_ready_witness:
  "\<exists>run h h'. start_run demo_orchestrator ''idea'' demo_hub = (Inr run, h) \<and> wr_run_id run = ''run_''
     \<and> execute demo_orchestrator ''run_'' 0 h = (Inr (), h')"
proof -
  have "project_id_for_run (wd_py (rt_world demo_orchestrator)) (''run_'' @ wd_uid (rt_world demo_orchestrator) (hb_tick demo_hub))
      \<notin> project_id_for_run (wd_py (rt_world demo_orchestrator)) ` set (run_ids (hb_db demo_hub))"
    unfolding demo_hub_runs
    by (simp add: project_id_for_run_def demo_orchestrator_def demo_world_def demo_env_def demo_hub_def)
  from start_run_ready [OF _ _ this, of "''idea''"] demo_orchestrator_ok
  obtain run h where run: "start_run demo_orchestrator ''idea'' demo_hub = (Inr run, h)" "wr_run_id run = ''run_''"
    "hub_ok (rt_world demo_orchestrator) (wr_run_id run) h"
    by (auto simp: hub_ok_def demo_orchestrator_def demo_world_def demo_hub_def)
  from execute_outcome [OF run(3)] run(2) obtain h' where "execute demo_orchestrator ''run_'' 0 h = (Inr (), h')" by auto
  with run show ?thesis by blast
qed

text \<open>
  C4. Retrying. For a run that exists, whether a retry is accepted depends only on its status
  and on whether its workflow is still active: a failed, blocked or canceled run without active
  workflow is always accepted, since its artifacts can all be read back, numbered one more than
  the retries requested before, and pending again; otherwise the retry is refused and changes
  nothing.
\<close>

theorem retry_accepted_iff_settled:
  assumes "hub_ok (rt_world R) r h"
  shows "\<exists>s. status_of h r = Some s \<and>
    (if s \<in> {FAILED, BLOCKED, CANCELED} \<and> \<not> active
     then \<exists>run h'. retry_run R active r h = (Inr (run, 1 + length (filter (\<lambda>e. ev_event_type e = ''run.retry_requested'')
              (events_after (hb_db h) r 0))), h')
          \<and> wr_run_id run = r \<and> wr_status run = PENDING \<and> hub_ok (rt_world R) r h' \<and> hb_store h' = hb_store h
     else \<exists>e. retry_run R active r h = (Inl (ValueError e), h))"
proof -
  let ?W = "rt_world R"
  from assms get_run_Some [of "hb_db h" r "wd_py ?W"] obtain run where
    run: "get_run (wd_py ?W) (hb_db h) r = Inr (Some run)" unfolding hub_ok_def hub_wf_def by blast
  show ?thesis
  proof (cases "wr_status run \<in> {FAILED, BLOCKED, CANCELED} \<and> \<not> active")
    case False
    then have "\<exists>e. retry_run R active r h = (Inl (ValueError e), h)"
      using run by (auto simp: retry_run_def Let_def hbind_def hlift_def hraise_def)
    with False get_run_status(1) [OF run] show ?thesis by auto
  next
    case True
    obtain views where views: "artifact_context ?W r h = (Inr views, h)"
      using artifact_context_readable [of ?W h r] assms by (auto simp: hub_ok_def)
    let ?n = "1 + length (filter (\<lambda>e. ev_event_type e = ''run.retry_requested'') (events_after (hb_db h) r 0))"
    obtain h1 where h1: "set_run ?W r PENDING (wr_current_stage run) None h = (Inr (), h1)"
      "status_of h1 r = Some PENDING" "hub_ok ?W r h1" using set_run_known [OF assms] by blast
    obtain h2 where h2: "event ?W r ''run.retry_requested'' [(''retry_attempt'', JInt (int ?n))] h1 = (Inr (), h2)"
      "status_of h2 r = status_of h1 r" "hub_ok ?W r h2" using event_known [OF h1(3)] by blast
    from h2(3) get_run_Some [of "hb_db h2" r "wd_py ?W"] obtain run2 where
      run2: "get_run (wd_py ?W) (hb_db h2) r = Inr (Some run2)" unfolding hub_ok_def hub_wf_def by blast
    have "hb_store h2 = hb_store h"
      using h1(1) h2(1) by (auto simp: set_run_def event_def hbind_Inr on_db_def hreturn_def split: prod.splits)
    moreover have "retry_run R active r h = (Inr (run2, ?n), h2)"
      using run True views h1(1) h2(1) run2
      by (auto simp: retry_run_def Let_def hbind_run hlift_def hreturn_def emit_def)
    ultimately show ?thesis
      using True get_run_status [OF run] get_run_status [OF run2] h2(2,3) h1(2) by auto
  qed
qed

theorem retry_accepted_iff_settled_witness:
  "\<exists>h run n h'. retry_run demo_orchestrator False ''run_1'' h = (Inr (run, n), h') \<and> wr_status run = PENDING"
proof -
  obtain h where h: "status_of h ''run_1'' = Some FAILED" "hub_ok (rt_world demo_orchestrator) ''run_1'' h"
    using set_run_known [OF demo_orchestrator_ok, of FAILED None None] by blast
  from retry_accepted_iff_settled [OF h(2), of False] h(1) show ?thesis by auto
qed

end
