(* ===== verification/Finops.thy ===== *)
theory Finops
  imports Interaction
begin

text \<open>
  \<open>orchestration/finops.py\<close>: the usage report of a run, computed from its event log. The lemmas show
  that the report is an account: the rows of the agents add up to the totals, nothing is counted
  twice, and the percentages are bounded.
\<close>

section \<open>Python conversions\<close>

text \<open>\<open>int(value)\<close>: floats are truncated.\<close>

fun to_int :: "json \<Rightarrow> int result" where
  "to_int (JInt i) = Inr i"
| "to_int (JBool b) = Inr (if b then 1 else 0)"
| "to_int (JFloat q) = Inr (if 0 \<le> q then \<lfloor>q\<rfloor> else \<lceil>q\<rceil>)"
| "to_int (JStr s) = py_int s"
| "to_int _ = Inl (TypeError ''int()'')"

text \<open>Rounding to binary64 with a sign; \<open>float(value)\<close> and the float literal reader \<open>fl\<close>.\<close>

definition rounded :: "rat \<Rightarrow> rat" where
  "rounded q = (if q < 0 then - double (- q) else double q)"

fun to_float :: "(string \<Rightarrow> rat result) \<Rightarrow> json \<Rightarrow> rat result" where
  "to_float fl (JInt i) = Inr (rounded (of_int i))"
| "to_float fl (JBool b) = Inr (if b then 1 else 0)"
| "to_float fl (JFloat q) = Inr q"
| "to_float fl (JStr s) = fl s"
| "to_float fl _ = Inl (TypeError ''float()'')"

text \<open>\<open>round(x, 2)\<close> rounds the exact value half to even, then to the nearest float.\<close>

definition round2 :: "rat \<Rightarrow> rat" where
  "round2 q = rounded (of_int (round_half_even (q * 100)) / 100)"

text \<open>The \<open>sum\<close> of floats carries the lost low parts along.\<close>

definition cs_add :: "rat \<times> rat \<Rightarrow> rat \<Rightarrow> rat \<times> rat" where
  "cs_add s x = (case s of (hi, lo) \<Rightarrow>
     let t = rounded (hi + x) in
     (t, rounded (lo + (if \<bar>x\<bar> \<le> \<bar>hi\<bar> then rounded (rounded (hi - t) + x) else rounded (rounded (x - t) + hi)))))"

fun float_sum :: "rat list \<Rightarrow> rat" where
  "float_sum [] = 0"
| "float_sum (x # xs) = (case foldl cs_add (x, 0) xs of (hi, lo) \<Rightarrow> if lo = 0 then hi else rounded (hi + lo))"

section \<open>The report\<close>

definition payloads :: "string \<Rightarrow> event_record list \<Rightarrow> jdict list" where
  "payloads event_type events = map ev_payload (filter (\<lambda>e. ev_event_type e = event_type) events)"

definition total :: "jdict list \<Rightarrow> string \<Rightarrow> int result" where
  "total items field = rbind (traverse (\<lambda>d. if truthy (dget d field) then to_int (dget d field) else Inr 0) items)
     (\<lambda>xs. Inr (sum_list xs))"

definition present :: "jdict list \<Rightarrow> string \<Rightarrow> json list" where
  "present items field = filter (\<lambda>v. v \<noteq> JNull) (map (\<lambda>d. dget d field) items)"

definition cost :: "(string \<Rightarrow> rat result) \<Rightarrow> jdict list \<Rightarrow> rat option result" where
  "cost fl items = rbind (traverse (to_float fl) (present items ''cost_usd'')) (\<lambda>values.
     Inr (if values = [] then None else Some (float_sum values)))"

definition field_tokens :: "jdict list \<Rightarrow> string \<Rightarrow> int option result" where
  "field_tokens items field = rbind (traverse to_int (present items field)) (\<lambda>values.
     Inr (if values = [] then None else Some (sum_list values)))"

definition combined_tokens :: "jdict list \<Rightarrow> int option result" where
  "combined_tokens items =
     rbind (field_tokens items ''input_tokens'') (\<lambda>input_tokens.
     rbind (field_tokens items ''output_tokens'') (\<lambda>output_tokens.
     Inr (case (input_tokens, output_tokens) of
          (None, None) \<Rightarrow> None
        | _ \<Rightarrow> Some ((case input_tokens of None \<Rightarrow> 0 | Some i \<Rightarrow> i)
                    + (case output_tokens of None \<Rightarrow> 0 | Some i \<Rightarrow> i)))))"

definition later_attempts :: "jdict list \<Rightarrow> string \<Rightarrow> jdict list result" where
  "later_attempts items field =
     rbind (traverse (\<lambda>d. rbind (if truthy (dget d field) then to_int (dget d field) else Inr 0)
        (\<lambda>n. Inr (d, n))) items) (\<lambda>rows. Inr (map fst (filter (\<lambda>(d, n). n > 0) rows)))"

record usage =
  us_context_selections :: nat
  us_model_executions :: nat
  us_cache_hits :: nat
  us_selected_context_bytes :: int
  us_model_context_bytes_sent :: int
  us_cache_avoided_context_bytes :: int
  us_broad_context_baseline_bytes :: int
  us_context_bytes_saved :: int
  us_context_reduction_percent :: rat
  us_actual_input_tokens :: "int option"
  us_actual_output_tokens :: "int option"
  us_actual_total_tokens :: "int option"
  us_repair_tokens :: "int option"
  us_workflow_retry_tokens :: "int option"
  us_tokens_per_successful_output :: "rat option"
  us_actual_cost_usd :: "rat option"
  us_successful_outputs :: nat

definition of_agent :: "string option \<Rightarrow> jdict \<Rightarrow> bool" where
  "of_agent agent d = (case agent of None \<Rightarrow> True | Some a \<Rightarrow> dget d ''agent'' = JStr a)"

definition metrics :: "(string \<Rightarrow> rat result) \<Rightarrow> event_record list \<Rightarrow> string option \<Rightarrow> usage result" where
  "metrics fl events agent =
     (let selected = filter (of_agent agent) (payloads ''agent.context_selected'' events);
          used = filter (of_agent agent) (payloads ''agent.execution'' events);
          hits = filter (of_agent agent) (payloads ''agent.cache_hit'' events);
          delegated = filter (of_agent agent) (payloads ''agent.started'' events);
          successful_outputs = length (filter (of_agent agent) (payloads ''agent.completed'' events)) + length hits
      in
      rbind (total selected ''context_bytes'') (\<lambda>selected_bytes.
      rbind (total selected ''baseline_context_bytes'') (\<lambda>baseline_bytes.
      rbind (field_tokens used ''input_tokens'') (\<lambda>input_tokens.
      rbind (field_tokens used ''output_tokens'') (\<lambda>output_tokens.
      rbind (combined_tokens used) (\<lambda>all_tokens.
      rbind (total delegated ''context_bytes'') (\<lambda>sent.
      rbind (total hits ''context_bytes'') (\<lambda>avoided.
      rbind (rbind (later_attempts used ''repair_attempt'') combined_tokens) (\<lambda>repair_tokens.
      rbind (rbind (later_attempts used ''retry_attempt'') combined_tokens) (\<lambda>retry_tokens.
      rbind (cost fl used) (\<lambda>actual_cost.
      let saved_bytes = baseline_bytes - selected_bytes in
      Inr \<lparr>us_context_selections = length selected, us_model_executions = length used,
        us_cache_hits = length hits, us_selected_context_bytes = selected_bytes,
        us_model_context_bytes_sent = sent, us_cache_avoided_context_bytes = avoided,
        us_broad_context_baseline_bytes = baseline_bytes, us_context_bytes_saved = saved_bytes,
        us_context_reduction_percent = (if baseline_bytes \<noteq> 0
          then round2 (rounded (of_int (saved_bytes * 100) / of_int baseline_bytes)) else 0),
        us_actual_input_tokens = input_tokens, us_actual_output_tokens = output_tokens,
        us_actual_total_tokens = all_tokens, us_repair_tokens = repair_tokens,
        us_workflow_retry_tokens = retry_tokens,
        us_tokens_per_successful_output = (case all_tokens of None \<Rightarrow> None
          | Some n \<Rightarrow> if successful_outputs \<noteq> 0
              then Some (round2 (rounded (of_int n / of_nat successful_outputs))) else None),
        us_actual_cost_usd = actual_cost, us_successful_outputs = successful_outputs\<rparr>)))))))))))"

definition usage_dump :: "usage \<Rightarrow> jdict" where
  "usage_dump u =
    [(''context_selections'', JInt (int (us_context_selections u))),
     (''model_executions'', JInt (int (us_model_executions u))),
     (''cache_hits'', JInt (int (us_cache_hits u))),
     (''selected_context_bytes'', JInt (us_selected_context_bytes u)),
     (''model_context_bytes_sent'', JInt (us_model_context_bytes_sent u)),
     (''cache_avoided_context_bytes'', JInt (us_cache_avoided_context_bytes u)),
     (''broad_context_baseline_bytes'', JInt (us_broad_context_baseline_bytes u)),
     (''context_bytes_saved'', JInt (us_context_bytes_saved u)),
     (''context_reduction_percent'', JFloat (us_context_reduction_percent u)),
     (''actual_input_tokens'', jopt JInt (us_actual_input_tokens u)),
     (''actual_output_tokens'', jopt JInt (us_actual_output_tokens u)),
     (''actual_total_tokens'', jopt JInt (us_actual_total_tokens u)),
     (''repair_tokens'', jopt JInt (us_repair_tokens u)),
     (''workflow_retry_tokens'', jopt JInt (us_workflow_retry_tokens u)),
     (''tokens_per_successful_output'', jopt JFloat (us_tokens_per_successful_output u)),
     (''actual_cost_usd'', jopt JFloat (us_actual_cost_usd u)),
     (''successful_outputs'', JInt (int (us_successful_outputs u)))]"

definition reported_agents :: "pyenv \<Rightarrow> event_record list \<Rightarrow> string list" where
  "reported_agents E events = sorted_list_of_set (set (map (\<lambda>d. py_str E (dget d ''agent''))
     (filter (\<lambda>d. truthy (dget d ''agent''))
       (payloads ''agent.context_selected'' events @ payloads ''agent.execution'' events
        @ payloads ''agent.cache_hit'' events))))"

definition report_of :: "usage \<Rightarrow> json list \<Rightarrow> jdict" where
  "report_of totals agents = [(''measurement_version'', JStr ''aidlc-finops-v1''),
     (''notes'', JObj [(''actual_tokens'', JStr ''Provider-reported model usage.''),
        (''context_savings'', JStr (''Deterministic serialized-byte comparison with the former broad context; ''
           @ ''it is not an estimate of tokens or currency.''))]),
     (''totals'', JObj (usage_dump totals)), (''agents'', JArr agents)]"

definition finops_report :: "pyenv \<Rightarrow> (string \<Rightarrow> rat result) \<Rightarrow> event_record list \<Rightarrow> jdict result" where
  "finops_report E fl events =
     rbind (metrics fl events None) (\<lambda>totals.
     rbind (traverse (\<lambda>agent. rbind (metrics fl events (Some agent)) (\<lambda>u.
        Inr (JObj ((''agent'', JStr agent) # usage_dump u)))) (reported_agents E events)) (\<lambda>agents.
     Inr (report_of totals agents)))"

section \<open>The account balances\<close>

definition int_at :: "string \<Rightarrow> jdict \<Rightarrow> int" where
  "int_at field d = (case (if truthy (dget d field) then to_int (dget d field) else Inr 0) of Inl _ \<Rightarrow> 0 | Inr i \<Rightarrow> i)"

definition tokens_at :: "string \<Rightarrow> jdict \<Rightarrow> int" where
  "tokens_at field d = (if dget d field = JNull then 0 else case to_int (dget d field) of Inl _ \<Rightarrow> 0 | Inr i \<Rightarrow> i)"

lemma traverse_values:
  "traverse f xs = Inr ys \<longleftrightarrow> (\<forall>x \<in> set xs. \<exists>y. f x = Inr y) \<and> ys = map (\<lambda>x. case f x of Inl _ \<Rightarrow> 0 | Inr y \<Rightarrow> y) xs"
  for f :: "'a \<Rightarrow> int result"
  by (induction xs arbitrary: ys) (auto simp: rbind_eq_Inr)

lemma traverse_filter: "traverse f xs = Inr ys \<Longrightarrow> \<exists>zs. traverse f (filter p xs) = Inr zs"
  by (induction xs arbitrary: ys) (auto simp: rbind_eq_Inr)

lemma total_Inr: "total items field = Inr n \<longleftrightarrow>
    (\<forall>d \<in> set items. truthy (dget d field) \<longrightarrow> (\<exists>i. to_int (dget d field) = Inr i)) \<and> n = sum_list (map (int_at field) items)"
  unfolding total_def rbind_eq_Inr traverse_values int_at_def by (auto split: if_splits)

lemma total_sub: "total items field = Inr n \<Longrightarrow> total (filter p items) field = Inr (sum_list (map (int_at field) (filter p items)))"
  by (simp add: total_Inr)

lemma field_tokens_Inr:
  "field_tokens items field = Inr n \<longleftrightarrow>
    (\<forall>d \<in> set items. dget d field \<noteq> JNull \<longrightarrow> (\<exists>i. to_int (dget d field) = Inr i))
    \<and> n = (if \<forall>d \<in> set items. dget d field = JNull then None else Some (sum_list (map (tokens_at field) items)))"
proof -
  have sum: "sum_list (map (\<lambda>v. case to_int v of Inl _ \<Rightarrow> 0 | Inr y \<Rightarrow> y) (present items field)) = sum_list (map (tokens_at field) items)"
    if "\<forall>d \<in> set items. dget d field \<noteq> JNull \<longrightarrow> (\<exists>i. to_int (dget d field) = Inr i)"
    using that by (induction items) (auto simp: present_def tokens_at_def)
  have empty: "present items field = [] \<longleftrightarrow> (\<forall>d \<in> set items. dget d field = JNull)"
    by (auto simp: present_def filter_empty_conv)
  have "(\<forall>v \<in> set (present items field). \<exists>i. to_int v = Inr i)
      \<longleftrightarrow> (\<forall>d \<in> set items. dget d field \<noteq> JNull \<longrightarrow> (\<exists>i. to_int (dget d field) = Inr i))"
    by (auto simp: present_def)
  then show ?thesis using sum empty unfolding field_tokens_def rbind_eq_Inr traverse_values by auto
qed

definition tokens_ok :: "string \<Rightarrow> jdict list \<Rightarrow> bool" where
  "tokens_ok field items \<longleftrightarrow> (\<forall>d \<in> set items. dget d field \<noteq> JNull \<longrightarrow> (\<exists>i. to_int (dget d field) = Inr i))"

lemma field_tokens_iff:
  "(\<exists>n. field_tokens items field = Inr n) \<longleftrightarrow> tokens_ok field items"
  "field_tokens items field = Inr n \<Longrightarrow> opt_or_zero n = sum_list (map (tokens_at field) items)"
proof -
  have "sum_list (map (tokens_at field) items) = 0" if "\<forall>d \<in> set items. dget d field = JNull"
    using that by (induction items) (auto simp: tokens_at_def)
  then show "field_tokens items field = Inr n \<Longrightarrow> opt_or_zero n = sum_list (map (tokens_at field) items)"
    by (auto simp: field_tokens_Inr opt_or_zero_def)
qed (auto simp: field_tokens_Inr tokens_ok_def)

lemma combined_tokens_iff:
  "(\<exists>n. combined_tokens items = Inr n) \<longleftrightarrow> tokens_ok ''input_tokens'' items \<and> tokens_ok ''output_tokens'' items"
  "combined_tokens items = Inr n \<Longrightarrow>
     opt_or_zero n = sum_list (map (tokens_at ''input_tokens'') items) + sum_list (map (tokens_at ''output_tokens'') items)"
proof -
  show "(\<exists>n. combined_tokens items = Inr n) \<longleftrightarrow> tokens_ok ''input_tokens'' items \<and> tokens_ok ''output_tokens'' items"
    unfolding combined_tokens_def rbind_eq_Inr field_tokens_iff(1) [symmetric] by auto
  assume "combined_tokens items = Inr n"
  then obtain i j where ij: "field_tokens items ''input_tokens'' = Inr i" "field_tokens items ''output_tokens'' = Inr j"
    and n: "(case (i, j) of (None, None) \<Rightarrow> None | _ \<Rightarrow> Some ((case i of None \<Rightarrow> 0 | Some i \<Rightarrow> i)
          + (case j of None \<Rightarrow> 0 | Some i \<Rightarrow> i))) = n"
    unfolding combined_tokens_def rbind_eq_Inr sum.inject by blast
  have "opt_or_zero n = opt_or_zero i + opt_or_zero j"
    unfolding n [symmetric] by (simp add: opt_or_zero_def split: option.split)
  with ij show "opt_or_zero n = sum_list (map (tokens_at ''input_tokens'') items) + sum_list (map (tokens_at ''output_tokens'') items)"
    by (simp add: field_tokens_iff(2))
qed

lemma tokens_ok_sub: "tokens_ok field items \<Longrightarrow> set sub \<subseteq> set items \<Longrightarrow> tokens_ok field sub"
  by (auto simp: tokens_ok_def)

lemma later_attempts_sub:
  assumes "later_attempts items field = Inr rows"
  shows "\<exists>rows'. later_attempts (filter p items) field = Inr rows' \<and> set rows' \<subseteq> set rows"
  using assms
proof (induction items arbitrary: rows)
  case Nil
  then show ?case by simp
next
  case (Cons d items)
  from Cons.prems obtain n rest where n: "(if truthy (dget d field) then to_int (dget d field) else Inr 0) = Inr n"
    and rest: "later_attempts items field = Inr rest" "rows = (if 0 < n then d # rest else rest)"
    by (auto simp: later_attempts_def rbind_eq_Inr)
  from Cons.IH [OF rest(1)] obtain sub where "later_attempts (filter p items) field = Inr sub" "set sub \<subseteq> set rest" by blast
  then show ?case using n rest(2) by (auto simp: later_attempts_def rbind_eq_Inr split: if_splits)
qed

text \<open>What a row of the report says about the events of its agents.\<close>

definition row_of :: "event_record list \<Rightarrow> string option \<Rightarrow> usage \<Rightarrow> bool" where
  "row_of events agent u \<longleftrightarrow>
     (let sel = (\<lambda>t. filter (of_agent agent) (payloads t events)); bytes = (\<lambda>f t. sum_list (map (int_at f) (sel t)))
      in us_context_selections u = length (sel ''agent.context_selected'')
       \<and> us_model_executions u = length (sel ''agent.execution'')
       \<and> us_cache_hits u = length (sel ''agent.cache_hit'')
       \<and> us_successful_outputs u = length (sel ''agent.completed'') + length (sel ''agent.cache_hit'')
       \<and> us_selected_context_bytes u = bytes ''context_bytes'' ''agent.context_selected''
       \<and> us_broad_context_baseline_bytes u = bytes ''baseline_context_bytes'' ''agent.context_selected''
       \<and> us_context_bytes_saved u = us_broad_context_baseline_bytes u - us_selected_context_bytes u
       \<and> us_model_context_bytes_sent u = bytes ''context_bytes'' ''agent.started''
       \<and> us_cache_avoided_context_bytes u = bytes ''context_bytes'' ''agent.cache_hit''
       \<and> opt_or_zero (us_actual_total_tokens u) = sum_list (map (tokens_at ''input_tokens'') (sel ''agent.execution''))
           + sum_list (map (tokens_at ''output_tokens'') (sel ''agent.execution''))
       \<and> us_context_reduction_percent u = (if us_broad_context_baseline_bytes u \<noteq> 0
           then round2 (rounded (of_int (us_context_bytes_saved u * 100) / of_int (us_broad_context_baseline_bytes u))) else 0))"

lemma metrics_row: "metrics fl events agent = Inr u \<Longrightarrow> row_of events agent u"
  unfolding metrics_def Let_def rbind_eq_Inr sum.inject
  by (elim exE conjE, frule combined_tokens_iff(2), hypsubst, simp add: row_of_def Let_def total_Inr)

lemma metrics_every_agent:
  assumes "metrics fl events None = Inr t"
  shows "\<exists>u. metrics fl events agent = Inr u"
proof -
  have all: "filter (of_agent None) xs = xs" for xs by (simp add: of_agent_def)
  obtain s b i o' n m a l1 r1 l2 r2 c where
    sums: "total (payloads ''agent.context_selected'' events) ''context_bytes'' = Inr s"
      "total (payloads ''agent.context_selected'' events) ''baseline_context_bytes'' = Inr b"
      "total (payloads ''agent.started'' events) ''context_bytes'' = Inr m"
      "total (payloads ''agent.cache_hit'' events) ''context_bytes'' = Inr a"
    and tokens: "combined_tokens (payloads ''agent.execution'' events) = Inr n"
    and later: "later_attempts (payloads ''agent.execution'' events) ''repair_attempt'' = Inr l1" "combined_tokens l1 = Inr r1"
      "later_attempts (payloads ''agent.execution'' events) ''retry_attempt'' = Inr l2" "combined_tokens l2 = Inr r2"
    and cost: "cost fl (payloads ''agent.execution'' events) = Inr c"
    using assms unfolding metrics_def Let_def rbind_eq_Inr all by blast
  let ?used = "filter (of_agent agent) (payloads ''agent.execution'' events)"
  from tokens have ok: "tokens_ok ''input_tokens'' (payloads ''agent.execution'' events)"
    "tokens_ok ''output_tokens'' (payloads ''agent.execution'' events)"
    using combined_tokens_iff(1) by blast+
  then have "tokens_ok ''input_tokens'' ?used" "tokens_ok ''output_tokens'' ?used"
    by (simp_all add: tokens_ok_def)
  then obtain i' o'' n' where "field_tokens ?used ''input_tokens'' = Inr i'" "field_tokens ?used ''output_tokens'' = Inr o''"
    "combined_tokens ?used = Inr n'"
    using field_tokens_iff(1) combined_tokens_iff(1) by meson
  moreover obtain l1' l2' where "later_attempts ?used ''repair_attempt'' = Inr l1'" "set l1' \<subseteq> set l1"
    "later_attempts ?used ''retry_attempt'' = Inr l2'" "set l2' \<subseteq> set l2"
    using later_attempts_sub [OF later(1)] later_attempts_sub [OF later(3)] by meson
  moreover from calculation later(2,4) obtain r1' r2' where "combined_tokens l1' = Inr r1'" "combined_tokens l2' = Inr r2'"
    using combined_tokens_iff(1) tokens_ok_sub by meson
  moreover obtain c' where "cost fl ?used = Inr c'"
  proof -
    have "present ?used ''cost_usd'' = filter (\<lambda>v. v \<noteq> JNull) (map (\<lambda>d. dget d ''cost_usd'') ?used)"
      by (simp add: present_def)
    from cost obtain vs where "traverse (to_float fl) (present (payloads ''agent.execution'' events) ''cost_usd'') = Inr vs"
      by (auto simp: cost_def rbind_eq_Inr)
    then have "\<forall>v \<in> set (present (payloads ''agent.execution'' events) ''cost_usd''). \<exists>q. to_float fl v = Inr q"
      by (auto simp: traverse_Inr_iff list_all2_conv_all_nth in_set_conv_nth)
    then have "\<forall>v \<in> set (present ?used ''cost_usd''). \<exists>q. to_float fl v = Inr q"
      by (auto simp: present_def)
    then obtain ws where "traverse (to_float fl) (present ?used ''cost_usd'') = Inr ws"
      using traverse_map_Inr [of _ "to_float fl" "\<lambda>v. projr (to_float fl v)"] by (metis sum.sel(2))
    then show ?thesis using that by (auto simp: cost_def)
  qed
  ultimately show ?thesis
    using sums [THEN total_sub, of "of_agent agent"] by (simp add: metrics_def Let_def)
qed

lemma sum_by_agent:
  fixes f :: "jdict \<Rightarrow> 'b :: comm_monoid_add"
  assumes "distinct as" and "\<forall>d \<in> set items. \<exists>a \<in> set as. dget d ''agent'' = JStr a"
  shows "sum_list (map (\<lambda>a. sum_list (map f (filter (of_agent (Some a)) items))) as) = sum_list (map f items)"
  using assms(2)
proof (induction items)
  case (Cons d items)
  then obtain b where b: "b \<in> set as" "dget d ''agent'' = JStr b" by auto
  have "sum_list (map f (filter (of_agent (Some a)) (d # items)))
      = (if a = b then f d else 0) + sum_list (map f (filter (of_agent (Some a)) items))" for a
    using b(2) by (simp add: of_agent_def)
  moreover have "sum_list (map (\<lambda>a. if a = b then f d else 0) as) = f d"
    using assms(1) b(1) by (simp add: sum_list_distinct_conv_sum_set)
  ultimately show ?case using Cons by (simp add: sum_list_addf)
qed simp

lemma length_by_agent:
  "distinct as \<Longrightarrow> \<forall>d \<in> set items. \<exists>a \<in> set as. dget d ''agent'' = JStr a \<Longrightarrow>
    sum_list (map (\<lambda>a. length (filter (of_agent (Some a)) items)) as) = length items"
  using sum_by_agent [of as items "\<lambda>_. 1 :: nat"] by (simp add: sum_list_triv)

definition usage_types :: "string set" where
  "usage_types = {''agent.context_selected'', ''agent.started'', ''agent.execution'', ''agent.cache_hit'', ''agent.completed''}"

lemma usage_types [simp]:
  "''agent.context_selected'' \<in> usage_types" "''agent.started'' \<in> usage_types" "''agent.execution'' \<in> usage_types"
  "''agent.cache_hit'' \<in> usage_types" "''agent.completed'' \<in> usage_types"
  by (simp_all add: usage_types_def)

definition attributed :: "pyenv \<Rightarrow> event_record list \<Rightarrow> bool" where
  "attributed E events \<longleftrightarrow> (\<forall>t \<in> usage_types.
     \<forall>d \<in> set (payloads t events). \<exists>a \<in> set (reported_agents E events). dget d ''agent'' = JStr a)"

lemma rounded_le:
  assumes "q \<le> of_int n" and "0 \<le> n"
  shows "rounded q \<le> of_int n"
proof (cases "q < 0")
  case True
  then have "0 \<le> double (- q)" using double_bounds(2) [of 0 "- q"] by simp
  then have "rounded q \<le> 0" using True by (simp add: rounded_def)
  then show ?thesis using assms(2) by (meson of_int_0_le_iff order_trans)
next
  case False
  then show ?thesis using double_bounds(1) [OF assms(1)] by (simp add: rounded_def)
qed

lemma round2_le: "q \<le> 100 \<Longrightarrow> round2 q \<le> 100"
proof -
  assume "q \<le> 100"
  then have "q * 100 \<le> of_int 10000" by simp
  then have "round_half_even (q * 100) \<le> 10000" by (rule round_half_even_bounds)
  then have "(of_int (round_half_even (q * 100)) :: rat) \<le> of_int 10000" by (simp only: of_int_le_iff)
  then have "(of_int (round_half_even (q * 100)) :: rat) / 100 \<le> of_int 100" by simp
  then show "round2 q \<le> 100" unfolding round2_def using rounded_le [of _ 100] by simp
qed

lemma row_ofD:
  assumes "row_of events agent u"
  shows "us_context_selections u = length (filter (of_agent agent) (payloads ''agent.context_selected'' events))"
    and "us_model_executions u = length (filter (of_agent agent) (payloads ''agent.execution'' events))"
    and "us_cache_hits u = length (filter (of_agent agent) (payloads ''agent.cache_hit'' events))"
    and "us_successful_outputs u = length (filter (of_agent agent) (payloads ''agent.completed'' events))
           + length (filter (of_agent agent) (payloads ''agent.cache_hit'' events))"
    and "us_context_bytes_saved u = us_broad_context_baseline_bytes u - us_selected_context_bytes u"
    and "us_selected_context_bytes u = sum_list (map (int_at ''context_bytes'') (filter (of_agent agent) (payloads ''agent.context_selected'' events)))"
    and "us_broad_context_baseline_bytes u
           = sum_list (map (int_at ''baseline_context_bytes'') (filter (of_agent agent) (payloads ''agent.context_selected'' events)))"
    and "us_model_context_bytes_sent u = sum_list (map (int_at ''context_bytes'') (filter (of_agent agent) (payloads ''agent.started'' events)))"
    and "us_cache_avoided_context_bytes u = sum_list (map (int_at ''context_bytes'') (filter (of_agent agent) (payloads ''agent.cache_hit'' events)))"
    and "opt_or_zero (us_actual_total_tokens u)
           = sum_list (map (tokens_at ''input_tokens'') (filter (of_agent agent) (payloads ''agent.execution'' events)))
           + sum_list (map (tokens_at ''output_tokens'') (filter (of_agent agent) (payloads ''agent.execution'' events)))"
  using assms unfolding row_of_def Let_def by blast+

lemma percent_le:
  assumes "row_of events agent u" and "0 \<le> us_selected_context_bytes u" and "0 \<le> us_broad_context_baseline_bytes u"
  shows "us_context_reduction_percent u \<le> 100"
proof (cases "us_broad_context_baseline_bytes u = 0")
  case False
  let ?b = "us_broad_context_baseline_bytes u"
  have "us_context_bytes_saved u = ?b - us_selected_context_bytes u"
    and percent: "us_context_reduction_percent u = round2 (rounded (of_int (us_context_bytes_saved u * 100) / of_int ?b))"
    using assms(1) False by (simp_all add: row_of_def Let_def)
  then have "us_context_bytes_saved u * 100 \<le> ?b * 100" using assms(2) by simp
  then have "(of_int (us_context_bytes_saved u * 100) :: rat) \<le> of_int (?b * 100)" by (simp only: of_int_le_iff)
  then have "(of_int (us_context_bytes_saved u * 100) :: rat) / of_int ?b \<le> of_int 100"
    using False assms(3) by (simp add: divide_le_eq)
  then show ?thesis unfolding percent using round2_le rounded_le [of _ 100] by simp
qed (use assms(1) in \<open>simp add: row_of_def Let_def\<close>)

text \<open>
  The usage report balances. Whenever the totals can be computed the whole report can; if
  every usage event names its agent, the rows of the agents add up to the totals in every count,
  every number of bytes and the tokens, so that no usage is lost or counted twice; and a context
  reduction never exceeds 100 percent where the byte counts are not negative.
\<close>

theorem report_balances:
  assumes "metrics fl events None = Inr t" and "attributed E events"
  shows "\<exists>rep us. finops_report E fl events = Inr rep
    \<and> dget rep ''totals'' = JObj (usage_dump t)
    \<and> dget rep ''agents'' = JArr (map2 (\<lambda>a u. JObj ((''agent'', JStr a) # usage_dump u)) (reported_agents E events) us)
    \<and> length us = length (reported_agents E events)
    \<and> (\<forall>count \<in> {us_context_selections, us_model_executions, us_cache_hits, us_successful_outputs}.
         sum_list (map count us) = count t)
    \<and> (\<forall>bytes \<in> {us_selected_context_bytes, us_broad_context_baseline_bytes, us_context_bytes_saved,
           us_model_context_bytes_sent, us_cache_avoided_context_bytes}.
         sum_list (map bytes us) = bytes t)
    \<and> sum_list (map (opt_or_zero \<circ> us_actual_total_tokens) us) = opt_or_zero (us_actual_total_tokens t)
    \<and> (\<forall>u \<in> set (t # us). 0 \<le> us_selected_context_bytes u \<and> 0 \<le> us_broad_context_baseline_bytes u
         \<longrightarrow> us_context_reduction_percent u \<le> 100)"
proof -
  let ?as = "reported_agents E events"
  define u where "u a = projr (metrics fl events (Some a))" for a
  have u: "metrics fl events (Some a) = Inr (u a)" for a
    using metrics_every_agent [OF assms(1)] by (metis u_def sum.sel(2))
  have dist: "distinct ?as" by (simp add: reported_agents_def)
  note rows = row_ofD [OF metrics_row [OF u]] and whole = row_ofD [OF metrics_row [OF assms(1)]]
  have all: "filter (of_agent None) xs = xs" for xs by (simp add: of_agent_def)
  have part: "\<forall>d \<in> set (payloads ty events). \<exists>a \<in> set ?as. dget d ''agent'' = JStr a"
    if "ty \<in> usage_types" for ty
    using assms(2) that by (simp add: attributed_def)
  note sums = sum_by_agent [OF dist part] length_by_agent [OF dist part]
  obtain rep where rep: "finops_report E fl events = Inr rep" "dget rep ''totals'' = JObj (usage_dump t)"
    "dget rep ''agents'' = JArr (map (\<lambda>a. JObj ((''agent'', JStr a) # usage_dump (u a))) ?as)"
  proof (rule that)
    show "finops_report E fl events = Inr (report_of t
        (map (\<lambda>a. JObj ((''agent'', JStr a) # usage_dump (u a))) ?as))"
      unfolding finops_report_def assms(1) u rbind_simps report_of_def by (subst traverse_map_Inr [OF refl]) simp
  qed (simp_all add: report_of_def dget_def)
  have "sum_list (map (us_context_selections \<circ> u) ?as) = us_context_selections t"
    "sum_list (map (us_model_executions \<circ> u) ?as) = us_model_executions t"
    "sum_list (map (us_cache_hits \<circ> u) ?as) = us_cache_hits t"
    "sum_list (map (us_successful_outputs \<circ> u) ?as) = us_successful_outputs t"
    by (simp_all add: o_def rows whole sums all sum_list_addf del: map_map)
  moreover have bytes: "sum_list (map (us_selected_context_bytes \<circ> u) ?as) = us_selected_context_bytes t"
    "sum_list (map (us_broad_context_baseline_bytes \<circ> u) ?as) = us_broad_context_baseline_bytes t"
    "sum_list (map (us_model_context_bytes_sent \<circ> u) ?as) = us_model_context_bytes_sent t"
    "sum_list (map (us_cache_avoided_context_bytes \<circ> u) ?as) = us_cache_avoided_context_bytes t"
    "sum_list (map (opt_or_zero \<circ> us_actual_total_tokens \<circ> u) ?as) = opt_or_zero (us_actual_total_tokens t)"
    by (simp_all add: o_def rows whole sums all sum_list_addf del: map_map)
  moreover have "sum_list (map (us_context_bytes_saved \<circ> u) ?as) = us_context_bytes_saved t"
    using bytes by (simp add: o_def rows(5) whole(5) sum_list_subtractf)
  moreover have "us_context_reduction_percent x \<le> 100"
    if "x \<in> set (t # map u ?as)" "0 \<le> us_selected_context_bytes x" "0 \<le> us_broad_context_baseline_bytes x" for x
  proof -
    have "\<exists>agent. row_of events agent x" using that(1) metrics_row [OF u] metrics_row [OF assms(1)] by auto
    then show ?thesis using percent_le that(2,3) by blast
  qed
  moreover have "map2 f xs (map u xs) = map (\<lambda>a. f a (u a)) xs" for f :: "string \<Rightarrow> usage \<Rightarrow> json" and xs
    by (induction xs) simp_all
  then have "map2 (\<lambda>a u. JObj ((''agent'', JStr a) # usage_dump u)) ?as (map u ?as)
      = map (\<lambda>a. JObj ((''agent'', JStr a) # usage_dump (u a))) ?as"
    by simp
  ultimately have sums: "dget rep ''agents'' = JArr (map2 (\<lambda>a u. JObj ((''agent'', JStr a) # usage_dump u)) ?as (map u ?as))"
    "\<forall>count \<in> {us_context_selections, us_model_executions, us_cache_hits, us_successful_outputs}.
         sum_list (map count (map u ?as)) = count t"
    "\<forall>bytes \<in> {us_selected_context_bytes, us_broad_context_baseline_bytes, us_context_bytes_saved,
           us_model_context_bytes_sent, us_cache_avoided_context_bytes}. sum_list (map bytes (map u ?as)) = bytes t"
    "sum_list (map (opt_or_zero \<circ> us_actual_total_tokens) (map u ?as)) = opt_or_zero (us_actual_total_tokens t)"
    "\<forall>u \<in> set (t # map u ?as). 0 \<le> us_selected_context_bytes u \<and> 0 \<le> us_broad_context_baseline_bytes u
         \<longrightarrow> us_context_reduction_percent u \<le> 100"
    using rep(3) by (simp_all add: o_assoc del: list.set map_map) (simp_all add: o_assoc)
  show ?thesis
    by (rule exI [of _ rep], rule exI [of _ "map u ?as"]) (use rep(1,2) sums in \<open>intro conjI; (assumption | simp)\<close>)
qed


definition demo_usage_events :: "event_record list" where
  "demo_usage_events = [
     \<lparr>ev_event_id = 1, ev_run_id = ''r'', ev_event_type = ''agent.context_selected'',
      ev_payload = [(''agent'', JStr ''a''), (''context_bytes'', JInt 10), (''baseline_context_bytes'', JInt 40)],
      ev_created_at = 0\<rparr>,
     \<lparr>ev_event_id = 2, ev_run_id = ''r'', ev_event_type = ''agent.execution'',
      ev_payload = [(''agent'', JStr ''b''), (''input_tokens'', JInt 7)], ev_created_at = 0\<rparr>]"

theorem report_balances_witness:
  "\<exists>t rep. metrics (\<lambda>_. Inl AssertionError) demo_usage_events None = Inr t
    \<and> us_context_bytes_saved t = 30 \<and> us_actual_total_tokens t = Some 7
    \<and> finops_report \<lparr>sha256 = (\<lambda>s. s), float_repr = (\<lambda>_. [])\<rparr> (\<lambda>_. Inl AssertionError) demo_usage_events = Inr rep
    \<and> dget rep ''totals'' = JObj (usage_dump t)"
proof -
  let ?E = "\<lparr>sha256 = (\<lambda>s. s), float_repr = (\<lambda>_. [])\<rparr> :: pyenv"
  have lists: "payloads ''agent.context_selected'' demo_usage_events
        = [[(''agent'', JStr ''a''), (''context_bytes'', JInt 10), (''baseline_context_bytes'', JInt 40)]]"
    "payloads ''agent.execution'' demo_usage_events = [[(''agent'', JStr ''b''), (''input_tokens'', JInt 7)]]"
    "payloads ''agent.started'' demo_usage_events = []" "payloads ''agent.cache_hit'' demo_usage_events = []"
    "payloads ''agent.completed'' demo_usage_events = []"
    by (simp_all add: payloads_def demo_usage_events_def)
  obtain t where t: "metrics (\<lambda>_. Inl AssertionError) demo_usage_events None = Inr t"
    "us_context_bytes_saved t = 30" "us_actual_total_tokens t = Some 7"
    by (simp add: metrics_def lists of_agent_def total_def field_tokens_def combined_tokens_def present_def
        later_attempts_def cost_def dget_def)
  have "set (reported_agents ?E demo_usage_events) = {''a'', ''b''}"
    by (auto simp: reported_agents_def lists dget_def)
  then have "attributed ?E demo_usage_events"
    by (simp add: attributed_def usage_types_def lists dget_def)
  from report_balances [OF t(1) this] t show ?thesis by blast
qed

end
