(* ===== verification/Url.thy ===== *)
theory Url
  imports Prelude
begin

text \<open>
  \<open>urllib.parse.urlsplit\<close> of the standard library and the properties of its result that the services read,
  for texts of characters below 256 (so the check of compatibility characters cannot fail). The syntax of IPv6 and
  IPvFuture addresses in brackets is a parameter.
\<close>

section \<open>Splitting texts\<close>

text \<open>\<open>partition\<close> and \<open>rpartition\<close> as pairs, with \<open>None\<close> when the separator is missing.\<close>

fun partition_at :: "char \<Rightarrow> string \<Rightarrow> string \<times> string option" where
  "partition_at c [] = ([], None)"
| "partition_at c (x # xs) = (if x = c then ([], Some xs) else case partition_at c xs of (a, b) \<Rightarrow> (x # a, b))"

definition rpartition_at :: "char \<Rightarrow> string \<Rightarrow> string option \<times> string" where
  "rpartition_at c s = (case partition_at c (rev s) of (a, b) \<Rightarrow> (map_option rev b, rev a))"

definition rest_of :: "string option \<Rightarrow> string" where
  "rest_of t = (case t of None \<Rightarrow> [] | Some s \<Rightarrow> s)"

definition lower :: "string \<Rightarrow> string" where
  "lower = map lower_char"

definition is_alpha :: "char \<Rightarrow> bool" where
  "is_alpha c \<longleftrightarrow> is_ascii_alnum c \<and> \<not> is_digit c"

lemma partition_at_append:
  "fst (partition_at c xs) @ (case snd (partition_at c xs) of None \<Rightarrow> [] | Some ys \<Rightarrow> c # ys) = xs"
  by (induction xs) (auto split: prod.split)

lemma partition_at_free: "c \<notin> set (fst (partition_at c xs))"
  by (induction xs) (auto split: prod.split)

lemma partition_at_None: "snd (partition_at c xs) = None \<longleftrightarrow> c \<notin> set xs"
  by (induction xs) (auto split: prod.split)

definition rstrip_slash :: "string \<Rightarrow> string" where
  "rstrip_slash s = rev (dropWhile (\<lambda>c. c = CHR ''/'') (rev s))"

section \<open>URLs\<close>

record url =
  ur_scheme :: string
  ur_netloc :: string
  ur_path :: string
  ur_query :: string
  ur_fragment :: string

definition trimmed :: "string \<Rightarrow> string" where
  "trimmed s = filter (\<lambda>c. c \<notin> {CHR 0x09, CHR 0x0A, CHR 0x0D}) (dropWhile (\<lambda>c. (of_char c :: nat) \<le> 32) s)"

definition scheme_of :: "string \<Rightarrow> string \<times> string" where
  "scheme_of s = (case partition_at (CHR '':'') s of
       (c # cs, Some rest) \<Rightarrow>
         if is_alpha c \<and> list_all (\<lambda>c. is_ascii_alnum c \<or> c \<in> set ''+-.'') (c # cs) then (lower (c # cs), rest) else ([], s)
     | _ \<Rightarrow> ([], s))"

definition netloc_of :: "string \<Rightarrow> string \<times> string" where
  "netloc_of s = (if starts_with s ''//''
     then let t = drop 2 s; n = length (takeWhile (\<lambda>c. c \<notin> set ''/?#'') t) in (take n t, drop n t) else ([], s))"

definition host_and_port :: "string \<Rightarrow> string" where
  "host_and_port netloc = snd (rpartition_at (CHR ''@'') netloc)"

text \<open>The checks of a network location with brackets; \<open>literal\<close> is the syntax of the address between them.\<close>

definition bad_brackets :: "(string \<Rightarrow> bool) \<Rightarrow> string \<Rightarrow> bool" where
  "bad_brackets literal netloc \<longleftrightarrow>
     (CHR ''['' \<in> set netloc) \<noteq> (CHR '']'' \<in> set netloc)
     \<or> CHR ''['' \<in> set netloc \<and>
       (case partition_at (CHR ''['') (host_and_port netloc) of
          (before, Some bracketed) \<Rightarrow>
            (case partition_at (CHR '']'') bracketed of (host, port) \<Rightarrow>
               before \<noteq> [] \<or> rest_of port \<noteq> [] \<and> \<not> starts_with (rest_of port) '':'' \<or> \<not> literal host)
        | (host, None) \<Rightarrow> \<not> literal (fst (partition_at (CHR '':'') (host_and_port netloc))))"

definition urlsplit :: "(string \<Rightarrow> bool) \<Rightarrow> string \<Rightarrow> url result" where
  "urlsplit literal value = (case scheme_of (trimmed value) of (scheme, s) \<Rightarrow>
     case netloc_of s of (netloc, s) \<Rightarrow>
     if bad_brackets literal netloc then Inl (ValueError ''Invalid IPv6 URL'')
     else case partition_at (CHR ''#'') s of (s, fragment) \<Rightarrow>
     case partition_at (CHR ''?'') s of (path, query) \<Rightarrow>
       Inr \<lparr>ur_scheme = scheme, ur_netloc = netloc, ur_path = path, ur_query = rest_of query, ur_fragment = rest_of fragment\<rparr>)"

definition ur_username :: "url \<Rightarrow> string option" where
  "ur_username u = map_option (\<lambda>info. fst (partition_at (CHR '':'') info)) (fst (rpartition_at (CHR ''@'') (ur_netloc u)))"

definition ur_password :: "url \<Rightarrow> string option" where
  "ur_password u = Option.bind (fst (rpartition_at (CHR ''@'') (ur_netloc u))) (\<lambda>info. snd (partition_at (CHR '':'') info))"

definition host_info :: "url \<Rightarrow> string \<times> string" where
  "host_info u = (case partition_at (CHR ''['') (host_and_port (ur_netloc u)) of
       (_, Some bracketed) \<Rightarrow> (case partition_at (CHR '']'') bracketed of (host, rest) \<Rightarrow>
          (host, rest_of (snd (partition_at (CHR '':'') (rest_of rest)))))
     | (_, None) \<Rightarrow> (case partition_at (CHR '':'') (host_and_port (ur_netloc u)) of (host, port) \<Rightarrow> (host, rest_of port)))"

definition ur_hostname :: "url \<Rightarrow> string option" where
  "ur_hostname u = (case fst (host_info u) of
       [] \<Rightarrow> None
     | host \<Rightarrow> (case partition_at (CHR ''%'') host of (name, zone) \<Rightarrow>
         Some (lower name @ (case zone of None \<Rightarrow> [] | Some z \<Rightarrow> CHR ''%'' # z))))"

definition ur_port :: "url \<Rightarrow> nat option result" where
  "ur_port u = (let port = snd (host_info u); n = foldl (\<lambda>n c. 10 * n + (of_char c - 48)) 0 port in
     if port = [] then Inr None
     else if \<not> list_all is_digit port then Inl (ValueError ''Port could not be cast to integer value'')
     else if 65535 < n then Inl (ValueError ''Port out of range 0-65535'') else Inr (Some n))"

end
