(* ===== verification/TaskStore.thy ===== *)
theory TaskStore
  imports Json "HOL-Library.Product_Lexorder"
begin

text \<open>
  \<open>a2a/task_store.py\<close>: the durable task table of the specialist fleet. The protobuf messages are
  records of the fields the code reads; writing a task as JSON and parsing it again is the
  identity here, \<open>ms_serialize\<close> (the deterministic wire form that is fingerprinted) and the page
  token codec of the SDK are parameters. The lemmas show that a message identifier is bound to
  one task for ever, that a restart leaves nothing running, and that paging delivers every
  matching task exactly once.
\<close>

section \<open>Messages and tasks\<close>

datatype task_state =
    TASK_STATE_UNSPECIFIED
  | TASK_STATE_SUBMITTED
  | TASK_STATE_WORKING
  | TASK_STATE_COMPLETED
  | TASK_STATE_FAILED
  | TASK_STATE_CANCELED
  | TASK_STATE_INPUT_REQUIRED
  | TASK_STATE_REJECTED
  | TASK_STATE_AUTH_REQUIRED

text \<open>\<open>TaskState.Name(state).removeprefix("TASK_STATE_").lower()\<close>.\<close>

fun task_state_name :: "task_state \<Rightarrow> string" where
  "task_state_name TASK_STATE_UNSPECIFIED = ''unspecified''"
| "task_state_name TASK_STATE_SUBMITTED = ''submitted''"
| "task_state_name TASK_STATE_WORKING = ''working''"
| "task_state_name TASK_STATE_COMPLETED = ''completed''"
| "task_state_name TASK_STATE_FAILED = ''failed''"
| "task_state_name TASK_STATE_CANCELED = ''canceled''"
| "task_state_name TASK_STATE_INPUT_REQUIRED = ''input_required''"
| "task_state_name TASK_STATE_REJECTED = ''rejected''"
| "task_state_name TASK_STATE_AUTH_REQUIRED = ''auth_required''"

record part =
  pt_text :: string
  pt_data :: "json option"
  pt_media_type :: string

record message =
  ms_message_id :: string
  ms_context_id :: string
  ms_task_id :: string
  ms_role :: string
  ms_parts :: "part list"

record task_status =
  ts_state :: task_state
  ts_message :: "message option"
  ts_timestamp :: string

record task_artifact =
  ta_artifact_id :: string
  ta_name :: string
  ta_parts :: "part list"

record task =
  tk_id :: string
  tk_context_id :: string
  tk_status :: task_status
  tk_artifacts :: "task_artifact list"
  tk_history :: "message list"

text \<open>The JSON form of a timestamp that was never set.\<close>

definition EPOCH :: string where
  "EPOCH = ''1970-01-01T00:00:00Z''"

definition plain_status :: "task_state \<Rightarrow> task_status" where
  "plain_status s = \<lparr>ts_state = s, ts_message = None, ts_timestamp = EPOCH\<rparr>"

definition text_part :: "string \<Rightarrow> part" where
  "text_part t = \<lparr>pt_text = t, pt_data = None, pt_media_type = []\<rparr>"

section \<open>The tables\<close>

text \<open>
  \<open>tasks\<close> by agent, owner and task, \<open>messages\<close> by agent, owner and message, the latter with the
  fingerprint and the task that was reserved.
\<close>

type_synonym task_key = "string \<times> string \<times> string"

record task_db =
  td_tasks :: "(task_key \<times> task) list"
  td_messages :: "(task_key \<times> string \<times> string) list"

definition empty_task_db :: task_db where
  "empty_task_db = \<lparr>td_tasks = [], td_messages = []\<rparr>"

definition owner_name :: "string \<Rightarrow> string \<Rightarrow> string" where
  "owner_name tenant user_scope = tenant @ '':'' @ user_scope"

text \<open>The constructor: a restart fails what was submitted or working.\<close>

definition restarted :: "task \<Rightarrow> task" where
  "restarted t = (if ts_state (tk_status t) \<in> {TASK_STATE_SUBMITTED, TASK_STATE_WORKING}
     then t\<lparr>tk_status := (tk_status t)\<lparr>ts_state := TASK_STATE_FAILED,
        ts_message := Some \<lparr>ms_message_id = [], ms_context_id = [], ms_task_id = [], ms_role = ''ROLE_AGENT'',
          ms_parts = [text_part ''Agent process restarted'']\<rparr>\<rparr>\<rparr>
     else t)"

definition open_store :: "string \<Rightarrow> task_db \<Rightarrow> task_db" where
  "open_store agent db = db\<lparr>td_tasks := map (\<lambda>((a, owner, i), t).
      ((a, owner, i), if a = agent then restarted t else t)) (td_tasks db)\<rparr>"

record codec =
  cd_py :: pyenv
  cd_serialize :: "message \<Rightarrow> string"
  cd_encode :: "string \<Rightarrow> string"
  cd_decode :: "string \<Rightarrow> string result"

definition fingerprint :: "codec \<Rightarrow> message \<Rightarrow> string" where
  "fingerprint C m = sha256 (cd_py C) (cd_serialize C m)"

section \<open>Operations\<close>

definition insert_message :: "codec \<Rightarrow> string \<Rightarrow> string \<Rightarrow> message \<Rightarrow> string \<Rightarrow> task_db \<Rightarrow> task_db" where
  "insert_message C agent owner m task_id db =
     db\<lparr>td_messages := td_messages db @ [((agent, owner, ms_message_id m), fingerprint C m, task_id)]\<rparr>"

text \<open>
  \<open>reserve\<close>, with the two identifiers that \<open>uuid4\<close> would give. An exception rolls the transaction
  back.
\<close>

definition reserve :: "codec \<Rightarrow> string \<Rightarrow> string \<Rightarrow> string \<times> string \<Rightarrow> message \<Rightarrow> task_db \<Rightarrow>
    (task \<times> bool) result \<times> task_db" where
  "reserve C agent owner uids m db =
     (case map_of (td_messages db) (agent, owner, ms_message_id m) of
        Some (fp, task_id) \<Rightarrow>
          (if fp \<noteq> fingerprint C m then (Inl (InvalidParamsError ''messageId reused with different input''), db)
           else case map_of (td_tasks db) (agent, owner, task_id) of
             None \<Rightarrow> (Inl (InvalidParamsError ''The reserved task was deleted''), db)
           | Some t \<Rightarrow> (Inr (t, False), db))
      | None \<Rightarrow>
          if ms_task_id m \<noteq> []
          then (case map_of (td_tasks db) (agent, owner, ms_task_id m) of
             None \<Rightarrow> (Inl (InvalidParamsError ''Unknown continuation task''), db)
           | Some t \<Rightarrow>
               if tk_context_id t \<noteq> ms_context_id m
               then (Inl (InvalidParamsError ''Continuation context mismatch''), db)
               else if ts_state (tk_status t) \<noteq> TASK_STATE_INPUT_REQUIRED
               then (Inl (InvalidParamsError ''Task is not waiting for input''), db)
               else let t' = t\<lparr>tk_history := tk_history t @ [m],
                              tk_status := (tk_status t)\<lparr>ts_state := TASK_STATE_SUBMITTED\<rparr>\<rparr>
                 in (Inr (t', True), insert_message C agent owner m (tk_id t')
                      (db\<lparr>td_tasks := map (\<lambda>(k, x). if k = (agent, owner, tk_id t') then (k, t') else (k, x)) (td_tasks db)\<rparr>)))
          else let t = \<lparr>tk_id = fst uids,
                        tk_context_id = (if ms_context_id m \<noteq> [] then ms_context_id m else snd uids),
                        tk_status = plain_status TASK_STATE_SUBMITTED, tk_artifacts = [], tk_history = [m]\<rparr>
            in if map_of (td_tasks db) (agent, owner, tk_id t) \<noteq> None
               then (Inl (IntegrityError ''tasks''), db)
               else (Inr (t, True), insert_message C agent owner m (tk_id t)
                      (db\<lparr>td_tasks := td_tasks db @ [((agent, owner, tk_id t), t)]\<rparr>)))"

definition save_task :: "string \<Rightarrow> string \<Rightarrow> task \<Rightarrow> task_db \<Rightarrow> task_db" where
  "save_task agent owner t db = db\<lparr>td_tasks := AList.update (agent, owner, tk_id t) t (td_tasks db)\<rparr>"

definition get_task :: "string \<Rightarrow> string \<Rightarrow> string \<Rightarrow> task_db \<Rightarrow> task option" where
  "get_task agent owner task_id db = map_of (td_tasks db) (agent, owner, task_id)"

definition delete_task :: "string \<Rightarrow> string \<Rightarrow> string \<Rightarrow> task_db \<Rightarrow> task_db" where
  "delete_task agent owner task_id db = db\<lparr>td_tasks := AList.delete (agent, owner, task_id) (td_tasks db)\<rparr>"

section \<open>Listing\<close>

record list_request =
  lq_context_id :: string
  lq_status :: task_state
  lq_timestamp_after :: "string option"
  lq_page_token :: string
  lq_page_size :: int

record list_response =
  lp_tasks :: "task list"
  lp_total_size :: nat
  lp_page_size :: int
  lp_next_page_token :: string

definition list_matches :: "list_request \<Rightarrow> task \<Rightarrow> bool" where
  "list_matches q t \<longleftrightarrow> (lq_context_id q = [] \<or> tk_context_id t = lq_context_id q)
     \<and> (lq_status q = TASK_STATE_UNSPECIFIED \<or> ts_state (tk_status t) = lq_status q)
     \<and> (case lq_timestamp_after q of None \<Rightarrow> True | Some after \<Rightarrow> after \<le> ts_timestamp (tk_status t))"

text \<open>\<open>sort(key=..., reverse=True)\<close> keeps equal elements in order.\<close>

definition sort_tasks :: "task list \<Rightarrow> task list" where
  "sort_tasks ts = rev (sort_key (\<lambda>t. (ts_timestamp (tk_status t), tk_id t)) (rev ts))"

definition selected_tasks :: "string \<Rightarrow> string \<Rightarrow> list_request \<Rightarrow> task_db \<Rightarrow> task list" where
  "selected_tasks agent owner q db = sort_tasks (filter (list_matches q)
     (map snd (filter (\<lambda>((a, o', i), t). a = agent \<and> o' = owner) (td_tasks db))))"

text \<open>\<open>tasks[:size]\<close> and \<open>tasks[size]\<close> for a size of either sign.\<close>

definition slice_to :: "int \<Rightarrow> 'a list \<Rightarrow> 'a list" where
  "slice_to n xs = take (nat (if n < 0 then n + int (length xs) else n)) xs"

definition item_at :: "int \<Rightarrow> 'a list \<Rightarrow> 'a result" where
  "item_at n xs = (let k = (if n < 0 then n + int (length xs) else n) in
     if 0 \<le> k \<and> k < int (length xs) then Inr (xs ! nat k) else Inl (IndexError ''list index out of range''))"

definition page_from :: "codec \<Rightarrow> string \<Rightarrow> task list \<Rightarrow> task list result" where
  "page_from C token ts = (if token = [] then Inr ts
     else rbind (cd_decode C token) (\<lambda>cursor.
       if list_ex (\<lambda>t. tk_id t = cursor) ts then Inr (dropWhile (\<lambda>t. tk_id t \<noteq> cursor) ts)
       else Inl (InvalidParamsError ''Invalid page token'')))"

definition list_tasks :: "codec \<Rightarrow> string \<Rightarrow> string \<Rightarrow> list_request \<Rightarrow> task_db \<Rightarrow> list_response result" where
  "list_tasks C agent owner q db =
     (let matching = selected_tasks agent owner q db;
          size = (if lq_page_size q \<noteq> 0 then lq_page_size q else 50) in
      rbind (page_from C (lq_page_token q) matching) (\<lambda>ts.
      rbind (if int (length ts) > size
             then rbind (item_at size ts) (\<lambda>t. Inr (cd_encode C (tk_id t))) else Inr []) (\<lambda>next_token.
      Inr \<lparr>lp_tasks = slice_to size ts, lp_total_size = length matching, lp_page_size = size,
           lp_next_page_token = next_token\<rparr>)))"

section \<open>A message is bound to one task\<close>

inductive ts_step :: "codec \<Rightarrow> task_db \<Rightarrow> task_db \<Rightarrow> bool" for C :: codec where
  step_open: "ts_step C db (open_store agent db)"
| step_reserve: "reserve C agent owner uids m db = (res, db') \<Longrightarrow> ts_step C db db'"
| step_save: "ts_step C db (save_task agent owner t db)"
| step_delete: "ts_step C db (delete_task agent owner i db)"

lemma reserve_messages:
  assumes "reserve C agent owner uids m db = (res, db')"
  shows "td_messages db' = td_messages db
    \<or> (\<exists>i. map_of (td_messages db) (agent, owner, ms_message_id m) = None
        \<and> td_messages db' = td_messages db @ [((agent, owner, ms_message_id m), fingerprint C m, i)])"
  using assms by (auto simp: reserve_def Let_def insert_message_def split: option.splits if_splits)

lemma ts_step_messages:
  assumes "ts_step C db db'" and "map_of (td_messages db) k = Some v"
  shows "map_of (td_messages db') k = Some v"
  using assms
proof cases
  case (step_reserve agent owner uids m res)
  from reserve_messages [OF this] assms(2) show ?thesis by (auto simp: map_add_def split: option.split)
qed (simp_all add: open_store_def save_task_def delete_task_def)

lemma ts_steps_messages:
  "(ts_step C)\<^sup>*\<^sup>* db db' \<Longrightarrow> map_of (td_messages db) k = Some v \<Longrightarrow> map_of (td_messages db') k = Some v"
  by (induction rule: rtranclp_induct) (auto intro: ts_step_messages)

lemma reserve_created:
  assumes "reserve C agent owner uids m db = (Inr (t, True), db')"
  shows "map_of (td_messages db') (agent, owner, ms_message_id m) = Some (fingerprint C m, tk_id t)"
  using assms by (auto simp: reserve_def Let_def insert_message_def map_add_def split: option.splits if_splits)

text \<open>
  C12. A message is executed at most once. Once a message has reserved a task, then after any
  further operations of any agents, among them restarts, sending the same message again never
  creates a task: it returns the current state of the reserved one, or reports that it was
  deleted; and a different message under the same identifier is refused. Neither changes the
  store.
\<close>

theorem message_reserved_once:
  assumes "reserve C agent owner uids m db = (Inr (t, True), db')" and "(ts_step C)\<^sup>*\<^sup>* db' later"
  shows "reserve C agent owner uids' m later = (case get_task agent owner (tk_id t) later of
       None \<Rightarrow> (Inl (InvalidParamsError ''The reserved task was deleted''), later)
     | Some t' \<Rightarrow> (Inr (t', False), later))
    \<and> (\<forall>m'. ms_message_id m' = ms_message_id m \<and> fingerprint C m' \<noteq> fingerprint C m \<longrightarrow>
         reserve C agent owner uids' m' later
           = (Inl (InvalidParamsError ''messageId reused with different input''), later))"
proof -
  have bound: "map_of (td_messages later) (agent, owner, ms_message_id m) = Some (fingerprint C m, tk_id t)"
    using ts_steps_messages [OF assms(2) reserve_created [OF assms(1)]] .
  then show ?thesis by (auto simp: reserve_def get_task_def split: option.split)
qed

text \<open>A codec and two messages, for the witnesses.\<close>

definition demo_codec :: codec where
  "demo_codec = \<lparr>cd_py = \<lparr>sha256 = (\<lambda>s. s), float_repr = (\<lambda>_. [])\<rparr>, cd_serialize = ms_role,
     cd_encode = (\<lambda>s. CHR ''t'' # s), cd_decode = (\<lambda>s. Inr (tl s))\<rparr>"

definition demo_message :: "string \<Rightarrow> message" where
  "demo_message role = \<lparr>ms_message_id = ''m1'', ms_context_id = ''c1'', ms_task_id = [], ms_role = role, ms_parts = []\<rparr>"

theorem message_reserved_once_witness:
  "\<exists>t db. reserve demo_codec ''a'' ''o'' (''t1'', ''c0'') (demo_message ''user'') empty_task_db = (Inr (t, True), db)
    \<and> reserve demo_codec ''a'' ''o'' (''t2'', ''c0'') (demo_message ''user'') (open_store ''a'' db)
        = (Inr (restarted t, False), open_store ''a'' db)
    \<and> (\<exists>e. reserve demo_codec ''a'' ''o'' (''t2'', ''c0'') (demo_message ''other'') db = (Inl e, db))"
proof -
  obtain t db where r: "reserve demo_codec ''a'' ''o'' (''t1'', ''c0'') (demo_message ''user'') empty_task_db = (Inr (t, True), db)"
    and t: "tk_id t = ''t1''" "td_tasks db = [((''a'', ''o'', ''t1''), t)]"
    by (simp add: reserve_def empty_task_db_def demo_message_def insert_message_def Let_def)
  have "(ts_step demo_codec)\<^sup>*\<^sup>* db (open_store ''a'' db)" by (blast intro: step_open)
  note later = message_reserved_once [OF r this, of "(''t2'', ''c0'')"]
    and same = message_reserved_once [OF r rtranclp.rtrancl_refl, of "(''t2'', ''c0'')"]
  have "get_task ''a'' ''o'' ''t1'' (open_store ''a'' db) = Some (restarted t)"
    by (simp add: get_task_def open_store_def t)
  moreover have "fingerprint demo_codec (demo_message ''other'') \<noteq> fingerprint demo_codec (demo_message ''user'')"
    "ms_message_id (demo_message ''other'') = ms_message_id (demo_message ''user'')"
    by (simp_all add: fingerprint_def demo_codec_def demo_message_def)
  ultimately show ?thesis using r later same t(1) by auto
qed

section \<open>Restarts\<close>

lemma map_of_restart: "map_of (map (\<lambda>((a, owner, i), t). ((a, owner, i), if a = agent then restarted t else t)) ts) (a', o', i')
    = map_option (if a' = agent then restarted else id) (map_of ts (a', o', i'))"
  by (induction ts) auto

text \<open>
  A restart. Opening the store of an agent after a crash leaves none of its tasks submitted
  or working: those become failed, every other task, its history and its artifacts, and all
  tasks of other agents, stay as they were; a message that had been reserved before is answered
  with the failed task instead of being executed again; and opening the store once more changes
  nothing.
\<close>

theorem restart_fails_running_tasks:
  "(case get_task agent owner i (open_store agent db) of
      None \<Rightarrow> get_task agent owner i db = None
    | Some t \<Rightarrow> ts_state (tk_status t) \<notin> {TASK_STATE_SUBMITTED, TASK_STATE_WORKING}
        \<and> (\<exists>t0. get_task agent owner i db = Some t0 \<and> tk_history t = tk_history t0 \<and> tk_artifacts t = tk_artifacts t0
             \<and> (if ts_state (tk_status t0) \<in> {TASK_STATE_SUBMITTED, TASK_STATE_WORKING}
                then ts_state (tk_status t) = TASK_STATE_FAILED else t = t0)))
   \<and> (other = agent \<or> get_task other owner i (open_store agent db) = get_task other owner i db)
   \<and> td_messages (open_store agent db) = td_messages db
   \<and> open_store agent (open_store agent db) = open_store agent db"
proof -
  have get: "get_task a owner i (open_store agent db) = map_option (if a = agent then restarted else id) (get_task a owner i db)" for a
    by (simp add: get_task_def open_store_def map_of_restart)
  have "restarted (restarted t) = restarted t" for t by (simp add: restarted_def)
  then have "open_store agent (open_store agent db) = open_store agent db"
    by (auto simp: open_store_def o_def split_beta)
  then show ?thesis unfolding get
    by (auto simp: restarted_def open_store_def option.map_id split: option.split)
qed

section \<open>Paging\<close>

text \<open>In every store the operations reach, a task lies under its own identifier, once.\<close>

definition ts_wf :: "task_db \<Rightarrow> bool" where
  "ts_wf db \<longleftrightarrow> distinct (map fst (td_tasks db)) \<and> (\<forall>((a, owner, i), t) \<in> set (td_tasks db). tk_id t = i)"

lemma update_keys: "map fst (map (\<lambda>(k, x). if k = j then (k, y) else (k, x)) xs) = map fst xs"
  by (induction xs) auto

lemma reserve_wf:
  assumes "ts_wf db" and "reserve C agent owner uids m db = (res, db')"
  shows "ts_wf db'"
proof -
  have known: "tk_id t = i" if "map_of (td_tasks db) (a, ow, i) = Some t" for a ow i t
    using assms(1) map_of_SomeD [OF that] unfolding ts_wf_def by fastforce
  have fresh: "map_of (td_tasks db) k = None \<Longrightarrow> k \<notin> fst ` set (td_tasks db)" for k
    by (simp add: map_of_eq_None_iff)
  show ?thesis
    using assms known fresh unfolding reserve_def insert_message_def Let_def
    by (auto simp: ts_wf_def update_keys simp del: map_map split: option.splits if_splits)
qed

lemma ts_step_wf: "ts_step C db db' \<Longrightarrow> ts_wf db \<Longrightarrow> ts_wf db'"
proof (induction rule: ts_step.induct)
  case (step_open db agent)
  have "tk_id (restarted t) = tk_id t" for t by (simp add: restarted_def)
  then have "\<forall>((a, o', i), x) \<in> set (td_tasks (open_store agent db)). tk_id x = i"
    using step_open unfolding ts_wf_def open_store_def by (auto simp: split_beta)
  then show ?case using step_open by (simp add: ts_wf_def open_store_def o_def split_beta)
next
  case (step_save db agent owner t)
  have "set (AList.update (agent, owner, tk_id t) t ts) \<subseteq> insert ((agent, owner, tk_id t), t) (set ts)" for ts
    by (induction ts) (auto split: if_splits)
  from subsetD [OF this] step_save
  have "tk_id x = i" if "((a, o', i), x) \<in> set (AList.update (agent, owner, tk_id t) t (td_tasks db))" for a o' i x
    using that unfolding ts_wf_def by fastforce
  then have "\<forall>((a, o', i), x) \<in> set (AList.update (agent, owner, tk_id t) t (td_tasks db)). tk_id x = i"
    by (auto simp: split_beta)
  then show ?case using step_save by (simp add: ts_wf_def save_task_def distinct_dict_set)
next
  case (step_delete db agent owner i)
  then show ?case by (auto simp: ts_wf_def delete_task_def AList.delete_eq distinct_map_filter_on)
qed (auto intro: reserve_wf)

lemma ts_steps_wf: "(ts_step C)\<^sup>*\<^sup>* db db' \<Longrightarrow> ts_wf db \<Longrightarrow> ts_wf db'"
  by (induction rule: rtranclp_induct) (auto intro: ts_step_wf)

lemma selected_distinct:
  assumes "ts_wf db"
  shows "distinct (map tk_id (selected_tasks agent owner q db))"
proof -
  let ?rows = "filter (\<lambda>((a, o', i), t). a = agent \<and> o' = owner) (td_tasks db)"
  have same: "map tk_id (map snd ?rows) = map (snd \<circ> snd) (map fst ?rows)"
    using assms by (auto simp: ts_wf_def)
  have "distinct (map fst ?rows)" using assms by (simp add: ts_wf_def distinct_map_filter_on)
  moreover have "inj_on (snd \<circ> snd) (set (map fst ?rows))" by (auto simp: inj_on_def)
  ultimately have "distinct (map tk_id (map snd ?rows))" unfolding same distinct_map [of "snd \<circ> snd"] by blast
  then have "distinct (map tk_id (filter (list_matches q) (map snd ?rows)))" by (rule distinct_map_filter_on)
  then show ?thesis
    by (simp add: selected_tasks_def sort_tasks_def distinct_map inj_on_def rev_map)
qed

lemma sort_tasks_sorted:
  "sorted_wrt (\<lambda>x y. (ts_timestamp (tk_status y), tk_id y) \<le> (ts_timestamp (tk_status x), tk_id x)) (sort_tasks ts)"
  unfolding sort_tasks_def sorted_wrt_rev
  using sorted_sort_key [of "\<lambda>t. (ts_timestamp (tk_status t), tk_id t)" "rev ts"] unfolding sorted_map .

lemma selected_set:
  assumes "ts_wf db"
  shows "set (selected_tasks agent owner q db) = {t. get_task agent owner (tk_id t) db = Some t \<and> list_matches q t}"
proof -
  have "get_task agent owner (tk_id t) db = Some t \<longleftrightarrow> ((agent, owner, tk_id t), t) \<in> set (td_tasks db)" for t
    using assms by (simp add: get_task_def ts_wf_def map_of_eq_Some_iff)
  moreover have "tk_id t = i" if "((a, o', i), t) \<in> set (td_tasks db)" for a o' i t
    using assms that unfolding ts_wf_def by auto
  ultimately show ?thesis
    by (auto simp: selected_tasks_def sort_tasks_def image_iff split_beta)
qed

text \<open>A client that follows the page tokens.\<close>

fun walk :: "codec \<Rightarrow> string \<Rightarrow> string \<Rightarrow> list_request \<Rightarrow> task_db \<Rightarrow> nat \<Rightarrow> string \<Rightarrow> task list result" where
  "walk C agent owner q db 0 token = Inl TimeoutError"
| "walk C agent owner q db (Suc n) token =
     rbind (list_tasks C agent owner (q\<lparr>lq_page_token := token\<rparr>) db) (\<lambda>p.
     if lp_next_page_token p = [] then Inr (lp_tasks p)
     else rbind (walk C agent owner q db n (lp_next_page_token p)) (\<lambda>rest. Inr (lp_tasks p @ rest)))"

lemma selected_token [simp]: "selected_tasks agent owner (q\<lparr>lq_page_token := token\<rparr>) db = selected_tasks agent owner q db"
proof -
  have "list_matches (q\<lparr>lq_page_token := token\<rparr>) = list_matches q"
    by (simp add: list_matches_def fun_eq_iff split: option.split)
  then show ?thesis by (simp add: selected_tasks_def)
qed

lemma dropWhile_id:
  "distinct (map tk_id (pre @ t # ts)) \<Longrightarrow> dropWhile (\<lambda>x. tk_id x \<noteq> tk_id t) (pre @ t # ts) = t # ts"
  by (induction pre) auto

lemma page_from_suffix:
  assumes "distinct (map tk_id (pre @ ts))"
    and "pre = [] \<and> token = [] \<or> ts \<noteq> [] \<and> token \<noteq> [] \<and> cd_decode C token = Inr (tk_id (hd ts))"
  shows "page_from C token (pre @ ts) = Inr ts"
proof (cases ts)
  case Nil
  with assms(2) show ?thesis by (simp add: page_from_def)
next
  case (Cons t rest)
  with assms(1) have "dropWhile (\<lambda>x. tk_id x \<noteq> tk_id t) (pre @ ts) = ts" using dropWhile_id [of pre t rest] by simp
  with assms(2) Cons show ?thesis by (auto simp: page_from_def)
qed

lemma list_tasks_page:
  assumes "page_from C (lq_page_token q) (selected_tasks agent owner q db) = Inr ts"
    and "0 < s" and "int s = (if lq_page_size q \<noteq> 0 then lq_page_size q else 50)"
  shows "list_tasks C agent owner q db = Inr \<lparr>lp_tasks = take s ts,
      lp_total_size = length (selected_tasks agent owner q db), lp_page_size = int s,
      lp_next_page_token = (if s < length ts then cd_encode C (tk_id (ts ! s)) else [])\<rparr>"
  using assms(1,2) unfolding list_tasks_def assms(3) [symmetric]
  by (simp add: Let_def slice_to_def item_at_def)

lemma walk_suffix:
  assumes "distinct (map tk_id (selected_tasks agent owner q db))" and "0 \<le> lq_page_size q"
    and "\<forall>t \<in> set (selected_tasks agent owner q db). cd_encode C (tk_id t) \<noteq> [] \<and> cd_decode C (cd_encode C (tk_id t)) = Inr (tk_id t)"
    and "selected_tasks agent owner q db = pre @ ts" and "length ts < n"
    and "pre = [] \<and> token = [] \<or> ts \<noteq> [] \<and> token \<noteq> [] \<and> cd_decode C token = Inr (tk_id (hd ts))"
  shows "walk C agent owner q db n token = Inr ts"
  using assms(4-)
proof (induction n arbitrary: pre ts token)
  case (Suc n)
  define s where "s = nat (if lq_page_size q \<noteq> 0 then lq_page_size q else 50)"
  have s: "0 < s" "int s = (if lq_page_size q \<noteq> 0 then lq_page_size q else 50)"
    using assms(2) by (auto simp: s_def)
  have page: "page_from C token (pre @ ts) = Inr ts"
    using page_from_suffix [OF _ Suc.prems(3)] assms(1) Suc.prems(1) by simp
  have page': "list_tasks C agent owner (q\<lparr>lq_page_token := token\<rparr>) db = Inr \<lparr>lp_tasks = take s ts,
      lp_total_size = length (selected_tasks agent owner q db), lp_page_size = int s,
      lp_next_page_token = (if s < length ts then cd_encode C (tk_id (ts ! s)) else [])\<rparr>"
    using list_tasks_page [of C "q\<lparr>lq_page_token := token\<rparr>" agent owner db ts s] s page Suc.prems(1) by simp
  show ?case
  proof (cases "length ts \<le> s")
    case True
    with page' show ?thesis by simp
  next
    case False
    let ?rest = "drop s ts" and ?t = "ts ! s"
    have "ts = take s ts @ ?rest" "?rest \<noteq> []" "hd ?rest = ?t" "?t \<in> set ts"
      using False by (simp_all add: hd_drop_conv_nth)
    moreover have "cd_encode C (tk_id ?t) \<noteq> []" "cd_decode C (cd_encode C (tk_id ?t)) = Inr (tk_id ?t)"
      using assms(3) Suc.prems(1) \<open>?t \<in> set ts\<close> by auto
    ultimately have "walk C agent owner q db n (cd_encode C (tk_id ?t)) = Inr ?rest"
      using Suc.IH [of "pre @ take s ts" ?rest "cd_encode C (tk_id ?t)"] Suc.prems(1,2) s(1) False by simp
    with page' False \<open>cd_encode C (tk_id ?t) \<noteq> []\<close> show ?thesis by simp
  qed
qed simp

definition demo_list :: list_request where
  "demo_list = \<lparr>lq_context_id = [], lq_status = TASK_STATE_UNSPECIFIED, lq_timestamp_after = None,
     lq_page_token = [], lq_page_size = 0\<rparr>"

text \<open>
  C15. Paging is complete. In every store that the operations reach, a client that follows the
  page tokens from the first page on, with any page size that is not negative, terminates after
  at most one page more than there are tasks and receives every task that matches its filter
  exactly once, newest first with ties broken by the identifier, provided the SDK's tokens decode
  to what was encoded.
\<close>

theorem paging_complete:
  assumes "(ts_step C)\<^sup>*\<^sup>* empty_task_db db" and "0 \<le> lq_page_size q"
    and "\<And>i. cd_encode C i \<noteq> [] \<and> cd_decode C (cd_encode C i) = Inr i"
  shows "walk C agent owner q db (length (selected_tasks agent owner q db) + 1) [] = Inr (selected_tasks agent owner q db)
    \<and> distinct (selected_tasks agent owner q db)
    \<and> set (selected_tasks agent owner q db) = {t. get_task agent owner (tk_id t) db = Some t \<and> list_matches q t}
    \<and> sorted_wrt (\<lambda>x y. (ts_timestamp (tk_status y), tk_id y) \<le> (ts_timestamp (tk_status x), tk_id x))
        (selected_tasks agent owner q db)"
proof -
  have wf: "ts_wf db" using ts_steps_wf [OF assms(1)] by (simp add: ts_wf_def empty_task_db_def)
  note dist = selected_distinct [OF wf, of agent owner q]
  have "walk C agent owner q db (length (selected_tasks agent owner q db) + 1) [] = Inr (selected_tasks agent owner q db)"
    using walk_suffix [OF dist assms(2), of C "[]" "selected_tasks agent owner q db" "length (selected_tasks agent owner q db) + 1" "[]"] assms(3)
    by (simp del: walk.simps)
  moreover have "distinct (selected_tasks agent owner q db)" using dist by (simp add: distinct_map)
  moreover have "set (selected_tasks agent owner q db) = {t. get_task agent owner (tk_id t) db = Some t \<and> list_matches q t}"
    by (rule selected_set [OF wf])
  moreover have "sorted_wrt (\<lambda>x y. (ts_timestamp (tk_status y), tk_id y) \<le> (ts_timestamp (tk_status x), tk_id x))
        (selected_tasks agent owner q db)"
    unfolding selected_tasks_def by (rule sort_tasks_sorted)
  ultimately show ?thesis by blast
qed


theorem paging_complete_witness:
  "\<exists>db. (ts_step demo_codec)\<^sup>*\<^sup>* empty_task_db db \<and> selected_tasks ''a'' ''o'' demo_list db \<noteq> []
    \<and> walk demo_codec ''a'' ''o'' demo_list db (length (selected_tasks ''a'' ''o'' demo_list db) + 1) []
        = Inr (selected_tasks ''a'' ''o'' demo_list db)"
proof -
  obtain t db where r: "reserve demo_codec ''a'' ''o'' (''t1'', ''c0'') (demo_message ''user'') empty_task_db = (Inr (t, True), db)"
    and t: "td_tasks db = [((''a'', ''o'', ''t1''), t)]"
    by (simp add: reserve_def empty_task_db_def demo_message_def insert_message_def Let_def)
  have steps: "(ts_step demo_codec)\<^sup>*\<^sup>* empty_task_db db" by (rule r_into_rtranclp) (rule step_reserve [OF r])
  have size: "0 \<le> lq_page_size demo_list" by (simp add: demo_list_def)
  have codec: "cd_encode demo_codec i \<noteq> [] \<and> cd_decode demo_codec (cd_encode demo_codec i) = Inr i" for i
    by (simp add: demo_codec_def)
  have "selected_tasks ''a'' ''o'' demo_list db \<noteq> []"
    by (simp add: selected_tasks_def sort_tasks_def t list_matches_def demo_list_def)
  with steps paging_complete [OF steps size codec, of "''a''" "''o''"] show ?thesis by blast
qed

end
