(* ===== verification/A2AServer.thy ===== *)
theory A2AServer
  imports Url TaskStore Interaction
begin

text \<open>
  \<open>a2a/server.py\<close>: the specialist side of the protocol. \<open>SpecialistExecutor\<close> turns one message into the
  events of one execution, \<open>IdempotentHandler\<close> decides whether a message executes or is answered from
  the store, and replays a stored task. The handler of a specialist, Pydantic's validation and the
  protobuf \<open>Value\<close> conversion are the record \<open>fleet\<close> and the specialist's \<open>ad_handler\<close>; what the SDK does with the
  events is not modelled.
\<close>

section \<open>Environment\<close>

record fleet =
  fl_py :: pyenv
  fl_codec :: codec
  fl_settings :: settings
  fl_context :: "json \<Rightarrow> agent_context result"
  fl_result :: "json \<Rightarrow> agent_result result"
  fl_value :: "json \<Rightarrow> json"

record agent_definition =
  ad_name :: string
  ad_stage :: stage_name
  ad_handler :: "agent_context \<Rightarrow> agent_result result"

definition INTERRUPTING_STATES :: "task_state list" where
  "INTERRUPTING_STATES = [TASK_STATE_COMPLETED, TASK_STATE_FAILED, TASK_STATE_CANCELED,
     TASK_STATE_REJECTED, TASK_STATE_INPUT_REQUIRED, TASK_STATE_AUTH_REQUIRED]"

definition APPLICATION_JSON :: string where
  "APPLICATION_JSON = ''application/json''"

definition json_part :: "fleet \<Rightarrow> jdict \<Rightarrow> part" where
  "json_part F content = \<lparr>pt_text = [], pt_data = Some (fl_value F (JObj content)), pt_media_type = APPLICATION_JSON\<rparr>"

definition prompt_dump :: "human_prompt \<Rightarrow> json" where
  "prompt_dump p = JObj [(''kind'', JStr (prompt_kind_value (hp_kind p))), (''question'', JStr (hp_question p))]"

definition result_dump :: "agent_result \<Rightarrow> jdict" where
  "result_dump r =
    [(''artifact_kind'', JStr (artifact_kind_value (ag_artifact_kind r))), (''content'', JObj (ag_content r)),
     (''markdown'', JStr (ag_markdown r)), (''human_prompt'', jopt prompt_dump (ag_human_prompt r)),
     (''execution'', JObj (execution_dump (ag_execution r)))]"

text \<open>\<open>MessageToDict(parts[0].data)\<close>.\<close>

definition first_item :: "'a list \<Rightarrow> 'a result" where
  "first_item xs = (case xs of [] \<Rightarrow> Inl (IndexError ''list index out of range'') | x # _ \<Rightarrow> Inr x)"

definition first_data :: "part list \<Rightarrow> json result" where
  "first_data ps = rbind (first_item ps) (\<lambda>p. Inr (case pt_data p of None \<Rightarrow> JNull | Some j \<Rightarrow> j))"

section \<open>One execution\<close>

datatype task_event =
    Ev_task task
  | Ev_status task_state "part list"
  | Ev_artifact task_artifact bool

record request_context =
  rc_task_id :: string
  rc_context_id :: string
  rc_message :: "message option"
  rc_current_task :: "task option"

definition approval_gate :: "settings \<Rightarrow> stage_name \<Rightarrow> bool" where
  "approval_gate s stage = (case stage of
       REQUIREMENTS \<Rightarrow> cf_require_requirements_approval s
     | PLANNING \<Rightarrow> cf_require_plan_approval s
     | _ \<Rightarrow> False)"

text \<open>The prompts that policy sets on a fresh result.\<close>

definition with_gates :: "fleet \<Rightarrow> agent_definition \<Rightarrow> agent_result \<Rightarrow> agent_result" where
  "with_gates F D result = (let s = fl_settings F;
     result1 = (if cf_human_gates_enabled s \<and> approval_gate s (ad_stage D)
       then result\<lparr>ag_human_prompt := Some \<lparr>hp_kind = Approval,
              hp_question = ''Approve the '' @ stage_value (ad_stage D) @ '' artifact?''\<rparr>\<rparr>
       else result)
     in if cf_human_gates_enabled s \<and> ad_stage D = EVALUATION \<and> cf_require_release_approval s
       then result1\<lparr>ag_human_prompt := Some \<lparr>hp_kind = Evaluation_decision,
              hp_question = ''Review the quality gates and model evaluation. Your decision is ''
                @ ''final: accept the evaluated result and continue to release, or '' @ ''send it to repair.''\<rparr>\<rparr>
       else result1)"

definition decision_in :: "string list \<Rightarrow> json \<Rightarrow> bool result" where
  "decision_in allowed v = (case v of
       JStr s \<Rightarrow> Inr (s \<in> set allowed)
     | JArr _ \<Rightarrow> Inl (TypeError ''unhashable type: list'')
     | JObj _ \<Rightarrow> Inl (TypeError ''unhashable type: dict'')
     | _ \<Rightarrow> Inr False)"

text \<open>What the model sees of a context apart from the answer.\<close>

definition question_of :: "agent_context \<Rightarrow> json" where
  "question_of c = JObj (filter (\<lambda>(k, v). k \<noteq> ''human_response'') (context_dump c))"

text \<open>A continuation with the answer \<open>response\<close>; \<open>None\<close> stands for the rejected draft.\<close>

definition resume :: "fleet \<Rightarrow> agent_definition \<Rightarrow> task \<Rightarrow> agent_context \<Rightarrow> jdict \<Rightarrow> agent_result option result" where
  "resume F D prior context response =
     rbind (first_data (ta_parts (last (tk_artifacts prior)))) (\<lambda>data.
     rbind (fl_result F data) (\<lambda>result.
     rbind (guard (dget response ''artifact_sha256'' = JStr (content_digest (fl_py F) (ag_content result)))
       (ValueError ''Human response does not match the waiting artifact hash'')) (\<lambda>_.
     rbind (rbind (first_item (tk_history prior)) (\<lambda>m. first_data (ms_parts m))) (\<lambda>asked.
     rbind (fl_context F asked) (\<lambda>original.
     rbind (guard (py_eq (question_of context) (question_of original))
       (ValueError ''Continuation changed the original agent context'')) (\<lambda>_.
     if dget response ''decision'' = JStr ''reject'' then Inr None
     else case map_option hp_kind (ag_human_prompt result) of
         Some Approval \<Rightarrow>
           rbind (guard (dget response ''decision'' = JStr ''approve'')
             (ValueError ''Approval requires an approve or reject decision'')) (\<lambda>_.
           Inr (Some (result\<lparr>ag_human_prompt := None\<rparr>)))
       | Some Evaluation_decision \<Rightarrow>
           rbind (decision_in [''accept'', ''repair''] (dget response ''decision'')) (\<lambda>ok.
           rbind (guard ok (ValueError ''Evaluation requires an accept or repair decision'')) (\<lambda>_.
           Inr (Some (result\<lparr>ag_human_prompt := None\<rparr>))))
       | _ \<Rightarrow> rbind (ad_handler D context) (\<lambda>r. Inr (Some r))))))))"

definition produce :: "fleet \<Rightarrow> agent_definition \<Rightarrow> request_context \<Rightarrow> agent_context \<Rightarrow> agent_result option result" where
  "produce F D q context =
     (case (cx_human_response context, rc_current_task q) of
        (Some (kv # kvs), Some prior) \<Rightarrow>
          (if tk_artifacts prior \<noteq> [] then resume F D prior context (kv # kvs)
           else rbind (ad_handler D context) (\<lambda>r. Inr (Some (with_gates F D r))))
      | _ \<Rightarrow> rbind (ad_handler D context) (\<lambda>r. Inr (Some (with_gates F D r))))"

definition output_events :: "fleet \<Rightarrow> string \<Rightarrow> agent_result \<Rightarrow> task_event list" where
  "output_events F task_id result =
     [Ev_artifact \<lparr>ta_artifact_id = task_id @ '':result'', ta_name = artifact_kind_value (ag_artifact_kind result),
        ta_parts = [json_part F (result_dump result)]\<rparr> True,
      Ev_status (if ag_human_prompt result \<noteq> None then TASK_STATE_INPUT_REQUIRED else TASK_STATE_COMPLETED) []]"

definition run_task :: "fleet \<Rightarrow> agent_definition \<Rightarrow> request_context \<Rightarrow> task_event list result" where
  "run_task F D q = (case rc_message q of
       None \<Rightarrow> Inl AssertionError
     | Some m \<Rightarrow>
         rbind (first_data (ms_parts m)) (\<lambda>payload.
         rbind (fl_context F payload) (\<lambda>context.
         rbind (produce F D q context) (\<lambda>outcome.
         Inr (case outcome of
             None \<Rightarrow> [Ev_status TASK_STATE_FAILED [text_part ''Human rejected draft'']]
           | Some result \<Rightarrow> output_events F (rc_task_id q) result)))))"

definition initial_task :: "request_context \<Rightarrow> task" where
  "initial_task q = \<lparr>tk_id = rc_task_id q, tk_context_id = rc_context_id q,
     tk_status = plain_status TASK_STATE_SUBMITTED, tk_artifacts = [],
     tk_history = (case rc_message q of None \<Rightarrow> [] | Some m \<Rightarrow> [m])\<rparr>"

text \<open>\<open>SpecialistExecutor.execute\<close>: the published events, and the cancellation that is passed on.\<close>

definition execute_task :: "fleet \<Rightarrow> agent_definition \<Rightarrow> request_context \<Rightarrow> unit result \<times> task_event list" where
  "execute_task F D q =
     (let started = (if rc_current_task q = None then [Ev_task (initial_task q)] else [])
          @ [Ev_status TASK_STATE_WORKING []]
      in case run_task F D q of
           Inr events \<Rightarrow> (Inr (), started @ events)
         | Inl e \<Rightarrow>
             if e = CancelledError then (Inl CancelledError, started)
             else (Inr (), started @ [Ev_status TASK_STATE_FAILED [text_part (error_class e @ '': '' @ error_text e)]]))"

section \<open>Requests\<close>

record send_params =
  pm_accepted_output_modes :: "string list"
  pm_return_immediately :: bool
  pm_message :: message

text \<open>
  \<open>IdempotentHandler._prepare\<close>: the checks, the reservation, and the message with the identifiers
  of the new task.
\<close>

definition check_request :: "fleet \<Rightarrow> stage_name \<Rightarrow> send_params \<Rightarrow> unit result" where
  "check_request F stage p = (let m = pm_message p in
     rbind (guard (pm_accepted_output_modes p = [] \<or> APPLICATION_JSON \<in> set (pm_accepted_output_modes p))
       (ContentTypeNotSupportedError ''This specialist produces application/json'')) (\<lambda>_.
     rbind (guard (case ms_parts m of [part] \<Rightarrow> pt_data part \<noteq> None \<and> pt_media_type part = APPLICATION_JSON | _ \<Rightarrow> False)
       (ContentTypeNotSupportedError ''Expected one application/json data part'')) (\<lambda>_.
     rbind (first_data (ms_parts m)) (\<lambda>data.
     rbind (case fl_context F data of
         Inl (ValueError _) \<Rightarrow> Inl (InvalidParamsError ''Invalid AgentContext payload'') | r \<Rightarrow> r) (\<lambda>payload.
     rbind (guard (cx_stage payload = stage)
       (InvalidParamsError ''This specialist does not support the requested stage'')) (\<lambda>_.
     guard (\<not> (ms_task_id m \<noteq> [] \<and> cx_human_response payload = None))
       (InvalidParamsError ''A continuation requires a human response'')))))))"

definition prepare :: "fleet \<Rightarrow> agent_definition \<Rightarrow> string \<Rightarrow> string \<times> string \<Rightarrow> send_params \<Rightarrow> task_db \<Rightarrow>
    (task \<times> bool \<times> message) result \<times> task_db" where
  "prepare F D owner uids p db =
     (case check_request F (ad_stage D) p of
        Inl e \<Rightarrow> (Inl e, db)
      | Inr _ \<Rightarrow>
          (case reserve (fl_codec F) (ad_name D) owner uids (pm_message p) db of
             (Inl e, db') \<Rightarrow> (Inl e, db')
           | (Inr (t, created), db') \<Rightarrow> (Inr (t, created,
               if created then (pm_message p)\<lparr>ms_task_id := tk_id t, ms_context_id := tk_context_id t\<rparr>
               else pm_message p), db')))"

definition snapshot :: "agent_definition \<Rightarrow> string \<Rightarrow> string \<Rightarrow> task_db \<Rightarrow> task result" where
  "snapshot D owner i db = (case get_task (ad_name D) owner i db of None \<Rightarrow> Inl TaskNotFoundError | Some t \<Rightarrow> Inr t)"

text \<open>
  The answer to a repeated message polls the store; the list holds the store at each poll. \<open>None\<close>
  means that it is still waiting when the list ends.
\<close>

fun await_task :: "agent_definition \<Rightarrow> string \<Rightarrow> task \<Rightarrow> task_db list \<Rightarrow> task result option" where
  "await_task D owner t [] = (if ts_state (tk_status t) \<in> set INTERRUPTING_STATES then Some (Inr t) else None)"
| "await_task D owner t (db # dbs) =
     (if ts_state (tk_status t) \<in> set INTERRUPTING_STATES then Some (Inr t)
      else case snapshot D owner (tk_id t) db of
             Inl e \<Rightarrow> Some (Inl e)
           | Inr t' \<Rightarrow> await_task D owner t' dbs)"

text \<open>\<open>on_message_send\<close>, where \<open>run_sdk\<close> is the execution by the SDK of a message that was just reserved.\<close>

definition on_message_send :: "fleet \<Rightarrow> agent_definition \<Rightarrow> (message \<Rightarrow> task_db \<Rightarrow> task result) \<Rightarrow> string \<Rightarrow>
    string \<times> string \<Rightarrow> send_params \<Rightarrow> task_db list \<Rightarrow> task_db \<Rightarrow> task result option \<times> task_db" where
  "on_message_send F D run_sdk owner uids p polls db =
     (case prepare F D owner uids p db of
        (Inl e, db') \<Rightarrow> (Some (Inl e), db')
      | (Inr (t, created, m), db') \<Rightarrow>
          (if created then Some (run_sdk m db')
           else if pm_return_immediately p then Some (Inr t)
           else await_task D owner t polls, db'))"

section \<open>Replay\<close>

datatype stream_event =
    St_task task
  | St_artifact string string task_artifact
  | St_status string string task_status

fun new_artifacts :: "task \<Rightarrow> task_artifact list \<Rightarrow> string list \<Rightarrow> stream_event list \<times> string list" where
  "new_artifacts t [] seen = ([], seen)"
| "new_artifacts t (a # as) seen =
     (if ta_artifact_id a \<in> set seen then new_artifacts t as seen
      else case new_artifacts t as (ta_artifact_id a # seen) of
        (es, seen') \<Rightarrow> (St_artifact (tk_id t) (tk_context_id t) a # es, seen'))"

fun tail_task :: "agent_definition \<Rightarrow> string \<Rightarrow> task \<Rightarrow> string list \<Rightarrow> task_db list \<Rightarrow> stream_event list \<times> unit result option" where
  "tail_task D owner t seen [] = ([], if ts_state (tk_status t) \<in> set INTERRUPTING_STATES then Some (Inr ()) else None)"
| "tail_task D owner t seen (db # dbs) =
     (if ts_state (tk_status t) \<in> set INTERRUPTING_STATES then ([], Some (Inr ()))
      else case snapshot D owner (tk_id t) db of
             Inl e \<Rightarrow> ([], Some (Inl e))
           | Inr latest \<Rightarrow>
               (case new_artifacts t (tk_artifacts latest) seen of (artifacts, seen') \<Rightarrow>
                case tail_task D owner latest seen' dbs of (later, outcome) \<Rightarrow>
                (artifacts @ (if tk_status latest \<noteq> tk_status t then [St_status (tk_id t) (tk_context_id t) (tk_status latest)] else [])
                   @ later, outcome)))"

definition replay :: "agent_definition \<Rightarrow> string \<Rightarrow> task \<Rightarrow> task_db list \<Rightarrow> stream_event list \<times> unit result option" where
  "replay D owner t dbs =
     (case tail_task D owner t (map ta_artifact_id (tk_artifacts t)) dbs of (es, outcome) \<Rightarrow> (St_task t # es, outcome))"

text \<open>\<open>on_message_send_stream\<close>: a new execution streams its task first.\<close>

definition on_message_send_stream :: "fleet \<Rightarrow> agent_definition \<Rightarrow> (message \<Rightarrow> task_db \<Rightarrow> stream_event list \<times> unit result option) \<Rightarrow>
    string \<Rightarrow> string \<times> string \<Rightarrow> send_params \<Rightarrow> task_db list \<Rightarrow> task_db \<Rightarrow> (stream_event list \<times> unit result option) \<times> task_db" where
  "on_message_send_stream F D run_sdk owner uids p polls db =
     (case prepare F D owner uids p db of
        (Inl e, db') \<Rightarrow> (([], Some (Inl e)), db')
      | (Inr (t, created, m), db') \<Rightarrow>
          (if created
           then case run_sdk m db' of
               ([], outcome) \<Rightarrow> ([], outcome)
             | (e # es, outcome) \<Rightarrow> (St_task t # e # es, outcome)
           else replay D owner t polls, db'))"

definition on_cancel_task :: "agent_definition \<Rightarrow> (task_db \<Rightarrow> task option result) \<Rightarrow> string \<Rightarrow> string \<Rightarrow> task_db \<Rightarrow> task option result" where
  "on_cancel_task D run_sdk owner i db = (case get_task (ad_name D) owner i db of
       None \<Rightarrow> Inl TaskNotFoundError
     | Some t \<Rightarrow>
         if ts_state (tk_status t) \<in> {TASK_STATE_COMPLETED, TASK_STATE_CANCELED, TASK_STATE_FAILED, TASK_STATE_REJECTED}
         then Inl (TaskNotCancelableError ''Task is already terminal'') else run_sdk db)"

section \<open>The fleet\<close>

record agent_skill =
  sk_id :: string
  sk_name :: string
  sk_description :: string
  sk_tags :: "string list"
  sk_input_modes :: "string list"
  sk_output_modes :: "string list"

record agent_interface =
  if_protocol_binding :: string
  if_protocol_version :: string
  if_url :: string

record agent_card =
  ac_name :: string
  ac_version :: string
  ac_description :: string
  ac_streaming :: bool
  ac_push_notifications :: bool
  ac_default_input_modes :: "string list"
  ac_default_output_modes :: "string list"
  ac_skills :: "agent_skill list"
  ac_supported_interfaces :: "agent_interface list"
  ac_security_requirements :: "string list"

definition agent_base :: "settings \<Rightarrow> string \<Rightarrow> string" where
  "agent_base s name = rstrip_slash (cf_a2a_base_url s) @ ''/agents/'' @ name"

definition make_card :: "string \<Rightarrow> agent_spec \<Rightarrow> settings \<Rightarrow> agent_card" where
  "make_card version spec s =
     \<lparr>ac_name = sp_name spec, ac_version = version,
      ac_description = ''AIDLC '' @ stage_value (sp_stage spec) @ '' specialist; mode='' @ cf_agent_mode s @ ''; loopback only.'',
      ac_streaming = True, ac_push_notifications = False,
      ac_default_input_modes = [APPLICATION_JSON], ac_default_output_modes = [APPLICATION_JSON],
      ac_skills = [\<lparr>sk_id = stage_value (sp_stage spec), sk_name = sp_name spec,
        sk_description = ''Produce '' @ artifact_kind_value (sp_artifact_kind spec),
        sk_tags = [''aidlc'', ''deep'', stage_value (sp_stage spec)],
        sk_input_modes = [APPLICATION_JSON], sk_output_modes = [APPLICATION_JSON]\<rparr>],
      ac_supported_interfaces = [\<lparr>if_protocol_binding = ''JSONRPC'', if_protocol_version = ''1.0'',
        if_url = agent_base s (sp_name spec) @ ''/rpc''\<rparr>],
      ac_security_requirements = []\<rparr>"

text \<open>\<open>create_agent_app\<close>: every specialist must be implemented; opening a store recovers its tasks.\<close>

definition create_agent_app :: "agent_definition list \<Rightarrow> task_db \<Rightarrow> task_db result" where
  "create_agent_app definitions db =
     (if set (map ad_name definitions) \<noteq> set (map sp_name AGENT_SPECS)
      then Inl (ValueError ''Every spoke must have an implementation'')
      else Inr (fold (\<lambda>spec. open_store (sp_name spec)) AGENT_SPECS db))"

text \<open>The check of \<open>run\<close>; \<open>literal\<close> is the syntax of bracketed addresses.\<close>

definition fleet_address :: "(string \<Rightarrow> bool) \<Rightarrow> settings \<Rightarrow> (string \<times> nat) result" where
  "fleet_address literal s = rbind (urlsplit literal (cf_a2a_base_url s)) (\<lambda>endpoint.
     case ur_hostname endpoint of
       Some host \<Rightarrow>
         if ur_scheme endpoint \<noteq> ''http'' \<or> host \<notin> {''localhost'', ''127.0.0.1''}
            \<or> ur_path endpoint \<notin> {[], ''/''} \<or> ur_username endpoint \<noteq> None
            \<or> ur_query endpoint \<noteq> [] \<or> ur_fragment endpoint \<noteq> []
         then Inl (ValueError ''The unauthenticated development fleet must bind to a loopback HTTP URL'')
         else rbind (ur_port endpoint) (\<lambda>port. Inr (host, case port of Some (Suc n) \<Rightarrow> Suc n | _ \<Rightarrow> 8001))
     | None \<Rightarrow> Inl (ValueError ''The unauthenticated development fleet must bind to a loopback HTTP URL''))"

section \<open>Replay delivers everything once\<close>

text \<open>The versions of the task that a replay sees.\<close>

fun observed :: "agent_definition \<Rightarrow> string \<Rightarrow> task \<Rightarrow> task_db list \<Rightarrow> task list" where
  "observed D owner t [] = [t]"
| "observed D owner t (db # dbs) =
     (if ts_state (tk_status t) \<in> set INTERRUPTING_STATES then [t]
      else case snapshot D owner (tk_id t) db of
             Inl _ \<Rightarrow> [t] | Inr latest \<Rightarrow> t # observed D owner latest dbs)"

lemma observed_Cons: "\<exists>rest. observed D owner t dbs = t # rest"
  by (cases dbs) (auto split: sum.split)

fun artifact_of :: "stream_event \<Rightarrow> string list" where
  "artifact_of (St_task t) = map ta_artifact_id (tk_artifacts t)"
| "artifact_of (St_artifact _ _ a) = [ta_artifact_id a]"
| "artifact_of (St_status _ _ _) = []"

fun status_of :: "stream_event \<Rightarrow> task_status list" where
  "status_of (St_task t) = [tk_status t]"
| "status_of (St_artifact _ _ _) = []"
| "status_of (St_status _ _ s) = [s]"

lemma new_artifacts_events:
  "new_artifacts t as seen = (es, seen') \<Longrightarrow>
    concat (map status_of es) = [] \<and> set seen' = set seen \<union> ta_artifact_id ` set as
    \<and> set (concat (map artifact_of es)) = ta_artifact_id ` set as - set seen \<and> distinct (concat (map artifact_of es))"
proof (induction t as seen arbitrary: es rule: new_artifacts.induct)
  case (2 t a as seen)
  show ?case
  proof (cases "ta_artifact_id a \<in> set seen")
    case True
    with 2 show ?thesis by auto
  next
    case False
    with "2.prems" obtain rest where rest: "new_artifacts t as (ta_artifact_id a # seen) = (rest, seen')"
      "es = St_artifact (tk_id t) (tk_context_id t) a # rest" by (auto split: prod.splits)
    from "2.IH"(2) [OF False rest(1)] rest(2) False show ?thesis by auto
  qed
qed simp

lemma tail_task_events:
  "tail_task D owner t seen dbs = (es, outcome) \<Longrightarrow> ta_artifact_id ` set (tk_artifacts t) \<subseteq> set seen \<Longrightarrow>
    remdups_adj (map tk_status (observed D owner t dbs)) = tk_status t # concat (map status_of es)
    \<and> set (concat (map artifact_of es)) = (\<Union>x \<in> set (observed D owner t dbs). ta_artifact_id ` set (tk_artifacts x)) - set seen
    \<and> distinct (concat (map artifact_of es))
    \<and> (outcome = Some (Inr ()) \<longleftrightarrow> ts_state (tk_status (last (observed D owner t dbs))) \<in> set INTERRUPTING_STATES)"
proof (induction D owner t seen dbs arbitrary: es outcome rule: tail_task.induct)
  case (1 D owner t seen)
  then show ?case by (auto split: if_splits)
next
  case (2 D owner t seen db dbs)
  show ?case
  proof (cases "ts_state (tk_status t) \<in> set INTERRUPTING_STATES")
    case True
    with 2 show ?thesis by auto
  next
    case False
    show ?thesis
    proof (cases "snapshot D owner (tk_id t) db")
      case (Inl e)
      with False 2 show ?thesis by auto
    next
      case (Inr latest)
      obtain as seen' where as: "new_artifacts t (tk_artifacts latest) seen = (as, seen')" by fastforce
      obtain later res where later: "tail_task D owner latest seen' dbs = (later, res)" by fastforce
      note new = new_artifacts_events [OF as]
      have sub: "ta_artifact_id ` set (tk_artifacts latest) \<subseteq> set seen'" using new by simp
      note IH = "2.IH" [OF False Inr as [symmetric] later sub]
      have res: "outcome = res" "es = as @ (if tk_status latest \<noteq> tk_status t
           then [St_status (tk_id t) (tk_context_id t) (tk_status latest)] else []) @ later"
        using "2.prems"(1) False Inr as later by simp_all
      have obs: "observed D owner t (db # dbs) = t # observed D owner latest dbs" using False Inr by simp
      obtain rest where hd: "observed D owner latest dbs = latest # rest"
        using observed_Cons by blast
      show ?thesis unfolding obs
      proof (intro conjI)
        show "remdups_adj (map tk_status (t # observed D owner latest dbs)) = tk_status t # concat (map status_of es)"
          using IH new unfolding res(2) hd by (cases "remdups_adj (tk_status latest # map tk_status rest)") (auto split: if_splits)
        show "set (concat (map artifact_of es))
            = (\<Union>x \<in> set (t # observed D owner latest dbs). ta_artifact_id ` set (tk_artifacts x)) - set seen"
          using IH new "2.prems"(2) unfolding res(2) by (auto simp: hd)
        show "distinct (concat (map artifact_of es))"
          using IH new unfolding res(2) by auto
        show "outcome = Some (Inr ()) \<longleftrightarrow>
            ts_state (tk_status (last (t # observed D owner latest dbs))) \<in> set INTERRUPTING_STATES"
          using IH unfolding res(1) hd by simp
      qed
    qed
  qed
qed



definition demo_specialist :: agent_definition where
  "demo_specialist = \<lparr>ad_name = ''requirements-agent'', ad_stage = REQUIREMENTS,
     ad_handler = (\<lambda>c. Inr (demo_result REQUIREMENTS_SPEC [(''x'', JStr ''y'')] 1))\<rparr>"

definition demo_task :: "task_state \<Rightarrow> task_artifact list \<Rightarrow> task" where
  "demo_task s as = \<lparr>tk_id = ''t1'', tk_context_id = ''c1'', tk_status = plain_status s, tk_artifacts = as, tk_history = []\<rparr>"

definition demo_store :: "task_state \<Rightarrow> task_artifact list \<Rightarrow> task_db" where
  "demo_store s as = save_task ''requirements-agent'' ''o'' (demo_task s as) empty_task_db"

definition demo_artifact :: task_artifact where
  "demo_artifact = \<lparr>ta_artifact_id = ''t1:result'', ta_name = ''n'', ta_parts = []\<rparr>"


section \<open>Policy gates over the life of a task\<close>

text \<open>
  The life of a stored task: a reservation starts an execution, its events are applied by the SDK
  (\<open>sdk\<close>), and a reserved continuation starts the next one; a restart or a cancellation ends a
  task without completing it. The list holds the messages that were executed.
\<close>

inductive task_life :: "fleet \<Rightarrow> agent_definition \<Rightarrow> (task \<Rightarrow> task_event list \<Rightarrow> task) \<Rightarrow> task \<Rightarrow> message list \<Rightarrow> bool"
  for F D sdk where
  life_start: "reserve (fl_codec F) (ad_name D) owner uids m db = (Inr (t, True), db') \<Longrightarrow> ms_task_id m = [] \<Longrightarrow>
     rc_current_task q = Some t \<Longrightarrow> rc_message q = Some m \<Longrightarrow> execute_task F D q = (res, events) \<Longrightarrow>
     task_life F D sdk (sdk t events) [m]"
| life_continue: "task_life F D sdk t ms \<Longrightarrow> get_task (ad_name D) owner (ms_task_id m) db = Some t \<Longrightarrow> ms_task_id m \<noteq> [] \<Longrightarrow>
     reserve (fl_codec F) (ad_name D) owner uids m db = (Inr (t', True), db') \<Longrightarrow>
     rc_current_task q = Some t' \<Longrightarrow> rc_message q = Some m \<Longrightarrow> execute_task F D q = (res, events) \<Longrightarrow>
     task_life F D sdk (sdk t' events) (ms @ [m])"
| life_end: "task_life F D sdk t ms \<Longrightarrow> tk_artifacts t' = tk_artifacts t \<Longrightarrow>
     ts_state (tk_status t') \<notin> {TASK_STATE_COMPLETED, TASK_STATE_INPUT_REQUIRED} \<Longrightarrow> task_life F D sdk t' ms"

text \<open>The documented effect of the events: the last status and the last artifact are stored.\<close>

fun event_states :: "task_event \<Rightarrow> task_state list" where
  "event_states (Ev_status s _) = [s]"
| "event_states _ = []"

fun event_artifacts :: "task_event \<Rightarrow> task_artifact list" where
  "event_artifacts (Ev_artifact a _) = [a]"
| "event_artifacts _ = []"

definition sdk_applies :: "(task \<Rightarrow> task_event list \<Rightarrow> task) \<Rightarrow> bool" where
  "sdk_applies sdk \<longleftrightarrow> (\<forall>t events.
     (let states = concat (map event_states events) in
        states \<noteq> [] \<longrightarrow> ts_state (tk_status (sdk t events)) = last states)
     \<and> (let artifacts = concat (map event_artifacts events) in
        if artifacts = [] then tk_artifacts (sdk t events) = tk_artifacts t
        else tk_artifacts (sdk t events) \<noteq> [] \<and> last (tk_artifacts (sdk t events)) = last artifacts))"

text \<open>A published result reads stored with its prompt.\<close>

definition reads_back :: "fleet \<Rightarrow> bool" where
  "reads_back F \<longleftrightarrow> (\<forall>r. \<exists>r'. fl_result F (fl_value F (JObj (result_dump r))) = Inr r'
     \<and> map_option hp_kind (ag_human_prompt r') = map_option hp_kind (ag_human_prompt r))"

definition gated :: "fleet \<Rightarrow> agent_definition \<Rightarrow> bool" where
  "gated F D \<longleftrightarrow> cf_human_gates_enabled (fl_settings F)
     \<and> (approval_gate (fl_settings F) (ad_stage D) \<or> ad_stage D = EVALUATION \<and> cf_require_release_approval (fl_settings F))"

definition gate_kind :: "agent_definition \<Rightarrow> prompt_kind" where
  "gate_kind D = (if ad_stage D = EVALUATION then Evaluation_decision else Approval)"

definition gate_decisions :: "agent_definition \<Rightarrow> string set" where
  "gate_decisions D = (if ad_stage D = EVALUATION then {''accept'', ''repair''} else {''approve''})"

definition publishes :: "fleet \<Rightarrow> task \<Rightarrow> agent_result \<Rightarrow> bool" where
  "publishes F t r \<longleftrightarrow> tk_artifacts t \<noteq> [] \<and> ta_parts (last (tk_artifacts t)) = [json_part F (result_dump r)]"

definition message_context :: "fleet \<Rightarrow> message \<Rightarrow> agent_context result" where
  "message_context F m = rbind (first_data (ms_parts m)) (fl_context F)"

definition accepted_draft :: "fleet \<Rightarrow> agent_definition \<Rightarrow> task \<Rightarrow> message \<Rightarrow> bool" where
  "accepted_draft F D t m \<longleftrightarrow> (\<exists>draft ctx response s.
     publishes F t (draft\<lparr>ag_human_prompt := None\<rparr>)
     \<and> map_option hp_kind (ag_human_prompt draft) = Some (gate_kind D)
     \<and> message_context F m = Inr ctx \<and> cx_human_response ctx = Some response
     \<and> dget response ''artifact_sha256'' = JStr (content_digest (fl_py F) (ag_content draft))
     \<and> dget response ''decision'' = JStr s \<and> s \<in> gate_decisions D)"

lemma with_gates_prompt:
  "gated F D \<Longrightarrow> map_option hp_kind (ag_human_prompt (with_gates F D r)) = Some (gate_kind D)"
  by (auto simp: gated_def with_gates_def gate_kind_def approval_gate_def Let_def split: stage_name.splits)

lemma guard_bind: "rbind (guard b e) f = Inr x \<longleftrightarrow> b \<and> f () = Inr x"
  by (cases b) simp_all

lemma resume_gated:
  assumes out: "resume F D prior ctx response = Inr (Some out)" and "reads_back F" and "publishes F prior draft"
    and "map_option hp_kind (ag_human_prompt draft) = Some (gate_kind D)"
  shows "\<exists>stored s. out = stored\<lparr>ag_human_prompt := None\<rparr> \<and> map_option hp_kind (ag_human_prompt stored) = Some (gate_kind D)
    \<and> dget response ''artifact_sha256'' = JStr (content_digest (fl_py F) (ag_content stored))
    \<and> dget response ''decision'' = JStr s \<and> s \<in> gate_decisions D"
proof -
  obtain stored where stored: "fl_result F (fl_value F (JObj (result_dump draft))) = Inr stored"
    "map_option hp_kind (ag_human_prompt stored) = Some (gate_kind D)"
    using assms(2,4) unfolding reads_back_def by metis
  have data: "first_data (ta_parts (last (tk_artifacts prior))) = Inr (fl_value F (JObj (result_dump draft)))"
    using assms(3) by (simp add: publishes_def first_data_def first_item_def json_part_def)
  obtain asked where sha: "dget response ''artifact_sha256'' = JStr (content_digest (fl_py F) (ag_content stored))"
    and rest: "(if dget response ''decision'' = JStr ''reject'' then Inr None
     else case map_option hp_kind (ag_human_prompt stored) of
         Some Approval \<Rightarrow>
           rbind (guard (dget response ''decision'' = JStr ''approve'')
             (ValueError ''Approval requires an approve or reject decision'')) (\<lambda>_.
           Inr (Some (stored\<lparr>ag_human_prompt := None\<rparr>)))
       | Some Evaluation_decision \<Rightarrow>
           rbind (decision_in [''accept'', ''repair''] (dget response ''decision'')) (\<lambda>ok.
           rbind (guard ok (ValueError ''Evaluation requires an accept or repair decision'')) (\<lambda>_.
           Inr (Some (stored\<lparr>ag_human_prompt := None\<rparr>))))
       | _ \<Rightarrow> rbind (ad_handler D ctx) (\<lambda>r. Inr (Some r))) = Inr (Some out)"
    using out unfolding resume_def data rbind_simps stored(1) guard_bind rbind_eq_Inr [of "rbind (first_item _) _"]
      rbind_eq_Inr [of "fl_context F _"] by blast
  show ?thesis
  proof (cases "ad_stage D = EVALUATION")
    case True
    with rest stored(2) show ?thesis using sha
      by (cases "dget response ''decision''")
        (simp_all add: gate_kind_def gate_decisions_def decision_in_def guard_bind split: if_splits, blast+)
  next
    case False
    with rest stored(2) have "out = stored\<lparr>ag_human_prompt := None\<rparr>" "dget response ''decision'' = JStr ''approve''"
      "''approve'' \<in> gate_decisions D"
      by (simp_all add: gate_kind_def gate_decisions_def guard_bind split: if_splits)
    with stored(2) sha show ?thesis by (intro exI conjI)
  qed
qed


text \<open>What an execution leaves behind.\<close>

definition settled :: "fleet \<Rightarrow> agent_definition \<Rightarrow> task \<Rightarrow> message \<Rightarrow> bool" where
  "settled F D t m \<longleftrightarrow>
     (ts_state (tk_status t) = TASK_STATE_INPUT_REQUIRED \<longrightarrow>
        (\<exists>draft. publishes F t draft \<and> map_option hp_kind (ag_human_prompt draft) = Some (gate_kind D)))
     \<and> (ts_state (tk_status t) = TASK_STATE_COMPLETED \<longrightarrow> accepted_draft F D t m)"

lemma executor_cases:
  assumes "execute_task F D q = (res, events)" and "rc_current_task q = Some t" and "rc_message q = Some m"
  obtains (finished) r ctx where "message_context F m = Inr ctx" "produce F D q ctx = Inr (Some r)"
      "events = Ev_status TASK_STATE_WORKING [] # output_events F (rc_task_id q) r"
    | (stopped) s ps where "events = Ev_status TASK_STATE_WORKING [] # (if s = TASK_STATE_WORKING then [] else [Ev_status s ps])"
      "s \<in> {TASK_STATE_WORKING, TASK_STATE_FAILED}"
proof (cases "run_task F D q")
  case (Inl e)
  then have "events = Ev_status TASK_STATE_WORKING [] # (if e = CancelledError then []
      else [Ev_status TASK_STATE_FAILED [text_part (error_class e @ '': '' @ error_text e)]])"
    using assms(1,2) by (auto simp: execute_task_def)
  then show ?thesis
    using stopped [of TASK_STATE_WORKING]
      stopped [of TASK_STATE_FAILED "[text_part (error_class e @ '': '' @ error_text e)]"]
    by (cases "e = CancelledError") simp_all
next
  case (Inr out)
  then have events: "events = Ev_status TASK_STATE_WORKING [] # out"
    using assms(1,2) by (simp add: execute_task_def)
  from Inr obtain ctx outcome where c: "message_context F m = Inr ctx" "produce F D q ctx = Inr outcome"
    "out = (case outcome of None \<Rightarrow> [Ev_status TASK_STATE_FAILED [text_part ''Human rejected draft'']]
           | Some result \<Rightarrow> output_events F (rc_task_id q) result)"
    using assms(3) by (auto simp: run_task_def message_context_def rbind_eq_Inr)
  show ?thesis
  proof (cases outcome)
    case None
    with c events stopped [of TASK_STATE_FAILED] show ?thesis by simp
  next
    case (Some r)
    with c events finished show ?thesis by simp
  qed
qed

lemma sdk_output:
  assumes "sdk_applies sdk"
  shows "ts_state (tk_status (sdk t (Ev_status w [] # output_events F i r)))
      = (if ag_human_prompt r \<noteq> None then TASK_STATE_INPUT_REQUIRED else TASK_STATE_COMPLETED)"
    and "publishes F (sdk t (Ev_status w [] # output_events F i r)) r"
  using assms unfolding sdk_applies_def
  by (auto dest!: spec [of _ t] spec [of _ "Ev_status w [] # output_events F i r"] simp: output_events_def publishes_def)

lemma execution_settles_task:
  assumes "sdk_applies sdk" and "reads_back F" and "gated F D"
    and "execute_task F D q = (res, events)" and "rc_current_task q = Some t" and "rc_message q = Some m"
    and "tk_artifacts t = [] \<or> (\<exists>draft. publishes F t draft \<and> map_option hp_kind (ag_human_prompt draft) = Some (gate_kind D))"
  shows "settled F D (sdk t events) m"
  using assms(4-6)
proof (cases rule: executor_cases)
  case (stopped s ps)
  then have "ts_state (tk_status (sdk t events)) = s"
    using assms(1) unfolding sdk_applies_def
    by (auto dest!: spec [of _ t] spec [of _ events])
  with stopped(2) show ?thesis by (auto simp: settled_def)
next
  case (finished r ctx)
  note out = sdk_output [OF assms(1), where t = t and w = TASK_STATE_WORKING and F = F and i = "rc_task_id q" and r = r, folded finished(3)]
  from finished(2) consider (fresh) r0 where "r = with_gates F D r0"
    | (answer) response where "cx_human_response ctx = Some response" "tk_artifacts t \<noteq> []"
        "resume F D t ctx response = Inr (Some r)"
    using assms(5) by (auto simp: produce_def rbind_eq_Inr split: option.splits list.splits if_splits)
  then show ?thesis
  proof cases
    case fresh
    then have kind: "map_option hp_kind (ag_human_prompt r) = Some (gate_kind D)" using with_gates_prompt [OF assms(3)] by simp
    then have "ag_human_prompt r \<noteq> None" by auto
    with out kind show ?thesis unfolding settled_def by auto
  next
    case answer
    with assms(7) obtain draft where "publishes F t draft" "map_option hp_kind (ag_human_prompt draft) = Some (gate_kind D)" by auto
    from resume_gated [OF answer(3) assms(2) this] obtain stored s where r: "r = stored\<lparr>ag_human_prompt := None\<rparr>"
      "map_option hp_kind (ag_human_prompt stored) = Some (gate_kind D)"
      "dget response ''artifact_sha256'' = JStr (content_digest (fl_py F) (ag_content stored))"
      "dget response ''decision'' = JStr s" "s \<in> gate_decisions D" by blast
    then have "accepted_draft F D (sdk t events) m"
      unfolding accepted_draft_def using out(2) finished(1) answer(1) by (intro exI conjI) simp_all
    with out(1) r(1) show ?thesis by (simp add: settled_def)
  qed
qed

lemma task_life_settled:
  assumes "task_life F D sdk t ms" and "sdk_applies sdk" and "reads_back F" and "gated F D"
  shows "ms \<noteq> [] \<and> settled F D t (last ms)"
  using assms(1)
proof (induction rule: task_life.induct)
  case (life_start owner uids m db t db' q res events)
  then have "tk_artifacts t = []"
    by (auto simp: reserve_def Let_def split: option.splits if_splits)
  then show ?case using execution_settles_task [OF assms(2-4) life_start(5,3,4)] by simp
next
  case (life_continue t ms m db owner uids t' db' q res events)
  have t': "ts_state (tk_status t) = TASK_STATE_INPUT_REQUIRED" "tk_artifacts t' = tk_artifacts t"
    using life_continue(2-4) by (auto simp: reserve_def get_task_def Let_def split: option.splits if_splits)
  from life_continue(8) t' obtain draft where "publishes F t' draft"
    "map_option hp_kind (ag_human_prompt draft) = Some (gate_kind D)"
    by (auto simp: settled_def publishes_def)
  then show ?case using execution_settles_task [OF assms(2-4) life_continue(7,5,6)] by auto
next
  case (life_end t ms t')
  then show ?case by (simp add: settled_def)
qed


definition demo_value :: "jdict option \<Rightarrow> json" where
  "demo_value response = JObj [(''human_response'', jopt JObj response)]"

fun demo_context_of :: "json \<Rightarrow> agent_context result" where
  "demo_context_of (JObj d) = Inr \<lparr>cx_project_id = [], cx_retry_attempt = 0, cx_run_id = ''run_1'', cx_idea = ''i'',
     cx_stage = REQUIREMENTS, cx_artifacts = [],
     cx_human_response = (case dget d ''human_response'' of JObj r \<Rightarrow> Some r | _ \<Rightarrow> None),
     cx_repair_attempt = 0, cx_repair_feedback = None, cx_repair_artifact_id = None, cx_repair_artifact_sha256 = None\<rparr>"
| "demo_context_of _ = Inl (ValueError ''AgentContext'')"

fun demo_prompt_of :: "json \<Rightarrow> human_prompt option" where
  "demo_prompt_of (JObj d) = Some \<lparr>hp_kind = (if dget d ''kind'' = JStr ''approval'' then Approval
     else if dget d ''kind'' = JStr ''clarification'' then Clarification else Evaluation_decision), hp_question = ''Why?''\<rparr>"
| "demo_prompt_of _ = None"

fun demo_result_of :: "json \<Rightarrow> agent_result result" where
  "demo_result_of (JObj d) = Inr ((demo_result REQUIREMENTS_SPEC (case dget d ''content'' of JObj c \<Rightarrow> c | _ \<Rightarrow> []) 1)
     \<lparr>ag_human_prompt := demo_prompt_of (dget d ''human_prompt'')\<rparr>)"
| "demo_result_of _ = Inl (ValueError ''AgentResult'')"

definition demo_fleet :: fleet where
  "demo_fleet = \<lparr>fl_py = cd_py demo_codec, fl_codec = demo_codec, fl_settings = demo_settings,
     fl_context = demo_context_of, fl_result = demo_result_of, fl_value = (\<lambda>j. j)\<rparr>"

definition demo_sdk :: "task \<Rightarrow> task_event list \<Rightarrow> task" where
  "demo_sdk t events = (let states = concat (map event_states events) in
     t\<lparr>tk_status := plain_status (if states = [] then ts_state (tk_status t) else last states),
       tk_artifacts := tk_artifacts t @ concat (map event_artifacts events)\<rparr>)"

definition demo_question :: message where
  "demo_question = \<lparr>ms_message_id = ''m1'', ms_context_id = ''c1'', ms_task_id = [], ms_role = ''user'',
     ms_parts = [\<lparr>pt_text = [], pt_data = Some (demo_value None), pt_media_type = APPLICATION_JSON\<rparr>]\<rparr>"

definition demo_approval :: jdict where
  "demo_approval = [(''decision'', JStr ''approve''),
     (''artifact_sha256'', JStr (content_digest (cd_py demo_codec) [(''x'', JStr ''y'')]))]"

definition demo_answer :: message where
  "demo_answer = \<lparr>ms_message_id = ''m2'', ms_context_id = ''c1'', ms_task_id = ''t1'', ms_role = ''user'',
     ms_parts = [\<lparr>pt_text = [], pt_data = Some (demo_value (Some demo_approval)), pt_media_type = APPLICATION_JSON\<rparr>]\<rparr>"

lemma demo_sdk_applies: "sdk_applies demo_sdk"
  by (simp add: sdk_applies_def demo_sdk_def Let_def plain_status_def)

lemma demo_reads_back: "reads_back demo_fleet"
  unfolding reads_back_def
proof (rule allI)
  fix r
  show "\<exists>r'. fl_result demo_fleet (fl_value demo_fleet (JObj (result_dump r))) = Inr r'
     \<and> map_option hp_kind (ag_human_prompt r') = map_option hp_kind (ag_human_prompt r)"
    by (cases "ag_human_prompt r"; cases "hp_kind (the (ag_human_prompt r))")
      (simp_all add: demo_fleet_def result_dump_def dget_def jopt_def prompt_dump_def)
qed

lemma demo_gated: "gated demo_fleet demo_specialist"
  by (simp add: gated_def demo_fleet_def demo_settings_def demo_specialist_def approval_gate_def)

definition demo_request :: "task \<Rightarrow> message \<Rightarrow> request_context" where
  "demo_request t m = \<lparr>rc_task_id = ''t1'', rc_context_id = ''c1'', rc_message = Some m, rc_current_task = Some t\<rparr>"

lemmas demo_server_defs = demo_fleet_def demo_codec_def demo_specialist_def demo_settings_def demo_value_def
  demo_approval_def demo_request_def


end
