(* ===== verification/A2AClient.thy ===== *)
theory A2AClient
  imports A2AServer
begin

text \<open>
  \<open>a2a/client.py\<close>: the hub side of the protocol. An operation runs on the hub, the delegation record
  and the log of the requests that went out; the network is an environment that answers the
  \<open>n\<close>-th exchange. A deadline or a cancellation of the invocation is an exchange that raises
  \<open>TimeoutError\<close> or \<open>CancelledError\<close>. The polling loop has no bound in the code but the deadline:
  \<open>nt_polls\<close> is the number of polls until the deadline, counted anew after each answer of a person,
  and \<open>nt_answers\<close> the number of answers until the process is stopped.
\<close>

section \<open>Errors\<close>

datatype client_error =
    Http_status_error nat string
  | Http_request_error string
  | Sdk_error string "client_error option"
  | Raised py_error

fun transient :: "client_error \<Rightarrow> bool" where
  "transient (Http_status_error code _) = (500 \<le> code \<or> code = 408 \<or> code = 429)"
| "transient (Http_request_error _) = True"
| "transient (Sdk_error _ (Some cause)) = transient cause"
| "transient (Sdk_error _ None) = False"
| "transient (Raised _) = False"

fun client_error_text :: "client_error \<Rightarrow> string" where
  "client_error_text (Http_status_error _ s) = s"
| "client_error_text (Http_request_error s) = s"
| "client_error_text (Sdk_error s _) = s"
| "client_error_text (Raised e) = error_text e"

section \<open>State and composition\<close>

datatype request =
    Rq_card string
  | Rq_send message
  | Rq_get string
  | Rq_cancel string

record client =
  cl_hub :: hub
  cl_mapping :: delegated_task
  cl_connected :: bool
  cl_tick :: nat
  cl_requests :: "request list"

type_synonym 'a client_op = "client \<Rightarrow> (client_error + 'a) \<times> client"

definition creturn :: "'a \<Rightarrow> 'a client_op" where
  "creturn x = (\<lambda>c. (Inr x, c))"

definition craise :: "client_error \<Rightarrow> 'a client_op" where
  "craise e = (\<lambda>c. (Inl e, c))"

definition cbind :: "'a client_op \<Rightarrow> ('a \<Rightarrow> 'b client_op) \<Rightarrow> 'b client_op" where
  "cbind m f = (\<lambda>c. case m c of (Inl e, c') \<Rightarrow> (Inl e, c') | (Inr x, c') \<Rightarrow> f x c')"

definition ccatch :: "'a client_op \<Rightarrow> (client_error \<Rightarrow> 'a client_op) \<Rightarrow> 'a client_op" where
  "ccatch m f = (\<lambda>c. case m c of (Inl e, c') \<Rightarrow> f e c' | (Inr x, c') \<Rightarrow> (Inr x, c'))"

definition cguard :: "bool \<Rightarrow> py_error \<Rightarrow> unit client_op" where
  "cguard b e = (if b then creturn () else craise (Raised e))"

definition on_hub :: "'a hub_op \<Rightarrow> 'a client_op" where
  "on_hub m = (\<lambda>c. case m (cl_hub c) of
     (Inl e, h) \<Rightarrow> (Inl (Raised e), c\<lparr>cl_hub := h\<rparr>) | (Inr x, h) \<Rightarrow> (Inr x, c\<lparr>cl_hub := h\<rparr>))"

definition the_mapping :: "delegated_task client_op" where
  "the_mapping = (\<lambda>c. (Inr (cl_mapping c), c))"

definition set_mapping :: "(delegated_task \<Rightarrow> delegated_task) \<Rightarrow> unit client_op" where
  "set_mapping f = (\<lambda>c. (Inr (), c\<lparr>cl_mapping := f (cl_mapping c)\<rparr>))"

text \<open>One exchange: the request is logged and the network answers.\<close>

definition exchange :: "(nat \<Rightarrow> client_error + 'a) \<Rightarrow> request \<Rightarrow> 'a client_op" where
  "exchange answer r = (\<lambda>c. (answer (cl_tick c), c\<lparr>cl_tick := cl_tick c + 1, cl_requests := cl_requests c @ [r]\<rparr>))"

section \<open>The network\<close>

datatype stream_reply =
    Rs_task string string task_state
  | Rs_status string string task_state
  | Rs_artifact string string string
  | Rs_message

record network =
  nt_card :: "nat \<Rightarrow> client_error + agent_card"
  nt_send :: "nat \<Rightarrow> stream_reply list \<times> (client_error + unit)"
  nt_get :: "nat \<Rightarrow> client_error + task"
  nt_cancel :: "nat \<Rightarrow> client_error + unit"
  nt_sleep :: "nat \<Rightarrow> client_error + unit"
  nt_polls :: nat
  nt_answers :: nat

text \<open>The hub, its policy for human input, the parser of results and the \<open>Value\<close> conversion.\<close>

record invoker =
  in_runtime :: runtime
  in_network :: network
  in_result :: "json \<Rightarrow> agent_result result"
  in_value :: "json \<Rightarrow> json"
  in_human :: "(nat \<Rightarrow> delegated_task \<Rightarrow> agent_result \<Rightarrow> jdict hub_op) option"

definition TERMINAL :: "task_state list" where
  "TERMINAL = [TASK_STATE_COMPLETED, TASK_STATE_FAILED, TASK_STATE_CANCELED, TASK_STATE_REJECTED,
     TASK_STATE_INPUT_REQUIRED, TASK_STATE_AUTH_REQUIRED]"

definition validate_card :: "agent_card \<Rightarrow> agent_spec \<Rightarrow> string \<Rightarrow> unit result" where
  "validate_card received spec endpoint =
     (let interfaces = ac_supported_interfaces received in
      if ac_name received \<noteq> sp_name spec \<or> \<not> ac_streaming received
         \<or> APPLICATION_JSON \<notin> set (ac_default_input_modes received)
         \<or> APPLICATION_JSON \<notin> set (ac_default_output_modes received)
         \<or> ac_security_requirements received \<noteq> []
         \<or> \<not> list_ex (\<lambda>k. sk_id k = stage_value (sp_stage spec)) (ac_skills received)
         \<or> length interfaces \<noteq> 1
         \<or> if_protocol_version (hd interfaces) \<noteq> ''1.0''
         \<or> if_protocol_binding (hd interfaces) \<noteq> ''JSONRPC''
         \<or> if_url (hd interfaces) \<noteq> endpoint
      then Inl (ValueError ''Agent Card does not match the pinned A2A contract'') else Inr ())"

section \<open>Requests of an invocation\<close>

definition attempt_suffix :: "agent_context \<Rightarrow> string" where
  "attempt_suffix ctx =
     (if cx_repair_attempt ctx \<noteq> 0 then '':repair:'' @ nat_str (cx_repair_attempt ctx) else [])
     @ (if cx_retry_attempt ctx \<noteq> 0 then '':retry:'' @ nat_str (cx_retry_attempt ctx) else [])"

definition invocation_id :: "agent_spec \<Rightarrow> agent_context \<Rightarrow> string" where
  "invocation_id spec ctx =
     cx_run_id ctx @ '':'' @ stage_value (cx_stage ctx) @ '':'' @ sp_name spec @ attempt_suffix ctx"

definition new_mapping :: "settings \<Rightarrow> agent_spec \<Rightarrow> agent_context \<Rightarrow> delegated_task" where
  "new_mapping s spec ctx =
     \<lparr>dt_invocation_id = invocation_id spec ctx, dt_run_id = cx_run_id ctx, dt_stage = cx_stage ctx,
      dt_agent = sp_name spec, dt_endpoint = agent_base s (sp_name spec) @ ''/rpc'',
      dt_context_id = cx_run_id ctx @ '':'' @ stage_value (cx_stage ctx) @ attempt_suffix ctx,
      dt_task_id = None, dt_state = ''pending'', dt_attempts = 0,
      dt_repair_attempt = cx_repair_attempt ctx\<rparr>"

definition context_part :: "invoker \<Rightarrow> agent_context \<Rightarrow> part" where
  "context_part I ctx = \<lparr>pt_text = [], pt_data = Some (in_value I (JObj (context_dump ctx))), pt_media_type = APPLICATION_JSON\<rparr>"

definition initial_message :: "invoker \<Rightarrow> agent_spec \<Rightarrow> agent_context \<Rightarrow> message" where
  "initial_message I spec ctx =
     (let m = new_mapping (rt_settings (in_runtime I)) spec ctx in
      \<lparr>ms_message_id = dt_invocation_id m, ms_context_id = dt_context_id m, ms_task_id = [],
       ms_role = ''ROLE_USER'', ms_parts = [context_part I ctx]\<rparr>)"

definition continuation_message :: "invoker \<Rightarrow> agent_context \<Rightarrow> delegated_task \<Rightarrow> task \<Rightarrow> jdict \<Rightarrow> message result" where
  "continuation_message I ctx m t response =
     rbind (dindex response ''action_id'') (\<lambda>action.
     Inr \<lparr>ms_message_id = dt_invocation_id m @ '':human:'' @ py_str (wd_py (rt_world (in_runtime I))) action,
       ms_context_id = tk_context_id t, ms_task_id = tk_id t, ms_role = ''ROLE_USER'',
       ms_parts = [context_part I (ctx\<lparr>cx_human_response := Some response\<rparr>)]\<rparr>)"

section \<open>Delegation records\<close>

abbreviation in_world :: "invoker \<Rightarrow> world" where
  "in_world I \<equiv> rt_world (in_runtime I)"

definition client_emit :: "invoker \<Rightarrow> string \<Rightarrow> string \<Rightarrow> jdict \<Rightarrow> unit client_op" where
  "client_emit I run_id event_type payload = on_hub (emit (in_runtime I) run_id event_type payload)"

definition save_mapping :: "invoker \<Rightarrow> unit client_op" where
  "save_mapping I = cbind the_mapping (\<lambda>m. on_hub (on_db (\<lambda>_. save_delegated_task m) (in_world I)))"

text \<open>\<open>update\<close>: the task may be named once and never changes; a change of state is an event.\<close>

definition update_mapping :: "invoker \<Rightarrow> string \<Rightarrow> string \<Rightarrow> task_state \<Rightarrow> unit client_op" where
  "update_mapping I task_id context_id state = cbind the_mapping (\<lambda>m.
     cbind (cguard (task_id \<noteq> [] \<and> context_id = dt_context_id m) (ValueError ''A2A task/context identity mismatch'')) (\<lambda>_.
     cbind (cguard (dt_task_id m \<in> {None, Some [], Some task_id}) (ValueError ''Agent changed the delegated task ID'')) (\<lambda>_.
     let name = task_state_name state in
     cbind (set_mapping (\<lambda>m. m\<lparr>dt_task_id := Some task_id, dt_state := name\<rparr>)) (\<lambda>_.
     cbind (save_mapping I) (\<lambda>_.
     if dt_state m \<noteq> name
     then cbind the_mapping (\<lambda>m'. client_emit I (dt_run_id m) ''a2a.task_status'' (task_dump m'))
     else creturn ())))))"

section \<open>Streams\<close>

definition first_reply :: "invoker \<Rightarrow> agent_spec \<Rightarrow> stream_reply \<Rightarrow> unit client_op" where
  "first_reply I spec r = (case r of
       Rs_task i ctx s \<Rightarrow> update_mapping I i ctx s
     | Rs_status i ctx s \<Rightarrow> update_mapping I i ctx s
     | Rs_artifact i ctx artifact_id \<Rightarrow> cbind the_mapping (\<lambda>m.
         cbind (cguard (dt_task_id m = Some i \<and> ctx = dt_context_id m) (ValueError ''Artifact task/context identity mismatch'')) (\<lambda>_.
         client_emit I (dt_run_id m) ''a2a.artifact_received''
           [(''agent'', JStr (sp_name spec)), (''task_id'', JStr i), (''artifact_id'', JStr artifact_id)]))
     | Rs_message \<Rightarrow> craise (Raised (ValueError ''Expected A2A task events, not a direct message'')))"

definition later_reply :: "invoker \<Rightarrow> stream_reply \<Rightarrow> unit client_op" where
  "later_reply I r = (case r of
       Rs_task i ctx s \<Rightarrow> update_mapping I i ctx s
     | Rs_status i ctx s \<Rightarrow> update_mapping I i ctx s
     | _ \<Rightarrow> creturn ())"

fun consume :: "(stream_reply \<Rightarrow> unit client_op) \<Rightarrow> stream_reply list \<Rightarrow> client_error + unit \<Rightarrow> unit client_op" where
  "consume f [] outcome = (\<lambda>c. (outcome, c))"
| "consume f (r # rs) outcome = cbind (f r) (\<lambda>_. consume f rs outcome)"

definition send_stream :: "invoker \<Rightarrow> message \<Rightarrow> (stream_reply \<Rightarrow> unit client_op) \<Rightarrow> unit client_op" where
  "send_stream I m f = cbind (exchange (\<lambda>n. Inr (nt_send (in_network I) n)) (Rq_send m)) (\<lambda>(rs, outcome). consume f rs outcome)"

section \<open>Results\<close>

definition decode_result :: "invoker \<Rightarrow> agent_spec \<Rightarrow> task \<Rightarrow> agent_result result" where
  "decode_result I spec t = (case tk_artifacts t of
       [a] \<Rightarrow> (case ta_parts a of
           [p] \<Rightarrow>
             (case pt_data p of
                None \<Rightarrow> Inl (ValueError ''Expected application/json result artifact'')
              | Some data \<Rightarrow>
                  if pt_media_type p \<noteq> APPLICATION_JSON
                  then Inl (ValueError ''Expected application/json result artifact'')
                  else rbind (in_result I data) (\<lambda>r.
                    if ag_artifact_kind r \<noteq> sp_artifact_kind spec
                    then Inl (ValueError (''Unexpected artifact kind from '' @ sp_name spec)) else Inr r))
         | _ \<Rightarrow> Inl (ValueError ''Expected exactly one structured result artifact''))
     | _ \<Rightarrow> Inl (ValueError ''Expected exactly one structured result artifact''))"

text \<open>\<open>TaskState.Name\<close>.\<close>

definition task_state_label :: "task_state \<Rightarrow> string" where
  "task_state_label s = (case s of
       TASK_STATE_UNSPECIFIED \<Rightarrow> ''TASK_STATE_UNSPECIFIED'' | TASK_STATE_SUBMITTED \<Rightarrow> ''TASK_STATE_SUBMITTED''
     | TASK_STATE_WORKING \<Rightarrow> ''TASK_STATE_WORKING'' | TASK_STATE_COMPLETED \<Rightarrow> ''TASK_STATE_COMPLETED''
     | TASK_STATE_FAILED \<Rightarrow> ''TASK_STATE_FAILED'' | TASK_STATE_CANCELED \<Rightarrow> ''TASK_STATE_CANCELED''
     | TASK_STATE_INPUT_REQUIRED \<Rightarrow> ''TASK_STATE_INPUT_REQUIRED'' | TASK_STATE_REJECTED \<Rightarrow> ''TASK_STATE_REJECTED''
     | TASK_STATE_AUTH_REQUIRED \<Rightarrow> ''TASK_STATE_AUTH_REQUIRED'')"

definition task_result :: "invoker \<Rightarrow> agent_spec \<Rightarrow> task \<Rightarrow> agent_result result" where
  "task_result I spec t =
     (if ts_state (tk_status t) = TASK_STATE_CANCELED
      then Inl (RemoteTaskCanceled (sp_name spec @ '' task '' @ tk_id t @ '' was canceled''))
      else if ts_state (tk_status t) \<noteq> TASK_STATE_COMPLETED
      then Inl (RemoteTaskError (sp_name spec @ '': '' @ task_state_label (ts_state (tk_status t)) @ '' ''
        @ join '' '' (case ts_message (tk_status t) of None \<Rightarrow> [] | Some m \<Rightarrow> map pt_text (ms_parts m))))
      else decode_result I spec t)"

definition from_result :: "'a result \<Rightarrow> 'a client_op" where
  "from_result r = (case r of Inl e \<Rightarrow> craise (Raised e) | Inr x \<Rightarrow> creturn x)"

section \<open>One attempt\<close>

definition connect :: "invoker \<Rightarrow> agent_spec \<Rightarrow> unit client_op" where
  "connect I spec = (\<lambda>c. if cl_connected c then creturn () c
     else cbind the_mapping (\<lambda>m.
       cbind (exchange (nt_card (in_network I)) (Rq_card (agent_base (rt_settings (in_runtime I)) (sp_name spec)))) (\<lambda>received.
       cbind (from_result (validate_card received spec (dt_endpoint m))) (\<lambda>_.
       cbind (\<lambda>c. (Inr (), c\<lparr>cl_connected := True\<rparr>)) (\<lambda>_.
       client_emit I (dt_run_id m) ''a2a.agent_discovered''
         [(''agent'', JStr (sp_name spec)), (''endpoint'', JStr (dt_endpoint m)), (''protocol'', JStr ''1.0'')])))) c)"

definition get_remote_task :: "invoker \<Rightarrow> string \<Rightarrow> task client_op" where
  "get_remote_task I i = exchange (nt_get (in_network I)) (Rq_get i)"

text \<open>
  One poll: the state of the task is recorded; then either a person is asked and the answer is
  sent (\<open>Answered\<close>: the loop goes round again at once), or the result is returned, or the loop sleeps.
\<close>

datatype poll_outcome = Answered | Finished agent_result | Waiting_on

definition answer_task :: "invoker \<Rightarrow> agent_spec \<Rightarrow> agent_context \<Rightarrow> task \<Rightarrow> poll_outcome client_op" where
  "answer_task I spec ctx t = cbind (from_result (decode_result I spec t)) (\<lambda>draft.
     case (in_human I, ag_human_prompt draft) of
       (Some human, Some _) \<Rightarrow>
         cbind the_mapping (\<lambda>m.
         cbind (\<lambda>c. on_hub (human (cl_tick c) m draft) c) (\<lambda>response.
         cbind (from_result (continuation_message I ctx m t response)) (\<lambda>continuation.
         cbind (send_stream I continuation (later_reply I)) (\<lambda>_. creturn Answered))))
     | _ \<Rightarrow> craise (Raised (RemoteTaskError ''Agent requested unsupported human input'')))"

definition poll_task :: "invoker \<Rightarrow> agent_spec \<Rightarrow> agent_context \<Rightarrow> poll_outcome client_op" where
  "poll_task I spec ctx = cbind the_mapping (\<lambda>m.
     cbind (get_remote_task I (case dt_task_id m of None \<Rightarrow> [] | Some i \<Rightarrow> i)) (\<lambda>t.
     cbind (update_mapping I (tk_id t) (tk_context_id t) (ts_state (tk_status t))) (\<lambda>_.
     if ts_state (tk_status t) = TASK_STATE_INPUT_REQUIRED then answer_task I spec ctx t
     else if ts_state (tk_status t) \<in> set TERMINAL
     then cbind (from_result (task_result I spec t)) (\<lambda>r. creturn (Finished r))
     else cbind (\<lambda>c. (nt_sleep (in_network I) (cl_tick c), c\<lparr>cl_tick := cl_tick c + 1\<rparr>)) (\<lambda>_. creturn Waiting_on))))"

function poll_loop :: "invoker \<Rightarrow> agent_spec \<Rightarrow> agent_context \<Rightarrow> nat \<Rightarrow> nat \<Rightarrow> agent_result client_op" where
  "poll_loop I spec ctx answers polls c =
     (if polls = 0 then (Inl (Raised TimeoutError), c)
      else case poll_task I spec ctx c of
        (Inl e, c') \<Rightarrow> (Inl e, c')
      | (Inr (Finished r), c') \<Rightarrow> (Inr r, c')
      | (Inr Waiting_on, c') \<Rightarrow> poll_loop I spec ctx answers (polls - 1) c'
      | (Inr Answered, c') \<Rightarrow>
          if answers = 0 then (Inl (Raised CancelledError), c')
          else poll_loop I spec ctx (answers - 1) (nt_polls (in_network I)) c')"
  by auto
termination
  by (relation "measures [\<lambda>(I, spec, ctx, answers, polls, c). answers, \<lambda>(I, spec, ctx, answers, polls, c). polls]") auto

declare poll_loop.simps [simp del]

definition try_attempt :: "invoker \<Rightarrow> agent_spec \<Rightarrow> agent_context \<Rightarrow> agent_result client_op" where
  "try_attempt I spec ctx =
     cbind (connect I spec) (\<lambda>_.
     cbind the_mapping (\<lambda>m.
     cbind (if dt_task_id m = None then send_stream I (initial_message I spec ctx) (first_reply I spec) else creturn ()) (\<lambda>_.
     cbind the_mapping (\<lambda>m.
     cbind (cguard (dt_task_id m \<noteq> None) (ValueError ''Agent stream ended without a task'')) (\<lambda>_.
     poll_loop I spec ctx (nt_answers (in_network I)) (nt_polls (in_network I)))))))"

section \<open>Retries\<close>

text \<open>The loop over \<open>attempt\<close>; \<open>left\<close> is the number of attempts that \<open>range\<close> still holds.\<close>

fun retry_loop :: "invoker \<Rightarrow> agent_spec \<Rightarrow> agent_context \<Rightarrow> nat \<Rightarrow> nat \<Rightarrow> agent_result client_op" where
  "retry_loop I spec ctx attempt 0 = craise (Raised (RuntimeError ''A2A retry loop ended unexpectedly''))"
| "retry_loop I spec ctx attempt (Suc left) =
     cbind (set_mapping (\<lambda>m. m\<lparr>dt_attempts := attempt + 1\<rparr>)) (\<lambda>_.
     cbind (save_mapping I) (\<lambda>_.
     ccatch (try_attempt I spec ctx) (\<lambda>e.
       if e = Raised CancelledError \<or> \<not> transient e \<or> cf_a2a_max_retries (rt_settings (in_runtime I)) \<le> attempt
       then craise e
       else cbind the_mapping (\<lambda>m.
         cbind (client_emit I (dt_run_id m) ''a2a.retry''
           [(''agent'', JStr (sp_name spec)), (''attempt'', JInt (int (attempt + 2))),
            (''invocation_id'', JStr (dt_invocation_id m)), (''reason'', JStr (client_error_text e))]) (\<lambda>_.
         cbind (\<lambda>c. (nt_sleep (in_network I) (cl_tick c), c\<lparr>cl_tick := cl_tick c + 1\<rparr>)) (\<lambda>_.
         retry_loop I spec ctx (attempt + 1) left))))))"

section \<open>Cancellation\<close>

text \<open>The last task that the recovery names wins.\<close>

fun recovered_task :: "stream_reply list \<Rightarrow> string option \<Rightarrow> string option" where
  "recovered_task [] i = i"
| "recovered_task (Rs_task j _ _ # rs) i = recovered_task rs (Some j)"
| "recovered_task (_ # rs) i = recovered_task rs i"

definition recover_task :: "invoker \<Rightarrow> message \<Rightarrow> unit client_op" where
  "recover_task I m = cbind (exchange (\<lambda>n. Inr (nt_send (in_network I) n)) (Rq_send m)) (\<lambda>(rs, outcome).
     cbind (set_mapping (\<lambda>mp. mp\<lparr>dt_task_id := recovered_task rs (dt_task_id mp)\<rparr>)) (\<lambda>_ c. (outcome, c)))"

definition cancel_remote :: "invoker \<Rightarrow> string \<Rightarrow> unit client_op" where
  "cancel_remote I i = ccatch (exchange (nt_cancel (in_network I)) (Rq_cancel i))
     (\<lambda>e. case e of Raised (TaskNotCancelableError _) \<Rightarrow> creturn () | _ \<Rightarrow> craise e)"

definition confirm_cancel :: "invoker \<Rightarrow> string \<Rightarrow> unit client_op" where
  "confirm_cancel I i =
     cbind (cancel_remote I i) (\<lambda>_.
     cbind (get_remote_task I i) (\<lambda>t.
     cbind (set_mapping (\<lambda>m. m\<lparr>dt_state := task_state_name (ts_state (tk_status t))\<rparr>)) (\<lambda>_.
     cbind (save_mapping I) (\<lambda>_.
     cbind the_mapping (\<lambda>m.
     client_emit I (dt_run_id m) ''a2a.cancellation_result'' (task_dump m))))))"

definition cancel_invocation :: "invoker \<Rightarrow> agent_spec \<Rightarrow> agent_context \<Rightarrow> unit client_op" where
  "cancel_invocation I spec ctx = (\<lambda>c. if \<not> cl_connected c then creturn () c
     else ccatch
       (cbind the_mapping (\<lambda>m.
        cbind (if dt_task_id m = None then recover_task I (initial_message I spec ctx) else creturn ()) (\<lambda>_.
        cbind the_mapping (\<lambda>m.
        case dt_task_id m of
          Some (ch # chs) \<Rightarrow> confirm_cancel I (ch # chs)
        | _ \<Rightarrow> creturn ()))))
       (\<lambda>e. if e = Raised CancelledError then craise e
         else cbind the_mapping (\<lambda>m. client_emit I (dt_run_id m) ''a2a.cancellation_failed''
            [(''agent'', JStr (dt_agent m)), (''reason'', JStr (client_error_text e))])) c)"

section \<open>An invocation\<close>

definition invocation_failed :: "invoker \<Rightarrow> agent_spec \<Rightarrow> agent_context \<Rightarrow> client_error \<Rightarrow> agent_result client_op" where
  "invocation_failed I spec ctx e =
     cbind the_mapping (\<lambda>m.
     cbind (if dt_state m \<in> {''submitted'', ''working'', ''input_required''}
            then cancel_invocation I spec ctx else creturn ()) (\<lambda>_.
     cbind the_mapping (\<lambda>m.
     cbind (if dt_state m = ''pending''
            then cbind (set_mapping (\<lambda>m. m\<lparr>dt_state := ''failed''\<rparr>)) (\<lambda>_. save_mapping I) else creturn ()) (\<lambda>_.
     cbind the_mapping (\<lambda>m.
     cbind (client_emit I (dt_run_id m) ''a2a.invocation_failed''
       [(''agent'', JStr (sp_name spec)), (''reason'', JStr (client_error_text e)),
        (''task_id'', jopt JStr (dt_task_id m))]) (\<lambda>_.
     craise e))))))"

definition invoke :: "invoker \<Rightarrow> agent_spec \<Rightarrow> agent_context \<Rightarrow> agent_result client_op" where
  "invoke I spec ctx =
     ccatch (retry_loop I spec ctx 0 (cf_a2a_max_retries (rt_settings (in_runtime I)) + 1)) (\<lambda>e.
       if e \<in> {Raised CancelledError, Raised TimeoutError}
       then cbind (cancel_invocation I spec ctx) (\<lambda>_. craise e)
       else invocation_failed I spec ctx e)"

definition start_client :: "invoker \<Rightarrow> agent_spec \<Rightarrow> agent_context \<Rightarrow> hub \<Rightarrow> client" where
  "start_client I spec ctx h = \<lparr>cl_hub = h, cl_mapping = new_mapping (rt_settings (in_runtime I)) spec ctx,
     cl_connected = False, cl_tick = 0, cl_requests = []\<rparr>"

section \<open>Reconciliation before a retry\<close>

definition SETTLED :: "string list" where
  "SETTLED = [''completed'', ''failed'', ''canceled'', ''rejected'']"

definition reconcile_one :: "invoker \<Rightarrow> string \<Rightarrow> delegated_task \<Rightarrow> unit client_op" where
  "reconcile_one I run_id m =
     (if dt_state m \<in> set SETTLED then creturn ()
      else case dt_task_id m of
        Some (ch # chs) \<Rightarrow>
          (case List.find (\<lambda>s. sp_name s = dt_agent m) AGENT_SPECS of
             None \<Rightarrow> craise (Raised StopIteration)
           | Some spec \<Rightarrow>
               let i = ch # chs; base = agent_base (rt_settings (in_runtime I)) (sp_name spec) in
               cbind (exchange (nt_card (in_network I)) (Rq_card base)) (\<lambda>received.
               cbind (from_result (validate_card received spec (base @ ''/rpc''))) (\<lambda>_.
               cbind (get_remote_task I i) (\<lambda>t.
               cbind (if task_state_name (ts_state (tk_status t)) \<in> set SETTLED
                      then creturn (task_state_name (ts_state (tk_status t)))
                      else cbind (cancel_remote I i) (\<lambda>_.
                        cbind (get_remote_task I i) (\<lambda>t'. creturn (task_state_name (ts_state (tk_status t')))))) (\<lambda>state.
               cbind (set_mapping (\<lambda>_. m\<lparr>dt_state := state\<rparr>)) (\<lambda>_.
               cbind (save_mapping I) (\<lambda>_.
               cbind (client_emit I run_id ''a2a.cancellation_result'' (task_dump (m\<lparr>dt_state := state\<rparr>))) (\<lambda>_.
               cguard (state \<in> set SETTLED)
                 (RuntimeError (''Previous '' @ sp_name spec @ '' task is still active; retry withheld''))))))))))
      | _ \<Rightarrow> craise (Raised (RuntimeError ''Previous remote task identity is unknown; retry cannot safely proceed'')))"

fun reconcile_all :: "invoker \<Rightarrow> string \<Rightarrow> delegated_task list \<Rightarrow> unit client_op" where
  "reconcile_all I run_id [] = creturn ()"
| "reconcile_all I run_id (m # ms) = cbind (reconcile_one I run_id m) (\<lambda>_. reconcile_all I run_id ms)"

definition reconcile_run :: "invoker \<Rightarrow> string \<Rightarrow> unit client_op" where
  "reconcile_run I run_id = (\<lambda>c. reconcile_all I run_id (list_delegated_tasks (hb_db (cl_hub c)) run_id) c)"

section \<open>Names of invocations\<close>

lemma colon_free_digits: "CHR '':'' \<notin> set (nat_str n)"
  using nat_str_digits [of n] by (auto simp: list_all_iff is_digit_def)

lemma stage_value_colon: "CHR '':'' \<notin> set (stage_value s)"
  by (cases s) simp_all

lemma split_on_free: "c \<notin> set xs \<Longrightarrow> split_on c xs = [xs]"
  by (induction xs) auto

lemma split_on_Cons: "c \<notin> set xs \<Longrightarrow> split_on c (xs @ c # ys) = xs # split_on c ys"
  by (induction xs) auto

definition invocation_parts :: "agent_spec \<Rightarrow> agent_context \<Rightarrow> string list" where
  "invocation_parts spec ctx = [cx_run_id ctx, stage_value (cx_stage ctx), sp_name spec]
     @ (if cx_repair_attempt ctx \<noteq> 0 then [''repair'', nat_str (cx_repair_attempt ctx)] else [])
     @ (if cx_retry_attempt ctx \<noteq> 0 then [''retry'', nat_str (cx_retry_attempt ctx)] else [])"

lemma split_invocation_id:
  assumes "CHR '':'' \<notin> set (cx_run_id ctx)" and "CHR '':'' \<notin> set (sp_name spec)"
  shows "split_on CHR '':'' (invocation_id spec ctx) = invocation_parts spec ctx"
    and "split_on CHR '':'' (invocation_id spec ctx @ CHR '':'' # rest) = invocation_parts spec ctx @ split_on CHR '':'' rest"
  using assms stage_value_colon [of "cx_stage ctx"] colon_free_digits
  by (simp_all add: invocation_id_def attempt_suffix_def invocation_parts_def split_on_Cons split_on_free)

lemma agent_names_colon_free: "spec \<in> set AGENT_SPECS \<Longrightarrow> CHR '':'' \<notin> set (sp_name spec)"
proof -
  have "\<forall>n \<in> set (map sp_name AGENT_SPECS). CHR '':'' \<notin> set n" by code_simp
  moreover assume "spec \<in> set AGENT_SPECS"
  then have "sp_name spec \<in> set (map sp_name AGENT_SPECS)" by (simp only: set_map image_eqI)
  ultimately show ?thesis by blast
qed

lemma parts_inj:
  "invocation_parts s1 c1 = invocation_parts s2 c2 \<Longrightarrow> cx_run_id c1 = cx_run_id c2 \<and> cx_stage c1 = cx_stage c2
    \<and> sp_name s1 = sp_name s2 \<and> cx_repair_attempt c1 = cx_repair_attempt c2 \<and> cx_retry_attempt c1 = cx_retry_attempt c2"
  by (auto simp: invocation_parts_def stage_value_inj nat_str_inj split: if_splits)

text \<open>
  C40. Message identifiers do not collide. Two invocations of catalog agents, for runs whose
  identifiers hold no colon, use the same message identifier only if they agree in run, stage,
  agent, repair attempt and retry; and a continuation that carries a person's answer never has
  the identifier of an initial message, whatever the action is called. So the binding of message
  identifiers to tasks on the server never mixes up two pieces of work.
\<close>

theorem invocation_ids_distinct:
  assumes "s1 \<in> set AGENT_SPECS" and "s2 \<in> set AGENT_SPECS"
    and "CHR '':'' \<notin> set (cx_run_id c1)" and "CHR '':'' \<notin> set (cx_run_id c2)"
  shows "(invocation_id s1 c1 = invocation_id s2 c2 \<longleftrightarrow>
      cx_run_id c1 = cx_run_id c2 \<and> cx_stage c1 = cx_stage c2 \<and> sp_name s1 = sp_name s2
      \<and> cx_repair_attempt c1 = cx_repair_attempt c2 \<and> cx_retry_attempt c1 = cx_retry_attempt c2)
    \<and> (continuation_message I c1 m t response = Inr next \<and> dt_invocation_id m = invocation_id s1 c1
        \<longrightarrow> ms_message_id next \<noteq> ms_message_id (initial_message I s2 c2))"
proof -
  note free = assms(3,4) agent_names_colon_free [OF assms(1)] agent_names_colon_free [OF assms(2)]
  note parts = split_invocation_id [OF free(1) free(3)] split_invocation_id [OF free(2) free(4)]
  have "invocation_id s1 c1 = invocation_id s2 c2 \<Longrightarrow> invocation_parts s1 c1 = invocation_parts s2 c2"
    using parts(1,3) by simp
  note forth = parts_inj [OF this]
  have conv: "invocation_id s1 c1 = invocation_id s2 c2"
    if "cx_run_id c1 = cx_run_id c2" "cx_stage c1 = cx_stage c2" "sp_name s1 = sp_name s2"
      "cx_repair_attempt c1 = cx_repair_attempt c2" "cx_retry_attempt c1 = cx_retry_attempt c2"
    using that by (simp add: invocation_id_def attempt_suffix_def)
  have human: "ms_message_id next \<noteq> ms_message_id (initial_message I s2 c2)"
    if cont: "continuation_message I c1 m t response = Inr next" and inv: "dt_invocation_id m = invocation_id s1 c1"
  proof
    assume same: "ms_message_id next = ms_message_id (initial_message I s2 c2)"
    obtain a where "ms_message_id next = invocation_id s1 c1 @ CHR '':'' # ''human:'' @ a"
      using cont inv by (auto simp: continuation_message_def rbind_eq_Inr)
    then have "invocation_id s2 c2 = invocation_id s1 c1 @ CHR '':'' # ''human'' @ CHR '':'' # a"
      using same by (simp add: initial_message_def new_mapping_def Let_def)
    then have "invocation_parts s2 c2 = invocation_parts s1 c1 @ ''human'' # split_on CHR '':'' a"
      using parts(3) parts(2) [of "''human'' @ CHR '':'' # a"] split_on_Cons [of "CHR '':''" "''human''" a] by simp
    then show False by (cases "split_on CHR '':'' a") (auto simp: invocation_parts_def split: if_splits)
  qed
  show ?thesis
    by (intro conjI iffI) (simp_all add: forth, rule conv, simp_all, rule impI, rule human, simp_all)
qed


definition demo_context :: "nat \<Rightarrow> agent_context" where
  "demo_context retry = \<lparr>cx_project_id = [], cx_retry_attempt = retry, cx_run_id = ''run_1'', cx_idea = ''i'',
     cx_stage = INTAKE, cx_artifacts = [], cx_human_response = None, cx_repair_attempt = 0,
     cx_repair_feedback = None, cx_repair_artifact_id = None, cx_repair_artifact_sha256 = None\<rparr>"

definition demo_spec :: agent_spec where
  "demo_spec = hd AGENT_SPECS"

lemma demo_spec: "demo_spec \<in> set AGENT_SPECS" "sp_name demo_spec = ''intake-agent''" "sp_artifact_kind demo_spec = PROJECT_BRIEF"
  "sp_stage demo_spec = INTAKE"
  unfolding demo_spec_def by code_simp+

theorem invocation_ids_distinct_witness:
  "invocation_id demo_spec (demo_context 1) \<noteq> invocation_id demo_spec (demo_context 2)"
proof -
  have "CHR '':'' \<notin> set (cx_run_id (demo_context n))" for n by (simp add: demo_context_def)
  from invocation_ids_distinct [OF demo_spec(1) demo_spec(1) this this, THEN conjunct1, of 1 2]
  show ?thesis by (simp add: demo_context_def)
qed

section \<open>Reasoning about client operations\<close>

definition cvalid :: "(client \<Rightarrow> bool) \<Rightarrow> 'a client_op \<Rightarrow> ('a \<Rightarrow> client \<Rightarrow> bool) \<Rightarrow> (client \<Rightarrow> bool) \<Rightarrow> bool" where
  "cvalid P m Q E \<longleftrightarrow> (\<forall>c. P c \<longrightarrow> (case m c of (Inr x, c') \<Rightarrow> Q x c' | (Inl e, c') \<Rightarrow> E c'))"

abbreviation ckeeps :: "(client \<Rightarrow> bool) \<Rightarrow> 'a client_op \<Rightarrow> bool" where
  "ckeeps P m \<equiv> cvalid P m (\<lambda>_. P) P"

named_theorems cvalid_intros "operations of the client"

lemma cvalidI: "(\<And>c r c'. P c \<Longrightarrow> m c = (r, c') \<Longrightarrow> (case r of Inr x \<Rightarrow> Q x c' | Inl e \<Rightarrow> E c')) \<Longrightarrow> cvalid P m Q E"
  by (auto simp: cvalid_def split: prod.split sum.splits)

lemma cvalidD: "cvalid P m Q E \<Longrightarrow> P c \<Longrightarrow> m c = (r, c') \<Longrightarrow> (case r of Inr x \<Rightarrow> Q x c' | Inl e \<Rightarrow> E c')"
  by (auto simp: cvalid_def split: sum.splits)

lemma cvalid_weaken:
  assumes "cvalid P m Q E" and "\<And>c. P' c \<Longrightarrow> P c" and "\<And>x c. Q x c \<Longrightarrow> Q' x c" and "\<And>c. E c \<Longrightarrow> E' c"
  shows "cvalid P' m Q' E'"
proof (rule cvalidI)
  fix c r c'
  assume c: "P' c" "m c = (r, c')"
  from cvalidD [OF assms(1) assms(2) [OF c(1)] c(2)] show "case r of Inr x \<Rightarrow> Q' x c' | Inl e \<Rightarrow> E' c'"
    using assms(3,4) by (cases r) simp_all
qed

lemma cvalid_cbind:
  assumes "cvalid P m R E" and "\<And>x. cvalid (R x) (f x) Q E"
  shows "cvalid P (cbind m f) Q E"
proof (rule cvalidI)
  fix c r c'
  assume c: "P c" "cbind m f c = (r, c')"
  obtain y d where m: "m c = (y, d)" by fastforce
  note first = cvalidD [OF assms(1) c(1) m]
  show "case r of Inr x \<Rightarrow> Q x c' | Inl e \<Rightarrow> E c'"
  proof (cases y)
    case (Inl e)
    then show ?thesis using c(2) m first by (auto simp: cbind_def)
  next
    case (Inr x)
    then have "R x d" "f x d = (r, c')" using c(2) m first by (simp_all add: cbind_def)
    then show ?thesis by (rule cvalidD [OF assms(2)])
  qed
qed

lemma cvalid_mapping: "(\<And>m. cvalid (\<lambda>c. cl_mapping c = m \<and> P c) (f m) Q E) \<Longrightarrow> cvalid P (cbind the_mapping f) Q E"
  unfolding cvalid_def cbind_def the_mapping_def by auto

lemma cvalid_ccatch:
  assumes "cvalid P m Q R" and "\<And>e. cvalid R (f e) Q E"
  shows "cvalid P (ccatch m f) Q E"
proof (rule cvalidI)
  fix c r c'
  assume c: "P c" "ccatch m f c = (r, c')"
  obtain y d where m: "m c = (y, d)" by fastforce
  note first = cvalidD [OF assms(1) c(1) m]
  show "case r of Inr x \<Rightarrow> Q x c' | Inl e \<Rightarrow> E c'"
  proof (cases y)
    case (Inl e)
    then have "R d" "f e d = (r, c')" using c(2) m first by (simp_all add: ccatch_def)
    then show ?thesis by (rule cvalidD [OF assms(2)])
  next
    case (Inr x)
    then show ?thesis using c(2) m first by (auto simp: ccatch_def)
  qed
qed

lemma cvalid_return: "(\<And>c. P c \<Longrightarrow> Q x c) \<Longrightarrow> cvalid P (creturn x) Q E"
  by (simp add: cvalid_def creturn_def)

lemma cvalid_raise: "(\<And>c. P c \<Longrightarrow> E c) \<Longrightarrow> cvalid P (craise e) Q E"
  by (simp add: cvalid_def craise_def)

lemma cvalid_if: "(b \<Longrightarrow> cvalid P m Q E) \<Longrightarrow> (\<not> b \<Longrightarrow> cvalid P n Q E) \<Longrightarrow> cvalid P (if b then m else n) Q E"
  by simp

lemma ckeeps_cbind: "ckeeps P m \<Longrightarrow> (\<And>x. ckeeps P (f x)) \<Longrightarrow> ckeeps P (cbind m f)"
  by (rule cvalid_cbind)

lemma cvalid_cbind_keeps:
  "ckeeps P m \<Longrightarrow> (\<And>c. P' c \<Longrightarrow> P c) \<Longrightarrow> (\<And>c. P c \<Longrightarrow> E c) \<Longrightarrow> (\<And>x. cvalid P (f x) Q E) \<Longrightarrow> cvalid P' (cbind m f) Q E"
  by (rule cvalid_cbind [OF cvalid_weaken [where Q' = "\<lambda>_. P"]])

lemma cvalid_guard: "(\<And>c. P c \<Longrightarrow> E c) \<Longrightarrow> cvalid P (cguard b e) (\<lambda>_ c. b \<and> P c) E"
  by (simp add: cguard_def cvalid_def creturn_def craise_def)

lemma ckeeps_from_result: "ckeeps P (from_result r)"
  by (simp add: from_result_def cvalid_def creturn_def craise_def split: sum.split)

text \<open>A predicate on the delegation and the requests does not see the hub.\<close>

definition hub_blind :: "(client \<Rightarrow> bool) \<Rightarrow> bool" where
  "hub_blind P \<longleftrightarrow> (\<forall>c h k b. P (c\<lparr>cl_hub := h, cl_tick := k, cl_connected := b\<rparr>) = P c)"

lemma hub_blindD:
  assumes "hub_blind P" and "P c" and "cl_mapping c' = cl_mapping c" and "cl_requests c' = cl_requests c"
  shows "P c'"
proof -
  have "c' = c\<lparr>cl_hub := cl_hub c', cl_tick := cl_tick c', cl_connected := cl_connected c'\<rparr>"
    using assms(3,4) by (cases c; cases c') simp
  then show ?thesis using assms(1,2) unfolding hub_blind_def by metis
qed

lemma ckeeps_on_hub_reading: "hub_blind P \<Longrightarrow> ckeeps P (\<lambda>c. on_hub (f c) c)"
proof (rule cvalidI)
  fix c r c'
  assume P: "hub_blind P" "P c" and "on_hub (f c) c = (r, c')"
  then obtain h where "c' = c\<lparr>cl_hub := h\<rparr>" by (auto simp: on_hub_def split: prod.splits sum.splits)
  then have "P c'" by (intro hub_blindD [OF P]) simp_all
  then show "case r of Inr x \<Rightarrow> P c' | Inl e \<Rightarrow> P c'" by (simp split: sum.split)
qed

lemma ckeeps_on_hub: "hub_blind P \<Longrightarrow> ckeeps P (on_hub m)"
  using ckeeps_on_hub_reading [of P "\<lambda>_. m"] by simp

lemma ckeeps_emit: "hub_blind P \<Longrightarrow> ckeeps P (client_emit I run t p)"
  unfolding client_emit_def by (rule ckeeps_on_hub)

lemma ckeeps_save: "hub_blind P \<Longrightarrow> ckeeps P (save_mapping I)"
  unfolding save_mapping_def
  by (rule cvalid_mapping, rule cvalid_weaken [OF ckeeps_on_hub]) auto

lemma ckeeps_sleep: "hub_blind P \<Longrightarrow> ckeeps P (\<lambda>c. (f (cl_tick c), c\<lparr>cl_tick := cl_tick c + 1\<rparr>))"
  by (auto simp: cvalid_def intro: hub_blindD split: sum.split)

lemma cvalid_exchange:
  assumes "\<And>c. P c \<Longrightarrow> Q (c\<lparr>cl_tick := cl_tick c + 1, cl_requests := cl_requests c @ [r]\<rparr>)"
  shows "cvalid P (exchange f r) (\<lambda>_. Q) Q"
  using assms by (auto simp: cvalid_def exchange_def split: sum.split)

lemma cvalid_set_mapping:
  assumes "\<And>c. P c \<Longrightarrow> Q (c\<lparr>cl_mapping := f (cl_mapping c)\<rparr>)"
  shows "cvalid P (set_mapping f) (\<lambda>_. Q) E"
  using assms by (auto simp: cvalid_def set_mapping_def)

section \<open>One task per invocation\<close>

definition request_ok :: "invoker \<Rightarrow> agent_spec \<Rightarrow> agent_context \<Rightarrow> string option \<Rightarrow> request \<Rightarrow> bool" where
  "request_ok I spec ctx task r = (case r of
       Rq_card base \<Rightarrow> base = agent_base (rt_settings (in_runtime I)) (sp_name spec)
     | Rq_get i \<Rightarrow> task = Some i
     | Rq_cancel i \<Rightarrow> task = Some i
     | Rq_send m \<Rightarrow> m = initial_message I spec ctx
         \<or> task = Some (ms_task_id m) \<and> ms_task_id m \<noteq> []
           \<and> ms_context_id m = ms_context_id (initial_message I spec ctx)
           \<and> (\<exists>action. ms_message_id m = invocation_id spec ctx @ '':human:'' @ action))"

definition same_work :: "invoker \<Rightarrow> agent_spec \<Rightarrow> agent_context \<Rightarrow> delegated_task \<Rightarrow> bool" where
  "same_work I spec ctx m \<longleftrightarrow>
     m\<lparr>dt_task_id := None, dt_state := ''pending'', dt_attempts := 0\<rparr> = new_mapping (rt_settings (in_runtime I)) spec ctx"

definition initial_sends :: "invoker \<Rightarrow> agent_spec \<Rightarrow> agent_context \<Rightarrow> client \<Rightarrow> nat" where
  "initial_sends I spec ctx c = length (filter (\<lambda>r. r = Rq_send (initial_message I spec ctx)) (cl_requests c))"

definition one_task :: "invoker \<Rightarrow> agent_spec \<Rightarrow> agent_context \<Rightarrow> nat \<Rightarrow> client \<Rightarrow> bool" where
  "one_task I spec ctx k c \<longleftrightarrow> same_work I spec ctx (cl_mapping c)
     \<and> (\<forall>r \<in> set (cl_requests c). request_ok I spec ctx (dt_task_id (cl_mapping c)) r)
     \<and> initial_sends I spec ctx c \<le> k"

definition known_task :: "client \<Rightarrow> bool" where
  "known_task c \<longleftrightarrow> dt_task_id (cl_mapping c) \<noteq> Some []"

definition working :: "invoker \<Rightarrow> agent_spec \<Rightarrow> agent_context \<Rightarrow> nat \<Rightarrow> client \<Rightarrow> bool" where
  "working I spec ctx k c \<longleftrightarrow> one_task I spec ctx k c \<and> known_task c"

lemma blind_working [simp]: "hub_blind (one_task I spec ctx k)" "hub_blind (working I spec ctx k)"
  by (simp_all add: hub_blind_def working_def one_task_def known_task_def initial_sends_def)

lemma same_work_fields:
  assumes "same_work I spec ctx m"
  shows "dt_invocation_id m = invocation_id spec ctx" and "dt_context_id m = ms_context_id (initial_message I spec ctx)"
    and "dt_run_id m = cx_run_id ctx" and "dt_agent m = sp_name spec"
proof -
  note eq = assms [unfolded same_work_def]
  show "dt_invocation_id m = invocation_id spec ctx" using arg_cong [OF eq, of dt_invocation_id] by (simp add: new_mapping_def)
  show "dt_context_id m = ms_context_id (initial_message I spec ctx)"
    using arg_cong [OF eq, of dt_context_id] by (simp add: initial_message_def Let_def)
  show "dt_run_id m = cx_run_id ctx" using arg_cong [OF eq, of dt_run_id] by (simp add: new_mapping_def)
  show "dt_agent m = sp_name spec" using arg_cong [OF eq, of dt_agent] by (simp add: new_mapping_def)
qed

lemma request_ok_none: "request_ok I spec ctx None r \<Longrightarrow> request_ok I spec ctx j r"
  by (cases r) (auto simp: request_ok_def)

lemma same_work_update [simp]:
  "same_work I spec ctx (m\<lparr>dt_task_id := i, dt_state := s\<rparr>) = same_work I spec ctx m"
  "same_work I spec ctx (m\<lparr>dt_task_id := i\<rparr>) = same_work I spec ctx m"
  "same_work I spec ctx (m\<lparr>dt_state := s\<rparr>) = same_work I spec ctx m"
  "same_work I spec ctx (m\<lparr>dt_attempts := n\<rparr>) = same_work I spec ctx m"
  by (simp_all add: same_work_def)


definition on_task :: "invoker \<Rightarrow> agent_spec \<Rightarrow> agent_context \<Rightarrow> nat \<Rightarrow> string \<Rightarrow> string \<Rightarrow> client \<Rightarrow> bool" where
  "on_task I spec ctx k i x c \<longleftrightarrow> working I spec ctx k c \<and> i \<noteq> [] \<and> dt_task_id (cl_mapping c) = Some i
     \<and> x = ms_context_id (initial_message I spec ctx)"

lemma blind_on_task [simp]: "hub_blind (on_task I spec ctx k i x)"
  by (simp add: hub_blind_def on_task_def working_def one_task_def known_task_def initial_sends_def)

lemma update_mapping_on_task: "cvalid (working I spec ctx k) (update_mapping I i x s) (\<lambda>_. on_task I spec ctx k i x) (working I spec ctx k)"
  unfolding update_mapping_def Let_def
  by (intro cvalid_mapping cvalid_cbind [OF cvalid_guard]
      cvalid_cbind [OF cvalid_set_mapping [where Q = "on_task I spec ctx k i x"]]
      cvalid_cbind_keeps [OF ckeeps_save [OF blind_on_task]]
      cvalid_if cvalid_return cvalid_mapping cvalid_weaken [OF ckeeps_emit [OF blind_on_task]])
    (auto simp: on_task_def working_def one_task_def known_task_def initial_sends_def same_work_fields intro: request_ok_none)

lemma update_mapping_working: "ckeeps (working I spec ctx k) (update_mapping I i x s)"
  by (rule cvalid_weaken [OF update_mapping_on_task]) (auto simp: on_task_def)

lemma ckeeps_consume: "(\<And>r. ckeeps P (f r)) \<Longrightarrow> ckeeps P (consume f rs outcome)"
proof (induction rs)
  case Nil
  show ?case by (auto simp: cvalid_def split: sum.split)
next
  case (Cons r rs)
  then show ?case by (simp add: ckeeps_cbind)
qed

lemma first_reply_working: "ckeeps (working I spec ctx k) (first_reply I spec r)"
  unfolding first_reply_def
  by (cases r) (auto intro!: update_mapping_working cvalid_mapping cvalid_raise cvalid_cbind [OF cvalid_guard]
      cvalid_weaken [OF ckeeps_emit [OF blind_working(2)]])

lemma later_reply_working: "ckeeps (working I spec ctx k) (later_reply I r)"
  unfolding later_reply_def by (cases r) (auto intro!: update_mapping_working cvalid_return)

lemma one_task_request:
  "one_task I spec ctx k c \<Longrightarrow> request_ok I spec ctx (dt_task_id (cl_mapping c)) r \<Longrightarrow>
    one_task I spec ctx (if r = Rq_send (initial_message I spec ctx) then Suc k else k)
      (c\<lparr>cl_tick := n, cl_requests := cl_requests c @ [r]\<rparr>)"
  by (auto simp: one_task_def initial_sends_def)

lemma send_initial_working:
  "cvalid (working I spec ctx k) (send_stream I (initial_message I spec ctx) (first_reply I spec))
     (\<lambda>_. working I spec ctx (Suc k)) (working I spec ctx (Suc k))"
  unfolding send_stream_def split_beta
  by (intro cvalid_cbind [OF cvalid_exchange] ckeeps_consume first_reply_working)
    (auto simp: working_def known_task_def request_ok_def dest: one_task_request [where r = "Rq_send (initial_message I spec ctx)"])

lemma connect_working: "ckeeps (working I spec ctx k) (connect I spec)"
proof -
  let ?base = "agent_base (rt_settings (in_runtime I)) (sp_name spec)"
  have card: "ckeeps (working I spec ctx k) (exchange (nt_card (in_network I)) (Rq_card ?base))"
    by (rule cvalid_exchange) (auto simp: working_def known_task_def request_ok_def dest: one_task_request [where r = "Rq_card ?base"])
  have connected: "ckeeps (working I spec ctx k) (\<lambda>c. (Inr (), c\<lparr>cl_connected := True\<rparr>))"
    by (rule cvalidI) (auto intro: hub_blindD [OF blind_working(2)])
  have "ckeeps (working I spec ctx k) (cbind the_mapping (\<lambda>m. cbind (exchange (nt_card (in_network I)) (Rq_card ?base)) (\<lambda>received.
       cbind (from_result (validate_card received spec (dt_endpoint m))) (\<lambda>_.
       cbind (\<lambda>c. (Inr (), c\<lparr>cl_connected := True\<rparr>)) (\<lambda>_.
       client_emit I (dt_run_id m) ''a2a.agent_discovered''
         [(''agent'', JStr (sp_name spec)), (''endpoint'', JStr (dt_endpoint m)), (''protocol'', JStr ''1.0'')])))))"
    by (intro cvalid_mapping cvalid_cbind_keeps [OF card] ckeeps_cbind ckeeps_from_result connected
        ckeeps_emit blind_working) auto
  then show ?thesis
    unfolding connect_def cvalid_def by (simp add: creturn_def)
qed

lemma answer_task_working:
  "cvalid (on_task I spec ctx k (tk_id t) (tk_context_id t)) (answer_task I spec ctx t)
     (\<lambda>_. working I spec ctx k) (working I spec ctx k)"
proof (cases "in_human I")
  case None
  then show ?thesis unfolding answer_task_def
    by (intro cvalid_cbind_keeps [OF ckeeps_from_result])
      (auto simp: on_task_def intro: cvalid_raise split: option.split)
next
  case (Some human)
  let ?P = "on_task I spec ctx k (tk_id t) (tk_context_id t)"
  have ask: "ckeeps ?P (\<lambda>c. on_hub (human (cl_tick c) m draft) c)" for m draft
    by (rule ckeeps_on_hub_reading) simp
  have rest: "cvalid (\<lambda>c. cl_mapping c = m \<and> ?P c)
      (cbind (\<lambda>c. on_hub (human (cl_tick c) m draft) c) (\<lambda>response.
         cbind (from_result (continuation_message I ctx m t response)) (\<lambda>continuation.
         cbind (send_stream I continuation (later_reply I)) (\<lambda>_. creturn Answered))))
      (\<lambda>_. working I spec ctx k) (working I spec ctx k)" for m draft
  proof (rule cvalidI)
    fix c r c'
    assume c: "cl_mapping c = m \<and> ?P c" and run: "cbind (\<lambda>c. on_hub (human (cl_tick c) m draft) c) (\<lambda>response.
         cbind (from_result (continuation_message I ctx m t response)) (\<lambda>continuation.
         cbind (send_stream I continuation (later_reply I)) (\<lambda>_. creturn Answered))) c = (r, c')"
    have same: "dt_invocation_id m = invocation_id spec ctx"
      using c by (auto simp: on_task_def working_def one_task_def dest: same_work_fields(1))
    have "cvalid ?P (cbind (\<lambda>c. on_hub (human (cl_tick c) m draft) c) (\<lambda>response.
         cbind (from_result (continuation_message I ctx m t response)) (\<lambda>continuation.
         cbind (send_stream I continuation (later_reply I)) (\<lambda>_. creturn Answered))))
        (\<lambda>_. working I spec ctx k) (working I spec ctx k)"
    proof (rule cvalid_cbind_keeps [OF ask])
      fix response
      show "cvalid ?P (cbind (from_result (continuation_message I ctx m t response)) (\<lambda>continuation.
         cbind (send_stream I continuation (later_reply I)) (\<lambda>_. creturn Answered)))
        (\<lambda>_. working I spec ctx k) (working I spec ctx k)"
      proof (cases "continuation_message I ctx m t response")
        case (Inl e)
        then show ?thesis by (auto simp: from_result_def cvalid_def cbind_def craise_def on_task_def)
      next
        case (Inr continuation)
        then obtain action where "ms_task_id continuation = tk_id t" "ms_context_id continuation = tk_context_id t"
          "ms_message_id continuation = invocation_id spec ctx @ '':human:'' @ action"
          using same by (auto simp: continuation_message_def rbind_eq_Inr)
        then have ok: "?P d \<Longrightarrow> request_ok I spec ctx (dt_task_id (cl_mapping d)) (Rq_send continuation)
            \<and> continuation \<noteq> initial_message I spec ctx" for d
          by (auto simp: on_task_def request_ok_def initial_message_def Let_def)
        have "cvalid ?P (send_stream I continuation (later_reply I)) (\<lambda>_. working I spec ctx k) (working I spec ctx k)"
          unfolding send_stream_def split_beta
        proof (intro cvalid_cbind [OF cvalid_exchange] ckeeps_consume later_reply_working)
          fix d
          assume "?P d"
          with ok [OF this] one_task_request [of I spec ctx k d "Rq_send continuation" "cl_tick d + 1"]
          show "working I spec ctx k (d\<lparr>cl_tick := cl_tick d + 1, cl_requests := cl_requests d @ [Rq_send continuation]\<rparr>)"
            by (simp add: on_task_def working_def known_task_def)
        qed
        then have "cvalid ?P (cbind (send_stream I continuation (later_reply I)) (\<lambda>_. creturn Answered))
            (\<lambda>_. working I spec ctx k) (working I spec ctx k)"
          by (rule cvalid_cbind) (rule cvalid_return)
        with Inr show ?thesis by (simp add: from_result_def cbind_def creturn_def cvalid_def)
      qed
    qed (auto simp: on_task_def)
    from cvalidD [OF this _ run] c show "case r of Inr x \<Rightarrow> working I spec ctx k c' | Inl e \<Rightarrow> working I spec ctx k c'" by simp
  qed
  have working: "?P c \<Longrightarrow> working I spec ctx k c" for c by (simp add: on_task_def)
  show ?thesis unfolding answer_task_def Some
    by (rule cvalid_cbind_keeps [OF ckeeps_from_result, where P = ?P], assumption, rule working, assumption)
      (auto simp only: prod.case option.case intro!: cvalid_raise cvalid_mapping rest working split: option.split)
qed

lemma get_task_working:
  "i \<noteq> [] \<Longrightarrow> cvalid (\<lambda>c. working I spec ctx k c \<and> dt_task_id (cl_mapping c) = Some i) (get_remote_task I i)
     (\<lambda>_. working I spec ctx k) (working I spec ctx k)"
  unfolding get_remote_task_def
  by (rule cvalid_exchange)
    (auto simp: working_def known_task_def request_ok_def dest: one_task_request [where r = "Rq_get i"])

lemma poll_task_working:
  "cvalid (\<lambda>c. working I spec ctx k c \<and> dt_task_id (cl_mapping c) \<noteq> None) (poll_task I spec ctx)
     (\<lambda>_ c. working I spec ctx k c) (working I spec ctx k)"
  unfolding poll_task_def
proof (rule cvalid_mapping, rule cvalid_cbind)
  fix m
  show "cvalid (\<lambda>c. cl_mapping c = m \<and> working I spec ctx k c \<and> dt_task_id (cl_mapping c) \<noteq> None)
      (get_remote_task I (case dt_task_id m of None \<Rightarrow> [] | Some i \<Rightarrow> i)) (\<lambda>_. working I spec ctx k) (working I spec ctx k)"
  proof (cases "dt_task_id m")
    case None
    then show ?thesis by (auto simp: cvalid_def)
  next
    case (Some i)
    show ?thesis
    proof (cases "i = []")
      case True
      with Some show ?thesis by (auto simp: cvalid_def working_def known_task_def)
    next
      case False
      show ?thesis unfolding Some option.case
        by (rule cvalid_weaken [OF get_task_working [OF False]]) (auto simp: Some)
    qed
  qed
next
  fix t
  have working: "on_task I spec ctx k i x c \<Longrightarrow> working I spec ctx k c" for i x c by (simp add: on_task_def)
  show "cvalid (working I spec ctx k)
     (cbind (update_mapping I (tk_id t) (tk_context_id t) (ts_state (tk_status t))) (\<lambda>_.
     if ts_state (tk_status t) = TASK_STATE_INPUT_REQUIRED then answer_task I spec ctx t
     else if ts_state (tk_status t) \<in> set TERMINAL
     then cbind (from_result (task_result I spec t)) (\<lambda>r. creturn (Finished r))
     else cbind (\<lambda>c. (nt_sleep (in_network I) (cl_tick c), c\<lparr>cl_tick := cl_tick c + 1\<rparr>)) (\<lambda>_. creturn Waiting_on)))
     (\<lambda>_. working I spec ctx k) (working I spec ctx k)"
    by (intro cvalid_cbind [OF update_mapping_on_task] cvalid_if answer_task_working
        cvalid_cbind_keeps [OF ckeeps_from_result [where P = "working I spec ctx k"]]
        cvalid_cbind_keeps [OF ckeeps_sleep [OF blind_working(2) [of I spec ctx k]]] cvalid_return)
      (auto intro: working)
qed

text \<open>A task that is known stays known.\<close>

definition has_task :: "client \<Rightarrow> bool" where
  "has_task c \<longleftrightarrow> dt_task_id (cl_mapping c) \<noteq> None"

lemma blind_has_task [simp]: "hub_blind has_task"
  by (simp add: hub_blind_def has_task_def)

lemma cvalid_conj:
  "cvalid P m Q E \<Longrightarrow> cvalid P' m Q' E' \<Longrightarrow> cvalid (\<lambda>c. P c \<and> P' c) m (\<lambda>x c. Q x c \<and> Q' x c) (\<lambda>c. E c \<and> E' c)"
  by (rule cvalidI) (auto dest!: cvalidD split: sum.splits)

lemma ckeeps_exchange: "(\<And>c n rs. P c \<Longrightarrow> P (c\<lparr>cl_tick := n, cl_requests := rs\<rparr>)) \<Longrightarrow> ckeeps P (exchange f r)"
  by (rule cvalid_exchange)

lemma has_task_exchange: "ckeeps has_task (exchange f r)"
  by (rule ckeeps_exchange) (simp add: has_task_def)

lemma has_task_update: "ckeeps has_task (update_mapping I i x s)"
  unfolding update_mapping_def Let_def
  by (intro cvalid_mapping cvalid_cbind [OF cvalid_guard] cvalid_cbind [OF cvalid_set_mapping [where Q = has_task]]
      ckeeps_cbind ckeeps_save blind_has_task cvalid_if cvalid_return cvalid_weaken [OF ckeeps_emit [OF blind_has_task]])
    (auto simp: has_task_def)

lemma has_task_later: "ckeeps has_task (later_reply I r)"
  unfolding later_reply_def by (cases r) (auto intro!: has_task_update cvalid_return)

lemma has_task_send: "ckeeps has_task (send_stream I m (later_reply I))"
  unfolding send_stream_def split_beta by (intro ckeeps_cbind has_task_exchange ckeeps_consume has_task_later)

lemma has_task_answer: "ckeeps has_task (answer_task I spec ctx t)"
proof -
  have "ckeeps has_task (case (in_human I, ag_human_prompt draft) of
       (Some human, Some _) \<Rightarrow>
         cbind the_mapping (\<lambda>m.
         cbind (\<lambda>c. on_hub (human (cl_tick c) m draft) c) (\<lambda>response.
         cbind (from_result (continuation_message I ctx m t response)) (\<lambda>continuation.
         cbind (send_stream I continuation (later_reply I)) (\<lambda>_. creturn Answered))))
     | _ \<Rightarrow> craise (Raised (RemoteTaskError ''Agent requested unsupported human input'')))" for draft
    by (cases "in_human I"; cases "ag_human_prompt draft")
      (auto intro!: cvalid_raise cvalid_mapping cvalid_cbind_keeps [OF ckeeps_on_hub_reading [OF blind_has_task]]
        ckeeps_cbind ckeeps_from_result has_task_send cvalid_return)
  then show ?thesis unfolding answer_task_def by (rule ckeeps_cbind [OF ckeeps_from_result])
qed

lemma has_task_poll: "ckeeps has_task (poll_task I spec ctx)"
  unfolding poll_task_def get_remote_task_def
  by (intro cvalid_mapping cvalid_cbind_keeps [OF has_task_exchange] ckeeps_cbind has_task_update cvalid_if has_task_answer
      ckeeps_from_result cvalid_return ckeeps_sleep blind_has_task) auto

lemma poll_loop_working:
  "poll_loop I spec ctx answers polls c = (r, c') \<Longrightarrow> working I spec ctx k c \<Longrightarrow> has_task c \<Longrightarrow> working I spec ctx k c'"
proof (induction I spec ctx answers polls c arbitrary: r c' rule: poll_loop.induct)
  case (1 I spec ctx answers polls c)
  show ?case
  proof (cases "polls = 0")
    case True
    with 1 show ?thesis by (simp add: poll_loop.simps)
  next
    case False
    obtain y d where step: "poll_task I spec ctx c = (y, d)" by fastforce
    note both = cvalidD [OF cvalid_conj [OF poll_task_working has_task_poll] _ step, of k]
    have d: "working I spec ctx k d" "has_task d"
      using both 1(4,5) by (auto simp: has_task_def split: sum.splits)
    from "1.prems"(1) False step have run: "(r, c') = (case y of
        Inl e \<Rightarrow> (Inl e, d)
      | Inr (Finished r) \<Rightarrow> (Inr r, d)
      | Inr Waiting_on \<Rightarrow> poll_loop I spec ctx answers (polls - 1) d
      | Inr Answered \<Rightarrow>
          if answers = 0 then (Inl (Raised CancelledError), d)
          else poll_loop I spec ctx (answers - 1) (nt_polls (in_network I)) d)"
      by (subst (asm) poll_loop.simps) (auto split: sum.splits poll_outcome.splits)
    show ?thesis
    proof (cases y)
      case (Inl e)
      with run d show ?thesis by simp
    next
      case (Inr out)
      show ?thesis
      proof (cases out)
        case Answered
        note IH = "1.IH"(1) [OF False step [symmetric] Inr Answered]
        have "(if answers = 0 then (Inl (Raised CancelledError), d)
          else poll_loop I spec ctx (answers - 1) (nt_polls (in_network I)) d) = (r, c')"
          using run Inr Answered by simp
        then show ?thesis using IH d by (cases "answers = 0") auto
      next
        case (Finished x)
        with Inr run d show ?thesis by simp
      next
        case Waiting_on
        note IH = "1.IH"(2) [OF False step [symmetric] Inr Waiting_on]
        have "poll_loop I spec ctx answers (polls - 1) d = (r, c')"
          using run Inr Waiting_on by simp
        then show ?thesis using IH d by blast
      qed
    qed
  qed
qed

lemma try_attempt_working:
  "cvalid (working I spec ctx k) (try_attempt I spec ctx) (\<lambda>_. working I spec ctx (Suc k)) (working I spec ctx (Suc k))"
proof -
  have up: "working I spec ctx k c \<Longrightarrow> working I spec ctx (Suc k) c" for c by (simp add: working_def one_task_def)
  have loop: "cvalid (\<lambda>c. dt_task_id m \<noteq> None \<and> cl_mapping c = m \<and> working I spec ctx (Suc k) c) (poll_loop I spec ctx a p)
      (\<lambda>_. working I spec ctx (Suc k)) (working I spec ctx (Suc k))" for a p m
    by (rule cvalidI) (auto simp: has_task_def dest: poll_loop_working [of I spec ctx a p _ _ _ "Suc k"] split: sum.split)
  have send: "cvalid (\<lambda>c. cl_mapping c = m \<and> working I spec ctx k c)
      (if dt_task_id m = None then send_stream I (initial_message I spec ctx) (first_reply I spec) else creturn ())
      (\<lambda>_. working I spec ctx (Suc k)) (working I spec ctx (Suc k))" for m
    by (intro cvalid_if cvalid_weaken [OF send_initial_working] cvalid_return) (auto intro: up)
  show ?thesis
    unfolding try_attempt_def
    apply (rule cvalid_cbind_keeps [OF connect_working [where k = k]])
      apply assumption
     apply (erule up)
    apply (rule cvalid_mapping)
    apply (rule cvalid_cbind [OF send])
    apply (rule cvalid_mapping)
    apply (rule cvalid_cbind [OF cvalid_guard])
     apply simp
    apply (rule loop)
    done
qed


lemma retry_loop_working:
  "cvalid (working I spec ctx attempt) (retry_loop I spec ctx attempt left)
     (\<lambda>_. working I spec ctx (attempt + left)) (working I spec ctx (attempt + left))"
proof (induction left arbitrary: attempt)
  case 0
  show ?case by (simp add: cvalid_raise)
next
  case (Suc left)
  have up: "working I spec ctx j c \<Longrightarrow> j \<le> k \<Longrightarrow> working I spec ctx k c" for j k c by (simp add: working_def one_task_def)
  let ?n = "attempt + Suc left"
  have attempted: "cvalid (working I spec ctx attempt) (try_attempt I spec ctx) (\<lambda>_. working I spec ctx ?n) (working I spec ctx (Suc attempt))"
    by (rule cvalid_weaken [OF try_attempt_working]) (auto intro: up)
  have rest: "cvalid (working I spec ctx (Suc attempt)) (retry_loop I spec ctx (attempt + 1) left)
      (\<lambda>_. working I spec ctx ?n) (working I spec ctx ?n)"
    using Suc.IH [of "Suc attempt"] by simp
  have handler: "cvalid (working I spec ctx (Suc attempt)) (if e = Raised CancelledError \<or> \<not> transient e \<or> cf_a2a_max_retries (rt_settings (in_runtime I)) \<le> attempt
       then craise e
       else cbind the_mapping (\<lambda>m.
         cbind (client_emit I (dt_run_id m) ''a2a.retry''
           [(''agent'', JStr (sp_name spec)), (''attempt'', JInt (int (attempt + 2))),
            (''invocation_id'', JStr (dt_invocation_id m)), (''reason'', JStr (client_error_text e))]) (\<lambda>_.
         cbind (\<lambda>c. (nt_sleep (in_network I) (cl_tick c), c\<lparr>cl_tick := cl_tick c + 1\<rparr>)) (\<lambda>_.
         retry_loop I spec ctx (attempt + 1) left))))
      (\<lambda>_. working I spec ctx ?n) (working I spec ctx ?n)" for e
    by (intro cvalid_if cvalid_raise cvalid_mapping
        cvalid_cbind_keeps [OF ckeeps_emit [OF blind_working(2) [of I spec ctx "Suc attempt"]]]
        cvalid_cbind_keeps [OF ckeeps_sleep [OF blind_working(2) [of I spec ctx "Suc attempt"]]] rest)
      (auto intro: up)
  have save: "ckeeps (working I spec ctx attempt) (save_mapping I)" by (rule ckeeps_save) simp
  have attempts: "cvalid (working I spec ctx attempt) (set_mapping (\<lambda>m. m\<lparr>dt_attempts := attempt + 1\<rparr>))
      (\<lambda>_. working I spec ctx attempt) (working I spec ctx ?n)"
    by (rule cvalid_set_mapping) (simp add: working_def one_task_def known_task_def initial_sends_def)
  show ?case unfolding retry_loop.simps
    by (rule cvalid_cbind [OF attempts], rule cvalid_cbind_keeps [OF save], assumption, erule up, simp,
        rule cvalid_ccatch [OF attempted handler])
qed

definition bound_to :: "invoker \<Rightarrow> agent_spec \<Rightarrow> agent_context \<Rightarrow> nat \<Rightarrow> string \<Rightarrow> client \<Rightarrow> bool" where
  "bound_to I spec ctx k i c \<longleftrightarrow> one_task I spec ctx k c \<and> dt_task_id (cl_mapping c) = Some i"

lemma blind_bound [simp]: "hub_blind (bound_to I spec ctx k i)"
  by (simp add: hub_blind_def bound_to_def one_task_def initial_sends_def)

lemma bound_exchange:
  "r \<in> {Rq_get i, Rq_cancel i} \<Longrightarrow> ckeeps (bound_to I spec ctx k i) (exchange f r)"
proof (rule cvalid_exchange)
  fix c
  assume r: "r \<in> {Rq_get i, Rq_cancel i}" and c: "bound_to I spec ctx k i c"
  then have "request_ok I spec ctx (dt_task_id (cl_mapping c)) r" "r \<noteq> Rq_send (initial_message I spec ctx)"
    by (auto simp: bound_to_def request_ok_def)
  with c one_task_request [of I spec ctx k c r "cl_tick c + 1"]
  show "bound_to I spec ctx k i (c\<lparr>cl_tick := cl_tick c + 1, cl_requests := cl_requests c @ [r]\<rparr>)"
    by (simp add: bound_to_def)
qed

lemma confirm_cancel_bound: "ckeeps (bound_to I spec ctx k i) (confirm_cancel I i)"
proof -
  have cancel: "ckeeps (bound_to I spec ctx k i) (cancel_remote I i)"
    unfolding cancel_remote_def
    by (rule cvalid_ccatch [OF bound_exchange])
      (auto intro!: cvalid_return cvalid_raise split: client_error.split py_error.split)
  have state: "cvalid (bound_to I spec ctx k i) (set_mapping (\<lambda>m. m\<lparr>dt_state := s\<rparr>)) (\<lambda>_. bound_to I spec ctx k i)
      (bound_to I spec ctx k i)" for s
    by (rule cvalid_set_mapping) (auto simp: bound_to_def one_task_def initial_sends_def)
  show ?thesis unfolding confirm_cancel_def get_remote_task_def
    by (intro ckeeps_cbind cancel bound_exchange state ckeeps_save blind_bound cvalid_mapping
        cvalid_weaken [OF ckeeps_emit [OF blind_bound]]) auto
qed

lemma one_task_Suc: "one_task I spec ctx k c \<Longrightarrow> one_task I spec ctx (Suc k) c"
  by (simp add: one_task_def)

lemma working_one_task: "working I spec ctx k c \<Longrightarrow> one_task I spec ctx (Suc k) c"
  by (simp add: working_def one_task_def)

lemma recover_task_one_task:
  "cvalid (\<lambda>c. working I spec ctx k c \<and> dt_task_id (cl_mapping c) = None) (recover_task I (initial_message I spec ctx))
     (\<lambda>_. one_task I spec ctx (Suc k)) (one_task I spec ctx (Suc k))"
proof -
  let ?Q = "\<lambda>c. one_task I spec ctx (Suc k) c \<and> dt_task_id (cl_mapping c) = None"
  have send: "cvalid (\<lambda>c. working I spec ctx k c \<and> dt_task_id (cl_mapping c) = None)
      (exchange f (Rq_send (initial_message I spec ctx))) (\<lambda>_. ?Q) (one_task I spec ctx (Suc k))" for f :: "nat \<Rightarrow> client_error + 'b"
  proof (rule cvalid_weaken [OF cvalid_exchange [where Q = ?Q]])
    fix c
    assume c: "working I spec ctx k c \<and> dt_task_id (cl_mapping c) = None"
    then show "?Q (c\<lparr>cl_tick := cl_tick c + 1, cl_requests := cl_requests c @ [Rq_send (initial_message I spec ctx)]\<rparr>)"
      using one_task_request [of I spec ctx k c "Rq_send (initial_message I spec ctx)" "cl_tick c + 1"]
      by (simp add: working_def request_ok_def)
  qed auto
  have name: "cvalid ?Q (set_mapping (\<lambda>mp. mp\<lparr>dt_task_id := recovered_task rs (dt_task_id mp)\<rparr>))
      (\<lambda>_. one_task I spec ctx (Suc k)) (one_task I spec ctx (Suc k))" for rs
    by (rule cvalid_set_mapping) (auto simp: one_task_def initial_sends_def intro: request_ok_none)
  have last: "ckeeps (one_task I spec ctx (Suc k)) (\<lambda>c. (outcome, c))" for outcome :: "client_error + unit"
    by (auto simp: cvalid_def split: sum.split)
  show ?thesis unfolding recover_task_def split_beta
    by (rule cvalid_cbind [OF send cvalid_cbind [OF name last]])
qed

lemma cancel_invocation_one_task:
  "cvalid (working I spec ctx k) (cancel_invocation I spec ctx)
     (\<lambda>_. one_task I spec ctx (Suc k)) (one_task I spec ctx (Suc k))"
proof -
  let ?one = "one_task I spec ctx (Suc k)"
  have first: "cvalid (\<lambda>c. cl_mapping c = m \<and> working I spec ctx k c)
      (if dt_task_id m = None then recover_task I (initial_message I spec ctx) else creturn ()) (\<lambda>_. ?one) ?one" for m
  proof (rule cvalid_if)
    assume "dt_task_id m = None"
    then show "cvalid (\<lambda>c. cl_mapping c = m \<and> working I spec ctx k c) (recover_task I (initial_message I spec ctx)) (\<lambda>_. ?one) ?one"
      by (intro cvalid_weaken [OF recover_task_one_task]) auto
  qed (auto intro: cvalid_return working_one_task)
  have confirm: "cvalid (\<lambda>c. cl_mapping c = m \<and> ?one c) (case dt_task_id m of
          Some (ch # chs) \<Rightarrow> confirm_cancel I (ch # chs) | _ \<Rightarrow> creturn ()) (\<lambda>_. ?one) ?one" for m
    by (cases "dt_task_id m"; cases "the (dt_task_id m)")
      (auto intro!: cvalid_return cvalid_weaken [OF confirm_cancel_bound [where k = "Suc k"]] simp: bound_to_def)
  have report: "ckeeps ?one (if e = Raised CancelledError then craise e
         else cbind the_mapping (\<lambda>m. client_emit I (dt_run_id m) ''a2a.cancellation_failed''
            [(''agent'', JStr (dt_agent m)), (''reason'', JStr (client_error_text e))]))" for e
    by (intro cvalid_if cvalid_raise cvalid_mapping cvalid_weaken [OF ckeeps_emit [OF blind_working(1)]]) auto
  have "cvalid (working I spec ctx k) (ccatch
       (cbind the_mapping (\<lambda>m.
        cbind (if dt_task_id m = None then recover_task I (initial_message I spec ctx) else creturn ()) (\<lambda>_.
        cbind the_mapping (\<lambda>m.
        case dt_task_id m of
          Some (ch # chs) \<Rightarrow> confirm_cancel I (ch # chs)
        | _ \<Rightarrow> creturn ()))))
       (\<lambda>e. if e = Raised CancelledError then craise e
         else cbind the_mapping (\<lambda>m. client_emit I (dt_run_id m) ''a2a.cancellation_failed''
            [(''agent'', JStr (dt_agent m)), (''reason'', JStr (client_error_text e))]))) (\<lambda>_. ?one) ?one"
    by (rule cvalid_ccatch [OF _ report], rule cvalid_mapping, rule cvalid_cbind [OF first], rule cvalid_mapping, rule confirm)
  then show ?thesis unfolding cancel_invocation_def cvalid_def by (auto simp: creturn_def intro: working_one_task)
qed

lemma invocation_failed_one_task:
  "cvalid (working I spec ctx k) (invocation_failed I spec ctx e) (\<lambda>_. one_task I spec ctx (Suc k)) (one_task I spec ctx (Suc k))"
proof -
  let ?one = "one_task I spec ctx (Suc k)"
  have cancel: "cvalid (\<lambda>c. cl_mapping c = m \<and> working I spec ctx k c)
      (if dt_state m \<in> {''submitted'', ''working'', ''input_required''} then cancel_invocation I spec ctx else creturn ())
      (\<lambda>_. ?one) ?one" for m
    by (intro cvalid_if cvalid_weaken [OF cancel_invocation_one_task] cvalid_return) (auto intro: working_one_task)
  have failed: "ckeeps ?one (set_mapping (\<lambda>m. m\<lparr>dt_state := ''failed''\<rparr>))"
    by (rule cvalid_set_mapping) (simp add: one_task_def initial_sends_def)
  have state: "cvalid (\<lambda>c. cl_mapping c = m \<and> ?one c) (if dt_state m = ''pending''
       then cbind (set_mapping (\<lambda>m. m\<lparr>dt_state := ''failed''\<rparr>)) (\<lambda>_. save_mapping I) else creturn ()) (\<lambda>_. ?one) ?one" for m
    by (intro cvalid_if cvalid_weaken [OF ckeeps_cbind [OF failed ckeeps_save [OF blind_working(1)]]] cvalid_return) auto
  have report: "cvalid (\<lambda>c. cl_mapping c = m \<and> ?one c) (cbind (client_emit I (dt_run_id m) ''a2a.invocation_failed''
       [(''agent'', JStr (sp_name spec)), (''reason'', JStr (client_error_text e)),
        (''task_id'', jopt JStr (dt_task_id m))]) (\<lambda>_. craise e)) (\<lambda>_. ?one) ?one" for m
    by (intro cvalid_cbind_keeps [OF ckeeps_emit [OF blind_working(1)]] cvalid_raise) auto
  show ?thesis unfolding invocation_failed_def
    by (rule cvalid_mapping, rule cvalid_cbind [OF cancel], rule cvalid_mapping, rule cvalid_cbind [OF state],
        rule cvalid_mapping, rule report)
qed

lemma start_client_working: "working I spec ctx 0 (start_client I spec ctx h)"
  by (simp add: working_def one_task_def known_task_def start_client_def same_work_def new_mapping_def initial_sends_def)

text \<open>
  C29. An invocation works on one task with one message. Whatever the network and the server
  answer, over all retries, answers of people, deadlines, failures and cancellations of one
  invocation: every message that starts work is the same message, sent at most twice more than
  the configured number of retries; every other message continues the one task that the
  delegation record names, under the identifier of the invocation and in its context; and status
  requests and cancellations concern only that task.
\<close>

theorem one_task_per_invocation:
  assumes "invoke I spec ctx (start_client I spec ctx h) = (res, c)"
  shows "(\<forall>r \<in> set (cl_requests c). request_ok I spec ctx (dt_task_id (cl_mapping c)) r)
    \<and> initial_sends I spec ctx c \<le> cf_a2a_max_retries (rt_settings (in_runtime I)) + 2
    \<and> dt_invocation_id (cl_mapping c) = invocation_id spec ctx"
proof -
  let ?n = "cf_a2a_max_retries (rt_settings (in_runtime I)) + 1"
  have loop: "cvalid (working I spec ctx 0) (retry_loop I spec ctx 0 ?n) (\<lambda>_. one_task I spec ctx (Suc ?n)) (working I spec ctx ?n)"
    using cvalid_weaken [OF retry_loop_working [of I spec ctx 0 ?n]] working_one_task by simp
  have cancel: "cvalid (working I spec ctx ?n) (cbind (cancel_invocation I spec ctx) (\<lambda>_. craise e))
      (\<lambda>_. one_task I spec ctx (Suc ?n)) (one_task I spec ctx (Suc ?n))" for e
    by (rule cvalid_cbind [OF cancel_invocation_one_task]) (rule cvalid_raise)
  have "cvalid (working I spec ctx 0) (invoke I spec ctx) (\<lambda>_. one_task I spec ctx (Suc ?n)) (one_task I spec ctx (Suc ?n))"
    unfolding invoke_def by (rule cvalid_ccatch [OF loop]) (intro cvalid_if cancel invocation_failed_one_task)
  from cvalidD [OF this start_client_working assms] have "one_task I spec ctx (Suc ?n) c" by (cases res) simp_all
  then show ?thesis by (auto simp: one_task_def dest: same_work_fields(1))
qed

section \<open>Where results come from\<close>

definition recorded :: "client \<Rightarrow> bool" where
  "recorded c \<longleftrightarrow> cl_mapping c \<in> snd ` set (db_delegated_tasks (hb_db (cl_hub c)))"

definition reached :: "task \<Rightarrow> client \<Rightarrow> bool" where
  "reached t c \<longleftrightarrow> dt_task_id (cl_mapping c) = Some (tk_id t) \<and> tk_id t \<noteq> []
     \<and> dt_context_id (cl_mapping c) = tk_context_id t
     \<and> dt_state (cl_mapping c) = task_state_name (ts_state (tk_status t)) \<and> recorded c"

lemma event_delegated: "event W r t p h = (res, h') \<Longrightarrow> db_delegated_tasks (hb_db h') = db_delegated_tasks (hb_db h)"
  by (auto simp: event_def hbind_def on_db_def hreturn_def append_event_def split: prod.splits sum.splits if_splits)

lemma reached_emit: "ckeeps (reached t) (client_emit I r ty p)"
proof (rule cvalidI)
  fix c res c'
  assume c: "reached t c" "client_emit I r ty p c = (res, c')"
  then obtain x h where "emit (in_runtime I) r ty p (cl_hub c) = (x, h)" "c' = c\<lparr>cl_hub := h\<rparr>"
    by (auto simp: client_emit_def on_hub_def split: prod.splits sum.splits)
  then have "reached t c'" using c(1) event_delegated by (auto simp: reached_def recorded_def emit_def)
  then show "case res of Inr x \<Rightarrow> reached t c' | Inl e \<Rightarrow> reached t c'" by (simp split: sum.split)
qed

lemma saved_mapping:
  "cvalid (\<lambda>c. cl_mapping c = m) (save_mapping I) (\<lambda>_ c. cl_mapping c = m \<and> recorded c) (\<lambda>_. True)"
proof (rule cvalidI)
  fix c r c'
  assume c: "cl_mapping c = m" "save_mapping I c = (r, c')"
  have row: "m \<in> snd ` set (db_delegated_tasks db')" if saved: "save_delegated_task m db = (Inr u, db')" for db u db'
  proof (cases "dt_invocation_id m \<in> (dt_invocation_id \<circ> snd) ` set (db_delegated_tasks db)")
    case True
    then obtain run t where "(run, t) \<in> set (db_delegated_tasks db)" "dt_invocation_id t = dt_invocation_id m" by auto
    moreover have "db_delegated_tasks db' = map (\<lambda>(run, t).
        if dt_invocation_id t = dt_invocation_id m then (run, m) else (run, t)) (db_delegated_tasks db)"
      using saved True by (auto simp: save_delegated_task_def)
    ultimately have "(run, m) \<in> set (db_delegated_tasks db')"
      by (auto intro!: image_eqI [of _ _ "(run, t)"])
    then show ?thesis by force
  next
    case False
    with saved show ?thesis by (auto simp: save_delegated_task_def split: if_splits)
  qed
  show "case r of Inr x \<Rightarrow> cl_mapping c' = m \<and> recorded c' | Inl e \<Rightarrow> True"
    using c by (auto simp: save_mapping_def cbind_def the_mapping_def on_hub_def on_db_def recorded_def
        dest: row [unfolded c(1) [symmetric]] split: prod.splits sum.splits)
qed

lemma update_mapping_reached:
  "cvalid P (update_mapping I (tk_id t) (tk_context_id t) (ts_state (tk_status t))) (\<lambda>_. reached t) (\<lambda>_. True)"
proof -
  let ?name = "task_state_name (ts_state (tk_status t))"
  have set: "cvalid (\<lambda>c. b \<and> (tk_id t \<noteq> [] \<and> tk_context_id t = dt_context_id m) \<and> cl_mapping c = m \<and> True)
      (set_mapping (\<lambda>m. m\<lparr>dt_task_id := Some (tk_id t), dt_state := ?name\<rparr>))
      (\<lambda>_ c. cl_mapping c = m\<lparr>dt_task_id := Some (tk_id t), dt_state := ?name\<rparr> \<and> tk_id t \<noteq> [] \<and> tk_context_id t = dt_context_id m) (\<lambda>_. True)"
    for m b by (rule cvalid_set_mapping) simp
  have save: "cvalid (\<lambda>c. cl_mapping c = m\<lparr>dt_task_id := Some (tk_id t), dt_state := ?name\<rparr> \<and> tk_id t \<noteq> [] \<and> tk_context_id t = dt_context_id m)
      (save_mapping I) (\<lambda>_. reached t) (\<lambda>_. True)" for m
  proof (rule cvalidI)
    fix c r c'
    assume pre: "cl_mapping c = m\<lparr>dt_task_id := Some (tk_id t), dt_state := ?name\<rparr> \<and> tk_id t \<noteq> [] \<and> tk_context_id t = dt_context_id m"
      and step: "save_mapping I c = (r, c')"
    from cvalidD [OF saved_mapping pre [THEN conjunct1] step]
    show "case r of Inr x \<Rightarrow> reached t c' | Inl e \<Rightarrow> True"
      using pre by (cases r) (simp_all add: reached_def)
  qed
  have report: "cvalid (reached t) (if dt_state m \<noteq> ?name
       then cbind the_mapping (\<lambda>m'. client_emit I (dt_run_id m) ''a2a.task_status'' (task_dump m')) else creturn ())
      (\<lambda>_. reached t) (\<lambda>_. True)" for m
    by (rule cvalid_if, rule cvalid_mapping, rule cvalid_weaken [OF reached_emit], erule conjunct2, assumption, rule TrueI,
        rule cvalid_return)
  have "cvalid (\<lambda>_. True) (update_mapping I (tk_id t) (tk_context_id t) (ts_state (tk_status t))) (\<lambda>_. reached t) (\<lambda>_. True)"
    unfolding update_mapping_def Let_def
    by (rule cvalid_mapping, rule cvalid_cbind [OF cvalid_guard], rule TrueI, rule cvalid_cbind [OF cvalid_guard], rule TrueI,
        rule cvalid_cbind [OF set], rule cvalid_cbind [OF save], rule report)
  then show ?thesis by (rule cvalid_weaken) simp_all
qed

definition finished_by :: "invoker \<Rightarrow> agent_spec \<Rightarrow> agent_result \<Rightarrow> client \<Rightarrow> bool" where
  "finished_by I spec r c \<longleftrightarrow> (\<exists>t n. nt_get (in_network I) n = Inr t \<and> ts_state (tk_status t) = TASK_STATE_COMPLETED
     \<and> decode_result I spec t = Inr r \<and> reached t c)"

lemma task_result_Inr: "task_result I spec t = Inr r \<Longrightarrow> ts_state (tk_status t) = TASK_STATE_COMPLETED \<and> decode_result I spec t = Inr r"
  by (auto simp: task_result_def split: if_splits)

lemma decode_result_kind: "decode_result I spec t = Inr r \<Longrightarrow> ag_artifact_kind r = sp_artifact_kind spec"
  by (auto simp: decode_result_def rbind_eq_Inr split: list.splits option.splits if_splits)

lemma cvalid_true: "cvalid P m (\<lambda>_ _. True) (\<lambda>_. True)"
  by (simp add: cvalid_def split: prod.split sum.split)

definition poll_sound :: "invoker \<Rightarrow> agent_spec \<Rightarrow> poll_outcome \<Rightarrow> client \<Rightarrow> bool" where
  "poll_sound I spec out c = (case out of Finished r \<Rightarrow> finished_by I spec r c | _ \<Rightarrow> True)"

lemma answer_task_sound: "cvalid P (answer_task I spec ctx t) (poll_sound I spec) (\<lambda>_. True)"
proof -
  have "cvalid (\<lambda>_. True) (answer_task I spec ctx t) (poll_sound I spec) (\<lambda>_. True)"
    unfolding answer_task_def
    by (rule cvalid_cbind [OF cvalid_true])
      (auto intro!: cvalid_raise cvalid_mapping cvalid_cbind [OF cvalid_true] cvalid_return simp: poll_sound_def split: option.split)
  then show ?thesis by (rule cvalid_weaken) auto
qed

lemma poll_task_sound: "cvalid P (poll_task I spec ctx) (poll_sound I spec) (\<lambda>_. True)"
proof -
  have get: "cvalid P (get_remote_task I i) (\<lambda>t _. \<exists>n. nt_get (in_network I) n = Inr t) (\<lambda>_. True)" for P i
    by (auto simp: get_remote_task_def exchange_def cvalid_def split: sum.split)
  have body: "cvalid (\<lambda>_. \<exists>n. nt_get (in_network I) n = Inr t)
     (cbind (update_mapping I (tk_id t) (tk_context_id t) (ts_state (tk_status t))) (\<lambda>_.
     if ts_state (tk_status t) = TASK_STATE_INPUT_REQUIRED then answer_task I spec ctx t
     else if ts_state (tk_status t) \<in> set TERMINAL
     then cbind (from_result (task_result I spec t)) (\<lambda>r. creturn (Finished r))
     else cbind (\<lambda>c. (nt_sleep (in_network I) (cl_tick c), c\<lparr>cl_tick := cl_tick c + 1\<rparr>)) (\<lambda>_. creturn Waiting_on)))
     (poll_sound I spec) (\<lambda>_. True)" for t
  proof (cases "\<exists>n. nt_get (in_network I) n = Inr t")
    case True
    have fin: "cvalid (reached t) (cbind (from_result (task_result I spec t)) (\<lambda>r. creturn (Finished r))) (poll_sound I spec) (\<lambda>_. True)"
    proof (cases "task_result I spec t")
      case (Inl e)
      then show ?thesis by (simp add: from_result_def cbind_def craise_def cvalid_def)
    next
      case (Inr r)
      with True task_result_Inr [OF Inr] show ?thesis
        by (auto simp: from_result_def cbind_def creturn_def cvalid_def poll_sound_def finished_by_def)
    qed
    have sleep: "cvalid (reached t) (cbind (\<lambda>c. (nt_sleep (in_network I) (cl_tick c), c\<lparr>cl_tick := cl_tick c + 1\<rparr>)) (\<lambda>_. creturn Waiting_on))
        (poll_sound I spec) (\<lambda>_. True)"
      by (rule cvalid_cbind [OF cvalid_true]) (simp add: cvalid_return poll_sound_def)
    show ?thesis
      by (rule cvalid_cbind [OF update_mapping_reached]) (intro cvalid_if answer_task_sound fin sleep)
  qed (simp add: cvalid_def)
  show ?thesis unfolding poll_task_def by (rule cvalid_mapping, rule cvalid_cbind [OF get body])
qed


lemma poll_loop_sound: "poll_loop I spec ctx answers polls c = (Inr r, c') \<Longrightarrow> finished_by I spec r c'"
proof (induction I spec ctx answers polls c arbitrary: r c' rule: poll_loop.induct)
  case (1 I spec ctx answers polls c)
  show ?case
  proof (cases "polls = 0")
    case True
    with 1 show ?thesis by (simp add: poll_loop.simps)
  next
    case False
    obtain y d where step: "poll_task I spec ctx c = (y, d)" by fastforce
    note sound = cvalidD [OF poll_task_sound [of "\<lambda>_. True"] TrueI step]
    show ?thesis
    proof (cases y)
      case (Inl e)
      with False step "1.prems" show ?thesis by (subst (asm) poll_loop.simps) simp
    next
      case (Inr out)
      show ?thesis
      proof (cases out)
        case Answered
        then have "answers \<noteq> 0" "poll_loop I spec ctx (answers - 1) (nt_polls (in_network I)) d = (Inr r, c')"
          using False step Inr "1.prems" by (simp_all add: poll_loop.simps [of I spec ctx answers polls c] split: if_splits)
        with "1.IH"(1) [OF False step [symmetric] Inr Answered] show ?thesis by blast
      next
        case (Finished x)
        then have "(Inr r, c') = (Inr x, d)"
          using False step Inr "1.prems" by (simp add: poll_loop.simps [of I spec ctx answers polls c])
        with sound Inr Finished show ?thesis by (simp add: poll_sound_def)
      next
        case Waiting_on
        then have "poll_loop I spec ctx answers (polls - 1) d = (Inr r, c')"
          using False step Inr "1.prems" by (simp add: poll_loop.simps [of I spec ctx answers polls c])
        with "1.IH"(2) [OF False step [symmetric] Inr Waiting_on] show ?thesis by blast
      qed
    qed
  qed
qed

lemma try_attempt_sound: "cvalid (\<lambda>_. True) (try_attempt I spec ctx) (finished_by I spec) (\<lambda>_. True)"
  unfolding try_attempt_def
  by (intro cvalid_cbind [OF cvalid_true] cvalid_mapping, rule cvalidI) (auto dest: poll_loop_sound split: sum.split)

lemma retry_loop_sound: "cvalid (\<lambda>_. True) (retry_loop I spec ctx attempt left) (finished_by I spec) (\<lambda>_. True)"
proof (induction left arbitrary: attempt)
  case 0
  show ?case by (simp add: cvalid_raise)
next
  case (Suc left)
  show ?case unfolding retry_loop.simps
    by (rule cvalid_cbind [OF cvalid_true], rule cvalid_cbind [OF cvalid_true], rule cvalid_ccatch [OF try_attempt_sound],
        rule cvalid_if, rule cvalid_raise, simp, rule cvalid_mapping, rule cvalid_cbind [OF cvalid_true],
        rule cvalid_cbind [OF cvalid_true], rule Suc.IH)
qed

lemma invoke_sound: "cvalid (\<lambda>_. True) (invoke I spec ctx) (finished_by I spec) (\<lambda>_. True)"
  unfolding invoke_def invocation_failed_def
  by (rule cvalid_ccatch [OF retry_loop_sound])
    (intro cvalid_if cvalid_mapping cvalid_cbind [OF cvalid_true] cvalid_raise; simp)

text \<open>
  A returned result is the agent's. When an invocation returns a result, then some answer to
  a status request was a completed task with exactly one artifact of one JSON part, from which
  the result was validated; it has the artifact kind that the catalog demands of this agent; and
  the delegation record, saved in the database, names that task and says that it is completed.
\<close>

theorem result_comes_from_completed_task:
  assumes "invoke I spec ctx (start_client I spec ctx h) = (Inr r, c)"
  shows "ag_artifact_kind r = sp_artifact_kind spec
    \<and> (\<exists>t n a p data. nt_get (in_network I) n = Inr t \<and> ts_state (tk_status t) = TASK_STATE_COMPLETED
         \<and> tk_artifacts t = [a] \<and> ta_parts a = [p] \<and> pt_data p = Some data \<and> pt_media_type p = APPLICATION_JSON
         \<and> in_result I data = Inr r
         \<and> dt_task_id (cl_mapping c) = Some (tk_id t) \<and> dt_context_id (cl_mapping c) = tk_context_id t)
    \<and> dt_state (cl_mapping c) = ''completed''
    \<and> cl_mapping c \<in> snd ` set (db_delegated_tasks (hb_db (cl_hub c)))"
proof -
  have "finished_by I spec r c" using cvalidD [OF invoke_sound TrueI assms] by simp
  then obtain t n where t: "nt_get (in_network I) n = Inr t" "ts_state (tk_status t) = TASK_STATE_COMPLETED"
    "decode_result I spec t = Inr r" "reached t c" unfolding finished_by_def by blast
  from t(3) obtain a p data where "tk_artifacts t = [a]" "ta_parts a = [p]" "pt_data p = Some data"
    "pt_media_type p = APPLICATION_JSON" "in_result I data = Inr r"
    by (auto simp: decode_result_def rbind_eq_Inr split: list.splits option.splits if_splits)
  then show ?thesis using t decode_result_kind [OF t(3)] by (simp add: reached_def recorded_def) blast
qed

end
