(* ===== verification/Reconciliation.thy ===== *)
theory Reconciliation
  imports A2AClient
begin

text \<open>
  What the hub may rely on when it retries a run: the reconciliation of earlier delegations
  (\<open>reconcile_run\<close> in \<open>a2a/client.py\<close>), its guarantee, the case it misses, and a concrete
  invocation that witnesses the properties of the client.
\<close>


section \<open>What reconciliation does to the delegation records\<close>

abbreviation delegations :: "client \<Rightarrow> (string \<times> delegated_task) list" where
  "delegations c \<equiv> db_delegated_tasks (hb_db (cl_hub c))"

text \<open>The state that the server reported last.\<close>

definition reported :: "invoker \<Rightarrow> string \<Rightarrow> bool" where
  "reported I s \<longleftrightarrow> (\<exists>n t. nt_get (in_network I) n = Inr t \<and> s = task_state_name (ts_state (tk_status t)))"

definition replace_row :: "delegated_task \<Rightarrow> (string \<times> delegated_task) list \<Rightarrow> (string \<times> delegated_task) list" where
  "replace_row m rows = map (\<lambda>(run, t). if dt_invocation_id t = dt_invocation_id m then (run, m) else (run, t)) rows"

lemma replace_row_inv [simp]: "map (dt_invocation_id \<circ> snd) (replace_row m rows) = map (dt_invocation_id \<circ> snd) rows"
  by (induction rows) (auto simp: replace_row_def)

lemma save_replaces:
  assumes "save_mapping I c = (Inr u, c')"
    and "dt_invocation_id (cl_mapping c) \<in> dt_invocation_id ` snd ` set (delegations c)"
  shows "delegations c' = replace_row (cl_mapping c) (delegations c)"
proof -
  have "dt_invocation_id (cl_mapping c) \<in> (dt_invocation_id \<circ> snd) ` set (delegations c)"
    using assms(2) by (simp add: image_comp)
  then show ?thesis
    using assms(1) by (auto simp: save_mapping_def cbind_def the_mapping_def on_hub_def on_db_def save_delegated_task_def
        replace_row_def split: prod.splits sum.splits)
qed

lemma emit_delegations: "client_emit I r ty p c = (res, c') \<Longrightarrow> delegations c' = delegations c"
  by (auto simp: client_emit_def on_hub_def emit_def dest: event_delegated split: prod.splits sum.splits)

lemma cbind_Inr: "cbind m f c = (Inr y, c') \<longleftrightarrow> (\<exists>x d. m c = (Inr x, d) \<and> f x d = (Inr y, c'))"
  by (auto simp: cbind_def split: prod.splits sum.splits)

lemma exchange_Inr: "exchange f r c = (Inr x, d) \<longleftrightarrow> f (cl_tick c) = Inr x
    \<and> d = c\<lparr>cl_tick := cl_tick c + 1, cl_requests := cl_requests c @ [r]\<rparr>"
  by (auto simp: exchange_def)

lemma cancel_remote_delegations: "cancel_remote I i c = (res, d) \<Longrightarrow> delegations d = delegations c"
  by (auto simp: cancel_remote_def ccatch_def exchange_def creturn_def craise_def
      split: sum.splits client_error.splits py_error.splits)

lemma reconcile_one_rows:
  assumes run: "reconcile_one I r m c = (Inr (), c')" and row: "m \<in> snd ` set (delegations c)"
    and dist: "distinct (map (dt_invocation_id \<circ> snd) (delegations c))"
  shows "\<exists>s \<in> set SETTLED. delegations c' = replace_row (m\<lparr>dt_state := s\<rparr>) (delegations c)
    \<and> (s = dt_state m \<or> reported I s)"
proof (cases "dt_state m \<in> set SETTLED")
  case True
  have same: "m\<lparr>dt_state := dt_state m\<rparr> = m" by (cases m) simp
  have "(case p of (run, t) \<Rightarrow> if dt_invocation_id t = dt_invocation_id m then (run, m) else (run, t)) = p"
    if "p \<in> set (delegations c)" for p
  proof -
    obtain q where q: "q \<in> set (delegations c)" "snd q = m" using row by auto
    show ?thesis
    proof (cases "dt_invocation_id (snd p) = dt_invocation_id m")
      case True
      then have "p = q" using distinct_map_eq [OF dist that q(1)] q(2) by simp
      then show ?thesis using q(2) by (cases q) simp
    qed (simp add: split_beta)
  qed
  then have "replace_row (m\<lparr>dt_state := dt_state m\<rparr>) (delegations c) = delegations c"
    unfolding replace_row_def same by (intro map_idI) simp
  with True run show ?thesis by (auto simp: reconcile_one_def creturn_def intro!: bexI [of _ "dt_state m"])
next
  case False
  then obtain ch chs where id: "dt_task_id m = Some (ch # chs)"
    using run by (auto simp: reconcile_one_def craise_def split: option.splits list.splits)
  then obtain spec where spec: "List.find (\<lambda>s. sp_name s = dt_agent m) AGENT_SPECS = Some spec"
    using run False by (auto simp: reconcile_one_def craise_def split: option.splits)
  let ?i = "ch # chs" and ?n = "\<lambda>t. task_state_name (ts_state (tk_status t))"
  obtain received c1 c2 t c3 s d1 d2 d3 d4 where
    card: "exchange (nt_card (in_network I)) (Rq_card (agent_base (rt_settings (in_runtime I)) (sp_name spec))) c = (Inr received, c1)"
    and valid: "from_result (validate_card received spec (agent_base (rt_settings (in_runtime I)) (sp_name spec) @ ''/rpc'')) c1 = (Inr (), c2)"
    and get: "get_remote_task I ?i c2 = (Inr t, c3)"
    and state: "(if ?n t \<in> set SETTLED then creturn (?n t)
        else cbind (cancel_remote I ?i) (\<lambda>_. cbind (get_remote_task I ?i) (\<lambda>t'. creturn (?n t')))) c3 = (Inr s, d1)"
    and steps: "set_mapping (\<lambda>_. m\<lparr>dt_state := s\<rparr>) d1 = (Inr (), d2)" "save_mapping I d2 = (Inr (), d3)"
    and last: "client_emit I r ''a2a.cancellation_result'' (task_dump (m\<lparr>dt_state := s\<rparr>)) d3 = (Inr (), d4)"
      "cguard (s \<in> set SETTLED) (RuntimeError (''Previous '' @ sp_name spec @ '' task is still active; retry withheld'')) d4 = (Inr (), c')"
    using run unfolding reconcile_one_def id spec Let_def option.case list.case if_not_P [OF False] cbind_Inr
    by (elim exE conjE) (rule that; (assumption | simp))
  have c2: "delegations c2 = delegations c"
    using card valid by (auto simp: exchange_Inr from_result_def creturn_def craise_def split: sum.splits)
  have c3: "delegations c3 = delegations c" "reported I (?n t)"
    using get c2 by (auto simp: get_remote_task_def exchange_Inr reported_def)
  have before: "delegations d1 = delegations c" "reported I s"
  proof -
    have "delegations d1 = delegations c3 \<and> reported I s"
    proof (cases "?n t \<in> set SETTLED")
      case True
      with state c3(2) show ?thesis by (simp add: creturn_def)
    next
      case False
      with state obtain e t' where "cancel_remote I ?i c3 = (Inr (), e)" "get_remote_task I ?i e = (Inr t', d1)" "s = ?n t'"
        by (auto simp: cbind_Inr creturn_def)
      then show ?thesis using cancel_remote_delegations [of I ?i c3 "Inr ()" e]
        by (auto simp: get_remote_task_def exchange_Inr reported_def)
    qed
    then show "delegations d1 = delegations c" "reported I s" using c3(1) by simp_all
  qed
  have after: "delegations c' = delegations d3" "s \<in> set SETTLED"
    using last emit_delegations [OF last(1)] by (auto simp: cguard_def creturn_def craise_def split: if_splits)
  have d2: "cl_mapping d2 = m\<lparr>dt_state := s\<rparr>" "delegations d2 = delegations c"
    using steps(1) before(1) by (auto simp: set_mapping_def)
  have "dt_invocation_id (cl_mapping d2) \<in> dt_invocation_id ` snd ` set (delegations d2)"
    using imageI [OF row, of dt_invocation_id] by (simp add: d2)
  from save_replaces [OF steps(2) this] have "delegations d3 = replace_row (m\<lparr>dt_state := s\<rparr>) (delegations c)"
    by (simp add: d2)
  with after before(2) show ?thesis by auto
qed


text \<open>What a row becomes.\<close>

definition settled_row :: "invoker \<Rightarrow> delegated_task \<Rightarrow> delegated_task \<Rightarrow> bool" where
  "settled_row I t t' \<longleftrightarrow> (\<exists>s \<in> set SETTLED. t' = t\<lparr>dt_state := s\<rparr> \<and> (s = dt_state t \<or> reported I s))"

lemma reconcile_all_rows:
  assumes "reconcile_all I r ms c = (Inr (), c')" and "set ms \<subseteq> snd ` set (delegations c)"
    and "distinct (map (dt_invocation_id \<circ> snd) (delegations c))" and "distinct (map dt_invocation_id ms)"
  shows "\<exists>f. delegations c' = map (\<lambda>(run, t). (run, f t)) (delegations c)
    \<and> (\<forall>m \<in> set ms. settled_row I m (f m))
    \<and> (\<forall>t. dt_invocation_id t \<notin> dt_invocation_id ` set ms \<longrightarrow> f t = t)"
  using assms
proof (induction ms arbitrary: c)
  case Nil
  then show ?case by (auto simp: creturn_def intro!: exI [of _ "\<lambda>t. t"])
next
  case (Cons m ms)
  obtain d where d: "reconcile_one I r m c = (Inr (), d)" "reconcile_all I r ms d = (Inr (), c')"
    using Cons.prems(1) by (auto simp: cbind_Inr)
  obtain s where s: "s \<in> set SETTLED" "delegations d = replace_row (m\<lparr>dt_state := s\<rparr>) (delegations c)" "s = dt_state m \<or> reported I s"
    using reconcile_one_rows [OF d(1) _ Cons.prems(3)] Cons.prems(2) by auto
  define g where "g t = (if dt_invocation_id t = dt_invocation_id m then m\<lparr>dt_state := s\<rparr> else t)" for t
  have d_rows: "delegations d = map (\<lambda>(run, t). (run, g t)) (delegations c)"
    unfolding s(2) replace_row_def by (intro map_cong refl) (auto simp: g_def)
  have fresh: "dt_invocation_id m \<notin> dt_invocation_id ` set ms" "distinct (map dt_invocation_id ms)"
    using Cons.prems(4) by simp_all
  have other: "g t = t" if "t \<in> set ms" for t
    using imageI [OF that, of dt_invocation_id] fresh(1) unfolding g_def by (metis (full_types))
  have sub: "set ms \<subseteq> snd ` set (delegations d)"
  proof
    fix t
    assume t: "t \<in> set ms"
    then obtain run where "(run, t) \<in> set (delegations c)" using Cons.prems(2) by auto
    then have "(run, g t) \<in> set (delegations d)" unfolding d_rows by force
    then show "t \<in> snd ` set (delegations d)" using other [OF t] by force
  qed
  have dist: "distinct (map (dt_invocation_id \<circ> snd) (delegations d))" using Cons.prems(3) unfolding s(2) replace_row_inv .
  obtain f where f: "delegations c' = map (\<lambda>(run, t). (run, f t)) (delegations d)" "\<forall>x \<in> set ms. settled_row I x (f x)"
    "\<forall>t. dt_invocation_id t \<notin> dt_invocation_id ` set ms \<longrightarrow> f t = t"
    using Cons.IH [OF d(2) sub dist fresh(2)] by auto
  have "g m = m\<lparr>dt_state := s\<rparr>" "dt_invocation_id (g m) = dt_invocation_id m" by (simp_all add: g_def)
  then have "f (g m) = m\<lparr>dt_state := s\<rparr>" using f(3) fresh(1) by simp
  then have head: "settled_row I m (f (g m))" using s(1,3) by (auto simp: settled_row_def)
  have tail: "settled_row I t (f (g t))" if "t \<in> set ms" for t using f(2) other [OF that] that by simp
  have rest: "f (g t) = t" if "dt_invocation_id t \<notin> dt_invocation_id ` set (m # ms)" for t
    using that f(3) by (simp add: g_def)
  have "delegations c' = map (\<lambda>(run, t). (run, f (g t))) (delegations c)"
    unfolding f(1) d_rows map_map by (intro map_cong refl) auto
  then show ?case using head tail rest by (intro exI [of _ "\<lambda>t. f (g t)"]) auto
qed


text \<open>
  C30. A retry is only let through when the previous delegations are settled. If reconciliation
  of a run succeeds, then every delegation of that run has kept its identity and is in a settled
  state, which is the one it had before or one that the server reported; delegations of other
  runs are as before.
\<close>

theorem reconciled_run_is_settled:
  assumes "db_wf (hb_db (cl_hub c))" and "reconcile_run I run_id c = (Inr (), c')"
  shows "list_all2 (settled_row I) (list_delegated_tasks (hb_db (cl_hub c)) run_id) (list_delegated_tasks (hb_db (cl_hub c')) run_id)
    \<and> map dt_invocation_id (list_delegated_tasks (hb_db (cl_hub c')) run_id)
        = map dt_invocation_id (list_delegated_tasks (hb_db (cl_hub c)) run_id)
    \<and> (r' \<noteq> run_id \<longrightarrow> list_delegated_tasks (hb_db (cl_hub c')) r' = list_delegated_tasks (hb_db (cl_hub c)) r')"
proof -
  let ?rows = "\<lambda>r. filter (\<lambda>(run, t). run = r) (delegations c)"
  have dist: "distinct (map (dt_invocation_id \<circ> snd) (delegations c))" using assms(1) unfolding db_wf_def by blast
  have "distinct (map (dt_invocation_id \<circ> snd) (?rows run_id))" using dist by (rule distinct_map_filter)
  then have "distinct (map dt_invocation_id (map snd (?rows run_id)))" by simp
  moreover have "set (map snd (?rows run_id)) \<subseteq> snd ` set (delegations c)" by auto
  ultimately obtain f where f: "delegations c' = map (\<lambda>(run, t). (run, f t)) (delegations c)"
    "\<forall>m \<in> set (map snd (?rows run_id)). settled_row I m (f m)"
    "\<forall>t. dt_invocation_id t \<notin> dt_invocation_id ` set (map snd (?rows run_id)) \<longrightarrow> f t = t"
    using reconcile_all_rows [of I run_id "map snd (?rows run_id)" c c'] dist assms(2)
    unfolding reconcile_run_def list_delegated_tasks_def by blast
  have rows: "list_delegated_tasks (hb_db (cl_hub c')) r = map f (map snd (?rows r))" for r
    unfolding list_delegated_tasks_def f(1) by (simp add: filter_map o_def case_prod_unfold)
  have keep: "f (snd p) = snd p" if "p \<in> set (?rows r')" "r' \<noteq> run_id" for p r'
  proof -
    have "dt_invocation_id (snd p) \<noteq> dt_invocation_id (snd q)" if "q \<in> set (?rows run_id)" for q
      using \<open>p \<in> set (?rows r')\<close> that \<open>r' \<noteq> run_id\<close> distinct_map_eq [OF dist, of p q] by auto
    then have "dt_invocation_id (snd p) \<notin> dt_invocation_id ` set (map snd (?rows run_id))" by (auto simp del: map_map)
    then show ?thesis using f(3) by blast
  qed
  have "list_all2 (settled_row I) ts (map f ts)" if "\<forall>m \<in> set ts. settled_row I m (f m)" for ts
    using that by (induction ts) auto
  moreover have "map dt_invocation_id (map f ts) = map dt_invocation_id ts" if "\<forall>m \<in> set ts. settled_row I m (f m)" for ts
    using that by (induction ts) (auto simp: settled_row_def)
  moreover have "map f (map snd (?rows r')) = map snd (?rows r')" if "r' \<noteq> run_id"
    unfolding map_map using keep [OF _ that] by (intro map_cong refl) simp
  ultimately show ?thesis unfolding rows using f(2) unfolding list_delegated_tasks_def by blast
qed

section \<open>A lost first response\<close>

lemma client_emit_known:
  assumes "hub_ok (in_world I) r (cl_hub c)"
  obtains h where "client_emit I r ty p c = (Inr (), c\<lparr>cl_hub := h\<rparr>)" and "hub_ok (in_world I) r h"
    and "db_delegated_tasks (hb_db h) = delegations c"
proof -
  have known: "r \<in> set (run_ids (hb_db (cl_hub c)))" using assms by (simp add: hub_ok_def)
  obtain res h where h: "event (in_world I) r ty p (cl_hub c) = (res, h)" by fastforce
  have ok: "hub_ok (in_world I) r h" using keepsD [OF event_keeps h assms] .
  have "res = Inr ()" using h known by (auto simp: event_def hbind_def on_db_def hreturn_def append_event_def Let_def)
  then show thesis using that [OF _ ok] h event_delegated [OF h]
    by (simp add: client_emit_def on_hub_def emit_def)
qed

lemma save_mapping_known:
  assumes "hub_ok (in_world I) r (cl_hub c)" and "dt_run_id (cl_mapping c) = r"
  obtains h where "save_mapping I c = (Inr (), c\<lparr>cl_hub := h\<rparr>)" and "hub_ok (in_world I) r h"
    and "db_delegated_tasks (hb_db h) =
      (if dt_invocation_id (cl_mapping c) \<in> (dt_invocation_id \<circ> snd) ` set (delegations c)
       then replace_row (cl_mapping c) (delegations c) else delegations c @ [(r, cl_mapping c)])"
proof -
  let ?op = "on_db (\<lambda>_. save_delegated_task (cl_mapping c)) (in_world I)"
  have known: "r \<in> set (run_ids (hb_db (cl_hub c)))" using assms by (simp add: hub_ok_def)
  obtain res h where h: "?op (cl_hub c) = (res, h)" by fastforce
  have "keeps (hub_ok (in_world I) r) ?op"
    by (rule on_db_keeps) (auto simp: save_delegated_task_wf save_delegated_task_def split: if_splits)
  from keepsD [OF this h assms(1)] have ok: "hub_ok (in_world I) r h" .
  have "res = Inr ()" and rows: "db_delegated_tasks (hb_db h) =
      (if dt_invocation_id (cl_mapping c) \<in> (dt_invocation_id \<circ> snd) ` set (delegations c)
       then replace_row (cl_mapping c) (delegations c) else delegations c @ [(r, cl_mapping c)])"
    using h known assms(2) by (auto simp: on_db_def save_delegated_task_def replace_row_def split: if_splits)
  then show thesis using that [OF _ ok] h
    by (simp add: save_mapping_def cbind_def the_mapping_def on_hub_def)
qed


text \<open>Operations that fail with an error that is worth a retry.\<close>

definition cfails :: "(client \<Rightarrow> bool) \<Rightarrow> 'a client_op \<Rightarrow> (client \<Rightarrow> bool) \<Rightarrow> bool" where
  "cfails P m Q \<longleftrightarrow> (\<forall>c. P c \<longrightarrow> (\<exists>e c'. m c = (Inl e, c') \<and> transient e \<and> Q c'))"

abbreviation cdoes :: "(client \<Rightarrow> bool) \<Rightarrow> 'a client_op \<Rightarrow> (client \<Rightarrow> bool) \<Rightarrow> bool" where
  "cdoes P m Q \<equiv> cvalid P m (\<lambda>_. Q) (\<lambda>_. False)"

lemma cdoesE: "cdoes P m Q \<Longrightarrow> P c \<Longrightarrow> (\<And>x c'. m c = (Inr x, c') \<Longrightarrow> Q c' \<Longrightarrow> thesis) \<Longrightarrow> thesis"
  by (cases "m c", cases "fst (m c)") (auto simp: cvalid_def)

lemma cfails_cbind: "cfails P m Q \<Longrightarrow> cfails P (cbind m f) Q"
  by (force simp: cfails_def cbind_def)

lemma cfails_after:
  assumes "cdoes P m R" and "\<And>x. cfails R (f x) Q"
  shows "cfails P (cbind m f) Q"
  unfolding cfails_def
proof (intro allI impI)
  fix c assume "P c"
  then obtain x d where "m c = (Inr x, d)" "R d" using cdoesE [OF assms(1)] by blast
  with assms(2) show "\<exists>e c'. cbind m f c = (Inl e, c') \<and> transient e \<and> Q c'" by (auto simp: cfails_def cbind_def)
qed

lemma cfails_catch:
  assumes "cfails P m R" and "\<And>e. transient e \<Longrightarrow> cfails R (f e) Q"
  shows "cfails P (ccatch m f) Q"
  unfolding cfails_def
proof (intro allI impI)
  fix c assume "P c"
  then obtain e d where "m c = (Inl e, d)" "transient e" "R d" using assms(1) by (auto simp: cfails_def)
  with assms(2) show "\<exists>e c'. ccatch m f c = (Inl e, c') \<and> transient e \<and> Q c'" by (auto simp: cfails_def ccatch_def)
qed

lemma cfails_mapping: "(\<And>m. cfails (\<lambda>c. cl_mapping c = m \<and> P c) (f m) Q) \<Longrightarrow> cfails P (cbind the_mapping f) Q"
  by (auto simp: cfails_def cbind_def the_mapping_def)

text \<open>Nothing but the first message was sent, and no answer ever named a task.\<close>

definition idle :: "invoker \<Rightarrow> agent_spec \<Rightarrow> agent_context \<Rightarrow> string \<Rightarrow> client \<Rightarrow> bool" where
  "idle I spec ctx state c \<longleftrightarrow> hub_ok (in_world I) (cx_run_id ctx) (cl_hub c)
     \<and> same_work I spec ctx (cl_mapping c) \<and> dt_task_id (cl_mapping c) = None \<and> dt_state (cl_mapping c) = state
     \<and> (\<forall>r \<in> set (cl_requests c). (\<exists>b. r = Rq_card b) \<or> r = Rq_send (initial_message I spec ctx))
     \<and> (delegations c = [] \<or> (\<exists>t. delegations c = [(cx_run_id ctx, t)] \<and> dt_invocation_id t = invocation_id spec ctx))"

definition sent :: "invoker \<Rightarrow> agent_spec \<Rightarrow> agent_context \<Rightarrow> client \<Rightarrow> bool" where
  "sent I spec ctx c \<longleftrightarrow> Rq_send (initial_message I spec ctx) \<in> set (cl_requests c)"

lemma idle_emit:
  assumes "\<And>c h. P (c\<lparr>cl_hub := h\<rparr>) = P c"
  shows "cdoes (\<lambda>c. idle I spec ctx s c \<and> P c) (client_emit I (cx_run_id ctx) ty p) (\<lambda>c. idle I spec ctx s c \<and> P c)"
proof (rule cvalidI)
  fix c res c'
  assume c: "idle I spec ctx s c \<and> P c" "client_emit I (cx_run_id ctx) ty p c = (res, c')"
  then have "hub_ok (in_world I) (cx_run_id ctx) (cl_hub c)" by (simp add: idle_def)
  then obtain h where h: "client_emit I (cx_run_id ctx) ty p c = (Inr (), c\<lparr>cl_hub := h\<rparr>)"
    "hub_ok (in_world I) (cx_run_id ctx) h" "db_delegated_tasks (hb_db h) = delegations c"
    by (rule client_emit_known)
  with c assms [where c = c and h = h] show "case res of Inr x \<Rightarrow> idle I spec ctx s c' \<and> P c' | Inl e \<Rightarrow> False"
    by (auto simp: idle_def)
qed

lemma idle_save:
  "cdoes (idle I spec ctx s) (save_mapping I) (\<lambda>c. idle I spec ctx s c \<and> delegations c = [(cx_run_id ctx, cl_mapping c)])"
proof (rule cvalidI)
  fix c res c'
  assume c: "idle I spec ctx s c" "save_mapping I c = (res, c')"
  then have ok: "hub_ok (in_world I) (cx_run_id ctx) (cl_hub c)" and sw: "same_work I spec ctx (cl_mapping c)"
    by (simp_all add: idle_def)
  from ok same_work_fields(3) [OF sw] obtain h where h: "save_mapping I c = (Inr (), c\<lparr>cl_hub := h\<rparr>)"
    "hub_ok (in_world I) (cx_run_id ctx) h" "db_delegated_tasks (hb_db h) =
      (if dt_invocation_id (cl_mapping c) \<in> (dt_invocation_id \<circ> snd) ` set (delegations c)
       then replace_row (cl_mapping c) (delegations c) else delegations c @ [(cx_run_id ctx, cl_mapping c)])"
    by (rule save_mapping_known)
  have inv: "dt_invocation_id (cl_mapping c) = invocation_id spec ctx" by (rule same_work_fields [OF sw])
  have rows: "db_delegated_tasks (hb_db h) = [(cx_run_id ctx, cl_mapping c)]"
    using c(1) unfolding idle_def h(3) inv by (auto simp: replace_row_def inv)
  have "res = Inr ()" "c' = c\<lparr>cl_hub := h\<rparr>" using c(2) h(1) by simp_all
  then show "case res of Inr x \<Rightarrow> idle I spec ctx s c' \<and> delegations c' = [(cx_run_id ctx, cl_mapping c')] | Inl e \<Rightarrow> False"
    using c(1) h(2) rows inv by (simp add: idle_def)
qed


text \<open>A network that accepts connections and loses every response to a message.\<close>

definition loses_responses :: "invoker \<Rightarrow> agent_spec \<Rightarrow> bool" where
  "loses_responses I spec \<longleftrightarrow>
     (\<forall>n. (\<exists>received. nt_card (in_network I) n = Inr received
            \<and> validate_card received spec (agent_base (rt_settings (in_runtime I)) (sp_name spec) @ ''/rpc'') = Inr ())
        \<and> (\<exists>e. nt_send (in_network I) n = ([], Inl e) \<and> transient e)
        \<and> nt_sleep (in_network I) n = Inr ())"

lemma idle_connect:
  assumes "loses_responses I spec"
  shows "cdoes (idle I spec ctx s) (connect I spec) (idle I spec ctx s)"
proof (rule cvalidI)
  fix c res c'
  assume c: "idle I spec ctx s c" "connect I spec c = (res, c')"
  show "case res of Inr x \<Rightarrow> idle I spec ctx s c' | Inl e \<Rightarrow> False"
  proof (cases "cl_connected c")
    case True
    with c show ?thesis by (auto simp: connect_def creturn_def)
  next
    case False
    let ?base = "agent_base (rt_settings (in_runtime I)) (sp_name spec)"
    obtain received where r: "nt_card (in_network I) (cl_tick c) = Inr received" "validate_card received spec (?base @ ''/rpc'') = Inr ()"
      using assms unfolding loses_responses_def by blast
    have sw: "same_work I spec ctx (cl_mapping c)" using c(1) by (simp add: idle_def)
    have "dt_endpoint (cl_mapping c) = ?base @ ''/rpc''"
      using arg_cong [OF sw [unfolded same_work_def], of dt_endpoint] by (simp add: new_mapping_def)
    define d where "d = c\<lparr>cl_tick := cl_tick c + 1, cl_requests := cl_requests c @ [Rq_card ?base], cl_connected := True\<rparr>"
    obtain p where step: "connect I spec c = client_emit I (cx_run_id ctx) ''a2a.agent_discovered'' p d"
      using False r same_work_fields(3) [OF sw] \<open>dt_endpoint (cl_mapping c) = ?base @ ''/rpc''\<close>
      by (simp add: connect_def cbind_def the_mapping_def exchange_def from_result_def creturn_def d_def)
    have "idle I spec ctx s d" using c(1) by (auto simp: idle_def d_def)
    moreover have "client_emit I (cx_run_id ctx) ''a2a.agent_discovered'' p d = (res, c')" using step c(2) by simp
    ultimately have "case res of Inr x \<Rightarrow> idle I spec ctx s c' \<and> True | Inl e \<Rightarrow> False"
      using cvalidD [OF idle_emit [where P = "\<lambda>_. True"]] by blast
    then show ?thesis by (simp split: sum.splits)
  qed
qed

lemma idle_attempt:
  assumes "loses_responses I spec"
  shows "cfails (idle I spec ctx s) (try_attempt I spec ctx) (\<lambda>c. idle I spec ctx s c \<and> sent I spec ctx c)"
  unfolding try_attempt_def
proof (rule cfails_after [OF idle_connect [OF assms]], rule cfails_mapping, rule cfails_cbind)
  fix m
  show "cfails (\<lambda>c. cl_mapping c = m \<and> idle I spec ctx s c)
      (if dt_task_id m = None then send_stream I (initial_message I spec ctx) (first_reply I spec) else creturn ())
      (\<lambda>c. idle I spec ctx s c \<and> sent I spec ctx c)"
    unfolding cfails_def
  proof (intro allI impI)
    fix c
    assume c: "cl_mapping c = m \<and> idle I spec ctx s c"
    obtain e where e: "nt_send (in_network I) (cl_tick c) = ([], Inl e)" "transient e"
      using assms unfolding loses_responses_def by blast
    have "dt_task_id m = None" using c by (auto simp: idle_def)
    then show "\<exists>e c'. (if dt_task_id m = None then send_stream I (initial_message I spec ctx) (first_reply I spec) else creturn ()) c = (Inl e, c')
        \<and> transient e \<and> idle I spec ctx s c' \<and> sent I spec ctx c'"
      using c e by (auto simp: send_stream_def cbind_def exchange_def idle_def sent_def)
  qed
qed

lemma idle_sleep:
  assumes "loses_responses I spec"
  shows "cdoes (\<lambda>c. idle I spec ctx s c) (\<lambda>c. (nt_sleep (in_network I) (cl_tick c), c\<lparr>cl_tick := cl_tick c + 1\<rparr>)) (\<lambda>c. idle I spec ctx s c)"
  using assms by (auto simp: cvalid_def loses_responses_def idle_def)

lemma idle_run: "idle I spec ctx s c \<Longrightarrow> dt_run_id (cl_mapping c) = cx_run_id ctx"
  using same_work_fields(3) by (auto simp: idle_def)

lemma cfails_raise: "transient e \<Longrightarrow> (\<And>c. P c \<Longrightarrow> Q c) \<Longrightarrow> cfails P (craise e) Q"
  by (simp add: cfails_def craise_def)

lemma cfails_pre: "cfails P m Q \<Longrightarrow> (\<And>c. P' c \<Longrightarrow> P c) \<Longrightarrow> cfails P' m Q"
  by (simp add: cfails_def)

lemma idle_sw: "idle I spec ctx s c \<Longrightarrow> same_work I spec ctx (cl_mapping c)"
  by (simp add: idle_def)

lemma idle_started:
  "cfails (idle I spec ctx s) m Q \<Longrightarrow>
    cfails (idle I spec ctx s) (cbind (set_mapping (\<lambda>m. m\<lparr>dt_attempts := n\<rparr>)) (\<lambda>_. cbind (save_mapping I) (\<lambda>_. m))) Q"
  by (rule cfails_after [OF cvalid_set_mapping [where Q = "idle I spec ctx s"] cfails_after [OF cvalid_weaken [OF idle_save]]])
    (auto simp: idle_def)

lemma idle_retries:
  assumes "loses_responses I spec"
  shows "attempt + left = cf_a2a_max_retries (rt_settings (in_runtime I)) \<Longrightarrow>
    cfails (idle I spec ctx s) (retry_loop I spec ctx attempt (Suc left)) (\<lambda>c. idle I spec ctx s c \<and> sent I spec ctx c)"
proof (induction left arbitrary: attempt)
  case (0 attempt)
  show ?case unfolding retry_loop.simps(2)
    by (rule idle_started, rule cfails_catch [OF idle_attempt [OF assms]])
      (use 0 in \<open>simp add: cfails_raise\<close>)
next
  case (Suc left)
  let ?again = "\<lambda>e. cbind the_mapping (\<lambda>m.
         cbind (client_emit I (dt_run_id m) ''a2a.retry''
           [(''agent'', JStr (sp_name spec)), (''attempt'', JInt (int (attempt + 2))),
            (''invocation_id'', JStr (dt_invocation_id m)), (''reason'', JStr (client_error_text e))]) (\<lambda>_.
         cbind (\<lambda>c. (nt_sleep (in_network I) (cl_tick c), c\<lparr>cl_tick := cl_tick c + 1\<rparr>)) (\<lambda>_.
         retry_loop I spec ctx (attempt + 1) (Suc left))))"
  have emit: "cdoes (\<lambda>c. cl_mapping c = m \<and> idle I spec ctx s c) (client_emit I (dt_run_id m) ty p) (idle I spec ctx s)" for m ty p
  proof (cases "dt_run_id m = cx_run_id ctx")
    case True
    show ?thesis unfolding True
      by (rule cvalid_weaken [OF idle_emit [where P = "\<lambda>_. True"]]) auto
  next
    case False
    then show ?thesis using idle_run unfolding cvalid_def by auto
  qed
  have again: "cfails (idle I spec ctx s) (?again e) (\<lambda>c. idle I spec ctx s c \<and> sent I spec ctx c)" for e
    by (rule cfails_mapping, rule cfails_after [OF emit], rule cfails_after [OF idle_sleep [OF assms]], rule Suc.IH)
      (use Suc.prems in simp)
  have "cfails (\<lambda>c. idle I spec ctx s c \<and> sent I spec ctx c)
      (if e = Raised CancelledError \<or> \<not> transient e \<or> cf_a2a_max_retries (rt_settings (in_runtime I)) \<le> attempt
       then craise e else ?again e) (\<lambda>c. idle I spec ctx s c \<and> sent I spec ctx c)" if "transient e" for e
    using that cfails_pre [OF again [of e], of "\<lambda>c. idle I spec ctx s c \<and> sent I spec ctx c"] Suc.prems by auto
  then show ?case unfolding retry_loop.simps(2)
    by (intro idle_started cfails_catch [OF idle_attempt [OF assms]])
qed

text \<open>
  C31. A delegation whose first response was lost is forgotten. When every response to the first
  message is lost to transient network errors, the invocation gives up without asking for the
  task or canceling it: the delegation is recorded as failed without a task, although the message
  went out and the server may have reserved and started the task. The reconciliation that is to
  withhold a retry while previous work may still be active then succeeds at once, without a single
  request.
\<close>

theorem lost_response_not_reconciled:
  assumes "hub_ok (in_world I) (cx_run_id ctx) h" and "db_delegated_tasks (hb_db h) = []"
    and "loses_responses I spec"
  shows "\<exists>e c. invoke I spec ctx (start_client I spec ctx h) = (Inl e, c)
    \<and> Rq_send (initial_message I spec ctx) \<in> set (cl_requests c)
    \<and> (\<forall>i. Rq_get i \<notin> set (cl_requests c) \<and> Rq_cancel i \<notin> set (cl_requests c))
    \<and> (\<exists>m. list_delegated_tasks (hb_db (cl_hub c)) (cx_run_id ctx) = [m] \<and> dt_invocation_id m = invocation_id spec ctx
          \<and> dt_task_id m = None \<and> dt_state m = ''failed'')
    \<and> reconcile_run I (cx_run_id ctx) c = (Inr (), c)"
proof -
  let ?max = "cf_a2a_max_retries (rt_settings (in_runtime I))" and ?c = "start_client I spec ctx h"
  have "idle I spec ctx ''pending'' ?c"
    using assms(1,2) by (simp add: idle_def start_client_def same_work_def new_mapping_def)
  then obtain e d where d: "retry_loop I spec ctx 0 (?max + 1) ?c = (Inl e, d)" "transient e"
    "idle I spec ctx ''pending'' d" "sent I spec ctx d"
    using idle_retries [OF assms(3), of 0 ?max ctx "''pending''"] unfolding cfails_def by auto
  have mapping: "dt_task_id (cl_mapping d) = None" "dt_state (cl_mapping d) = ''pending''"
    using d(3) by (simp_all add: idle_def)
  define d1 where "d1 = d\<lparr>cl_mapping := (cl_mapping d)\<lparr>dt_state := ''failed''\<rparr>\<rparr>"
  have d1: "idle I spec ctx ''failed'' d1" using d(3) by (simp add: idle_def d1_def)
  obtain d2 where d2: "save_mapping I d1 = (Inr (), d2)" "idle I spec ctx ''failed'' d2" "delegations d2 = [(cx_run_id ctx, cl_mapping d2)]"
    using cdoesE [OF idle_save d1] by (metis (full_types) old.unit.exhaust)
  let ?p = "[(''agent'', JStr (sp_name spec)), (''reason'', JStr (client_error_text e)), (''task_id'', jopt JStr (dt_task_id (cl_mapping d2)))]"
  have ok: "hub_ok (in_world I) (cx_run_id ctx) (cl_hub d2)" using d2(2) by (simp add: idle_def)
  then obtain h' where h': "client_emit I (cx_run_id ctx) ''a2a.invocation_failed'' ?p d2 = (Inr (), d2\<lparr>cl_hub := h'\<rparr>)"
    "db_delegated_tasks (hb_db h') = delegations d2" by (rule client_emit_known)
  let ?z = "d2\<lparr>cl_hub := h'\<rparr>"
  have "e \<noteq> Raised CancelledError" "e \<noteq> Raised TimeoutError" using d(2) by auto
  then have run: "invoke I spec ctx ?c = (Inl e, ?z)"
    using d(1) mapping d2(1) h'(1) idle_run [OF d2(2)]
    by (simp add: invoke_def ccatch_def invocation_failed_def cbind_def the_mapping_def set_mapping_def creturn_def craise_def d1_def)
  have save: "cl_requests d2 = cl_requests d"
    using d2(1) by (auto simp: save_mapping_def cbind_def the_mapping_def on_hub_def d1_def split: prod.splits sum.splits)
  have rows: "list_delegated_tasks (hb_db (cl_hub ?z)) (cx_run_id ctx) = [cl_mapping d2]"
    using h'(2) d2(3) by (simp add: list_delegated_tasks_def)
  have settled: "dt_state (cl_mapping d2) = ''failed''" "dt_task_id (cl_mapping d2) = None" using d2(2) by (simp_all add: idle_def)
  have "reconcile_run I (cx_run_id ctx) ?z = (Inr (), ?z)"
    unfolding reconcile_run_def rows
    using settled by (simp add: cbind_def reconcile_one_def creturn_def SETTLED_def)
  moreover have "\<forall>i. Rq_get i \<notin> set (cl_requests ?z) \<and> Rq_cancel i \<notin> set (cl_requests ?z)"
    using d(3) save by (auto simp: idle_def)
  moreover have "Rq_send (initial_message I spec ctx) \<in> set (cl_requests ?z)" using d(4) save by (simp add: sent_def)
  ultimately show ?thesis using run rows settled same_work_fields(1) [OF idle_sw [OF d2(2)]] by blast
qed


section \<open>A concrete invocation\<close>

lemma card_accepted: "validate_card (make_card v spec s) spec (agent_base s (sp_name spec) @ ''/rpc'') = Inr ()"
  by (simp add: validate_card_def make_card_def Let_def)

definition demo_remote :: "task_state \<Rightarrow> task" where
  "demo_remote s = \<lparr>tk_id = ''t'', tk_context_id = dt_context_id (new_mapping demo_settings demo_spec (demo_context 0)),
     tk_status = plain_status s,
     tk_artifacts = [\<lparr>ta_artifact_id = ''t:result'', ta_name = ''project_brief'',
       ta_parts = [\<lparr>pt_text = [], pt_data = Some JNull, pt_media_type = APPLICATION_JSON\<rparr>]\<rparr>], tk_history = []\<rparr>"

definition demo_network :: network where
  "demo_network = \<lparr>nt_card = (\<lambda>_. Inr (make_card ''1'' demo_spec demo_settings)),
     nt_send = (\<lambda>_. ([Rs_task ''t'' (tk_context_id (demo_remote TASK_STATE_WORKING)) TASK_STATE_SUBMITTED], Inr ())),
     nt_get = (\<lambda>_. Inr (demo_remote TASK_STATE_COMPLETED)),
     nt_cancel = (\<lambda>_. Inr ()), nt_sleep = (\<lambda>_. Inr ()), nt_polls = 3, nt_answers = 0\<rparr>"

definition demo_invoker :: "network \<Rightarrow> invoker" where
  "demo_invoker N = \<lparr>in_runtime = demo_runtime, in_network = N,
     in_result = (\<lambda>_. Inr (demo_result PROJECT_BRIEF [] 1)), in_value = (\<lambda>j. j), in_human = None\<rparr>"

abbreviation demo_start :: "network \<Rightarrow> client" where
  "demo_start N \<equiv> start_client (demo_invoker N) demo_spec (demo_context 0) demo_hub"

lemma demo_invoker_simps [simp]:
  "in_network (demo_invoker N) = N" "rt_settings (in_runtime (demo_invoker N)) = demo_settings"
  "in_world (demo_invoker N) = demo_world" "in_human (demo_invoker N) = None"
  by (simp_all add: demo_invoker_def demo_runtime_def)

lemma demo_hub_delegations: "db_delegated_tasks (hb_db demo_hub) = []"
proof -
  obtain run where "create_run demo_env 1 ''run_1'' ''idea'' empty_database = (Inr run, hb_db demo_hub)" using demo_created by blast
  from arg_cong [OF this, of "\<lambda>p. db_delegated_tasks (snd p)"] show ?thesis
    by (simp add: create_run_def empty_database_def Let_def split: sum.splits option.splits if_splits)
qed

lemma update_mapping_known:
  assumes "hub_ok (in_world I) r (cl_hub c)" and "dt_run_id (cl_mapping c) = r" and "i \<noteq> []" "x = dt_context_id (cl_mapping c)"
    and "dt_task_id (cl_mapping c) \<in> {None, Some i}"
  obtains h where "update_mapping I i x s c =
      (Inr (), c\<lparr>cl_hub := h, cl_mapping := (cl_mapping c)\<lparr>dt_task_id := Some i, dt_state := task_state_name s\<rparr>\<rparr>)"
    and "hub_ok (in_world I) r h"
proof -
  define d where "d = c\<lparr>cl_mapping := (cl_mapping c)\<lparr>dt_task_id := Some i, dt_state := task_state_name s\<rparr>\<rparr>"
  have "hub_ok (in_world I) r (cl_hub d)" "dt_run_id (cl_mapping d) = r" using assms(1,2) by (simp_all add: d_def)
  then obtain h where h: "save_mapping I d = (Inr (), d\<lparr>cl_hub := h\<rparr>)" "hub_ok (in_world I) r h"
    by (rule save_mapping_known)
  then have "hub_ok (in_world I) r (cl_hub (d\<lparr>cl_hub := h\<rparr>))" by simp
  then obtain h2 where h2: "client_emit I r ''a2a.task_status'' (task_dump (cl_mapping d)) (d\<lparr>cl_hub := h\<rparr>) = (Inr (), d\<lparr>cl_hub := h2\<rparr>)"
    "hub_ok (in_world I) r h2" by (rule client_emit_known [where ty = "''a2a.task_status''" and p = "task_dump (cl_mapping d)"]) simp
  show thesis
  proof (cases "dt_state (cl_mapping c) = task_state_name s")
    case True
    then show ?thesis using that [of h] h assms(3-5)
      by (auto simp: update_mapping_def cbind_def the_mapping_def cguard_def creturn_def set_mapping_def Let_def d_def)
  next
    case False
    then show ?thesis using that [of h2] h h2 assms(2-5)
      by (auto simp: update_mapping_def cbind_def the_mapping_def cguard_def creturn_def set_mapping_def Let_def d_def)
  qed
qed

theorem lost_response_not_reconciled_witness:
  "\<exists>e c. invoke (demo_invoker (demo_network\<lparr>nt_send := \<lambda>_. ([], Inl (Http_request_error []))\<rparr>)) demo_spec (demo_context 0)
      (demo_start (demo_network\<lparr>nt_send := \<lambda>_. ([], Inl (Http_request_error []))\<rparr>)) = (Inl e, c)
    \<and> (\<exists>m. list_delegated_tasks (hb_db (cl_hub c)) ''run_1'' = [m] \<and> dt_state m = ''failed'')"
proof -
  let ?I = "demo_invoker (demo_network\<lparr>nt_send := \<lambda>_. ([], Inl (Http_request_error []))\<rparr>)"
  have "hub_ok (in_world ?I) (cx_run_id (demo_context 0)) demo_hub" using demo_hub_ok by (simp add: demo_context_def)
  moreover have "loses_responses ?I demo_spec"
    using card_accepted [of "''1''" demo_spec demo_settings] by (simp add: loses_responses_def demo_network_def)
  ultimately show ?thesis
    using lost_response_not_reconciled [of ?I "demo_context 0" demo_hub demo_spec] demo_hub_delegations
    by (auto simp: demo_context_def)
qed

theorem one_task_per_invocation_witness:
  "case invoke (demo_invoker demo_network) demo_spec (demo_context 0) (demo_start demo_network) of
     (res, c) \<Rightarrow> initial_sends (demo_invoker demo_network) demo_spec (demo_context 0) c \<le> 4
       \<and> dt_invocation_id (cl_mapping c) = ''run_1:intake:intake-agent''"
proof -
  obtain res c where run: "invoke (demo_invoker demo_network) demo_spec (demo_context 0) (demo_start demo_network) = (res, c)"
    by fastforce
  have "cf_a2a_max_retries demo_settings = 2" by (simp add: demo_settings_def)
  with one_task_per_invocation [OF run] run show ?thesis
    by (simp add: invocation_id_def attempt_suffix_def demo_context_def demo_spec)
qed


lemma demo_connect:
  assumes "hub_ok demo_world ''run_1'' (cl_hub c)" and "\<not> cl_connected c" and "dt_run_id (cl_mapping c) = ''run_1''"
    and "dt_endpoint (cl_mapping c) = agent_base demo_settings (sp_name demo_spec) @ ''/rpc''"
  obtains d where "connect (demo_invoker demo_network) demo_spec c = (Inr (), d)" and "hub_ok demo_world ''run_1'' (cl_hub d)"
    and "cl_mapping d = cl_mapping c"
proof -
  let ?p = "[(''agent'', JStr (sp_name demo_spec)), (''endpoint'', JStr (dt_endpoint (cl_mapping c))), (''protocol'', JStr ''1.0'')]"
  define d where "d = c\<lparr>cl_tick := cl_tick c + 1, cl_requests := cl_requests c @ [Rq_card (agent_base demo_settings (sp_name demo_spec))], cl_connected := True\<rparr>"
  have "hub_ok (in_world (demo_invoker demo_network)) ''run_1'' (cl_hub d)" using assms(1) by (simp add: d_def)
  then obtain h where h: "client_emit (demo_invoker demo_network) ''run_1'' ''a2a.agent_discovered'' ?p d = (Inr (), d\<lparr>cl_hub := h\<rparr>)"
    "hub_ok demo_world ''run_1'' h"
    by (rule client_emit_known [where ty = "''a2a.agent_discovered''" and p = ?p]) simp
  have card: "nt_card demo_network n = Inr (make_card ''1'' demo_spec demo_settings)" for n by (simp add: demo_network_def)
  have "connect (demo_invoker demo_network) demo_spec c = client_emit (demo_invoker demo_network) ''run_1'' ''a2a.agent_discovered'' ?p d"
    using assms card_accepted [of "''1''" demo_spec demo_settings] card
    by (simp add: connect_def cbind_def the_mapping_def exchange_def from_result_def creturn_def d_def)
  with h show thesis using that [of "d\<lparr>cl_hub := h\<rparr>"] by (simp add: d_def)
qed

lemma demo_mapping:
  "new_mapping demo_settings demo_spec (demo_context 0) = \<lparr>dt_invocation_id = invocation_id demo_spec (demo_context 0),
     dt_run_id = ''run_1'', dt_stage = INTAKE, dt_agent = sp_name demo_spec,
     dt_endpoint = agent_base demo_settings (sp_name demo_spec) @ ''/rpc'', dt_context_id = tk_context_id (demo_remote s),
     dt_task_id = None, dt_state = ''pending'', dt_attempts = 0, dt_repair_attempt = 0\<rparr>"
  by (simp add: new_mapping_def demo_context_def demo_remote_def)

lemma demo_poll:
  assumes "hub_ok demo_world ''run_1'' (cl_hub c)" and "dt_run_id (cl_mapping c) = ''run_1''"
    and "dt_context_id (cl_mapping c) = tk_context_id (demo_remote TASK_STATE_COMPLETED)" and "dt_task_id (cl_mapping c) = Some ''t''"
  obtains d where "poll_loop (demo_invoker demo_network) demo_spec (demo_context 0) 0 3 c = (Inr (demo_result PROJECT_BRIEF [] 1), d)"
proof -
  let ?I = "demo_invoker demo_network" and ?t = "demo_remote TASK_STATE_COMPLETED"
  define d where "d = c\<lparr>cl_tick := cl_tick c + 1, cl_requests := cl_requests c @ [Rq_get ''t'']\<rparr>"
  have d: "hub_ok (in_world ?I) ''run_1'' (cl_hub d)" "dt_run_id (cl_mapping d) = ''run_1''" "''t'' \<noteq> []"
    "tk_context_id ?t = dt_context_id (cl_mapping d)" "dt_task_id (cl_mapping d) \<in> {None, Some ''t''}"
    using assms by (simp_all add: d_def)
  obtain h where h: "update_mapping ?I ''t'' (tk_context_id ?t) TASK_STATE_COMPLETED d =
      (Inr (), d\<lparr>cl_hub := h, cl_mapping := (cl_mapping d)\<lparr>dt_task_id := Some ''t'', dt_state := task_state_name TASK_STATE_COMPLETED\<rparr>\<rparr>)"
    using update_mapping_known [OF d] by blast
  have t: "tk_id ?t = ''t''" "ts_state (tk_status ?t) = TASK_STATE_COMPLETED" by (simp_all add: demo_remote_def plain_status_def)
  have "task_result ?I demo_spec ?t = Inr (demo_result PROJECT_BRIEF [] 1)"
    by (simp add: task_result_def decode_result_def t demo_spec) (simp add: demo_remote_def demo_invoker_def demo_result_def demo_spec)
  moreover have "nt_get demo_network n = Inr ?t" for n by (simp add: demo_network_def)
  ultimately have "poll_task ?I demo_spec (demo_context 0) c = (Inr (Finished (demo_result PROJECT_BRIEF [] 1)),
      d\<lparr>cl_hub := h, cl_mapping := (cl_mapping d)\<lparr>dt_task_id := Some ''t'', dt_state := task_state_name TASK_STATE_COMPLETED\<rparr>\<rparr>)"
    using h assms(4) t
    by (simp add: poll_task_def cbind_def the_mapping_def get_remote_task_def exchange_def d_def TERMINAL_def from_result_def creturn_def)
  then show thesis using that by (subst (asm) poll_loop.simps [of ?I _ _ 0 3]) (simp add: poll_loop.simps)
qed


lemma demo_attempt:
  assumes "hub_ok demo_world ''run_1'' (cl_hub c)" and "\<not> cl_connected c"
    and "cl_mapping c = (new_mapping demo_settings demo_spec (demo_context 0))\<lparr>dt_attempts := n\<rparr>"
  obtains d where "try_attempt (demo_invoker demo_network) demo_spec (demo_context 0) c = (Inr (demo_result PROJECT_BRIEF [] 1), d)"
proof -
  let ?I = "demo_invoker demo_network" and ?x = "tk_context_id (demo_remote TASK_STATE_COMPLETED)"
  note m = assms(3) [unfolded demo_mapping [of TASK_STATE_COMPLETED]]
  have "dt_run_id (cl_mapping c) = ''run_1''" "dt_endpoint (cl_mapping c) = agent_base demo_settings (sp_name demo_spec) @ ''/rpc''"
    using m by simp_all
  with assms(1,2) obtain c1 where c1: "connect ?I demo_spec c = (Inr (), c1)" "hub_ok demo_world ''run_1'' (cl_hub c1)" "cl_mapping c1 = cl_mapping c"
    by (rule demo_connect)
  define c2 where "c2 = c1\<lparr>cl_tick := cl_tick c1 + 1, cl_requests := cl_requests c1 @ [Rq_send (initial_message ?I demo_spec (demo_context 0))]\<rparr>"
  have c2: "hub_ok (in_world ?I) ''run_1'' (cl_hub c2)" "dt_run_id (cl_mapping c2) = ''run_1''" "''t'' \<noteq> []"
    "?x = dt_context_id (cl_mapping c2)" "dt_task_id (cl_mapping c2) \<in> {None, Some ''t''}"
    using c1 m by (simp_all add: c2_def)
  obtain h where h: "update_mapping ?I ''t'' ?x TASK_STATE_SUBMITTED c2 =
      (Inr (), c2\<lparr>cl_hub := h, cl_mapping := (cl_mapping c2)\<lparr>dt_task_id := Some ''t'', dt_state := task_state_name TASK_STATE_SUBMITTED\<rparr>\<rparr>)"
    "hub_ok (in_world ?I) ''run_1'' h"
    using update_mapping_known [OF c2] by blast
  define c3 where "c3 = c2\<lparr>cl_hub := h, cl_mapping := (cl_mapping c2)\<lparr>dt_task_id := Some ''t'', dt_state := task_state_name TASK_STATE_SUBMITTED\<rparr>\<rparr>"
  have "nt_send demo_network k = ([Rs_task ''t'' ?x TASK_STATE_SUBMITTED], Inr ())" for k
    by (simp add: demo_network_def demo_remote_def)
  then have send: "send_stream ?I (initial_message ?I demo_spec (demo_context 0)) (first_reply ?I demo_spec) c1 = (Inr (), c3)"
    using h(1) by (simp add: send_stream_def cbind_def exchange_def first_reply_def c2_def c3_def)
  have "hub_ok demo_world ''run_1'' (cl_hub c3)" "dt_run_id (cl_mapping c3) = ''run_1''"
    "dt_context_id (cl_mapping c3) = ?x" "dt_task_id (cl_mapping c3) = Some ''t''"
    using h(2) c2 by (simp_all add: c3_def)
  then obtain d where d: "poll_loop ?I demo_spec (demo_context 0) 0 3 c3 = (Inr (demo_result PROJECT_BRIEF [] 1), d)"
    by (rule demo_poll)
  have none: "dt_task_id (cl_mapping c1) = None" using c1(3) m by simp
  have limits: "nt_answers demo_network = 0" "nt_polls demo_network = 3" by (simp_all add: demo_network_def)
  have "try_attempt ?I demo_spec (demo_context 0) c = (Inr (demo_result PROJECT_BRIEF [] 1), d)"
    unfolding try_attempt_def demo_invoker_simps limits
    by (simp add: cbind_def c1(1) the_mapping_def none send cguard_def creturn_def d) (simp add: c3_def d [unfolded c3_def])
  then show thesis by (rule that)
qed

lemma demo_invoke:
  obtains c where "invoke (demo_invoker demo_network) demo_spec (demo_context 0) (demo_start demo_network) = (Inr (demo_result PROJECT_BRIEF [] 1), c)"
proof -
  let ?I = "demo_invoker demo_network"
  define c where "c = (demo_start demo_network)\<lparr>cl_mapping := (cl_mapping (demo_start demo_network))\<lparr>dt_attempts := 1\<rparr>\<rparr>"
  have c: "hub_ok (in_world ?I) ''run_1'' (cl_hub c)" "dt_run_id (cl_mapping c) = ''run_1''" "\<not> cl_connected c"
    "cl_mapping c = (new_mapping demo_settings demo_spec (demo_context 0))\<lparr>dt_attempts := 1\<rparr>"
    using demo_hub_ok by (simp_all add: c_def start_client_def new_mapping_def demo_context_def)
  obtain h where h: "save_mapping ?I c = (Inr (), c\<lparr>cl_hub := h\<rparr>)" "hub_ok (in_world ?I) ''run_1'' h"
    using c(1,2) by (rule save_mapping_known)
  have "hub_ok demo_world ''run_1'' (cl_hub (c\<lparr>cl_hub := h\<rparr>))" "\<not> cl_connected (c\<lparr>cl_hub := h\<rparr>)"
    "cl_mapping (c\<lparr>cl_hub := h\<rparr>) = (new_mapping demo_settings demo_spec (demo_context 0))\<lparr>dt_attempts := 1\<rparr>"
    using h(2) c(3,4) by simp_all
  then obtain d where "try_attempt ?I demo_spec (demo_context 0) (c\<lparr>cl_hub := h\<rparr>) = (Inr (demo_result PROJECT_BRIEF [] 1), d)"
    by (rule demo_attempt)
  then have "retry_loop ?I demo_spec (demo_context 0) 0 (Suc k) (demo_start demo_network) = (Inr (demo_result PROJECT_BRIEF [] 1), d)" for k
    using h(1) by (simp add: cbind_def set_mapping_def ccatch_def c_def)
  then show thesis using that by (simp add: invoke_def ccatch_def del: retry_loop.simps)
qed

theorem result_comes_from_completed_task_witness:
  "\<exists>c m. invoke (demo_invoker demo_network) demo_spec (demo_context 0) (demo_start demo_network) = (Inr (demo_result PROJECT_BRIEF [] 1), c)
    \<and> m \<in> snd ` set (db_delegated_tasks (hb_db (cl_hub c))) \<and> dt_state m = ''completed''"
proof -
  obtain c where run: "invoke (demo_invoker demo_network) demo_spec (demo_context 0) (demo_start demo_network) = (Inr (demo_result PROJECT_BRIEF [] 1), c)"
    by (rule demo_invoke)
  from result_comes_from_completed_task [OF run] run show ?thesis by blast
qed

lemma cbind_steps:
  "cbind (creturn x) f = f x" "cbind (set_mapping g) k c = k () (c\<lparr>cl_mapping := g (cl_mapping c)\<rparr>)"
  "cbind (exchange a r) h c = (let d = c\<lparr>cl_tick := cl_tick c + 1, cl_requests := cl_requests c @ [r]\<rparr> in
     case a (cl_tick c) of Inl e \<Rightarrow> (Inl e, d) | Inr y \<Rightarrow> h y d)"
  by (simp_all add: cbind_def creturn_def set_mapping_def exchange_def Let_def)

theorem reconciled_run_is_settled_witness:
  "\<exists>c c'. map dt_state (list_delegated_tasks (hb_db (cl_hub c)) ''run_1'') = [''working'']
    \<and> reconcile_run (demo_invoker demo_network) ''run_1'' c = (Inr (), c')
    \<and> (\<exists>s \<in> set SETTLED. map dt_state (list_delegated_tasks (hb_db (cl_hub c')) ''run_1'') = [s])"
proof -
  let ?I = "demo_invoker demo_network"
  define m where "m = (new_mapping demo_settings demo_spec (demo_context 0))\<lparr>dt_task_id := Some ''t'', dt_state := ''working''\<rparr>"
  define c0 where "c0 = (demo_start demo_network)\<lparr>cl_mapping := m\<rparr>"
  have run: "dt_run_id m = ''run_1''" "dt_agent m = sp_name demo_spec" "dt_task_id m = Some ''t''" "dt_state m = ''working''"
    by (simp_all add: m_def new_mapping_def demo_context_def)
  have "hub_ok (in_world ?I) ''run_1'' (cl_hub c0)" "dt_run_id (cl_mapping c0) = ''run_1''"
    using demo_hub_ok run by (simp_all add: c0_def start_client_def)
  then obtain h where h: "hub_ok (in_world ?I) ''run_1'' h"
    "db_delegated_tasks (hb_db h) = (if dt_invocation_id (cl_mapping c0) \<in> (dt_invocation_id \<circ> snd) ` set (delegations c0)
       then replace_row (cl_mapping c0) (delegations c0) else delegations c0 @ [(''run_1'', cl_mapping c0)])"
    by (rule save_mapping_known)
  define c where "c = c0\<lparr>cl_hub := h\<rparr>"
  have "delegations c0 = []" using demo_hub_delegations by (simp add: c0_def start_client_def)
  with h(2) have rows: "list_delegated_tasks (hb_db (cl_hub c)) ''run_1'' = [m]"
    by (simp add: c_def c0_def list_delegated_tasks_def)
  have wf: "db_wf (hb_db (cl_hub c))" using h(1) by (simp add: c_def hub_ok_def hub_wf_def)
  have card: "nt_card demo_network k = Inr (make_card ''1'' demo_spec demo_settings)" for k by (simp add: demo_network_def)
  have get: "nt_get demo_network k = Inr (demo_remote TASK_STATE_COMPLETED)" for k by (simp add: demo_network_def)
  have done_: "task_state_name (ts_state (tk_status (demo_remote TASK_STATE_COMPLETED))) = ''completed''"
    by (simp add: demo_remote_def plain_status_def)
  have found: "List.find (\<lambda>s. sp_name s = sp_name demo_spec) AGENT_SPECS = Some demo_spec"
    unfolding demo_spec_def by code_simp
  obtain d where d: "hub_ok (in_world ?I) ''run_1'' (cl_hub d)" "cl_mapping d = m\<lparr>dt_state := ''completed''\<rparr>"
    "reconcile_one ?I ''run_1'' m c = cbind (save_mapping ?I) (\<lambda>_. cbind (client_emit ?I ''run_1'' ''a2a.cancellation_result''
        (task_dump (m\<lparr>dt_state := ''completed''\<rparr>))) (\<lambda>_. creturn ())) d"
  proof -
    show thesis
      by (rule that [of "c\<lparr>cl_tick := cl_tick c + 2, cl_requests := cl_requests c @ [Rq_card (agent_base demo_settings (sp_name demo_spec)), Rq_get ''t''],
          cl_mapping := m\<lparr>dt_state := ''completed''\<rparr>\<rparr>"])
        (use h(1) run card_accepted [of "''1''" demo_spec demo_settings] in
          \<open>simp_all add: c_def reconcile_one_def SETTLED_def found cbind_steps Let_def card get get_remote_task_def
            from_result_def done_ cguard_def\<close>)
  qed
  have "dt_run_id (cl_mapping d) = ''run_1''" using d(2) run by simp
  with d(1) obtain h1 where h1: "save_mapping ?I d = (Inr (), d\<lparr>cl_hub := h1\<rparr>)" "hub_ok (in_world ?I) ''run_1'' h1"
    by (rule save_mapping_known)
  from h1(2) have "hub_ok (in_world ?I) ''run_1'' (cl_hub (d\<lparr>cl_hub := h1\<rparr>))" by simp
  then obtain h2 where "client_emit ?I ''run_1'' ''a2a.cancellation_result'' (task_dump (m\<lparr>dt_state := ''completed''\<rparr>)) (d\<lparr>cl_hub := h1\<rparr>)
      = (Inr (), d\<lparr>cl_hub := h1, cl_hub := h2\<rparr>)"
    by (rule client_emit_known)
  with d(3) h1(1) have "reconcile_one ?I ''run_1'' m c = (Inr (), d\<lparr>cl_hub := h2\<rparr>)"
    by (simp add: cbind_def creturn_def)
  then have step: "reconcile_run ?I ''run_1'' c = (Inr (), d\<lparr>cl_hub := h2\<rparr>)"
    unfolding reconcile_run_def rows by (simp add: cbind_def creturn_def)
  from reconciled_run_is_settled [OF wf step, THEN conjunct1] obtain z where
    z: "list_delegated_tasks (hb_db (cl_hub (d\<lparr>cl_hub := h2\<rparr>))) ''run_1'' = [z]" "settled_row ?I m z"
    by (auto simp: rows list_all2_Cons1)
  then obtain s where s: "s \<in> set SETTLED" "dt_state z = s" by (auto simp: settled_row_def)
  show ?thesis
    by (rule exI [of _ c], rule exI [of _ "d\<lparr>cl_hub := h2\<rparr>"]) (use step rows run(4) z(1) s in auto)
qed

end
