(* ===== verification/Sandbox.thy ===== *)
theory Sandbox
  imports Config Hub
begin

text \<open>
  The container sandbox: the models of \<open>sandbox/models.py\<close>, the leases of \<open>sandbox/leases.py\<close>, and
  \<open>DockerSandbox\<close> of \<open>sandbox/runner.py\<close> with its orphan recovery and the evidence that
  \<open>sandbox/recovery.py\<close> publishes. The Docker daemon is an environment that replies to the \<open>n\<close>-th
  command line; the commands sent are logged. The semaphore and the lock of the class only order
  executions and are not modelled, nor are the temporary directories for the client's configuration.
\<close>

section \<open>Models\<close>

definition ISOLATION :: "(string \<times> string) list" where
  "ISOLATION =
    [(''runc'', ''OCI namespaces, dropped capabilities, default seccomp, shared host kernel''),
     (''runsc'', ''gVisor user-space kernel (requires runtime qualification)''),
     (''kata'', ''Kata containerd shim microVM (requires runtime qualification)'')]"

datatype sandbox_mode = Analyze | Build | Test | Probe

fun mode_value :: "sandbox_mode \<Rightarrow> string" where
  "mode_value Analyze = ''analyze''"
| "mode_value Build = ''build''"
| "mode_value Test = ''test''"
| "mode_value Probe = ''probe''"

record sandbox_policy =
  sp_cpus :: int
  sp_memory_bytes :: int
  sp_pids :: int
  sp_workspace_bytes :: int
  sp_timeout_seconds :: int
  sp_max_output_bytes :: int

definition policy_valid :: "sandbox_policy \<Rightarrow> bool" where
  "policy_valid p \<longleftrightarrow> 1 \<le> sp_cpus p \<and> sp_cpus p \<le> 2
     \<and> 134217728 \<le> sp_memory_bytes p \<and> sp_memory_bytes p \<le> 1073741824
     \<and> 16 \<le> sp_pids p \<and> sp_pids p \<le> 128
     \<and> 1048576 \<le> sp_workspace_bytes p \<and> sp_workspace_bytes p \<le> 16777216
     \<and> 1 \<le> sp_timeout_seconds p \<and> sp_timeout_seconds p \<le> 60
     \<and> 1 \<le> sp_max_output_bytes p \<and> sp_max_output_bytes p \<le> 262144"

definition default_policy :: sandbox_policy where
  "default_policy = \<lparr>sp_cpus = 1, sp_memory_bytes = 536870912, sp_pids = 64, sp_workspace_bytes = 16777216,
     sp_timeout_seconds = 60, sp_max_output_bytes = 262144\<rparr>"

record sandbox_job =
  jb_source :: "source_file list"
  jb_mode :: sandbox_mode
  jb_policy :: sandbox_policy

record sandbox_execution =
  sx_runtime :: string
  sx_isolation :: string
  sx_image :: "json option"
  sx_container_id :: "string option"
  sx_kernel :: string
  sx_runtime_version :: json
  sx_duration_ms :: nat
  sx_exit_code :: json
  sx_timed_out :: bool
  sx_output_truncated :: bool
  sx_oom_killed :: json
  sx_cleanup_succeeded :: bool
  sx_reason :: "string option"
  sx_policy :: sandbox_policy

datatype sandbox_status = SB_completed | SB_failed | SB_timed_out | SB_output_limit | SB_unavailable

record sandbox_result =
  sb_status :: sandbox_status
  sb_execution :: sandbox_execution
  sb_stdout :: string
  sb_stderr :: string

section \<open>Reading what Docker prints\<close>

text \<open>\<open>v[k]\<close>, \<open>v[0]\<close> and \<open>v.get(k, d)\<close> on a parsed value.\<close>

definition json_key :: "json \<Rightarrow> string \<Rightarrow> json result" where
  "json_key v k = (case v of JObj d \<Rightarrow> dindex d k | _ \<Rightarrow> Inl (TypeError ''indices must be integers''))"

definition json_first :: "json \<Rightarrow> json result" where
  "json_first v = (case v of
       JArr [] \<Rightarrow> Inl (IndexError ''list index out of range'')
     | JArr (x # _) \<Rightarrow> Inr x
     | JStr [] \<Rightarrow> Inl (IndexError ''string index out of range'')
     | JStr (c # _) \<Rightarrow> Inr (JStr [c])
     | JObj _ \<Rightarrow> Inl (KeyError ''0'')
     | _ \<Rightarrow> Inl (TypeError ''object is not subscriptable''))"

definition json_get :: "json \<Rightarrow> string \<Rightarrow> json \<Rightarrow> json result" where
  "json_get v k preset = (case v of
       JObj d \<Rightarrow> Inr (case map_of d k of None \<Rightarrow> preset | Some x \<Rightarrow> x)
     | _ \<Rightarrow> Inl (AttributeError ''get''))"

text \<open>\<open>v in {...}\<close> for a set of constants, \<open>k in v\<close>, and \<open>set(v) == {...}\<close>.\<close>

definition hashed_in :: "json list \<Rightarrow> json \<Rightarrow> bool result" where
  "hashed_in xs v = (case v of
       JArr _ \<Rightarrow> Inl (TypeError ''unhashable type: list'')
     | JObj _ \<Rightarrow> Inl (TypeError ''unhashable type: dict'')
     | _ \<Rightarrow> Inr (list_ex (py_eq v) xs))"

definition contains_text :: "string \<Rightarrow> string \<Rightarrow> bool" where
  "contains_text p s = list_ex (\<lambda>n. starts_with (drop n s) p) [0..<Suc (length s)]"

definition is_member :: "string \<Rightarrow> json \<Rightarrow> bool result" where
  "is_member k v = (case v of
       JObj d \<Rightarrow> Inr (k \<in> set (map fst d))
     | JArr xs \<Rightarrow> Inr (JStr k \<in> set xs)
     | JStr s \<Rightarrow> Inr (contains_text k s)
     | _ \<Rightarrow> Inl (TypeError ''argument is not iterable''))"

definition elements_are :: "string list \<Rightarrow> json \<Rightarrow> bool result" where
  "elements_are ks v = (case v of
       JObj d \<Rightarrow> Inr (set (map fst d) = set ks)
     | JArr xs \<Rightarrow> if list_ex (\<lambda>x. case x of JArr _ \<Rightarrow> True | JObj _ \<Rightarrow> True | _ \<Rightarrow> False) xs
         then Inl (TypeError ''unhashable type'') else Inr (set xs = JStr ` set ks)
     | JStr s \<Rightarrow> Inr (set (map (\<lambda>c. [c]) s) = set ks)
     | _ \<Rightarrow> Inl (TypeError ''object is not iterable''))"

text \<open>A chain of conditions joined by \<open>or\<close>.\<close>

fun first_true :: "bool result list \<Rightarrow> bool result" where
  "first_true [] = Inr False"
| "first_true (r # rs) = rbind r (\<lambda>b. if b then Inr True else first_true rs)"

text \<open>\<open>bytes.strip()\<close> is empty; \<open>str.splitlines()\<close>.\<close>

definition blank :: "string \<Rightarrow> bool" where
  "blank s = list_all (\<lambda>c. let n = (of_char c :: nat) in 9 \<le> n \<and> n \<le> 13 \<or> n = 32) s"

definition line_break :: "char \<Rightarrow> bool" where
  "line_break c = (let n = (of_char c :: nat) in 10 \<le> n \<and> n \<le> 13 \<or> 28 \<le> n \<and> n \<le> 30 \<or> n = 133)"

fun lines_from :: "bool \<Rightarrow> string \<Rightarrow> string \<Rightarrow> string list" where
  "lines_from cr acc [] = (if acc = [] then [] else [rev acc])"
| "lines_from cr acc (c # cs) =
     (if cr \<and> c = CHR 0x0A then lines_from False acc cs
      else if line_break c then rev acc # lines_from (c = CHR 0x0D) [] cs
      else lines_from False (c # acc) cs)"

definition splitlines :: "string \<Rightarrow> string list" where
  "splitlines s = lines_from False [] s"

definition hex_text :: "nat \<Rightarrow> string \<Rightarrow> bool" where
  "hex_text n s \<longleftrightarrow> length s = n \<and> list_all is_lower_hex s"

definition CONTAINER_ID :: "string \<Rightarrow> bool" where
  "CONTAINER_ID s \<longleftrightarrow> hex_text 64 s"

definition JOB_NAME :: "string \<Rightarrow> bool" where
  "JOB_NAME s \<longleftrightarrow> starts_with s ''aidlc-sandbox-'' \<and> hex_text 32 (drop 14 s)"

definition PINNED_IMAGE :: "string \<Rightarrow> bool" where
  "PINNED_IMAGE s \<longleftrightarrow> starts_with s ''sha256:'' \<and> hex_text 64 (drop 7 s)
     \<or> (let n = length s - 72 in 72 < length s \<and> starts_with (drop n s) ''@sha256:'' \<and> hex_text 64 (drop (n + 8) s)
          \<and> list_all (\<lambda>c. is_ascii_alnum c \<or> c \<in> set ''./:_-'') (take n s))"


section \<open>The Docker command line\<close>

text \<open>
  What one run of the client comes to: it exits, it prints more than the limit (an \<open>ExceptionGroup\<close> with
  \<open>OutputLimitError\<close>), another task of its group fails, it raises, or the deadline of an enclosing
  \<open>asyncio.timeout\<close> expires.
\<close>

datatype reply =
    Exited int string string
  | Overflowed
  | Group_failed
  | Broken py_error
  | Expired

datatype interruption = Raise py_error | Output_exceeded | Task_group_failed | Late

text \<open>Arguments, deadline in seconds, output limit and standard input.\<close>

datatype docker_call = Docker "string list" int int "string option"

record docker_host =
  dh_world :: world
  dh_settings :: settings
  dh_directory :: string
  dh_docker :: bool
  dh_kvm :: bool
  dh_kernel :: string
  dh_image_file :: "json result"
  dh_reply :: "nat \<Rightarrow> reply"
  dh_loads :: "string \<Rightarrow> json result"
  dh_decode :: "string \<Rightarrow> string result"
  dh_replace :: "string \<Rightarrow> string"
  dh_bundle_json :: "source_file list \<Rightarrow> string"
  dh_lease :: "nat \<Rightarrow> string \<Rightarrow> unit result"
  dh_elapsed :: "nat \<Rightarrow> nat"
  dh_now :: "nat \<Rightarrow> string"
  dh_stopped :: "nat \<Rightarrow> bool"

record recovery_report =
  rv_generated_at :: string
  rv_owner :: string
  rv_status :: string
  rv_removed :: "string list"
  rv_active :: "string list"
  rv_ignored :: "string list"
  rv_failed :: "string list"
  rv_reason :: "string option"

text \<open>
  The service: the hub it publishes evidence in, the commands sent, and the two objects that an
  operation in progress fills in, a recovery report and a result.
\<close>

record service =
  sv_hub :: hub
  sv_tick :: nat
  sv_calls :: "docker_call list"
  sv_report :: recovery_report
  sv_result :: sandbox_result

type_synonym 'a run_op = "service \<Rightarrow> (interruption + 'a) \<times> service"

definition sreturn :: "'a \<Rightarrow> 'a run_op" where
  "sreturn x = (\<lambda>s. (Inr x, s))"

definition sraise :: "interruption \<Rightarrow> 'a run_op" where
  "sraise e = (\<lambda>s. (Inl e, s))"

definition sbind :: "'a run_op \<Rightarrow> ('a \<Rightarrow> 'b run_op) \<Rightarrow> 'b run_op" where
  "sbind m f = (\<lambda>s. case m s of (Inl e, s') \<Rightarrow> (Inl e, s') | (Inr x, s') \<Rightarrow> f x s')"

definition slift :: "'a result \<Rightarrow> 'a run_op" where
  "slift r = (case r of Inl e \<Rightarrow> sraise (Raise e) | Inr x \<Rightarrow> sreturn x)"

definition sguard :: "bool \<Rightarrow> string \<Rightarrow> unit run_op" where
  "sguard b message = (if b then sreturn () else sraise (Raise (SandboxControlError message)))"

definition note_execution :: "(sandbox_execution \<Rightarrow> sandbox_execution) \<Rightarrow> unit run_op" where
  "note_execution f = (\<lambda>s. (Inr (), s\<lparr>sv_result := (sv_result s)\<lparr>sb_execution := f (sb_execution (sv_result s))\<rparr>\<rparr>))"

definition note_result :: "(sandbox_result \<Rightarrow> sandbox_result) \<Rightarrow> unit run_op" where
  "note_result f = (\<lambda>s. (Inr (), s\<lparr>sv_result := f (sv_result s)\<rparr>))"

definition note_report :: "(recovery_report \<Rightarrow> recovery_report) \<Rightarrow> unit run_op" where
  "note_report f = (\<lambda>s. (Inr (), s\<lparr>sv_report := f (sv_report s)\<rparr>))"

text \<open>\<open>_capture\<close>; \<open>scoped\<close> says whether an enclosing deadline is in force, else only its own is.\<close>

definition capture :: "docker_host \<Rightarrow> bool \<Rightarrow> docker_call \<Rightarrow> (int \<times> string \<times> string) run_op" where
  "capture H scoped call = (\<lambda>s.
     let s' = s\<lparr>sv_tick := sv_tick s + 1, sv_calls := sv_calls s @ [call]\<rparr> in
     case dh_reply H (sv_tick s) of
       Exited code output error \<Rightarrow> (Inr (code, output, error), s')
     | Overflowed \<Rightarrow> (Inl Output_exceeded, s')
     | Group_failed \<Rightarrow> (Inl Task_group_failed, s')
     | Broken e \<Rightarrow> (Inl (Raise e), s')
     | Expired \<Rightarrow> (Inl (if scoped then Late else Raise TimeoutError), s'))"

definition short_call :: "string list \<Rightarrow> docker_call" where
  "short_call arguments = Docker arguments 5 65536 None"

definition control :: "docker_host \<Rightarrow> bool \<Rightarrow> string list \<Rightarrow> json run_op" where
  "control H scoped arguments = sbind (capture H scoped (short_call arguments)) (\<lambda>(code, output, error).
     sbind (sguard (code = 0) ''Docker control operation failed'') (\<lambda>_.
     slift (dh_loads H output)))"

section \<open>Images and names\<close>

text \<open>\<open>except OSError, ValueError, KeyError, TypeError\<close>; a \<open>TimeoutError\<close> is an \<open>OSError\<close>.\<close>

definition lookup_failure :: "py_error \<Rightarrow> bool" where
  "lookup_failure e = (case e of OSError _ \<Rightarrow> True | BlockingIOError \<Rightarrow> True | TimeoutError \<Rightarrow> True
     | ValueError _ \<Rightarrow> True | KeyError _ \<Rightarrow> True | TypeError _ \<Rightarrow> True | _ \<Rightarrow> False)"

definition sandbox_owner :: "docker_host \<Rightarrow> string" where
  "sandbox_owner H = sha256 (wd_py (dh_world H)) (dh_directory H)"

definition resolve_image :: "docker_host \<Rightarrow> string result" where
  "resolve_image H = rbind
     (if cf_sandbox_image (dh_settings H) \<noteq> [] then Inr (JStr (cf_sandbox_image (dh_settings H)))
      else case rbind (dh_image_file H) (\<lambda>v. json_key v ''image'') of
          Inr v \<Rightarrow> Inr v
        | Inl e \<Rightarrow> if lookup_failure e
            then Inl (ValueError ''Build the pinned image with aidlc-sandbox build-image first'') else Inl e)
     (\<lambda>image. case image of
          JStr s \<Rightarrow> if PINNED_IMAGE s then Inr s
            else Inl (ValueError ''Sandbox image must be a full SHA-256 image ID or repository digest'')
        | _ \<Rightarrow> Inl (ValueError ''Sandbox image must be a full SHA-256 image ID or repository digest''))"


section \<open>Orphan recovery\<close>

definition empty_report :: "docker_host \<Rightarrow> nat \<Rightarrow> recovery_report" where
  "empty_report H n = \<lparr>rv_generated_at = dh_now H n, rv_owner = sandbox_owner H, rv_status = ''completed'',
     rv_removed = [], rv_active = [], rv_ignored = [], rv_failed = [], rv_reason = None\<rparr>"

definition list_call :: "docker_host \<Rightarrow> docker_call" where
  "list_call H = short_call [''ps'', ''--all'', ''--no-trunc'', ''--filter'', ''label=aidlc.sandbox=true'',
     ''--filter'', ''label=aidlc.owner='' @ sandbox_owner H, ''--format'', ''{{.ID}}'']"

definition find_call :: "string \<Rightarrow> docker_call" where
  "find_call i = short_call [''ps'', ''--all'', ''--no-trunc'', ''--filter'', ''id='' @ i, ''--format'', ''{{.ID}}'']"

definition remove_call :: "string \<Rightarrow> docker_call" where
  "remove_call i = short_call [''rm'', ''--force'', i]"

text \<open>The name of an inspected container, and whether it is not a job of this owner.\<close>

definition container_name :: "json \<Rightarrow> string result" where
  "container_name definition' = rbind (json_key definition' ''Name'') (\<lambda>v. case v of
       JStr (c # cs) \<Rightarrow> Inr (if c = CHR ''/'' then cs else c # cs)
     | JStr [] \<Rightarrow> Inr []
     | _ \<Rightarrow> Inl (AttributeError ''removeprefix''))"

definition container_labels :: "json \<Rightarrow> json result" where
  "container_labels definition' =
     rbind (json_key definition' ''Config'') (\<lambda>config.
     rbind (json_get config ''Labels'' JNull) (\<lambda>labels.
     Inr (if truthy labels then labels else JObj [])))"

definition foreign_job :: "string \<Rightarrow> string \<Rightarrow> json \<Rightarrow> string \<Rightarrow> json \<Rightarrow> bool result" where
  "foreign_job owner i definition' name labels = first_true
     [rbind (json_key definition' ''Id'') (\<lambda>v. Inr (v \<noteq> JStr i)),
      Inr (\<not> JOB_NAME name),
      rbind (json_get labels ''aidlc.sandbox'' JNull) (\<lambda>v. Inr (v \<noteq> JStr ''true'')),
      rbind (json_get labels ''aidlc.owner'' JNull) (\<lambda>v. Inr (v \<noteq> JStr owner)),
      rbind (json_get labels ''aidlc.job'' JNull) (\<lambda>v. Inr (v \<noteq> JStr name))]"

text \<open>The branch of a job whose lease was taken: removal by identifier, then the search for a remainder.\<close>

definition remove_orphan :: "docker_host \<Rightarrow> string \<Rightarrow> unit run_op" where
  "remove_orphan H i =
     sbind (capture H True (remove_call i)) (\<lambda>_.
     sbind (capture H True (find_call i)) (\<lambda>(code, remaining, _).
     note_report (\<lambda>r. if code \<noteq> 0 \<or> \<not> blank remaining
       then r\<lparr>rv_failed := rv_failed r @ [i]\<rparr> else r\<lparr>rv_removed := rv_removed r @ [i]\<rparr>)))"

definition reconcile_job :: "docker_host \<Rightarrow> string \<Rightarrow> unit run_op" where
  "reconcile_job H i =
     sbind (capture H True (short_call [''inspect'', i])) (\<lambda>(code, output, _).
     if code \<noteq> 0
     then sbind (capture H True (find_call i)) (\<lambda>(code, remaining, _).
       if code \<noteq> 0 \<or> \<not> blank remaining then note_report (\<lambda>r. r\<lparr>rv_failed := rv_failed r @ [i]\<rparr>) else sreturn ())
     else
       sbind (slift (rbind (dh_loads H output) json_first)) (\<lambda>definition'.
       sbind (slift (container_labels definition')) (\<lambda>labels.
       sbind (slift (container_name definition')) (\<lambda>name.
       sbind (slift (foreign_job (sandbox_owner H) i definition' name labels)) (\<lambda>foreign.
       if foreign then note_report (\<lambda>r. r\<lparr>rv_ignored := rv_ignored r @ [i]\<rparr>)
       else (\<lambda>s. case dh_lease H (sv_tick s) name of
           Inl BlockingIOError \<Rightarrow> note_report (\<lambda>r. r\<lparr>rv_active := rv_active r @ [i]\<rparr>) s
         | Inl e \<Rightarrow> (Inl (Raise e), s)
         | Inr _ \<Rightarrow> remove_orphan H i s))))))"

fun reconcile_jobs :: "docker_host \<Rightarrow> string list \<Rightarrow> unit run_op" where
  "reconcile_jobs H [] = sreturn ()"
| "reconcile_jobs H (i # is) = sbind (reconcile_job H i) (\<lambda>_. reconcile_jobs H is)"

definition reconcile_listed :: "docker_host \<Rightarrow> unit run_op" where
  "reconcile_listed H =
     sbind (capture H True (list_call H)) (\<lambda>(code, output, _).
     sbind (sguard (code = 0) ''Cannot list sandbox jobs for recovery'') (\<lambda>_.
     sbind (slift (dh_decode H output)) (\<lambda>text.
     let identifiers = splitlines text in
     sbind (sguard (length identifiers \<le> 1000 \<and> list_all CONTAINER_ID identifiers) ''Invalid or excessive recovery inventory'') (\<lambda>_.
     sbind (reconcile_jobs H identifiers) (\<lambda>_.
     note_report (\<lambda>r. if rv_failed r \<noteq> [] then r\<lparr>rv_status := ''failed''\<rparr> else r))))))"

definition recovery_failure :: "interruption \<Rightarrow> bool" where
  "recovery_failure e = (case e of
       Raise (IndexError _) \<Rightarrow> True | Raise (SandboxControlError _) \<Rightarrow> True | Raise d \<Rightarrow> lookup_failure d
     | Output_exceeded \<Rightarrow> True | Task_group_failed \<Rightarrow> True | Late \<Rightarrow> False)"

text \<open>\<open>_reconcile\<close> and \<open>reconcile\<close>, whose deadline of 30 seconds spans all commands.\<close>

definition reconcile_within :: "docker_host \<Rightarrow> recovery_report run_op" where
  "reconcile_within H = (\<lambda>s.
     let s0 = s\<lparr>sv_report := empty_report H (sv_tick s)\<rparr> in
     if \<not> dh_docker H
     then (Inr ((empty_report H (sv_tick s))\<lparr>rv_status := ''unavailable'', rv_reason := Some ''Docker CLI is unavailable''\<rparr>), s0)
     else case reconcile_listed H s0 of
         (Inr _, s1) \<Rightarrow> (Inr (sv_report s1), s1)
       | (Inl e, s1) \<Rightarrow>
           if recovery_failure e
           then let r = (sv_report s1)\<lparr>rv_status := ''failed'', rv_reason := Some ''Sandbox recovery could not be confirmed''\<rparr>
             in (Inr r, s1\<lparr>sv_report := r\<rparr>)
           else (Inl e, s1))"

definition reconcile_sandbox :: "docker_host \<Rightarrow> recovery_report run_op" where
  "reconcile_sandbox H = (\<lambda>s. case reconcile_within H s of
       (Inl Late, s1) \<Rightarrow> (Inr ((empty_report H (sv_tick s1))\<lparr>rv_status := ''failed'',
           rv_reason := Some ''Sandbox recovery exceeded its 30-second deadline''\<rparr>), s1)
     | r \<Rightarrow> r)"

section \<open>Evidence of a recovery\<close>

definition report_dump :: "recovery_report \<Rightarrow> jdict" where
  "report_dump r =
    [(''generated_at'', JStr (rv_generated_at r)), (''owner'', JStr (rv_owner r)), (''status'', JStr (rv_status r)),
     (''removed'', jstrs (rv_removed r)), (''active'', jstrs (rv_active r)), (''ignored'', jstrs (rv_ignored r)),
     (''failed'', jstrs (rv_failed r))]
    @ (case rv_reason r of None \<Rightarrow> [] | Some t \<Rightarrow> [(''reason'', JStr t)])"

definition recovery_request :: "string \<Rightarrow> recovery_report \<Rightarrow> write_request" where
  "recovery_request run_id r =
    \<lparr>wq_run_id = run_id, wq_stage = PREFLIGHT, wq_kind = SANDBOX_RECOVERY_REPORT,
     wq_producing_agent = ''trusted-sandbox-recovery'', wq_content = report_dump r,
     wq_markdown = ''# Sandbox recovery'' @ [CHR 0x0A, CHR 0x0A] @ rv_status r @ [CHR 0x0A, CHR 0x0A]
       @ ''Removed: '' @ nat_str (length (rv_removed r)) @ ''; active: '' @ nat_str (length (rv_active r))
       @ ''; failed: '' @ nat_str (length (rv_failed r)) @ ''.'',
     wq_parent_artifact_ids = [], wq_model_id = None, wq_prompt_version = ''deterministic-v1'', wq_execution = []\<rparr>"

definition publish_recovery :: "world \<Rightarrow> recovery_report \<Rightarrow> (string \<times> string) hub_op" where
  "publish_recovery W r = (\<lambda>h.
     let run_id = ''run_'' @ wd_uid W (hb_tick h) in
     hbind (on_db (\<lambda>now. create_run (wd_py W) now run_id ''Sandbox orphan recovery'') W) (\<lambda>_.
     hbind (set_run W run_id BLOCKED None (Some ''Standalone sandbox recovery evidence.'')) (\<lambda>_.
     hbind (publish W (recovery_request run_id r)) (\<lambda>artifact.
     hbind (event W run_id ''sandbox.recovered''
       [(''artifact_id'', JStr (md_artifact_id (ar_metadata artifact))), (''status'', JStr (rv_status r)),
        (''removed'', JInt (int (length (rv_removed r)))), (''active'', JInt (int (length (rv_active r)))),
        (''failed'', JInt (int (length (rv_failed r))))]) (\<lambda>_.
     hreturn (run_id, md_artifact_id (ar_metadata artifact)))))) (h\<lparr>hb_tick := hb_tick h + 1\<rparr>))"

definition on_service_hub :: "'a hub_op \<Rightarrow> 'a run_op" where
  "on_service_hub m = (\<lambda>s. case m (sv_hub s) of
     (Inl e, h) \<Rightarrow> (Inl (Raise e), s\<lparr>sv_hub := h\<rparr>) | (Inr x, h) \<Rightarrow> (Inr x, s\<lparr>sv_hub := h\<rparr>))"

text \<open>One pass of the periodic service; \<open>previous\<close> is the status of the pass before.\<close>

definition recover_pass :: "docker_host \<Rightarrow> string \<Rightarrow> string run_op" where
  "recover_pass H previous =
     sbind (reconcile_sandbox H) (\<lambda>report.
     sbind (if rv_removed report \<noteq> [] \<or> rv_status report \<noteq> previous
            then sbind (on_service_hub (publish_recovery (dh_world H) report)) (\<lambda>_. sreturn ()) else sreturn ()) (\<lambda>_.
     sreturn (rv_status report)))"


section \<open>One execution\<close>

definition create_call :: "docker_host \<Rightarrow> sandbox_job \<Rightarrow> string \<Rightarrow> string \<Rightarrow> string \<Rightarrow> docker_call" where
  "create_call H job runtime name pinned = (let p = jb_policy job; memory = int_str (sp_memory_bytes p);
     tmpfs = '':rw,noexec,nosuid,nodev,size='' @ int_str (sp_workspace_bytes p) @ '',mode=1777'' in
     short_call [''create'', ''--name'', name, ''--label=aidlc.sandbox=true'',
       ''--label=aidlc.owner='' @ sandbox_owner H, ''--label=aidlc.job='' @ name,
       ''--interactive'', ''--pull=never'', ''--runtime='' @ runtime, ''--network=none'', ''--read-only'',
       ''--user=65532:65532'', ''--cap-drop=ALL'', ''--security-opt=no-new-privileges=true'',
       ''--cpus='' @ int_str (sp_cpus p), ''--memory='' @ memory, ''--memory-swap='' @ memory,
       ''--pids-limit='' @ int_str (sp_pids p), ''--ulimit=nofile=128:128'', ''--ulimit=core=0:0'',
       ''--ipc=private'', ''--cgroupns=private'', ''--shm-size=1048576'', ''--log-driver=none'',
       ''--workdir=/workspace'', ''--tmpfs=/workspace'' @ tmpfs, ''--tmpfs=/tmp'' @ tmpfs,
       ''--entrypoint=python'', pinned, ''-I'', ''/opt/aidlc/worker.py'', mode_value (jb_mode job)])"

definition expected_host :: "string \<Rightarrow> sandbox_policy \<Rightarrow> jdict" where
  "expected_host runtime p =
    [(''Runtime'', JStr runtime), (''NetworkMode'', JStr ''none''), (''ReadonlyRootfs'', JBool True),
     (''Privileged'', JBool False), (''Memory'', JInt (sp_memory_bytes p)), (''MemorySwap'', JInt (sp_memory_bytes p)),
     (''NanoCpus'', JInt (sp_cpus p * 10 ^ 9)), (''PidsLimit'', JInt (sp_pids p)), (''CgroupnsMode'', JStr ''private'')]"

text \<open>Whether the inspected container lacks a part of the policy.\<close>

definition policy_violated :: "string \<Rightarrow> sandbox_policy \<Rightarrow> json \<Rightarrow> bool result" where
  "policy_violated runtime p definition' = rbind (json_key definition' ''HostConfig'') (\<lambda>host.
     first_true (map (\<lambda>(k, v). rbind (json_get host k JNull) (\<lambda>x. Inr (\<not> py_eq x v))) (expected_host runtime p)
       @ [rbind (json_get host ''Binds'' JNull) (\<lambda>v. Inr (truthy v)),
          rbind (json_get host ''Devices'' JNull) (\<lambda>v. Inr (truthy v)),
          rbind (json_get definition' ''Mounts'' JNull) (\<lambda>v. Inr (truthy v)),
          rbind (json_get host ''CapDrop'' JNull) (\<lambda>v. Inr (v \<noteq> JArr [JStr ''ALL''])),
          rbind (json_get host ''SecurityOpt'' (JArr [])) (\<lambda>v.
            rbind (is_member ''no-new-privileges=true'' v) (\<lambda>b. Inr (\<not> b))),
          rbind (json_key definition' ''Config'') (\<lambda>config.
            rbind (json_key config ''User'') (\<lambda>user. Inr (user \<noteq> JStr ''65532:65532''))),
          rbind (json_get host ''Tmpfs'' (JObj [])) (\<lambda>v.
            rbind (elements_are [''/workspace'', ''/tmp''] v) (\<lambda>b. Inr (\<not> b)))]))"

text \<open>The checks of the daemon and the image; \<open>False\<close> means that the result stands as it is.\<close>

definition check_daemon :: "docker_host \<Rightarrow> string \<Rightarrow> string \<Rightarrow> bool run_op" where
  "check_daemon H runtime pinned =
     sbind (control H False [''info'', ''--format'', ''{{json .}}'']) (\<lambda>info.
     sbind (slift (rbind (json_key info ''OSType'') (\<lambda>os.
       if os \<noteq> JStr ''linux'' then Inr True
       else rbind (json_key info ''Architecture'') (\<lambda>arch.
         rbind (hashed_in [JStr ''x86_64'', JStr ''amd64''] arch) (\<lambda>b. Inr (\<not> b)))))) (\<lambda>unsuitable.
     sbind (sguard (\<not> unsuitable) ''Sandbox requires a Linux amd64 Docker daemon'') (\<lambda>_.
     sbind (slift (rbind (json_key info ''Runtimes'') (is_member runtime))) (\<lambda>registered.
     if \<not> registered
     then sbind (note_execution (\<lambda>x. x\<lparr>sx_reason := Some (''Runtime '' @ runtime @ '' is not registered with Docker'')\<rparr>))
       (\<lambda>_. sreturn False)
     else
       sbind (slift (rbind (json_key info ''Runtimes'') (\<lambda>runtimes.
         rbind (json_key runtimes runtime) (\<lambda>r.
         rbind (json_get r ''status'' (JObj [])) (\<lambda>status.
         json_get status ''org.opencontainers.runtime-spec.features'' JNull))))) (\<lambda>features.
       sbind (if truthy features
         then sbind (slift (case features of JStr t \<Rightarrow> dh_loads H t | _ \<Rightarrow> Inl (TypeError ''the JSON object must be str''))) (\<lambda>parsed.
           sbind (slift (rbind (json_get parsed ''annotations'' (JObj [])) (\<lambda>a.
             json_get a ''org.opencontainers.runc.version'' JNull))) (\<lambda>version.
           note_execution (\<lambda>x. x\<lparr>sx_runtime_version := version\<rparr>)))
         else sreturn ()) (\<lambda>_.
       sbind (control H False [''image'', ''inspect'', pinned]) (\<lambda>images.
       sbind (slift (json_first images)) (\<lambda>found.
       sbind (slift (rbind (json_key found ''Architecture'') (\<lambda>arch.
         if arch \<noteq> JStr ''amd64'' then Inr True
         else rbind (json_key found ''Os'') (\<lambda>os. Inr (os \<noteq> JStr ''linux''))))) (\<lambda>unsuitable.
       sbind (sguard (\<not> unsuitable) ''Pinned image must be Linux amd64'') (\<lambda>_.
       sbind (slift (json_key found ''Id'')) (\<lambda>i.
       sbind (note_execution (\<lambda>x. x\<lparr>sx_image := Some i\<rparr>)) (\<lambda>_.
       sbind (slift (rbind (json_key found ''Config'') (\<lambda>config. json_get config ''Volumes'' JNull))) (\<lambda>volumes.
       sbind (sguard (\<not> truthy volumes) ''Sandbox image must not declare volumes'') (\<lambda>_.
       sreturn True))))))))))))))"

definition accepted_codes :: "sandbox_mode \<Rightarrow> int list" where
  "accepted_codes mode = (if mode = Analyze then [0, 1] else [0])"

text \<open>\<open>(await control("inspect", name))[0]\<close>.\<close>

definition inspect_job :: "docker_host \<Rightarrow> string \<Rightarrow> json run_op" where
  "inspect_job H name = sbind (control H True [''inspect'', name]) (\<lambda>v. slift (json_first v))"

definition start_call :: "docker_host \<Rightarrow> sandbox_job \<Rightarrow> string \<Rightarrow> docker_call" where
  "start_call H job name = Docker [''start'', ''--attach'', ''--interactive'', name]
     (sp_timeout_seconds (jb_policy job)) (sp_max_output_bytes (jb_policy job)) (Some (dh_bundle_json H (jb_source job)))"

text \<open>The workload, from the creation of the container to the result.\<close>

definition record_exit :: "docker_host \<Rightarrow> sandbox_job \<Rightarrow> int \<Rightarrow> string \<Rightarrow> string \<Rightarrow> json \<Rightarrow> unit run_op" where
  "record_exit H job code output error state =
     sbind (slift (json_key state ''Running'')) (\<lambda>running.
     sbind (sguard (\<not> truthy running) ''Docker attach ended before the workload'') (\<lambda>_.
     sbind (slift (json_key state ''ExitCode'')) (\<lambda>exit_code.
     sbind (note_execution (\<lambda>x. x\<lparr>sx_exit_code := exit_code\<rparr>)) (\<lambda>_.
     sbind (slift (json_key state ''OOMKilled'')) (\<lambda>oom.
     sbind (note_execution (\<lambda>x. x\<lparr>sx_oom_killed := oom\<rparr>)) (\<lambda>_.
     sbind (note_result (\<lambda>r. r\<lparr>sb_stdout := dh_replace H output, sb_stderr := dh_replace H error\<rparr>)) (\<lambda>_.
     sbind (slift (if code \<notin> set (accepted_codes (jb_mode job)) then Inr False
       else rbind (hashed_in (map JInt (accepted_codes (jb_mode job))) exit_code) (\<lambda>b. Inr (b \<and> \<not> truthy oom)))) (\<lambda>ok.
     note_result (\<lambda>r. r\<lparr>sb_status := if ok then SB_completed else SB_failed\<rparr>)))))))))"

definition attach_workload :: "docker_host \<Rightarrow> sandbox_job \<Rightarrow> string \<Rightarrow> unit run_op" where
  "attach_workload H job name =
     sbind (capture H True (start_call H job name)) (\<lambda>(code, output, error).
     sbind (inspect_job H name) (\<lambda>definition'.
     sbind (slift (json_key definition' ''State'')) (\<lambda>state.
     record_exit H job code output error state)))"

definition run_workload :: "docker_host \<Rightarrow> sandbox_job \<Rightarrow> string \<Rightarrow> string \<Rightarrow> json \<Rightarrow> unit run_op" where
  "run_workload H job runtime name selected =
     sbind (case selected of JStr i \<Rightarrow> capture H True (create_call H job runtime name i)
       | _ \<Rightarrow> sraise (Raise (TypeError ''expected str, bytes or os.PathLike object''))) (\<lambda>(code, output, _).
     sbind (sguard (code = 0) ''Container creation failed'') (\<lambda>_.
     sbind (slift (dh_decode H output)) (\<lambda>i.
     sbind (note_execution (\<lambda>x. x\<lparr>sx_container_id := Some (strip i)\<rparr>)) (\<lambda>_.
     sbind (inspect_job H name) (\<lambda>definition'.
     sbind (slift (policy_violated runtime (jb_policy job) definition')) (\<lambda>violated.
     sbind (sguard (\<not> violated) ''Docker did not apply the required sandbox policy'') (\<lambda>_.
     attach_workload H job name)))))))"

text \<open>The handlers of the workload; \<open>None\<close> lets the exception through.\<close>

definition failure_result :: "interruption \<Rightarrow> (sandbox_result \<Rightarrow> sandbox_result) option" where
  "failure_result e =
     (let failed = (\<lambda>reason r. r\<lparr>sb_status := SB_failed, sb_execution := (sb_execution r)\<lparr>sx_reason := Some reason\<rparr>\<rparr>);
          late = (\<lambda>r. r\<lparr>sb_status := SB_timed_out, sb_execution := (sb_execution r)\<lparr>sx_timed_out := True\<rparr>\<rparr>) in
      case e of
        Late \<Rightarrow> Some late
      | Raise TimeoutError \<Rightarrow> Some late
      | Raise (SandboxControlError reason) \<Rightarrow> Some (failed reason)
      | Output_exceeded \<Rightarrow> Some (\<lambda>r. r\<lparr>sb_status := SB_output_limit, sb_execution := (sb_execution r)\<lparr>sx_output_truncated := True\<rparr>\<rparr>)
      | Task_group_failed \<Rightarrow> Some (failed ''Sandbox output collection failed'')
      | Raise d \<Rightarrow> if lookup_failure d then Some (failed ''Sandbox control or output invalid'') else None)"

definition search_call :: "string \<Rightarrow> docker_call" where
  "search_call name = short_call [''ps'', ''--all'', ''--filter'', ''name=^'' @ name @ ''$'', ''--format'', ''{{json .}}'']"

text \<open>\<open>except Exception: return False\<close>.\<close>

definition or_false :: "bool run_op \<Rightarrow> bool run_op" where
  "or_false m = (\<lambda>s. case m s of
       (Inl e, s') \<Rightarrow> (if e = Raise CancelledError then Inl e else Inr False, s')
     | (Inr b, s') \<Rightarrow> (Inr b, s'))"

definition cleanup :: "docker_host \<Rightarrow> string \<Rightarrow> bool run_op" where
  "cleanup H name = or_false
     (sbind (capture H False (remove_call name)) (\<lambda>(code, _, _).
       if code = 0 then sreturn True
       else sbind (capture H False (search_call name)) (\<lambda>(code, remaining, _).
         sreturn (code = 0 \<and> blank remaining))))"

text \<open>The \<open>finally\<close> block; \<open>started\<close> is the reading of the clock at the start.\<close>

definition tear_down :: "docker_host \<Rightarrow> string \<Rightarrow> unit run_op" where
  "tear_down H name = (\<lambda>s.
     sbind (cleanup H name) (\<lambda>gone.
     sbind (note_execution (\<lambda>x. x\<lparr>sx_cleanup_succeeded := gone\<rparr>)) (\<lambda>_.
     if dh_stopped H (sv_tick s) then sraise (Raise CancelledError)
     else sbind (\<lambda>s. note_execution (\<lambda>x. x\<lparr>sx_duration_ms := dh_elapsed H (sv_tick s)\<rparr>) s) (\<lambda>_.
       if gone then sreturn ()
       else note_result (\<lambda>r. r\<lparr>sb_status := SB_failed,
         sb_execution := (sb_execution r)\<lparr>sx_reason := Some ''Container teardown could not be confirmed''\<rparr>\<rparr>)))) s)"

definition run_and_tear_down :: "docker_host \<Rightarrow> sandbox_job \<Rightarrow> string \<Rightarrow> string \<Rightarrow> json \<Rightarrow> sandbox_result run_op" where
  "run_and_tear_down H job runtime name selected = (\<lambda>s.
     case run_workload H job runtime name selected s of
       (Inr _, s1) \<Rightarrow> sbind (tear_down H name) (\<lambda>_ s. (Inr (sv_result s), s)) s1
     | (Inl e, s1) \<Rightarrow>
         (case failure_result e of
            Some f \<Rightarrow> sbind (note_result f) (\<lambda>_. sbind (tear_down H name) (\<lambda>_ s. (Inr (sv_result s), s))) s1
          | None \<Rightarrow> sbind (tear_down H name) (\<lambda>_. sraise e) s1))"

definition new_result :: "docker_host \<Rightarrow> sandbox_job \<Rightarrow> string \<Rightarrow> sandbox_result" where
  "new_result H job runtime = \<lparr>sb_status = SB_unavailable,
     sb_execution = \<lparr>sx_runtime = runtime,
       sx_isolation = (case map_of ISOLATION runtime of None \<Rightarrow> [] | Some i \<Rightarrow> i),
       sx_image = None, sx_container_id = None, sx_kernel = dh_kernel H, sx_runtime_version = JNull,
       sx_duration_ms = 0, sx_exit_code = JNull, sx_timed_out = False, sx_output_truncated = False,
       sx_oom_killed = JBool False, sx_cleanup_succeeded = True, sx_reason = None, sx_policy = jb_policy job\<rparr>,
     sb_stdout = [], sb_stderr = []\<rparr>"

text \<open>\<open>return result\<close> after a reason was noted.\<close>

definition unavailable :: "string \<Rightarrow> sandbox_result run_op" where
  "unavailable reason = sbind (note_execution (\<lambda>x. x\<lparr>sx_reason := Some reason\<rparr>)) (\<lambda>_ s. (Inr (sv_result s), s))"

definition daemon_failure :: "interruption \<Rightarrow> bool" where
  "daemon_failure e = (case e of
       Raise (SandboxControlError _) \<Rightarrow> True | Raise d \<Rightarrow> lookup_failure d
     | Output_exceeded \<Rightarrow> True | Task_group_failed \<Rightarrow> True | Late \<Rightarrow> False)"

definition execute_job :: "docker_host \<Rightarrow> sandbox_job \<Rightarrow> string \<Rightarrow> string \<Rightarrow> sandbox_result run_op" where
  "execute_job H job runtime name =
     sbind (note_result (\<lambda>_. new_result H job runtime)) (\<lambda>_.
     case resolve_image H of
       Inl (ValueError reason) \<Rightarrow> unavailable reason
     | Inl e \<Rightarrow> sraise (Raise e)
     | Inr pinned \<Rightarrow>
         sbind (note_execution (\<lambda>x. x\<lparr>sx_image := Some (JStr pinned)\<rparr>)) (\<lambda>_.
         if \<not> dh_docker H then unavailable ''Docker CLI is unavailable''
         else if runtime = ''kata'' \<and> \<not> dh_kvm H
         then unavailable ''Kata is unavailable: /dev/kvm is not accessible to the sandbox service''
         else (\<lambda>s. case check_daemon H runtime pinned s of
             (Inl e, s1) \<Rightarrow>
               if daemon_failure e
               then unavailable ''Docker/image unavailable; check service socket access and build-image'' s1
               else (Inl e, s1)
           | (Inr False, s1) \<Rightarrow> (Inr (sv_result s1), s1)
           | (Inr True, s1) \<Rightarrow>
               run_and_tear_down H job runtime name
                 (case sx_image (sb_execution (sv_result s1)) of None \<Rightarrow> JNull | Some v \<Rightarrow> v) s1)))"

text \<open>The reconciliation before an execution, with its evidence when there is any.\<close>

definition recover_first :: "docker_host \<Rightarrow> recovery_report run_op" where
  "recover_first H =
     sbind (reconcile_sandbox H) (\<lambda>report.
     sbind (if rv_removed report \<noteq> [] \<or> rv_status report = ''failed''
       then sbind (on_service_hub (publish_recovery (dh_world H) report)) (\<lambda>_. sreturn ()) else sreturn ()) (\<lambda>_.
     sreturn report))"

text \<open>The execution under a fresh job name, with the lease of that job held.\<close>

definition leased_run :: "docker_host \<Rightarrow> sandbox_job \<Rightarrow> string \<Rightarrow> sandbox_result run_op" where
  "leased_run H job runtime = (\<lambda>s.
     let name = ''aidlc-sandbox-'' @ wd_uid (dh_world H) (hb_tick (sv_hub s));
         s1 = s\<lparr>sv_hub := (sv_hub s)\<lparr>hb_tick := hb_tick (sv_hub s) + 1\<rparr>\<rparr> in
     if \<not> JOB_NAME name then (Inl (Raise (ValueError ''Invalid sandbox job name'')), s1)
     else case dh_lease H (sv_tick s1) name of
         Inl e \<Rightarrow> (Inl (Raise e), s1)
       | Inr _ \<Rightarrow> execute_job H job runtime name s1)"

definition not_recovered :: "docker_host \<Rightarrow> sandbox_job \<Rightarrow> string \<Rightarrow> recovery_report \<Rightarrow> sandbox_result" where
  "not_recovered H job runtime report = (let r = new_result H job runtime in
     r\<lparr>sb_execution := (sb_execution r)\<lparr>sx_reason :=
       Some (case rv_reason report of None \<Rightarrow> ''Sandbox orphan recovery failed'' | Some t \<Rightarrow> t)\<rparr>\<rparr>)"

definition execute_selected :: "docker_host \<Rightarrow> sandbox_job \<Rightarrow> string \<Rightarrow> sandbox_result run_op" where
  "execute_selected H job runtime =
     (if runtime \<notin> set (map fst ISOLATION) then sraise (Raise (ValueError ''Unsupported sandbox runtime''))
      else sbind (recover_first H) (\<lambda>report.
        if rv_status report \<noteq> ''completed'' then sreturn (not_recovered H job runtime report)
        else leased_run H job runtime))"

text \<open>\<open>DockerSandbox.execute\<close>; \<open>None\<close> selects the configured runtime.\<close>

definition execute_sandbox :: "docker_host \<Rightarrow> sandbox_job \<Rightarrow> string option \<Rightarrow> sandbox_result run_op" where
  "execute_sandbox H job runtime =
     execute_selected H job (case runtime of Some (c # cs) \<Rightarrow> c # cs | _ \<Rightarrow> cf_sandbox_backend (dh_settings H))"

end
