(* ===== verification/Confinement.thy ===== *)
theory Confinement
  imports Sandbox Interaction
begin

text \<open>
  The safety of the sandbox: the commands that an execution sends to the Docker daemon, whatever the
  daemon replies. Operations are described by triples over the exchanged commands: the reconciliation and
  the checks of the daemon create and start nothing, the workload is a beginning of four commands of
  which the third is sent only to a verified container, and the teardown closes every path.
\<close>

section \<open>Transcripts\<close>

text \<open>What was sent between two states, each command with the daemon's reply.\<close>

definition exchanged :: "docker_host \<Rightarrow> service \<Rightarrow> (docker_call \<times> reply) list \<Rightarrow> service \<Rightarrow> bool" where
  "exchanged H s T s' \<longleftrightarrow> sv_calls s' = sv_calls s @ map fst T \<and> sv_tick s' = sv_tick s + length T
     \<and> map snd T = map (dh_reply H) [sv_tick s..<sv_tick s']"

lemma exchanged_refl [simp]: "exchanged H s [] s"
  by (simp add: exchanged_def)

lemma exchanged_trans: "exchanged H s T s1 \<Longrightarrow> exchanged H s1 U s2 \<Longrightarrow> exchanged H s (T @ U) s2"
  using upt_add_eq_append [of "sv_tick s" "sv_tick s + length T" "length U"] by (simp add: exchanged_def add.assoc)

lemma exchanged_same: "exchanged H s T s1 \<Longrightarrow> sv_calls s2 = sv_calls s1 \<Longrightarrow> sv_tick s2 = sv_tick s1 \<Longrightarrow> exchanged H s T s2"
  by (simp add: exchanged_def)

text \<open>Triples with a postcondition for results and one for interruptions.\<close>

definition svalid :: "(service \<Rightarrow> bool) \<Rightarrow> 'a run_op \<Rightarrow> ('a \<Rightarrow> service \<Rightarrow> bool) \<Rightarrow> (interruption \<Rightarrow> service \<Rightarrow> bool) \<Rightarrow> bool" where
  "svalid P m Q E \<longleftrightarrow> (\<forall>s r s'. P s \<longrightarrow> m s = (r, s') \<longrightarrow> (case r of Inl e \<Rightarrow> E e s' | Inr x \<Rightarrow> Q x s'))"

lemma svalidI: "(\<And>s r s'. P s \<Longrightarrow> m s = (r, s') \<Longrightarrow> (case r of Inl e \<Rightarrow> E e s' | Inr x \<Rightarrow> Q x s')) \<Longrightarrow> svalid P m Q E"
  by (simp add: svalid_def)

lemma svalidD: "svalid P m Q E \<Longrightarrow> P s \<Longrightarrow> m s = (r, s') \<Longrightarrow> (case r of Inl e \<Rightarrow> E e s' | Inr x \<Rightarrow> Q x s')"
  by (simp add: svalid_def)

lemma svalid_sbind:
  assumes "svalid P m R E" and "\<And>x. svalid (R x) (f x) Q E"
  shows "svalid P (sbind m f) Q E"
proof (rule svalidI)
  fix s r s'
  assume s: "P s" "sbind m f s = (r, s')"
  obtain y d where m: "m s = (y, d)" by fastforce
  note first = svalidD [OF assms(1) s(1) m]
  show "case r of Inl e \<Rightarrow> E e s' | Inr x \<Rightarrow> Q x s'"
  proof (cases y)
    case (Inl e)
    with s(2) m first show ?thesis by (auto simp: sbind_def)
  next
    case (Inr x)
    with s(2) m first have "R x d" "f x d = (r, s')" by (simp_all add: sbind_def)
    then show ?thesis by (rule svalidD [OF assms(2)])
  qed
qed

lemma svalid_weaken:
  assumes "svalid P m Q E" and "\<And>s. P' s \<Longrightarrow> P s" and "\<And>x s. Q x s \<Longrightarrow> Q' x s" and "\<And>e s. E e s \<Longrightarrow> E' e s"
  shows "svalid P' m Q' E'"
proof (rule svalidI)
  fix s r s'
  assume "P' s" "m s = (r, s')"
  then have "case r of Inl e \<Rightarrow> E e s' | Inr x \<Rightarrow> Q x s'" using svalidD [OF assms(1)] assms(2) by blast
  then show "case r of Inl e \<Rightarrow> E' e s' | Inr x \<Rightarrow> Q' x s'" using assms(3,4) by (cases r) simp_all
qed

lemma svalid_return: "(\<And>s. P s \<Longrightarrow> Q x s) \<Longrightarrow> svalid P (sreturn x) Q E"
  by (simp add: svalid_def sreturn_def)

lemma svalid_raise: "(\<And>s. P s \<Longrightarrow> E e s) \<Longrightarrow> svalid P (sraise e) Q E"
  by (simp add: svalid_def sraise_def)

lemma svalid_if: "(b \<Longrightarrow> svalid P m Q E) \<Longrightarrow> (\<not> b \<Longrightarrow> svalid P n Q E) \<Longrightarrow> svalid P (if b then m else n) Q E"
  by simp

text \<open>Steps that only compute: the value satisfies a fact, the state predicate stays.\<close>

lemma svalid_slift:
  assumes "\<And>e s. P s \<Longrightarrow> E e s" and "\<And>x. r = Inr x \<Longrightarrow> svalid P (f x) Q E"
  shows "svalid P (sbind (slift r) f) Q E"
  using assms by (cases r) (auto simp: slift_def sbind_def svalid_def sraise_def sreturn_def)

lemma svalid_sguard:
  assumes "\<And>e s. P s \<Longrightarrow> E e s" and "b \<Longrightarrow> svalid P f Q E"
  shows "svalid P (sbind (sguard b t) (\<lambda>_. f)) Q E"
  using assms by (auto simp: sguard_def sbind_def svalid_def sraise_def sreturn_def)

definition calls_only :: "(service \<Rightarrow> bool) \<Rightarrow> bool" where
  "calls_only P \<longleftrightarrow> (\<forall>s s'. P s \<longrightarrow> sv_calls s' = sv_calls s \<longrightarrow> sv_tick s' = sv_tick s \<longrightarrow> P s')"

lemma calls_only_exchanged [simp]: "calls_only (exchanged H s T)"
  by (simp add: calls_only_def exchanged_def)

lemma svalid_note:
  assumes "calls_only P" and "svalid P m Q E"
  shows "svalid P (sbind (note_execution f) (\<lambda>_. m)) Q E" "svalid P (sbind (note_result g) (\<lambda>_. m)) Q E"
    "svalid P (sbind (note_report k) (\<lambda>_. m)) Q E"
proof -
  have "svalid P (sbind (\<lambda>s. (Inr (), g s)) (\<lambda>_. m)) Q E" if "\<And>s. sv_calls (g s) = sv_calls s \<and> sv_tick (g s) = sv_tick s" for g
  proof (rule svalid_sbind [OF _ assms(2)])
    show "svalid P (\<lambda>s. (Inr (), g s)) (\<lambda>_. P) E"
      using assms(1) that unfolding svalid_def calls_only_def by auto
  qed
  then show "svalid P (sbind (note_execution f) (\<lambda>_. m)) Q E" "svalid P (sbind (note_result g) (\<lambda>_. m)) Q E"
    "svalid P (sbind (note_report k) (\<lambda>_. m)) Q E"
    unfolding note_execution_def note_result_def note_report_def by simp_all
qed

lemma svalid_capture:
  assumes "\<And>code out err. svalid (exchanged H s0 (T @ [(call, Exited code out err)])) (f (code, out, err)) Q E"
    and "\<And>e r s. exchanged H s0 (T @ [(call, r)]) s \<Longrightarrow> E e s"
  shows "svalid (exchanged H s0 T) (sbind (capture H scoped call) f) Q E"
proof (rule svalidI)
  fix s r s'
  assume s: "exchanged H s0 T s" "sbind (capture H scoped call) f s = (r, s')"
  let ?s = "s\<lparr>sv_tick := sv_tick s + 1, sv_calls := sv_calls s @ [call]\<rparr>"
  have step: "exchanged H s0 (T @ [(call, dh_reply H (sv_tick s))]) ?s"
    using s(1) by (auto simp: exchanged_def)
  show "case r of Inl e \<Rightarrow> E e s' | Inr x \<Rightarrow> Q x s'"
  proof (cases "dh_reply H (sv_tick s)")
    case (Exited code out err)
    with s(2) have "f (code, out, err) ?s = (r, s')" by (simp add: sbind_def capture_def Let_def)
    with step Exited show ?thesis using svalidD [OF assms(1)] by metis
  qed (use s(2) step assms(2) in \<open>auto simp: sbind_def capture_def Let_def\<close>)
qed


section \<open>The workload\<close>

text \<open>The inspection showed a container to which the whole policy was applied.\<close>

definition verified :: "docker_host \<Rightarrow> string \<Rightarrow> sandbox_policy \<Rightarrow> reply \<Rightarrow> bool" where
  "verified H runtime p r \<longleftrightarrow> (\<exists>out err v d. r = Exited 0 out err \<and> dh_loads H out = Inr v \<and> json_first v = Inr d
     \<and> policy_violated runtime p d = Inr False)"

definition clean_exit :: "sandbox_mode \<Rightarrow> sandbox_execution \<Rightarrow> reply \<Rightarrow> bool" where
  "clean_exit mode x r \<longleftrightarrow> (\<exists>code out err. r = Exited code out err \<and> code \<in> set (accepted_codes mode)
     \<and> hashed_in (map JInt (accepted_codes mode)) (sx_exit_code x) = Inr True \<and> \<not> truthy (sx_oom_killed x))"

text \<open>A beginning of the four commands of a workload; it starts only what was verified.\<close>

definition workload_part :: "docker_host \<Rightarrow> sandbox_job \<Rightarrow> string \<Rightarrow> string \<Rightarrow> string \<Rightarrow> (docker_call \<times> reply) list \<Rightarrow> bool" where
  "workload_part H job runtime name i W \<longleftrightarrow> length W \<le> 4
     \<and> map fst W = take (length W) [create_call H job runtime name i, short_call [''inspect'', name],
         start_call H job name, short_call [''inspect'', name]]
     \<and> (2 < length W \<longrightarrow> (\<exists>out err. snd (W ! 0) = Exited 0 out err) \<and> verified H runtime (jb_policy job) (snd (W ! 1)))"

lemma record_exit_clean:
  "svalid (exchanged H s0 T) (record_exit H job code out err state)
     (\<lambda>_ s. exchanged H s0 T s \<and> (sb_status (sv_result s) = SB_completed
        \<longrightarrow> clean_exit (jb_mode job) (sb_execution (sv_result s)) (Exited code out err)))
     (\<lambda>_. exchanged H s0 T)"
proof (rule svalidI)
  fix s r s'
  assume s: "exchanged H s0 T s" "record_exit H job code out err state s = (r, s')"
  have frame: "sv_calls s' = sv_calls s \<and> sv_tick s' = sv_tick s"
    using s(2) by (auto simp: record_exit_def sbind_def slift_def sguard_def sreturn_def sraise_def note_execution_def note_result_def
        split: sum.splits if_splits)
  have "sb_status (sv_result s') = SB_completed \<longrightarrow> clean_exit (jb_mode job) (sb_execution (sv_result s')) (Exited code out err)"
    if "r = Inr u" for u
    using s(2) that by (auto simp: record_exit_def sbind_def slift_def sguard_def sreturn_def sraise_def note_execution_def note_result_def
        clean_exit_def rbind_eq_Inr split: sum.splits if_splits)
  with exchanged_same [OF s(1)] frame show "case r of Inl e \<Rightarrow> exchanged H s0 T s'
      | Inr x \<Rightarrow> exchanged H s0 T s' \<and> (sb_status (sv_result s') = SB_completed
          \<longrightarrow> clean_exit (jb_mode job) (sb_execution (sv_result s')) (Exited code out err))"
    by (cases r) auto
qed

lemma svalid_inspect:
  assumes "\<And>out err v d. dh_loads H out = Inr v \<Longrightarrow> json_first v = Inr d \<Longrightarrow>
      svalid (exchanged H s0 (T @ [(short_call [''inspect'', name], Exited 0 out err)])) (f d) Q E"
    and "\<And>e r s. exchanged H s0 (T @ [(short_call [''inspect'', name], r)]) s \<Longrightarrow> E e s"
  shows "svalid (exchanged H s0 T) (sbind (inspect_job H name) f) Q E"
proof -
  have assoc: "sbind (inspect_job H name) f = sbind (capture H True (short_call [''inspect'', name])) (\<lambda>(code, out, err).
     sbind (sguard (code = 0) ''Docker control operation failed'') (\<lambda>_. sbind (slift (dh_loads H out)) (\<lambda>v. sbind (slift (json_first v)) f)))"
    by (rule ext) (auto simp: inspect_job_def control_def sbind_def split: prod.splits sum.splits)
  show ?thesis unfolding assoc
  proof (rule svalid_capture)
    fix code out err
    let ?P = "exchanged H s0 (T @ [(short_call [''inspect'', name], Exited code out err)])"
    have "svalid ?P (sbind (sguard (code = 0) ''Docker control operation failed'') (\<lambda>_. sbind (slift (dh_loads H out)) (\<lambda>v. sbind (slift (json_first v)) f))) Q E"
      by (intro svalid_sguard svalid_slift) (use assms in auto)
    then show "svalid ?P (case (code, out, err) of (code, out, err) \<Rightarrow> sbind (sguard (code = 0) ''Docker control operation failed'')
        (\<lambda>_. sbind (slift (dh_loads H out)) (\<lambda>v. sbind (slift (json_first v)) f))) Q E" by simp
  qed (rule assms(2))
qed

lemma attach_workload_part:
  assumes "\<And>W. map fst W = take (length W) [start_call H job name, short_call [''inspect'', name]] \<Longrightarrow> length W \<le> 2 \<Longrightarrow> P (V @ W)"
  shows "svalid (exchanged H s0 (T @ V)) (attach_workload H job name)
     (\<lambda>_ s. \<exists>a b. exchanged H s0 (T @ V @ [a, b]) s \<and> P (V @ [a, b])
        \<and> (sb_status (sv_result s) = SB_completed \<longrightarrow> clean_exit (jb_mode job) (sb_execution (sv_result s)) (snd a)))
     (\<lambda>_ s. \<exists>W. exchanged H s0 (T @ V @ W) s \<and> P (V @ W))"
  unfolding attach_workload_def
proof (rule svalid_capture, unfold prod.case)
  let ?s = "start_call H job name" and ?i = "short_call [''inspect'', name]"
  fix code out err
  let ?a = "(?s, Exited code out err)"
  have two: "P (V @ [?a, (?i, r)])" for r by (rule assms) simp_all
  show "svalid (exchanged H s0 ((T @ V) @ [?a])) (sbind (inspect_job H name) (\<lambda>definition'.
     sbind (slift (json_key definition' ''State'')) (\<lambda>state. record_exit H job code out err state)))
     (\<lambda>_ s. \<exists>a b. exchanged H s0 (T @ V @ [a, b]) s \<and> P (V @ [a, b])
        \<and> (sb_status (sv_result s) = SB_completed \<longrightarrow> clean_exit (jb_mode job) (sb_execution (sv_result s)) (snd a)))
     (\<lambda>_ s. \<exists>W. exchanged H s0 (T @ V @ W) s \<and> P (V @ W))"
  proof (rule svalid_inspect, rule svalid_slift)
    fix out' err' state
    show "svalid (exchanged H s0 (((T @ V) @ [?a]) @ [(?i, Exited 0 out' err')])) (record_exit H job code out err state)
     (\<lambda>_ s. \<exists>a b. exchanged H s0 (T @ V @ [a, b]) s \<and> P (V @ [a, b])
        \<and> (sb_status (sv_result s) = SB_completed \<longrightarrow> clean_exit (jb_mode job) (sb_execution (sv_result s)) (snd a)))
     (\<lambda>_ s. \<exists>W. exchanged H s0 (T @ V @ W) s \<and> P (V @ W))"
      by (rule svalid_weaken [OF record_exit_clean]) (use two [of "Exited 0 out' err'"] in \<open>auto intro!: exI [of _ ?a] exI [of _ "(?i, Exited 0 out' err')"] exI [of _ "[?a, (?i, Exited 0 out' err')]"]\<close>)
  qed (use two in \<open>auto intro: exI [of _ "[?a, b]" for b]\<close>)
next
  fix r s
  assume "exchanged H s0 ((T @ V) @ [(start_call H job name, r)]) s"
  then show "\<exists>W. exchanged H s0 (T @ V @ W) s \<and> P (V @ W)"
    using assms [of "[(start_call H job name, r)]"] by (auto intro!: exI [of _ "[(start_call H job name, r)]"])
qed

lemma run_workload_part:
  "svalid (exchanged H s0 T) (run_workload H job runtime name (JStr i))
     (\<lambda>_ s. \<exists>W. exchanged H s0 (T @ W) s \<and> workload_part H job runtime name i W \<and> length W = 4
        \<and> (sb_status (sv_result s) = SB_completed \<longrightarrow> clean_exit (jb_mode job) (sb_execution (sv_result s)) (snd (W ! 2))))
     (\<lambda>_ s. \<exists>W. exchanged H s0 (T @ W) s \<and> workload_part H job runtime name i W)"
    (is "svalid _ _ ?Q ?E")
proof -
  let ?c = "create_call H job runtime name i" and ?i = "short_call [''inspect'', name]" and ?s = "start_call H job name"
  have part: "?E e s" if "exchanged H s0 (T @ W) s" "map fst W = take (length W) [?c, ?i, ?s, ?i]" "length W \<le> 2" for e s W
    using that by (auto simp: workload_part_def)
  show ?thesis unfolding run_workload_def json.case
  proof (rule svalid_capture, unfold prod.case)
    fix code out err
    let ?W = "[(?c, Exited code out err)]"
    have e1: "?E e s" if "exchanged H s0 (T @ ?W) s" for e s by (rule part [OF that]) simp_all
    have e2: "?E e s" if "exchanged H s0 ((T @ ?W) @ [(?i, r)]) s" for e r s
      by (rule part [of "?W @ [(?i, r)]"]) (use that in simp_all)
    have start: "svalid (exchanged H s0 ((T @ ?W) @ [(?i, Exited 0 out1 err1)])) (attach_workload H job name) ?Q ?E"
      if code: "code = 0" and ver: "verified H runtime (jb_policy job) (Exited 0 out1 err1)" for out1 err1
    proof -
      let ?V = "?W @ [(?i, Exited 0 out1 err1)]"
      have long: "workload_part H job runtime name i (?V @ W)"
        if "map fst W = take (length W) [?s, ?i]" "length W \<le> 2" for W
        using that ver code by (auto simp: workload_part_def)
      have "svalid (exchanged H s0 (T @ ?V)) (attach_workload H job name) ?Q ?E"
        by (rule svalid_weaken [OF attach_workload_part [where P = "workload_part H job runtime name i" and V = ?V, OF long]])
          (auto intro: exI [of _ "?V @ W" for W])
      then show ?thesis by simp
    qed
    show "svalid (exchanged H s0 (T @ ?W)) (sbind (sguard (code = 0) ''Container creation failed'') (\<lambda>_.
       sbind (slift (dh_decode H out)) (\<lambda>i.
       sbind (note_execution (\<lambda>x. x\<lparr>sx_container_id := Some (strip i)\<rparr>)) (\<lambda>_.
       sbind (inspect_job H name) (\<lambda>definition'.
       sbind (slift (policy_violated runtime (jb_policy job) definition')) (\<lambda>violated.
       sbind (sguard (\<not> violated) ''Docker did not apply the required sandbox policy'') (\<lambda>_.
       attach_workload H job name))))))) ?Q ?E"
      by (intro svalid_sguard svalid_slift svalid_note(1) svalid_inspect calls_only_exchanged start)
        (auto simp: verified_def intro: e1 e2)
  qed (rule part, auto)
qed


definition teardown_part :: "string \<Rightarrow> (docker_call \<times> reply) list \<Rightarrow> bool" where
  "teardown_part name D \<longleftrightarrow> D \<noteq> [] \<and> length D \<le> 2 \<and> map fst D = take (length D) [remove_call name, search_call name]"

text \<open>The container was removed, or the search for it came back empty.\<close>

definition confirmed_gone :: "(docker_call \<times> reply) list \<Rightarrow> bool" where
  "confirmed_gone D \<longleftrightarrow> (\<exists>out err. snd (D ! 0) = Exited 0 out err)
     \<or> length D = 2 \<and> (\<exists>out err. snd (D ! 1) = Exited 0 out err \<and> blank out)"

lemma exchanged_step:
  "sv_calls s' = sv_calls s @ [call] \<Longrightarrow> sv_tick s' = Suc (sv_tick s) \<Longrightarrow> exchanged H s [(call, dh_reply H (sv_tick s))] s'"
  by (simp add: exchanged_def)

lemma sbind_run: "m s = (Inr x, s') \<Longrightarrow> sbind m f s = f x s'" "m s = (Inl e, s') \<Longrightarrow> sbind m f s = (Inl e, s')"
  by (simp_all add: sbind_def)

lemma capture_result: "capture H scoped call s = (r, s') \<Longrightarrow> sv_result s' = sv_result s
    \<and> exchanged H s [(call, dh_reply H (sv_tick s))] s'
    \<and> (\<forall>code out err. r = Inr (code, out, err) \<longrightarrow> dh_reply H (sv_tick s) = Exited code out err)"
  by (auto simp: capture_def Let_def exchanged_def split: reply.splits)

lemma cleanup_run:
  assumes "cleanup H name s = (r, s')"
  shows "\<exists>D. exchanged H s D s' \<and> teardown_part name D \<and> sv_result s' = sv_result s \<and> (r = Inr True \<longrightarrow> confirmed_gone D)"
proof -
  let ?tail = "\<lambda>(code, _, _). if code = 0 then sreturn True
       else sbind (capture H False (search_call name)) (\<lambda>(code, remaining, _). sreturn (code = 0 \<and> blank remaining))"
  obtain x s1 where x: "sbind (capture H False (remove_call name)) ?tail s = (x, s1)" by fastforce
  then have r: "s' = s1" "r = Inr True \<longrightarrow> x = Inr True" using assms by (auto simp: cleanup_def or_false_def split: sum.splits if_splits)
  obtain a t where a: "capture H False (remove_call name) s = (a, t)" by fastforce
  note first = capture_result [OF a]
  let ?D = "[(remove_call name, dh_reply H (sv_tick s))]"
  have one: ?thesis if "s1 = t" "x = Inr True \<longrightarrow> confirmed_gone ?D"
    using first that r by (intro exI [of _ ?D]) (simp add: teardown_part_def)
  show ?thesis
  proof (cases a)
    case (Inl e)
    have "sbind (capture H False (remove_call name)) ?tail s = (Inl e, t)" by (rule sbind_run(2)) (use a Inl in simp)
    then show ?thesis by (intro one) (use x in auto)
  next
    case (Inr p)
    obtain code out err where p: "p = (code, out, err)" by (cases p)
    have x1: "?tail (code, out, err) t = (x, s1)" using x sbind_run(1) [of "capture H False (remove_call name)" s p t ?tail] a Inr p by simp
    show ?thesis
    proof (cases "code = 0")
      case True
      show ?thesis by (rule one) (use x1 True first Inr p in \<open>auto simp: sreturn_def confirmed_gone_def\<close>)
    next
      case False
      obtain b u where b: "capture H False (search_call name) t = (b, u)" by fastforce
      note second = capture_result [OF b]
      let ?E = "?D @ [(search_call name, dh_reply H (sv_tick t))]"
      have "s1 = u \<and> (x = Inr True \<longrightarrow> confirmed_gone ?E)"
        using x1 False b second by (cases b) (auto simp: sbind_def sreturn_def confirmed_gone_def)
      with r exchanged_trans [of H s ?D t] first second show ?thesis
        by (intro exI [of _ ?E]) (auto simp: teardown_part_def)
    qed
  qed
qed

lemma tear_down_run:
  assumes "tear_down H name s = (res, s')"
  shows "\<exists>D. exchanged H s D s' \<and> teardown_part name D
    \<and> (res = Inr () \<and> sb_status (sv_result s') = SB_completed \<longrightarrow> confirmed_gone D \<and> sb_status (sv_result s) = SB_completed
         \<and> (\<forall>mode r. clean_exit mode (sb_execution (sv_result s)) r \<longrightarrow> clean_exit mode (sb_execution (sv_result s')) r))"
proof -
  obtain y s1 where c: "cleanup H name s = (y, s1)" by fastforce
  from cleanup_run [OF c] obtain D where D: "exchanged H s D s1" "teardown_part name D" "sv_result s1 = sv_result s"
    "y = Inr True \<longrightarrow> confirmed_gone D" by blast
  have frame: "sv_calls s' = sv_calls s1 \<and> sv_tick s' = sv_tick s1"
    using assms c by (cases y) (auto simp: tear_down_def sbind_def note_execution_def note_result_def sraise_def sreturn_def split: if_splits)
  have "res = Inr () \<and> sb_status (sv_result s') = SB_completed \<longrightarrow> confirmed_gone D \<and> sb_status (sv_result s) = SB_completed
         \<and> (\<forall>mode r. clean_exit mode (sb_execution (sv_result s)) r \<longrightarrow> clean_exit mode (sb_execution (sv_result s')) r)"
    using assms c D(3,4) by (cases y) (auto simp: tear_down_def sbind_def note_execution_def note_result_def sraise_def sreturn_def
        clean_exit_def split: if_splits)
  then show ?thesis using exchanged_same [OF D(1)] frame D(2) by blast
qed

definition clean_result :: "sandbox_mode \<Rightarrow> reply \<Rightarrow> sandbox_result \<Rightarrow> bool" where
  "clean_result mode r x \<longleftrightarrow> (sb_status x = SB_completed \<longrightarrow> clean_exit mode (sb_execution x) r)"

text \<open>A whole execution of a job: what is started is verified, and always followed by a teardown.\<close>

definition job_run :: "docker_host \<Rightarrow> sandbox_job \<Rightarrow> string \<Rightarrow> string \<Rightarrow> (docker_call \<times> reply) list \<Rightarrow> (docker_call \<times> reply) list \<Rightarrow> bool" where
  "job_run H job runtime name W D \<longleftrightarrow> (W = [] \<or> (\<exists>i. workload_part H job runtime name i W)) \<and> teardown_part name D"

definition accepted_run :: "docker_host \<Rightarrow> sandbox_job \<Rightarrow> (docker_call \<times> reply) list \<Rightarrow> (docker_call \<times> reply) list \<Rightarrow> sandbox_result \<Rightarrow> bool" where
  "accepted_run H job W D x \<longleftrightarrow> length W = 4 \<and> clean_exit (jb_mode job) (sb_execution x) (snd (W ! 2)) \<and> confirmed_gone D"

lemma failure_not_completed: "failure_result e = Some f \<Longrightarrow> sb_status (f x) \<noteq> SB_completed"
  by (auto simp: failure_result_def Let_def split: interruption.splits py_error.splits if_splits)

lemma run_and_tear_down_part:
  "svalid (exchanged H s0 T) (run_and_tear_down H job runtime name selected)
     (\<lambda>x s. \<exists>W D. exchanged H s0 (T @ W @ D) s \<and> job_run H job runtime name W D
        \<and> (sb_status x = SB_completed \<longrightarrow> accepted_run H job W D x))
     (\<lambda>_ s. \<exists>W D. exchanged H s0 (T @ W @ D) s \<and> job_run H job runtime name W D)"
proof (rule svalidI)
  fix s res s'
  assume s: "exchanged H s0 T s" "run_and_tear_down H job runtime name selected s = (res, s')"
  let ?goal = "case res of
       Inl e \<Rightarrow> \<exists>W D. exchanged H s0 (T @ W @ D) s' \<and> job_run H job runtime name W D
     | Inr x \<Rightarrow> \<exists>W D. exchanged H s0 (T @ W @ D) s' \<and> job_run H job runtime name W D
        \<and> (sb_status x = SB_completed \<longrightarrow> accepted_run H job W D x)"
  obtain y s1 where w: "run_workload H job runtime name selected s = (y, s1)" by fastforce
  have work: "\<exists>W. exchanged H s0 (T @ W) s1 \<and> (W = [] \<or> (\<exists>i. workload_part H job runtime name i W))
      \<and> (y = Inr () \<longrightarrow> length W = 4 \<and> clean_result (jb_mode job) (snd (W ! 2)) (sv_result s1))"
  proof (cases "\<exists>i. selected = JStr i")
    case True
    then obtain i where "selected = JStr i" by blast
    with svalidD [OF run_workload_part s(1)] w show ?thesis
      by (cases y) (fastforce simp: clean_result_def)+
  next
    case False
    then have "y = Inl (Raise (TypeError ''expected str, bytes or os.PathLike object'')) \<and> s1 = s"
      using w by (cases selected) (auto simp: run_workload_def sbind_def sraise_def)
    with s(1) show ?thesis by (auto intro: exI [of _ "[]"])
  qed
  then obtain W where W: "exchanged H s0 (T @ W) s1" "W = [] \<or> (\<exists>i. workload_part H job runtime name i W)"
    "y = Inr () \<longrightarrow> length W = 4 \<and> clean_result (jb_mode job) (snd (W ! 2)) (sv_result s1)" by blast
  have finish: ?goal if s2: "exchanged H s0 (T @ W) s2" and run: "sbind (tear_down H name) f s2 = (res, s')"
      and ok: "\<And>x s. f x s = (Inr (sv_result s), s) \<and> (sb_status (sv_result s2) = SB_completed \<longrightarrow>
          length W = 4 \<and> clean_exit (jb_mode job) (sb_execution (sv_result s2)) (snd (W ! 2))) \<or> (\<exists>e. f x s = (Inl e, s))" for s2 f
  proof -
    obtain z s3 where t: "tear_down H name s2 = (z, s3)" by fastforce
    from tear_down_run [OF t] obtain D where D: "exchanged H s2 D s3" "teardown_part name D"
      "z = Inr () \<and> sb_status (sv_result s3) = SB_completed \<longrightarrow> confirmed_gone D \<and> sb_status (sv_result s2) = SB_completed
         \<and> (\<forall>mode r. clean_exit mode (sb_execution (sv_result s2)) r \<longrightarrow> clean_exit mode (sb_execution (sv_result s3)) r)" by blast
    have e: "exchanged H s0 (T @ W @ D) s3" using exchanged_trans [OF s2 D(1)] by simp
    have j: "job_run H job runtime name W D" using W(2) D(2) by (simp add: job_run_def)
    show ?thesis
    proof (cases z)
      case (Inl e)
      with run t have "res = Inl e" "s' = s3" by (simp_all add: sbind_def)
      then show ?thesis using e j by auto
    next
      case (Inr u)
      then have "f () s3 = (res, s')" using run t by (simp add: sbind_def)
      with ok [of "()" s3] D(3) e j Inr show ?thesis by (cases res) (auto simp: accepted_run_def)
    qed
  qed
  show ?goal
  proof (cases y)
    case (Inr u)
    show ?thesis
      by (rule finish [of s1 "\<lambda>_ s. (Inr (sv_result s), s)"])
        (use W(1,3) Inr s(2) w in \<open>auto simp: run_and_tear_down_def clean_result_def\<close>)
  next
    case (Inl e)
    show ?thesis
    proof (cases "failure_result e")
      case (Some f)
      let ?s = "s1\<lparr>sv_result := f (sv_result s1)\<rparr>"
      show ?thesis
        by (rule finish [of ?s "\<lambda>_ s. (Inr (sv_result s), s)"])
          (use exchanged_same [OF W(1)] failure_not_completed [OF Some, of "sv_result s1"] s(2) w Inl Some in
            \<open>auto simp: run_and_tear_down_def note_result_def sbind_def\<close>)
    next
      case None
      show ?thesis
        by (rule finish [of s1 "\<lambda>_. sraise e"]) (use W(1) s(2) w Inl None in \<open>auto simp: run_and_tear_down_def sraise_def\<close>)
    qed
  qed
qed


section \<open>Commands that start nothing\<close>

fun launches :: "docker_call \<Rightarrow> bool" where
  "launches (Docker arguments _ _ _) = (take 1 arguments = [''create''] \<or> take 1 arguments = [''start''])"

definition harmless :: "(docker_call \<times> reply) list \<Rightarrow> bool" where
  "harmless U \<longleftrightarrow> list_all (\<lambda>(c, _). \<not> launches c) U"

definition quiet :: "docker_host \<Rightarrow> service \<Rightarrow> sandbox_status option \<Rightarrow> service \<Rightarrow> bool" where
  "quiet H s0 K s \<longleftrightarrow> (\<exists>U. exchanged H s0 U s \<and> harmless U) \<and> (\<forall>k. K = Some k \<longrightarrow> sb_status (sv_result s) = k)"

abbreviation skeeps :: "(service \<Rightarrow> bool) \<Rightarrow> 'a run_op \<Rightarrow> bool" where
  "skeeps P m \<equiv> svalid P m (\<lambda>_. P) (\<lambda>_. P)"

named_theorems skeeps_intros "operations of the sandbox that keep a predicate"

lemma skeeps_basic [skeeps_intros]:
  "skeeps P (sreturn x)" "skeeps P (sraise e)" "skeeps P (slift r)" "skeeps P (sguard b t)"
  by (auto simp: svalid_def sreturn_def sraise_def slift_def sguard_def split: sum.splits if_splits)

lemma skeeps_sbind [skeeps_intros]: "skeeps P m \<Longrightarrow> (\<And>x. skeeps P (f x)) \<Longrightarrow> skeeps P (sbind m f)"
  by (rule svalid_sbind)

lemma skeeps_if [skeeps_intros]: "skeeps P m \<Longrightarrow> skeeps P n \<Longrightarrow> skeeps P (if b then m else n)"
  by simp

lemma skeeps_prod [skeeps_intros]: "(\<And>a b. skeeps P (f a b)) \<Longrightarrow> skeeps P (case p of (a, b) \<Rightarrow> f a b)"
  by (cases p) simp

lemma quiet_capture [skeeps_intros]: "\<not> launches call \<Longrightarrow> skeeps (quiet H s0 K) (capture H scoped call)"
proof (rule svalidI)
  fix s r s'
  assume call: "\<not> launches call" and s: "quiet H s0 K s" "capture H scoped call s = (r, s')"
  from s(1) obtain U where U: "exchanged H s0 U s" "harmless U" "\<forall>k. K = Some k \<longrightarrow> sb_status (sv_result s) = k"
    by (auto simp: quiet_def)
  note step = capture_result [OF s(2)]
  have "exchanged H s0 (U @ [(call, dh_reply H (sv_tick s))]) s'" using exchanged_trans [OF U(1)] step by blast
  moreover have "harmless (U @ [(call, dh_reply H (sv_tick s))])" using U(2) call by (simp add: harmless_def)
  ultimately have "quiet H s0 K s'" using U(3) step by (auto simp: quiet_def)
  then show "case r of Inl e \<Rightarrow> quiet H s0 K s' | Inr x \<Rightarrow> quiet H s0 K s'" by (simp split: sum.split)
qed

lemma quiet_frame:
  "quiet H s0 K s \<Longrightarrow> sv_calls s' = sv_calls s \<Longrightarrow> sv_tick s' = sv_tick s \<Longrightarrow> sb_status (sv_result s') = sb_status (sv_result s) \<Longrightarrow> quiet H s0 K s'"
  using exchanged_same unfolding quiet_def by metis

lemma quiet_notes [skeeps_intros]:
  "skeeps (quiet H s0 K) (note_execution f)" "skeeps (quiet H s0 K) (note_report g)"
  by (auto simp: svalid_def note_execution_def note_report_def elim: quiet_frame)

lemma quiet_hub [skeeps_intros]: "skeeps (quiet H s0 K) (on_service_hub m)"
  by (auto simp: svalid_def on_service_hub_def elim: quiet_frame split: prod.splits sum.splits)

lemma launches_simps [simp]:
  "\<not> launches (short_call [''inspect'', i])" "\<not> launches (short_call [''info'', ''--format'', f])"
  "\<not> launches (short_call [''image'', ''inspect'', i])" "\<not> launches (find_call i)" "\<not> launches (remove_call i)"
  "\<not> launches (list_call H)"
  by (simp_all add: short_call_def find_call_def remove_call_def list_call_def)

lemma check_daemon_quiet: "skeeps (quiet H s0 K) (check_daemon H runtime pinned)"
  unfolding check_daemon_def control_def
  by (intro skeeps_intros launches_simps)

lemma reconcile_job_quiet: "skeeps (quiet H s0 K) (reconcile_job H i)"
proof -
  have remove: "skeeps (quiet H s0 K) (remove_orphan H i)"
    unfolding remove_orphan_def by (intro skeeps_intros launches_simps)
  have active: "skeeps (quiet H s0 K) (note_report f)" for f by (rule quiet_notes)
  have "skeeps (quiet H s0 K) (\<lambda>s. case dh_lease H (sv_tick s) name of
           Inl BlockingIOError \<Rightarrow> note_report (\<lambda>r. r\<lparr>rv_active := rv_active r @ [i]\<rparr>) s
         | Inl e \<Rightarrow> (Inl (Raise e), s)
         | Inr _ \<Rightarrow> remove_orphan H i s)" for name
  proof (rule svalidI)
    fix s r s'
    assume s: "quiet H s0 K s" "(case dh_lease H (sv_tick s) name of
           Inl BlockingIOError \<Rightarrow> note_report (\<lambda>r. r\<lparr>rv_active := rv_active r @ [i]\<rparr>) s
         | Inl e \<Rightarrow> (Inl (Raise e), s)
         | Inr _ \<Rightarrow> remove_orphan H i s) = (r, s')"
    show "case r of Inl e \<Rightarrow> quiet H s0 K s' | Inr x \<Rightarrow> quiet H s0 K s'"
    proof (cases "dh_lease H (sv_tick s) name")
      case (Inr u)
      with s svalidD [OF remove s(1)] show ?thesis by simp
    next
      case (Inl e)
      with s svalidD [OF active s(1)] show ?thesis by (cases e) auto
    qed
  qed
  then show ?thesis unfolding reconcile_job_def by (intro skeeps_intros launches_simps)
qed

lemma reconcile_jobs_quiet: "skeeps (quiet H s0 K) (reconcile_jobs H is)"
  by (induction "is") (auto intro!: skeeps_intros reconcile_job_quiet)

lemma reconcile_listed_quiet: "skeeps (quiet H s0 K) (reconcile_listed H)"
  unfolding reconcile_listed_def Let_def by (intro skeeps_intros launches_simps reconcile_jobs_quiet)

lemma reconcile_sandbox_quiet: "skeeps (quiet H s0 K) (reconcile_sandbox H)"
proof (rule svalidI)
  fix s r s'
  assume s: "quiet H s0 K s" "reconcile_sandbox H s = (r, s')"
  let ?s = "s\<lparr>sv_report := empty_report H (sv_tick s)\<rparr>"
  have q: "quiet H s0 K ?s" by (rule quiet_frame [OF s(1)]) simp_all
  obtain y s1 where l: "reconcile_listed H ?s = (y, s1)" by fastforce
  have q1: "quiet H s0 K s1" using svalidD [OF reconcile_listed_quiet q l] by (cases y) simp_all
  have "s' = ?s \<or> (\<exists>r. s' = s1\<lparr>sv_report := r\<rparr>)"
    using s(2) l by (auto simp: reconcile_sandbox_def reconcile_within_def Let_def split: if_splits sum.splits interruption.splits)
      (metis service.surjective service.update_convs(4))+
  then have "quiet H s0 K s'" using q q1 by (auto elim: quiet_frame)
  then show "case r of Inl e \<Rightarrow> quiet H s0 K s' | Inr x \<Rightarrow> quiet H s0 K s'" by (simp split: sum.split)
qed


lemma quiet_D: "quiet H s0 K s \<Longrightarrow> \<exists>U. exchanged H s0 U s \<and> harmless U"
  by (simp add: quiet_def)

lemma resolved_pinned:
  assumes "resolve_image H = Inr p"
  shows "PINNED_IMAGE p"
proof -
  obtain v where v: "(case v of JStr s \<Rightarrow> if PINNED_IMAGE s then Inr s
            else Inl (ValueError ''Sandbox image must be a full SHA-256 image ID or repository digest'')
        | _ \<Rightarrow> Inl (ValueError ''Sandbox image must be a full SHA-256 image ID or repository digest'')) = Inr p"
    using assms unfolding resolve_image_def rbind_eq_Inr by blast
  show ?thesis
  proof (cases v)
    case (JStr t)
    with v show ?thesis by (cases "PINNED_IMAGE t") (simp_all only: json.case if_True if_False sum.inject sum.distinct)
  qed (use v in simp_all)
qed

lemma execute_job_outcome:
  assumes s: "exchanged H s0 U s" "harmless U" and run: "execute_job H job runtime name s = (res, s')"
  shows "\<exists>U W D. exchanged H s0 (U @ W @ D) s' \<and> harmless U
     \<and> (W = [] \<and> D = [] \<and> (\<forall>x. res = Inr x \<longrightarrow> sb_status x \<noteq> SB_completed)
        \<or> (\<exists>p. resolve_image H = Inr p) \<and> job_run H job runtime name W D
          \<and> (\<forall>x. res = Inr x \<and> sb_status x = SB_completed \<longrightarrow> accepted_run H job W D x))"
proof -
  let ?Q = "quiet H s0 (Some SB_unavailable)"
  define s1 where "s1 = s\<lparr>sv_result := new_result H job runtime\<rparr>"
  have q1: "?Q s1" using s exchanged_same [OF s(1), of s1] unfolding quiet_def by (auto simp: s1_def new_result_def)
  have early: ?thesis if "?Q t" "unavailable reason t = (res, s')" for t reason
  proof -
    have "?Q s'" "res = Inr (sv_result s')"
      using that quiet_frame [OF that(1)] by (auto simp: unavailable_def sbind_def note_execution_def)
    then show ?thesis unfolding quiet_def by force
  qed
  show ?thesis
  proof (cases "resolve_image H")
    case (Inl e)
    show ?thesis
    proof (cases "\<exists>reason. e = ValueError reason")
      case True
      with Inl run early [OF q1] show ?thesis by (auto simp: execute_job_def sbind_def note_result_def s1_def)
    next
      case False
      then have "res = Inl (Raise e)" "s' = s1"
        using Inl run by (cases e; auto simp: execute_job_def sbind_def note_result_def sraise_def s1_def)+
      moreover from quiet_D [OF q1] obtain V where "exchanged H s0 V s1" "harmless V" by blast
      ultimately show ?thesis by (intro exI [of _ V] exI [of _ "[]"]) simp
    qed
  next
    case (Inr p)
    define s2 where "s2 = snd (note_execution (\<lambda>x. x\<lparr>sx_image := Some (JStr p)\<rparr>) s1)"
    have q2: "?Q s2" using quiet_frame [OF q1, of s2] by (simp add: s2_def note_execution_def)
    have rest: "(if \<not> dh_docker H then unavailable ''Docker CLI is unavailable''
         else if runtime = ''kata'' \<and> \<not> dh_kvm H
         then unavailable ''Kata is unavailable: /dev/kvm is not accessible to the sandbox service''
         else (\<lambda>s. case check_daemon H runtime p s of
             (Inl e, s1) \<Rightarrow>
               if daemon_failure e
               then unavailable ''Docker/image unavailable; check service socket access and build-image'' s1
               else (Inl e, s1)
           | (Inr False, s1) \<Rightarrow> (Inr (sv_result s1), s1)
           | (Inr True, s1) \<Rightarrow>
               run_and_tear_down H job runtime name
                 (case sx_image (sb_execution (sv_result s1)) of None \<Rightarrow> JNull | Some v \<Rightarrow> v) s1)) s2 = (res, s')"
      using run Inr by (simp add: execute_job_def sbind_def note_result_def s1_def s2_def note_execution_def)
    show ?thesis
    proof (cases "dh_docker H \<and> \<not> (runtime = ''kata'' \<and> \<not> dh_kvm H)")
      case False
      with rest early [OF q2] show ?thesis by (auto split: if_splits)
    next
      case True
      obtain y s3 where y: "check_daemon H runtime p s2 = (y, s3)" by fastforce
      have q3: "?Q s3" using svalidD [OF check_daemon_quiet q2 y] by (cases y) simp_all
      from quiet_D [OF q3] obtain V where V: "exchanged H s0 V s3" "harmless V" by blast
      consider e where "y = Inl e" "daemon_failure e" | e where "y = Inl e" "\<not> daemon_failure e" | "y = Inr False" | "y = Inr True"
        by (cases y) auto
      then show ?thesis
      proof cases
        case 1
        with rest True y early [OF q3] show ?thesis by auto
      next
        case 2
        with rest True y have "res = Inl e" "s' = s3" by auto
        with V show ?thesis by force
      next
        case 3
        with rest True y have "res = Inr (sv_result s3)" "s' = s3" by auto
        with V q3 show ?thesis unfolding quiet_def by force
      next
        case 4
        let ?i = "case sx_image (sb_execution (sv_result s3)) of None \<Rightarrow> JNull | Some v \<Rightarrow> v"
        have "run_and_tear_down H job runtime name ?i s3 = (res, s')" using rest True y 4 by auto
        from svalidD [OF run_and_tear_down_part V(1) this] V(2) Inr show ?thesis by (cases res) auto
      qed
    qed
  qed
qed

lemma recover_first_quiet: "skeeps (quiet H s0 K) (recover_first H)"
  unfolding recover_first_def by (intro skeeps_intros reconcile_sandbox_quiet)

lemma leased_run_outcome:
  assumes s: "exchanged H s0 U s" "harmless U" and run: "leased_run H job runtime s = (res, s')"
  shows "\<exists>U W D name. exchanged H s0 (U @ W @ D) s' \<and> harmless U
     \<and> (W = [] \<and> D = [] \<and> (\<forall>x. res = Inr x \<longrightarrow> sb_status x \<noteq> SB_completed)
        \<or> JOB_NAME name \<and> (\<exists>p. resolve_image H = Inr p) \<and> job_run H job runtime name W D
          \<and> (\<forall>x. res = Inr x \<and> sb_status x = SB_completed \<longrightarrow> accepted_run H job W D x))"
proof -
  define name where "name = ''aidlc-sandbox-'' @ wd_uid (dh_world H) (hb_tick (sv_hub s))"
  define s1 where "s1 = s\<lparr>sv_hub := (sv_hub s)\<lparr>hb_tick := hb_tick (sv_hub s) + 1\<rparr>\<rparr>"
  have e1: "exchanged H s0 U s1" by (rule exchanged_same [OF s(1)]) (simp_all add: s1_def)
  have rest: "(if \<not> JOB_NAME name then (Inl (Raise (ValueError ''Invalid sandbox job name'')), s1)
     else case dh_lease H (sv_tick s1) name of Inl e \<Rightarrow> (Inl (Raise e), s1) | Inr _ \<Rightarrow> execute_job H job runtime name s1) = (res, s')"
    using run unfolding leased_run_def Let_def name_def s1_def .
  have none: ?thesis if "s' = s1" "\<And>x. res \<noteq> Inr x"
    using e1 s(2) that by (intro exI [of _ U] exI [of _ "[]"]) auto
  show ?thesis
  proof (cases "JOB_NAME name")
    case False
    with rest have "s' = s1 \<and> res = Inl (Raise (ValueError ''Invalid sandbox job name''))"
      by (simp only: if_True not_False_eq_True prod.inject)
    then show ?thesis by (intro none) simp_all
  next
    case True
    show ?thesis
    proof (cases "dh_lease H (sv_tick s1) name")
      case (Inl e)
      with rest True show ?thesis by (intro none) auto
    next
      case (Inr u)
      with rest True have "execute_job H job runtime name s1 = (res, s')" by simp
      from execute_job_outcome [OF e1 s(2) this] True show ?thesis by blast
    qed
  qed
qed

lemma execute_selected_outcome:
  assumes run: "execute_selected H job rt s = (res, s')"
  shows "\<exists>U W D name. exchanged H s (U @ W @ D) s' \<and> harmless U
    \<and> (W = [] \<and> D = [] \<and> (\<forall>x. res = Inr x \<longrightarrow> sb_status x \<noteq> SB_completed)
       \<or> JOB_NAME name \<and> (\<exists>p. resolve_image H = Inr p) \<and> job_run H job rt name W D
         \<and> (\<forall>x. res = Inr x \<and> sb_status x = SB_completed \<longrightarrow> accepted_run H job W D x))"
proof -
  let ?Q = "quiet H s None"
  have none: ?thesis if "?Q s'" "\<And>x. res = Inr x \<Longrightarrow> sb_status x \<noteq> SB_completed"
    using quiet_D [OF that(1)] that(2) by force
  have start: "?Q s" by (auto simp: quiet_def harmless_def intro: exI [of _ "[]"])
  show ?thesis
  proof (cases "rt \<in> set (map fst ISOLATION)")
    case False
    with run have "res = Inl (Raise (ValueError ''Unsupported sandbox runtime''))" "s' = s"
      by (simp_all add: execute_selected_def sraise_def)
    with start show ?thesis by (intro none) auto
  next
    case True
    obtain y s1 where y: "recover_first H s = (y, s1)" by fastforce
    have q1: "?Q s1" using svalidD [OF recover_first_quiet start y] by (cases y) simp_all
    show ?thesis
    proof (cases y)
      case (Inl e)
      with run True y have "res = Inl e" "s' = s1" by (simp_all add: execute_selected_def sbind_def)
      with q1 show ?thesis by (intro none) auto
    next
      case (Inr report)
      then have rest: "(if rv_status report \<noteq> ''completed'' then sreturn (not_recovered H job rt report)
          else leased_run H job rt) s1 = (res, s')"
        using run True y by (simp add: execute_selected_def sbind_def)
      show ?thesis
      proof (cases "rv_status report = ''completed''")
        case False
        with rest have "s' = s1" "res = Inr (not_recovered H job rt report)" by (simp_all add: sreturn_def)
        with q1 show ?thesis by (intro none) (auto simp: not_recovered_def new_result_def Let_def)
      next
        case True
        from quiet_D [OF q1] obtain V where "exchanged H s V s1" "harmless V" by blast
        from leased_run_outcome [OF this] rest True show ?thesis by simp
      qed
    qed
  qed
qed

text \<open>
  C13. Untrusted code only runs confined, and its container never stays. Whatever the Docker daemon
  replies, and whether the execution returns or is interrupted: the commands of an execution are ones
  that create and start nothing, then a beginning of the four commands of one workload under a fresh job
  name, after the configured image was resolved to a pin, then a teardown of that container. The workload is started only
  after the creation succeeded and the inspection showed the runtime, the limits, no network, no
  mounts, no capabilities and the unprivileged user that the policy demands. A result is completed only if all
  four commands were sent, the exit codes are accepted, memory did not run out, and the teardown was confirmed.
\<close>

theorem workload_confined_and_removed:
  assumes "execute_sandbox H job runtime s = (res, s')"
  shows "\<exists>U W D name rt. exchanged H s (U @ W @ D) s' \<and> harmless U
    \<and> (W = [] \<and> D = [] \<and> (\<forall>x. res = Inr x \<longrightarrow> sb_status x \<noteq> SB_completed)
       \<or> JOB_NAME name \<and> (\<exists>p. resolve_image H = Inr p \<and> PINNED_IMAGE p) \<and> job_run H job rt name W D
         \<and> (\<forall>x. res = Inr x \<and> sb_status x = SB_completed \<longrightarrow> accepted_run H job W D x))"
proof -
  from execute_selected_outcome [OF assms [unfolded execute_sandbox_def]]
  obtain U W D name rt where "exchanged H s (U @ W @ D) s'" "harmless U"
    and run: "W = [] \<and> D = [] \<and> (\<forall>x. res = Inr x \<longrightarrow> sb_status x \<noteq> SB_completed)
       \<or> JOB_NAME name \<and> (\<exists>p. resolve_image H = Inr p) \<and> job_run H job rt name W D
         \<and> (\<forall>x. res = Inr x \<and> sb_status x = SB_completed \<longrightarrow> accepted_run H job W D x)" by metis
  moreover from run have "W = [] \<and> D = [] \<and> (\<forall>x. res = Inr x \<longrightarrow> sb_status x \<noteq> SB_completed)
       \<or> JOB_NAME name \<and> (\<exists>p. resolve_image H = Inr p \<and> PINNED_IMAGE p) \<and> job_run H job rt name W D
         \<and> (\<forall>x. res = Inr x \<and> sb_status x = SB_completed \<longrightarrow> accepted_run H job W D x)"
    using resolved_pinned by metis
  ultimately show ?thesis by (intro exI conjI)
qed

definition demo_reply :: "nat \<Rightarrow> reply" where
  "demo_reply n = (if n = 0 then Exited 0 [] [] else if n = 1 then Exited 0 ''info'' [] else if n = 2 then Exited 0 ''image'' []
     else if n = 3 then Exited 0 ''c'' [] else if n = 4 then Exited 0 ''created'' [] else if n = 5 then Exited 0 ''passed'' []
     else if n = 6 then Exited 0 ''ended'' [] else Exited 0 [] [])"

definition demo_box :: "json" where
  "demo_box = JObj [(''HostConfig'', JObj (expected_host ''runc'' default_policy
       @ [(''CapDrop'', JArr [JStr ''ALL'']), (''SecurityOpt'', JArr [JStr ''no-new-privileges=true'']),
          (''Tmpfs'', JObj [(''/workspace'', JStr []), (''/tmp'', JStr [])])])),
     (''Config'', JObj [(''User'', JStr ''65532:65532'')]),
     (''State'', JObj [(''Running'', JBool False), (''ExitCode'', JInt 0), (''OOMKilled'', JBool False)])]"

definition demo_loads :: "string \<Rightarrow> json result" where
  "demo_loads t = Inr (if t = ''info'' then JObj [(''OSType'', JStr ''linux''), (''Architecture'', JStr ''amd64''),
       (''Runtimes'', JObj [(''runc'', JObj [])])]
     else if t = ''image'' then JArr [JObj [(''Architecture'', JStr ''amd64''), (''Os'', JStr ''linux''), (''Id'', JStr ''i''), (''Config'', JObj [])]]
     else JArr [demo_box])"

definition demo_docker :: docker_host where
  "demo_docker = \<lparr>dh_world = demo_world, dh_settings = demo_settings\<lparr>cf_sandbox_image := ''sha256:'' @ replicate 64 CHR ''a'',
       cf_sandbox_backend := ''runc''\<rparr>,
     dh_directory = ''/data'', dh_docker = True, dh_kvm = False, dh_kernel = ''k'', dh_image_file = Inl (OSError []),
     dh_reply = demo_reply, dh_loads = demo_loads, dh_decode = Inr, dh_replace = id, dh_bundle_json = (\<lambda>_. []),
     dh_lease = (\<lambda>_ _. Inr ()), dh_elapsed = (\<lambda>_. 0), dh_now = (\<lambda>_. []), dh_stopped = (\<lambda>_. False)\<rparr>"

definition demo_job :: sandbox_job where
  "demo_job = \<lparr>jb_source = [], jb_mode = Test, jb_policy = default_policy\<rparr>"

definition demo_service :: service where
  "demo_service = \<lparr>sv_hub = \<lparr>hb_store = empty_store [], hb_db = empty_database, hb_tick = 32\<rparr>, sv_tick = 0, sv_calls = [], sv_report = empty_report demo_docker 0,
     sv_result = new_result demo_docker demo_job ''runc''\<rparr>"

text \<open>A daemon that does what it is asked: nothing to recover, a container to which the policy applies, a clean exit.\<close>

definition obliging :: "docker_host \<Rightarrow> bool" where
  "obliging H \<longleftrightarrow> dh_docker H \<and> dh_reply H = demo_reply \<and> dh_loads H = demo_loads \<and> dh_decode H = Inr
     \<and> (\<forall>n name. dh_lease H n name = Inr ()) \<and> (\<forall>n. \<not> dh_stopped H n)
     \<and> cf_sandbox_image (dh_settings H) = ''sha256:'' @ replicate 64 CHR ''a'' \<and> cf_sandbox_backend (dh_settings H) = ''runc''"

lemma demo_docker_obliging: "obliging demo_docker" "wd_uid (dh_world demo_docker) k = replicate k CHR ''a''"
  by (simp_all add: obliging_def demo_docker_def demo_world_def demo_settings_def)

lemmas sandbox_steps = sbind_def capture_def slift_def sguard_def sreturn_def note_execution_def note_result_def note_report_def

lemma obliging_image: "obliging H \<Longrightarrow> resolve_image H = Inr (''sha256:'' @ replicate 64 CHR ''a'')"
proof -
  have "PINNED_IMAGE (''sha256:'' @ replicate 64 CHR ''a'')" by code_simp
  then show "obliging H \<Longrightarrow> ?thesis" unfolding resolve_image_def obliging_def by (simp add: rbind_def)
qed

lemma obliging_recovered:
  assumes "obliging H" and "sv_tick s = 0"
  shows "\<exists>s'. recover_first H s = (Inr (empty_report H 0), s') \<and> sv_tick s' = 1 \<and> sv_hub s' = sv_hub s"
  using assms by (simp add: recover_first_def reconcile_sandbox_def reconcile_within_def reconcile_listed_def sandbox_steps
      obliging_def demo_reply_def empty_report_def Let_def splitlines_def)

lemma py_eq_text: "py_eq (JStr ''amd64'') (JStr ''amd64'')" "py_eq (JInt 0) (JInt 0)"
  by code_simp+

lemma obliging_checked:
  assumes "obliging H" and "sv_tick s = 1"
  shows "\<exists>s'. check_daemon H ''runc'' p s = (Inr True, s') \<and> sv_tick s' = 3 \<and> sv_hub s' = sv_hub s
    \<and> sb_status (sv_result s') = sb_status (sv_result s) \<and> sx_image (sb_execution (sv_result s')) = Some (JStr ''i'')"
  using assms py_eq_text by (simp add: check_daemon_def control_def sandbox_steps obliging_def demo_reply_def demo_loads_def
      json_key_def json_first_def json_get_def hashed_in_def is_member_def dindex_def rbind_def)

lemma obliging_worked:
  assumes "obliging H" and "sv_tick s = 3" and job: "jb_mode job = Test" "jb_policy job = default_policy"
  shows "\<exists>s'. run_and_tear_down H job ''runc'' name (JStr ''i'') s = (Inr (sv_result s'), s')
    \<and> sb_status (sv_result s') = SB_completed \<and> sv_hub s' = sv_hub s"
proof -
  have v: "policy_violated ''runc'' default_policy demo_box = Inr False" by code_simp
  obtain s1 where "run_workload H job ''runc'' name (JStr ''i'') s = (Inr (), s1)"
    "sv_tick s1 = 7" "sb_status (sv_result s1) = SB_completed" "sv_hub s1 = sv_hub s"
    using assms v py_eq_text
    by (simp add: run_workload_def attach_workload_def record_exit_def inspect_job_def control_def sandbox_steps obliging_def demo_reply_def demo_loads_def
      json_key_def json_first_def json_get_def hashed_in_def dindex_def rbind_def demo_box_def accepted_codes_def)
  then show ?thesis using assms(1)
    by (simp add: run_and_tear_down_def tear_down_def cleanup_def or_false_def sandbox_steps obliging_def demo_reply_def)
qed

lemma obliging_executed:
  assumes H: "obliging H" and "sv_tick s = 0" and uid: "wd_uid (dh_world H) (hb_tick (sv_hub s)) = replicate 32 CHR ''a''"
    and job: "jb_mode job = Test" "jb_policy job = default_policy"
  shows "\<exists>x s'. execute_sandbox H job None s = (Inr x, s') \<and> sb_status x = SB_completed
    \<and> sv_hub s' = (sv_hub s)\<lparr>hb_tick := hb_tick (sv_hub s) + 1\<rparr>"
proof -
  obtain s1 where s1: "recover_first H s = (Inr (empty_report H 0), s1)" "sv_tick s1 = 1" "sv_hub s1 = sv_hub s"
    using obliging_recovered [OF assms(1,2)] by blast
  have name: "JOB_NAME (''aidlc-sandbox-'' @ replicate 32 CHR ''a'')" by code_simp
  define name where "name = ''aidlc-sandbox-'' @ replicate 32 CHR ''a''"
  define p where "p = ''sha256:'' @ replicate 64 CHR ''a''"
  define s2 where "s2 = s1\<lparr>sv_hub := (sv_hub s)\<lparr>hb_tick := hb_tick (sv_hub s) + 1\<rparr>\<rparr>"
  define s3 where "s3 = s2\<lparr>sv_result := (new_result H job ''runc'')
      \<lparr>sb_execution := (sb_execution (new_result H job ''runc''))\<lparr>sx_image := Some (JStr p)\<rparr>\<rparr>\<rparr>"
  have "sv_tick s3 = 1" using s1(2) by (simp add: s3_def s2_def)
  from obliging_checked [OF H this] obtain s4 where s4: "check_daemon H ''runc'' p s3 = (Inr True, s4)" "sv_tick s4 = 3"
    "sx_image (sb_execution (sv_result s4)) = Some (JStr ''i'')" "sv_hub s4 = sv_hub s3" by blast
  from obliging_worked [OF H s4(2) job] obtain s5 where s5: "run_and_tear_down H job ''runc'' name (JStr ''i'') s4 = (Inr (sv_result s5), s5)"
    "sb_status (sv_result s5) = SB_completed" "sv_hub s5 = sv_hub s4" by blast
  have docker: "dh_docker H" "dh_lease H n i = Inr ()" for n i using H by (simp_all add: obliging_def)
  have "execute_job H job ''runc'' name s2 = (Inr (sv_result s5), s5)"
    using s4 s5(1) docker unfolding execute_job_def obliging_image [OF H] p_def [symmetric]
    by (simp add: sbind_def note_result_def note_execution_def s3_def)
  then have "leased_run H job ''runc'' s1 = (Inr (sv_result s5), s5)"
    using name docker unfolding leased_run_def Let_def s1(3) uid name_def [symmetric] by (simp add: s2_def)
  then have "execute_selected H job ''runc'' s = (Inr (sv_result s5), s5)"
    using s1(1) by (simp add: execute_selected_def sbind_def ISOLATION_def empty_report_def)
  moreover have "sv_hub s5 = (sv_hub s)\<lparr>hb_tick := hb_tick (sv_hub s) + 1\<rparr>"
    using s5(3) s4(4) by (simp add: s3_def s2_def)
  ultimately show ?thesis using s5(2) H by (auto simp: execute_sandbox_def obliging_def)
qed

lemma demo_executed: "\<exists>x s. execute_sandbox demo_docker demo_job None demo_service = (Inr x, s) \<and> sb_status x = SB_completed"
proof -
  have "sv_tick demo_service = 0" "wd_uid (dh_world demo_docker) (hb_tick (sv_hub demo_service)) = replicate 32 CHR ''a''"
    "jb_mode demo_job = Test" "jb_policy demo_job = default_policy"
    by (simp_all only: demo_docker_obliging(2)) (simp_all add: demo_service_def demo_job_def)
  from obliging_executed [OF demo_docker_obliging(1) this] show ?thesis by blast
qed

theorem workload_confined_and_removed_witness:
  "\<exists>U W D rt x s. exchanged demo_docker demo_service (U @ W @ D) s \<and> harmless U \<and> sb_status x = SB_completed
     \<and> (\<exists>name. job_run demo_docker demo_job rt name W D) \<and> accepted_run demo_docker demo_job W D x"
proof -
  obtain x s where "execute_sandbox demo_docker demo_job None demo_service = (Inr x, s)" "sb_status x = SB_completed"
    using demo_executed by blast
  with workload_confined_and_removed [of demo_docker demo_job None demo_service "Inr x" s] show ?thesis by (auto 0 0) blast
qed

end
