(* ===== verification/OrphanRecovery.thy ===== *)
theory OrphanRecovery
  imports Confinement
begin

text \<open>
  The safety of the orphan recovery of \<open>sandbox/runner.py\<close>: which containers it may remove, and what
  its report claims. The triples of \<open>Confinement\<close> carry an invariant over the exchanged commands.
\<close>

section \<open>What a reconciliation may remove\<close>

text \<open>An inspected container that carries the name and the labels of a sandbox job of this owner.\<close>

definition own_job :: "docker_host \<Rightarrow> string \<Rightarrow> json \<Rightarrow> string \<Rightarrow> bool" where
  "own_job H i d name \<longleftrightarrow> json_key d ''Id'' = Inr (JStr i) \<and> container_name d = Inr name \<and> JOB_NAME name
     \<and> (\<exists>labels. container_labels d = Inr labels
         \<and> (\<forall>(k, v) \<in> {(''aidlc.sandbox'', ''true''), (''aidlc.owner'', sandbox_owner H), (''aidlc.job'', name)}.
             json_get labels k JNull = Inr (JStr v)))"

lemma own_job_eq:
  assumes "container_name d = Inr name" "container_labels d = Inr labels"
    "foreign_job (sandbox_owner H) i d name labels = Inr False"
  shows "own_job H i d name"
  using assms by (auto simp: foreign_job_def own_job_def rbind_eq_Inr split: if_splits)

text \<open>The inspection of an orphan: the job is this owner's and its lease, asked for at time \<open>n\<close>, was free.\<close>

definition orphan :: "docker_host \<Rightarrow> nat \<Rightarrow> string \<Rightarrow> docker_call \<times> reply \<Rightarrow> bool" where
  "orphan H n i c \<longleftrightarrow> fst c = short_call [''inspect'', i] \<and> (\<exists>out err v d name. snd c = Exited 0 out err
     \<and> dh_loads H out = Inr v \<and> json_first v = Inr d \<and> own_job H i d name \<and> dh_lease H n name = Inr ())"

definition removals_justified :: "docker_host \<Rightarrow> nat \<Rightarrow> (docker_call \<times> reply) list \<Rightarrow> bool" where
  "removals_justified H n T \<longleftrightarrow> (\<forall>k < length T. \<forall>i. fst (T ! k) = remove_call i \<longrightarrow> 0 < k \<and> orphan H (n + k) i (T ! (k - 1)))"

text \<open>A search for the container came back empty.\<close>

definition seen_gone :: "(docker_call \<times> reply) list \<Rightarrow> string \<Rightarrow> bool" where
  "seen_gone T i \<longleftrightarrow> (\<exists>out err. (find_call i, Exited 0 out err) \<in> set T \<and> blank out)"

definition removal_confirmed :: "(docker_call \<times> reply) list \<Rightarrow> string \<Rightarrow> bool" where
  "removal_confirmed T i \<longleftrightarrow> remove_call i \<in> fst ` set T \<and> seen_gone T i"

definition accounted :: "(docker_call \<times> reply) list \<Rightarrow> recovery_report \<Rightarrow> string \<Rightarrow> bool" where
  "accounted T r i \<longleftrightarrow> seen_gone T i \<or> i \<in> set (rv_active r) \<union> set (rv_ignored r)"

definition recovering :: "docker_host \<Rightarrow> service \<Rightarrow> string set \<Rightarrow> (docker_call \<times> reply) list \<Rightarrow> service \<Rightarrow> bool" where
  "recovering H s0 I T s \<longleftrightarrow> exchanged H s0 T s \<and> removals_justified H (sv_tick s0) T
     \<and> (\<forall>i \<in> set (rv_removed (sv_report s)). removal_confirmed T i)
     \<and> (\<forall>i \<in> I. accounted T (sv_report s) i \<or> i \<in> set (rv_failed (sv_report s)))"

lemma command_distinct [simp]:
  "remove_call i \<noteq> find_call j" "find_call j \<noteq> remove_call i" "remove_call i = remove_call j \<longleftrightarrow> i = j"
  "short_call [''inspect'', i] \<noteq> remove_call j" "list_call H \<noteq> remove_call j"
  by (simp_all add: remove_call_def find_call_def short_call_def list_call_def)

lemma removals_justified_snoc:
  assumes "removals_justified H n T" and "\<And>i. fst c = remove_call i \<Longrightarrow> T \<noteq> [] \<and> orphan H (n + length T) i (last T)"
  shows "removals_justified H n (T @ [c])"
  using assms unfolding removals_justified_def by (auto simp: nth_append less_Suc_eq last_conv_nth)

lemma seen_gone_append: "seen_gone T i \<Longrightarrow> seen_gone (T @ U) i"
  by (auto simp: seen_gone_def)

lemma recovering_capture:
  assumes "\<And>i. call = remove_call i \<Longrightarrow> T \<noteq> [] \<and> orphan H (sv_tick s0 + length T) i (last T)"
    and "\<And>code out err. svalid (recovering H s0 I (T @ [(call, Exited code out err)])) (f (code, out, err)) Q E"
    and "\<And>e r s. recovering H s0 I (T @ [(call, r)]) s \<Longrightarrow> E e s"
  shows "svalid (recovering H s0 I T) (sbind (capture H scoped call) f) Q E"
proof (rule svalidI)
  fix s r s'
  assume s: "recovering H s0 I T s" "sbind (capture H scoped call) f s = (r, s')"
  let ?s = "s\<lparr>sv_tick := sv_tick s + 1, sv_calls := sv_calls s @ [call]\<rparr>"
  let ?T = "T @ [(call, dh_reply H (sv_tick s))]"
  have "removals_justified H (sv_tick s0) ?T"
    using s(1) assms(1) by (intro removals_justified_snoc) (auto simp: recovering_def)
  moreover have "exchanged H s0 ?T ?s" using s(1) by (auto simp: recovering_def exchanged_def)
  ultimately have step: "recovering H s0 I ?T ?s"
    using s(1) seen_gone_append unfolding recovering_def removal_confirmed_def accounted_def by auto
  show "case r of Inl e \<Rightarrow> E e s' | Inr x \<Rightarrow> Q x s'"
  proof (cases "dh_reply H (sv_tick s)")
    case (Exited code out err)
    with s(2) have "f (code, out, err) ?s = (r, s')" by (simp add: sbind_def capture_def Let_def)
    with step Exited show ?thesis using svalidD [OF assms(2)] by metis
  qed (use s(2) step assms(3) in \<open>auto simp: sbind_def capture_def Let_def\<close>)
qed

lemma recovering_note:
  assumes "recovering H s0 I T s"
  shows "recovering H s0 I T (s\<lparr>sv_report := (sv_report s)\<lparr>rv_failed := rv_failed (sv_report s) @ [i]\<rparr>\<rparr>)"
    "recovering H s0 I T (s\<lparr>sv_report := (sv_report s)\<lparr>rv_active := rv_active (sv_report s) @ [i]\<rparr>\<rparr>)"
    "recovering H s0 I T (s\<lparr>sv_report := (sv_report s)\<lparr>rv_ignored := rv_ignored (sv_report s) @ [i]\<rparr>\<rparr>)"
    "removal_confirmed T i \<Longrightarrow>
       recovering H s0 I T (s\<lparr>sv_report := (sv_report s)\<lparr>rv_removed := rv_removed (sv_report s) @ [i]\<rparr>\<rparr>)"
  using assms by (auto simp: recovering_def exchanged_def accounted_def)

text \<open>Weakening, and one more job accounted for.\<close>

abbreviation extended :: "docker_host \<Rightarrow> service \<Rightarrow> string set \<Rightarrow> (docker_call \<times> reply) list \<Rightarrow> service \<Rightarrow> bool" where
  "extended H s0 I T s \<equiv> \<exists>T'. recovering H s0 I (T @ T') s"

lemma extendedI: "recovering H s0 I U s \<Longrightarrow> take (length T) U = T \<Longrightarrow> extended H s0 I T s"
  by (metis append_take_drop_id)

lemma recovering_insert:
  "recovering H s0 I T s \<Longrightarrow> accounted T (sv_report s) i \<or> i \<in> set (rv_failed (sv_report s)) \<Longrightarrow> recovering H s0 (insert i I) T s"
  by (auto simp: recovering_def)

lemma remove_orphan_recovers:
  assumes "T \<noteq> []" "orphan H (sv_tick s0 + length T) i (last T)"
  shows "svalid (recovering H s0 I T) (remove_orphan H i) (\<lambda>_. extended H s0 (insert i I) T) (\<lambda>_. extended H s0 I T)"
  unfolding remove_orphan_def
proof (rule recovering_capture)
  fix code out err
  let ?T = "T @ [(remove_call i, Exited code out err)]"
  show "svalid (recovering H s0 I ?T) (sbind (capture H True (find_call i)) (\<lambda>(code, remaining, _).
     note_report (\<lambda>r. if code \<noteq> 0 \<or> \<not> blank remaining
       then r\<lparr>rv_failed := rv_failed r @ [i]\<rparr> else r\<lparr>rv_removed := rv_removed r @ [i]\<rparr>)))
     (\<lambda>_. extended H s0 (insert i I) T) (\<lambda>_. extended H s0 I T)"
  proof (rule recovering_capture, goal_cases)
    case (2 code' out' err')
    let ?U = "?T @ [(find_call i, Exited code' out' err')]"
    let ?f = "\<lambda>r. if code' \<noteq> 0 \<or> \<not> blank out'
       then r\<lparr>rv_failed := rv_failed r @ [i]\<rparr> else r\<lparr>rv_removed := rv_removed r @ [i]\<rparr>"
    have "recovering H s0 (insert i I) ?U (s\<lparr>sv_report := ?f (sv_report s)\<rparr>)" if "recovering H s0 I ?U s" for s
    proof (cases "code' \<noteq> 0 \<or> \<not> blank out'")
      case True
      with recovering_note(1) [OF that, of i] show ?thesis by (intro recovering_insert) auto
    next
      case False
      then have g: "seen_gone ?U i" by (auto simp: seen_gone_def)
      then have "removal_confirmed ?U i" by (auto simp: removal_confirmed_def)
      with recovering_note(4) [OF that] False g show ?thesis by (intro recovering_insert) (auto simp: accounted_def)
    qed
    then have "extended H s0 (insert i I) T (s\<lparr>sv_report := ?f (sv_report s)\<rparr>)" if "recovering H s0 I ?U s" for s
      using that by (intro extendedI [of _ _ _ ?U]) simp_all
    then show ?case
      by (simp add: svalid_def note_report_def)
  next
    case (3 e r s)
    then show ?case by (rule extendedI) simp
  qed simp
qed (use assms in \<open>auto intro: extendedI\<close>)

lemma reconcile_job_recovers:
  "svalid (recovering H s0 I T) (reconcile_job H i) (\<lambda>_. extended H s0 (insert i I) T) (\<lambda>_. extended H s0 I T)"
    (is "svalid _ _ ?Q ?E")
  unfolding reconcile_job_def
proof (rule recovering_capture, unfold prod.case)
  fix code out err
  let ?T = "T @ [(short_call [''inspect'', i], Exited code out err)]"
  let ?search = "sbind (capture H True (find_call i)) (\<lambda>(code, remaining, _).
       if code \<noteq> 0 \<or> \<not> blank remaining then note_report (\<lambda>r. r\<lparr>rv_failed := rv_failed r @ [i]\<rparr>) else sreturn ())"
  let ?lease = "\<lambda>name s. case dh_lease H (sv_tick s) name of
           Inl BlockingIOError \<Rightarrow> note_report (\<lambda>r. r\<lparr>rv_active := rv_active r @ [i]\<rparr>) s
         | Inl e \<Rightarrow> (Inl (Raise e), s)
         | Inr _ \<Rightarrow> remove_orphan H i s"
  have stay: "?E e s" if "recovering H s0 I ?T s" for e s using that by auto
  have found: "?Q u s" if "recovering H s0 I ?T s" "accounted ?T (sv_report s) i" for u s
    using recovering_insert [OF that(1)] that(2) by auto
  have search: "svalid (recovering H s0 I ?T) ?search ?Q ?E"
  proof (rule recovering_capture, unfold prod.case)
    fix code' out' err'
    let ?U = "?T @ [(find_call i, Exited code' out' err')]"
    have "recovering H s0 (insert i I) ?U s" if "recovering H s0 I ?U s" "code' = 0 \<and> blank out'" for s
      using that by (intro recovering_insert) (auto simp: accounted_def seen_gone_def)
    then have "?Q () s" if "recovering H s0 I ?U s" "code' = 0 \<and> blank out'" for s
      using that by (intro extendedI [of _ _ _ ?U]) simp_all
    moreover have "recovering H s0 (insert i I) ?U (s\<lparr>sv_report := (sv_report s)\<lparr>rv_failed := rv_failed (sv_report s) @ [i]\<rparr>\<rparr>)"
      if "recovering H s0 I ?U s" for s
      by (rule recovering_insert [OF recovering_note(1) [OF that]]) simp
    then have "?Q () (s\<lparr>sv_report := (sv_report s)\<lparr>rv_failed := rv_failed (sv_report s) @ [i]\<rparr>\<rparr>)"
      if "recovering H s0 I ?U s" for s
      using that by (intro extendedI [of _ _ _ ?U]) simp_all
    ultimately show "svalid (recovering H s0 I ?U) (if code' \<noteq> 0 \<or> \<not> blank out'
        then note_report (\<lambda>r. r\<lparr>rv_failed := rv_failed r @ [i]\<rparr>) else sreturn ()) ?Q ?E"
      by (simp add: svalid_def note_report_def sreturn_def)
  next
    fix e r s
    assume "recovering H s0 I (?T @ [(find_call i, r)]) s"
    then show "?E e s" by (rule extendedI) simp
  qed simp
  have lease: "svalid (recovering H s0 I ?T) (?lease name) ?Q ?E" if "dh_lease H (sv_tick s0 + length ?T) name = Inr () \<Longrightarrow>
      orphan H (sv_tick s0 + length ?T) i (last ?T)" for name
  proof (rule svalidI)
    fix s r s'
    assume s: "recovering H s0 I ?T s" "?lease name s = (r, s')"
    have tick: "sv_tick s = sv_tick s0 + length ?T" using s(1) by (simp add: recovering_def exchanged_def)
    show "case r of Inl e \<Rightarrow> ?E e s' | Inr x \<Rightarrow> ?Q x s'"
    proof (cases "dh_lease H (sv_tick s) name")
      case (Inr u)
      then have "orphan H (sv_tick s0 + length ?T) i (last ?T)" using that tick by simp
      from svalidD [OF remove_orphan_recovers [OF _ this] s(1)] s(2) Inr show ?thesis by (cases r) fastforce+
    next
      case (Inl e)
      show ?thesis
      proof (cases "e = BlockingIOError")
        case True
        let ?s = "s\<lparr>sv_report := (sv_report s)\<lparr>rv_active := rv_active (sv_report s) @ [i]\<rparr>\<rparr>"
        have "recovering H s0 (insert i I) ?T ?s"
          by (rule recovering_insert [OF recovering_note(2) [OF s(1)]]) (simp add: accounted_def)
        then show ?thesis using s(2) Inl True by (auto simp: note_report_def)
      next
        case False
        then have "r = Inl (Raise e)" "s' = s" using s(2) Inl by (cases e; simp)+
        then show ?thesis using s(1) by auto
      qed
    qed
  qed
  have ignore: "svalid (recovering H s0 I ?T) (note_report (\<lambda>r. r\<lparr>rv_ignored := rv_ignored r @ [i]\<rparr>)) ?Q ?E"
  proof (rule svalidI)
    fix s r s'
    assume s: "recovering H s0 I ?T s" "note_report (\<lambda>r. r\<lparr>rv_ignored := rv_ignored r @ [i]\<rparr>) s = (r, s')"
    then have "?Q () s'" by (intro found) (auto simp: note_report_def accounted_def intro: recovering_note(3))
    with s(2) show "case r of Inl e \<Rightarrow> ?E e s' | Inr x \<Rightarrow> ?Q x s'" by (auto simp: note_report_def)
  qed
  show "svalid (recovering H s0 I ?T) (if code \<noteq> 0 then ?search
     else sbind (slift (rbind (dh_loads H out) json_first)) (\<lambda>definition'.
       sbind (slift (container_labels definition')) (\<lambda>labels.
       sbind (slift (container_name definition')) (\<lambda>name.
       sbind (slift (foreign_job (sandbox_owner H) i definition' name labels)) (\<lambda>foreign.
       if foreign then note_report (\<lambda>r. r\<lparr>rv_ignored := rv_ignored r @ [i]\<rparr>) else ?lease name))))) ?Q ?E"
  proof (rule svalid_if [OF search], (rule svalid_slift, rule stay, assumption)+, rule svalid_if [OF ignore], rule lease)
    fix d labels name foreign
    assume "\<not> code \<noteq> 0" "rbind (dh_loads H out) json_first = Inr d" "container_labels d = Inr labels" "container_name d = Inr name"
      "foreign_job (sandbox_owner H) i d name labels = Inr foreign" "\<not> foreign" "dh_lease H (sv_tick s0 + length ?T) name = Inr ()"
    then show "orphan H (sv_tick s0 + length ?T) i (last ?T)"
      using own_job_eq [of d name labels H i] by (auto simp: orphan_def rbind_eq_Inr)
  qed
next
  fix e r s
  assume "recovering H s0 I (T @ [(short_call [''inspect'', i], r)]) s"
  then show "?E e s" by auto
qed simp

lemma reconcile_jobs_recovers:
  "svalid (recovering H s0 I T) (reconcile_jobs H is) (\<lambda>_. extended H s0 (I \<union> set is) T) (\<lambda>_ s. \<exists>I. extended H s0 I T s)"
proof (induction "is" arbitrary: I T)
  case Nil
  show ?case by (auto intro!: svalid_return extendedI)
next
  case (Cons i "is")
  show ?case unfolding reconcile_jobs.simps
  proof (rule svalid_sbind)
    show "svalid (recovering H s0 I T) (reconcile_job H i) (\<lambda>_. extended H s0 (insert i I) T) (\<lambda>_ s. \<exists>I. extended H s0 I T s)"
      by (rule svalid_weaken [OF reconcile_job_recovers]) blast+
    show "svalid (extended H s0 (insert i I) T) (reconcile_jobs H is) (\<lambda>_. extended H s0 (I \<union> set (i # is)) T) (\<lambda>_ s. \<exists>I. extended H s0 I T s)" for x
    proof (rule svalidI)
      fix s r s'
      assume "extended H s0 (insert i I) T s" and run: "reconcile_jobs H is s = (r, s')"
      then obtain T' where "recovering H s0 (insert i I) (T @ T') s" by blast
      note post = svalidD [OF Cons.IH this run]
      have sets: "I \<union> set (i # is) = insert i I \<union> set is" by auto
      show "case r of Inl e \<Rightarrow> \<exists>I. extended H s0 I T s' | Inr x \<Rightarrow> extended H s0 (I \<union> set (i # is)) T s'"
        unfolding sets using post by (cases r; simp only: sum.case append.assoc) blast+
    qed
  qed
qed

text \<open>The listing that a reconciliation starts from.\<close>

definition listed :: "docker_host \<Rightarrow> (docker_call \<times> reply) list \<Rightarrow> string \<Rightarrow> bool" where
  "listed H T text \<longleftrightarrow> T \<noteq> [] \<and> fst (hd T) = list_call H \<and> (\<exists>out err. snd (hd T) = Exited 0 out err \<and> dh_decode H out = Inr text)"

definition complete_report :: "docker_host \<Rightarrow> (docker_call \<times> reply) list \<Rightarrow> recovery_report \<Rightarrow> bool" where
  "complete_report H T r \<longleftrightarrow> rv_failed r = [] \<and> (\<exists>text. listed H T text \<and> (\<forall>i \<in> set (splitlines text). accounted T r i))"

lemma reconcile_listed_recovers:
  "svalid (recovering H s0 {} []) (reconcile_listed H)
     (\<lambda>_ s. \<exists>T. recovering H s0 {} T s \<and> (rv_status (sv_report s) = ''completed'' \<longrightarrow> complete_report H T (sv_report s)))
     (\<lambda>_ s. \<exists>I. extended H s0 I [] s)" (is "svalid _ _ ?Q ?E")
  unfolding reconcile_listed_def Let_def
proof (rule recovering_capture, unfold prod.case)
  fix code out err
  let ?T = "[] @ [(list_call H, Exited code out err)]"
  have fail: "?E e s" if "recovering H s0 {} ?T s" for e s
    using that by (intro exI [of _ "{}"] extendedI) simp_all
  let ?f = "\<lambda>r. if rv_failed r \<noteq> [] then r\<lparr>rv_status := ''failed''\<rparr> else r"
  have noted: "?Q () (s\<lparr>sv_report := ?f (sv_report s)\<rparr>)"
    if "code = 0" "dh_decode H out = Inr names" "extended H s0 (set (splitlines names)) ?T s" for s names
  proof -
    from that(3) obtain T' where T': "recovering H s0 (set (splitlines names)) (?T @ T') s" by blast
    let ?s = "s\<lparr>sv_report := ?f (sv_report s)\<rparr>"
    have "recovering H s0 {} (?T @ T') ?s" using T' by (auto simp: recovering_def exchanged_def)
    moreover have "complete_report H (?T @ T') (?f (sv_report s))" if "rv_status (?f (sv_report s)) = ''completed''"
    proof -
      have none: "rv_failed (sv_report s) = []" using that by (cases "rv_failed (sv_report s) = []") simp_all
      have "listed H (?T @ T') names" using \<open>code = 0\<close> \<open>dh_decode H out = Inr names\<close> by (simp add: listed_def)
      with T' none show ?thesis by (auto simp: complete_report_def recovering_def)
    qed
    ultimately show ?thesis by (intro exI [of _ "?T @ T'"]) simp
  qed
  show "svalid (recovering H s0 {} ?T) (sbind (sguard (code = 0) ''Cannot list sandbox jobs for recovery'') (\<lambda>_.
     sbind (slift (dh_decode H out)) (\<lambda>names.
     sbind (sguard (length (splitlines names) \<le> 1000 \<and> list_all CONTAINER_ID (splitlines names)) ''Invalid or excessive recovery inventory'') (\<lambda>_.
     sbind (reconcile_jobs H (splitlines names)) (\<lambda>_.
     note_report ?f))))) ?Q ?E"
  proof (rule svalid_sguard [OF fail], assumption, rule svalid_slift [OF fail], assumption, rule svalid_sguard [OF fail], assumption)
    fix names
    assume code: "code = 0" and names: "dh_decode H out = Inr names"
    show "svalid (recovering H s0 {} ?T) (sbind (reconcile_jobs H (splitlines names)) (\<lambda>_. note_report ?f)) ?Q ?E"
    proof (rule svalid_sbind)
      show "svalid (recovering H s0 {} ?T) (reconcile_jobs H (splitlines names)) (\<lambda>_. extended H s0 (set (splitlines names)) ?T) ?E"
        by (rule svalid_weaken [OF reconcile_jobs_recovers]) (auto intro: extendedI)
      show "svalid (extended H s0 (set (splitlines names)) ?T) (note_report ?f) ?Q ?E" for x
        using noted [OF code names] by (simp add: svalid_def note_report_def)
    qed
  qed
next
  fix e r s
  assume "recovering H s0 {} ([] @ [(list_call H, r)]) s"
  then show "?E e s" by (intro exI [of _ "{}"] extendedI) simp_all
qed simp

text \<open>
  C14. Only orphans are removed. Whatever the daemon replies: a container is removed only right after an
  inspection that showed the identifier, a job name and the labels of this owner, and while the lease of that
  job was free; a job reported as removed was removed, and a search for it came back empty. When
  the report says completed, nothing failed and every listed container is accounted for, as gone, as active under another's lease, or
  as foreign.
\<close>

theorem only_orphans_removed:
  assumes "reconcile_sandbox H s = (res, s')"
  shows "\<exists>T. exchanged H s T s' \<and> removals_justified H (sv_tick s) T
    \<and> (\<forall>r. res = Inr r \<longrightarrow> (\<forall>i \<in> set (rv_removed r). removal_confirmed T i)
         \<and> (rv_status r = ''completed'' \<longrightarrow> complete_report H T r))"
proof -
  let ?s = "s\<lparr>sv_report := empty_report H (sv_tick s)\<rparr>"
  have start: "recovering H s {} [] ?s" by (auto simp: recovering_def exchanged_def removals_justified_def empty_report_def)
  have other: ?thesis if "recovering H s I T t" "s' = t \<or> (\<exists>r. s' = t\<lparr>sv_report := r\<rparr>)"
    "\<And>r. res = Inr r \<Longrightarrow> rv_status r \<noteq> ''completed'' \<and> set (rv_removed r) \<subseteq> set (rv_removed (sv_report t))" for I T t
    using that by (intro exI [of _ T]) (auto simp: recovering_def exchanged_def)
  show ?thesis
  proof (cases "dh_docker H")
    case False
    with assms have "s' = ?s" "res = Inr ((empty_report H (sv_tick s))\<lparr>rv_status := ''unavailable'', rv_reason := Some ''Docker CLI is unavailable''\<rparr>)"
      by (simp_all add: reconcile_sandbox_def reconcile_within_def Let_def)
    then show ?thesis by (intro other [OF start]) (simp_all add: empty_report_def)
  next
    case True
    obtain y s1 where y: "reconcile_listed H ?s = (y, s1)" by fastforce
    note post = svalidD [OF reconcile_listed_recovers start y]
    show ?thesis
    proof (cases y)
      case (Inr u)
      then have "s' = s1" "res = Inr (sv_report s1)"
        using assms True y by (auto simp: reconcile_sandbox_def reconcile_within_def Let_def)
      with post Inr show ?thesis by (auto simp: recovering_def)
    next
      case (Inl e)
      with post obtain I T where T: "recovering H s I T s1" by auto
      have w: "reconcile_within H s = (if recovery_failure e
           then let r = (sv_report s1)\<lparr>rv_status := ''failed'', rv_reason := Some ''Sandbox recovery could not be confirmed''\<rparr>
             in (Inr r, s1\<lparr>sv_report := r\<rparr>)
           else (Inl e, s1))" using True y Inl by (simp add: reconcile_within_def Let_def)
      show ?thesis
      proof (cases "recovery_failure e")
        case True
        with assms w show ?thesis by (intro other [OF T]) (auto simp: reconcile_sandbox_def Let_def)
      next
        case False
        then show ?thesis using assms w by (intro other [OF T]) (cases e; auto simp: reconcile_sandbox_def empty_report_def)+
      qed
    qed
  qed
qed

definition demo_id :: string where
  "demo_id = replicate 64 CHR ''a''"

definition demo_name :: string where
  "demo_name = ''aidlc-sandbox-'' @ replicate 32 CHR ''a''"

definition demo_orphans :: docker_host where
  "demo_orphans = demo_docker\<lparr>dh_reply := (\<lambda>n. if n = 0 then Exited 0 demo_id [] else Exited 0 [] []),
     dh_loads := (\<lambda>_. Inr (JArr [JObj [(''Id'', JStr demo_id), (''Name'', JStr demo_name), (''Config'', JObj [(''Labels'',
       JObj [(''aidlc.sandbox'', JStr ''true''), (''aidlc.owner'', JStr ''/data''), (''aidlc.job'', JStr demo_name)])])]]))\<rparr>"

lemma demo_orphans_fields:
  "dh_docker demo_orphans" "dh_reply demo_orphans n = (if n = 0 then Exited 0 demo_id [] else Exited 0 [] [])"
  "dh_loads demo_orphans t = Inr (JArr [JObj [(''Id'', JStr demo_id), (''Name'', JStr demo_name), (''Config'', JObj [(''Labels'',
       JObj [(''aidlc.sandbox'', JStr ''true''), (''aidlc.owner'', JStr ''/data''), (''aidlc.job'', JStr demo_name)])])]])"
  "dh_decode demo_orphans = Inr" "dh_lease demo_orphans n name = Inr ()" "sandbox_owner demo_orphans = ''/data''"
  by (simp_all add: demo_orphans_def demo_docker_def demo_world_def demo_env_def sandbox_owner_def)

lemma demo_listing: "splitlines demo_id = [demo_id]" "CONTAINER_ID demo_id" "JOB_NAME demo_name"
  by code_simp+

lemma demo_reconciled: "\<exists>s. reconcile_sandbox demo_orphans demo_service =
    (Inr ((empty_report demo_orphans 0)\<lparr>rv_removed := [demo_id]\<rparr>), s)"
proof -
  obtain c cs where name: "demo_name = c # cs" "c \<noteq> CHR ''/''"
  proof (rule that)
    show "demo_name = CHR ''a'' # (''idlc-sandbox-'' @ replicate 32 CHR ''a'')" by (simp add: demo_name_def)
    show "CHR ''a'' \<noteq> CHR ''/''" by simp
  qed
  define d where "d = JObj [(''Id'', JStr demo_id), (''Name'', JStr demo_name), (''Config'', JObj [(''Labels'',
       JObj [(''aidlc.sandbox'', JStr ''true''), (''aidlc.owner'', JStr ''/data''), (''aidlc.job'', JStr demo_name)])])]"
  define labels where "labels = JObj [(''aidlc.sandbox'', JStr ''true''), (''aidlc.owner'', JStr ''/data''), (''aidlc.job'', JStr demo_name)]"
  have "container_labels d = Inr labels"
    by (simp add: container_labels_def d_def labels_def json_key_def json_get_def dindex_def rbind_def)
  moreover have "container_name d = Inr demo_name"
    using name(2) by (simp add: container_name_def d_def json_key_def dindex_def rbind_def name(1))
  moreover have "foreign_job ''/data'' demo_id d demo_name labels = Inr False"
    using demo_listing by (simp add: foreign_job_def d_def labels_def json_key_def json_get_def dindex_def rbind_def)
  moreover have "json_first (JArr [d]) = Inr d" by (simp add: json_first_def)
  ultimately show ?thesis
    using demo_listing unfolding reconcile_sandbox_def reconcile_within_def reconcile_listed_def
    by (simp add: reconcile_job_def remove_orphan_def sandbox_steps demo_orphans_fields d_def [symmetric]
      demo_service_def empty_report_def Let_def rbind_def blank_def)
qed

theorem only_orphans_removed_witness:
  "\<exists>T r s. reconcile_sandbox demo_orphans demo_service = (Inr r, s) \<and> rv_removed r = [demo_id]
     \<and> removals_justified demo_orphans 0 T \<and> removal_confirmed T demo_id \<and> complete_report demo_orphans T r"
proof -
  obtain s where s: "reconcile_sandbox demo_orphans demo_service = (Inr ((empty_report demo_orphans 0)\<lparr>rv_removed := [demo_id]\<rparr>), s)"
    using demo_reconciled by blast
  from only_orphans_removed [OF s] show ?thesis
    using s by (auto simp: demo_service_def empty_report_def)
qed

end
