(* ===== verification/Effects.thy ===== *)
theory Effects
  imports Prelude
begin

text \<open>
  Stateful operations that may raise, for any type of state: what an operation changed before it raised
  stays changed. Hoare triples have a postcondition for results and one for exceptions; the collection
  \<open>op_triples\<close> holds the rules of the combinators.
\<close>

type_synonym ('s, 'a) op = "'s \<Rightarrow> 'a result \<times> 's"

named_theorems op_simps "running operations"
named_theorems op_triples "triples of the combinators"

definition oreturn :: "'a \<Rightarrow> ('s, 'a) op" where
  "oreturn x = (\<lambda>s. (Inr x, s))"

definition oraise :: "py_error \<Rightarrow> ('s, 'a) op" where
  "oraise e = (\<lambda>s. (Inl e, s))"

definition obind :: "('s, 'a) op \<Rightarrow> ('a \<Rightarrow> ('s, 'b) op) \<Rightarrow> ('s, 'b) op" where
  "obind m f = (\<lambda>s. case m s of (Inl e, s') \<Rightarrow> (Inl e, s') | (Inr x, s') \<Rightarrow> f x s')"

definition oread :: "('s \<Rightarrow> 'a result) \<Rightarrow> ('s, 'a) op" where
  "oread f = (\<lambda>s. (f s, s))"

definition ochange :: "('s \<Rightarrow> 's) \<Rightarrow> ('s, unit) op" where
  "ochange f = (\<lambda>s. (Inr (), f s))"

definition oguard :: "bool \<Rightarrow> py_error \<Rightarrow> ('s, unit) op" where
  "oguard b e = (if b then oreturn () else oraise e)"

text \<open>\<open>try\<close> with one handler; the handler decides which exceptions it takes.\<close>

definition ocatch :: "('s, 'a) op \<Rightarrow> (py_error \<Rightarrow> ('s, 'a) op option) \<Rightarrow> ('s, 'a) op" where
  "ocatch m handler = (\<lambda>s. case m s of
       (Inl e, s') \<Rightarrow> (case handler e of None \<Rightarrow> (Inl e, s') | Some h \<Rightarrow> h s')
     | (Inr x, s') \<Rightarrow> (Inr x, s'))"

text \<open>An operation on a part of the state.\<close>

definition ozoom :: "('s \<Rightarrow> 't) \<Rightarrow> ('t \<Rightarrow> 's \<Rightarrow> 's) \<Rightarrow> ('t, 'a) op \<Rightarrow> ('s, 'a) op" where
  "ozoom get put m = (\<lambda>s. case m (get s) of (r, t) \<Rightarrow> (r, put t s))"

lemma op_run [op_simps]:
  "oreturn x s = (Inr x, s)" "oraise e s = (Inl e, s)" "oread f s = (f s, s)" "ochange g s = (Inr (), g s)"
  "oguard b e s = (if b then Inr () else Inl e, s)"
  by (simp_all add: oreturn_def oraise_def oread_def ochange_def oguard_def)

lemma obind_run [op_simps]:
  "m s = (Inl e, s') \<Longrightarrow> obind m f s = (Inl e, s')" "m s = (Inr x, s') \<Longrightarrow> obind m f s = f x s'"
  by (simp_all add: obind_def)

lemma obind_Inr: "obind m f s = (Inr y, s') \<longleftrightarrow> (\<exists>x s1. m s = (Inr x, s1) \<and> f x s1 = (Inr y, s'))"
  by (auto simp: obind_def split: prod.splits sum.splits)

lemma obind_cases:
  assumes "obind m f s = (r, s')"
  obtains e where "m s = (Inl e, s')" "r = Inl e" | x s1 where "m s = (Inr x, s1)" "f x s1 = (r, s')"
  using assms by (auto simp: obind_def split: prod.splits sum.splits)

definition triple :: "('s \<Rightarrow> bool) \<Rightarrow> ('s, 'a) op \<Rightarrow> ('a \<Rightarrow> 's \<Rightarrow> bool) \<Rightarrow> (py_error \<Rightarrow> 's \<Rightarrow> bool) \<Rightarrow> bool" where
  "triple P m Q E \<longleftrightarrow> (\<forall>s r s'. P s \<longrightarrow> m s = (r, s') \<longrightarrow> (case r of Inl e \<Rightarrow> E e s' | Inr x \<Rightarrow> Q x s'))"

lemma tripleI: "(\<And>s r s'. P s \<Longrightarrow> m s = (r, s') \<Longrightarrow> (case r of Inl e \<Rightarrow> E e s' | Inr x \<Rightarrow> Q x s')) \<Longrightarrow> triple P m Q E"
  by (simp add: triple_def)

lemma tripleD: "triple P m Q E \<Longrightarrow> P s \<Longrightarrow> m s = (r, s') \<Longrightarrow> (case r of Inl e \<Rightarrow> E e s' | Inr x \<Rightarrow> Q x s')"
  by (simp add: triple_def)

lemma triple_bind [op_triples]:
  assumes "triple P m R E" and "\<And>x. triple (R x) (f x) Q E"
  shows "triple P (obind m f) Q E"
proof (rule tripleI)
  fix s r s'
  assume "P s" and run: "obind m f s = (r, s')"
  from run show "case r of Inl e \<Rightarrow> E e s' | Inr x \<Rightarrow> Q x s'"
  proof (cases rule: obind_cases)
    case (1 e)
    with tripleD [OF assms(1) \<open>P s\<close> 1(1)] show ?thesis by simp
  next
    case (2 x s1)
    with tripleD [OF assms(1) \<open>P s\<close> 2(1)] show ?thesis using tripleD [OF assms(2), of x s1] by simp
  qed
qed

lemma triple_weaken:
  assumes "triple P m Q E" and "\<And>s. P' s \<Longrightarrow> P s" and "\<And>x s. Q x s \<Longrightarrow> Q' x s" and "\<And>e s. E e s \<Longrightarrow> E' e s"
  shows "triple P' m Q' E'"
proof (rule tripleI)
  fix s r s'
  assume "P' s" "m s = (r, s')"
  then have "case r of Inl e \<Rightarrow> E e s' | Inr x \<Rightarrow> Q x s'" using tripleD [OF assms(1)] assms(2) by blast
  then show "case r of Inl e \<Rightarrow> E' e s' | Inr x \<Rightarrow> Q' x s'" using assms(3,4) by (cases r) simp_all
qed

lemma triple_basic [op_triples]:
  "(\<And>s. P s \<Longrightarrow> Q x s) \<Longrightarrow> triple P (oreturn x) Q E" "(\<And>s. P s \<Longrightarrow> E e s) \<Longrightarrow> triple P (oraise e) Q E"
  "(\<And>s. P s \<Longrightarrow> R () (g s)) \<Longrightarrow> triple P (ochange g) R E"
  by (simp_all add: triple_def op_simps)

lemma triple_if [op_triples]:
  "(b \<Longrightarrow> triple P m Q E) \<Longrightarrow> (\<not> b \<Longrightarrow> triple P n Q E) \<Longrightarrow> triple P (if b then m else n) Q E"
  by simp

lemma triple_guard [op_triples]:
  "(\<And>s. P s \<Longrightarrow> E e s) \<Longrightarrow> (b \<Longrightarrow> triple P m Q E) \<Longrightarrow> triple P (obind (oguard b e) (\<lambda>_. m)) Q E"
  by (auto simp: triple_def obind_def op_simps)

lemma triple_read [op_triples]:
  assumes "\<And>s e. P s \<Longrightarrow> f s = Inl e \<Longrightarrow> E e s" and "\<And>x. triple (\<lambda>s. P s \<and> f s = Inr x) (g x) Q E"
  shows "triple P (obind (oread f) g) Q E"
  using assms by (auto simp: triple_def obind_def op_simps split: sum.splits)

lemma triple_catch:
  assumes "triple P m Q R" and "\<And>e. handler e = None \<Longrightarrow> (\<And>s. R e s \<Longrightarrow> E e s)"
    and "\<And>e h. handler e = Some h \<Longrightarrow> triple (R e) h Q E"
  shows "triple P (ocatch m handler) Q E"
proof (rule tripleI)
  fix s r s'
  assume s: "P s" "ocatch m handler s = (r, s')"
  obtain y s1 where m: "m s = (y, s1)" by fastforce
  note post = tripleD [OF assms(1) s(1) m]
  show "case r of Inl e \<Rightarrow> E e s' | Inr x \<Rightarrow> Q x s'"
  proof (cases y)
    case (Inr x)
    with s(2) m post show ?thesis by (auto simp: ocatch_def)
  next
    case (Inl e)
    show ?thesis
    proof (cases "handler e")
      case None
      with s(2) m Inl post assms(2) show ?thesis by (auto simp: ocatch_def)
    next
      case (Some h)
      with s(2) m Inl have "h s1 = (r, s')" by (simp add: ocatch_def)
      with tripleD [OF assms(3) [OF Some]] post Inl show ?thesis by simp
    qed
  qed
qed

end
