(* ===== verification/Tokens.thy ===== *)
theory Tokens
  imports Effects Url Json Config
begin

text \<open>
  \<open>tools/auth.py\<close>: service URLs, OIDC discovery, the verifier of access tokens with its cache of keys, and the
  permission of a capability. HTTP and the JWT library are parameters: the answer to the \<open>n\<close>-th request,
  the unverified header of a token, and the claims of a token decoded with a key for an issuer and an
  audience.
\<close>

section \<open>Service URLs\<close>

definition LOOPBACK :: "string list" where
  "LOOPBACK = [''127.0.0.1'', ''localhost'', ''::1'']"

definition validate_service_url :: "(string \<Rightarrow> bool) \<Rightarrow> string \<Rightarrow> string result" where
  "validate_service_url literal value = rbind (urlsplit literal value) (\<lambda>parsed.
     if ur_scheme parsed \<notin> {''http'', ''https''} \<or> ur_hostname parsed = None
        \<or> ur_username parsed \<noteq> None \<or> ur_password parsed \<noteq> None
        \<or> ur_query parsed \<noteq> [] \<or> ur_fragment parsed \<noteq> []
        \<or> ur_scheme parsed = ''http'' \<and> ur_hostname parsed \<notin> Some ` set LOOPBACK
     then Inl (ValueError ''Service URLs require HTTPS or loopback HTTP without credentials or queries'')
     else Inr (rstrip_slash value))"

text \<open>The same for a JSON value: \<open>urlsplit\<close> decodes what is not a string and true.\<close>

definition validate_json_url :: "(string \<Rightarrow> bool) \<Rightarrow> json \<Rightarrow> string result" where
  "validate_json_url literal v = (case v of
       JStr s \<Rightarrow> validate_service_url literal s
     | _ \<Rightarrow> if truthy v then Inl (AttributeError ''decode'')
        else Inl (ValueError ''Service URLs require HTTPS or loopback HTTP without credentials or queries''))"

section \<open>The verifier\<close>

record jwk =
  jk_id :: "string option"
  jk_algorithm :: "string option"
  jk_use :: "string option"
  jk_key :: string

record oidc =
  oi_literal :: "string \<Rightarrow> bool"
  oi_get :: "nat \<Rightarrow> string \<Rightarrow> json result"
  oi_key_set :: "json \<Rightarrow> jwk list result"
  oi_header :: "string \<Rightarrow> jdict result"
  oi_decode :: "string \<Rightarrow> string \<Rightarrow> string \<Rightarrow> string \<Rightarrow> jdict result"
  oi_monotonic :: "nat \<Rightarrow> rat"
  oi_issuer :: string
  oi_resource :: string
  oi_cache_seconds :: rat

text \<open>The cache of keys, the time of the last refresh (\<open>None\<close> is \<open>-inf\<close>) and the log of the requests sent.\<close>

record verifier =
  vf_tick :: nat
  vf_keys :: "(string \<times> jwk) list"
  vf_refreshed_at :: "rat option"
  vf_requests :: "string list"

record access_token =
  ac_token :: string
  ac_client_id :: string
  ac_subject :: "string option"
  ac_scopes :: "string list"
  ac_expires_at :: "int option"
  ac_issuer :: "string option"

text \<open>\<open>OIDCTokenVerifier.__init__\<close>.\<close>

definition new_verifier :: "(string \<Rightarrow> bool) \<Rightarrow> string \<Rightarrow> string \<Rightarrow> (string \<times> string \<times> verifier) result" where
  "new_verifier literal issuer resource =
     rbind (validate_service_url literal issuer) (\<lambda>i.
     rbind (validate_service_url literal resource) (\<lambda>r.
     Inr (i, r, \<lparr>vf_tick = 0, vf_keys = [], vf_refreshed_at = None, vf_requests = []\<rparr>)))"

definition fetch :: "oidc \<Rightarrow> string \<Rightarrow> (verifier, json) op" where
  "fetch V url = (\<lambda>s. (oi_get V (vf_tick s) url,
     s\<lparr>vf_tick := vf_tick s + 1, vf_requests := vf_requests s @ [url]\<rparr>))"

definition monotonic :: "oidc \<Rightarrow> (verifier, rat) op" where
  "monotonic V = (\<lambda>s. (Inr (oi_monotonic V (vf_tick s)), s\<lparr>vf_tick := vf_tick s + 1\<rparr>))"

definition discover_oidc :: "oidc \<Rightarrow> (verifier, jdict) op" where
  "discover_oidc V = obind (fetch V (oi_issuer V @ ''/.well-known/openid-configuration'')) (\<lambda>metadata.
     case metadata of
       JObj d \<Rightarrow> obind (oguard (dget d ''issuer'' = JStr (oi_issuer V)) (ValueError ''OIDC discovery issuer mismatch'')) (\<lambda>_. oreturn d)
     | _ \<Rightarrow> oraise (ValueError ''OIDC discovery issuer mismatch''))"

definition signing_keys :: "jwk list \<Rightarrow> (string \<times> jwk) list" where
  "signing_keys keys = concat (map (\<lambda>k. case jk_id k of
       None \<Rightarrow> []
     | Some i \<Rightarrow> if i \<noteq> [] \<and> jk_algorithm k = Some ''RS256'' \<and> jk_use k = Some ''sig'' then [(i, k)] else []) keys)"

definition refresh_keys :: "oidc \<Rightarrow> (verifier, unit) op" where
  "refresh_keys V =
     obind (discover_oidc V) (\<lambda>metadata.
     obind (oread (\<lambda>_. rbind (dindex metadata ''jwks_uri'') (validate_json_url (oi_literal V)))) (\<lambda>jwks_url.
     obind (fetch V jwks_url) (\<lambda>document.
     obind (oread (\<lambda>_. oi_key_set V document)) (\<lambda>keys.
     obind (ochange (\<lambda>s. s\<lparr>vf_keys := signing_keys keys\<rparr>)) (\<lambda>_.
     obind (monotonic V) (\<lambda>now.
     ochange (\<lambda>s. s\<lparr>vf_refreshed_at := Some now\<rparr>)))))))"

text \<open>\<open>_key\<close>; of several keys with one identifier the last is in the dictionary.\<close>

definition must_refresh :: "rat \<Rightarrow> rat option \<Rightarrow> rat \<Rightarrow> bool \<Rightarrow> bool" where
  "must_refresh cache_seconds refreshed_at now unknown = (case refreshed_at of
       None \<Rightarrow> True
     | Some t \<Rightarrow> cache_seconds \<le> now - t \<or> unknown \<and> 2 \<le> now - t)"

definition verification_key :: "oidc \<Rightarrow> string \<Rightarrow> (verifier, jwk option) op" where
  "verification_key V kid =
     obind (monotonic V) (\<lambda>now.
     obind (\<lambda>s. (if must_refresh (oi_cache_seconds V) (vf_refreshed_at s) now (kid \<notin> set (map fst (vf_keys s)))
                 then refresh_keys V else oreturn ()) s) (\<lambda>_.
     oread (\<lambda>s. Inr (map_of (rev (vf_keys s)) kid))))"

text \<open>The token that the claims describe, or \<open>None\<close>.\<close>

definition token_of_claims :: "string \<Rightarrow> string \<Rightarrow> jdict \<Rightarrow> jdict \<Rightarrow> access_token option result" where
  "token_of_claims issuer token header claims =
     (if dget claims ''typ'' \<noteq> JStr ''Bearer'' \<and> dget header ''typ'' \<noteq> JStr ''at+jwt'' then Inr None
      else if list_ex (\<lambda>name. case map_of claims name of None \<Rightarrow> False | Some (JInt _) \<Rightarrow> False | Some _ \<Rightarrow> True)
        [''exp'', ''iat'', ''nbf''] then Inr None
      else rbind (dindex claims ''sub'') (\<lambda>subject.
        case (subject, dget claims ''azp'', (case map_of claims ''scope'' of None \<Rightarrow> JStr [] | Some v \<Rightarrow> v)) of
          (JStr s, JStr client, JStr scopes) \<Rightarrow>
            if strip s = [] \<or> strip client = [] then Inr None
            else rbind (dindex claims ''exp'') (\<lambda>e. case e of
                JInt n \<Rightarrow> Inr (Some \<lparr>ac_token = token, ac_client_id = client, ac_subject = Some s,
                  ac_scopes = words_from [] scopes, ac_expires_at = Some n, ac_issuer = Some issuer\<rparr>)
              | _ \<Rightarrow> Inr None)
        | _ \<Rightarrow> Inr None))"

definition verification_failure :: "py_error \<Rightarrow> bool" where
  "verification_failure e = (case e of PyJWTError _ \<Rightarrow> True | HTTPError _ \<Rightarrow> True | ValueError _ \<Rightarrow> True
     | KeyError _ \<Rightarrow> True | TypeError _ \<Rightarrow> True | _ \<Rightarrow> False)"

definition verify_checked :: "oidc \<Rightarrow> string \<Rightarrow> (verifier, access_token option) op" where
  "verify_checked V token =
     (if 16384 < length token then oreturn None
      else obind (oread (\<lambda>_. oi_header V token)) (\<lambda>header.
        case dget header ''kid'' of
          JStr (c # cs) \<Rightarrow>
            if dget header ''alg'' \<noteq> JStr ''RS256'' then oreturn None
            else obind (verification_key V (c # cs)) (\<lambda>key. case key of
                None \<Rightarrow> oreturn None
              | Some k \<Rightarrow> oread (\<lambda>_. rbind (oi_decode V token (jk_key k) (oi_issuer V) (oi_resource V))
                  (token_of_claims (oi_issuer V) token header)))
        | _ \<Rightarrow> oreturn None))"

definition verify_token :: "oidc \<Rightarrow> string \<Rightarrow> (verifier, access_token option) op" where
  "verify_token V token = ocatch (verify_checked V token)
     (\<lambda>e. if verification_failure e then Some (oreturn None) else None)"

section \<open>Capabilities\<close>

definition RUN_CLIENTS :: "string list" where
  "RUN_CLIENTS = [''backend-agent'', ''frontend-agent'', ''test-agent'', ''integration-agent'',
     ''static-analysis-agent'', ''evaluation-agent'']"

definition permitted :: "rat \<Rightarrow> access_token option \<Rightarrow> string \<Rightarrow> bool" where
  "permitted now token scope = (case token of
       None \<Rightarrow> False
     | Some t \<Rightarrow>
         (case ac_subject t of None \<Rightarrow> False | Some s \<Rightarrow> s \<noteq> [])
         \<and> (case ac_expires_at t of None \<Rightarrow> False | Some e \<Rightarrow> e \<noteq> 0 \<and> now < of_int e)
         \<and> scope \<in> set (ac_scopes t)
         \<and> (scope \<noteq> ''analysis:run'' \<or> ac_client_id t \<in> set RUN_CLIENTS))"

text \<open>\<open>json.dumps\<close> of a list of texts, and the owner that results are stored under.\<close>

definition principal :: "access_token \<Rightarrow> string" where
  "principal t = ''['' @ join '', '' [quote (ac_client_id t),
     (case ac_issuer t of None \<Rightarrow> ''null'' | Some i \<Rightarrow> quote i),
     (case ac_subject t of None \<Rightarrow> ''null'' | Some s \<Rightarrow> quote s)] @ '']''"

end
