(* ===== verification/TokenTrust.thy ===== *)
theory TokenTrust
  imports Tokens
begin

text \<open>
  The safety of the token verifier of \<open>tools/auth.py\<close>: which keys it trusts, whom it contacts, and what an
  accepted token is.
\<close>

section \<open>Accepted tokens\<close>

text \<open>A key set address that a discovery document of the configured issuer named, and a key published there.\<close>

definition discovery_url :: "oidc \<Rightarrow> string" where
  "discovery_url V = oi_issuer V @ ''/.well-known/openid-configuration''"

definition key_set_url :: "oidc \<Rightarrow> string \<Rightarrow> bool" where
  "key_set_url V u \<longleftrightarrow> (\<exists>n d v. oi_get V n (discovery_url V) = Inr (JObj d) \<and> dget d ''issuer'' = JStr (oi_issuer V)
     \<and> dindex d ''jwks_uri'' = Inr v \<and> validate_json_url (oi_literal V) v = Inr u)"

definition published_key :: "oidc \<Rightarrow> string \<Rightarrow> jwk \<Rightarrow> bool" where
  "published_key V i k \<longleftrightarrow> (\<exists>u n document keys. key_set_url V u \<and> oi_get V n u = Inr document \<and> oi_key_set V document = Inr keys
     \<and> k \<in> set keys \<and> jk_id k = Some i \<and> jk_algorithm k = Some ''RS256'' \<and> jk_use k = Some ''sig'')"

definition trusted :: "oidc \<Rightarrow> verifier \<Rightarrow> bool" where
  "trusted V s \<longleftrightarrow> (\<forall>(i, k) \<in> set (vf_keys s). published_key V i k)
     \<and> (\<forall>u \<in> set (vf_requests s). u = discovery_url V \<or> key_set_url V u)"

text \<open>Trusted, and at or after a time.\<close>

definition trusted_from :: "oidc \<Rightarrow> nat \<Rightarrow> verifier \<Rightarrow> bool" where
  "trusted_from V n s \<longleftrightarrow> trusted V s \<and> n \<le> vf_tick s"

lemma signing_keys_iff: "(i, k) \<in> set (signing_keys keys) \<longleftrightarrow>
  k \<in> set keys \<and> jk_id k = Some i \<and> i \<noteq> [] \<and> jk_algorithm k = Some ''RS256'' \<and> jk_use k = Some ''sig''"
  by (auto simp: signing_keys_def split: option.splits if_splits)

lemma fetch_trusted:
  assumes "u = discovery_url V \<or> key_set_url V u"
    and "\<And>n v. oi_get V n u = Inr v \<Longrightarrow> triple (trusted_from V m) (f v) Q (\<lambda>_. trusted_from V m)"
  shows "triple (trusted_from V m) (obind (fetch V u) f) Q (\<lambda>_. trusted_from V m)"
proof (rule tripleI)
  fix s r s'
  assume s: "trusted_from V m s" "obind (fetch V u) f s = (r, s')"
  let ?s = "s\<lparr>vf_tick := vf_tick s + 1, vf_requests := vf_requests s @ [u]\<rparr>"
  have t: "trusted_from V m ?s" using s(1) assms(1) by (auto simp: trusted_from_def trusted_def)
  show "case r of Inl e \<Rightarrow> trusted_from V m s' | Inr x \<Rightarrow> Q x s'"
  proof (cases "oi_get V (vf_tick s) u")
    case (Inl e)
    with s(2) t show ?thesis by (auto simp: obind_def fetch_def)
  next
    case (Inr v)
    with s(2) have "f v ?s = (r, s')" by (simp add: obind_def fetch_def)
    with tripleD [OF assms(2) [OF Inr] t] show ?thesis by simp
  qed
qed

lemma triple_pure: "(\<And>x. r = Inr x \<Longrightarrow> triple P (f x) Q (\<lambda>_. P)) \<Longrightarrow> triple P (obind (oread (\<lambda>_. r)) f) Q (\<lambda>_. P)"
  by (cases r) (auto simp: triple_def obind_def op_simps)

lemma refresh_keys_trusted:
  "triple (trusted_from V m) (refresh_keys V)
     (\<lambda>_ s. trusted_from V m s \<and> (\<exists>n. m \<le> n \<and> vf_refreshed_at s = Some (oi_monotonic V n))) (\<lambda>_. trusted_from V m)"
    (is "triple ?P _ ?Q ?E")
proof -
  have finish: "triple ?P (obind (ochange (\<lambda>s. s\<lparr>vf_keys := signing_keys keys\<rparr>)) (\<lambda>_.
     obind (monotonic V) (\<lambda>now. ochange (\<lambda>s. s\<lparr>vf_refreshed_at := Some now\<rparr>)))) ?Q ?E"
    if "key_set_url V u" "oi_get V n u = Inr document" "oi_key_set V document = Inr keys" for u n document keys
  proof -
    have "published_key V i k" if "(i, k) \<in> set (signing_keys keys)" for i k
      using that \<open>key_set_url V u\<close> \<open>oi_get V n u = Inr document\<close> \<open>oi_key_set V document = Inr keys\<close>
      unfolding published_key_def signing_keys_iff by blast
    then show ?thesis
      by (auto simp: triple_def obind_def op_simps monotonic_def trusted_from_def trusted_def)
  qed
  have keys: "triple ?P (obind (oread (\<lambda>_. rbind (dindex d ''jwks_uri'') (validate_json_url (oi_literal V)))) (\<lambda>jwks_url.
     obind (fetch V jwks_url) (\<lambda>document.
     obind (oread (\<lambda>_. oi_key_set V document)) (\<lambda>keys.
     obind (ochange (\<lambda>s. s\<lparr>vf_keys := signing_keys keys\<rparr>)) (\<lambda>_.
     obind (monotonic V) (\<lambda>now.
     ochange (\<lambda>s. s\<lparr>vf_refreshed_at := Some now\<rparr>))))))) ?Q ?E"
    if "oi_get V n (discovery_url V) = Inr (JObj d)" "dget d ''issuer'' = JStr (oi_issuer V)" for n d
  proof (rule triple_pure)
    fix u
    assume "rbind (dindex d ''jwks_uri'') (validate_json_url (oi_literal V)) = Inr u"
    with that have u: "key_set_url V u" by (auto simp: key_set_url_def rbind_eq_Inr)
    show "triple ?P (obind (fetch V u) (\<lambda>document. obind (oread (\<lambda>_. oi_key_set V document)) (\<lambda>keys.
     obind (ochange (\<lambda>s. s\<lparr>vf_keys := signing_keys keys\<rparr>)) (\<lambda>_.
     obind (monotonic V) (\<lambda>now. ochange (\<lambda>s. s\<lparr>vf_refreshed_at := Some now\<rparr>)))))) ?Q ?E"
      by (rule fetch_trusted, use u in simp, rule triple_pure, rule finish [OF u])
  qed
  have assoc: "obind (obind m f) g = obind m (\<lambda>x. obind (f x) g)" for m :: "(verifier, 'x) op" and f and g :: "'y \<Rightarrow> (verifier, 'z) op"
    by (auto simp: obind_def split: prod.splits sum.splits)
  show ?thesis unfolding refresh_keys_def discover_oidc_def assoc discovery_url_def [symmetric]
  proof (rule fetch_trusted)
    fix n v
    assume v: "oi_get V n (discovery_url V) = Inr v"
    show "triple ?P (obind (case v of JObj d \<Rightarrow> obind (oguard (dget d ''issuer'' = JStr (oi_issuer V)) (ValueError ''OIDC discovery issuer mismatch'')) (\<lambda>_. oreturn d)
       | _ \<Rightarrow> oraise (ValueError ''OIDC discovery issuer mismatch'')) (\<lambda>d.
      obind (oread (\<lambda>_. rbind (dindex d ''jwks_uri'') (validate_json_url (oi_literal V)))) (\<lambda>jwks_url.
     obind (fetch V jwks_url) (\<lambda>document.
     obind (oread (\<lambda>_. oi_key_set V document)) (\<lambda>keys.
     obind (ochange (\<lambda>s. s\<lparr>vf_keys := signing_keys keys\<rparr>)) (\<lambda>_.
     obind (monotonic V) (\<lambda>now.
     ochange (\<lambda>s. s\<lparr>vf_refreshed_at := Some now\<rparr>)))))))) ?Q ?E"
    proof (cases v)
      case (JObj d)
      show ?thesis unfolding JObj json.case assoc
      proof (rule triple_guard, simp)
        assume "dget d ''issuer'' = JStr (oi_issuer V)"
        from keys [OF v [unfolded JObj] this] show "triple ?P (obind (oreturn d) (\<lambda>d.
      obind (oread (\<lambda>_. rbind (dindex d ''jwks_uri'') (validate_json_url (oi_literal V)))) (\<lambda>jwks_url.
     obind (fetch V jwks_url) (\<lambda>document.
     obind (oread (\<lambda>_. oi_key_set V document)) (\<lambda>keys.
     obind (ochange (\<lambda>s. s\<lparr>vf_keys := signing_keys keys\<rparr>)) (\<lambda>_.
     obind (monotonic V) (\<lambda>now.
     ochange (\<lambda>s. s\<lparr>vf_refreshed_at := Some now\<rparr>)))))))) ?Q ?E"
          by (simp add: obind_def op_simps)
      qed
    qed (auto simp: triple_def obind_def op_simps)
  qed simp
qed

text \<open>A key that the cache delivers was fetched less than \<open>cache_seconds\<close> before, or since.\<close>

lemma verification_key_trusted:
  assumes "trusted V s" "mono (oi_monotonic V)" "0 < oi_cache_seconds V" and run: "verification_key V kid s = (r, s')"
  shows "trusted V s' \<and> (\<forall>k. r = Inr (Some k) \<longrightarrow> published_key V kid k
     \<and> (\<exists>\<tau>. vf_refreshed_at s' = Some \<tau> \<and> oi_monotonic V (vf_tick s) - \<tau> < oi_cache_seconds V))"
proof -
  let ?s = "s\<lparr>vf_tick := vf_tick s + 1\<rparr>" and ?now = "oi_monotonic V (vf_tick s)"
  let ?refresh = "must_refresh (oi_cache_seconds V) (vf_refreshed_at s) ?now (kid \<notin> set (map fst (vf_keys s)))"
  have start: "trusted_from V (vf_tick s) ?s" using assms(1) by (simp add: trusted_from_def trusted_def)
  have found: "published_key V kid k" if "trusted V t" "map_of (rev (vf_keys t)) kid = Some k" for t k
    using that map_of_SomeD [OF that(2)] by (auto simp: trusted_def)
  show ?thesis
  proof (cases ?refresh)
    case False
    then have "s' = ?s" "r = Inr (map_of (rev (vf_keys s)) kid)" "\<exists>\<tau>. vf_refreshed_at s = Some \<tau> \<and> ?now - \<tau> < oi_cache_seconds V"
      using run by (auto simp: verification_key_def obind_def monotonic_def op_simps must_refresh_def split: option.splits)
    with start found [of ?s] show ?thesis by (auto simp: trusted_from_def)
  next
    case True
    obtain y t where y: "refresh_keys V ?s = (y, t)" by fastforce
    note post = tripleD [OF refresh_keys_trusted start y]
    show ?thesis
    proof (cases y)
      case (Inl e)
      with run True y have "s' = t" "r = Inl e" by (auto simp: verification_key_def obind_def monotonic_def)
      with post Inl show ?thesis by (simp add: trusted_from_def)
    next
      case (Inr u)
      with run True y have e: "s' = t" "r = Inr (map_of (rev (vf_keys t)) kid)"
        by (auto simp: verification_key_def obind_def monotonic_def op_simps)
      from post Inr obtain n where n: "vf_tick s \<le> n" "vf_refreshed_at t = Some (oi_monotonic V n)" by auto
      from monoD [OF assms(2) n(1)] assms(3) have "?now - oi_monotonic V n < oi_cache_seconds V" by simp
      with post Inr e n found [of t] show ?thesis by (auto simp: trusted_from_def)
    qed
  qed
qed

text \<open>The verifier in any state it can get into.\<close>

inductive verifier_reachable :: "oidc \<Rightarrow> verifier \<Rightarrow> bool" for V where
  start: "new_verifier (oi_literal V) issuer resource = Inr (i, r, s) \<Longrightarrow> verifier_reachable V s"
| more: "verifier_reachable V s \<Longrightarrow> verifier_reachable V (snd (verify_token V token s))"

lemma verify_checked_run:
  assumes "verify_checked V token s = (res, s')"
  shows "s' = s \<and> (\<forall>t. res \<noteq> Inr (Some t)) \<or> (\<exists>header kid key s1. oi_header V token = Inr header \<and> length token \<le> 16384
     \<and> dget header ''alg'' = JStr ''RS256'' \<and> dget header ''kid'' = JStr kid \<and> verification_key V kid s = (key, s1) \<and> s' = s1
     \<and> (\<forall>t. res = Inr (Some t) \<longrightarrow> (\<exists>k claims. key = Inr (Some k) \<and> oi_decode V token (jk_key k) (oi_issuer V) (oi_resource V) = Inr claims
          \<and> token_of_claims (oi_issuer V) token header claims = Inr (Some t))))"
proof (cases "16384 < length token")
  case True
  with assms show ?thesis by (auto simp: verify_checked_def op_simps)
next
  case False
  show ?thesis
  proof (cases "oi_header V token")
    case (Inl e)
    with assms False show ?thesis by (auto simp: verify_checked_def op_simps obind_def)
  next
    case (Inr header)
    show ?thesis
    proof (cases "(\<exists>c cs. dget header ''kid'' = JStr (c # cs)) \<and> dget header ''alg'' = JStr ''RS256''")
      case no: False
      then have "s' = s \<and> res = Inr None"
        using assms False Inr by (auto simp: verify_checked_def op_simps obind_def split: json.splits list.splits if_splits)
      then show ?thesis by simp
    next
      case True
      then obtain c cs where kid: "dget header ''kid'' = JStr (c # cs)" "dget header ''alg'' = JStr ''RS256''" by blast
      obtain key s1 where key: "verification_key V (c # cs) s = (key, s1)" by fastforce
      have "s' = s1 \<and> (\<forall>t. res = Inr (Some t) \<longrightarrow> (\<exists>k claims. key = Inr (Some k)
          \<and> oi_decode V token (jk_key k) (oi_issuer V) (oi_resource V) = Inr claims
          \<and> token_of_claims (oi_issuer V) token header claims = Inr (Some t)))"
        using assms False Inr kid key
        by (cases key) (auto simp: verify_checked_def op_simps obind_def rbind_eq_Inr split: option.splits)
      with Inr kid key False show ?thesis by force
    qed
  qed
qed

lemma verify_token_run:
  assumes "verify_token V token s = (res, s')"
  obtains res1 where "verify_checked V token s = (res1, s')" "\<And>t. res = Inr (Some t) \<Longrightarrow> res1 = Inr (Some t)"
  using assms by (auto simp: verify_token_def ocatch_def op_simps split: prod.splits sum.splits if_splits)

lemma verify_token_trusted:
  assumes "trusted V s" "mono (oi_monotonic V)" "0 < oi_cache_seconds V" "verify_token V token s = (res, s')"
  shows "trusted V s'"
proof -
  obtain res1 where "verify_checked V token s = (res1, s')" by (rule verify_token_run [OF assms(4)])
  from verify_checked_run [OF this] show ?thesis
  proof (elim disjE exE conjE)
    fix kid key s1
    assume "verification_key V kid s = (key, s1)" "s' = s1"
    with verification_key_trusted [OF assms(1-3)] show ?thesis by blast
  qed (use assms(1) in simp)
qed

lemma reachable_trusted:
  assumes "verifier_reachable V s" "mono (oi_monotonic V)" "0 < oi_cache_seconds V"
  shows "trusted V s"
  using assms(1)
proof induction
  case (start issuer resource i r s)
  then show ?case by (auto simp: new_verifier_def rbind_eq_Inr trusted_def)
next
  case (more s token)
  show ?case by (rule verify_token_trusted [OF more(2) assms(2,3), of token]) (simp add: prod_eq_iff)
qed

lemma token_of_claims_Some:
  assumes "token_of_claims issuer token header claims = Inr (Some t)"
  shows "\<exists>subject client. dget claims ''sub'' = JStr subject \<and> dget claims ''azp'' = JStr client \<and> strip subject \<noteq> [] \<and> strip client \<noteq> []
    \<and> ac_subject t = Some subject \<and> ac_client_id t = client \<and> ac_issuer t = Some issuer
    \<and> (\<exists>n. dget claims ''exp'' = JInt n \<and> ac_expires_at t = Some n)"
proof -
  define scope where "scope = (case map_of claims ''scope'' of None \<Rightarrow> JStr [] | Some v \<Rightarrow> v)"
  obtain x where x: "dindex claims ''sub'' = Inr x" and rest: "(case (x, dget claims ''azp'', scope) of
          (JStr s, JStr client, JStr scopes) \<Rightarrow>
            if strip s = [] \<or> strip client = [] then Inr None
            else rbind (dindex claims ''exp'') (\<lambda>e. case e of
                JInt n \<Rightarrow> Inr (Some \<lparr>ac_token = token, ac_client_id = client, ac_subject = Some s,
                  ac_scopes = words_from [] scopes, ac_expires_at = Some n, ac_issuer = Some issuer\<rparr>)
              | _ \<Rightarrow> Inr None)
        | _ \<Rightarrow> Inr None) = Inr (Some t)"
    using assms by (auto simp: token_of_claims_def rbind_eq_Inr scope_def [symmetric] split: if_splits)
  obtain s client scopes where v: "x = JStr s" "dget claims ''azp'' = JStr client" "scope = JStr scopes"
    using rest by (cases x; cases "dget claims ''azp''"; cases scope) simp_all
  obtain e where e: "dindex claims ''exp'' = Inr e" "strip s \<noteq> []" "strip client \<noteq> []"
    using rest v by (auto simp: rbind_eq_Inr split: if_splits)
  obtain n where "e = JInt n" using rest v e by (cases e) simp_all
  then show ?thesis using rest v e x by (auto dest!: dindex_dget)
qed

text \<open>
  C20. Accepted tokens. Whatever tokens were presented before, the verifier only ever contacts the discovery address
  of its issuer and key set addresses that this issuer's documents named; and a token is accepted only if it decodes for the
  configured issuer and audience under a signing key published there, fetched less than the
  cache time ago, with RS256, a subject, a client and an integral expiry, which are those of the result. (The
  clock is monotonic and the cache time positive.)
\<close>

theorem accepted_token_verified:
  assumes "verifier_reachable V s" and "mono (oi_monotonic V)" and "0 < oi_cache_seconds V"
    and "verify_token V token s = (res, s')"
  shows "(\<forall>u \<in> set (vf_requests s'). u = discovery_url V \<or> key_set_url V u)
    \<and> (\<forall>t. res = Inr (Some t) \<longrightarrow> (\<exists>header kid k claims subject client n \<tau>.
        oi_header V token = Inr header \<and> dget header ''alg'' = JStr ''RS256'' \<and> dget header ''kid'' = JStr kid
        \<and> published_key V kid k \<and> vf_refreshed_at s' = Some \<tau> \<and> oi_monotonic V (vf_tick s) - \<tau> < oi_cache_seconds V
        \<and> oi_decode V token (jk_key k) (oi_issuer V) (oi_resource V) = Inr claims
        \<and> dget claims ''sub'' = JStr subject \<and> dget claims ''azp'' = JStr client \<and> dget claims ''exp'' = JInt n
        \<and> strip subject \<noteq> [] \<and> strip client \<noteq> []
        \<and> ac_subject t = Some subject \<and> ac_client_id t = client \<and> ac_expires_at t = Some n \<and> ac_issuer t = Some (oi_issuer V)))"
proof -
  note before = reachable_trusted [OF assms(1-3)]
  have "trusted V s'" by (rule verify_token_trusted [OF before assms(2-4)])
  moreover have "\<exists>header kid k claims subject client n \<tau>.
        oi_header V token = Inr header \<and> dget header ''alg'' = JStr ''RS256'' \<and> dget header ''kid'' = JStr kid
        \<and> published_key V kid k \<and> vf_refreshed_at s' = Some \<tau> \<and> oi_monotonic V (vf_tick s) - \<tau> < oi_cache_seconds V
        \<and> oi_decode V token (jk_key k) (oi_issuer V) (oi_resource V) = Inr claims
        \<and> dget claims ''sub'' = JStr subject \<and> dget claims ''azp'' = JStr client \<and> dget claims ''exp'' = JInt n
        \<and> strip subject \<noteq> [] \<and> strip client \<noteq> []
        \<and> ac_subject t = Some subject \<and> ac_client_id t = client \<and> ac_expires_at t = Some n \<and> ac_issuer t = Some (oi_issuer V)"
    if t: "res = Inr (Some t)" for t
  proof -
    obtain res1 where "verify_checked V token s = (res1, s')" "res1 = Inr (Some t)"
      by (rule verify_token_run [OF assms(4)]) (use t in blast)
    with verify_checked_run obtain header kid k claims where h: "oi_header V token = Inr header" "dget header ''alg'' = JStr ''RS256''"
      "dget header ''kid'' = JStr kid" "verification_key V kid s = (Inr (Some k), s')"
      "oi_decode V token (jk_key k) (oi_issuer V) (oi_resource V) = Inr claims"
      "token_of_claims (oi_issuer V) token header claims = Inr (Some t)" by metis
    from verification_key_trusted [OF before assms(2,3) h(4)] token_of_claims_Some [OF h(6)] h show ?thesis by blast
  qed
  ultimately show ?thesis by (auto simp: trusted_def)
qed

definition demo_key :: jwk where
  "demo_key = \<lparr>jk_id = Some ''k'', jk_algorithm = Some ''RS256'', jk_use = Some ''sig'', jk_key = ''public''\<rparr>"

definition demo_oidc :: oidc where
  "demo_oidc = \<lparr>oi_literal = (\<lambda>_. False),
     oi_get = (\<lambda>_ _. Inr (JObj [(''issuer'', JStr ''https://i''), (''jwks_uri'', JStr ''https://i/keys'')])),
     oi_key_set = (\<lambda>_. Inr [demo_key]), oi_header = (\<lambda>_. Inr [(''alg'', JStr ''RS256''), (''kid'', JStr ''k'')]),
     oi_decode = (\<lambda>_ _ _ _. Inr [(''typ'', JStr ''Bearer''), (''sub'', JStr ''s''), (''azp'', JStr ''c''), (''exp'', JInt 5)]),
     oi_monotonic = of_nat, oi_issuer = ''https://i'', oi_resource = ''https://r/mcp'', oi_cache_seconds = 300\<rparr>"

definition demo_verifier :: verifier where
  "demo_verifier = \<lparr>vf_tick = 0, vf_keys = [], vf_refreshed_at = None, vf_requests = []\<rparr>"

lemma demo_urls:
  "validate_service_url (\<lambda>_. False) ''https://i'' = Inr ''https://i''" "validate_service_url (\<lambda>_. False) ''https://i/keys'' = Inr ''https://i/keys''"
  "strip ''s'' = ''s''" "strip ''c'' = ''c''"
  by code_simp+

lemma demo_verified: "\<exists>t s'. verify_token demo_oidc ''t'' demo_verifier = (Inr (Some t), s')"
  using demo_urls
  by (simp add: verify_token_def verify_checked_def verification_key_def monotonic_def refresh_keys_def discover_oidc_def fetch_def
      ocatch_def obind_def op_simps must_refresh_def demo_verifier_def demo_oidc_def dget_def dindex_def rbind_def validate_json_url_def
      signing_keys_def demo_key_def token_of_claims_def)

theorem accepted_token_verified_witness:
  "\<exists>t s' kid k. verify_token demo_oidc ''t'' demo_verifier = (Inr (Some t), s') \<and> published_key demo_oidc kid k \<and> ac_subject t = Some ''s''"
proof -
  obtain t s' where run: "verify_token demo_oidc ''t'' demo_verifier = (Inr (Some t), s')" using demo_verified by blast
  have "new_verifier (oi_literal demo_oidc) ''https://i'' ''https://i'' = Inr (''https://i'', ''https://i'', demo_verifier)"
    using demo_urls by (simp add: new_verifier_def demo_oidc_def demo_verifier_def)
  then have r: "verifier_reachable demo_oidc demo_verifier" by (rule verifier_reachable.start)
  have m: "mono (oi_monotonic demo_oidc)" "0 < oi_cache_seconds demo_oidc" by (auto simp: demo_oidc_def mono_def)
  from accepted_token_verified [OF r m run] obtain kid k claims subject where
    "published_key demo_oidc kid k" "oi_decode demo_oidc ''t'' (jk_key k) (oi_issuer demo_oidc) (oi_resource demo_oidc) = Inr claims"
    "dget claims ''sub'' = JStr subject" "ac_subject t = Some subject" by blast
  then show ?thesis using run by (auto simp: demo_oidc_def dget_def)
qed

end
