(* ===== verification/ToolService.thy ===== *)
theory ToolService
  imports Tokens Sandbox
begin

text \<open>
  The tool service: the models of \<open>tools/models.py\<close> on analyses, the repository of \<open>tools/repository.py\<close>, the
  Ruff findings of \<open>tools/analyzer.py\<close>, the analyzer that \<open>sandbox/analyzer.py\<close> configures, and the
  middleware and the two operations of \<open>tools/server.py\<close>. The MCP library, which routes a request to the
  middleware and then to an operation, is not modelled; file metadata, time and the analyzer are parameters.
\<close>

section \<open>Models\<close>

record analysis_request =
  aq_artifact_id :: string
  aq_content_sha256 :: string
  aq_timeout_seconds :: int

definition ARTIFACT_ID :: "string \<Rightarrow> bool" where
  "ARTIFACT_ID s \<longleftrightarrow> starts_with s ''art_'' \<and> hex_text 32 (drop 4 s)"

definition REPORT_ID :: "string \<Rightarrow> bool" where
  "REPORT_ID s \<longleftrightarrow> starts_with s ''an_'' \<and> hex_text 32 (drop 3 s)"

definition RESOURCE_URI :: "string \<Rightarrow> bool" where
  "RESOURCE_URI s \<longleftrightarrow> starts_with s ''analysis://reports/'' \<and> REPORT_ID (drop 19 s)"

text \<open>\<open>AnalysisRequest.model_validate\<close>, which is strict and forbids other fields.\<close>

definition analysis_request_validate :: "json \<Rightarrow> analysis_request result" where
  "analysis_request_validate v = (case v of
       JObj d \<Rightarrow>
         if \<not> set (map fst d) \<subseteq> {''artifact_id'', ''content_sha256'', ''language'', ''ruleset'', ''timeout_seconds''}
            \<or> (case map_of d ''language'' of None \<Rightarrow> False | Some l \<Rightarrow> l \<noteq> JStr ''python'')
            \<or> (case map_of d ''ruleset'' of None \<Rightarrow> False | Some l \<Rightarrow> l \<noteq> JStr ''default'')
         then Inl (ValueError ''AnalysisRequest'')
         else (case (map_of d ''artifact_id'', map_of d ''content_sha256'',
               (case map_of d ''timeout_seconds'' of None \<Rightarrow> JInt 60 | Some t \<Rightarrow> t)) of
             (Some (JStr a), Some (JStr h), JInt n) \<Rightarrow>
               if ARTIFACT_ID a \<and> hex_text 64 h \<and> 1 \<le> n \<and> n \<le> 60
               then Inr \<lparr>aq_artifact_id = a, aq_content_sha256 = h, aq_timeout_seconds = n\<rparr>
               else Inl (ValueError ''AnalysisRequest'')
           | _ \<Rightarrow> Inl (ValueError ''AnalysisRequest''))
     | _ \<Rightarrow> Inl (ValueError ''AnalysisRequest''))"

record analysis_job =
  aj_source :: "source_file list"
  aj_timeout_seconds :: int
  aj_max_output_bytes :: int

record finding =
  fd_rule_id :: string
  fd_severity :: string
  fd_path :: string
  fd_line :: int
  fd_column :: int
  fd_message :: string
  fd_fingerprint :: string

record analyzer_execution =
  ax_runtime :: string
  ax_isolation :: string
  ax_duration_ms :: int
  ax_timed_out :: bool
  ax_output_truncated :: bool
  ax_image :: "string option"
  ax_container_id :: "string option"
  ax_kernel :: "string option"
  ax_runtime_version :: "string option"
  ax_exit_code :: "int option"
  ax_oom_killed :: bool
  ax_cleanup_succeeded :: bool
  ax_reason :: "string option"
  ax_policy :: jdict

record analyzer_result =
  az_status :: sandbox_status
  az_findings :: "finding list"
  az_execution :: analyzer_execution

record analysis_report = analyzer_result +
  rp_analysis_id :: string
  rp_artifact_id :: string
  rp_content_sha256 :: string
  rp_run_id :: string
  rp_result_uri :: string
  rp_errors :: nat
  rp_warnings :: nat

fun status_text :: "sandbox_status \<Rightarrow> string" where
  "status_text SB_completed = ''completed''"
| "status_text SB_failed = ''failed''"
| "status_text SB_timed_out = ''timed_out''"
| "status_text SB_output_limit = ''output_limit''"
| "status_text SB_unavailable = ''unavailable''"

section \<open>Findings of Ruff\<close>

text \<open>
  Pydantic's lenient reading of a string, an integer, a truth value, and of these or \<open>None\<close>, and
  \<open>json.loads\<close>; all raise a \<open>ValueError\<close> (or another exception of the parser).
\<close>

record parsing =
  pz_loads :: "string \<Rightarrow> json result"
  pz_str :: "json \<Rightarrow> string result"
  pz_int :: "json \<Rightarrow> int result"
  pz_bool :: "json \<Rightarrow> bool result"

definition nullable :: "(json \<Rightarrow> 'a result) \<Rightarrow> json \<Rightarrow> 'a option result" where
  "nullable f v = (if v = JNull then Inr None else rbind (f v) (\<lambda>x. Inr (Some x)))"

text \<open>\<open>Path(v).relative_to(workspace).as_posix()\<close>; the parts of a path without empty and dot parts.\<close>

definition posix_parts :: "string \<Rightarrow> string list" where
  "posix_parts s = (if starts_with s ''/'' then [''/''] else []) @ filter (\<lambda>p. p \<noteq> [] \<and> p \<noteq> ''.'') (split_on (CHR ''/'') s)"

definition relative_path :: "string \<Rightarrow> json \<Rightarrow> string list result" where
  "relative_path workspace v = (case v of
       JStr s \<Rightarrow> (let w = posix_parts workspace; p = posix_parts s in
         if take (length w) p = w then Inr (drop (length w) p) else Inl (ValueError ''is not in the subpath''))
     | _ \<Rightarrow> Inl (TypeError ''argument should be a str or an os.PathLike object''))"

definition as_posix :: "string list \<Rightarrow> string" where
  "as_posix parts = (if parts = [] then ''.'' else join ''/'' parts)"

definition ruff_finding :: "pyenv \<Rightarrow> parsing \<Rightarrow> string \<Rightarrow> json \<Rightarrow> finding result" where
  "ruff_finding E Z workspace item =
     rbind (rbind (json_key item ''filename'') (relative_path workspace)) (\<lambda>parts.
     rbind (guard (''..'' \<notin> set parts) (ValueError ''Ruff finding outside workspace'')) (\<lambda>_.
     rbind (json_key item ''code'') (\<lambda>code.
     let rule = (if truthy code then code else JStr ''invalid-syntax''); path = as_posix parts in
     rbind (rbind (json_key item ''location'') (\<lambda>l. json_key l ''row'')) (\<lambda>line.
     rbind (rbind (json_key item ''location'') (\<lambda>l. json_key l ''column'')) (\<lambda>column.
     rbind (json_key item ''message'') (\<lambda>message.
     let fingerprint = sha256 E (join '':'' [path, py_str E rule, py_str E line, py_str E column, py_str E message]) in
     rbind (pz_str Z rule) (\<lambda>rule_id.
     rbind (pz_int Z line) (\<lambda>row.
     rbind (pz_int Z column) (\<lambda>col.
     rbind (pz_str Z message) (\<lambda>message_text.
     Inr \<lparr>fd_rule_id = rule_id, fd_severity = (if rule = JStr ''F401'' then ''warning'' else ''error''), fd_path = path,
       fd_line = row, fd_column = col, fd_message = message_text, fd_fingerprint = fingerprint\<rparr>))))))))))"

definition ruff_findings :: "pyenv \<Rightarrow> parsing \<Rightarrow> string \<Rightarrow> string \<Rightarrow> finding list result" where
  "ruff_findings E Z output workspace = rbind (pz_loads Z output) (\<lambda>items. case items of
       JArr xs \<Rightarrow> if 10000 < length xs then Inl (ValueError ''Invalid Ruff result'')
         else traverse (ruff_finding E Z workspace) xs
     | _ \<Rightarrow> Inl (ValueError ''Invalid Ruff result''))"

section \<open>The analyzer in the sandbox\<close>

definition evidence_failure :: "py_error \<Rightarrow> bool" where
  "evidence_failure e = (case e of ValueError _ \<Rightarrow> True | KeyError _ \<Rightarrow> True | TypeError _ \<Rightarrow> True | _ \<Rightarrow> False)"

definition policy_dump :: "sandbox_policy \<Rightarrow> jdict" where
  "policy_dump p = [(''cpus'', JInt (sp_cpus p)), (''memory_bytes'', JInt (sp_memory_bytes p)), (''pids'', JInt (sp_pids p)),
     (''workspace_bytes'', JInt (sp_workspace_bytes p)), (''timeout_seconds'', JInt (sp_timeout_seconds p)),
     (''max_output_bytes'', JInt (sp_max_output_bytes p)), (''network'', JStr ''none'')]"

definition execution_of :: "parsing \<Rightarrow> sandbox_execution \<Rightarrow> analyzer_execution result" where
  "execution_of Z x =
     rbind (nullable (pz_str Z) (case sx_image x of None \<Rightarrow> JNull | Some v \<Rightarrow> v)) (\<lambda>selected.
     rbind (nullable (pz_str Z) (sx_runtime_version x)) (\<lambda>version.
     rbind (nullable (pz_int Z) (sx_exit_code x)) (\<lambda>code.
     rbind (pz_bool Z (sx_oom_killed x)) (\<lambda>oom.
     Inr \<lparr>ax_runtime = sx_runtime x, ax_isolation = sx_isolation x, ax_duration_ms = int (sx_duration_ms x),
       ax_timed_out = sx_timed_out x, ax_output_truncated = sx_output_truncated x, ax_image = selected,
       ax_container_id = sx_container_id x, ax_kernel = Some (sx_kernel x), ax_runtime_version = version,
       ax_exit_code = code, ax_oom_killed = oom, ax_cleanup_succeeded = sx_cleanup_succeeded x,
       ax_reason = sx_reason x, ax_policy = policy_dump (sx_policy x)\<rparr>))))"

definition known_findings :: "analysis_job \<Rightarrow> finding list \<Rightarrow> bool" where
  "known_findings job fs \<longleftrightarrow> list_all (\<lambda>f. fd_path f \<in> set (map sf_path (aj_source job))) fs"

text \<open>What the analyzer makes of a result of the sandbox.\<close>

definition analyzer_outcome :: "pyenv \<Rightarrow> parsing \<Rightarrow> analysis_job \<Rightarrow> sandbox_result \<Rightarrow> analyzer_result result" where
  "analyzer_outcome E Z job r = rbind (execution_of Z (sb_execution r)) (\<lambda>x.
     if sb_status r \<noteq> SB_completed then Inr \<lparr>az_status = sb_status r, az_findings = [], az_execution = x\<rparr>
     else case ruff_findings E Z (sb_stdout r) ''/workspace'' of
         Inr fs \<Rightarrow> if known_findings job fs then Inr \<lparr>az_status = SB_completed, az_findings = fs, az_execution = x\<rparr>
           else Inr \<lparr>az_status = SB_failed, az_findings = fs,
             az_execution = x\<lparr>ax_reason := Some ''Sandbox returned invalid Ruff evidence''\<rparr>\<rparr>
       | Inl e \<Rightarrow> if evidence_failure e then Inr \<lparr>az_status = SB_failed, az_findings = [],
             az_execution = x\<lparr>ax_reason := Some ''Sandbox returned invalid Ruff evidence''\<rparr>\<rparr> else Inl e)"

definition sandboxed_analyzer :: "docker_host \<Rightarrow> parsing \<Rightarrow> analysis_job \<Rightarrow> analyzer_result run_op" where
  "sandboxed_analyzer H Z job =
     (let policy = default_policy\<lparr>sp_timeout_seconds := aj_timeout_seconds job, sp_max_output_bytes := aj_max_output_bytes job\<rparr> in
      if \<not> policy_valid policy then sraise (Raise (ValueError ''SandboxPolicy''))
      else sbind (execute_sandbox H \<lparr>jb_source = aj_source job, jb_mode = Analyze, jb_policy = policy\<rparr> None) (\<lambda>r.
        slift (analyzer_outcome (wd_py (dh_world H)) Z job r)))"

text \<open>
  The local backend: what its process came to, and the duration measured. Only the reason \<open>TimeoutError\<close> is
  handled; a failed task group is raised again.
\<close>

definition local_execution :: "int \<Rightarrow> bool \<Rightarrow> bool \<Rightarrow> analyzer_execution" where
  "local_execution duration timed_out truncated =
     \<lparr>ax_runtime = ''local-analyzer'', ax_isolation = ''trusted local Ruff process; no OCI isolation'',
      ax_duration_ms = duration, ax_timed_out = timed_out, ax_output_truncated = truncated, ax_image = None,
      ax_container_id = None, ax_kernel = None, ax_runtime_version = None, ax_exit_code = None, ax_oom_killed = False,
      ax_cleanup_succeeded = True, ax_reason = None, ax_policy = []\<rparr>"

definition analyze_with_ruff :: "pyenv \<Rightarrow> parsing \<Rightarrow> string \<Rightarrow> int \<Rightarrow> reply \<Rightarrow> interruption + analyzer_result" where
  "analyze_with_ruff E Z workspace duration r =
     (let result = (\<lambda>status fs late truncated. Inr \<lparr>az_status = status, az_findings = fs,
        az_execution = local_execution duration late truncated\<rparr>) in
      case r of
        Overflowed \<Rightarrow> result SB_output_limit [] False True
      | Expired \<Rightarrow> result SB_timed_out [] True False
      | Broken TimeoutError \<Rightarrow> result SB_timed_out [] True False
      | Broken e \<Rightarrow> Inl (Raise e)
      | Group_failed \<Rightarrow> Inl Task_group_failed
      | Exited code output _ \<Rightarrow>
          if code \<in> {0, 1}
          then (case ruff_findings E Z output workspace of Inl e \<Rightarrow> Inl (Raise e) | Inr fs \<Rightarrow> result SB_completed fs False False)
          else result SB_failed [] False False)"

definition analyzer_choice :: "settings \<Rightarrow> bool result" where
  "analyzer_choice s = (if cf_analysis_backend s = ''local-analyzer'' then Inr False
     else if cf_analysis_backend s \<noteq> ''sandbox''
     then Inl (ValueError ''AIDLC_ANALYSIS_BACKEND must be sandbox or local-analyzer'') else Inr True)"

section \<open>The service\<close>

text \<open>
  The state: a clock that every reading advances, the hub, the rows of the two tables of
  \<open>tools.sqlite3\<close>, and the jobs handed to the analyzer.
\<close>

record tool_host =
  th_world :: world
  th_settings :: settings
  th_time :: "nat \<Rightarrow> rat"
  th_stamp :: "nat \<Rightarrow> string"
  th_inside :: "string list \<Rightarrow> bool"
  th_size :: "nat \<Rightarrow> string list \<Rightarrow> int result"
  th_analyzer :: "nat \<Rightarrow> analysis_job \<Rightarrow> analyzer_result result"
  th_loads :: "string \<Rightarrow> json result"

record tool_service =
  tl_tick :: nat
  tl_hub :: hub
  tl_results :: "(string \<times> string \<times> analysis_report) list"
  tl_audit :: "(string \<times> jdict) list"
  tl_jobs :: "analysis_job list"

type_synonym 'a tool_op = "(tool_service, 'a) op"

definition repository_save :: "string \<Rightarrow> analysis_report \<Rightarrow> unit tool_op" where
  "repository_save owner r = (\<lambda>s.
     if rp_analysis_id r \<in> set (map fst (tl_results s)) then (Inl (IntegrityError ''analysis_results.analysis_id''), s)
     else (Inr (), s\<lparr>tl_results := tl_results s @ [(rp_analysis_id r, owner, r)]\<rparr>))"

definition repository_read :: "string \<Rightarrow> string \<Rightarrow> tool_service \<Rightarrow> analysis_report option" where
  "repository_read owner analysis_id s =
     map_option (\<lambda>(_, _, r). r) (List.find (\<lambda>(i, o', _). i = analysis_id \<and> o' = owner) (tl_results s))"

definition repository_audit :: "tool_host \<Rightarrow> jdict \<Rightarrow> unit tool_op" where
  "repository_audit H payload = ochange (\<lambda>s. s\<lparr>tl_tick := tl_tick s + 1,
     tl_audit := tl_audit s @ [(th_stamp H (tl_tick s), payload)]\<rparr>)"

definition audit_history :: "tool_service \<Rightarrow> jdict list" where
  "audit_history s = map (\<lambda>(t, p).
     (''created_at'', (case map_of p ''created_at'' of None \<Rightarrow> JStr t | Some v \<Rightarrow> v)) # filter (\<lambda>(k, _). k \<noteq> ''created_at'') p) (tl_audit s)"

definition allowed :: "tool_host \<Rightarrow> access_token option \<Rightarrow> string \<Rightarrow> bool tool_op" where
  "allowed H token scope = (\<lambda>s. (Inr (permitted (th_time H (tl_tick s)) token scope), s\<lparr>tl_tick := tl_tick s + 1\<rparr>))"

definition caller :: "access_token \<Rightarrow> jdict" where
  "caller t = [(''client_id'', JStr (ac_client_id t)), (''subject'', jopt JStr (ac_subject t))]"

text \<open>The source of a request, as the \<open>try\<close> block of \<open>analyze\<close> obtains it.\<close>

definition intact_source :: "tool_host \<Rightarrow> analysis_request \<Rightarrow> tool_service \<Rightarrow> (artifact_record \<times> source_file list) result" where
  "intact_source H q s = (case get_artifact (hb_db (tl_hub s)) (aq_artifact_id q) of
       None \<Rightarrow> Inl (ValueError [])
     | Some record' \<Rightarrow>
         let path = ar_content_path record' in
         if md_kind (ar_metadata record') \<notin> {CODE_CHANGE, INTEGRATED_SOURCE}
            \<or> md_content_sha256 (ar_metadata record') \<noteq> aq_content_sha256 q \<or> \<not> th_inside H path
         then Inl (ValueError [])
         else rbind (th_size H (tl_tick s) path) (\<lambda>n.
           if 1048576 < n then Inl (ValueError [])
           else rbind (read_content (wd_py (th_world H)) (hb_store (tl_hub s)) record') (\<lambda>content.
             rbind (source_bundle_validate content) (\<lambda>files. Inr (record', files)))))"

definition source_failure :: "py_error \<Rightarrow> bool" where
  "source_failure e = (case e of ValueError _ \<Rightarrow> True | OSError _ \<Rightarrow> True | BlockingIOError \<Rightarrow> True
     | TimeoutError \<Rightarrow> True | _ \<Rightarrow> False)"

definition invoke_analyzer :: "tool_host \<Rightarrow> access_token \<Rightarrow> analysis_request \<Rightarrow> analysis_job \<Rightarrow> analyzer_result tool_op" where
  "invoke_analyzer H t q job = ocatch
     (\<lambda>s. (th_analyzer H (tl_tick s) job, s\<lparr>tl_tick := tl_tick s + 1, tl_jobs := tl_jobs s @ [job]\<rparr>))
     (\<lambda>e. Some (obind (repository_audit H ([(''decision'', JStr ''allowed''),
         (''outcome'', JStr (if e = CancelledError then ''canceled'' else ''analyzer_failed''))] @ caller t
         @ [(''artifact_id'', JStr (aq_artifact_id q))]))
       (\<lambda>_. oraise (if e = CancelledError then e else ToolError ''The configured analyzer failed''))))"

definition analysis_event :: "access_token \<Rightarrow> analysis_report \<Rightarrow> string \<Rightarrow> delegated_task option \<Rightarrow> jdict" where
  "analysis_event t r outcome mapping = (let x = az_execution r in
     [(''decision'', JStr ''allowed''), (''outcome'', JStr outcome)] @ caller t @
     [(''tool'', JStr ''analyze_code''), (''run_id'', JStr (rp_run_id r)), (''artifact_id'', JStr (rp_artifact_id r)),
      (''content_sha256'', JStr (rp_content_sha256 r)), (''analysis_id'', JStr (rp_analysis_id r)),
      (''runtime'', JStr (ax_runtime x)), (''image'', jopt JStr (ax_image x)), (''isolation'', JStr (ax_isolation x)),
      (''exit_code'', jopt JInt (ax_exit_code x)), (''oom_killed'', JBool (ax_oom_killed x)),
      (''cleanup_succeeded'', JBool (ax_cleanup_succeeded x)), (''duration_ms'', JInt (ax_duration_ms x)),
      (''a2a_task_id'', (case mapping of None \<Rightarrow> JNull | Some m \<Rightarrow> jopt JStr (dt_task_id m))),
      (''a2a_context_id'', (case mapping of None \<Rightarrow> JNull | Some m \<Rightarrow> JStr (dt_context_id m)))])"

definition on_tool_hub :: "'a hub_op \<Rightarrow> 'a tool_op" where
  "on_tool_hub m = ozoom tl_hub (\<lambda>h s. s\<lparr>tl_hub := h\<rparr>) m"

definition audit_report :: "tool_host \<Rightarrow> access_token \<Rightarrow> analysis_report \<Rightarrow> string \<Rightarrow> unit tool_op" where
  "audit_report H t r outcome =
     obind (oread (\<lambda>s. Inr (List.find (\<lambda>d. dt_agent d = ''static-analysis-agent'')
         (list_delegated_tasks (hb_db (tl_hub s)) (rp_run_id r))))) (\<lambda>mapping.
     obind (repository_audit H (analysis_event t r outcome mapping)) (\<lambda>_.
     on_tool_hub (event (th_world H) (rp_run_id r) ''mcp.analysis'' (analysis_event t r outcome mapping))))"

definition new_report :: "string \<Rightarrow> analysis_request \<Rightarrow> artifact_record \<Rightarrow> analyzer_result \<Rightarrow> analysis_report" where
  "new_report analysis_id q record' r =
     \<lparr>az_status = az_status r, az_findings = az_findings r, az_execution = az_execution r,
      rp_analysis_id = analysis_id, rp_artifact_id = aq_artifact_id q, rp_content_sha256 = aq_content_sha256 q,
      rp_run_id = md_workflow_run_id (ar_metadata record'), rp_result_uri = ''analysis://reports/'' @ analysis_id,
      rp_errors = length (filter (\<lambda>f. fd_severity f = ''error'') (az_findings r)),
      rp_warnings = length (filter (\<lambda>f. fd_severity f = ''warning'') (az_findings r))\<rparr>"

definition fresh_id :: "tool_host \<Rightarrow> string tool_op" where
  "fresh_id H = (\<lambda>s. (Inr (''an_'' @ wd_uid (th_world H) (hb_tick (tl_hub s))),
     s\<lparr>tl_hub := (tl_hub s)\<lparr>hb_tick := hb_tick (tl_hub s) + 1\<rparr>\<rparr>))"

text \<open>\<open>AnalysisService.analyze\<close>; the semaphore only delays the second check of the token.\<close>

definition analyze_as :: "tool_host \<Rightarrow> analysis_request \<Rightarrow> access_token \<Rightarrow> analysis_report tool_op" where
  "analyze_as H q t =
     obind (ocatch (oread (intact_source H q)) (\<lambda>e. if source_failure e
       then Some (obind (repository_audit H ([(''decision'', JStr ''allowed''), (''outcome'', JStr ''invalid_source_artifact'')] @ caller t
           @ [(''artifact_id'', JStr (aq_artifact_id q)), (''content_sha256'', JStr (aq_content_sha256 q))]))
         (\<lambda>_. oraise (ToolError ''Expected an intact code_change source bundle with the supplied hash'')))
       else None)) (\<lambda>(record', files).
     obind (allowed H (Some t) ''analysis:run'') (\<lambda>ok.
     obind (oguard ok (ToolError ''Access token expired while waiting for analysis'')) (\<lambda>_.
     obind (invoke_analyzer H t q \<lparr>aj_source = files,
         aj_timeout_seconds = min (aq_timeout_seconds q) (int (cf_analysis_timeout_seconds (th_settings H))),
         aj_max_output_bytes = int (cf_analysis_max_output_bytes (th_settings H))\<rparr>) (\<lambda>r.
     obind (fresh_id H) (\<lambda>analysis_id.
     let report = new_report analysis_id q record' r in
     obind (repository_save (principal t) report) (\<lambda>_.
     obind (audit_report H t report (status_text (az_status report))) (\<lambda>_.
     oreturn report)))))))"

definition analyze :: "tool_host \<Rightarrow> analysis_request \<Rightarrow> access_token option \<Rightarrow> analysis_report tool_op" where
  "analyze H q token =
     obind (allowed H token ''analysis:run'') (\<lambda>ok.
     obind (oguard ok (ToolError ''analysis:run is required for this client'')) (\<lambda>_.
     case token of None \<Rightarrow> oraise AssertionError | Some t \<Rightarrow> analyze_as H q t))"

definition read_as :: "tool_host \<Rightarrow> string \<Rightarrow> access_token \<Rightarrow> analysis_report tool_op" where
  "read_as H analysis_id t =
     obind (oread (\<lambda>s. Inr (if REPORT_ID analysis_id then repository_read (principal t) analysis_id s else None))) (\<lambda>found.
     obind (repository_audit H ([(''decision'', JStr (if found = None then ''denied'' else ''allowed'')),
         (''outcome'', JStr (if found = None then ''not_found'' else ''read''))] @ caller t
         @ [(''analysis_id'', if REPORT_ID analysis_id then JStr analysis_id else JNull)])) (\<lambda>_.
     case found of None \<Rightarrow> oraise (ToolError ''Analysis result not found for this caller'') | Some r \<Rightarrow> oreturn r))"

definition read_report :: "tool_host \<Rightarrow> string \<Rightarrow> access_token option \<Rightarrow> analysis_report tool_op" where
  "read_report H analysis_id token =
     obind (allowed H token ''analysis:read'') (\<lambda>ok.
     obind (oguard ok (ToolError ''analysis:read is required'')) (\<lambda>_.
     case token of None \<Rightarrow> oraise AssertionError | Some t \<Rightarrow> read_as H analysis_id t))"

section \<open>The middleware\<close>

text \<open>
  A request with its query keys, the authenticated user's token, and the chunks of its body. It is refused
  with a status, or passed on, then with the collected body if it was read.
\<close>

record http_request =
  hq_type :: string
  hq_path :: string
  hq_query :: "string list"
  hq_user :: "access_token option"
  hq_method :: string
  hq_chunks :: "string list"

datatype passage = Refused nat | Passed "string option"

fun read_body :: "string \<Rightarrow> string list \<Rightarrow> string option" where
  "read_body body [] = Some body"
| "read_body body (c # cs) = (if 65536 < length (body @ c) then None else read_body (body @ c) cs)"

text \<open>The scope that a method requires, and whether the capability is registered.\<close>

definition required_scope :: "json \<Rightarrow> json \<Rightarrow> (string \<times> bool) option" where
  "required_scope call params =
     (if call = JStr ''tools/call'' then Some (''analysis:run'',
        (case params of JObj p \<Rightarrow> dget p ''name'' = JStr ''analyze_code'' | _ \<Rightarrow> False))
      else if call = JStr ''resources/read'' then Some (''analysis:read'',
        (case params of JObj p \<Rightarrow> (case dget p ''uri'' of JStr u \<Rightarrow> RESOURCE_URI u | _ \<Rightarrow> False) | _ \<Rightarrow> False))
      else None)"

definition check_arguments :: "tool_host \<Rightarrow> access_token \<Rightarrow> json \<Rightarrow> json \<Rightarrow> string \<Rightarrow> passage tool_op" where
  "check_arguments H t call params body =
     (if call \<noteq> JStr ''tools/call'' then oreturn (Passed (Some body))
      else case rbind (json_get params ''arguments'' (JObj [])) analysis_request_validate of
          Inr _ \<Rightarrow> oreturn (Passed (Some body))
        | Inl (ValueError _) \<Rightarrow> obind (repository_audit H ([(''decision'', JStr ''allowed''), (''outcome'', JStr ''invalid_arguments'')] @ caller t))
            (\<lambda>_. oreturn (Refused 400))
        | Inl e \<Rightarrow> oraise e)"

definition check_capability :: "tool_host \<Rightarrow> access_token \<Rightarrow> jdict \<Rightarrow> string \<Rightarrow> passage tool_op" where
  "check_capability H t payload body = (let call = dget payload ''method'';
       params = (if truthy (dget payload ''params'') then dget payload ''params'' else JObj []) in
     case required_scope call params of
       None \<Rightarrow> check_arguments H t call params body
     | Some (scope, registered) \<Rightarrow>
         obind (allowed H (Some t) scope) (\<lambda>ok.
         if registered \<and> ok then check_arguments H t call params body
         else obind (repository_audit H ([(''decision'', JStr ''denied''),
             (''outcome'', JStr (if registered then ''insufficient_scope'' else ''unknown_capability''))] @ caller t
             @ [(''capability'', call), (''required_scope'', JStr scope)])) (\<lambda>_. oreturn (Refused 403))))"

definition scope_middleware :: "tool_host \<Rightarrow> http_request \<Rightarrow> passage tool_op" where
  "scope_middleware H q =
     (if hq_type q \<noteq> ''http'' \<or> hq_path q \<noteq> ''/mcp'' then oreturn (Passed None)
      else if ''access_token'' \<in> set (hq_query q) then oreturn (Refused 400)
      else case hq_user q of
        None \<Rightarrow> obind (repository_audit H [(''decision'', JStr ''denied''), (''outcome'', JStr ''unauthenticated'')])
          (\<lambda>_. oreturn (Passed None))
      | Some t \<Rightarrow>
          if hq_method q \<noteq> ''POST'' then oreturn (Passed None)
          else case read_body [] (hq_chunks q) of
            None \<Rightarrow> oreturn (Refused 413)
          | Some body \<Rightarrow>
              (case th_loads H body of
                 Inr (JObj payload) \<Rightarrow> check_capability H t payload body
               | Inr _ \<Rightarrow> oreturn (Refused 400)
               | Inl (ValueError _) \<Rightarrow> oreturn (Refused 400)
               | Inl e \<Rightarrow> oraise e))"

text \<open>The checks of \<open>create_tool_app\<close> and \<open>run\<close>.\<close>

definition tool_resource :: "(string \<Rightarrow> bool) \<Rightarrow> settings \<Rightarrow> string result" where
  "tool_resource literal s = rbind (validate_service_url literal (cf_mcp_url s)) (\<lambda>resource.
     rbind (urlsplit literal resource) (\<lambda>parsed.
     if ur_path parsed \<noteq> ''/mcp'' then Inl (ValueError ''AIDLC_MCP_URL must use the /mcp endpoint'') else Inr resource))"

definition tool_address :: "(string \<Rightarrow> bool) \<Rightarrow> settings \<Rightarrow> (string \<times> nat) result" where
  "tool_address literal s = rbind (urlsplit literal (cf_mcp_url s)) (\<lambda>endpoint.
     case ur_hostname endpoint of
       Some host \<Rightarrow>
         if host \<notin> set LOOPBACK then Inl (ValueError ''The development MCP service must bind to loopback'')
         else rbind (ur_port endpoint) (\<lambda>port. Inr (host, case port of Some (Suc n) \<Rightarrow> Suc n | _ \<Rightarrow> 8002))
     | None \<Rightarrow> Inl (ValueError ''The development MCP service must bind to loopback''))"

end
