(* ===== verification/ToolAccess.thy ===== *)
theory ToolAccess
  imports ToolService Interaction
begin

text \<open>
  Who may use the tool service and on what: owners are identities, results belong to their owner, only intact
  sources of the hub reach the analyzer, and the middleware lets only permitted capabilities through.
\<close>

section \<open>Owners are identities\<close>

definition hex_value :: "char \<Rightarrow> nat" where
  "hex_value c = (if of_char c < (58 :: nat) then of_char c - 48 else of_char c - 87)"

text \<open>Reads one escaped character back.\<close>

fun unescape :: "string \<Rightarrow> char \<times> string" where
  "unescape (x # y # r) =
     (if x \<noteq> CHR 0x5C then (x, y # r)
      else if y = CHR ''n'' then (CHR 0x0A, r) else if y = CHR ''r'' then (CHR 0x0D, r)
      else if y = CHR ''t'' then (CHR 0x09, r) else if y = CHR ''f'' then (CHR 0x0C, r)
      else if y = CHR ''b'' then (CHR 0x08, r)
      else if y = CHR ''u'' then (char_of (16 * hex_value (r ! 2) + hex_value (r ! 3)), drop 4 r)
      else (y, r))"
| "unescape (x # []) = (x, [])"
| "unescape [] = (CHR 0x00, [])"

lemma hex_value_digit: "n < 16 \<Longrightarrow> hex_value (hex_digit n) = n"
  by (simp add: hex_value_def hex_digit_def of_char_of)

lemma unescape_plain: "x \<noteq> CHR 0x5C \<Longrightarrow> unescape (x # r) = (x, r)"
  by (cases r) simp_all

lemma special_chars:
  "char_of (34 :: nat) = CHR 0x22" "char_of (92 :: nat) = CHR 0x5C" "char_of (10 :: nat) = CHR 0x0A"
  "char_of (13 :: nat) = CHR 0x0D" "char_of (9 :: nat) = CHR 0x09" "char_of (12 :: nat) = CHR 0x0C" "char_of (8 :: nat) = CHR 0x08"
  by code_simp+

lemma of_char_char: "(of_char c :: nat) = n \<Longrightarrow> c = char_of n"
  by (metis char_of_char)

lemma unescape_escape: "unescape (escape_char c @ r) = (c, r)"
proof -
  define n where "n = (of_char c :: nat)"
  have c: "c = char_of n" by (simp add: n_def)
  have n: "n < 256" by (simp add: n_def)
  consider "n = 34" | "n = 92" | "n = 10" | "n = 13" | "n = 9" | "n = 12" | "n = 8"
    | "n \<notin> {34, 92, 10, 13, 9, 12, 8}" "32 \<le> n" "n \<le> 126" | "n \<notin> {34, 92, 10, 13, 9, 12, 8}" "\<not> (32 \<le> n \<and> n \<le> 126)"
    by blast
  then show ?thesis
  proof cases
    case 8
    then have "escape_char c = [c]" "c \<noteq> CHR 0x5C" by (auto simp: escape_char_def Let_def n_def)
    then show ?thesis by (simp add: unescape_plain)
  next
    case 9
    then have "escape_char c = [CHR 0x5C, CHR ''u'', CHR ''0'', CHR ''0'', hex_digit (n div 16), hex_digit (n mod 16)]"
      by (auto simp: escape_char_def Let_def n_def)
    moreover have "hex_value (hex_digit (n div 16)) = n div 16" "hex_value (hex_digit (n mod 16)) = n mod 16"
      using n by (auto intro!: hex_value_digit)
    ultimately show ?thesis by (simp add: c)
  qed (simp_all add: escape_char_def Let_def n_def [symmetric] c special_chars)
qed

lemma escape_char_inj: "escape_char c @ xs = escape_char d @ ys \<Longrightarrow> c = d \<and> xs = ys"
  by (metis unescape_escape prod.inject)

lemma escape_char_Cons: "\<exists>x xs. escape_char c = x # xs \<and> x \<noteq> CHR 0x22"
  by (auto simp: escape_char_def Let_def)

lemma quote_inj: "quote s @ xs = quote t @ ys \<Longrightarrow> s = t \<and> xs = ys"
proof (induction s arbitrary: t)
  case Nil
  show ?case
  proof (cases t)
    case (Cons d t')
    then show ?thesis using Nil escape_char_Cons [of d] by (auto simp: quote_def)
  qed (use Nil in \<open>simp add: quote_def\<close>)
next
  case (Cons c s)
  obtain d t' where t: "t = d # t'"
  proof (cases t)
    case Nil
    then show ?thesis using Cons.prems escape_char_Cons [of c] by (auto simp: quote_def)
  qed blast
  have "escape_char c @ (concat (map escape_char s) @ [CHR 0x22] @ xs) = escape_char d @ (concat (map escape_char t') @ [CHR 0x22] @ ys)"
    using Cons.prems t by (simp add: quote_def)
  from escape_char_inj [OF this] have "c = d"
    "concat (map escape_char s) @ [CHR 0x22] @ xs = concat (map escape_char t') @ [CHR 0x22] @ ys" by simp_all
  with Cons.IH [of t'] t show ?case by (simp add: quote_def)
qed

lemma quote_not_null: "quote s @ xs \<noteq> ''null'' @ ys"
  by (simp add: quote_def)

definition null_or :: "string option \<Rightarrow> string" where
  "null_or a = (case a of None \<Rightarrow> ''null'' | Some i \<Rightarrow> quote i)"

lemma null_or_inj: "null_or a @ xs = null_or b @ ys \<Longrightarrow> a = b \<and> xs = ys"
proof (cases a; cases b)
  fix i j
  assume "null_or a @ xs = null_or b @ ys" "a = Some i" "b = Some j"
  then show ?thesis using quote_inj [of i xs j ys] by (simp add: null_or_def)
qed (auto simp: null_or_def quote_def)

definition same_identity :: "access_token \<Rightarrow> access_token \<Rightarrow> bool" where
  "same_identity t u \<longleftrightarrow> ac_client_id t = ac_client_id u \<and> ac_issuer t = ac_issuer u \<and> ac_subject t = ac_subject u"

lemma principal_eq_iff: "principal t = principal u \<longleftrightarrow> same_identity t u"
proof
  have p: "principal t = ''['' @ quote (ac_client_id t) @ '', '' @ null_or (ac_issuer t) @ '', '' @ null_or (ac_subject t) @ '']''" for t
    by (simp add: principal_def join_def null_or_def)
  assume "principal t = principal u"
  then have "quote (ac_client_id t) @ '', '' @ null_or (ac_issuer t) @ '', '' @ null_or (ac_subject t) @ '']''
    = quote (ac_client_id u) @ '', '' @ null_or (ac_issuer u) @ '', '' @ null_or (ac_subject u) @ '']''"
    unfolding p by (simp only: same_append_eq)
  from quote_inj [OF this] have c: "ac_client_id t = ac_client_id u"
    "null_or (ac_issuer t) @ '', '' @ null_or (ac_subject t) @ '']'' = null_or (ac_issuer u) @ '', '' @ null_or (ac_subject u) @ '']''"
    by (simp_all only: same_append_eq)
  from null_or_inj [OF c(2)] have i: "ac_issuer t = ac_issuer u" "null_or (ac_subject t) @ '']'' = null_or (ac_subject u) @ '']''"
    by (simp_all only: same_append_eq)
  from null_or_inj [OF i(2)] c(1) i(1) show "same_identity t u" by (simp add: same_identity_def)
qed (simp add: principal_def same_identity_def)

section \<open>Results belong to their owner\<close>

text \<open>One step of the world in which the service lives: its operations, or other work of the hub.\<close>

inductive tool_step :: "tool_host \<Rightarrow> tool_service \<Rightarrow> tool_service \<Rightarrow> bool" for H where
  by_analyze: "tool_step H s (snd (analyze H q token s))"
| by_read: "tool_step H s (snd (read_report H i token s))"
| by_middleware: "tool_step H s (snd (scope_middleware H r s))"
| by_hub: "tool_step H s (s\<lparr>tl_hub := h\<rparr>)"

text \<open>Operations that leave the rows of a result alone.\<close>

definition rows_of :: "string \<Rightarrow> tool_service \<Rightarrow> (string \<times> string \<times> analysis_report) list" where
  "rows_of i s = filter (\<lambda>(j, _). j = i) (tl_results s)"

definition same_rows :: "string \<Rightarrow> (tool_service, 'a) op \<Rightarrow> bool" where
  "same_rows i m \<longleftrightarrow> (\<forall>R. R \<noteq> [] \<longrightarrow> triple (\<lambda>s. rows_of i s = R) m (\<lambda>_ s. rows_of i s = R) (\<lambda>_ s. rows_of i s = R))"

lemma rows_of_update [simp]:
  "rows_of i (s\<lparr>tl_tick := n\<rparr>) = rows_of i s" "rows_of i (s\<lparr>tl_hub := h\<rparr>) = rows_of i s"
  "rows_of i (s\<lparr>tl_audit := a\<rparr>) = rows_of i s" "rows_of i (s\<lparr>tl_jobs := j\<rparr>) = rows_of i s"
  by (simp_all add: rows_of_def)

named_theorems row_intros "operations that leave the rows of a result alone"

lemma same_rows_bind [row_intros]: "same_rows i m \<Longrightarrow> (\<And>x. same_rows i (f x)) \<Longrightarrow> same_rows i (obind m f)"
  unfolding same_rows_def by (blast intro: triple_bind)

lemma same_rows_basic [row_intros]:
  "same_rows i (oreturn x)" "same_rows i (oraise e)" "same_rows i (oread f)" "same_rows i (oguard b e)"
  "same_rows i (repository_audit H p)" "same_rows i (allowed H t c)" "same_rows i (fresh_id H)" "same_rows i (on_tool_hub m)"
  by (auto simp: same_rows_def triple_def op_simps repository_audit_def allowed_def fresh_id_def on_tool_hub_def ozoom_def
      split: sum.splits prod.splits if_splits)

lemma same_rows_if [row_intros]: "same_rows i m \<Longrightarrow> same_rows i n \<Longrightarrow> same_rows i (if b then m else n)"
  by simp

lemma same_rows_option [row_intros]: "same_rows i m \<Longrightarrow> (\<And>x. same_rows i (f x)) \<Longrightarrow> same_rows i (case t of None \<Rightarrow> m | Some x \<Rightarrow> f x)"
  by (cases t) simp_all

lemma same_rows_pair [row_intros]: "(\<And>a b. same_rows i (f a b)) \<Longrightarrow> same_rows i (case p of (a, b) \<Rightarrow> f a b)"
  by (cases p) simp

lemma same_rows_catch [row_intros]:
  assumes "same_rows i m" and "\<And>e h. handler e = Some h \<Longrightarrow> same_rows i h"
  shows "same_rows i (ocatch m handler)"
  unfolding same_rows_def
proof (intro allI impI)
  fix R :: "(string \<times> string \<times> analysis_report) list"
  assume "R \<noteq> []"
  show "triple (\<lambda>s. rows_of i s = R) (ocatch m handler) (\<lambda>_ s. rows_of i s = R) (\<lambda>_ s. rows_of i s = R)"
    by (rule triple_catch [where R = "\<lambda>_ s. rows_of i s = R"]) (use assms \<open>R \<noteq> []\<close> in \<open>auto simp: same_rows_def\<close>)
qed

lemma same_rows_save [row_intros]: "same_rows i (repository_save owner r)"
  by (auto simp: same_rows_def triple_def repository_save_def rows_of_def filter_empty_conv image_iff) force+

lemma same_rows_analyzer [row_intros]: "same_rows i (invoke_analyzer H t q job)"
  unfolding invoke_analyzer_def
proof (rule same_rows_catch)
  show "same_rows i (\<lambda>s. (th_analyzer H (tl_tick s) job, s\<lparr>tl_tick := tl_tick s + 1, tl_jobs := tl_jobs s @ [job]\<rparr>))"
    by (auto simp: same_rows_def triple_def rows_of_def split: sum.split)
qed (auto intro!: row_intros)

lemma same_rows_source [row_intros]:
  "same_rows i (ocatch (oread (intact_source H q)) (\<lambda>e. if source_failure e
       then Some (obind (repository_audit H p) (\<lambda>_. oraise (ToolError t))) else None))"
  by (rule same_rows_catch) (auto intro!: row_intros split: if_splits)

lemma same_rows_analyze: "same_rows i (analyze H q token)"
  unfolding analyze_def analyze_as_def audit_report_def Let_def by (intro row_intros)

lemma same_rows_read: "same_rows i (read_report H j token)"
  unfolding read_report_def read_as_def by (intro row_intros)

lemma same_rows_arguments [row_intros]: "same_rows i (check_arguments H t call params body)"
  unfolding check_arguments_def by (auto intro!: row_intros split: sum.split py_error.split)

lemma same_rows_middleware: "same_rows i (scope_middleware H r)"
  unfolding scope_middleware_def check_capability_def Let_def
  by (auto intro!: row_intros split: sum.split py_error.split json.split option.split)

lemma same_rows_snd: "same_rows i m \<Longrightarrow> rows_of i s \<noteq> [] \<Longrightarrow> rows_of i (snd (m s)) = rows_of i s"
proof -
  assume "same_rows i m" "rows_of i s \<noteq> []"
  then have t: "triple (\<lambda>t. rows_of i t = rows_of i s) m (\<lambda>_ t. rows_of i t = rows_of i s) (\<lambda>_ t. rows_of i t = rows_of i s)"
    by (simp add: same_rows_def)
  obtain r s' where m: "m s = (r, s')" by fastforce
  from tripleD [OF t refl m] show "rows_of i (snd (m s)) = rows_of i s" using m by (cases r) simp_all
qed

lemma tool_steps_keep_rows:
  assumes "(tool_step H)\<^sup>*\<^sup>* s s'" "rows_of i s \<noteq> []"
  shows "rows_of i s' = rows_of i s"
  using assms(1)
proof (induction rule: rtranclp_induct)
  case (step y z)
  from step(2) have "rows_of i z = rows_of i y"
    by cases (use step(3) assms(2) same_rows_snd [OF same_rows_analyze] same_rows_snd [OF same_rows_read]
        same_rows_snd [OF same_rows_middleware] in auto)
  with step(3) show ?case by simp
qed simp

lemma repository_read_rows:
  "repository_read owner i s = map_option (\<lambda>(_, _, r). r) (List.find (\<lambda>(_, own, _). own = owner) (rows_of i s))"
proof -
  have "List.find (\<lambda>(j, own, _). j = i \<and> own = owner) xs = List.find (\<lambda>(_, own, _). own = owner) (filter (\<lambda>(j, _). j = i) xs)" for xs :: "(string \<times> string \<times> analysis_report) list"
    by (induction xs) auto
  then show ?thesis by (simp add: repository_read_def rows_of_def)
qed

lemma same_rowsD: "same_rows i m \<Longrightarrow> m s = (r, s') \<Longrightarrow> rows_of i s \<noteq> [] \<Longrightarrow> rows_of i s' = rows_of i s"
  using same_rows_snd [of i m s] by simp

text \<open>What a successful analysis was: the steps of \<open>analyze\<close> in order.\<close>

lemma analyze_Inr:
  assumes "analyze H q (Some t) s = (Inr r, s')"
  obtains record' files job result k s1 s2 s3 where
    "permitted (th_time H (tl_tick s)) (Some t) ''analysis:run''"
    "intact_source H q (s\<lparr>tl_tick := tl_tick s + 1\<rparr>) = Inr (record', files)"
    "permitted (th_time H (tl_tick s + 1)) (Some t) ''analysis:run''"
    "job = \<lparr>aj_source = files, aj_timeout_seconds = min (aq_timeout_seconds q) (int (cf_analysis_timeout_seconds (th_settings H))),
         aj_max_output_bytes = int (cf_analysis_max_output_bytes (th_settings H))\<rparr>"
    "invoke_analyzer H t q job (s\<lparr>tl_tick := tl_tick s + 2\<rparr>) = (Inr result, s1)"
    "fresh_id H s1 = (Inr (''an_'' @ wd_uid (th_world H) k), s2)"
    "r = new_report (''an_'' @ wd_uid (th_world H) k) q record' result"
    "repository_save (principal t) r s2 = (Inr (), s3)"
    "audit_report H t r (status_text (az_status r)) s3 = (Inr (), s')"
proof -
  from assms show thesis
    unfolding analyze_def analyze_as_def Let_def obind_Inr allowed_def
    by (auto simp: op_simps ocatch_def obind_Inr fresh_id_def split: if_splits sum.splits option.splits intro!: that)
qed

lemma analyze_stores:
  assumes "analyze H q (Some t) s = (Inr r, s')"
  shows "rows_of (rp_analysis_id r) s' = [(rp_analysis_id r, principal t, r)]"
    and "\<exists>k. rp_analysis_id r = ''an_'' @ wd_uid (th_world H) k"
proof -
  let ?i = "rp_analysis_id r"
  obtain k result record' s2 s3 where r: "r = new_report (''an_'' @ wd_uid (th_world H) k) q record' result"
    and save: "repository_save (principal t) r s2 = (Inr (), s3)"
    and audit: "audit_report H t r (status_text (az_status r)) s3 = (Inr (), s')"
    by (rule analyze_Inr [OF assms])
  show "\<exists>k. ?i = ''an_'' @ wd_uid (th_world H) k" using r by (auto simp: new_report_def)
  from save have rows: "rows_of ?i s3 = [(?i, principal t, r)]"
    by (auto simp: repository_save_def rows_of_def filter_empty_conv image_iff split: if_splits) force+
  have "same_rows ?i (audit_report H t r (status_text (az_status r)))"
    unfolding audit_report_def by (intro row_intros)
  from same_rowsD [OF this audit] rows show "rows_of ?i s' = [(?i, principal t, r)]" by simp
qed

text \<open>
  C19. Results belong to their owner. After a successful analysis and whatever the service and the hub do next,
  a caller who may read gets exactly that report if client, issuer and subject are those of the token it was
  requested with, and otherwise is told that there is no such result. (Universally unique identifiers are 32
  lower-case hexadecimal digits.)
\<close>

theorem results_owner_bound:
  assumes "analyze H q (Some t) s = (Inr r, s1)" and "(tool_step H)\<^sup>*\<^sup>* s1 s2"
    and "permitted (th_time H (tl_tick s2)) (Some u) ''analysis:read''"
    and "\<And>k. hex_text 32 (wd_uid (th_world H) k)"
  shows "fst (read_report H (rp_analysis_id r) (Some u) s2) =
    (if ac_client_id u = ac_client_id t \<and> ac_issuer u = ac_issuer t \<and> ac_subject u = ac_subject t
     then Inr r else Inl (ToolError ''Analysis result not found for this caller''))"
proof -
  let ?i = "rp_analysis_id r"
  have "rows_of ?i s2 = [(?i, principal t, r)]"
    using tool_steps_keep_rows [OF assms(2)] analyze_stores(1) [OF assms(1)] by simp
  moreover have "REPORT_ID ?i" using analyze_stores(2) [OF assms(1)] assms(4) by (auto simp: REPORT_ID_def starts_with_def)
  moreover have "rows_of ?i (s2\<lparr>tl_tick := n\<rparr>) = rows_of ?i s2" for n by simp
  ultimately have "fst (read_report H ?i (Some u) s2) =
      (if principal t = principal u then Inr r else Inl (ToolError ''Analysis result not found for this caller''))"
    using assms(3) by (simp add: read_report_def read_as_def obind_def allowed_def op_simps repository_read_rows repository_audit_def)
  then show ?thesis by (auto simp: principal_eq_iff same_identity_def)
qed

section \<open>Only intact sources are analyzed\<close>

text \<open>The source of a request: a published artifact of the right kind, whose content has the digest asked for.\<close>

definition requested_source :: "tool_host \<Rightarrow> analysis_request \<Rightarrow> tool_service \<Rightarrow> artifact_record \<Rightarrow> source_file list \<Rightarrow> bool" where
  "requested_source H q s record' files \<longleftrightarrow>
     get_artifact (hb_db (tl_hub s)) (aq_artifact_id q) = Some record'
     \<and> md_kind (ar_metadata record') \<in> {CODE_CHANGE, INTEGRATED_SOURCE} \<and> th_inside H (ar_content_path record')
     \<and> (\<exists>content. read_content (wd_py (th_world H)) (hb_store (tl_hub s)) record' = Inr content
         \<and> content_digest (wd_py (th_world H)) content = aq_content_sha256 q
         \<and> source_bundle_validate content = Inr files)"

lemma intact_source_requested:
  assumes "intact_source H q s = Inr (record', files)"
  shows "requested_source H q s record' files"
  using assms read_content_digest
  by (auto simp: intact_source_def requested_source_def Let_def rbind_eq_Inr split: option.splits if_splits)

definition job_of :: "tool_host \<Rightarrow> analysis_request \<Rightarrow> source_file list \<Rightarrow> analysis_job" where
  "job_of H q files = \<lparr>aj_source = files, aj_timeout_seconds = min (aq_timeout_seconds q) (int (cf_analysis_timeout_seconds (th_settings H))),
     aj_max_output_bytes = int (cf_analysis_max_output_bytes (th_settings H))\<rparr>"

text \<open>Operations that start no job.\<close>

definition idle_op :: "(tool_service, 'a) op \<Rightarrow> bool" where
  "idle_op m \<longleftrightarrow> (\<forall>J. triple (\<lambda>s. tl_jobs s = J) m (\<lambda>_ s. tl_jobs s = J) (\<lambda>_ s. tl_jobs s = J))"

named_theorems idle_intros "operations that start no job"

lemma idle_bind [idle_intros]: "idle_op m \<Longrightarrow> (\<And>x. idle_op (f x)) \<Longrightarrow> idle_op (obind m f)"
  unfolding idle_op_def by (blast intro: triple_bind)

lemma idle_basic [idle_intros]:
  "idle_op (oreturn x)" "idle_op (oraise e)" "idle_op (oread f)" "idle_op (oguard b e)"
  "idle_op (repository_audit H p)" "idle_op (allowed H t c)" "idle_op (fresh_id H)" "idle_op (on_tool_hub m)"
  "idle_op (repository_save own r)"
  by (auto simp: idle_op_def triple_def op_simps repository_audit_def allowed_def fresh_id_def on_tool_hub_def ozoom_def
      repository_save_def split: sum.splits prod.splits if_splits)

lemma idle_opD: "idle_op m \<Longrightarrow> m s = (r, s') \<Longrightarrow> tl_jobs s' = tl_jobs s"
  by (cases r) (fastforce simp: idle_op_def triple_def)+

lemma invoke_analyzer_jobs: "invoke_analyzer H t q job s = (r, s') \<Longrightarrow> tl_jobs s' = tl_jobs s @ [job]"
  by (auto simp: invoke_analyzer_def ocatch_def obind_def op_simps repository_audit_def split: sum.splits if_splits)

definition store_report :: "tool_host \<Rightarrow> analysis_request \<Rightarrow> access_token \<Rightarrow> artifact_record \<Rightarrow> analyzer_result \<Rightarrow> analysis_report tool_op" where
  "store_report H q t record' r = obind (fresh_id H) (\<lambda>analysis_id.
     let report = new_report analysis_id q record' r in
     obind (repository_save (principal t) report) (\<lambda>_.
     obind (audit_report H t report (status_text (az_status report))) (\<lambda>_.
     oreturn report)))"

lemma idle_store_report: "idle_op (store_report H q t record' r)"
  unfolding store_report_def audit_report_def Let_def by (intro idle_intros)

lemma analyze_as_jobs:
  assumes "analyze_as H q t s = (res, s')"
  shows "tl_jobs s' = tl_jobs s \<and> (\<forall>r. res \<noteq> Inr r)
    \<or> (\<exists>record' files. intact_source H q s = Inr (record', files) \<and> tl_jobs s' = tl_jobs s @ [job_of H q files]
        \<and> permitted (th_time H (tl_tick s)) (Some t) ''analysis:run'')"
proof (cases "intact_source H q s")
  case (Inl e)
  with assms have "(if source_failure e then obind (repository_audit H ([(''decision'', JStr ''allowed''), (''outcome'', JStr ''invalid_source_artifact'')] @ caller t
           @ [(''artifact_id'', JStr (aq_artifact_id q)), (''content_sha256'', JStr (aq_content_sha256 q))]))
         (\<lambda>_. oraise (ToolError ''Expected an intact code_change source bundle with the supplied hash'')) s else (Inl e, s)) = (res, s')"
    by (auto simp: analyze_as_def obind_def ocatch_def op_simps split: if_splits prod.splits sum.splits)
  then show ?thesis by (auto simp: obind_def op_simps repository_audit_def split: if_splits)
next
  case (Inr p)
  obtain record' files where p: "p = (record', files)" by fastforce
  let ?s = "s\<lparr>tl_tick := tl_tick s + 1\<rparr>"
  have run: "(if permitted (th_time H (tl_tick s)) (Some t) ''analysis:run''
       then obind (invoke_analyzer H t q (job_of H q files)) (store_report H q t record') ?s
       else (Inl (ToolError ''Access token expired while waiting for analysis''), ?s)) = (res, s')"
    using assms Inr p unfolding analyze_as_def store_report_def job_of_def
    by (simp add: obind_def [of "ocatch m h" for m h] obind_def [of "allowed H x y" for x y] obind_def [of "oguard b e" for b e]
        ocatch_def op_simps allowed_def split: if_splits)
  show ?thesis
  proof (cases "permitted (th_time H (tl_tick s)) (Some t) ''analysis:run''")
    case False
    with run show ?thesis by auto
  next
    case True
    with run have "obind (invoke_analyzer H t q (job_of H q files)) (store_report H q t record') ?s = (res, s')" by simp
    then have "tl_jobs s' = tl_jobs s @ [job_of H q files]"
    proof (cases rule: obind_cases)
      case (1 e)
      from invoke_analyzer_jobs [OF 1(1)] show ?thesis by simp
    next
      case (2 x s1)
      from invoke_analyzer_jobs [OF 2(1)] idle_opD [OF idle_store_report 2(2)] show ?thesis by simp
    qed
    with True Inr p show ?thesis by blast
  qed
qed


definition demo_token :: "string \<Rightarrow> string \<Rightarrow> access_token" where
  "demo_token client scope = \<lparr>ac_token = [], ac_client_id = client, ac_subject = Some ''s'', ac_scopes = [scope],
     ac_expires_at = Some 10, ac_issuer = Some ''i''\<rparr>"

definition demo_content :: jdict where
  "demo_content = source_bundle_dump tiny_bundle"

definition demo_change :: artifact_record where
  "demo_change = \<lparr>ar_metadata = \<lparr>md_project_id = ''p'', md_current_snapshot = True, md_schema_version = ''1'', md_artifact_id = ''art_1'',
     md_kind = CODE_CHANGE, md_workflow_run_id = ''run_1'', md_stage_id = IMPLEMENTATION, md_parent_artifact_ids = [],
     md_producing_agent = ''backend-agent'', md_model_id = None, md_prompt_version = None, md_execution = [], md_created_at = 0,
     md_content_sha256 = content_digest demo_env demo_content\<rparr>, ar_content_path = [''d'']\<rparr>"

definition demo_analysis :: analyzer_result where
  "demo_analysis = \<lparr>az_status = SB_completed, az_findings = [], az_execution = local_execution 1 False False\<rparr>"

definition demo_tools :: tool_host where
  "demo_tools = \<lparr>th_world = demo_world\<lparr>wd_uid := (\<lambda>_. replicate 32 CHR ''a'')\<rparr>, th_settings = demo_settings, th_time = (\<lambda>_. 0), th_stamp = (\<lambda>_. []),
     th_inside = (\<lambda>_. True), th_size = (\<lambda>_ _. Inr 1), th_analyzer = (\<lambda>_ _. Inr demo_analysis), th_loads = (\<lambda>_. Inr (JObj []))\<rparr>"

definition demo_tool_service :: tool_service where
  "demo_tool_service = \<lparr>tl_tick = 0, tl_hub = demo_hub\<lparr>hb_store := (empty_store [])\<lparr>st_dirs := [[''d''] \<mapsto> empty_dir\<lparr>ad_content := Some demo_content\<rparr>]\<rparr>,
     hb_db := (hb_db demo_hub)\<lparr>db_artifacts := [demo_change]\<rparr>\<rparr>, tl_results = [], tl_audit = [], tl_jobs = []\<rparr>"

definition demo_analysis_request :: analysis_request where
  "demo_analysis_request = \<lparr>aq_artifact_id = ''art_1'', aq_content_sha256 = content_digest demo_env demo_content, aq_timeout_seconds = 60\<rparr>"

abbreviation "demo_runner \<equiv> demo_token ''backend-agent'' ''analysis:run''"

lemma demo_intact: "\<exists>files. intact_source demo_tools demo_analysis_request (demo_tool_service\<lparr>tl_tick := n\<rparr>) = Inr (demo_change, files)"
proof -
  have "source_bundle_validate demo_content = Inr tiny_bundle" unfolding demo_content_def by (rule tiny_bundle_validates)
  moreover have "read_content demo_env (hb_store (tl_hub demo_tool_service)) demo_change = Inr demo_content"
    by (simp add: read_content_def demo_tool_service_def demo_change_def empty_dir_def)
  ultimately show ?thesis
    by (simp add: intact_source_def demo_tools_def demo_world_def demo_tool_service_def get_artifact_def demo_change_def demo_analysis_request_def)
qed

lemma demo_permitted:
  "permitted (th_time demo_tools n) (Some demo_runner) ''analysis:run''"
  "permitted (th_time demo_tools n) (Some (demo_token client ''analysis:read'')) ''analysis:read''"
  by (simp_all add: permitted_def demo_tools_def demo_token_def RUN_CLIENTS_def)

lemma audit_report_succeeds:
  assumes "rp_run_id r \<in> set (run_ids (hb_db (tl_hub s)))"
  shows "\<exists>s'. audit_report H t r w s = (Inr (), s')"
proof -
  have "\<exists>h'. event W i t p h = (Inr (), h')" if "i \<in> set (run_ids (hb_db h))" for W i t p h
    using that by (simp add: event_def hbind_def on_db_def append_event_def hreturn_def Let_def)
  from this [OF assms] obtain h' where h': "event (th_world H) (rp_run_id r) ''mcp.analysis''
      (analysis_event t r w (List.find (\<lambda>d. dt_agent d = ''static-analysis-agent'') (list_delegated_tasks (hb_db (tl_hub s)) (rp_run_id r))))
      (tl_hub s) = (Inr (), h')" by blast
  then show ?thesis
    by (simp add: audit_report_def obind_def op_simps repository_audit_def on_tool_hub_def ozoom_def)
qed

lemma demo_analyzed: "\<exists>r s'. analyze demo_tools demo_analysis_request (Some demo_runner) demo_tool_service = (Inr r, s')"
proof -
  let ?H = demo_tools and ?s = "demo_tool_service\<lparr>tl_tick := 1\<rparr>"
  let ?job = "job_of ?H demo_analysis_request"
  obtain files where files: "intact_source ?H demo_analysis_request ?s = Inr (demo_change, files)"
    using demo_intact by blast
  define s1 where "s1 = ?s\<lparr>tl_tick := 3, tl_jobs := [?job files]\<rparr>"
  define r where "r = new_report (''an_'' @ wd_uid (th_world ?H) (hb_tick (tl_hub s1))) demo_analysis_request demo_change demo_analysis"
  define s2 where "s2 = s1\<lparr>tl_hub := (tl_hub s1)\<lparr>hb_tick := hb_tick (tl_hub s1) + 1\<rparr>, tl_results := [(rp_analysis_id r, principal demo_runner, r)]\<rparr>"
  have "rp_run_id r \<in> set (run_ids (hb_db (tl_hub s2)))"
    using demo_hub_runs by (simp add: r_def new_report_def demo_change_def s2_def s1_def demo_tool_service_def run_ids_def)
  then obtain s3 where s3: "audit_report ?H demo_runner r (status_text (az_status r)) s2 = (Inr (), s3)"
    using audit_report_succeeds by blast
  define s1' where "s1' = s1\<lparr>tl_hub := (tl_hub s1)\<lparr>hb_tick := hb_tick (tl_hub s1) + 1\<rparr>\<rparr>"
  have fresh: "fresh_id ?H s1 = (Inr (''an_'' @ wd_uid (th_world ?H) (hb_tick (tl_hub s1))), s1')"
    by (simp add: fresh_id_def s1'_def)
  have save: "repository_save (principal demo_runner) r s1' = (Inr (), s2)"
    by (simp add: repository_save_def s2_def s1'_def s1_def demo_tool_service_def)
  have "store_report ?H demo_analysis_request demo_runner demo_change demo_analysis s1 = (Inr r, s3)"
    unfolding store_report_def obind_run(2) [of "fresh_id ?H", OF fresh] Let_def r_def [symmetric]
      obind_run(2) [of "repository_save (principal demo_runner) r", OF save]
      obind_run(2) [of "audit_report ?H demo_runner r (status_text (az_status r))", OF s3] op_run ..
  moreover have "invoke_analyzer ?H demo_runner demo_analysis_request (?job files) (?s\<lparr>tl_tick := 2\<rparr>) = (Inr demo_analysis, s1)"
    by (simp add: invoke_analyzer_def ocatch_def s1_def demo_tools_def demo_tool_service_def)
  ultimately have "analyze_as ?H demo_analysis_request demo_runner ?s = (Inr r, s3)"
    using files demo_permitted(1)
    by (simp add: analyze_as_def obind_def [of "ocatch m h" for m h] obind_def [of "allowed H x y" for H x y] obind_def [of "oguard b e" for b e]
        obind_def [of "invoke_analyzer H t q j" for H t q j] ocatch_def op_simps allowed_def job_of_def store_report_def numeral_2_eq_2)
  then show ?thesis
    using demo_permitted(1) by (simp add: analyze_def obind_def allowed_def op_simps demo_tool_service_def)
qed

theorem results_owner_bound_witness:
  "\<exists>r s1. analyze demo_tools demo_analysis_request (Some demo_runner) demo_tool_service = (Inr r, s1)
     \<and> fst (read_report demo_tools (rp_analysis_id r) (Some (demo_token ''backend-agent'' ''analysis:read'')) s1) = Inr r
     \<and> (\<exists>e. fst (read_report demo_tools (rp_analysis_id r) (Some (demo_token ''test-agent'' ''analysis:read'')) s1) = Inl e)"
proof -
  obtain r s1 where r: "analyze demo_tools demo_analysis_request (Some demo_runner) demo_tool_service = (Inr r, s1)"
    using demo_analyzed by blast
  have u: "hex_text 32 (wd_uid (th_world demo_tools) k)" for k
    by (simp add: hex_text_def demo_tools_def is_lower_hex_def is_digit_def list_all_iff)
  from results_owner_bound [OF r rtranclp.rtrancl_refl demo_permitted(2) u] r show ?thesis
    by (simp add: demo_token_def)
qed


section \<open>The middleware\<close>

lemma read_body_Some: "read_body b cs = Some body \<Longrightarrow> length b \<le> 65536 \<Longrightarrow> body = b @ concat cs \<and> length body \<le> 65536"
proof (induction cs arbitrary: b)
  case (Cons c cs)
  from Cons.prems have "length (b @ c) \<le> 65536" "read_body (b @ c) cs = Some body" by (auto split: if_splits)
  with Cons.IH [of "b @ c"] show ?case by auto
qed simp

text \<open>What a request for a capability has to hold.\<close>

definition granted :: "tool_host \<Rightarrow> rat \<Rightarrow> access_token \<Rightarrow> jdict \<Rightarrow> bool" where
  "granted H now t payload \<longleftrightarrow>
     (dget payload ''method'' = JStr ''tools/call'' \<longrightarrow> (\<exists>p a. dget payload ''params'' = JObj p \<and> dget p ''name'' = JStr ''analyze_code''
        \<and> permitted now (Some t) ''analysis:run''
        \<and> analysis_request_validate (case map_of p ''arguments'' of None \<Rightarrow> JObj [] | Some v \<Rightarrow> v) = Inr a))
     \<and> (dget payload ''method'' = JStr ''resources/read'' \<longrightarrow> (\<exists>p u. dget payload ''params'' = JObj p \<and> dget p ''uri'' = JStr u
        \<and> RESOURCE_URI u \<and> permitted now (Some t) ''analysis:read''))"

lemma dget_empty: "dget [] k = JNull"
  by (simp add: dget_def)

lemma params_obj:
  "(if truthy v then v else JObj []) = JObj p \<Longrightarrow> dget p k = JStr x \<Longrightarrow> v = JObj p"
  by (auto simp: dget_empty split: if_splits)

lemma check_arguments_passed:
  assumes "check_arguments H t call params body s = (Inr (Passed b), s')"
  shows "b = Some body \<and> s' = s \<and> (call = JStr ''tools/call'' \<longrightarrow>
    (\<exists>a. rbind (json_get params ''arguments'' (JObj [])) analysis_request_validate = Inr a))"
  using assms by (auto simp: check_arguments_def op_simps obind_def repository_audit_def split: if_splits sum.splits py_error.splits)

lemma check_capability_passed:
  assumes "check_capability H t payload body s = (Inr (Passed b), s')"
  shows "b = Some body \<and> (s' = s \<or> s' = s\<lparr>tl_tick := tl_tick s + 1\<rparr>) \<and> granted H (th_time H (tl_tick s)) t payload"
proof -
  let ?call = "dget payload ''method''" and ?params = "if truthy (dget payload ''params'') then dget payload ''params'' else JObj []"
  show ?thesis
  proof (cases "required_scope ?call ?params")
    case None
    then have "?call \<noteq> JStr ''tools/call''" "?call \<noteq> JStr ''resources/read''" by (auto simp: required_scope_def split: if_splits)
    moreover have "check_arguments H t ?call ?params body s = (Inr (Passed b), s')"
      using assms None by (simp add: check_capability_def Let_def)
    ultimately show ?thesis using check_arguments_passed by (auto simp: granted_def)
  next
    case (Some sr)
    obtain scope registered where sr: "sr = (scope, registered)" by fastforce
    let ?now = "th_time H (tl_tick s)"
    have run: "registered \<and> permitted ?now (Some t) scope"
      "check_arguments H t ?call ?params body (s\<lparr>tl_tick := tl_tick s + 1\<rparr>) = (Inr (Passed b), s')"
      using assms Some sr
      by (auto simp: check_capability_def Let_def obind_def allowed_def op_simps repository_audit_def split: if_splits)
    note arguments = check_arguments_passed [OF run(2)]
    consider "?call = JStr ''tools/call''" | "?call = JStr ''resources/read''"
      using Some by (auto simp: required_scope_def split: if_splits)
    then have "granted H ?now t payload"
    proof cases
      case 1
      with Some sr run(1) obtain p where p: "?params = JObj p" "dget p ''name'' = JStr ''analyze_code''" "scope = ''analysis:run''"
        by (auto simp: required_scope_def split: json.splits)
      from params_obj [OF p(1,2)] have "dget payload ''params'' = JObj p" .
      moreover from arguments 1 p(1) obtain a where "analysis_request_validate (case map_of p ''arguments'' of None \<Rightarrow> JObj [] | Some v \<Rightarrow> v) = Inr a"
        by (auto simp: json_get_def)
      ultimately show ?thesis using 1 p run(1) by (simp add: granted_def)
    next
      case 2
      with Some sr run(1) obtain p u where p: "?params = JObj p" "dget p ''uri'' = JStr u" "RESOURCE_URI u" "scope = ''analysis:read''"
        by (auto simp: required_scope_def split: json.splits)
      from params_obj [OF p(1,2)] 2 p run(1) show ?thesis by (simp add: granted_def)
    qed
    with arguments show ?thesis by simp
  qed
qed


definition demo_call :: jdict where
  "demo_call = [(''method'', JStr ''tools/call''), (''params'', JObj [(''name'', JStr ''analyze_code''), (''arguments'',
     JObj [(''artifact_id'', JStr (''art_'' @ replicate 32 CHR ''a'')), (''content_sha256'', JStr (replicate 64 CHR ''a''))])])]"

definition demo_post :: http_request where
  "demo_post = \<lparr>hq_type = ''http'', hq_path = ''/mcp'', hq_query = [], hq_user = Some demo_runner, hq_method = ''POST'', hq_chunks = [''{'', ''}'']\<rparr>"

abbreviation "demo_gate \<equiv> demo_tools\<lparr>th_loads := (\<lambda>_. Inr (JObj demo_call))\<rparr>"

lemma demo_posted: "scope_middleware demo_gate demo_post demo_tool_service
    = (Inr (Passed (Some ''{}'')), demo_tool_service\<lparr>tl_tick := 1\<rparr>)"
proof -
  have "case analysis_request_validate (JObj [(''artifact_id'', JStr (''art_'' @ replicate 32 CHR ''a'')),
      (''content_sha256'', JStr (replicate 64 CHR ''a''))]) of Inr _ \<Rightarrow> True | Inl _ \<Rightarrow> False"
    by code_simp
  then obtain a where a: "analysis_request_validate (JObj [(''artifact_id'', JStr (''art_'' @ replicate 32 CHR ''a'')),
      (''content_sha256'', JStr (replicate 64 CHR ''a''))]) = Inr a" by (auto split: sum.splits)
  define args where "args = JObj [(''artifact_id'', JStr (''art_'' @ replicate 32 CHR ''a'')), (''content_sha256'', JStr (replicate 64 CHR ''a''))]"
  have p: "permitted (th_time demo_gate n) (Some demo_runner) ''analysis:run''" for n
    using demo_permitted(1) by (simp add: demo_tools_def)
  show ?thesis
    using a p unfolding demo_call_def args_def [symmetric]
    by (simp add: scope_middleware_def demo_post_def check_capability_def dget_def required_scope_def Let_def obind_def allowed_def op_simps
      check_arguments_def json_get_def demo_tool_service_def)
qed


end
