(* ===== verification/AgentRuntime.thy ===== *)
theory AgentRuntime
  imports Effects Sources Finops Sandbox Workflow
begin

text \<open>
  \<open>agents/deep.py\<close>: what surrounds the model of a specialist. The agent graph of the library is an
  environment that answers the \<open>n\<close>-th invocation, given the messages sent; the readings of the model's output by
  Pydantic, the token usage that the callback collects and the id of the execution are parameters. Prompts are
  modelled up to the texts that the repair loops send.
\<close>

section \<open>Profiles\<close>

datatype output_schema = Brief_schema | Requirements_schema | Evaluation_schema | Source_schema | Release_schema
  | Plain_schema string

fun schema_name :: "output_schema \<Rightarrow> string" where
  "schema_name Brief_schema = ''BriefOutput''"
| "schema_name Requirements_schema = ''RequirementsOutput''"
| "schema_name Evaluation_schema = ''EvaluationOutput''"
| "schema_name Source_schema = ''SourceOutput''"
| "schema_name Release_schema = ''ReleaseOutput''"
| "schema_name (Plain_schema s) = s"

definition SPECIALISTS :: "(string \<times> output_schema \<times> artifact_kind) list" where
  "SPECIALISTS =
    [(''architecture-agent'', Plain_schema ''ArchitectureOutput'', ARCHITECTURE_DECISION),
     (''ux-agent'', Plain_schema ''UxOutput'', UX_SPECIFICATION),
     (''security-agent'', Plain_schema ''SecurityOutput'', THREAT_MODEL),
     (''test-planner-agent'', Plain_schema ''TestPlanOutput'', TEST_PLAN),
     (''planning-agent'', Plain_schema ''PlanningOutput'', IMPLEMENTATION_PLAN),
     (''backend-agent'', Source_schema, CODE_CHANGE),
     (''frontend-agent'', Source_schema, CODE_CHANGE),
     (''test-agent'', Source_schema, CODE_CHANGE),
     (''build-agent'', Plain_schema ''ExecutionReviewOutput'', BUILD_REPORT),
     (''validation-agent'', Plain_schema ''ExecutionReviewOutput'', TEST_REPORT),
     (''static-analysis-agent'', Plain_schema ''ExecutionReviewOutput'', STATIC_ANALYSIS_REPORT),
     (''release-agent'', Release_schema, RELEASE_BUNDLE)]"

definition agent_profile :: "stage_name \<Rightarrow> string \<Rightarrow> (output_schema \<times> artifact_kind) result" where
  "agent_profile stage name = (case map_of SPECIALISTS name of
       Some p \<Rightarrow> Inr p
     | None \<Rightarrow>
         if stage = INTAKE then Inr (Brief_schema, PROJECT_BRIEF)
         else if stage = REQUIREMENTS then Inr (Requirements_schema, REQUIREMENTS_SPEC)
         else if stage = EVALUATION then Inr (Evaluation_schema, EVALUATION_REPORT)
         else Inl (ValueError (''No Deep Agents profile for '' @ stage_value stage)))"

section \<open>Conversations\<close>

text \<open>An \<open>AIMessage\<close>, and the other messages of a graph's output.\<close>

record ai_message =
  am_metadata :: jdict
  am_refusal :: json
  am_content :: json
  am_invalid_calls :: bool
  am_id :: "string option"

datatype chat_message = Ai ai_message | Human string | Tool_message

record graph_output =
  go_structured :: "json option"
  go_messages :: "chat_message list option"

text \<open>What a validated output holds: content and markdown, and what the code reads of its kind.\<close>

record model_host =
  mh_settings :: settings
  mh_py :: pyenv
  mh_schemas :: schema
  mh_toolchain :: toolchain
  mh_graph :: "nat \<Rightarrow> chat_message list \<Rightarrow> graph_output result"
  mh_brief :: "json \<Rightarrow> (jdict \<times> string \<times> string option) result"
  mh_evaluation :: "json \<Rightarrow> (evaluation_report \<times> string) result"
  mh_plain :: "output_schema \<Rightarrow> json \<Rightarrow> (jdict \<times> string) result"
  mh_usage :: "nat \<Rightarrow> (int \<times> int) list"
  mh_context_json :: "agent_context \<Rightarrow> string"
  mh_trace_path :: "string option"
  mh_execution_id :: string

text \<open>The log of a run of the agent: the messages of each invocation of the graph.\<close>

type_synonym conversation = "chat_message list list"

definition run_graph :: "model_host \<Rightarrow> chat_message list \<Rightarrow> (conversation, graph_output) op" where
  "run_graph M messages = (\<lambda>s. (mh_graph M (length s) messages, s @ [messages]))"

definition output_messages :: "graph_output \<Rightarrow> chat_message list \<Rightarrow> chat_message list" where
  "output_messages out messages = (case go_messages out of None \<Rightarrow> messages | Some ms \<Rightarrow> ms)"

section \<open>Missing structured output\<close>

definition last_ai :: "graph_output \<Rightarrow> ai_message option" where
  "last_ai out = (case find_last (\<lambda>m. case m of Ai _ \<Rightarrow> True | _ \<Rightarrow> False) (output_messages out []) of
     Some (Ai m) \<Rightarrow> Some m | _ \<Rightarrow> None)"

definition last_metadata :: "graph_output \<Rightarrow> jdict" where
  "last_metadata out = (case last_ai out of None \<Rightarrow> [] | Some m \<Rightarrow> am_metadata m)"

definition incomplete_details :: "graph_output \<Rightarrow> json" where
  "incomplete_details out = (let v = dget (last_metadata out) ''incomplete_details'' in if truthy v then v else JObj [])"

definition output_truncated :: "graph_output \<Rightarrow> bool result" where
  "output_truncated out = (let metadata = last_metadata out in
     first_true
       [Inr (dget metadata ''finish_reason'' = JStr ''length''),
        rbind (json_get (incomplete_details out) ''reason'' JNull) (hashed_in [JStr ''max_output_tokens'', JStr ''max_tokens'']),
        Inr (dget metadata ''stop_reason'' = JStr ''max_tokens'')])"

definition output_refused :: "graph_output \<Rightarrow> bool" where
  "output_refused out = (case last_ai out of
       None \<Rightarrow> False
     | Some m \<Rightarrow> truthy (am_refusal m)
         \<or> (case am_content m of
              JArr blocks \<Rightarrow> list_ex (\<lambda>b. case b of JObj d \<Rightarrow> dget d ''type'' = JStr ''refusal'' | _ \<Rightarrow> False) blocks
            | _ \<Rightarrow> False))"

definition get_or :: "jdict \<Rightarrow> string \<Rightarrow> string \<Rightarrow> json" where
  "get_or d k preset = (case map_of d k of None \<Rightarrow> JStr preset | Some v \<Rightarrow> v)"

definition failure_reason :: "model_host \<Rightarrow> stage_name \<Rightarrow> graph_output \<Rightarrow> bool \<Rightarrow> string result" where
  "failure_reason M stage out truncated =
     (if truncated then Inr (''model output token limit reached; increase ''
        @ (if stage = IMPLEMENTATION then ''AIDLC_MAX_IMPLEMENTATION_OUTPUT_TOKENS'' else ''AIDLC_MAX_MODEL_OUTPUT_TOKENS''))
      else if output_refused out then Inr ''model refused the request''
      else if dget (last_metadata out) ''status'' = JStr ''incomplete''
      then rbind (json_get (incomplete_details out) ''reason'' (JStr ''reason not provided'')) (\<lambda>v.
        Inr (''model response incomplete: '' @ py_str (mh_py M) v))
      else if (case last_ai out of None \<Rightarrow> False | Some m \<Rightarrow> am_invalid_calls m)
      then Inr ''model returned invalid structured-output tool arguments''
      else Inr ''model did not return the structured-output tool result'')"

definition missing_output :: "model_host \<Rightarrow> string \<Rightarrow> output_schema \<Rightarrow> graph_output \<Rightarrow> string \<Rightarrow> py_error" where
  "missing_output M name schema out reason = (let metadata = last_metadata out; E = mh_py M;
       i = (if truthy (dget metadata ''id'') then py_str E (dget metadata ''id'')
            else case Option.bind (last_ai out) am_id of Some (c # cs) \<Rightarrow> c # cs | _ \<Rightarrow> ''unknown'') in
     RuntimeError (name @ '': missing '' @ schema_name schema @ '': '' @ reason
       @ '' (model='' @ cf_model (mh_settings M) @ '', status='' @ py_str E (get_or metadata ''status'' ''unknown'')
       @ '', finish_reason='' @ py_str E (get_or metadata ''finish_reason'' ''unknown'') @ '', response_id='' @ i @ '')''
       @ (case mh_trace_path M of Some (c # cs) \<Rightarrow> ''; diagnostics='' @ (c # cs) | _ \<Rightarrow> [])))"

definition reminder :: "output_schema \<Rightarrow> chat_message" where
  "reminder schema = Human (''Return the final result using the '' @ schema_name schema
     @ '' structured-output tool with every required field. Plain text alone is not a final result.'')"

text \<open>
  The loop over the attempts; \<open>k\<close> is the number left. The result is the structured output and the
  messages that a further invocation would start from.
\<close>

fun ask_model :: "model_host \<Rightarrow> stage_name \<Rightarrow> string \<Rightarrow> output_schema \<Rightarrow> nat \<Rightarrow> chat_message list \<Rightarrow>
    (conversation, json \<times> chat_message list) op" where
  "ask_model M stage name schema 0 messages = oraise (KeyError ''structured_response'')"
| "ask_model M stage name schema (Suc k) messages =
     obind (run_graph M messages) (\<lambda>out. case go_structured out of
       Some v \<Rightarrow> oreturn (v, output_messages out messages)
     | None \<Rightarrow>
         obind (oread (\<lambda>_. output_truncated out)) (\<lambda>truncated.
         obind (oread (\<lambda>_. failure_reason M stage out truncated)) (\<lambda>reason.
         if truncated \<or> output_refused out \<or> dget (last_metadata out) ''status'' = JStr ''incomplete'' \<or> k = 0
         then oraise (missing_output M name schema out reason)
         else ask_model M stage name schema k (output_messages out messages @ [reminder schema]))))"

section \<open>Evidence of an evaluation\<close>

definition present_scores :: "evaluation_report \<Rightarrow> rubric_score list" where
  "present_scores r = List.map_filter (\<lambda>x. x) (rubrics r)"

definition unknown_ids :: "string list \<Rightarrow> evaluation_report \<Rightarrow> string list" where
  "unknown_ids known r = sort (remdups (filter (\<lambda>i. i \<notin> set known) (concat (map rb_evidence_artifact_ids (present_scores r)))))"

definition citation_error :: "string list \<Rightarrow> evaluation_report \<Rightarrow> string option" where
  "citation_error known r =
     (if (\<forall>s \<in> set (present_scores r). rb_evidence_artifact_ids s \<noteq> []) \<and> unknown_ids known r = [] then None
      else Some (''Evaluation rubric must cite existing input artifact IDs.''
        @ (if unknown_ids known r = [] then [] else '' Unknown IDs: '' @ join '', '' (unknown_ids known r) @ ''.'')))"

definition citation_request :: "string list \<Rightarrow> string \<Rightarrow> chat_message" where
  "citation_request known e = Human (''Correct the EvaluationOutput evidence citations. '' @ e
     @ '' Use only these exact artifact IDs: '' @ join '', '' (sort (remdups known))
     @ ''. An analysis_id or result_uri returned by analyze_code is not an artifact ID; cite the analyzed source ''
     @ ''artifact and supplied static analysis report instead. Return the complete corrected EvaluationOutput.'')"

text \<open>The loop that asks for corrections; \<open>k\<close> is the number of them left.\<close>

fun correct_citations :: "model_host \<Rightarrow> string list \<Rightarrow> nat \<Rightarrow> evaluation_report \<times> string \<Rightarrow> chat_message list \<Rightarrow>
    (conversation, evaluation_report \<times> string) op" where
  "correct_citations M known k (r, markdown) messages = (case citation_error known r of
       None \<Rightarrow> oreturn (r, markdown)
     | Some e \<Rightarrow> (case k of
           0 \<Rightarrow> oraise (ValueError e)
         | Suc k' \<Rightarrow>
             obind (run_graph M (messages @ [citation_request known e])) (\<lambda>out. case go_structured out of
               None \<Rightarrow> oraise (ValueError e)
             | Some v \<Rightarrow> obind (oread (\<lambda>_. mh_evaluation M v)) (\<lambda>validated.
                 correct_citations M known k' validated (output_messages out (messages @ [citation_request known e]))))))"

text \<open>The exact gate report of the context is bound into the evaluation.\<close>

definition bind_gates :: "model_host \<Rightarrow> agent_context \<Rightarrow> evaluation_report \<Rightarrow> evaluation_report result" where
  "bind_gates M context r = (case find_last (\<lambda>v. av_kind v = QUALITY_GATE_REPORT) (cx_artifacts context) of
       None \<Rightarrow> Inr r
     | Some gate \<Rightarrow> rbind (sc_gates (mh_schemas M) (av_content gate)) (\<lambda>g. Inr (r\<lparr>er_quality_gates := Some g\<rparr>)))"

section \<open>The result\<close>

text \<open>Content, markdown and question of an output.\<close>

definition source_output :: "model_host \<Rightarrow> string \<Rightarrow> json \<Rightarrow> (jdict \<times> string \<times> string option) result" where
  "source_output M name v = (case v of
       JObj d \<Rightarrow>
         rbind (source_bundle_validate d) (\<lambda>files.
         rbind (validate_source_output (mh_toolchain M) name files) (\<lambda>_.
         rbind (guard (name \<noteq> ''backend-agent'' \<or> set (map sf_path files) = {''backend/api.py''})
           (ValueError ''Backend implementation must contain only backend/api.py'')) (\<lambda>_.
         Inr (source_bundle_dump files, ''# '' @ name @ [CHR 0x0A, CHR 0x0A]
           @ join [CHR 0x0A] (map (\<lambda>f. ''- `'' @ sf_path f @ ''`'') files) @ [CHR 0x0A], None))))
     | _ \<Rightarrow> Inl (ValueError ''SourceOutput''))"

definition release_output :: "model_host \<Rightarrow> agent_context \<Rightarrow> json \<Rightarrow> (jdict \<times> string \<times> string option) result" where
  "release_output M context v =
     rbind (mh_plain M Release_schema v) (\<lambda>(notes, markdown).
     rbind (release_bundle (mh_schemas M) (mh_toolchain M) (cf_evaluation_score_threshold (mh_settings M)) (cx_artifacts context) notes) (\<lambda>content.
     Inr (content, markdown, None)))"

definition plain_output :: "model_host \<Rightarrow> output_schema \<Rightarrow> json \<Rightarrow> (jdict \<times> string \<times> string option) result" where
  "plain_output M schema v = rbind (mh_plain M schema v) (\<lambda>(content, markdown). Inr (content, markdown, None))"

definition evaluation_output :: "model_host \<Rightarrow> agent_context \<Rightarrow> json \<Rightarrow> chat_message list \<Rightarrow>
    (conversation, jdict \<times> string \<times> string option) op" where
  "evaluation_output M context v messages =
     obind (oread (\<lambda>_. mh_evaluation M v)) (\<lambda>validated.
     obind (correct_citations M (map av_id (cx_artifacts context)) (nat (cf_max_repair_attempts (mh_settings M))) validated messages)
       (\<lambda>(r, markdown).
     obind (oread (\<lambda>_. bind_gates M context r)) (\<lambda>report.
     oreturn (evaluation_dump report, markdown, None))))"

definition validated_output :: "model_host \<Rightarrow> string \<Rightarrow> output_schema \<Rightarrow> agent_context \<Rightarrow> json \<Rightarrow> chat_message list \<Rightarrow>
    (conversation, jdict \<times> string \<times> string option) op" where
  "validated_output M name schema context v messages = (case schema of
       Evaluation_schema \<Rightarrow> evaluation_output M context v messages
     | Brief_schema \<Rightarrow> oread (\<lambda>_. mh_brief M v)
     | Source_schema \<Rightarrow> oread (\<lambda>_. source_output M name v)
     | Release_schema \<Rightarrow> oread (\<lambda>_. release_output M context v)
     | _ \<Rightarrow> oread (\<lambda>_. plain_output M schema v))"

text \<open>The usage and the cost, in binary64.\<close>

definition total_usage :: "(int \<times> int) list \<Rightarrow> int option \<times> int option" where
  "total_usage values = (if values = [] then (None, None)
     else (Some (sum_list (map fst values)), Some (sum_list (map snd values))))"

definition invocation_cost :: "settings \<Rightarrow> int option \<times> int option \<Rightarrow> rat option" where
  "invocation_cost s usage = (case (usage, cf_input_cost_per_million s, cf_output_cost_per_million s) of
       ((Some i, Some w), Some ic, Some oc) \<Rightarrow>
         Some (rounded (rounded (rounded (rounded (of_int i) * ic) + rounded (rounded (of_int w) * oc)) / 1000000))
     | _ \<Rightarrow> None)"

definition model_execution :: "model_host \<Rightarrow> nat \<Rightarrow> execution_metadata" where
  "model_execution M calls = (let usage = total_usage (mh_usage M calls); cost = invocation_cost (mh_settings M) usage in
     \<lparr>em_execution_id = Some (mh_execution_id M), em_model_id = cf_model (mh_settings M), em_prompt_version = GOAL_VERSION,
      em_input_tokens = fst usage, em_output_tokens = snd usage, em_cost_usd = cost,
      em_cost_basis = (if cost = None then ''unavailable'' else ''configured_rates'')\<rparr>)"

definition clarification :: "string option \<Rightarrow> human_prompt option result" where
  "clarification question = (case question of
       Some (c # cs) \<Rightarrow> (let p = \<lparr>hp_kind = Clarification, hp_question = c # cs\<rparr> in
         if human_prompt_valid p then Inr (Some p) else Inl (ValueError ''HumanPrompt''))
     | _ \<Rightarrow> Inr None)"

text \<open>\<open>invoke\<close>, which the handler runs under a trace, and \<open>migrate\<close>.\<close>

definition run_agent :: "model_host \<Rightarrow> stage_name \<Rightarrow> string \<Rightarrow> output_schema \<Rightarrow> artifact_kind \<Rightarrow> agent_context \<Rightarrow>
    (conversation, agent_result) op" where
  "run_agent M stage name schema kind context =
     obind (oguard (\<not> cf_general_purpose_subagent_enabled (mh_settings M))
       (ValueError ''Native Deep Agents delegation is disabled: agent calls must use A2A'')) (\<lambda>_.
     obind (ask_model M stage name schema (nat (cf_max_repair_attempts (mh_settings M) + 1)) [Human (mh_context_json M context)])
       (\<lambda>(v, messages).
     obind (validated_output M name schema context v messages) (\<lambda>(content, markdown, question).
     obind (oread (\<lambda>_. clarification question)) (\<lambda>prompt.
     obind (oread (\<lambda>s. Inr (model_execution M (length s)))) (\<lambda>execution.
     oreturn \<lparr>ag_artifact_kind = kind, ag_content = content, ag_markdown = markdown, ag_human_prompt = prompt,
       ag_execution = execution\<rparr>)))))"

definition migrate :: "model_host \<Rightarrow> stage_name \<Rightarrow> string \<Rightarrow> (agent_context \<Rightarrow> (conversation, agent_result) op) result" where
  "migrate M stage name = rbind (agent_profile stage name) (\<lambda>(schema, kind). Inr (run_agent M stage name schema kind))"

end
