(* ===== verification/AgentContract.thy ===== *)
theory AgentContract
  imports AgentRuntime
begin

text \<open>
  What an agent returns, whatever its model answers: the number of invocations of the graph, the
  contract that each output profile guarantees, and a run that corrects itself.
\<close>

section \<open>What an agent returns\<close>

text \<open>At most \<open>n\<close> invocations of the graph so far.\<close>

abbreviation invoked :: "nat \<Rightarrow> conversation \<Rightarrow> bool" where
  "invoked n s \<equiv> length s \<le> n"

lemma run_graph_triple:
  assumes "\<And>out. triple (invoked (Suc n)) (f out) Q (\<lambda>_. invoked m)" and "Suc n \<le> m"
  shows "triple (invoked n) (obind (run_graph M messages) f) Q (\<lambda>_. invoked m)"
proof (rule triple_bind)
  show "triple (invoked n) (run_graph M messages) (\<lambda>_. invoked (Suc n)) (\<lambda>_. invoked m)"
    using assms(2) by (auto simp: triple_def run_graph_def split: sum.split)
qed (rule assms(1))

lemma triple_pure_le: "(\<And>x. r = Inr x \<Longrightarrow> triple (invoked n) (f x) Q (\<lambda>_. invoked m)) \<Longrightarrow> n \<le> m
    \<Longrightarrow> triple (invoked n) (obind (oread (\<lambda>_. r)) f) Q (\<lambda>_. invoked m)"
  by (cases r) (auto simp: triple_def obind_def op_simps)

lemma invoked_mono: "triple (invoked n) m (\<lambda>_. invoked k) (\<lambda>_. invoked k) \<Longrightarrow> k \<le> l \<Longrightarrow> triple (invoked n) m (\<lambda>_. invoked l) (\<lambda>_. invoked l)"
  by (erule triple_weaken) auto

lemma ask_model_bound:
  "triple (invoked n) (ask_model M stage name schema k messages) (\<lambda>_. invoked (n + k)) (\<lambda>_. invoked (n + k))"
proof (induction k arbitrary: n messages)
  case 0
  show ?case by (simp add: triple_basic)
next
  case (Suc k)
  show ?case unfolding ask_model.simps
  proof (rule run_graph_triple)
    fix out
    show "triple (invoked (Suc n)) (case go_structured out of
       Some v \<Rightarrow> oreturn (v, output_messages out messages)
     | None \<Rightarrow>
         obind (oread (\<lambda>_. output_truncated out)) (\<lambda>truncated.
         obind (oread (\<lambda>_. failure_reason M stage out truncated)) (\<lambda>reason.
         if truncated \<or> output_refused out \<or> dget (last_metadata out) ''status'' = JStr ''incomplete'' \<or> k = 0
         then oraise (missing_output M name schema out reason)
         else ask_model M stage name schema k (output_messages out messages @ [reminder schema]))))
      (\<lambda>_. invoked (n + Suc k)) (\<lambda>_. invoked (n + Suc k))"
    proof (cases "go_structured out")
      case None
      show ?thesis unfolding None option.case
        by (rule triple_pure_le, rule triple_pure_le, rule triple_if)
          (use Suc.IH [of "Suc n"] in \<open>auto intro: triple_basic\<close>)
    qed (auto intro!: triple_basic)
  qed simp
qed

definition cites :: "string list \<Rightarrow> evaluation_report \<Rightarrow> bool" where
  "cites known r \<longleftrightarrow> (\<forall>s \<in> set (present_scores r). rb_evidence_artifact_ids s \<noteq> [] \<and> set (rb_evidence_artifact_ids s) \<subseteq> set known)"

lemma citation_error_None: "citation_error known r = None \<Longrightarrow> cites known r"
proof -
  assume "citation_error known r = None"
  then have all: "\<forall>s \<in> set (present_scores r). rb_evidence_artifact_ids s \<noteq> []" and "unknown_ids known r = []"
    by (auto simp: citation_error_def split: if_splits)
  from this(2) have "set (unknown_ids known r) = {}" by simp
  then show ?thesis using all by (auto simp: cites_def unknown_ids_def)
qed

lemma correct_citations_cites:
  "triple (invoked n) (correct_citations M known k p messages)
     (\<lambda>x s. invoked (n + k) s \<and> cites known (fst x)) (\<lambda>_. invoked (n + k))"
proof (induction k arbitrary: n p messages)
  case (0 n p)
  obtain r markdown where p: "p = (r, markdown)" by fastforce
  show ?case unfolding p by (cases "citation_error known r") (auto simp: triple_def op_simps dest: citation_error_None)
next
  case (Suc k n p)
  obtain r markdown where p: "p = (r, markdown)" by fastforce
  show ?case
  proof (cases "citation_error known r")
    case None
    then show ?thesis unfolding p by (auto simp: triple_def op_simps dest: citation_error_None)
  next
    case (Some e)
    show ?thesis unfolding p correct_citations.simps Some option.case nat.case
    proof (rule run_graph_triple)
      fix out
      show "triple (invoked (Suc n)) (case go_structured out of
               None \<Rightarrow> oraise (ValueError e)
             | Some v \<Rightarrow> obind (oread (\<lambda>_. mh_evaluation M v)) (\<lambda>validated.
                 correct_citations M known k validated (output_messages out (messages @ [citation_request known e]))))
        (\<lambda>x s. invoked (n + Suc k) s \<and> cites known (fst x)) (\<lambda>_. invoked (n + Suc k))"
      proof (cases "go_structured out")
        case (Some v)
        show ?thesis unfolding Some option.case
          by (rule triple_pure_le) (use Suc.IH [of "Suc n"] in simp_all)
      qed (auto intro!: triple_basic)
    qed simp
  qed
qed

text \<open>An evaluation that is grounded in the artifacts of its context.\<close>

definition grounded :: "model_host \<Rightarrow> agent_context \<Rightarrow> jdict \<Rightarrow> bool" where
  "grounded M context content \<longleftrightarrow> (\<exists>r. content = evaluation_dump r \<and> cites (map av_id (cx_artifacts context)) r
     \<and> (\<forall>gate. find_last (\<lambda>v. av_kind v = QUALITY_GATE_REPORT) (cx_artifacts context) = Some gate
         \<longrightarrow> (\<exists>g. sc_gates (mh_schemas M) (av_content gate) = Inr g \<and> er_quality_gates r = Some g)))"

lemma cites_gates [simp]: "cites known (r\<lparr>er_quality_gates := g\<rparr>) = cites known r"
  by (simp add: cites_def present_scores_def rubrics_def)

lemma bind_gates_grounded: "bind_gates M context r = Inr r' \<Longrightarrow> cites (map av_id (cx_artifacts context)) r \<Longrightarrow>
    grounded M context (evaluation_dump r')"
  unfolding grounded_def by (rule exI [of _ r']) (auto simp: bind_gates_def rbind_eq_Inr split: option.splits)

lemma evaluation_output_grounded:
  "triple (invoked n) (evaluation_output M context v messages)
     (\<lambda>x s. invoked (n + nat (cf_max_repair_attempts (mh_settings M))) s \<and> grounded M context (fst x) \<and> snd (snd x) = None)
     (\<lambda>_. invoked (n + nat (cf_max_repair_attempts (mh_settings M))))" (is "triple _ _ ?Q ?E")
  unfolding evaluation_output_def
proof (rule triple_pure_le, rule triple_bind, rule correct_citations_cites)
  fix validated x
  show "triple (\<lambda>s. ?E e s \<and> cites (map av_id (cx_artifacts context)) (fst x))
     (case x of (r, markdown) \<Rightarrow> obind (oread (\<lambda>_. bind_gates M context r)) (\<lambda>report. oreturn (evaluation_dump report, markdown, None))) ?Q ?E" for e
    using bind_gates_grounded by (cases x) (auto simp: triple_def obind_def op_simps split: sum.splits)
qed simp

definition contract :: "model_host \<Rightarrow> string \<Rightarrow> output_schema \<Rightarrow> agent_context \<Rightarrow> jdict \<Rightarrow> bool" where
  "contract M name schema context content \<longleftrightarrow>
     (schema = Evaluation_schema \<longrightarrow> grounded M context content)
     \<and> (schema = Source_schema \<longrightarrow> (\<exists>files. content = source_bundle_dump files \<and> owned_by (mh_toolchain M) name files
          \<and> (name = ''backend-agent'' \<longrightarrow> sf_path ` set files = {''backend/api.py''})))
     \<and> (schema = Release_schema \<longrightarrow> (\<exists>notes. release_bundle (mh_schemas M) (mh_toolchain M)
          (cf_evaluation_score_threshold (mh_settings M)) (cx_artifacts context) notes = Inr content))"

lemma validated_output_contract:
  "triple (invoked n) (validated_output M name schema context v messages)
     (\<lambda>x s. invoked (n + nat (cf_max_repair_attempts (mh_settings M))) s \<and> contract M name schema context (fst x)
        \<and> (schema \<noteq> Brief_schema \<longrightarrow> snd (snd x) = None))
     (\<lambda>_. invoked (n + nat (cf_max_repair_attempts (mh_settings M))))" (is "triple _ _ (?Q schema) ?E")
proof -
  have read: "triple (invoked n) (oread (\<lambda>_. r)) (?Q schema) ?E"
    if "\<And>x. r = Inr x \<Longrightarrow> contract M name schema context (fst x) \<and> (schema \<noteq> Brief_schema \<longrightarrow> snd (snd x) = None)" for r
    using that by (cases r) (auto simp: triple_def op_simps)
  show ?thesis
  proof (cases schema)
    case Evaluation_schema
    show ?thesis unfolding validated_output_def Evaluation_schema output_schema.case
      by (rule triple_weaken [OF evaluation_output_grounded]) (auto simp: contract_def)
  next
    case Source_schema
    have "contract M name schema context (fst x) \<and> snd (snd x) = None" if "source_output M name v = Inr x" for x
      using that Source_schema validate_source_output_owned
      by (auto simp: source_output_def rbind_eq_Inr guard_eq contract_def split: json.splits)
    then show ?thesis using read by (auto simp: validated_output_def Source_schema)
  next
    case Release_schema
    have "contract M name schema context (fst x) \<and> snd (snd x) = None" if "release_output M context v = Inr x" for x
      using that Release_schema by (auto simp: release_output_def rbind_eq_Inr contract_def)
    then show ?thesis using read by (auto simp: validated_output_def Release_schema)
  next
    case Brief_schema
    show ?thesis unfolding validated_output_def Brief_schema output_schema.case
      by (rule read [unfolded Brief_schema]) (simp add: contract_def)
  next
    case Requirements_schema
    have "contract M name schema context (fst x) \<and> snd (snd x) = None" if "plain_output M schema v = Inr x" for x
      using that Requirements_schema by (auto simp: plain_output_def rbind_eq_Inr contract_def)
    then show ?thesis using read by (auto simp: validated_output_def Requirements_schema)
  next
    case (Plain_schema n)
    have "contract M name schema context (fst x) \<and> snd (snd x) = None" if "plain_output M schema v = Inr x" for x
      using that Plain_schema by (auto simp: plain_output_def rbind_eq_Inr contract_def)
    then show ?thesis using read by (auto simp: validated_output_def Plain_schema)
  qed
qed

lemma run_agent_contract:
  "triple (invoked 0) (run_agent M stage name schema kind context)
     (\<lambda>a s. invoked (nat (cf_max_repair_attempts (mh_settings M) + 1) + nat (cf_max_repair_attempts (mh_settings M))) s
        \<and> ag_artifact_kind a = kind \<and> contract M name schema context (ag_content a)
        \<and> (schema \<noteq> Brief_schema \<longrightarrow> ag_human_prompt a = None))
     (\<lambda>_. invoked (nat (cf_max_repair_attempts (mh_settings M) + 1) + nat (cf_max_repair_attempts (mh_settings M))))"
    (is "triple _ _ ?Q ?E")
proof -
  let ?n = "nat (cf_max_repair_attempts (mh_settings M) + 1)" and ?m = "nat (cf_max_repair_attempts (mh_settings M))"
  have finish: "triple (\<lambda>s. invoked (?n + ?m) s \<and> contract M name schema context content \<and> (schema \<noteq> Brief_schema \<longrightarrow> question = None))
     (obind (oread (\<lambda>_. clarification question)) (\<lambda>prompt. obind (oread (\<lambda>s. Inr (model_execution M (length s)))) (\<lambda>execution.
     oreturn \<lparr>ag_artifact_kind = kind, ag_content = content, ag_markdown = markdown, ag_human_prompt = prompt,
       ag_execution = execution\<rparr>))) ?Q ?E" for content markdown question
    by (auto simp: triple_def obind_def op_simps clarification_def split: sum.splits)
  show ?thesis unfolding run_agent_def
  proof (rule triple_guard, simp, rule triple_bind)
    show "triple (invoked 0) (ask_model M stage name schema ?n [Human (mh_context_json M context)]) (\<lambda>_. invoked ?n) ?E"
      by (rule triple_weaken [OF ask_model_bound [of 0]]) auto
    fix x :: "json \<times> chat_message list"
    obtain v messages where x: "x = (v, messages)" by fastforce
    show "triple (invoked ?n) (case x of (v, messages) \<Rightarrow> obind (validated_output M name schema context v messages) (\<lambda>(content, markdown, question).
     obind (oread (\<lambda>_. clarification question)) (\<lambda>prompt. obind (oread (\<lambda>s. Inr (model_execution M (length s)))) (\<lambda>execution.
     oreturn \<lparr>ag_artifact_kind = kind, ag_content = content, ag_markdown = markdown, ag_human_prompt = prompt,
       ag_execution = execution\<rparr>)))) ?Q ?E"
      unfolding x prod.case
    proof (rule triple_bind, rule validated_output_contract)
      fix y :: "jdict \<times> string \<times> string option"
      obtain content markdown question where y: "y = (content, markdown, question)" by (cases y)
      show "triple (\<lambda>s. invoked (?n + ?m) s \<and> contract M name schema context (fst y) \<and> (schema \<noteq> Brief_schema \<longrightarrow> snd (snd y) = None))
        (case y of (content, markdown, question) \<Rightarrow> obind (oread (\<lambda>_. clarification question)) (\<lambda>prompt.
          obind (oread (\<lambda>s. Inr (model_execution M (length s)))) (\<lambda>execution.
          oreturn \<lparr>ag_artifact_kind = kind, ag_content = content, ag_markdown = markdown, ag_human_prompt = prompt,
            ag_execution = execution\<rparr>))) ?Q ?E"
        unfolding y prod.case fst_conv snd_conv by (rule finish)
    qed
  qed
qed

text \<open>
  C21. What the model cannot change. Whatever a model answers, one invocation of an agent asks it at most one more than twice the
  repair limit times. A result has the kind of the agent's profile and its content meets the contract of that profile:
  an evaluation cites, in every score it gives, existing artifacts of its own context only, and carries
  exactly the latest gate report of that context; an implementer's bundle stays within its ownership, the
  backend's being the one file \<open>backend/api.py\<close>; a release is the bundle that the evidence admits. Only intake can ask a question.
\<close>

theorem agent_result_grounded:
  assumes "agent_profile stage name = Inr (schema, kind)" and "migrate M stage name = Inr handler"
    and "handler context [] = (res, talk)" and "0 \<le> cf_max_repair_attempts (mh_settings M)"
  shows "length talk \<le> 2 * nat (cf_max_repair_attempts (mh_settings M)) + 1
    \<and> (\<forall>a. res = Inr a \<longrightarrow> ag_artifact_kind a = kind \<and> contract M name schema context (ag_content a)
        \<and> (schema \<noteq> Brief_schema \<longrightarrow> ag_human_prompt a = None))"
proof -
  have "run_agent M stage name schema kind context [] = (res, talk)"
    using assms by (simp add: migrate_def)
  from tripleD [OF run_agent_contract _ this] assms(4) show ?thesis
    by (cases res) (auto simp: nat_add_distrib)
qed

text \<open>A model that cites nothing at first and corrects itself.\<close>

definition demo_cited :: "string list \<Rightarrow> evaluation_report" where
  "demo_cited ids = (let s = Some ((demo_rubric 1)\<lparr>rb_evidence_artifact_ids := ids\<rparr>) in
     (demo_evaluation 1)\<lparr>er_requirement_coverage := s, er_mvp_completeness := s, er_usability := s, er_architecture := s,
       er_maintainability := s, er_risk_acceptance := s\<rparr>)"

definition demo_model :: model_host where
  "demo_model = \<lparr>mh_settings = demo_settings, mh_py = demo_env, mh_schemas = demo_schema, mh_toolchain = demo_toolchain,
     mh_graph = (\<lambda>n _. Inr \<lparr>go_structured = Some (JBool (n = 0)), go_messages = None\<rparr>), mh_brief = (\<lambda>_. Inl (ValueError [])),
     mh_evaluation = (\<lambda>v. Inr (demo_cited (if v = JBool True then [] else [''g'']), ''text'')), mh_plain = (\<lambda>_ _. Inr ([], [])),
     mh_usage = (\<lambda>_. []), mh_context_json = (\<lambda>_. []), mh_trace_path = None, mh_execution_id = ''e''\<rparr>"

definition demo_judged :: agent_context where
  "demo_judged = demo_gate_context\<lparr>cx_artifacts := [demo_view QUALITY_GATE_REPORT ''hub'' ''g'' []]\<rparr>"

lemma demo_citations: "citation_error [''g''] (demo_cited []) \<noteq> None" "citation_error [''g''] (demo_cited [''g'']) = None"
  by (simp_all add: citation_error_def present_scores_def rubrics_def demo_cited_def demo_evaluation_def demo_rubric_def
      List.map_filter_simps unknown_ids_def Let_def)

lemma demo_agent_run: "\<exists>a talk. run_agent demo_model EVALUATION ''evaluation-agent'' Evaluation_schema EVALUATION_REPORT demo_judged []
    = (Inr a, talk) \<and> length talk = 2"
proof -
  obtain e where e: "citation_error [''g''] (demo_cited []) = Some e" using demo_citations(1) by blast
  have settings: "cf_max_repair_attempts demo_settings = 2" "\<not> cf_general_purpose_subagent_enabled demo_settings"
    by (simp_all add: demo_settings_def)
  show ?thesis using e demo_citations(2) settings
    by (simp add: run_agent_def obind_def op_simps run_graph_def validated_output_def evaluation_output_def demo_model_def
      numeral_2_eq_2 numeral_3_eq_3 demo_judged_def bind_gates_def find_last_def demo_schema_def clarification_def)
qed

theorem agent_result_grounded_witness:
  "\<exists>a talk. run_agent demo_model EVALUATION ''evaluation-agent'' Evaluation_schema EVALUATION_REPORT demo_judged [] = (Inr a, talk)
     \<and> length talk = 2 \<and> grounded demo_model demo_judged (ag_content a)"
proof -
  obtain a talk where run: "run_agent demo_model EVALUATION ''evaluation-agent'' Evaluation_schema EVALUATION_REPORT demo_judged [] = (Inr a, talk)"
    "length talk = 2" using demo_agent_run by blast
  have p: "agent_profile EVALUATION ''evaluation-agent'' = Inr (Evaluation_schema, EVALUATION_REPORT)"
    by (simp add: agent_profile_def SPECIALISTS_def)
  have "migrate demo_model EVALUATION ''evaluation-agent''
      = Inr (run_agent demo_model EVALUATION ''evaluation-agent'' Evaluation_schema EVALUATION_REPORT)"
    by (simp add: migrate_def p)
  from agent_result_grounded [OF p this run(1)] run show ?thesis
    by (simp add: contract_def demo_model_def demo_settings_def)
qed

end
