(* ===== verification/HostCheck.thy ===== *)
theory HostCheck
  imports Confinement Execution Finops Url
begin

text \<open>
  \<open>platform/preflight.py\<close>: the inspection of the host. Files, the results of commands and the queries of the
  operating system are parameters. The report is ready exactly when all required capabilities are
  there, which \<open>host_suffices\<close> states without the list of checks.
\<close>

section \<open>The host\<close>

datatype command_outcome = Ran int string string | Command_raised py_error | Command_expired

record host =
  ho_os_release :: "string result"
  ho_system :: string
  ho_release :: string
  ho_machine :: string
  ho_cpu_count :: "nat option"
  ho_memory_bytes :: "int result"
  ho_exists :: "string \<Rightarrow> bool"
  ho_apparmor :: "string result"
  ho_which :: "string \<Rightarrow> string option"
  ho_run :: "string list \<Rightarrow> command_outcome"
  ho_docker :: docker_host
  ho_kvm_access :: bool
  ho_disk_free :: "int result"
  ho_port_free :: "nat \<Rightarrow> bool"
  ho_now :: nat

text \<open>The lines \<open>KEY=value\<close> of \<open>/etc/os-release\<close>, the last of a key first.\<close>

definition unquoted :: "string \<Rightarrow> string" where
  "unquoted v = rev (dropWhile (\<lambda>c. c = CHR 0x22) (rev (dropWhile (\<lambda>c. c = CHR 0x22) (strip v))))"

definition release_entry :: "string \<Rightarrow> (string \<times> string) list" where
  "release_entry line = (case dropWhile (\<lambda>c. c \<noteq> CHR ''='') line of
     [] \<Rightarrow> [] | _ # v \<Rightarrow> [(takeWhile (\<lambda>c. c \<noteq> CHR ''='') line, unquoted v)])"

definition read_os_release :: "host \<Rightarrow> (string \<times> string) list result" where
  "read_os_release B = (case ho_os_release B of
       Inr t \<Rightarrow> Inr (rev (concat (map release_entry (splitlines t))))
     | Inl e \<Rightarrow> if os_error e then Inr [] else Inl e)"

text \<open>The first line of what a command prints, if it can be run and succeeds.\<close>

definition command_version :: "host \<Rightarrow> string \<Rightarrow> string list \<Rightarrow> string option result" where
  "command_version B command arguments = (case ho_which B command of
       None \<Rightarrow> Inr None
     | Some executable \<Rightarrow> (case ho_run B (executable # arguments) of
           Command_expired \<Rightarrow> Inr None
         | Command_raised e \<Rightarrow> if os_error e then Inr None else Inl e
         | Ran code out err \<Rightarrow>
             if code \<noteq> 0 then Inr None
             else (case splitlines (strip (if out \<noteq> [] then out else err)) of
                 [] \<Rightarrow> Inr (Some executable) | l # _ \<Rightarrow> Inr (Some (take 240 l)))))"

definition registered_runtimes :: "host \<Rightarrow> string list result" where
  "registered_runtimes B = (case ho_which B ''docker'' of
       None \<Rightarrow> Inr []
     | Some executable \<Rightarrow> (case ho_run B [executable, ''--host=unix:///var/run/docker.sock'', ''info'', ''--format'',
           ''{{json .Runtimes}}''] of
           Command_expired \<Rightarrow> Inr []
         | Command_raised (ValueError _) \<Rightarrow> Inr []
         | Command_raised e \<Rightarrow> if os_error e then Inr [] else Inl e
         | Ran code out err \<Rightarrow>
             if code \<noteq> 0 \<or> 65536 < length out then Inr []
             else (case dh_loads (ho_docker B) out of
                 Inr (JObj d) \<Rightarrow> Inr (map fst d)
               | Inr _ \<Rightarrow> Inr []
               | Inl (ValueError _) \<Rightarrow> Inr []
               | Inl e \<Rightarrow> Inl e)))"

section \<open>Checks\<close>

text \<open>\<open>format(q, ".1f")\<close> of a float that is not negative.\<close>

definition one_decimal :: "rat \<Rightarrow> string" where
  "one_decimal q = (let n = round_half_even (q * 10) in int_str (n div 10) @ ''.'' @ int_str (n mod 10))"

definition gibibytes :: "int \<Rightarrow> rat" where
  "gibibytes n = rounded (of_int n / 2 ^ 30)"

definition make_check :: "string \<Rightarrow> bool \<Rightarrow> capability_status \<Rightarrow> string \<Rightarrow> bool \<Rightarrow> capability_check" where
  "make_check name ok otherwise' detail required =
     \<lparr>cc_name = name, cc_status = (if ok then PASS else otherwise'), cc_detail = detail, cc_required = required\<rparr>"

definition system_checks :: "host \<Rightarrow> settings \<Rightarrow> string \<Rightarrow> string \<Rightarrow> rat \<Rightarrow> bool \<Rightarrow> capability_check list" where
  "system_checks B s os_id os_version memory apparmor = (let architecture = lower (ho_machine B);
       cpus = (case ho_cpu_count B of None \<Rightarrow> 0 | Some n \<Rightarrow> n);
       cgroup = ho_exists B ''/sys/fs/cgroup/cgroup.controllers''; systemd = ho_exists B ''/run/systemd/system'' in
     [make_check ''operating_system'' (os_id = cf_required_host_os s \<and> starts_with os_version (cf_required_host_version s)) FAIL
        (''found '' @ os_id @ '' '' @ os_version @ ''; expected Ubuntu 26.04.x'') True,
      make_check ''architecture'' (architecture \<in> {''x86_64'', ''amd64''}) FAIL
        (''found '' @ architecture @ ''; this learning profile targets amd64'') True,
      make_check ''cpu'' (4 \<le> cpus) WARN (nat_str cpus @ '' logical CPUs detected; 4 or more recommended'') False,
      make_check ''memory'' (8 \<le> memory) FAIL (one_decimal memory @ '' GiB total memory; at least 8 GiB required'') True,
      make_check ''cgroup_v2'' cgroup FAIL
        (if cgroup then ''unified hierarchy detected'' else ''cgroup.controllers is absent'') True,
      make_check ''apparmor'' apparmor FAIL (if apparmor then ''enabled'' else ''not enabled or status is inaccessible'') True,
      make_check ''systemd'' systemd FAIL
        (if systemd then ''system manager detected'' else ''system manager not detected'') True])"

definition docker_checks :: "string option \<Rightarrow> string option \<Rightarrow> capability_check list" where
  "docker_checks cli daemon =
    [make_check ''docker'' (cli \<noteq> None \<and> cli \<noteq> Some []) UNAVAILABLE
       (case cli of Some (c # cs) \<Rightarrow> c # cs | _ \<Rightarrow> ''docker CLI is not installed'') True,
     make_check ''docker_daemon'' (daemon \<noteq> None \<and> daemon \<noteq> Some []) UNAVAILABLE
       (case daemon of Some (c # cs) \<Rightarrow> c # cs | _ \<Rightarrow> ''Docker daemon is unavailable or access is denied'') True]"

definition RUNTIME_COMMANDS :: "(string \<times> string) list" where
  "RUNTIME_COMMANDS = [(''runc'', ''runc''), (''runsc'', ''runsc''), (''kata'', ''kata-runtime'')]"

definition runtime_check :: "host \<Rightarrow> settings \<Rightarrow> string list \<Rightarrow> string \<times> string \<Rightarrow> capability_check result" where
  "runtime_check B s registered = (\<lambda>(runtime, command).
     rbind (command_version B command [''--version'']) (\<lambda>version.
     let available = runtime \<in> set registered in
     Inr (make_check (''sandbox_runtime:'' @ runtime) available UNAVAILABLE
       (if available then ''registered with Docker; ''
          @ (case version of Some (c # cs) \<Rightarrow> c # cs | _ \<Rightarrow> ''CLI version unavailable'')
          @ ''; workload qualification is separate''
        else ''not registered with Docker, or daemon access is denied'')
       (runtime = cf_sandbox_backend s))))"

definition image_checks :: "host \<Rightarrow> settings \<Rightarrow> capability_check list result" where
  "image_checks B s =
     (if cf_mcp_enabled s \<and> cf_analysis_backend s = ''sandbox''
      then (case resolve_image (ho_docker B) of
          Inr image' \<Rightarrow> Inr [make_check ''sandbox_image'' True UNAVAILABLE image' True]
        | Inl (ValueError t) \<Rightarrow> Inr [make_check ''sandbox_image'' False UNAVAILABLE t True]
        | Inl e \<Rightarrow> Inl e)
      else Inr [])"

definition backend_checks :: "settings \<Rightarrow> capability_check list" where
  "backend_checks s = (if cf_sandbox_backend s \<in> set (map fst RUNTIME_COMMANDS) then []
     else [make_check ''sandbox_backend'' False FAIL (''Unsupported backend: '' @ cf_sandbox_backend s) True])"

definition virtual_checks :: "host \<Rightarrow> settings \<Rightarrow> capability_check list" where
  "virtual_checks B s = (let microvm = cf_sandbox_backend s = ''kata'';
       kvm = ho_exists B ''/dev/kvm'' \<and> ho_kvm_access B in
     make_check ''kvm'' kvm UNAVAILABLE (if kvm then ''/dev/kvm is usable'' else ''/dev/kvm is not usable'')
       (microvm \<and> cf_require_kvm_for_microvm s)
     # map (\<lambda>m. let loaded = ho_exists B (''/sys/module/'' @ m) in
         make_check (''kernel_module:'' @ m) loaded UNAVAILABLE
           (if loaded then ''loaded'' else ''not loaded; Kata qualification must verify availability'') microvm)
       [''vhost_vsock'', ''vhost_net''])"

definition resource_checks :: "host \<Rightarrow> rat \<Rightarrow> capability_check list" where
  "resource_checks B free =
     make_check ''disk_space'' (5 \<le> free) FAIL (one_decimal free @ '' GiB free; at least 5 GiB required'') True
     # map (\<lambda>port. make_check (''port:'' @ nat_str port) (ho_port_free B port) WARN
         (if ho_port_free B port then ''available'' else ''already in use (may be this application's service)'') False)
       [8000, 5173]"

section \<open>The report\<close>

definition memory_gib :: "host \<Rightarrow> rat result" where
  "memory_gib B = (case ho_memory_bytes B of
       Inr n \<Rightarrow> Inr (gibibytes n)
     | Inl (ValueError _) \<Rightarrow> Inr 0
     | Inl e \<Rightarrow> if os_error e then Inr 0 else Inl e)"

definition apparmor_enabled :: "host \<Rightarrow> bool result" where
  "apparmor_enabled B = (case ho_apparmor B of
       Inr t \<Rightarrow> Inr (lower (strip t) = ''y'') | Inl e \<Rightarrow> if os_error e then Inr False else Inl e)"

definition passes :: "capability_check \<Rightarrow> bool" where
  "passes c \<longleftrightarrow> cc_status c \<notin> {FAIL, UNAVAILABLE}"

definition host_report :: "host \<Rightarrow> string \<Rightarrow> string \<Rightarrow> capability_check list \<Rightarrow> host_capability_report" where
  "host_report B os_id os_version checks =
     \<lparr>hc_generated_at = ho_now B, hc_ready = list_all passes (filter cc_required checks),
      hc_degraded = list_ex (\<lambda>c. cc_status c \<noteq> PASS) checks, hc_os_id = os_id, hc_os_version = os_version,
      hc_architecture = lower (ho_machine B), hc_kernel = ho_release B, hc_checks = checks\<rparr>"

definition found :: "(string \<times> string) list \<Rightarrow> string \<Rightarrow> string \<Rightarrow> string" where
  "found release key preset = (case map_of release key of None \<Rightarrow> preset | Some v \<Rightarrow> v)"

definition inspect_host :: "host \<Rightarrow> settings \<Rightarrow> host_capability_report result" where
  "inspect_host B s =
     rbind (read_os_release B) (\<lambda>release.
     rbind (memory_gib B) (\<lambda>memory.
     rbind (apparmor_enabled B) (\<lambda>apparmor.
     rbind (command_version B ''docker'' [''--version'']) (\<lambda>cli.
     rbind (command_version B ''docker'' [''info'', ''--format'', ''{{.ServerVersion}}'']) (\<lambda>daemon.
     rbind (registered_runtimes B) (\<lambda>registered.
     rbind (traverse (runtime_check B s registered) RUNTIME_COMMANDS) (\<lambda>runtimes.
     rbind (image_checks B s) (\<lambda>images.
     rbind (ho_disk_free B) (\<lambda>free.
     let os_id = found release ''ID'' (lower (ho_system B)); os_version = found release ''VERSION_ID'' (ho_release B) in
     Inr (host_report B os_id os_version
       (system_checks B s os_id os_version memory apparmor @ docker_checks cli daemon @ runtimes @ images
        @ backend_checks s @ virtual_checks B s @ resource_checks B (gibibytes free))))))))))))"

section \<open>When a host suffices\<close>

text \<open>A command that was found and ran successfully.\<close>

definition answers :: "host \<Rightarrow> string \<Rightarrow> string list \<Rightarrow> bool" where
  "answers B command arguments \<longleftrightarrow> (\<exists>version. command_version B command arguments = Inr (Some version) \<and> version \<noteq> [])"

definition system_suffices :: "host \<Rightarrow> settings \<Rightarrow> bool" where
  "system_suffices B s \<longleftrightarrow>
     (\<exists>release. read_os_release B = Inr release
        \<and> found release ''ID'' (lower (ho_system B)) = cf_required_host_os s
        \<and> starts_with (found release ''VERSION_ID'' (ho_release B)) (cf_required_host_version s))
     \<and> lower (ho_machine B) \<in> {''x86_64'', ''amd64''}
     \<and> (\<exists>n. ho_memory_bytes B = Inr n \<and> 8 \<le> gibibytes n) \<and> (\<exists>n. ho_disk_free B = Inr n \<and> 5 \<le> gibibytes n)
     \<and> ho_exists B ''/sys/fs/cgroup/cgroup.controllers'' \<and> ho_exists B ''/run/systemd/system''
     \<and> (\<exists>t. ho_apparmor B = Inr t \<and> lower (strip t) = ''y'')"

definition sandbox_suffices :: "host \<Rightarrow> settings \<Rightarrow> bool" where
  "sandbox_suffices B s \<longleftrightarrow>
     answers B ''docker'' [''--version''] \<and> answers B ''docker'' [''info'', ''--format'', ''{{.ServerVersion}}'']
     \<and> cf_sandbox_backend s \<in> {''runc'', ''runsc'', ''kata''}
     \<and> (\<exists>rs. registered_runtimes B = Inr rs \<and> cf_sandbox_backend s \<in> set rs)
     \<and> (cf_mcp_enabled s \<and> cf_analysis_backend s = ''sandbox'' \<longrightarrow> (\<exists>i. resolve_image (ho_docker B) = Inr i))
     \<and> (cf_sandbox_backend s = ''kata'' \<longrightarrow>
          ho_exists B ''/sys/module/vhost_vsock'' \<and> ho_exists B ''/sys/module/vhost_net''
          \<and> (cf_require_kvm_for_microvm s \<longrightarrow> ho_exists B ''/dev/kvm'' \<and> ho_kvm_access B))"

lemma passes_make_check [simp]: "w \<in> {FAIL, UNAVAILABLE} \<Longrightarrow> passes (make_check n ok w d r) = ok" "passes (make_check n ok WARN d r)"
  by (auto simp: passes_def make_check_def)

lemma required_make_check [simp]: "cc_required (make_check n ok w d r) = r"
  by (simp add: make_check_def)

abbreviation admits :: "capability_check list \<Rightarrow> bool" where
  "admits checks \<equiv> list_all passes (filter cc_required checks)"

lemma system_checks_admit:
  "admits (system_checks B s i v memory apparmor) \<longleftrightarrow> i = cf_required_host_os s \<and> starts_with v (cf_required_host_version s)
     \<and> lower (ho_machine B) \<in> {''x86_64'', ''amd64''} \<and> 8 \<le> memory \<and> ho_exists B ''/sys/fs/cgroup/cgroup.controllers''
     \<and> apparmor \<and> ho_exists B ''/run/systemd/system''"
  by (simp add: system_checks_def Let_def)

lemma docker_checks_admit:
  "admits (docker_checks cli daemon) \<longleftrightarrow> cli \<noteq> None \<and> cli \<noteq> Some [] \<and> daemon \<noteq> None \<and> daemon \<noteq> Some []"
  by (simp add: docker_checks_def)

lemma virtual_checks_admit:
  "admits (virtual_checks B s) \<longleftrightarrow> (cf_sandbox_backend s = ''kata'' \<longrightarrow>
      ho_exists B ''/sys/module/vhost_vsock'' \<and> ho_exists B ''/sys/module/vhost_net''
      \<and> (cf_require_kvm_for_microvm s \<longrightarrow> ho_exists B ''/dev/kvm'' \<and> ho_kvm_access B))"
  by (auto simp: virtual_checks_def Let_def)

lemma resource_checks_admit: "admits (resource_checks B free) \<longleftrightarrow> 5 \<le> free"
  by (simp add: resource_checks_def)

lemma backend_checks_admit: "admits (backend_checks s) \<longleftrightarrow> cf_sandbox_backend s \<in> {''runc'', ''runsc'', ''kata''}"
  by (auto simp: backend_checks_def RUNTIME_COMMANDS_def)

lemma image_checks_admit:
  "image_checks B s = Inr cs \<Longrightarrow> admits cs \<longleftrightarrow>
     (cf_mcp_enabled s \<and> cf_analysis_backend s = ''sandbox'' \<longrightarrow> (\<exists>i. resolve_image (ho_docker B) = Inr i))"
  by (auto simp: image_checks_def split: if_splits sum.splits py_error.splits)

lemma runtime_check_Inr:
  "runtime_check B s rs (n, command) = Inr c \<Longrightarrow> (cc_required c \<longrightarrow> passes c) \<longleftrightarrow> (n = cf_sandbox_backend s \<longrightarrow> n \<in> set rs)"
  by (auto simp: runtime_check_def rbind_eq_Inr Let_def)

lemma runtime_checks_admit:
  assumes "traverse (runtime_check B s rs) RUNTIME_COMMANDS = Inr cs" and "cf_sandbox_backend s \<in> {''runc'', ''runsc'', ''kata''}"
  shows "admits cs \<longleftrightarrow> cf_sandbox_backend s \<in> set rs"
proof -
  from assms(1) obtain a b c where cs: "cs = [a, b, c]" "runtime_check B s rs (''runc'', ''runc'') = Inr a"
    "runtime_check B s rs (''runsc'', ''runsc'') = Inr b" "runtime_check B s rs (''kata'', ''kata-runtime'') = Inr c"
    by (auto simp: RUNTIME_COMMANDS_def rbind_eq_Inr)
  have "admits cs \<longleftrightarrow> (cc_required a \<longrightarrow> passes a) \<and> (cc_required b \<longrightarrow> passes b) \<and> (cc_required c \<longrightarrow> passes c)"
    unfolding cs(1) by auto
  with runtime_check_Inr [OF cs(2)] runtime_check_Inr [OF cs(3)] runtime_check_Inr [OF cs(4)] assms(2) show ?thesis by auto
qed

lemma memory_gib_Inr: "memory_gib B = Inr m \<Longrightarrow> 8 \<le> m \<longleftrightarrow> (\<exists>n. ho_memory_bytes B = Inr n \<and> 8 \<le> gibibytes n)"
  by (auto simp: memory_gib_def split: sum.splits py_error.splits if_splits)

lemma apparmor_enabled_Inr: "apparmor_enabled B = Inr a \<Longrightarrow> a \<longleftrightarrow> (\<exists>t. ho_apparmor B = Inr t \<and> lower (strip t) = ''y'')"
  by (auto simp: apparmor_enabled_def split: sum.splits if_splits)

lemma host_ready_iff:
  assumes "inspect_host B s = Inr r"
  shows "hc_ready r \<longleftrightarrow> system_suffices B s \<and> sandbox_suffices B s"
proof -
  from assms [unfolded inspect_host_def Let_def rbind_eq_Inr]
  obtain release memory apparmor cli daemon rs runtimes images free where
    runs: "read_os_release B = Inr release" "memory_gib B = Inr memory" "apparmor_enabled B = Inr apparmor"
      "command_version B ''docker'' [''--version''] = Inr cli"
      "command_version B ''docker'' [''info'', ''--format'', ''{{.ServerVersion}}''] = Inr daemon"
      "registered_runtimes B = Inr rs" "traverse (runtime_check B s rs) RUNTIME_COMMANDS = Inr runtimes"
      "image_checks B s = Inr images" "ho_disk_free B = Inr free"
    and r: "Inr (host_report B (found release ''ID'' (lower (ho_system B))) (found release ''VERSION_ID'' (ho_release B))
       (system_checks B s (found release ''ID'' (lower (ho_system B))) (found release ''VERSION_ID'' (ho_release B)) memory apparmor
        @ docker_checks cli daemon @ runtimes @ images
        @ backend_checks s @ virtual_checks B s @ resource_checks B (gibibytes free))) = (Inr r :: host_capability_report result)"
    by (elim exE conjE) (rule that)
  have ready: "hc_ready r \<longleftrightarrow> admits (system_checks B s (found release ''ID'' (lower (ho_system B))) (found release ''VERSION_ID'' (ho_release B)) memory apparmor)
      \<and> admits (docker_checks cli daemon) \<and> admits runtimes \<and> admits images \<and> admits (backend_checks s)
      \<and> admits (virtual_checks B s) \<and> admits (resource_checks B (gibibytes free))"
    using r by (auto simp: host_report_def)
  have "answers B ''docker'' [''--version''] \<longleftrightarrow> cli \<noteq> None \<and> cli \<noteq> Some []"
    "answers B ''docker'' [''info'', ''--format'', ''{{.ServerVersion}}''] \<longleftrightarrow> daemon \<noteq> None \<and> daemon \<noteq> Some []"
    using runs(4,5) by (auto simp: answers_def)
  moreover have "admits runtimes \<longleftrightarrow> cf_sandbox_backend s \<in> set rs" if "admits (backend_checks s)"
    using runtime_checks_admit [OF runs(7)] that unfolding backend_checks_admit by blast
  ultimately show ?thesis
    unfolding ready system_checks_admit docker_checks_admit backend_checks_admit virtual_checks_admit resource_checks_admit
      image_checks_admit [OF runs(8)] memory_gib_Inr [OF runs(2)] apparmor_enabled_Inr [OF runs(3)]
      system_suffices_def sandbox_suffices_def using runs(1,6,9) by simp blast
qed

text \<open>
  C11. An enforced host check is not bypassed. An execution under an orchestrator that inspects the host and insists
  on the result never completes its run unless, at some inspection, operating system, memory, disk, confinement features,
  Docker, the selected runtime and (for micro virtual machines) the kernel modules and \<open>/dev/kvm\<close>, and the pinned sandbox
  image were all there.
\<close>

theorem completed_only_on_sufficient_host:
  assumes "hub_ok (rt_world R) r h" and "cf_enforce_host_preflight (rt_settings R)"
    and "rt_inspect R = (\<lambda>n. inspect_host (B n) (rt_settings R))"
  shows "\<exists>h'. execute R r retry h = (Inr (), h') \<and> (status_of h' r \<noteq> Some COMPLETED
    \<or> (\<exists>n. system_suffices (B n) (rt_settings R) \<and> sandbox_suffices (B n) (rt_settings R)))"
proof -
  from execute_outcome [OF assms(1), of retry] obtain h' where h': "execute R r retry h = (Inr (), h')"
    and "(\<exists>s. s \<in> {BLOCKED, FAILED, CANCELED} \<and> status_of h' r = Some s) \<or> host_admitted R" by blast
  then have "status_of h' r \<noteq> Some COMPLETED \<or> host_admitted R" by auto
  with h' show ?thesis
    unfolding host_admitted_def assms(3) by (auto simp: assms(2) host_ready_iff)
qed

text \<open>A host without system manager and Docker: the execution settles without completing the run.\<close>

definition bare_host :: host where
  "bare_host = \<lparr>ho_os_release = Inl (OSError []), ho_system = ''Linux'', ho_release = ''7'', ho_machine = ''x86_64'',
     ho_cpu_count = None, ho_memory_bytes = Inr 1024, ho_exists = (\<lambda>_. False), ho_apparmor = Inl (OSError []),
     ho_which = (\<lambda>_. None), ho_run = (\<lambda>_. Command_expired), ho_docker = demo_docker, ho_kvm_access = False,
     ho_disk_free = Inr 1024, ho_port_free = (\<lambda>_. True), ho_now = 0\<rparr>"

theorem completed_only_on_sufficient_host_witness:
  "\<exists>h'. execute (demo_orchestrator\<lparr>rt_inspect := (\<lambda>_. inspect_host bare_host demo_settings)\<rparr>) ''run_1'' 0 demo_hub = (Inr (), h')
     \<and> status_of h' ''run_1'' \<noteq> Some COMPLETED"
proof -
  have fields: "rt_settings demo_orchestrator = demo_settings" "cf_enforce_host_preflight demo_settings"
    by (simp_all add: demo_orchestrator_def demo_settings_def)
  have "\<not> system_suffices bare_host demo_settings" by (simp add: system_suffices_def bare_host_def)
  with completed_only_on_sufficient_host
      [of "demo_orchestrator\<lparr>rt_inspect := (\<lambda>_. inspect_host bare_host demo_settings)\<rparr>" "''run_1''" demo_hub "\<lambda>_. bare_host" 0]
  show ?thesis using demo_orchestrator_ok fields by simp
qed

end
