(* ===== verification/Api.thy ===== *)
theory Api
  imports Execution Finops
begin

text \<open>
  \<open>main.py\<close>: what the handlers of the HTTP interface do. FastAPI decodes the request and encodes the response; an
  exception that no handler turns into a response is an error of the operation. The stream of events is driven
  by the states of the repository that it sees.
\<close>

section \<open>Responses\<close>

datatype 'a response = Reply nat 'a | Problem nat string

text \<open>A run that is not known is answered by 404.\<close>

definition with_run :: "world \<Rightarrow> string \<Rightarrow> (workflow_run \<Rightarrow> 'a response hub_op) \<Rightarrow> 'a response hub_op" where
  "with_run W run_id m = hbind (hlift (\<lambda>h. get_run (wd_py W) (hb_db h) run_id)) (\<lambda>found.
     case found of None \<Rightarrow> hreturn (Problem 404 ''Run not found'') | Some run \<Rightarrow> m run)"

text \<open>Exceptions that the handler reports as a conflict.\<close>

definition conflict :: "(py_error \<Rightarrow> bool) \<Rightarrow> nat \<Rightarrow> 'a hub_op \<Rightarrow> 'a response hub_op" where
  "conflict takes code m = (\<lambda>h. case m h of
       (Inl e, h') \<Rightarrow> (if takes e then Inr (Problem 409 (error_text e)) else Inl e, h')
     | (Inr x, h') \<Rightarrow> (Inr (Reply code x), h'))"

definition value_error :: "py_error \<Rightarrow> bool" where
  "value_error e = (case e of ValueError _ \<Rightarrow> True | _ \<Rightarrow> False)"

definition retry_error :: "py_error \<Rightarrow> bool" where
  "retry_error e = (case e of ValueError _ \<Rightarrow> True | OSError _ \<Rightarrow> True | BlockingIOError \<Rightarrow> True | TimeoutError \<Rightarrow> True | _ \<Rightarrow> False)"

section \<open>Configuration\<close>

text \<open>What the interface tells of the settings.\<close>

definition harness_config :: "settings \<Rightarrow> jdict" where
  "harness_config s = (let n = (\<lambda>k. JInt (int k)); t = JStr; ts = (\<lambda>xs. JArr (map JStr xs)) in
    [(''model'', t (cf_model s)), (''reasoning_effort'', t (cf_reasoning_effort s)), (''max_agent_steps'', n (cf_max_agent_steps s)),
     (''max_parallel_agents'', n (cf_max_parallel_agents s)), (''task_timeout_seconds'', n (cf_task_timeout_seconds s)),
     (''max_repair_attempts'', JInt (cf_max_repair_attempts s)),
     (''max_evaluation_repair_attempts'', JInt (cf_max_evaluation_repair_attempts s)),
     (''evaluation_score_threshold'', JFloat (cf_evaluation_score_threshold s)), (''quality_gate_profile'', t ''python-react-v1''),
     (''max_clarification_rounds'', n (cf_max_clarification_rounds s)),
     (''token_budget_per_phase_per_run'', JInt (cf_token_budget_per_phase_per_run s)), (''sandbox_backend'', t (cf_sandbox_backend s)),
     (''sandbox_execution_enabled'', JBool (cf_sandbox_execution_enabled s)), (''sandbox_network_enabled'', JBool (cf_sandbox_network_enabled s)),
     (''sandbox_recovery'', t ''Local job leases; startup, every 30s, before each job''),
     (''sandbox_image'', t (if cf_sandbox_image s \<noteq> [] then cf_sandbox_image s else ''sandbox-image.json (build-image)'')),
     (''general_purpose_subagent_enabled'', JBool (cf_general_purpose_subagent_enabled s)),
     (''require_plan_approval'', JBool (cf_require_plan_approval s)), (''a2ui_protocol_version'', t (cf_a2ui_protocol_version s)),
     (''a2ui_catalog'', JObj [(''id'', t ''urn:aidlc:human-controls:v1''), (''components'', ts [''Text'', ''Column'', ''TextField'', ''Button'']),
        (''actions'', ts [''submit'', ''approve'', ''reject''])]),
     (''host_preflight_enforced'', JBool (cf_enforce_host_preflight s)), (''execution_mode'', t (cf_agent_mode s)),
     (''human_gates_enabled'', JBool (cf_human_gates_enabled s)),
     (''require_requirements_approval'', JBool (cf_require_requirements_approval s)),
     (''require_release_approval'', JBool (cf_require_release_approval s)),
     (''native_delegation'', t ''disabled: strict A2A-only policy''), (''agent_communication'', t ''A2A 1.0 JSONRPC over HTTP''),
     (''a2a_base_url'', t (cf_a2a_base_url s)), (''a2a_max_retries'', n (cf_a2a_max_retries s)),
     (''mcp'', JObj [(''enabled'', JBool (cf_mcp_enabled s)), (''server'', t ''aidlc-tools''), (''url'', t (cf_mcp_url s)),
        (''protocol_version'', t ''2026-07-28''), (''oidc_issuer'', t (cf_oidc_issuer s)),
        (''scopes'', ts [''analysis:run'', ''analysis:read'']),
        (''analysis_runtime'', t (if cf_analysis_backend s = ''sandbox'' then cf_sandbox_backend s else ''local-analyzer''))]),
     (''active_limits'', ts [''max_parallel_agents'', ''task_timeout_seconds'', ''a2a_max_retries'', ''max_agent_steps (deep)'',
        ''max_repair_attempts (deep)'', ''max_evaluation_repair_attempts (workflow)'',
        ''token_budget_per_phase_per_run (reported usage, post-call)'']),
     (''reasoning_effort_applied'', JBool False),
     (''cost_rates_configured'', JBool (cf_input_cost_per_million s \<noteq> None \<and> cf_output_cost_per_million s \<noteq> None))])"

section \<open>Runs\<close>

text \<open>The start of the application, and the validated idea of a request; Pydantic strips the blanks it knows.\<close>

definition api_start :: "world \<Rightarrow> unit hub_op" where
  "api_start W = hbind (on_db (recover_interrupted_runs (wd_py W)) W) (\<lambda>_. hreturn ())"

definition create_request :: "(string \<Rightarrow> string) \<Rightarrow> string \<Rightarrow> string result" where
  "create_request trim idea = (let t = trim idea in
     if 3 \<le> length t \<and> length t \<le> 2000 then Inr t else Inl (ValueError ''CreateRunRequest''))"

definition api_create_run :: "orchestrator \<Rightarrow> string \<Rightarrow> workflow_run response hub_op" where
  "api_create_run R idea = hbind (start_run R (strip idea)) (\<lambda>run. hreturn (Reply 202 run))"

definition api_get_run :: "world \<Rightarrow> string \<Rightarrow> workflow_run response hub_op" where
  "api_get_run W run_id = with_run W run_id (\<lambda>run. hreturn (Reply 200 run))"

definition api_cancel_run :: "orchestrator \<Rightarrow> bool \<Rightarrow> bool \<Rightarrow> string \<Rightarrow> bool response hub_op" where
  "api_cancel_run R active cancelling run_id = with_run (rt_world R) run_id (\<lambda>_.
     hbind (cancel_run R active cancelling run_id) (\<lambda>accepted. hreturn (Reply 202 accepted)))"

definition api_retry_run :: "orchestrator \<Rightarrow> bool \<Rightarrow> string \<Rightarrow> (workflow_run \<times> nat) response hub_op" where
  "api_retry_run R active run_id = with_run (rt_world R) run_id (\<lambda>_. conflict retry_error 202 (retry_run R active run_id))"

section \<open>Reading\<close>

definition api_read :: "world \<Rightarrow> string \<Rightarrow> (hub \<Rightarrow> 'a result) \<Rightarrow> 'a response hub_op" where
  "api_read W run_id f = with_run W run_id (\<lambda>_. hbind (hlift f) (\<lambda>x. hreturn (Reply 200 x)))"

definition api_artifacts :: "world \<Rightarrow> string \<Rightarrow> artifact_record list response hub_op" where
  "api_artifacts W run_id = api_read W run_id (\<lambda>h. Inr (list_artifacts (hb_db h) run_id))"

definition api_history :: "world \<Rightarrow> string \<Rightarrow> event_record list response hub_op" where
  "api_history W run_id = api_read W run_id (\<lambda>h. Inr (events_after (hb_db h) run_id 0))"

definition api_tasks :: "world \<Rightarrow> string \<Rightarrow> delegated_task list response hub_op" where
  "api_tasks W run_id = api_read W run_id (\<lambda>h. Inr (list_delegated_tasks (hb_db h) run_id))"

definition api_finops :: "world \<Rightarrow> (string \<Rightarrow> rat result) \<Rightarrow> string \<Rightarrow> jdict response hub_op" where
  "api_finops W fl run_id = api_read W run_id (\<lambda>h. finops_report (wd_py W) fl (events_after (hb_db h) run_id 0))"

definition api_interactions :: "world \<Rightarrow> string \<Rightarrow> human_interaction list response hub_op" where
  "api_interactions W run_id = api_read W run_id (\<lambda>h. Inr (list_interactions (hb_db h) run_id))"

definition api_get_artifact :: "world \<Rightarrow> string \<Rightarrow> (artifact_metadata \<times> jdict) response hub_op" where
  "api_get_artifact W artifact_id = (\<lambda>h. case get_artifact (hb_db h) artifact_id of
       None \<Rightarrow> (Inr (Problem 404 ''Artifact not found''), h)
     | Some record' \<Rightarrow> (case read_content (wd_py W) (hb_store h) record' of
           Inl e \<Rightarrow> (Inl e, h) | Inr content \<Rightarrow> (Inr (Reply 200 (ar_metadata record', content)), h)))"

text \<open>The latest gates and evaluation, and the decision on exactly these two.\<close>

record evaluation_view =
  vw_quality_gates :: "jdict option"
  vw_agent_evaluation :: "jdict option"
  vw_decision :: "jdict option"
  vw_repair_attempts :: nat

definition latest_view :: "world \<Rightarrow> hub \<Rightarrow> string \<Rightarrow> artifact_kind \<Rightarrow> jdict option result" where
  "latest_view W h run_id kind = (case find_last (\<lambda>a. md_kind (ar_metadata a) = kind) (list_artifacts (hb_db h) run_id) of
       None \<Rightarrow> Inr None
     | Some record' \<Rightarrow> rbind (read_content (wd_py W) (hb_store h) record') (\<lambda>content.
         Inr (Some (dict_merge [(''artifact_id'', JStr (md_artifact_id (ar_metadata record')))] content))))"

definition decision_on :: "jdict option \<Rightarrow> jdict option \<Rightarrow> event_record \<Rightarrow> bool" where
  "decision_on gates evaluation e \<longleftrightarrow> ev_event_type e = ''evaluation.decision''
     \<and> (case (gates, evaluation) of
          (Some g, Some v) \<Rightarrow> g \<noteq> [] \<and> v \<noteq> [] \<and> py_eq (dget (ev_payload e) ''quality_gate_artifact_id'') (dget g ''artifact_id'')
            \<and> py_eq (dget (ev_payload e) ''evaluation_artifact_id'') (dget v ''artifact_id'')
        | _ \<Rightarrow> False)"

definition view_evaluation :: "world \<Rightarrow> string \<Rightarrow> hub \<Rightarrow> evaluation_view result" where
  "view_evaluation W run_id h =
     rbind (latest_view W h run_id QUALITY_GATE_REPORT) (\<lambda>gates.
     rbind (latest_view W h run_id EVALUATION_REPORT) (\<lambda>evaluation.
     let events = events_after (hb_db h) run_id 0 in
     Inr \<lparr>vw_quality_gates = gates, vw_agent_evaluation = evaluation,
       vw_decision = map_option ev_payload (find_last (decision_on gates evaluation) events),
       vw_repair_attempts = length (filter (\<lambda>e. ev_event_type e = ''repair.started'') events)\<rparr>))"

definition api_evaluation :: "world \<Rightarrow> string \<Rightarrow> evaluation_view response hub_op" where
  "api_evaluation W run_id = api_read W run_id (view_evaluation W run_id)"

section \<open>Human actions\<close>

text \<open>\<open>secrets.compare_digest\<close> raises on texts that are not ASCII.\<close>

definition is_ascii :: "string \<Rightarrow> bool" where
  "is_ascii = list_all (\<lambda>c. (of_char c :: nat) < 128)"

definition compare_digest :: "string \<Rightarrow> string \<Rightarrow> bool result" where
  "compare_digest a b = (if is_ascii a \<and> is_ascii b then Inr (a = b)
     else Inl (TypeError ''comparing strings with non-ASCII characters is not supported''))"

definition api_human_action :: "orchestrator \<Rightarrow> string \<Rightarrow> string option \<Rightarrow> human_action \<Rightarrow> human_interaction response hub_op" where
  "api_human_action R run_id authorization action =
     hbind (hlift (\<lambda>_. compare_digest (case authorization of None \<Rightarrow> [] | Some t \<Rightarrow> t)
       (''Bearer '' @ cf_human_action_token (rt_settings R)))) (\<lambda>equal.
     if \<not> equal then hreturn (Problem 401 ''Human action authentication required'')
     else conflict value_error 200 (respond R run_id action))"

section \<open>The stream of events\<close>

datatype frame = Sent event_record | Keep_alive

text \<open>How far a stream got: the server closed it, the client left, it still waits, or it failed.\<close>

datatype ending = Closed | Left | Waits | Failed

definition stream_cursor :: "string option \<Rightarrow> int" where
  "stream_cursor last_event_id = (case last_event_id of
       None \<Rightarrow> 0
     | Some t \<Rightarrow> if length (filter is_digit t) > 4300 then 0 else (case py_int t of Inr n \<Rightarrow> n | Inl _ \<Rightarrow> 0))"

text \<open>
  A round sees whether the client left, the repository when the events are read, and the repository when the
  run is read; without events to send nothing can happen in between.
\<close>

type_synonym poll = "bool \<times> database \<times> database"

fun stream_from :: "pyenv \<Rightarrow> string \<Rightarrow> nat \<Rightarrow> poll list \<Rightarrow> frame list \<times> ending" where
  "stream_from E r cursor [] = ([], Waits)"
| "stream_from E r cursor ((gone, db1, db2) # polls) =
     (if gone then ([], Left)
      else let events = events_after db1 r cursor in
        case get_run E (if events = [] then db1 else db2) r of
          Inl e \<Rightarrow> (map Sent events, Failed)
        | Inr found \<Rightarrow>
            if (case found of None \<Rightarrow> True | Some run \<Rightarrow> wr_status run \<in> TERMINAL_RUN_STATUSES \<and> events = [])
            then (map Sent events, Closed)
            else (case stream_from E r (if events = [] then cursor else ev_event_id (last events)) polls of
                (frames, ending) \<Rightarrow> ((if events = [] then [Keep_alive] else map Sent events) @ frames, ending)))"

definition stream_events :: "pyenv \<Rightarrow> string \<Rightarrow> int \<Rightarrow> poll list \<Rightarrow> frame list \<times> ending" where
  "stream_events E r cursor polls =
     (if cursor < - (2 ^ 63) \<or> 2 ^ 63 \<le> cursor
      then (case polls of [] \<Rightarrow> ([], Waits) | (gone, _) # _ \<Rightarrow> ([], if gone then Left else Failed))
      else stream_from E r (nat cursor) polls)"

definition api_stream_events :: "world \<Rightarrow> string \<Rightarrow> string option \<Rightarrow> poll list \<Rightarrow> (frame list \<times> ending) response hub_op" where
  "api_stream_events W run_id last_event_id polls = with_run W run_id (\<lambda>_.
     hreturn (Reply 200 (stream_events (wd_py W) run_id (stream_cursor last_event_id) polls)))"

end
