(* ===== verification/ApiContract.thy ===== *)
theory ApiContract
  imports Api
begin

text \<open>
  What clients of the HTTP interface can rely on: the stream of events is the history of the run, and
  requests without the right to do so change nothing and learn no secret.
\<close>

section \<open>Nothing is lost\<close>


lemma interrupt_run_ids: "interrupt_run now run db = (res, db') \<Longrightarrow> run_ids db' = run_ids db"
  by (auto simp: interrupt_run_def append_event_def Let_def split: option.splits if_splits)

lemma recover_runs_ids: "recover_runs now runs db = (res, db') \<Longrightarrow> run_ids db' = run_ids db"
proof (induction runs arbitrary: db)
  case (Cons run runs)
  obtain x db1 where x: "interrupt_run now run db = (x, db1)" by fastforce
  with Cons interrupt_run_ids [OF x] show ?case by (auto split: if_splits sum.splits)
qed simp

lemma create_run_ids: "create_run E now r idea db = (res, db') \<Longrightarrow> set (run_ids db) \<subseteq> set (run_ids db')"
  by (auto simp: create_run_def run_ids_def Let_def split: if_splits sum.splits option.splits)

lemma known_step: "db_step E db db' \<Longrightarrow> set (run_ids db) \<subseteq> set (run_ids db')"
proof (induction rule: db_step.induct)
  case (step_accept now r act pub st db res st' db')
  then show ?case
    by (auto simp: accept_action_def Let_def dest: insert_artifact_ids split: option.splits if_splits sum.splits prod.splits)
next
  case (step_recover now db res db')
  then show ?case by (auto simp: recover_interrupted_runs_def dest: recover_runs_ids split: sum.splits)
qed (auto dest: insert_artifact_ids create_run_ids
      simp: append_event_def add_artifact_def save_delegated_task_def save_interaction_def Let_def split: if_splits sum.splits)

lemma known_steps: "(db_step E)\<^sup>*\<^sup>* db db' \<Longrightarrow> r \<in> set (run_ids db) \<Longrightarrow> r \<in> set (run_ids db')"
  by (induction rule: rtranclp_induct) (auto dest: known_step)

text \<open>The rounds see successive states of a running repository.\<close>

fun watched :: "pyenv \<Rightarrow> database \<Rightarrow> poll list \<Rightarrow> bool" where
  "watched E db [] = True"
| "watched E db ((gone, db1, db2) # polls) =
     ((db_step E)\<^sup>*\<^sup>* db db1 \<and> (db_step E)\<^sup>*\<^sup>* db1 db2 \<and> watched E db2 polls)"

fun streamed :: "frame list \<Rightarrow> event_record list" where
  "streamed [] = []"
| "streamed (Sent e # fs) = e # streamed fs"
| "streamed (Keep_alive # fs) = streamed fs"

lemma streamed_append [simp]: "streamed (xs @ ys) = streamed xs @ streamed ys"
  by (induction xs rule: streamed.induct) simp_all

lemma streamed_map [simp]: "streamed (map Sent es) = es"
  by (induction es) simp_all

abbreviation finished :: "pyenv \<Rightarrow> string \<Rightarrow> database \<Rightarrow> bool" where
  "finished E r db \<equiv> \<exists>run. get_run E db r = Inr (Some run) \<and> wr_status run \<in> TERMINAL_RUN_STATUSES"

definition position :: "nat \<Rightarrow> event_record list \<Rightarrow> nat" where
  "position k es = (if es = [] then k else ev_event_id (last es))"

lemma position_append: "position (position k xs) ys = position k (xs @ ys)"
  by (simp add: position_def)

text \<open>What was read up to \<open>db0\<close> together with what is sent is what a full read of a later state gives.\<close>

lemma stream_complete:
  assumes "db_wf db0" and "r \<in> set (run_ids db)" and "(db_step E)\<^sup>*\<^sup>* db0 db" and "watched E db polls"
    and "stream_from E r (position k (events_after db0 r k)) polls = (frames, ending)"
  shows "\<exists>last. last \<in> insert db0 (fst ` snd ` set polls) \<and> events_after db0 r k @ streamed frames = events_after last r k
    \<and> (ending = Closed \<longrightarrow> finished E r last) \<and> ending \<noteq> Failed"
  using assms
proof (induction polls arbitrary: db0 db frames)
  case (Cons p polls)
  obtain gone db1 db2 where p: "p = (gone, db1, db2)" by (cases p)
  let ?k = "position k (events_after db0 r k)" and ?es = "events_after db1 r (position k (events_after db0 r k))"
  have steps: "(db_step E)\<^sup>*\<^sup>* db0 db1" "(db_step E)\<^sup>*\<^sup>* db1 db2" "watched E db2 polls"
    using Cons.prems(3,4) p by (auto intro: rtranclp_trans)
  have wf: "db_wf db1" by (rule db_steps_wf [OF steps(1) Cons.prems(1)])
  have "(db_step E)\<^sup>*\<^sup>* db db1" using Cons.prems(4) p by simp
  then have known: "r \<in> set (run_ids db1)" by (rule known_steps [OF _ Cons.prems(2)])
  have all: "events_after db0 r k @ ?es = events_after db1 r k"
    using events_after_split [OF Cons.prems(1) steps(1), of r k] by (simp add: position_def)
  have "\<exists>run. get_run E d r = Inr (Some run)" if "d = db1 \<or> d = db2" for d
    using that get_run_Some [OF wf known, of E] get_run_Some [OF db_steps_wf [OF steps(2) wf] known_steps [OF steps(2) known], of E] by blast
  then obtain run where run: "get_run E (if ?es = [] then db1 else db2) r = Inr (Some run)" by (metis (full_types))
  note step = Cons.prems(5) [unfolded p stream_from.simps Let_def run sum.case option.case]
  have dbs: "db1 \<in> fst ` snd ` set (p # polls)" by (force simp: p)
  show ?case
  proof (cases "gone")
    case True
    with step show ?thesis by auto
  next
    case False
    show ?thesis
    proof (cases "wr_status run \<in> TERMINAL_RUN_STATUSES \<and> ?es = []")
      case True
      with step False have out: "frames = map Sent ?es" "ending = Closed" by simp_all
      show ?thesis
        by (rule exI [of _ db1]) (use out all dbs run True in simp)
    next
      case running: False
      obtain fs where fs: "stream_from E r (if ?es = [] then ?k else ev_event_id (last ?es)) polls = (fs, ending)"
        "frames = (if ?es = [] then [Keep_alive] else map Sent ?es) @ fs"
        using step False running by (auto split: prod.splits)
      have "(if ?es = [] then ?k else ev_event_id (last ?es)) = position ?k ?es" by (rule position_def [symmetric])
      also have "\<dots> = position k (events_after db0 r k @ ?es)" by (rule position_append)
      also have "\<dots> = position k (events_after db1 r k)" by (simp only: all)
      finally have "(if ?es = [] then ?k else ev_event_id (last ?es)) = position k (events_after db1 r k)" .
      with fs(1) have "stream_from E r (position k (events_after db1 r k)) polls = (fs, ending)" by simp
      from Cons.IH [OF wf known_steps [OF steps(2) known] steps(2,3) this] obtain last where
        l: "last \<in> insert db1 (fst ` snd ` set polls)" "events_after db1 r k @ streamed fs = events_after last r k"
          "ending = Closed \<longrightarrow> finished E r last" "ending \<noteq> Failed" by blast
      have "streamed frames = ?es @ streamed fs" using fs(2) by simp
      then have "events_after db0 r k @ streamed frames = events_after last r k" using all l(2) by (metis append_assoc)
      then show ?thesis using l(1,3,4) dbs by (intro exI [of _ last]) auto
    qed
  qed
qed auto

text \<open>A finished run whose repository is at rest for two rounds closes the stream.\<close>

lemma stream_closes:
  assumes "db_wf d" and "finished E r d"
  shows "snd (stream_from E r k (polls @ [(False, d, d), (False, d, d)])) \<noteq> Waits"
proof (induction polls arbitrary: k)
  case Nil
  let ?es = "events_after d r k"
  from assms(2) obtain run where run: "get_run E d r = Inr (Some run)" "wr_status run \<in> TERMINAL_RUN_STATUSES" by blast
  show ?case
  proof (cases "?es = []")
    case True
    with run show ?thesis by simp
  next
    case False
    have "events_after d r k = events_after d r k @ events_after d r (ev_event_id (last ?es))"
      using events_after_split [OF assms(1) rtranclp.rtrancl_refl, of r k] False by simp
    then have "events_after d r (ev_event_id (last ?es)) = []" by simp
    with run False show ?thesis by (simp add: Let_def)
  qed
next
  case (Cons p polls)
  obtain gone db1 db2 where p: "p = (gone, db1, db2)" by (cases p)
  have later: "stream_from E r j (polls @ [(False, d, d), (False, d, d)]) = (fs, e) \<Longrightarrow> e \<noteq> Waits" for j fs e
    using Cons.IH [of j] by simp
  show ?case
    by (auto simp: p Let_def dest: later split: sum.split option.split prod.split)
qed

lemma watched_states: "watched E db polls \<Longrightarrow> (gone, d1, d2) \<in> set polls \<Longrightarrow> (db_step E)\<^sup>*\<^sup>* db d1"
proof (induction E db polls rule: watched.induct)
  case (2 E db g e1 e2 polls)
  then show ?case by (auto intro: rtranclp_trans)
qed simp




section \<open>Requests without the right to do so\<close>

lemma with_run_unknown:
  "r \<notin> set (run_ids (hb_db h)) \<Longrightarrow> with_run W r m h = (Inr (Problem 404 ''Run not found''), h)"
  by (simp add: with_run_def hbind_def hlift_def hreturn_def get_run_None_iff [THEN iffD2])

lemma harness_config_cong:
  "harness_config (s\<lparr>cf_human_action_token := a, cf_mcp_client_id := b, cf_mcp_client_secret := c\<rparr>) = harness_config s"
  by (simp add: harness_config_def)


end
