(* ===== verification/Evidence.thy ===== *)
theory Evidence
  imports ToolService AgentRuntime
begin

text \<open>
  The evidence of builds, tests and analyses: \<open>execute_artifact\<close> of \<open>sandbox/cli.py\<close>, which runs a stored source in the
  sandbox and publishes a report, and the agents of \<open>agents/execution.py\<close> and \<open>agents/analysis.py\<close>, which gather
  reports on all current sources and have a model review them. \<open>create_definitions\<close> of \<open>agents/live.py\<close>
  puts the fleet together. Paths and file sizes are parameters, and so is the reviewing agent.
\<close>

section \<open>A stored source in the sandbox\<close>

record bench =
  bn_docker :: docker_host
  bn_inside :: "string list \<Rightarrow> bool"
  bn_size :: "nat \<Rightarrow> string list \<Rightarrow> int result"

definition sandbox_dump :: "sandbox_execution \<Rightarrow> jdict" where
  "sandbox_dump x =
    [(''runtime'', JStr (sx_runtime x)), (''isolation'', JStr (sx_isolation x)),
     (''image'', (case sx_image x of None \<Rightarrow> JNull | Some v \<Rightarrow> v)), (''container_id'', jopt JStr (sx_container_id x)),
     (''kernel'', JStr (sx_kernel x)), (''runtime_version'', sx_runtime_version x), (''duration_ms'', JInt (int (sx_duration_ms x))),
     (''exit_code'', sx_exit_code x), (''timed_out'', JBool (sx_timed_out x)), (''output_truncated'', JBool (sx_output_truncated x)),
     (''oom_killed'', sx_oom_killed x), (''cleanup_succeeded'', JBool (sx_cleanup_succeeded x)),
     (''reason'', jopt JStr (sx_reason x)), (''policy'', JObj (policy_dump (sx_policy x)))]"

definition result_content :: "string \<Rightarrow> string \<Rightarrow> sandbox_result \<Rightarrow> jdict" where
  "result_content artifact_id sha r =
    [(''source_artifact_id'', JStr artifact_id), (''source_sha256'', JStr sha), (''status'', JStr (status_text (sb_status r))),
     (''execution'', JObj (sandbox_dump (sb_execution r))), (''stdout'', JStr (sb_stdout r)), (''stderr'', JStr (sb_stderr r))]"

text \<open>The record and the files of an intact source artifact, as \<open>execute_artifact\<close> obtains them.\<close>

definition stored_source :: "bench \<Rightarrow> string \<Rightarrow> string \<Rightarrow> service \<Rightarrow> (artifact_record \<times> source_file list) result" where
  "stored_source B artifact_id sha s =
     rbind (analysis_request_validate (JObj [(''artifact_id'', JStr artifact_id), (''content_sha256'', JStr sha)])) (\<lambda>q.
     case get_artifact (hb_db (sv_hub s)) (aq_artifact_id q) of
       None \<Rightarrow> Inl (ValueError ''Expected an immutable code_change source artifact'')
     | Some record' \<Rightarrow>
         if md_kind (ar_metadata record') \<notin> {CODE_CHANGE, INTEGRATED_SOURCE}
         then Inl (ValueError ''Expected an immutable code_change source artifact'')
         else if md_content_sha256 (ar_metadata record') \<noteq> aq_content_sha256 q \<or> \<not> bn_inside B (ar_content_path record')
         then Inl (ValueError ''Source artifact hash or containment mismatch'')
         else rbind (bn_size B (sv_tick s) (ar_content_path record')) (\<lambda>n.
           rbind (guard (n \<le> 1048576) (ValueError ''Source artifact hash or containment mismatch'')) (\<lambda>_.
           rbind (read_content (wd_py (dh_world (bn_docker B))) (hb_store (sv_hub s)) record') (\<lambda>content.
           rbind (source_bundle_validate content) (\<lambda>files. Inr (record', files))))))"

definition sandbox_kind :: "sandbox_mode \<Rightarrow> artifact_kind" where
  "sandbox_kind mode = (if mode = Build then BUILD_REPORT else TEST_REPORT)"

definition evidence_request :: "string \<Rightarrow> sandbox_mode \<Rightarrow> string \<Rightarrow> string \<Rightarrow> sandbox_result \<Rightarrow> write_request" where
  "evidence_request run_id mode artifact_id sha r =
    \<lparr>wq_run_id = run_id, wq_stage = INTEGRATION, wq_kind = sandbox_kind mode, wq_producing_agent = ''trusted-sandbox-service'',
     wq_content = result_content artifact_id sha r,
     wq_markdown = ''# Sandbox '' @ mode_value mode @ [CHR 0x0A, CHR 0x0A] @ status_text (sb_status r)
       @ '' ('' @ sx_runtime (sb_execution r) @ '')'',
     wq_parent_artifact_ids = [artifact_id], wq_model_id = None, wq_prompt_version = ''deterministic-v1'',
     wq_execution = sandbox_dump (sb_execution r)\<rparr>"

definition publish_evidence :: "world \<Rightarrow> string \<Rightarrow> sandbox_mode \<Rightarrow> string \<Rightarrow> string \<Rightarrow> sandbox_result \<Rightarrow> jdict hub_op" where
  "publish_evidence W run_id mode artifact_id sha r =
     hbind (publish W (evidence_request run_id mode artifact_id sha r)) (\<lambda>artifact.
     let i = md_artifact_id (ar_metadata artifact) in
     hbind (event W run_id ''sandbox.executed''
       [(''artifact_id'', JStr i), (''source_artifact_id'', JStr artifact_id), (''status'', JStr (status_text (sb_status r))),
        (''execution'', JObj (sandbox_dump (sb_execution r)))]) (\<lambda>_.
     hreturn ((''artifact_id'', JStr i) # result_content artifact_id sha r)))"

definition evidence_job :: "source_file list \<Rightarrow> sandbox_mode \<Rightarrow> int \<Rightarrow> sandbox_job" where
  "evidence_job files mode timeout =
     \<lparr>jb_source = files, jb_mode = mode, jb_policy = default_policy\<lparr>sp_timeout_seconds := timeout\<rparr>\<rparr>"

definition execute_artifact :: "bench \<Rightarrow> string \<Rightarrow> string \<Rightarrow> sandbox_mode \<Rightarrow> string option \<Rightarrow> int \<Rightarrow> jdict run_op" where
  "execute_artifact B artifact_id sha mode runtime timeout =
     sbind (slift (guard (mode \<in> {Build, Test}) (ValueError ''Expected a fixed build or test sandbox job''))) (\<lambda>_.
     sbind (\<lambda>s. slift (stored_source B artifact_id sha s) s) (\<lambda>(record', files).
     let job = evidence_job files mode timeout in
     sbind (slift (guard (policy_valid (jb_policy job)) (ValueError ''SandboxPolicy''))) (\<lambda>_.
     sbind (execute_sandbox (bn_docker B) job runtime) (\<lambda>result.
     on_service_hub (publish_evidence (dh_world (bn_docker B)) (md_workflow_run_id (ar_metadata record')) mode artifact_id sha result)))))"

section \<open>The build and test agents\<close>

fun gather_evidence :: "bench \<Rightarrow> sandbox_mode \<Rightarrow> string \<Rightarrow> artifact_view list \<Rightarrow> jdict list run_op" where
  "gather_evidence B mode run_id [] = sreturn []"
| "gather_evidence B mode run_id (v # vs) =
     sbind (slift (guard (md_workflow_run_id (av_metadata v) = run_id) (ValueError ''Execution source belongs to another run''))) (\<lambda>_.
     sbind (execute_artifact B (av_id v) (md_content_sha256 (av_metadata v)) mode None 60) (\<lambda>report.
     sbind (gather_evidence B mode run_id vs) (\<lambda>reports. sreturn (report # reports))))"

text \<open>The context of the review, and the overall status.\<close>

definition with_evidence :: "agent_context \<Rightarrow> jdict list \<Rightarrow> agent_context" where
  "with_evidence context reports = context\<lparr>cx_repair_feedback :=
     Some (dict_set ''execution_evidence'' (JArr (map JObj reports))
       (case cx_repair_feedback context of None \<Rightarrow> [] | Some d \<Rightarrow> d))\<rparr>"

definition overall_status :: "jdict list \<Rightarrow> string" where
  "overall_status reports = (if list_all (\<lambda>r. dget r ''status'' = JStr ''completed'') reports then ''completed'' else ''failed'')"

definition execution_content :: "jdict list \<Rightarrow> agent_result \<Rightarrow> jdict" where
  "execution_content reports review =
    [(''status'', JStr (overall_status reports)),
     (''report_artifact_ids'', JArr (map (\<lambda>r. dget r ''artifact_id'') reports)), (''model_review'', JObj (ag_content review))]"

definition with_sandbox_execution :: "bench \<Rightarrow> string \<Rightarrow> (agent_context \<Rightarrow> agent_result run_op) \<Rightarrow> agent_context \<Rightarrow>
    agent_result run_op" where
  "with_sandbox_execution B name review context =
     (let mode = (if name = ''build-agent'' then Build else Test); sources = current_sources (cx_artifacts context) in
      sbind (slift (guard (sources \<noteq> []) (ValueError ''No current executable source bundle''))) (\<lambda>_.
      sbind (slift (traverse (\<lambda>v. source_bundle_validate (av_content v)) sources)) (\<lambda>_.
      sbind (gather_evidence B mode (cx_run_id context) sources) (\<lambda>reports.
      sbind (review (with_evidence context reports)) (\<lambda>r.
      sreturn \<lparr>ag_artifact_kind = sandbox_kind mode, ag_content = execution_content reports r,
        ag_markdown = ag_markdown r, ag_human_prompt = None, ag_execution = ag_execution r\<rparr>)))))"

section \<open>The analysis agent\<close>

definition finding_dump :: "finding \<Rightarrow> json" where
  "finding_dump f = JObj [(''rule_id'', JStr (fd_rule_id f)), (''severity'', JStr (fd_severity f)), (''path'', JStr (fd_path f)),
     (''line'', JInt (fd_line f)), (''column'', JInt (fd_column f)), (''message'', JStr (fd_message f)),
     (''fingerprint'', JStr (fd_fingerprint f))]"

definition analyzer_execution_dump :: "analyzer_execution \<Rightarrow> jdict" where
  "analyzer_execution_dump x =
    [(''runtime'', JStr (ax_runtime x)), (''isolation'', JStr (ax_isolation x)), (''duration_ms'', JInt (ax_duration_ms x)),
     (''timed_out'', JBool (ax_timed_out x)), (''output_truncated'', JBool (ax_output_truncated x)), (''image'', jopt JStr (ax_image x)),
     (''container_id'', jopt JStr (ax_container_id x)), (''kernel'', jopt JStr (ax_kernel x)),
     (''runtime_version'', jopt JStr (ax_runtime_version x)), (''exit_code'', jopt JInt (ax_exit_code x)),
     (''oom_killed'', JBool (ax_oom_killed x)), (''cleanup_succeeded'', JBool (ax_cleanup_succeeded x)),
     (''reason'', jopt JStr (ax_reason x)), (''policy'', JObj (ax_policy x))]"

definition analysis_dump :: "analysis_report \<Rightarrow> jdict" where
  "analysis_dump r =
    [(''status'', JStr (status_text (az_status r))), (''tool'', JObj [(''name'', JStr ''ruff''), (''version'', JStr ''0.16.7'')]),
     (''findings'', JArr (map finding_dump (az_findings r))), (''execution'', JObj (analyzer_execution_dump (az_execution r))),
     (''analysis_id'', JStr (rp_analysis_id r)), (''artifact_id'', JStr (rp_artifact_id r)),
     (''content_sha256'', JStr (rp_content_sha256 r)), (''run_id'', JStr (rp_run_id r)), (''result_uri'', JStr (rp_result_uri r)),
     (''summary'', JObj [(''errors'', JInt (int (rp_errors r))), (''warnings'', JInt (int (rp_warnings r)))])]"

text \<open>The request for a source, which the model validates again.\<close>

definition source_request :: "settings \<Rightarrow> artifact_view \<Rightarrow> analysis_request result" where
  "source_request s v = analysis_request_validate (JObj [(''artifact_id'', JStr (av_id v)),
     (''content_sha256'', JStr (md_content_sha256 (av_metadata v))),
     (''timeout_seconds'', JInt (min 60 (int (cf_analysis_timeout_seconds s))))])"

fun gather_analyses :: "settings \<Rightarrow> (analysis_request \<Rightarrow> ('s, analysis_report) op) \<Rightarrow> string \<Rightarrow> artifact_view list \<Rightarrow>
    ('s, analysis_report list) op" where
  "gather_analyses s call run_id [] = oreturn []"
| "gather_analyses s call run_id (v # vs) =
     obind (oguard (md_workflow_run_id (av_metadata v) = run_id) (ValueError ''Analysis source belongs to a different run'')) (\<lambda>_.
     obind (oread (\<lambda>_. source_request s v)) (\<lambda>q.
     obind (call q) (\<lambda>report.
     obind (gather_analyses s call run_id vs) (\<lambda>reports. oreturn (report # reports)))))"

definition analysis_content :: "jdict list \<Rightarrow> agent_result \<Rightarrow> jdict" where
  "analysis_content reports review =
    [(''status'', JStr (overall_status reports)), (''transport'', JStr ''MCP Streamable HTTP''),
     (''reports'', JArr (map JObj reports)), (''model_review'', JObj (ag_content review))]"

definition with_mcp_analysis :: "settings \<Rightarrow> (analysis_request \<Rightarrow> ('s, analysis_report) op) \<Rightarrow>
    (agent_context \<Rightarrow> ('s, agent_result) op) \<Rightarrow> agent_context \<Rightarrow> ('s, agent_result) op" where
  "with_mcp_analysis s call review context =
     (let sources = current_sources (cx_artifacts context) in
      obind (oguard (sources \<noteq> []) (ValueError ''MCP analysis requires current executable source'')) (\<lambda>_.
      obind (gather_analyses s call (cx_run_id context) sources) (\<lambda>found. let reports = map analysis_dump found in
      obind (review (with_evidence context reports)) (\<lambda>r.
      oreturn \<lparr>ag_artifact_kind = STATIC_ANALYSIS_REPORT, ag_content = analysis_content reports r,
        ag_markdown = ag_markdown r, ag_human_prompt = None, ag_execution = ag_execution r\<rparr>))))"

section \<open>The fleet\<close>

text \<open>How the definition of an agent is put together, and the checks before that.\<close>

datatype agent_handler = Model_only output_schema artifact_kind | Sandboxed output_schema | Analyzed output_schema

definition handler_of :: "agent_spec \<Rightarrow> agent_handler result" where
  "handler_of a = rbind (agent_profile (sp_stage a) (sp_name a)) (\<lambda>(schema, kind).
     Inr (if sp_name a \<in> {''build-agent'', ''validation-agent''} then Sandboxed schema
       else if sp_name a = ''static-analysis-agent'' then Analyzed schema else Model_only schema kind))"

definition create_definitions :: "settings \<Rightarrow> (string \<times> agent_handler) list result" where
  "create_definitions s =
     rbind (guard (cf_agent_mode s = ''deep'') (ValueError ''Reference mode is removed; AIDLC_AGENT_MODE must be deep'')) (\<lambda>_.
     rbind (guard (cf_model s \<noteq> [] \<and> cf_model s \<noteq> ''provider:model'')
       (ValueError ''Set AIDLC_MODEL and provider credentials in the shared .env file'')) (\<lambda>_.
     rbind (guard (cf_mcp_enabled s \<and> cf_sandbox_execution_enabled s)
       (ValueError ''The learning workflow requires MCP and sandbox execution enabled'')) (\<lambda>_.
     traverse (\<lambda>a. rbind (handler_of a) (\<lambda>h. Inr (sp_name a, h))) AGENT_SPECS)))"

end
