(* ===== verification/EvidenceTrust.thy ===== *)
theory EvidenceTrust
  imports Evidence Confinement
begin

text \<open>
  What a report of an execution agent stands for (\<open>agents/execution.py\<close>, \<open>sandbox/cli.py\<close>): each source was executed as
  the hub published it, in a confined sandbox, and its report is the content of an artifact of the trusted service.
\<close>

lemma sbind_Inr: "sbind m f s = (Inr y, s') \<longleftrightarrow> (\<exists>x s1. m s = (Inr x, s1) \<and> f x s1 = (Inr y, s'))"
  by (auto simp: sbind_def split: prod.splits sum.splits)

lemma slift_Inr: "slift r s = (Inr x, s') \<longleftrightarrow> r = Inr x \<and> s' = s"
  by (auto simp: slift_def sraise_def sreturn_def split: sum.splits)

lemma on_service_hub_Inr: "on_service_hub m s = (Inr x, s') \<longleftrightarrow> (\<exists>h. m (sv_hub s) = (Inr x, h) \<and> s' = s\<lparr>sv_hub := h\<rparr>)"
  by (auto simp: on_service_hub_def split: prod.splits sum.splits)

text \<open>The source of a report: an indexed artifact with the given identifier and hash, read back intact.\<close>

definition intact :: "bench \<Rightarrow> string \<Rightarrow> string \<Rightarrow> service \<Rightarrow> artifact_record \<Rightarrow> source_file list \<Rightarrow> bool" where
  "intact B artifact_id sha s record' files \<longleftrightarrow>
     get_artifact (hb_db (sv_hub s)) artifact_id = Some record'
     \<and> md_kind (ar_metadata record') \<in> {CODE_CHANGE, INTEGRATED_SOURCE} \<and> md_content_sha256 (ar_metadata record') = sha
     \<and> (\<exists>content. read_content (wd_py (dh_world (bn_docker B))) (hb_store (sv_hub s)) record' = Inr content
         \<and> content_digest (wd_py (dh_world (bn_docker B))) content = sha \<and> source_bundle_validate content = Inr files)"

text \<open>A run of the sandbox that was confined, accepted and cleaned up.\<close>

definition proper_run :: "docker_host \<Rightarrow> sandbox_job \<Rightarrow> service \<Rightarrow> sandbox_result \<Rightarrow> service \<Rightarrow> bool" where
  "proper_run H job s x s' \<longleftrightarrow> (\<exists>U W D name rt. exchanged H s (U @ W @ D) s' \<and> harmless U \<and> job_run H job rt name W D
     \<and> accepted_run H job W D x)"

text \<open>
  What a report on a source stands for: an execution of exactly the intact bundle, whose result is the content of
  an artifact that the trusted service published in the run; if it is completed, the run was proper.
\<close>

definition genuine_report :: "bench \<Rightarrow> sandbox_mode \<Rightarrow> artifact_view \<Rightarrow> jdict \<Rightarrow> bool" where
  "genuine_report B mode v report \<longleftrightarrow> (\<exists>s record' files x s1 h a.
     intact B (av_id v) (md_content_sha256 (av_metadata v)) s record' files
     \<and> execute_sandbox (bn_docker B) (evidence_job files mode 60) None s = (Inr x, s1)
     \<and> report = (''artifact_id'', JStr (md_artifact_id (ar_metadata a))) # result_content (av_id v) (md_content_sha256 (av_metadata v)) x
     \<and> publish (dh_world (bn_docker B)) (evidence_request (md_workflow_run_id (ar_metadata record')) mode (av_id v)
         (md_content_sha256 (av_metadata v)) x) (sv_hub s1) = (Inr a, h)
     \<and> (dget report ''status'' = JStr ''completed'' \<longrightarrow> proper_run (bn_docker B) (evidence_job files mode 60) s x s1))"

lemma request_validates: "analysis_request_validate (JObj [(''artifact_id'', JStr i), (''content_sha256'', JStr sha)]) = Inr q \<Longrightarrow>
    aq_artifact_id q = i \<and> aq_content_sha256 q = sha"
  by (auto simp: analysis_request_validate_def split: if_splits)

lemma stored_source_intact:
  assumes "stored_source B i sha s = Inr (record', files)"
  shows "intact B i sha s record' files"
  using assms read_content_digest
  by (fastforce simp: stored_source_def intact_def rbind_eq_Inr guard_eq dest: request_validates split: option.splits if_splits)

lemma status_text_completed: "status_text t = ''completed'' \<longleftrightarrow> t = SB_completed"
  by (cases t) simp_all

lemma executed_proper:
  assumes "execute_sandbox H job runtime s = (Inr x, s')" and "sb_status x = SB_completed"
  shows "proper_run H job s x s'"
  using execute_selected_outcome [OF assms(1) [unfolded execute_sandbox_def]] assms(2)
  unfolding proper_run_def by (elim exE conjE disjE) (auto 0 0, blast)

lemma execute_artifact_genuine:
  assumes "execute_artifact B (av_id v) (md_content_sha256 (av_metadata v)) mode None 60 s = (Inr report, s')"
  shows "genuine_report B mode v report"
proof -
  from assms [unfolded execute_artifact_def Let_def sbind_Inr slift_Inr on_service_hub_Inr]
  obtain record' files x s1 h where
    src: "stored_source B (av_id v) (md_content_sha256 (av_metadata v)) s = Inr (record', files)"
    and run: "execute_sandbox (bn_docker B) (evidence_job files mode 60) None s = (Inr x, s1)"
    and pub: "publish_evidence (dh_world (bn_docker B)) (md_workflow_run_id (ar_metadata record')) mode (av_id v)
        (md_content_sha256 (av_metadata v)) x (sv_hub s1) = (Inr report, h)"
    by (auto simp: sbind_Inr slift_Inr on_service_hub_Inr)
  from pub [unfolded publish_evidence_def Let_def hbind_Inr] obtain a h1 where
    a: "publish (dh_world (bn_docker B)) (evidence_request (md_workflow_run_id (ar_metadata record')) mode (av_id v)
        (md_content_sha256 (av_metadata v)) x) (sv_hub s1) = (Inr a, h1)"
    and r: "report = (''artifact_id'', JStr (md_artifact_id (ar_metadata a))) # result_content (av_id v) (md_content_sha256 (av_metadata v)) x"
    by (auto simp: hreturn_def)
  have "dget report ''status'' = JStr (status_text (sb_status x))" by (simp add: r result_content_def dget_def)
  then have "proper_run (bn_docker B) (evidence_job files mode 60) s x s1" if "dget report ''status'' = JStr ''completed''"
  proof -
    have "status_text (sb_status x) = ''completed''"
      using that \<open>dget report ''status'' = JStr (status_text (sb_status x))\<close> by simp
    then show ?thesis using executed_proper [OF run] status_text_completed by blast
  qed
  with a r run stored_source_intact [OF src] show ?thesis
    unfolding genuine_report_def
    by (intro exI [of _ s] exI [of _ record'] exI [of _ files] exI [of _ x] exI [of _ s1] exI [of _ h1] exI [of _ a]) simp
qed

lemma gather_evidence_genuine:
  "gather_evidence B mode run_id vs s = (Inr reports, s') \<Longrightarrow>
     list_all2 (genuine_report B mode) vs reports \<and> list_all (\<lambda>v. md_workflow_run_id (av_metadata v) = run_id) vs"
proof (induction vs arbitrary: s reports)
  case Nil
  then show ?case by (simp add: sreturn_def)
next
  case (Cons v vs)
  from Cons.prems obtain report s1 rs where "md_workflow_run_id (av_metadata v) = run_id"
    "execute_artifact B (av_id v) (md_content_sha256 (av_metadata v)) mode None 60 s = (Inr report, s1)"
    "gather_evidence B mode run_id vs s1 = (Inr rs, s')" "reports = report # rs"
    by (auto simp: sbind_Inr slift_Inr guard_eq sreturn_def)
  with Cons.IH execute_artifact_genuine show ?case by auto
qed


text \<open>A bench on which the test agent runs one stored source to completion.\<close>

definition bench_id :: string where "bench_id = ''art_'' @ replicate 32 CHR ''b''"

definition bench_sha :: string where "bench_sha = replicate 64 CHR ''a''"

definition bench_world :: world where
  "bench_world = \<lparr>wd_py = demo_env\<lparr>sha256 := (\<lambda>_. bench_sha)\<rparr>, wd_uid = (\<lambda>_. replicate 32 CHR ''a''), wd_clock = (\<lambda>k. k)\<rparr>"

definition demo_bench :: bench where
  "demo_bench = \<lparr>bn_docker = demo_docker\<lparr>dh_world := bench_world\<rparr>, bn_inside = (\<lambda>_. True), bn_size = (\<lambda>_ _. Inr 1)\<rparr>"

definition bench_source :: artifact_view where
  "bench_source = (let v = demo_view CODE_CHANGE ''backend-agent'' bench_id (source_bundle_dump tiny_bundle) in
     v\<lparr>av_metadata := (av_metadata v)\<lparr>md_content_sha256 := bench_sha\<rparr>\<rparr>)"

definition bench_service :: service where
  "bench_service = demo_service\<lparr>sv_hub := demo_hub\<lparr>
     hb_store := (empty_store [])\<lparr>st_dirs := [[''d''] \<mapsto> empty_dir\<lparr>ad_content := Some (av_content bench_source)\<rparr>]\<rparr>,
     hb_db := (hb_db demo_hub)\<lparr>db_artifacts := [\<lparr>ar_metadata = av_metadata bench_source, ar_content_path = [''d'']\<rparr>]\<rparr>\<rparr>\<rparr>"

definition bench_review :: "agent_context \<Rightarrow> agent_result run_op" where
  "bench_review context = sreturn \<lparr>ag_artifact_kind = TEST_REPORT, ag_content = [], ag_markdown = ''fine'', ag_human_prompt = None,
     ag_execution = \<lparr>em_execution_id = None, em_model_id = ''m'', em_prompt_version = ''1'', em_input_tokens = None,
       em_output_tokens = None, em_cost_usd = None, em_cost_basis = ''unavailable''\<rparr>\<rparr>"

definition bench_context :: agent_context where
  "bench_context = demo_gate_context\<lparr>cx_run_id := ''run_1'', cx_artifacts := [bench_source], cx_repair_feedback := None\<rparr>"

lemma bench_source_fields:
  "av_id bench_source = bench_id" "md_content_sha256 (av_metadata bench_source) = bench_sha"
  "av_kind bench_source = CODE_CHANGE" "md_workflow_run_id (av_metadata bench_source) = ''run_1''"
  "av_content bench_source = source_bundle_dump tiny_bundle" "av_producer bench_source = ''backend-agent''"
  by (simp_all add: bench_source_def demo_view_def Let_def)

lemma bench_stored: "\<exists>record'. stored_source demo_bench bench_id bench_sha bench_service = Inr (record', tiny_bundle)
    \<and> md_workflow_run_id (ar_metadata record') = ''run_1''"
proof -
  have q: "analysis_request_validate (JObj [(''artifact_id'', JStr bench_id), (''content_sha256'', JStr bench_sha)])
    = Inr \<lparr>aq_artifact_id = bench_id, aq_content_sha256 = bench_sha, aq_timeout_seconds = 60\<rparr>"
    by code_simp
  define record' where "record' = \<lparr>ar_metadata = av_metadata bench_source, ar_content_path = [''d'']\<rparr>"
  have "get_artifact (hb_db (sv_hub bench_service)) bench_id = Some record'"
    by (simp add: get_artifact_def bench_service_def bench_source_fields record'_def)
  moreover have "read_content (wd_py bench_world) (hb_store (sv_hub bench_service)) record' = Inr (source_bundle_dump tiny_bundle)"
    by (simp add: read_content_def bench_service_def record'_def empty_dir_def bench_source_fields content_digest_def bench_world_def)
  moreover have "ar_metadata record' = av_metadata bench_source" by (simp add: record'_def)
  ultimately show ?thesis
    using bench_source_fields tiny_bundle_validates
    by (intro exI [of _ record']) (simp add: stored_source_def q bench_source_fields demo_bench_def guard_def)
qed

lemma publish_succeeds:
  assumes "wq_run_id q \<in> set (run_ids (hb_db h))" and "\<not> is_snapshot (wq_kind q) (wq_producing_agent q)"
    and "safe_producer (wq_producing_agent q)" and "map_of (wq_content q) ''files'' = None"
    and "\<forall>a \<in> set (db_artifacts (hb_db h)). md_artifact_id (ar_metadata a) \<noteq> ''art_'' @ wd_uid W (hb_tick h)"
  shows "\<exists>a h'. publish W q h = (Inr a, h') \<and> run_ids (hb_db h') = run_ids (hb_db h)"
proof -
  from assms(3,4) obtain a st where
    w: "write_artifact (wd_py W) (wd_uid W (hb_tick h)) (wd_clock W (hb_tick h)) q (hb_store h) = (Inr a, st)"
    using write_artifact_plain by blast
  note m = write_artifact_metadata(1) [OF w]
  have "\<exists>h1. publish W q h = (Inr a, h1) \<and> run_ids (hb_db h1) = run_ids (hb_db h)"
    using assms m w by (auto simp: publish_def hbind_def write_op_def add_op_def hreturn_def add_artifact_def insert_artifact_def
        make_metadata_def Let_def)
  then show ?thesis by blast
qed

lemma publish_evidence_succeeds:
  assumes "run_id \<in> set (run_ids (hb_db h))"
    and "\<forall>a \<in> set (db_artifacts (hb_db h)). md_artifact_id (ar_metadata a) \<noteq> ''art_'' @ wd_uid W (hb_tick h)"
  shows "\<exists>report h'. publish_evidence W run_id mode i sha x h = (Inr report, h')"
proof -
  let ?q = "evidence_request run_id mode i sha x"
  have "wq_run_id ?q = run_id" "\<not> is_snapshot (wq_kind ?q) (wq_producing_agent ?q)" "safe_producer (wq_producing_agent ?q)" "map_of (wq_content ?q) ''files'' = None"
    by (auto simp: evidence_request_def result_content_def safe_producer_def is_ascii_alnum_def is_digit_def is_snapshot_def)
  with publish_succeeds [of ?q h W] assms obtain a h1 where "publish W ?q h = (Inr a, h1)" "run_id \<in> set (run_ids (hb_db h1))" by auto
  then show ?thesis
    by (simp add: publish_evidence_def hbind_def event_def on_db_def append_event_def hreturn_def Let_def)
qed

lemma bench_gathered: "\<exists>reports s. gather_evidence demo_bench Test ''run_1'' [bench_source] bench_service = (Inr reports, s)"
proof -
  let ?H = "bn_docker demo_bench" and ?job = "evidence_job tiny_bundle Test 60"
  obtain record' where r: "stored_source demo_bench bench_id bench_sha bench_service = Inr (record', tiny_bundle)"
    "md_workflow_run_id (ar_metadata record') = ''run_1''" using bench_stored by blast
  have H: "obliging ?H" using demo_docker_obliging(1) by (simp add: obliging_def demo_bench_def)
  have uid: "wd_uid (dh_world ?H) k = replicate 32 CHR ''a''" for k by (simp add: demo_bench_def bench_world_def)
  have tick: "sv_tick bench_service = 0" by (simp add: bench_service_def demo_service_def)
  have job: "jb_mode ?job = Test" "jb_policy ?job = default_policy" by (simp_all add: evidence_job_def default_policy_def)
  have valid: "policy_valid (jb_policy ?job)" unfolding job(2) by code_simp
  obtain x s1 where x: "execute_sandbox ?H ?job None bench_service = (Inr x, s1)"
    "sv_hub s1 = (sv_hub bench_service)\<lparr>hb_tick := hb_tick (sv_hub bench_service) + 1\<rparr>"
    using obliging_executed [OF H tick uid job] by blast
  have "bench_id \<noteq> ''art_'' @ replicate 32 CHR ''a''" by code_simp
  then obtain report h where p: "publish_evidence (dh_world ?H) ''run_1'' Test bench_id bench_sha x (sv_hub s1) = (Inr report, h)"
    using publish_evidence_succeeds [of "''run_1''" "sv_hub s1" "dh_world ?H" Test bench_id bench_sha x] demo_hub_runs
    unfolding x(2) uid by (auto simp: bench_service_def bench_source_fields run_ids_def)
  have "execute_artifact demo_bench bench_id bench_sha Test None 60 bench_service = (Inr report, s1\<lparr>sv_hub := h\<rparr>)"
    using valid by (simp add: execute_artifact_def sbind_def slift_def sreturn_def guard_def r x(1) p on_service_hub_def Let_def)
  then show ?thesis
    by (simp add: sbind_def slift_def sreturn_def guard_def bench_source_fields)
qed

lemma bench_tested: "\<exists>a s. with_sandbox_execution demo_bench ''validation-agent'' bench_review bench_context bench_service = (Inr a, s)"
proof -
  have sources: "current_sources (cx_artifacts bench_context) = [bench_source]" "cx_run_id bench_context = ''run_1''"
    by (simp_all add: current_sources_def bench_context_def bench_source_fields latest_change_def)
  obtain reports s where "gather_evidence demo_bench Test ''run_1'' [bench_source] bench_service = (Inr reports, s)"
    using bench_gathered by blast
  then show ?thesis
    using tiny_bundle_validates
    by (simp add: with_sandbox_execution_def sources Let_def sbind_def slift_def sreturn_def guard_def bench_source_fields bench_review_def
      del: gather_evidence.simps)
qed


end
