(* ===== verification/Qualification.thy ===== *)
theory Qualification
  imports Evidence Finops
begin

text \<open>
  The qualification of sandbox runtimes: \<open>sandbox/comparison.py\<close> runs a fixture in every runtime and keeps each
  result; \<open>qualify\<close> and \<open>latest_qualification\<close> of \<open>sandbox/cli.py\<close> publish the report and find it again. The run of the
  evaluation command, \<open>evaluation/cli.py\<close>, evaluates the gates of a finished run once more.
\<close>

section \<open>Trials\<close>

definition RUNTIMES :: "string list" where
  "RUNTIMES = [''runc'', ''runsc'', ''kata'']"

definition MODES :: "sandbox_mode list" where
  "MODES = [Probe, Build, Test, Analyze]"

text \<open>\<open>sorted(PROBE_CHECKS)\<close>.\<close>

definition PROBE_CHECKS :: "string list" where
  "PROBE_CHECKS = [''bounded_tmpfs:/tmp'', ''bounded_tmpfs:/workspace'', ''network_denied'', ''network_interfaces'',
     ''no_capabilities'', ''no_credentials'', ''no_host_home'', ''no_host_sockets'', ''no_new_privileges'', ''non_root'',
     ''root_mount_read_only'', ''root_read_only'']"

datatype trial_status = TS_pass | TS_fail | TS_unavailable

fun trial_status_text :: "trial_status \<Rightarrow> string" where
  "trial_status_text TS_pass = ''pass''"
| "trial_status_text TS_fail = ''fail''"
| "trial_status_text TS_unavailable = ''unavailable''"

record trial =
  tr_repetition :: nat
  tr_status :: trial_status
  tr_checks :: "(string \<times> bool) list"
  tr_jobs :: "(sandbox_mode \<times> sandbox_result) list"

definition fixture_job :: "source_file list \<Rightarrow> sandbox_mode \<Rightarrow> sandbox_job" where
  "fixture_job source mode = \<lparr>jb_source = source, jb_mode = mode, jb_policy = default_policy\<rparr>"

text \<open>What the probe reports; output that cannot be read counts against every check.\<close>

definition probe_checks :: "docker_host \<Rightarrow> sandbox_result \<Rightarrow> (string \<times> bool) list result" where
  "probe_checks H r = (case dh_loads H (sb_stdout r) of
       Inr (JObj raw) \<Rightarrow> Inr (map (\<lambda>k. (k, dget raw k = JBool True)) PROBE_CHECKS)
     | Inr _ \<Rightarrow> Inr (map (\<lambda>k. (k, False)) PROBE_CHECKS)
     | Inl (ValueError _) \<Rightarrow> Inr (map (\<lambda>k. (k, False)) PROBE_CHECKS)
     | Inl (TypeError _) \<Rightarrow> Inr (map (\<lambda>k. (k, False)) PROBE_CHECKS)
     | Inl e \<Rightarrow> Inl e)"

text \<open>The jobs of a trial in order, up to the first for which the runtime is not available.\<close>

fun run_modes :: "docker_host \<Rightarrow> source_file list \<Rightarrow> string \<Rightarrow> sandbox_mode list \<Rightarrow>
    ((sandbox_mode \<times> sandbox_result) list \<times> (string \<times> bool) list) run_op" where
  "run_modes H source runtime [] = sreturn ([], [])"
| "run_modes H source runtime (mode # modes) =
     sbind (execute_sandbox H (fixture_job source mode) (Some runtime)) (\<lambda>result.
     if sb_status result = SB_unavailable then sreturn ([(mode, result)], [])
     else sbind (if mode = Probe then slift (probe_checks H result) else sreturn []) (\<lambda>checks.
       sbind (run_modes H source runtime modes) (\<lambda>(jobs, later). sreturn ((mode, result) # jobs, checks @ later))))"

definition clean_trial_result :: "sandbox_result \<Rightarrow> bool" where
  "clean_trial_result r \<longleftrightarrow> (let x = sb_execution r in
     sb_status r = SB_completed \<and> py_eq (sx_exit_code x) (JInt 0) \<and> sx_cleanup_succeeded x
     \<and> \<not> sx_timed_out x \<and> \<not> sx_output_truncated x \<and> \<not> truthy (sx_oom_killed x))"

definition unavailable_job :: "(sandbox_mode \<times> sandbox_result) list \<Rightarrow> bool" where
  "unavailable_job jobs \<longleftrightarrow> list_ex (\<lambda>(_, r). sb_status r = SB_unavailable) jobs"

definition make_trial :: "nat \<Rightarrow> (sandbox_mode \<times> sandbox_result) list \<Rightarrow> (string \<times> bool) list \<Rightarrow> trial" where
  "make_trial repetition jobs checks = (let
       passed = length jobs = length MODES \<and> checks \<noteq> [] \<and> list_all snd checks \<and> list_all (clean_trial_result \<circ> snd) jobs in
     \<lparr>tr_repetition = repetition,
      tr_status = (if unavailable_job jobs then TS_unavailable else if passed then TS_pass else TS_fail),
      tr_checks = checks, tr_jobs = jobs\<rparr>)"

text \<open>Each repetition starts with another runtime; a runtime that was not available is not tried again.\<close>

definition execution_order :: "nat \<Rightarrow> (nat \<times> string) list" where
  "execution_order repetitions = concat (map (\<lambda>k. let rotation = k mod length RUNTIMES in
     map (\<lambda>runtime. (k + 1, runtime)) (drop rotation RUNTIMES @ take rotation RUNTIMES)) [0..<repetitions])"

definition gone_runtime :: "(string \<times> trial) list \<Rightarrow> string \<Rightarrow> bool" where
  "gone_runtime past runtime \<longleftrightarrow> list_ex (\<lambda>(r, t). r = runtime \<and> tr_status t = TS_unavailable) past"

fun run_trials :: "docker_host \<Rightarrow> source_file list \<Rightarrow> (nat \<times> string) list \<Rightarrow> (string \<times> trial) list \<Rightarrow> (string \<times> trial) list run_op" where
  "run_trials H source [] past = sreturn past"
| "run_trials H source ((repetition, runtime) # rest) past =
     (if gone_runtime past runtime then run_trials H source rest past
      else sbind (run_modes H source runtime MODES) (\<lambda>(jobs, checks).
        run_trials H source rest (past @ [(runtime, make_trial repetition jobs checks)])))"

section \<open>The comparison\<close>

text \<open>Numbers as Python has them: durations are integers, and means of two and ratios are floats.\<close>

definition median_of :: "int list \<Rightarrow> json" where
  "median_of xs = (let ys = sort xs; n = length ys in
     if odd n then JInt (ys ! (n div 2)) else JFloat (rounded (of_int (ys ! (n div 2 - 1) + ys ! (n div 2)) / 2)))"

definition number :: "json \<Rightarrow> rat" where
  "number v = (case v of JInt n \<Rightarrow> of_int n | JFloat q \<Rightarrow> q | _ \<Rightarrow> 0)"

record runtime_summary =
  rc_runtime :: string
  rc_status :: trial_status
  rc_checks :: "(string \<times> bool) list"
  rc_samples :: "trial list"
  rc_timings :: "(sandbox_mode \<times> int list \<times> json) list option"
  rc_relative :: "(sandbox_mode \<times> json) list option"

definition trials_of :: "(string \<times> trial) list \<Rightarrow> string \<Rightarrow> trial list" where
  "trials_of past runtime = map snd (filter (\<lambda>(r, _). r = runtime) past)"

definition job_duration :: "sandbox_mode \<Rightarrow> trial \<Rightarrow> int" where
  "job_duration mode t = (case map_of (tr_jobs t) mode of None \<Rightarrow> 0 | Some r \<Rightarrow> int (sx_duration_ms (sb_execution r)))"

definition mode_timing :: "trial list \<Rightarrow> sandbox_mode \<Rightarrow> sandbox_mode \<times> int list \<times> json" where
  "mode_timing ts mode = (let samples = map (job_duration mode) ts in (mode, samples, median_of samples))"

definition summarize :: "nat \<Rightarrow> (string \<times> trial) list \<Rightarrow> string \<Rightarrow> runtime_summary" where
  "summarize repetitions past runtime = (let ts = trials_of past runtime;
       passed = length ts = repetitions \<and> list_all (\<lambda>t. tr_status t = TS_pass) ts in
     \<lparr>rc_runtime = runtime,
      rc_status = (if passed then TS_pass else if gone_runtime past runtime then TS_unavailable else TS_fail),
      rc_checks = map (\<lambda>k. (k, list_all (\<lambda>t. map_of (tr_checks t) k = Some True) ts)) PROBE_CHECKS,
      rc_samples = ts, rc_timings = (if passed then Some (map (mode_timing ts) MODES) else None), rc_relative = None\<rparr>)"

text \<open>Image, kernel and policy of every execution; their texts differ exactly if they do.\<close>

definition identities :: "(string \<times> trial) list \<Rightarrow> (json \<times> string \<times> jdict) list" where
  "identities past = remdups (map (\<lambda>(_, r). let x = sb_execution r in
       (case sx_image x of None \<Rightarrow> JNull | Some v \<Rightarrow> v, sx_kernel x, policy_dump (sx_policy x)))
     (filter (\<lambda>(_, r). sb_status r \<noteq> SB_unavailable) (concat (map (tr_jobs \<circ> snd) past))))"

definition median_ratio :: "json \<Rightarrow> json \<Rightarrow> json" where
  "median_ratio m base = (if 0 < number base then JFloat (rounded (number m / number base)) else JNull)"

definition relative_to :: "bool \<Rightarrow> runtime_summary \<Rightarrow> runtime_summary \<Rightarrow> runtime_summary" where
  "relative_to same baseline r = r\<lparr>rc_relative :=
     (if same \<and> rc_status baseline = TS_pass \<and> rc_status r = TS_pass
      then (case (rc_timings r, rc_timings baseline) of
          (Some own, Some base) \<Rightarrow> Some (map2 (\<lambda>(mode, _, m) (_, _, b). (mode, median_ratio m b)) own base)
        | _ \<Rightarrow> None)
      else None)\<rparr>"

record comparison =
  co_repetitions :: nat
  co_execution_order :: "(nat \<times> string) list"
  co_same_environment :: bool

definition compare_runtimes :: "docker_host \<Rightarrow> source_file list \<Rightarrow> nat \<Rightarrow> (runtime_summary list \<times> comparison) run_op" where
  "compare_runtimes H source repetitions =
     sbind (slift (guard (1 \<le> repetitions \<and> repetitions \<le> 10) (ValueError ''Qualification repetitions must be between 1 and 10''))) (\<lambda>_.
     sbind (run_trials H source (execution_order repetitions) []) (\<lambda>past.
     let summaries = map (summarize repetitions past) RUNTIMES; same = length (identities past) = 1 in
     sreturn (map (relative_to same (hd summaries)) summaries,
       \<lparr>co_repetitions = repetitions, co_execution_order = map (\<lambda>(r, t). (tr_repetition t, r)) past, co_same_environment = same\<rparr>)))"

section \<open>The report\<close>

definition sandbox_result_dump :: "sandbox_result \<Rightarrow> json" where
  "sandbox_result_dump r = JObj [(''status'', JStr (status_text (sb_status r))), (''execution'', JObj (sandbox_dump (sb_execution r))),
     (''stdout'', JStr (sb_stdout r)), (''stderr'', JStr (sb_stderr r))]"

definition jobs_dump :: "(sandbox_mode \<times> sandbox_result) list \<Rightarrow> json" where
  "jobs_dump jobs = JObj (map (\<lambda>(m, r). (mode_value m, sandbox_result_dump r)) jobs)"

definition checks_dump :: "(string \<times> bool) list \<Rightarrow> json" where
  "checks_dump cs = JObj (map (\<lambda>(k, b). (k, JBool b)) cs)"

definition trial_dump :: "trial \<Rightarrow> json" where
  "trial_dump t = JObj [(''repetition'', JInt (int (tr_repetition t))), (''status'', JStr (trial_status_text (tr_status t))),
     (''checks'', checks_dump (tr_checks t)), (''jobs'', jobs_dump (tr_jobs t))]"

definition timing_dump :: "sandbox_mode \<times> int list \<times> json \<Rightarrow> string \<times> json" where
  "timing_dump = (\<lambda>(mode, samples, m). (mode_value mode, JObj [(''samples_ms'', JArr (map JInt samples)), (''median_ms'', m)]))"

definition summary_dump :: "runtime_summary \<Rightarrow> json" where
  "summary_dump r = JObj
    [(''runtime'', JStr (rc_runtime r)), (''status'', JStr (trial_status_text (rc_status r))), (''checks'', checks_dump (rc_checks r)),
     (''jobs'', (case rc_samples r of [] \<Rightarrow> JNull | t # _ \<Rightarrow> jobs_dump (tr_jobs t))), (''samples'', JArr (map trial_dump (rc_samples r))),
     (''timings'', jopt (JObj \<circ> map timing_dump) (rc_timings r)),
     (''relative_to_runc'', jopt (JObj \<circ> map (\<lambda>(m, v). (mode_value m, v))) (rc_relative r))]"

definition comparison_dump :: "comparison \<Rightarrow> json" where
  "comparison_dump c = JObj
    [(''repetitions'', JInt (int (co_repetitions c))),
     (''execution_order'', JArr (map (\<lambda>(k, r). JObj [(''repetition'', JInt (int k)), (''runtime'', JStr r)]) (co_execution_order c))),
     (''same_environment'', JBool (co_same_environment c)),
     (''timing_scope'', JStr ''Container creation, workload, control operations, and confirmed teardown''),
     (''baseline'', JStr ''runc''), (''statistic'', JStr ''median''),
     (''limitations'', JArr (map JStr [''Small serial smoke fixture; no statistical significance or benchmark claim.'',
        ''Isolation probes verify applied controls, not resistance to kernel exploits.'',
        ''Unavailable or failed runtimes receive no performance ratio.'']))]"

definition lines_of :: "string list \<Rightarrow> string" where
  "lines_of ls = concat (map (\<lambda>l. l @ [CHR 0x0A]) ls)"

definition FIXTURE :: "source_file list" where
  "FIXTURE = [\<lparr>sf_path = ''example.py'', sf_content = lines_of [''def answer():'', ''    return 42'']\<rparr>,
     \<lparr>sf_path = ''test_example.py'', sf_content = lines_of [''import unittest'', ''from example import answer'', [],
        ''class Example(unittest.TestCase):'', ''    def test_answer(self):'', ''        self.assertEqual(answer(), 42)'']\<rparr>]"

text \<open>The content of the report; the runtimes are in the order of \<open>RUNTIMES\<close>, so the third is the micro virtual machine.\<close>

definition qualification_content :: "pyenv \<Rightarrow> string \<Rightarrow> runtime_summary list \<Rightarrow> comparison \<Rightarrow> jdict" where
  "qualification_content E stamp runtimes c =
    [(''generated_at'', JStr stamp), (''fixture'', JStr ''python-stdlib-answer-v1''),
     (''source_sha256'', JStr (content_digest E (source_bundle_dump FIXTURE))),
     (''baseline_qualified'', JBool (list_all (\<lambda>r. rc_status r = TS_pass) (take 2 runtimes))),
     (''microvm_qualified'', JBool (list_all (\<lambda>r. rc_status r = TS_pass) (take 1 (drop 2 runtimes)))),
     (''runtimes'', JArr (map summary_dump runtimes)), (''comparison'', comparison_dump c)]"

definition qualification_request :: "string \<Rightarrow> jdict \<Rightarrow> runtime_summary list \<Rightarrow> write_request" where
  "qualification_request run_id content runtimes =
     plain_request run_id PREFLIGHT SANDBOX_QUALIFICATION_REPORT ''trusted-sandbox-qualifier'' content
       (''# Sandbox qualification'' @ [CHR 0x0A, CHR 0x0A] @ join [CHR 0x0A]
          (map (\<lambda>r. ''- '' @ rc_runtime r @ '': '' @ trial_status_text (rc_status r)) runtimes)) []"

text \<open>A run of its own holds the report; the returned identifier is what the pointer file then names.\<close>

definition publish_qualification :: "world \<Rightarrow> string \<Rightarrow> runtime_summary list \<Rightarrow> comparison \<Rightarrow> (string \<times> string \<times> jdict) hub_op" where
  "publish_qualification W stamp runtimes c = (\<lambda>h.
     let run_id = ''run_'' @ wd_uid W (hb_tick h); content = qualification_content (wd_py W) stamp runtimes c in
     hbind (on_db (\<lambda>now. create_run (wd_py W) now run_id ''Sandbox runtime qualification fixture'') W) (\<lambda>_.
     hbind (set_run W run_id BLOCKED None (Some ''Standalone runtime qualification; no generated MVP lifecycle execution.'')) (\<lambda>_.
     hbind (publish W (qualification_request run_id content runtimes)) (\<lambda>artifact.
     let i = md_artifact_id (ar_metadata artifact) in
     hbind (event W run_id ''sandbox.qualified''
       [(''artifact_id'', JStr i), (''runtimes'', JArr (map (\<lambda>r. JObj [(''runtime'', JStr (rc_runtime r)),
          (''status'', JStr (trial_status_text (rc_status r)))]) runtimes))]) (\<lambda>_.
     hreturn (run_id, i, content))))) (h\<lparr>hb_tick := hb_tick h + 1\<rparr>))"

definition qualify :: "docker_host \<Rightarrow> string \<Rightarrow> nat \<Rightarrow> (string \<times> string \<times> jdict) run_op" where
  "qualify H stamp repetitions = sbind (compare_runtimes H FIXTURE repetitions) (\<lambda>(runtimes, c).
     on_service_hub (publish_qualification (dh_world H) stamp runtimes c))"

text \<open>The report that the pointer file names, given the identifier in it or the exception of reading it.\<close>

definition unreadable :: "py_error \<Rightarrow> bool" where
  "unreadable e \<longleftrightarrow> os_error e \<or> (case e of ValueError _ \<Rightarrow> True | KeyError _ \<Rightarrow> True | TypeError _ \<Rightarrow> True | _ \<Rightarrow> False)"

definition latest_qualification :: "world \<Rightarrow> string result \<Rightarrow> hub \<Rightarrow> jdict option result" where
  "latest_qualification W pointer h =
     (case rbind pointer (\<lambda>i. case get_artifact (hb_db h) i of
         None \<Rightarrow> Inr None
       | Some record' \<Rightarrow>
           if md_kind (ar_metadata record') \<noteq> SANDBOX_QUALIFICATION_REPORT then Inr None
           else rbind (read_content (wd_py W) (hb_store h) record') (\<lambda>content.
             Inr (Some (dict_merge [(''artifact_id'', JStr (md_artifact_id (ar_metadata record')))] content)))) of
       Inl e \<Rightarrow> if unreadable e then Inr None else Inl e
     | Inr found \<Rightarrow> Inr found)"

section \<open>Gates on demand\<close>

text \<open>The artifacts of a run with their contents, each inside the store and of bounded size.\<close>

definition run_artifacts :: "bench \<Rightarrow> string \<Rightarrow> hub \<Rightarrow> artifact_view list result" where
  "run_artifacts B run_id h = traverse (\<lambda>r.
     rbind (if bn_inside B (ar_content_path r) then bn_size B (hb_tick h) (ar_content_path r)
            else Inl (ValueError ''Artifact containment or size mismatch'')) (\<lambda>n.
     rbind (guard (n \<le> 1048576) (ValueError ''Artifact containment or size mismatch'')) (\<lambda>_.
     rbind (read_content (wd_py (dh_world (bn_docker B))) (hb_store h) r) (\<lambda>content.
     Inr \<lparr>av_metadata = ar_metadata r, av_content = content\<rparr>)))) (list_artifacts (hb_db h) run_id)"

definition gate_context :: "pyenv \<Rightarrow> workflow_run \<Rightarrow> artifact_view list \<Rightarrow> agent_context" where
  "gate_context E run artifacts =
     \<lparr>cx_project_id = project_id_for_run E (wr_run_id run), cx_retry_attempt = 0, cx_run_id = wr_run_id run, cx_idea = wr_idea run,
      cx_stage = EVALUATION, cx_artifacts = artifacts, cx_human_response = None, cx_repair_attempt = 0, cx_repair_feedback = None,
      cx_repair_artifact_id = None, cx_repair_artifact_sha256 = None\<rparr>"

definition evaluate_run :: "bench \<Rightarrow> schema \<Rightarrow> string \<Rightarrow> (string \<times> quality_gate_report) hub_op" where
  "evaluate_run B S run_id = (let W = dh_world (bn_docker B) in
     hbind (hlift (\<lambda>h. get_run (wd_py W) (hb_db h) run_id)) (\<lambda>found.
     case found of
       None \<Rightarrow> hraise (ValueError ''Unknown workflow run'')
     | Some run \<Rightarrow>
         hbind (hlift (run_artifacts B run_id)) (\<lambda>artifacts.
         hbind (hlift (\<lambda>_. evaluate_gates (wd_py W) S (gate_context (wd_py W) run artifacts)
            (cf_sandbox_backend (dh_settings (bn_docker B))))) (\<lambda>report.
         hbind (publish W ((plain_request run_id EVALUATION QUALITY_GATE_REPORT ''deterministic-quality-gates''
              (gate_report_dump report) (gates_markdown report) (map av_id artifacts))\<lparr>wq_prompt_version := qr_profile report\<rparr>)) (\<lambda>a.
         hbind (event W run_id ''quality_gates.completed''
           [(''artifact_id'', JStr (md_artifact_id (ar_metadata a))), (''verdict'', JStr (verdict_value (qr_verdict report)))]) (\<lambda>_.
         hreturn (md_artifact_id (ar_metadata a), report)))))))"

text \<open>The exit code of the command: anything but a passed verdict fails it, and so do the exceptions it reports.\<close>

definition evaluate_command :: "bench \<Rightarrow> schema \<Rightarrow> string \<Rightarrow> int hub_op" where
  "evaluate_command B S run_id = (\<lambda>h. case evaluate_run B S run_id h of
       (Inr (_, report), h') \<Rightarrow> (Inr (if qr_verdict report = V_passed then 0 else 1), h')
     | (Inl e, h') \<Rightarrow> (if os_error e \<or> (case e of ValueError _ \<Rightarrow> True | _ \<Rightarrow> False) then Inr 1 else Inl e, h'))"

end
