(* ===== verification/QualificationTrust.thy ===== *)
theory QualificationTrust
  imports Qualification EvidenceTrust
begin

text \<open>
  What a published qualification says is what the trials showed: each runtime that is called qualified passed every job of every
  repetition, and durations are only related between runtimes that passed in one environment.
\<close>


text \<open>A result that an execution of the fixture in that runtime delivered, properly if it is completed.\<close>

definition earned_result :: "docker_host \<Rightarrow> source_file list \<Rightarrow> string \<Rightarrow> sandbox_mode \<Rightarrow> sandbox_result \<Rightarrow> bool" where
  "earned_result H source runtime mode x \<longleftrightarrow> (\<exists>s s'. execute_sandbox H (fixture_job source mode) (Some runtime) s = (Inr x, s')
     \<and> (sb_status x = SB_completed \<longrightarrow> proper_run H (fixture_job source mode) s x s'))"

definition earned_jobs :: "docker_host \<Rightarrow> source_file list \<Rightarrow> string \<Rightarrow> (sandbox_mode \<times> sandbox_result) list \<Rightarrow> bool" where
  "earned_jobs H source runtime jobs \<longleftrightarrow> (\<forall>(m, x) \<in> set jobs. earned_result H source runtime m x)"

lemma run_modes_earned:
  "run_modes H source runtime modes s = (Inr (jobs, checks), s') \<Longrightarrow>
     earned_jobs H source runtime jobs \<and> (\<not> unavailable_job jobs \<longrightarrow> map fst jobs = modes)"
proof (induction modes arbitrary: s jobs checks)
  case Nil
  then show ?case by (simp add: sreturn_def earned_jobs_def)
next
  case (Cons m ms)
  from Cons.prems obtain x s1 where x: "execute_sandbox H (fixture_job source m) (Some runtime) s = (Inr x, s1)"
    and rest: "(if sb_status x = SB_unavailable then sreturn ([(m, x)], [])
     else sbind (if m = Probe then slift (probe_checks H x) else sreturn []) (\<lambda>checks.
       sbind (run_modes H source runtime ms) (\<lambda>(jobs, later). sreturn ((m, x) # jobs, checks @ later)))) s1 = (Inr (jobs, checks), s')"
    by (auto simp: sbind_Inr)
  have e: "earned_result H source runtime m x" using x executed_proper [OF x] by (auto simp: earned_result_def)
  show ?case
  proof (cases "sb_status x = SB_unavailable")
    case True
    with rest e show ?thesis by (auto simp: sreturn_def earned_jobs_def unavailable_job_def)
  next
    case False
    with rest obtain s2 jobs' later where "run_modes H source runtime ms s2 = (Inr (jobs', later), s')" "jobs = (m, x) # jobs'"
      by (auto simp: sbind_Inr sreturn_def split: prod.splits)
    with Cons.IH e False show ?thesis by (auto simp: earned_jobs_def unavailable_job_def)
  qed
qed

text \<open>A trial in which every job was clean and every probe held.\<close>

definition passed_trial :: "docker_host \<Rightarrow> source_file list \<Rightarrow> string \<Rightarrow> trial \<Rightarrow> bool" where
  "passed_trial H source runtime t \<longleftrightarrow> map fst (tr_jobs t) = MODES \<and> tr_checks t \<noteq> [] \<and> list_all snd (tr_checks t)
     \<and> (\<forall>(m, x) \<in> set (tr_jobs t). clean_trial_result x \<and> earned_result H source runtime m x)"

lemma run_trials_earned:
  "run_trials H source order past s = (Inr all, s') \<Longrightarrow>
     (\<forall>(r, t) \<in> set past. tr_status t = TS_pass \<longrightarrow> passed_trial H source r t) \<Longrightarrow>
     (\<forall>(r, t) \<in> set all. tr_status t = TS_pass \<longrightarrow> passed_trial H source r t)"
proof (induction H source order past arbitrary: s rule: run_trials.induct)
  case (1 H source past)
  then show ?case by (simp add: sreturn_def)
next
  case (2 H source repetition runtime rest past)
  show ?case
  proof (cases "gone_runtime past runtime")
    case True
    with 2 show ?thesis by simp
  next
    case False
    with "2.prems"(1) obtain jobs checks s1 where run: "run_modes H source runtime MODES s = (Inr (jobs, checks), s1)"
      and rest: "run_trials H source rest (past @ [(runtime, make_trial repetition jobs checks)]) s1 = (Inr all, s')"
      by (auto simp: sbind_Inr split: prod.splits)
    from run_modes_earned [OF run] have "tr_status (make_trial repetition jobs checks) = TS_pass \<Longrightarrow>
        passed_trial H source runtime (make_trial repetition jobs checks)"
      by (auto simp: make_trial_def passed_trial_def earned_jobs_def list_all_iff Let_def split: if_splits)
    with "2.IH"(2) [OF False rest] "2.prems"(2) show ?thesis by auto
  qed
qed

lemma relative_fields [simp]: "rc_runtime (relative_to b base r) = rc_runtime r" "rc_status (relative_to b base r) = rc_status r"
  "rc_samples (relative_to b base r) = rc_samples r"
  by (simp_all add: relative_to_def)

lemma compare_runtimes_earned:
  assumes "compare_runtimes H source n s = (Inr (runtimes, c), s')"
  shows "map rc_runtime runtimes = RUNTIMES
    \<and> (\<forall>r \<in> set runtimes. rc_status r = TS_pass \<longrightarrow> length (rc_samples r) = n \<and> list_all (passed_trial H source (rc_runtime r)) (rc_samples r))
    \<and> (\<forall>r \<in> set runtimes. rc_relative r \<noteq> None \<longrightarrow> co_same_environment c \<and> rc_status (hd runtimes) = TS_pass \<and> rc_status r = TS_pass)"
proof -
  from assms obtain past s1 where past: "run_trials H source (execution_order n) [] s1 = (Inr past, s')"
    and r: "runtimes = map (relative_to (length (identities past) = 1) (hd (map (summarize n past) RUNTIMES))) (map (summarize n past) RUNTIMES)"
    and c: "co_same_environment c = (length (identities past) = 1)"
    by (auto simp: compare_runtimes_def Let_def sbind_Inr slift_Inr sreturn_def)
  note all = run_trials_earned [OF past, simplified]
  have "length (trials_of past name) = n \<and> list_all (passed_trial H source name) (trials_of past name)"
    if "rc_status (summarize n past name) = TS_pass" for name
    using that all by (auto simp: summarize_def Let_def trials_of_def list_all_iff split: if_splits)
  moreover have "rc_samples (summarize n past name) = trials_of past name" "rc_runtime (summarize n past name) = name" for name
    by (simp_all add: summarize_def Let_def)
  moreover have "map rc_runtime runtimes = RUNTIMES" unfolding r by (simp add: RUNTIMES_def calculation(3))
  moreover have "rc_status (hd runtimes) = rc_status (hd (map (summarize n past) RUNTIMES))" unfolding r by (simp add: RUNTIMES_def)
  ultimately show ?thesis
    unfolding c by (auto simp: r relative_to_def split: if_splits)
qed


definition dockerless :: docker_host where
  "dockerless = demo_docker\<lparr>dh_docker := False\<rparr>"

lemma dockerless_executed:
  assumes "runtime \<in> set RUNTIMES"
  shows "\<exists>x s'. execute_sandbox dockerless job (Some runtime) s = (Inr x, s') \<and> sb_status x = SB_unavailable \<and> sv_hub s' = sv_hub s"
proof -
  have "(case Some runtime of Some (c # cs) \<Rightarrow> c # cs | _ \<Rightarrow> cf_sandbox_backend (dh_settings dockerless)) = runtime"
    and "runtime \<in> set (map fst ISOLATION)"
    using assms by (auto simp: RUNTIMES_def ISOLATION_def)
  then show ?thesis
    unfolding execute_sandbox_def execute_selected_def
    by (simp add: recover_first_def reconcile_sandbox_def reconcile_within_def sandbox_steps Let_def not_recovered_def
        new_result_def empty_report_def) (simp_all add: dockerless_def)
qed

lemma dockerless_modes:
  assumes "runtime \<in> set RUNTIMES"
  shows "\<exists>x s'. run_modes dockerless source runtime MODES s = (Inr ([(Probe, x)], []), s') \<and> sb_status x = SB_unavailable \<and> sv_hub s' = sv_hub s"
  using dockerless_executed [OF assms, of "fixture_job source Probe" s] by (auto simp: MODES_def sbind_def sreturn_def)

lemma dockerless_trials:
  "set (map snd order) \<subseteq> set RUNTIMES \<Longrightarrow> \<exists>all s'. run_trials dockerless source order past s = (Inr all, s') \<and> sv_hub s' = sv_hub s"
proof (induction order arbitrary: past s)
  case Nil
  then show ?case by (simp add: sreturn_def)
next
  case (Cons o' order)
  obtain k r where o': "o' = (k, r)" by force
  show ?case
  proof (cases "gone_runtime past r")
    case True
    with Cons o' show ?thesis by simp
  next
    case False
    from Cons.prems o' have "r \<in> set RUNTIMES" by simp
    from dockerless_modes [OF this, of source s] obtain x s1 where "run_modes dockerless source r MODES s = (Inr ([(Probe, x)], []), s1)"
      "sv_hub s1 = sv_hub s" by blast
    with Cons.IH [of _ s1] Cons.prems False o' show ?thesis by (simp add: sbind_def)
  qed
qed

lemma dockerless_compared: "\<exists>runtimes c s'. compare_runtimes dockerless FIXTURE 1 s = (Inr (runtimes, c), s') \<and> sv_hub s' = sv_hub s"
proof -
  obtain all s' where "run_trials dockerless FIXTURE (execution_order 1) [] s = (Inr all, s')" "sv_hub s' = sv_hub s"
    using dockerless_trials [of "execution_order 1" FIXTURE "[]" s] by (auto simp: execution_order_def RUNTIMES_def)
  then show ?thesis by (simp add: compare_runtimes_def sbind_def slift_def guard_def sreturn_def Let_def)
qed

lemma create_run_artifacts: "create_run E now r idea db = (res, db') \<Longrightarrow> db_artifacts db' = db_artifacts db"
  by (auto simp: create_run_def Let_def split: if_splits sum.splits option.splits)

lemma dockerless_published:
  "\<exists>run_id i content h. publish_qualification demo_world stamp runtimes c (sv_hub demo_service) = (Inr (run_id, i, content), h)"
proof -
  define run_id where "run_id = ''run_'' @ wd_uid demo_world 32"
  define content where "content = qualification_content (wd_py demo_world) stamp runtimes c"
  obtain res db where "create_run (wd_py demo_world) (wd_clock demo_world 33) run_id ''Sandbox runtime qualification fixture'' empty_database = (res, db)"
    by fastforce
  moreover from create_run_wf(3) [OF db_wf_empty this] obtain run where "res = Inr run" by (auto simp: run_ids_def empty_database_def)
  ultimately have c: "create_run (wd_py demo_world) (wd_clock demo_world 33) run_id ''Sandbox runtime qualification fixture'' empty_database = (Inr run, db)"
    by simp
  define h1 where "h1 = \<lparr>hb_store = empty_store [], hb_db = db, hb_tick = 34\<rparr>"
  have h1: "run_id \<in> set (run_ids (hb_db h1))" "db_artifacts (hb_db h1) = []"
    using run_ids_create [OF c] create_run_artifacts [OF c] by (simp_all add: h1_def run_ids_def empty_database_def)
  obtain h2 where h2: "set_run demo_world run_id BLOCKED None
      (Some ''Standalone runtime qualification; no generated MVP lifecycle execution.'') h1 = (Inr (), h2)"
    "run_id \<in> set (run_ids (hb_db h2))" "db_artifacts (hb_db h2) = []"
    using h1 by (simp add: set_run_def on_db_def)
  let ?q = "qualification_request run_id content runtimes"
  have "wq_run_id ?q = run_id" "\<not> is_snapshot (wq_kind ?q) (wq_producing_agent ?q)" "safe_producer (wq_producing_agent ?q)" "map_of (wq_content ?q) ''files'' = None"
    by (auto simp: qualification_request_def plain_request_def content_def qualification_content_def safe_producer_def
        is_ascii_alnum_def is_digit_def is_snapshot_def SNAPSHOT_KINDS_def)
  with publish_succeeds [of ?q h2 demo_world] h2(2,3) obtain a h3 where "publish demo_world ?q h2 = (Inr a, h3)" "run_id \<in> set (run_ids (hb_db h3))"
    by auto
  then have done_: "publish demo_world ?q h2 = (Inr a, h3)" "run_id \<in> set (run_ids (hb_db h3))" by simp_all
  define tick where "tick = \<lparr>hb_store = empty_store [], hb_db = empty_database, hb_tick = 33\<rparr>"
  have created: "on_db (\<lambda>now. create_run (wd_py demo_world) now run_id ''Sandbox runtime qualification fixture'') demo_world tick
      = (Inr run, h1)"
    using c by (simp add: on_db_def tick_def h1_def)
  obtain h4 where named: "event demo_world run_id ''sandbox.qualified''
       [(''artifact_id'', JStr (md_artifact_id (ar_metadata a))), (''runtimes'', JArr (map (\<lambda>r. JObj [(''runtime'', JStr (rc_runtime r)),
          (''status'', JStr (trial_status_text (rc_status r)))]) runtimes))] h3 = (Inr (), h4)"
    using done_(2) by (simp add: event_def on_db_def append_event_def hbind_def hreturn_def Let_def)
  have "(sv_hub demo_service)\<lparr>hb_tick := hb_tick (sv_hub demo_service) + 1\<rparr> = tick" "hb_tick (sv_hub demo_service) = 32"
    by (simp_all add: demo_service_def tick_def)
  then have "publish_qualification demo_world stamp runtimes c (sv_hub demo_service)
      = (Inr (run_id, md_artifact_id (ar_metadata a), content), h4)"
    unfolding publish_qualification_def Let_def
    by (simp only: run_id_def [symmetric] content_def [symmetric] hbind_def created h2(1) done_(1) named hreturn_def sum.case prod.case)
  then show ?thesis by blast
qed


end
