(* ===== verification/Services.thy ===== *)
theory Services
  imports Config Effects Url Json
begin

text \<open>
  \<open>scripts/services.py\<close>: the supervisor of the development services. The operating system is an environment whose
  answers depend on the number of the question; the files of process records are part of the state, and the log
  holds what was looked up, started and signalled. Output is not modelled, keyboard interrupts neither.
\<close>

section \<open>Operating system and state\<close>

datatype os_signal = SIGTERM | SIGKILL

text \<open>\<open>os.killpg\<close> reaches the group, finds none (\<open>ProcessLookupError\<close>), or raises another exception.\<close>

datatype kill_outcome = Delivered | No_process | Not_permitted py_error

datatype connect_outcome = Connected | Refused | Unreachable py_error

record dev_service =
  ds_name :: string
  ds_command :: "string list"
  ds_url :: string

text \<open>
  The processes are read through \<open>/proc\<close>: the leader of a group, the names in the directory, and each process. A
  number of rounds stands for the time until a deadline.
\<close>

record machine =
  mc_boot_id :: string
  mc_leader :: "nat \<Rightarrow> int \<Rightarrow> string option result"
  mc_listing :: "nat \<Rightarrow> string list result"
  mc_stat :: "nat \<Rightarrow> int \<Rightarrow> string option result"
  mc_kill :: "nat \<Rightarrow> int \<Rightarrow> os_signal \<Rightarrow> kill_outcome"
  mc_popen :: "nat \<Rightarrow> string list \<Rightarrow> int result"
  mc_wait :: "nat \<Rightarrow> int \<Rightarrow> py_error option"
  mc_run :: "nat \<Rightarrow> string list \<Rightarrow> (int \<times> string) result"
  mc_http :: "nat \<Rightarrow> string \<Rightarrow> nat result"
  mc_connect :: "nat \<Rightarrow> string option \<Rightarrow> nat option \<Rightarrow> connect_outcome"
  mc_write :: "nat \<Rightarrow> py_error option"
  mc_unlink :: "nat \<Rightarrow> py_error option"
  mc_which :: "string \<Rightarrow> bool"
  mc_executable :: "string \<Rightarrow> bool"
  mc_exists :: "string \<Rightarrow> bool"
  mc_rounds :: "nat \<Rightarrow> nat"
  mc_literal :: "string \<Rightarrow> bool"

text \<open>The settings of one invocation of the script: paths, time limits as they are printed, and the services.\<close>

record stack =
  sk_root :: string
  sk_directory :: string
  sk_env_file :: "string option"
  sk_timeout :: string
  sk_stop_seconds :: string
  sk_identity_url :: string
  sk_services :: "dev_service list"

datatype record_file = Stored json | Corrupt

datatype supervision =
    Looked jdict "int list"
  | Signalled int os_signal
  | Launched string int
  | Executed "string list"
  | Answered string

text \<open>\<open>su_started\<close> and \<open>su_identity\<close> are the local variables of \<open>start\<close> that its handler reads.\<close>

record supervisor =
  su_tick :: nat
  su_records :: "string \<rightharpoonup> record_file"
  su_children :: "(string \<times> int) list"
  su_started :: "string list"
  su_identity :: bool
  su_log :: "supervision list"

type_synonym 'a sup_op = "(supervisor, 'a) op"

text \<open>A question to the operating system, and an entry of the log.\<close>

definition ask :: "(nat \<Rightarrow> 'a result) \<Rightarrow> 'a sup_op" where
  "ask f = (\<lambda>s. (f (su_tick s), s\<lparr>su_tick := su_tick s + 1\<rparr>))"

definition ask_ok :: "(nat \<Rightarrow> py_error option) \<Rightarrow> unit sup_op" where
  "ask_ok f = ask (\<lambda>n. case f n of None \<Rightarrow> Inr () | Some e \<Rightarrow> Inl e)"

definition enter :: "supervision \<Rightarrow> unit sup_op" where
  "enter x = ochange (\<lambda>s. s\<lparr>su_log := su_log s @ [x]\<rparr>)"

section \<open>Processes\<close>

definition nth_field :: "string list \<Rightarrow> nat \<Rightarrow> string result" where
  "nth_field xs n = (if n < length xs then Inr (xs ! n) else Inl (IndexError ''list index out of range''))"

definition process_stat :: "string option result \<Rightarrow> string list option result" where
  "process_stat stat = rbind stat (\<lambda>found. case found of
       None \<Rightarrow> Inr None
     | Some t \<Rightarrow> (case rpartition_at (CHR '')'') t of
           (None, _) \<Rightarrow> Inl (IndexError ''list index out of range'')
         | (Some _, columns) \<Rightarrow> Inr (Some (words_from [] columns))))"

text \<open>A JSON value that is an \<open>int\<close>, and \<open>int(value)\<close>.\<close>

definition int_value :: "json \<Rightarrow> int option" where
  "int_value v = (case v of JInt n \<Rightarrow> Some n | JBool b \<Rightarrow> Some (if b then 1 else 0) | _ \<Rightarrow> None)"

definition int_of_value :: "json \<Rightarrow> int result" where
  "int_of_value v = (case v of
       JStr t \<Rightarrow> py_int t
     | JFloat q \<Rightarrow> Inr (if q < 0 then - \<lfloor>- q\<rfloor> else \<lfloor>q\<rfloor>)
     | _ \<Rightarrow> (case int_value v of Some n \<Rightarrow> Inr n | None \<Rightarrow> Inl (TypeError ''int() argument'')))"

definition digit_name :: "string \<Rightarrow> bool" where
  "digit_name t \<longleftrightarrow> t \<noteq> [] \<and> list_all (\<lambda>c. is_digit c \<or> c \<in> {CHR 0xB2, CHR 0xB3, CHR 0xB9}) t"

text \<open>The process of the given name, if it is a living member of group and session that is not older than the record.\<close>

definition group_member :: "machine \<Rightarrow> nat \<Rightarrow> int \<Rightarrow> jdict \<Rightarrow> string \<Rightarrow> int list result" where
  "group_member M n pid d name =
     rbind (py_int name) (\<lambda>q.
     rbind (process_stat (mc_stat M n q)) (\<lambda>stat. case stat of None \<Rightarrow> Inr [] | Some columns \<Rightarrow>
       rbind (nth_field columns 0) (\<lambda>state. if state = ''Z'' then Inr [] else
       rbind (nth_field columns 2) (\<lambda>group. if group \<noteq> int_str pid then Inr [] else
       rbind (nth_field columns 3) (\<lambda>session. if session \<noteq> int_str pid then Inr [] else
       rbind (nth_field columns 19) (\<lambda>t.
       rbind (py_int t) (\<lambda>birth.
       rbind (dindex d ''start_time'') (\<lambda>v.
       rbind (int_of_value v) (\<lambda>start_time. Inr (if start_time \<le> birth then [q] else []))))))))))"

definition process_members :: "machine \<Rightarrow> nat \<Rightarrow> jdict \<Rightarrow> int list result" where
  "process_members M n d =
     rbind (dindex d ''pid'') (\<lambda>v.
     rbind (dindex d ''boot_id'') (\<lambda>boot. case int_value v of
       None \<Rightarrow> Inr []
     | Some pid \<Rightarrow> if boot \<noteq> JStr (mc_boot_id M) \<or> pid \<le> 1 then Inr [] else
         rbind (process_stat (mc_leader M n pid)) (\<lambda>leader.
         rbind (case leader of None \<Rightarrow> Inr True
            | Some columns \<Rightarrow> rbind (nth_field columns 19) (\<lambda>birth. rbind (dindex d ''start_time'') (\<lambda>t. Inr (t = JStr birth)))) (\<lambda>same.
         if \<not> same then Inr [] else
         rbind (mc_listing M n) (\<lambda>names.
         rbind (traverse (group_member M n pid d) (filter digit_name names)) (\<lambda>found. Inr (concat found)))))))"

definition look :: "machine \<Rightarrow> jdict \<Rightarrow> int list sup_op" where
  "look M d = obind (ask (\<lambda>n. process_members M n d)) (\<lambda>ms. obind (enter (Looked d ms)) (\<lambda>_. oreturn ms))"

definition ready :: "machine \<Rightarrow> string \<Rightarrow> bool sup_op" where
  "ready M url = obind (ask (\<lambda>n. case mc_http M n url of
       Inr code \<Rightarrow> Inr (code = 200) | Inl e \<Rightarrow> if os_error e then Inr False else Inl e)) (\<lambda>up.
     if up then obind (enter (Answered url)) (\<lambda>_. oreturn True) else oreturn False)"

section \<open>The stack\<close>

definition local_url :: "(string \<Rightarrow> bool) \<Rightarrow> string \<Rightarrow> nat \<Rightarrow> string result" where
  "local_url literal value' default_port =
     rbind (urlsplit literal value') (\<lambda>endpoint.
     rbind (guard (ur_scheme endpoint = ''http'' \<and> ur_hostname endpoint \<in> {Some ''127.0.0.1'', Some ''localhost''}
         \<and> ur_username endpoint = None \<and> ur_query endpoint = [] \<and> ur_fragment endpoint = [])
       (ValueError ''Development service URLs must use loopback HTTP addresses'')) (\<lambda>_.
     rbind (ur_port endpoint) (\<lambda>port.
     Inr (''http://'' @ rest_of (ur_hostname endpoint) @ '':''
       @ nat_str (case port of Some (Suc p) \<Rightarrow> Suc p | _ \<Rightarrow> default_port) @ ur_path endpoint))))"

definition without_suffix :: "string \<Rightarrow> string \<Rightarrow> string" where
  "without_suffix suffix t = (if suffix \<noteq> [] \<and> ends_with t suffix then take (length t - length suffix) t else t)"

definition stack_services :: "string \<Rightarrow> string \<Rightarrow> string \<Rightarrow> dev_service list" where
  "stack_services base a2a mcp =
    [\<lparr>ds_name = ''tools'', ds_command = [base @ ''/.venv/bin/aidlc-tools''],
       ds_url = without_suffix ''/mcp'' mcp @ ''/.well-known/oauth-protected-resource/mcp''\<rparr>,
     \<lparr>ds_name = ''agents'', ds_command = [base @ ''/.venv/bin/aidlc-agents''], ds_url = rstrip_slash a2a @ ''/health''\<rparr>,
     \<lparr>ds_name = ''api'', ds_command = [base @ ''/.venv/bin/aidlc-api''], ds_url = ''http://127.0.0.1:8000/api/health''\<rparr>,
     \<lparr>ds_name = ''ui'', ds_command = [''pnpm'', ''--dir'', base @ ''/ui'', ''dev'', ''--strictPort''],
       ds_url = ''http://127.0.0.1:5173/''\<rparr>]"

definition new_stack :: "machine \<Rightarrow> (string \<Rightarrow> string option) \<Rightarrow> string \<Rightarrow> string \<Rightarrow> string option \<Rightarrow> string \<Rightarrow> string \<Rightarrow> stack result" where
  "new_stack M var base directory env_file timeout stop_seconds = (let get = (\<lambda>k preset. case var k of None \<Rightarrow> preset | Some v \<Rightarrow> v) in
     rbind (local_url (mc_literal M) (get ''AIDLC_A2A_BASE_URL'' ''http://127.0.0.1:8001'') 8001) (\<lambda>a2a.
     rbind (local_url (mc_literal M) (get ''AIDLC_MCP_URL'' ''http://127.0.0.1:8002/mcp'') 8002) (\<lambda>mcp.
     rbind (local_url (mc_literal M) (get ''AIDLC_OIDC_ISSUER'' ''http://127.0.0.1:8080/realms/aidlc'') 8080) (\<lambda>issuer.
     rbind (urlsplit (mc_literal M) a2a) (\<lambda>a.
     rbind (if ur_path a \<notin> {[], ''/''} then Inr False else rbind (urlsplit (mc_literal M) mcp) (\<lambda>m. Inr (ur_path m = ''/mcp''))) (\<lambda>paths.
     rbind (guard paths (ValueError ''A2A must use the root URL and MCP must use /mcp'')) (\<lambda>_.
     rbind (urlsplit (mc_literal M) issuer) (\<lambda>i.
     rbind (ur_port i) (\<lambda>port.
     rbind (guard (port = Some 8080) (ValueError ''dev/compose.yaml exposes Keycloak on port 8080'')) (\<lambda>_.
     Inr \<lparr>sk_root = base, sk_directory = directory, sk_env_file = env_file,
       sk_timeout = timeout, sk_stop_seconds = stop_seconds,
       sk_identity_url = rstrip_slash issuer @ ''/.well-known/openid-configuration'',
       sk_services = stack_services base a2a mcp\<rparr>))))))))))"

section \<open>Records of processes\<close>

definition read_record :: "stack \<Rightarrow> string \<Rightarrow> jdict option sup_op" where
  "read_record K name = oread (\<lambda>s. case su_records s name of
       None \<Rightarrow> Inr None
     | Some (Stored (JObj d)) \<Rightarrow> Inr (Some d)
     | Some _ \<Rightarrow> Inl (RuntimeError (''Invalid service record: '' @ sk_directory K @ ''/'' @ name @ ''.json'')))"

definition write_record :: "machine \<Rightarrow> string \<Rightarrow> jdict \<Rightarrow> unit sup_op" where
  "write_record M name d = obind (ask_ok (mc_write M)) (\<lambda>_.
     ochange (\<lambda>s. s\<lparr>su_records := (su_records s)(name \<mapsto> Stored (JObj d))\<rparr>))"

definition unlink_record :: "machine \<Rightarrow> string \<Rightarrow> unit sup_op" where
  "unlink_record M name = obind (ask_ok (mc_unlink M)) (\<lambda>_.
     ochange (\<lambda>s. s\<lparr>su_records := (su_records s)(name := None)\<rparr>))"

text \<open>A missing or empty record has no members.\<close>

definition members_of :: "machine \<Rightarrow> jdict option \<Rightarrow> int list sup_op" where
  "members_of M found = (case found of None \<Rightarrow> oreturn [] | Some d \<Rightarrow> if d = [] then oreturn [] else look M d)"

definition running :: "machine \<Rightarrow> stack \<Rightarrow> string \<Rightarrow> bool sup_op" where
  "running M K name = obind (read_record K name) (\<lambda>found. obind (members_of M found) (\<lambda>ms. oreturn (ms \<noteq> [])))"

section \<open>Commands\<close>

definition run_command :: "machine \<Rightarrow> string list \<Rightarrow> (int \<times> string) sup_op" where
  "run_command M command = obind (ask (\<lambda>n. mc_run M n command)) (\<lambda>x. obind (enter (Executed command)) (\<lambda>_. oreturn x))"

definition checked_command :: "machine \<Rightarrow> string list \<Rightarrow> string sup_op" where
  "checked_command M command = obind (run_command M command) (\<lambda>(code, out).
     obind (oguard (code = 0) (CalledProcessError ''Command returned non-zero exit status'')) (\<lambda>_. oreturn out))"

definition compose :: "stack \<Rightarrow> string list \<Rightarrow> string list" where
  "compose K arguments = [''docker'', ''compose''] @ (case sk_env_file K of None \<Rightarrow> [] | Some f \<Rightarrow> [''--env-file'', f])
     @ [''-f'', sk_root K @ ''/dev/compose.yaml''] @ arguments"

definition container_running :: "machine \<Rightarrow> json \<Rightarrow> bool sup_op" where
  "container_running M container = (case container of
       JStr i \<Rightarrow> obind (run_command M [''docker'', ''inspect'', ''--format'', ''{{.State.Running}}'', i]) (\<lambda>(code, out).
         oreturn (code = 0 \<and> strip out = ''true''))
     | _ \<Rightarrow> oraise (TypeError ''expected str, bytes or os.PathLike object''))"

text \<open>Waiting until a service answers; as many rounds as the deadline allows.\<close>

primrec wait_rounds :: "machine \<Rightarrow> stack \<Rightarrow> string \<Rightarrow> string \<Rightarrow> bool \<Rightarrow> nat \<Rightarrow> unit sup_op" where
  "wait_rounds M K name url managed 0 =
     oraise (RuntimeError (name @ '' did not become ready within '' @ sk_timeout K @ ''s. See '' @ sk_directory K @ ''/'' @ name @ ''.log''))"
| "wait_rounds M K name url managed (Suc n) =
     obind (if managed then running M K name else oreturn True) (\<lambda>alive.
     obind (oguard alive (RuntimeError (name @ '' exited. See '' @ sk_directory K @ ''/'' @ name @ ''.log''))) (\<lambda>_.
     obind (ready M url) (\<lambda>up. if up then oreturn () else wait_rounds M K name url managed n)))"

definition wait_ready :: "machine \<Rightarrow> stack \<Rightarrow> string \<Rightarrow> string \<Rightarrow> bool \<Rightarrow> unit sup_op" where
  "wait_ready M K name url managed = (\<lambda>s. wait_rounds M K name url managed (mc_rounds M (su_tick s)) s)"

section \<open>Starting\<close>

fun ports_free :: "machine \<Rightarrow> stack \<Rightarrow> dev_service list \<Rightarrow> unit sup_op" where
  "ports_free M K [] = oreturn ()"
| "ports_free M K (svc # rest) =
     obind (running M K (ds_name svc)) (\<lambda>up. if up then ports_free M K rest else
       obind (oread (\<lambda>_. urlsplit (mc_literal M) (ds_url svc))) (\<lambda>endpoint.
       obind (oread (\<lambda>_. ur_port endpoint)) (\<lambda>port.
       obind (ask (\<lambda>n. case mc_connect M n (ur_hostname endpoint) port of
           Connected \<Rightarrow> Inl (RuntimeError (''Port '' @ (case port of None \<Rightarrow> ''None'' | Some p \<Rightarrow> nat_str p)
             @ '' is already in use outside this script. Stop that process before starting the stack.''))
         | Refused \<Rightarrow> Inr () | Unreachable TimeoutError \<Rightarrow> Inr () | Unreachable e \<Rightarrow> Inl e)) (\<lambda>_.
       ports_free M K rest))))"

fun first_missing :: "(string \<Rightarrow> bool) \<Rightarrow> string list \<Rightarrow> string option" where
  "first_missing present [] = None"
| "first_missing present (c # cs) = (if present c then first_missing present cs else Some c)"

definition check_prerequisites :: "machine \<Rightarrow> stack \<Rightarrow> unit sup_op" where
  "check_prerequisites M K =
     (case first_missing (mc_which M) [''docker'', ''node'', ''pnpm''] of
        Some c \<Rightarrow> oraise (RuntimeError (''Missing '' @ c @ ''; install the prerequisites in README.md''))
      | None \<Rightarrow>
          if \<not> list_all (\<lambda>svc. mc_executable M (hd (ds_command svc))) (butlast (sk_services K))
          then oraise (RuntimeError (''Missing backend dependencies. Run '' @ [CHR 0x27] @ ''uv sync --locked'' @ [CHR 0x27]))
          else if \<not> mc_exists M (sk_root K @ ''/ui/node_modules/.bin/vite'')
          then oraise (RuntimeError (''Missing UI dependencies. Run '' @ [CHR 0x27] @ ''pnpm --dir ui install --frozen-lockfile'' @ [CHR 0x27]))
          else ports_free M K (sk_services K))"

definition kill_child :: "machine \<Rightarrow> int \<Rightarrow> py_error \<Rightarrow> unit sup_op" where
  "kill_child M pid e = obind (ask (\<lambda>n. Inr (mc_kill M n pid SIGKILL))) (\<lambda>outcome.
     obind (enter (Signalled pid SIGKILL)) (\<lambda>_. case outcome of
       Delivered \<Rightarrow> oraise e
     | No_process \<Rightarrow> oraise (OSError ''No such process'')
     | Not_permitted e' \<Rightarrow> oraise e'))"

definition start_service :: "machine \<Rightarrow> dev_service \<Rightarrow> unit sup_op" where
  "start_service M svc =
     obind (ask (\<lambda>n. mc_popen M n (ds_command svc))) (\<lambda>pid.
     obind (enter (Launched (ds_name svc) pid)) (\<lambda>_.
     obind (ask (\<lambda>n. process_stat (mc_leader M n pid))) (\<lambda>stat. case stat of
       None \<Rightarrow> oraise (RuntimeError (ds_name svc @ '' exited before startup; check its log''))
     | Some columns \<Rightarrow>
         obind (ocatch
           (obind (oread (\<lambda>_. nth_field columns 19)) (\<lambda>birth. write_record M (ds_name svc)
              [(''pid'', JInt pid), (''start_time'', JStr birth), (''boot_id'', JStr (mc_boot_id M))]))
           (\<lambda>e. Some (kill_child M pid e))) (\<lambda>_.
         ochange (\<lambda>s. s\<lparr>su_children := dict_set (ds_name svc) pid (su_children s)\<rparr>)))))"

fun start_services :: "machine \<Rightarrow> stack \<Rightarrow> dev_service list \<Rightarrow> unit sup_op" where
  "start_services M K [] = oreturn ()"
| "start_services M K (svc # rest) =
     obind (running M K (ds_name svc)) (\<lambda>up.
     obind (if up then oreturn () else obind (start_service M svc) (\<lambda>_.
        ochange (\<lambda>s. s\<lparr>su_started := su_started s @ [ds_name svc]\<rparr>))) (\<lambda>_.
     obind (wait_ready M K (ds_name svc) (ds_url svc) True) (\<lambda>_. start_services M K rest)))"

text \<open>The container that Compose reports after an attempt to start it, whether or not that attempt failed.\<close>

definition discover_identity :: "machine \<Rightarrow> stack \<Rightarrow> string sup_op" where
  "discover_identity M K = obind (run_command M (compose K [''ps'', ''--all'', ''-q'', ''keycloak''])) (\<lambda>(code, out).
     let container = strip out in
     if code \<noteq> 0 \<or> container = [] then oreturn []
     else obind (write_record M ''keycloak'' [(''container_id'', JStr container)]) (\<lambda>_. oreturn container))"

definition start_identity :: "machine \<Rightarrow> stack \<Rightarrow> string sup_op" where
  "start_identity M K = (\<lambda>s. case checked_command M (compose K [''up'', ''-d'', ''keycloak'']) s of
       (Inl e, s') \<Rightarrow> obind (discover_identity M K) (\<lambda>_. oraise e) s'
     | (Inr _, s') \<Rightarrow> discover_identity M K s')"

definition identity_ready :: "machine \<Rightarrow> stack \<Rightarrow> unit sup_op" where
  "identity_ready M K =
     obind (checked_command M (compose K [''ps'', ''-q'', ''keycloak''])) (\<lambda>out. let previous = strip out in
     obind (if previous = [] then oreturn True else obind (container_running M (JStr previous)) (\<lambda>up. oreturn (\<not> up))) (\<lambda>fresh.
     obind (ochange (\<lambda>s. s\<lparr>su_identity := fresh\<rparr>)) (\<lambda>_.
     obind (start_identity M K) (\<lambda>container.
     obind (oguard (container \<noteq> []) (RuntimeError ''Compose did not return the Keycloak container ID'')) (\<lambda>_.
     wait_ready M K ''keycloak'' (sk_identity_url K) False)))))"

definition start_body :: "machine \<Rightarrow> stack \<Rightarrow> unit sup_op" where
  "start_body M K = obind (identity_ready M K) (\<lambda>_. start_services M K (sk_services K))"

section \<open>Stopping\<close>

definition group_id :: "jdict \<Rightarrow> int result" where
  "group_id d = rbind (dindex d ''pid'') (\<lambda>v. case int_value v of Some pid \<Rightarrow> Inr pid | None \<Rightarrow> Inl (TypeError ''an integer is required''))"

definition signal_group :: "machine \<Rightarrow> jdict \<Rightarrow> os_signal \<Rightarrow> unit sup_op" where
  "signal_group M d sig = obind (oread (\<lambda>_. group_id d)) (\<lambda>pid.
     obind (ask (\<lambda>n. Inr (mc_kill M n pid sig))) (\<lambda>outcome.
     obind (enter (Signalled pid sig)) (\<lambda>_. case outcome of Not_permitted e \<Rightarrow> oraise e | _ \<Rightarrow> oreturn ())))"

primrec wait_gone :: "machine \<Rightarrow> jdict \<Rightarrow> nat \<Rightarrow> unit sup_op" where
  "wait_gone M d 0 = obind (look M d) (\<lambda>_. oreturn ())"
| "wait_gone M d (Suc n) = obind (look M d) (\<lambda>ms. if ms = [] then oreturn () else wait_gone M d n)"

definition signal_and_wait :: "machine \<Rightarrow> jdict \<Rightarrow> os_signal \<Rightarrow> int list sup_op" where
  "signal_and_wait M d sig = obind (signal_group M d sig) (\<lambda>_.
     obind (\<lambda>s. wait_gone M d (mc_rounds M (su_tick s)) s) (\<lambda>_. look M d))"

definition end_group :: "machine \<Rightarrow> string \<Rightarrow> jdict \<Rightarrow> unit sup_op" where
  "end_group M name d =
     obind (signal_and_wait M d SIGTERM) (\<lambda>ms. if ms = [] then oreturn () else
     obind (signal_and_wait M d SIGKILL) (\<lambda>ms.
     oguard (ms = []) (RuntimeError (''Could not stop '' @ name @ ''; its process record has been retained''))))"

definition reap_child :: "machine \<Rightarrow> string \<Rightarrow> unit sup_op" where
  "reap_child M name = (\<lambda>s. case map_of (su_children s) name of
       None \<Rightarrow> (Inr (), s)
     | Some pid \<Rightarrow> ask_ok (\<lambda>n. mc_wait M n pid) (s\<lparr>su_children := filter (\<lambda>(k, _). k \<noteq> name) (su_children s)\<rparr>))"

definition stop_service :: "machine \<Rightarrow> stack \<Rightarrow> string \<Rightarrow> unit sup_op" where
  "stop_service M K name =
     obind (read_record K name) (\<lambda>found.
     obind (members_of M found) (\<lambda>ms.
     obind (case found of None \<Rightarrow> oreturn () | Some d \<Rightarrow> if ms = [] then oreturn () else end_group M name d) (\<lambda>_.
     obind (reap_child M name) (\<lambda>_.
     unlink_record M name))))"

definition stop_identity :: "machine \<Rightarrow> stack \<Rightarrow> unit sup_op" where
  "stop_identity M K = obind (read_record K ''keycloak'') (\<lambda>found.
     case found of None \<Rightarrow> oreturn () | Some d \<Rightarrow> if d = [] then oreturn () else
       obind (oread (\<lambda>_. rbind (dindex d ''container_id'') (\<lambda>v. case v of JStr i \<Rightarrow> Inr i
          | _ \<Rightarrow> Inl (TypeError ''expected str, bytes or os.PathLike object'')))) (\<lambda>i.
       obind (checked_command M [''docker'', ''stop'', ''--time'', sk_stop_seconds K, i]) (\<lambda>_.
       unlink_record M ''keycloak'')))"

text \<open>An operation whose exception is only reported.\<close>

definition attempt :: "unit sup_op \<Rightarrow> py_error option sup_op" where
  "attempt m = (\<lambda>s. case m s of (Inl e, s') \<Rightarrow> (Inr (Some e), s') | (Inr _, s') \<Rightarrow> (Inr None, s'))"

fun stop_all :: "machine \<Rightarrow> stack \<Rightarrow> string list \<Rightarrow> string list sup_op" where
  "stop_all M K [] = oreturn []"
| "stop_all M K (name # names) = obind (attempt (stop_service M K name)) (\<lambda>failed.
     obind (stop_all M K names) (\<lambda>errors.
     oreturn ((case failed of None \<Rightarrow> [] | Some e \<Rightarrow> [name @ '': '' @ error_text e]) @ errors)))"

definition stop_stack :: "machine \<Rightarrow> stack \<Rightarrow> unit sup_op" where
  "stop_stack M K =
     obind (stop_all M K (rev (map ds_name (sk_services K)))) (\<lambda>errors.
     obind (attempt (stop_identity M K)) (\<lambda>failed.
     let errors = errors @ (case failed of None \<Rightarrow> [] | Some e \<Rightarrow> [''keycloak: '' @ error_text e]) in
     oguard (errors = []) (RuntimeError (''Shutdown incomplete: '' @ join ''; '' errors))))"

text \<open>After a failed start the services started by this command are stopped again.\<close>

definition undo_start :: "machine \<Rightarrow> stack \<Rightarrow> py_error \<Rightarrow> unit sup_op" where
  "undo_start M K e = (\<lambda>s.
     obind (stop_all M K (rev (su_started s))) (\<lambda>_.
     obind (if su_identity s then obind (attempt (stop_identity M K)) (\<lambda>_. oreturn ()) else oreturn ()) (\<lambda>_.
     oraise e)) s)"

definition start_stack :: "machine \<Rightarrow> stack \<Rightarrow> unit sup_op" where
  "start_stack M K =
     obind (check_prerequisites M K) (\<lambda>_.
     obind (ochange (\<lambda>s. s\<lparr>su_started := [], su_identity := False\<rparr>)) (\<lambda>_.
     ocatch (start_body M K) (\<lambda>e. Some (undo_start M K e))))"

section \<open>Status and the command line\<close>

fun services_healthy :: "machine \<Rightarrow> stack \<Rightarrow> dev_service list \<Rightarrow> bool sup_op" where
  "services_healthy M K [] = oreturn True"
| "services_healthy M K (svc # rest) =
     obind (running M K (ds_name svc)) (\<lambda>alive.
     obind (if alive then ready M (ds_url svc) else oreturn False) (\<lambda>up.
     obind (services_healthy M K rest) (\<lambda>others. oreturn (up \<and> others))))"

definition stack_status :: "machine \<Rightarrow> stack \<Rightarrow> bool sup_op" where
  "stack_status M K =
     obind (read_record K ''keycloak'') (\<lambda>found.
     obind (case found of None \<Rightarrow> oreturn False | Some d \<Rightarrow> if d = [] then oreturn False else
        obind (oread (\<lambda>_. dindex d ''container_id'')) (container_running M)) (\<lambda>identity_ok.
     obind (if identity_ok then ready M (sk_identity_url K) else oreturn False) (\<lambda>healthy.
     obind (services_healthy M K (sk_services K)) (\<lambda>others. oreturn (healthy \<and> others)))))"

datatype stack_command = Start | Stop | Restart | Status

definition reported_error :: "py_error \<Rightarrow> bool" where
  "reported_error e \<longleftrightarrow> os_error e \<or> (case e of RuntimeError _ \<Rightarrow> True | ValueError _ \<Rightarrow> True | CalledProcessError _ \<Rightarrow> True | _ \<Rightarrow> False)"

definition run_stack :: "machine \<Rightarrow> stack \<Rightarrow> stack_command \<Rightarrow> int sup_op" where
  "run_stack M K command =
     obind (if command \<in> {Stop, Restart} then stop_stack M K else oreturn ()) (\<lambda>_.
     obind (if command \<in> {Start, Restart} then start_stack M K else oreturn ()) (\<lambda>_.
     if command = Status then obind (stack_status M K) (\<lambda>healthy. oreturn (if healthy then 0 else 1)) else oreturn 0))"

definition main_services :: "machine \<Rightarrow> stack result \<Rightarrow> bool \<Rightarrow> stack_command \<Rightarrow> int sup_op" where
  "main_services M made locked command =
     ocatch
       (obind (oread (\<lambda>_. made)) (\<lambda>K.
        obind (oguard (\<not> locked) (RuntimeError ''Another service command is running; try again when it finishes'')) (\<lambda>_.
        run_stack M K command)))
       (\<lambda>e. if reported_error e then Some (oreturn 1) else None)"

end
