(* ===== verification/ServicesContract.thy ===== *)
theory ServicesContract
  imports Services
begin

text \<open>
  What the supervisor of the development services guarantees whatever the operating system answers: which process
  groups it signals, and what a start leaves behind. \<open>calm\<close> operations send no signal and keep the records;
  \<open>supervises\<close> is what every other operation does.
\<close>


section \<open>Operations that send no signal and keep the records\<close>

fun is_signal :: "supervision \<Rightarrow> bool" where
  "is_signal (Signalled p sig) = True"
| "is_signal _ = False"

definition calmly :: "supervisor \<Rightarrow> supervisor \<Rightarrow> bool" where
  "calmly s s' \<longleftrightarrow> su_records s' = su_records s \<and> su_started s' = su_started s
     \<and> (\<exists>xs. su_log s' = su_log s @ xs \<and> list_all (\<lambda>x. \<not> is_signal x) xs)"

definition calm :: "'a sup_op \<Rightarrow> bool" where
  "calm m \<longleftrightarrow> (\<forall>s r s'. m s = (r, s') \<longrightarrow> calmly s s')"

named_theorems calms "operations that send no signal and keep the records"

lemma calmly_refl: "calmly s s"
  by (auto simp: calmly_def)

lemma calmly_trans: "calmly s s1 \<Longrightarrow> calmly s1 s2 \<Longrightarrow> calmly s s2"
  by (auto simp: calmly_def)

lemma calmD: "calm m \<Longrightarrow> m s = (r, s') \<Longrightarrow> calmly s s'"
  by (auto simp: calm_def)

lemma calmI: "(\<And>s. calmly s (snd (m s))) \<Longrightarrow> calm m"
  unfolding calm_def by (metis snd_conv)

lemma calm_basic [calms]: "calm (oreturn x)" "calm (oraise e)" "calm (oread f)" "calm (oguard b e)"
  by (rule calmI; simp add: op_simps calmly_refl)+

lemma calm_ask [calms]: "calm (ask g)" "calm (ask_ok h)"
  unfolding ask_ok_def by (rule calmI; simp add: ask_def calmly_def)+

lemma calm_enter [calms]: "\<not> is_signal x \<Longrightarrow> calm (enter x)"
  by (rule calmI) (simp add: enter_def op_simps calmly_def)

lemma calm_bind [calms]: "calm m \<Longrightarrow> (\<And>x. calm (f x)) \<Longrightarrow> calm (obind m f)"
  unfolding calm_def by (blast elim!: obind_cases intro: calmly_trans)

lemma calm_if [calms]: "(b \<Longrightarrow> calm m) \<Longrightarrow> (\<not> b \<Longrightarrow> calm n) \<Longrightarrow> calm (if b then m else n)"
  by simp

lemma calm_option [calms]: "calm m \<Longrightarrow> (\<And>x. calm (f x)) \<Longrightarrow> calm (case v of None \<Rightarrow> m | Some x \<Rightarrow> f x)"
  by (cases v) simp_all

lemma calm_pair [calms]: "(\<And>x y. calm (f x y)) \<Longrightarrow> calm (case v of (x, y) \<Rightarrow> f x y)"
  by (cases v) simp

lemma calm_look [calms]: "calm (look M d)"
  unfolding look_def by (intro calms) simp

lemma calm_ready [calms]: "calm (ready M url)"
  unfolding ready_def by (intro calms) simp

lemma calm_running [calms]: "calm (running M K name)" "calm (members_of M found)" "calm (read_record K name)"
  unfolding running_def members_of_def read_record_def by (intro calms; simp)+

lemma calm_commands [calms]: "calm (run_command M c)" "calm (checked_command M c)" "calm (container_running M v)"
  unfolding checked_command_def run_command_def container_running_def
  by (intro calms | simp | cases v)+

lemma calm_wait_rounds: "calm (wait_rounds M K name url managed n)"
  by (induction n) (auto intro!: calms)

lemma calm_wait_ready [calms]: "calm (wait_ready M K name url managed)"
  using calm_wait_rounds by (auto simp: calm_def wait_ready_def)

lemma calm_ports_free: "calm (ports_free M K svcs)"
  by (induction svcs) (auto intro!: calms)

lemma calm_prerequisites [calms]: "calm (check_prerequisites M K)"
  unfolding check_prerequisites_def by (intro calms calm_ports_free)

lemma calm_wait_gone: "calm (wait_gone M d n)"
  by (induction n) (auto intro!: calms)

lemma calm_reap [calms]: "calm (reap_child M name)"
  by (rule calmI) (auto simp: reap_child_def ask_ok_def ask_def calmly_def split: option.split)

lemma calm_healthy: "calm (services_healthy M K svcs)"
  by (induction svcs) (auto intro!: calms)

lemma calm_status [calms]: "calm (stack_status M K)"
  unfolding stack_status_def by (intro calms calm_healthy)


section \<open>What a signal is sent for\<close>

text \<open>
  The group of a record, as the operating system showed it: the record is of this boot, a leader that still exists was born
  when the record says, and a living process that is not older belongs to the group and its session.
\<close>

definition living_member :: "machine \<Rightarrow> nat \<Rightarrow> jdict \<Rightarrow> int \<Rightarrow> int \<Rightarrow> bool" where
  "living_member M n d p q \<longleftrightarrow> (\<exists>columns v start_time birth.
     process_stat (mc_stat M n q) = Inr (Some columns) \<and> columns ! 0 \<noteq> ''Z'' \<and> columns ! 2 = int_str p \<and> columns ! 3 = int_str p
     \<and> map_of d ''start_time'' = Some v \<and> int_of_value v = Inr start_time \<and> py_int (columns ! 19) = Inr birth \<and> start_time \<le> birth)"

definition own_group :: "machine \<Rightarrow> nat \<Rightarrow> jdict \<Rightarrow> int \<Rightarrow> bool" where
  "own_group M n d p \<longleftrightarrow> 1 < p \<and> group_id d = Inr p \<and> map_of d ''boot_id'' = Some (JStr (mc_boot_id M))
     \<and> (\<forall>columns. process_stat (mc_leader M n p) = Inr (Some columns) \<longrightarrow> map_of d ''start_time'' = Some (JStr (columns ! 19)))
     \<and> (\<exists>q. living_member M n d p q)"

definition justified :: "machine \<Rightarrow> string set \<Rightarrow> (string \<rightharpoonup> record_file) \<Rightarrow> supervision list \<Rightarrow> int \<Rightarrow> bool" where
  "justified M T R0 L p \<longleftrightarrow> (\<exists>L0 name. L = L0 @ [Launched name p])
     \<or> (\<exists>L0 d ms n. L = L0 @ [Looked d ms] \<and> own_group M n d p
          \<and> ((\<exists>name. Launched name p \<in> set L0) \<or> (\<exists>name \<in> T. R0 name = Some (Stored (JObj d)))))"

definition signals_justified :: "machine \<Rightarrow> string set \<Rightarrow> (string \<rightharpoonup> record_file) \<Rightarrow> supervision list \<Rightarrow> bool" where
  "signals_justified M T R0 L \<longleftrightarrow> (\<forall>L1 p sig L2. L = L1 @ Signalled p sig # L2 \<longrightarrow> justified M T R0 L1 p)"

lemma signals_justified_snoc:
  "signals_justified M T R0 (L @ [x]) \<longleftrightarrow> signals_justified M T R0 L \<and> (\<forall>p sig. x = Signalled p sig \<longrightarrow> justified M T R0 L p)"
proof
  assume a: "signals_justified M T R0 (L @ [x])"
  then have "justified M T R0 L1 p" if "L = L1 @ Signalled p sig # L2" for L1 p sig L2
    using that by (simp add: signals_justified_def)
  moreover have "justified M T R0 L p" if "x = Signalled p sig" for p sig
    using a that by (auto simp: signals_justified_def)
  ultimately show "signals_justified M T R0 L \<and> (\<forall>p sig. x = Signalled p sig \<longrightarrow> justified M T R0 L p)"
    by (auto simp: signals_justified_def)
next
  assume a: "signals_justified M T R0 L \<and> (\<forall>p sig. x = Signalled p sig \<longrightarrow> justified M T R0 L p)"
  show "signals_justified M T R0 (L @ [x])"
    unfolding signals_justified_def
  proof (intro allI impI)
    fix L1 p sig L2 assume s: "L @ [x] = L1 @ Signalled p sig # L2"
    show "justified M T R0 L1 p"
    proof (cases L2 rule: rev_cases)
      case Nil then show ?thesis using s a by simp
    next
      case (snoc ys y)
      then have "L = L1 @ Signalled p sig # ys" using s by (simp flip: append_assoc append_Cons)
      then show ?thesis using a by (auto simp: signals_justified_def)
    qed
  qed
qed

lemma signals_justified_calm: "signals_justified M T R0 L \<Longrightarrow> list_all (\<lambda>x. \<not> is_signal x) xs \<Longrightarrow> signals_justified M T R0 (L @ xs)"
proof (induction xs rule: rev_induct)
  case (snoc x xs)
  then show ?case by (cases x) (simp_all add: signals_justified_snoc flip: append_assoc)
qed simp

lemma nth_field_Inr: "nth_field xs n = Inr x \<longleftrightarrow> n < length xs \<and> x = xs ! n"
  by (auto simp: nth_field_def)

lemma group_member_live: "group_member M n p d name = Inr qs \<Longrightarrow> q \<in> set qs \<Longrightarrow> living_member M n d p q"
  unfolding group_member_def living_member_def rbind_eq_Inr nth_field_Inr dindex_Inr_iff
  by (auto split: option.split_asm if_split_asm simp: rbind_eq_Inr nth_field_Inr dindex_Inr_iff)

lemma traverse_found: "traverse f xs = Inr ys \<Longrightarrow> y \<in> set ys \<Longrightarrow> \<exists>x \<in> set xs. f x = Inr y"
  by (induction xs arbitrary: ys) (auto simp: rbind_eq_Inr)

lemma members_own:
  assumes "process_members M n d = Inr ms" and "ms \<noteq> []"
  shows "\<exists>p. own_group M n d p"
proof -
  from assms obtain v p boot where v: "map_of d ''pid'' = Some v" "int_value v = Some p" "map_of d ''boot_id'' = Some boot"
    and rest: "boot = JStr (mc_boot_id M)" "1 < p"
    by (auto simp: process_members_def rbind_eq_Inr dindex_Inr_iff split: option.split_asm if_split_asm)
  have group: "group_id d = Inr p" using v by (simp add: group_id_def dindex_def)
  from assms v rest obtain leader names found where l: "process_stat (mc_leader M n p) = Inr leader"
    "(case leader of None \<Rightarrow> Inr True | Some columns \<Rightarrow> rbind (nth_field columns 19) (\<lambda>birth.
        rbind (dindex d ''start_time'') (\<lambda>t. Inr (t = JStr birth)))) = Inr True"
    and f: "traverse (group_member M n p d) names = Inr found" "ms = concat found"
    by (auto simp: process_members_def rbind_eq_Inr dindex_def split: if_split_asm)
  from f(2) assms(2) have "set (concat found) \<noteq> {}" by simp
  then obtain qs q where "qs \<in> set found" "q \<in> set qs" unfolding set_concat by blast
  then have "\<exists>q. living_member M n d p q" using traverse_found [OF f(1)] group_member_live by blast
  with l rest v(3) group show ?thesis
    by (auto simp: own_group_def rbind_eq_Inr dindex_Inr_iff nth_field_Inr split: option.split_asm)
qed


section \<open>Ending a group\<close>

text \<open>The record of a group that may be ended: found at the start under a name of \<open>T\<close>, or launched since.\<close>

definition legitimate :: "string set \<Rightarrow> (string \<rightharpoonup> record_file) \<Rightarrow> supervision list \<Rightarrow> jdict \<Rightarrow> bool" where
  "legitimate T R0 L d \<longleftrightarrow> (\<exists>name p. Launched name p \<in> set L \<and> group_id d = Inr p) \<or> (\<exists>name \<in> T. R0 name = Some (Stored (JObj d)))"

definition grows :: "supervisor \<Rightarrow> supervisor \<Rightarrow> bool" where
  "grows s s' \<longleftrightarrow> su_records s' = su_records s \<and> su_started s' = su_started s \<and> (\<exists>xs. su_log s' = su_log s @ xs)"

definition ending_group :: "machine \<Rightarrow> string set \<Rightarrow> (string \<rightharpoonup> record_file) \<Rightarrow> supervisor \<Rightarrow> supervisor \<Rightarrow> bool" where
  "ending_group M T R0 s0 s \<longleftrightarrow> grows s0 s \<and> signals_justified M T R0 (su_log s)"

definition seen_alive :: "machine \<Rightarrow> string set \<Rightarrow> (string \<rightharpoonup> record_file) \<Rightarrow> jdict \<Rightarrow> supervisor \<Rightarrow> bool" where
  "seen_alive M T R0 d s \<longleftrightarrow> (\<exists>L0 ms n p. su_log s = L0 @ [Looked d ms] \<and> own_group M n d p \<and> legitimate T R0 L0 d)"

lemma calmly_grows: "calmly s s' \<Longrightarrow> grows s s'"
  by (auto simp: calmly_def grows_def)

lemma grows_refl: "grows s s"
  by (simp add: grows_def)

lemma grows_trans: "grows s s1 \<Longrightarrow> grows s1 s2 \<Longrightarrow> grows s s2"
  by (auto simp: grows_def)

lemma legitimate_grows: "legitimate T R0 (su_log s) d \<Longrightarrow> grows s s' \<Longrightarrow> legitimate T R0 (su_log s') d"
  by (auto simp: legitimate_def grows_def)

lemma look_cases:
  assumes "look M d s = (r, s')"
  shows "calmly s s' \<and> (\<forall>ms. r = Inr ms \<longrightarrow> (\<exists>n. su_log s' = su_log s @ [Looked d ms] \<and> process_members M n d = Inr ms))"
  using calmD [OF calm_look assms] assms
  by (auto simp: look_def obind_def ask_def enter_def op_simps split: sum.splits)

lemma ending_calm: "ending_group M T R0 s0 s \<Longrightarrow> calmly s s' \<Longrightarrow> ending_group M T R0 s0 s'"
  unfolding ending_group_def using calmly_grows grows_trans signals_justified_calm by (auto simp: calmly_def)

lemma ending_look:
  assumes "legitimate T R0 (su_log s0) d"
  shows "triple (ending_group M T R0 s0) (look M d) (\<lambda>ms s. ending_group M T R0 s0 s \<and> (ms \<noteq> [] \<longrightarrow> seen_alive M T R0 d s))
    (\<lambda>_. ending_group M T R0 s0)"
proof (rule tripleI)
  fix s r s'
  assume s: "ending_group M T R0 s0 s" "look M d s = (r, s')"
  note l = look_cases [OF s(2)]
  have e: "ending_group M T R0 s0 s'" using ending_calm s(1) l by blast
  show "case r of Inl e \<Rightarrow> ending_group M T R0 s0 s' | Inr ms \<Rightarrow> ending_group M T R0 s0 s' \<and> (ms \<noteq> [] \<longrightarrow> seen_alive M T R0 d s')"
  proof (cases r)
    case (Inr ms)
    have "legitimate T R0 (su_log s) d" using legitimate_grows [OF assms] s(1) by (simp add: ending_group_def)
    moreover from l Inr obtain n where "su_log s' = su_log s @ [Looked d ms]" "process_members M n d = Inr ms" by blast
    ultimately have "ms \<noteq> [] \<longrightarrow> seen_alive M T R0 d s'"
      unfolding seen_alive_def using members_own [of M n d ms] by auto
    with e Inr show ?thesis by simp
  qed (simp add: e)
qed

lemma ending_signal:
  "triple (\<lambda>s. ending_group M T R0 s0 s \<and> seen_alive M T R0 d s) (signal_group M d sig) (\<lambda>_. ending_group M T R0 s0)
    (\<lambda>_. ending_group M T R0 s0)"
proof (rule tripleI)
  fix s r s'
  assume s: "ending_group M T R0 s0 s \<and> seen_alive M T R0 d s" "signal_group M d sig s = (r, s')"
  then obtain L0 ms n p where l: "su_log s = L0 @ [Looked d ms]" "own_group M n d p" "legitimate T R0 L0 d"
    by (auto simp: seen_alive_def)
  then have g: "group_id d = Inr p" by (simp add: own_group_def)
  have "justified M T R0 (su_log s) p"
    using l g unfolding justified_def legitimate_def by auto
  then have "ending_group M T R0 s0 (s\<lparr>su_tick := su_tick s + 1, su_log := su_log s @ [Signalled p sig]\<rparr>)"
    using s(1) by (auto simp: ending_group_def grows_def signals_justified_snoc)
  moreover have "s' = s\<lparr>su_tick := su_tick s + 1, su_log := su_log s @ [Signalled p sig]\<rparr>"
    using s(2) g by (auto simp: signal_group_def obind_def ask_def enter_def op_simps split: kill_outcome.splits)
  ultimately show "case r of Inl e \<Rightarrow> ending_group M T R0 s0 s' | Inr x \<Rightarrow> ending_group M T R0 s0 s'"
    by (cases r) simp_all
qed

lemma ending_wait:
  assumes "legitimate T R0 (su_log s0) d"
  shows "triple (ending_group M T R0 s0) (wait_gone M d n) (\<lambda>_. ending_group M T R0 s0) (\<lambda>_. ending_group M T R0 s0)"
proof (induction n)
  case 0
  show ?case unfolding wait_gone.simps by (rule triple_bind [OF ending_look [OF assms]]) (rule triple_basic, blast)
next
  case (Suc n)
  show ?case unfolding wait_gone.simps
    by (rule triple_bind [OF ending_look [OF assms]]) (auto intro!: triple_if triple_basic triple_weaken [OF Suc])
qed

lemma ending_signal_wait:
  assumes "legitimate T R0 (su_log s0) d"
  shows "triple (\<lambda>s. ending_group M T R0 s0 s \<and> seen_alive M T R0 d s) (signal_and_wait M d sig)
    (\<lambda>ms s. ending_group M T R0 s0 s \<and> (ms \<noteq> [] \<longrightarrow> seen_alive M T R0 d s)) (\<lambda>_. ending_group M T R0 s0)"
proof -
  have "triple (ending_group M T R0 s0) (\<lambda>s. wait_gone M d (mc_rounds M (su_tick s)) s) (\<lambda>_. ending_group M T R0 s0)
      (\<lambda>_. ending_group M T R0 s0)"
    using ending_wait [OF assms] by (simp add: triple_def)
  then show ?thesis
    unfolding signal_and_wait_def by (intro triple_bind [OF ending_signal] triple_bind [OF _ ending_look [OF assms]])
qed

lemma ending_end:
  assumes "legitimate T R0 (su_log s0) d"
  shows "triple (\<lambda>s. ending_group M T R0 s0 s \<and> seen_alive M T R0 d s) (end_group M name d) (\<lambda>_. ending_group M T R0 s0)
    (\<lambda>_. ending_group M T R0 s0)"
  unfolding end_group_def
  apply (rule triple_bind [OF ending_signal_wait [OF assms]])
  apply (rule triple_if, rule triple_basic, simp)
  apply (rule triple_weaken [OF triple_bind [OF ending_signal_wait [OF assms]]])
  apply (auto simp: oguard_def intro!: triple_if triple_basic)
  done


section \<open>The supervisor\<close>

text \<open>A name whose record is of a group launched since the beginning, or gone again.\<close>

definition owned :: "supervisor \<Rightarrow> string \<Rightarrow> bool" where
  "owned s name \<longleftrightarrow> (\<exists>p. Launched name p \<in> set (su_log s)
     \<and> (su_records s name = None \<or> (\<exists>d. su_records s name = Some (Stored (JObj d)) \<and> group_id d = Inr p)))"

definition supervised :: "machine \<Rightarrow> string set \<Rightarrow> (string \<rightharpoonup> record_file) \<Rightarrow> supervisor \<Rightarrow> bool" where
  "supervised M T R0 s \<longleftrightarrow> signals_justified M T R0 (su_log s)
     \<and> (\<forall>name. name = ''keycloak'' \<or> owned s name \<or> su_records s name = R0 name \<or> name \<in> T \<and> su_records s name = None)"

text \<open>One operation of the supervisor: what it owned it still owns.\<close>

definition supervises :: "machine \<Rightarrow> string set \<Rightarrow> (string \<rightharpoonup> record_file) \<Rightarrow> supervisor \<Rightarrow> supervisor \<Rightarrow> bool" where
  "supervises M T R0 s s' \<longleftrightarrow> supervised M T R0 s' \<and> (\<forall>name. name \<noteq> ''keycloak'' \<and> owned s name \<longrightarrow> owned s' name)
     \<and> (\<exists>xs. su_log s' = su_log s @ xs)"

definition stoppable :: "string set \<Rightarrow> supervisor \<Rightarrow> string \<Rightarrow> bool" where
  "stoppable T s name \<longleftrightarrow> name \<noteq> ''keycloak'' \<and> (owned s name \<or> name \<in> T)"

lemma grows_owned: "grows s s' \<Longrightarrow> owned s name \<Longrightarrow> owned s' name"
  by (auto simp: grows_def owned_def)

lemma supervises_refl: "supervised M T R0 s \<Longrightarrow> supervises M T R0 s s"
  by (simp add: supervises_def)

lemma supervises_trans: "supervises M T R0 s s1 \<Longrightarrow> supervises M T R0 s1 s2 \<Longrightarrow> supervises M T R0 s s2"
  unfolding supervises_def by auto

lemma supervisesD: "supervises M T R0 s s' \<Longrightarrow> supervised M T R0 s'"
  by (simp add: supervises_def)

lemma supervises_stoppable: "supervises M T R0 s s' \<Longrightarrow> stoppable T s name \<Longrightarrow> stoppable T s' name"
  by (auto simp: supervises_def stoppable_def)

lemma grows_supervises:
  "supervised M T R0 s \<Longrightarrow> grows s s' \<Longrightarrow> signals_justified M T R0 (su_log s') \<Longrightarrow> supervises M T R0 s s'"
  unfolding supervises_def supervised_def using grows_owned by (auto simp: grows_def)

lemma calm_supervises: "calm m \<Longrightarrow> supervised M T R0 s \<Longrightarrow> m s = (r, s') \<Longrightarrow> supervises M T R0 s s'"
  using calmD [of m s r s'] calmly_grows signals_justified_calm
  by (intro grows_supervises) (auto simp: supervised_def calmly_def)

lemma supervised_legitimate:
  assumes "supervised M T R0 s" and "stoppable T s name" and "su_records s name = Some (Stored (JObj d))"
  shows "legitimate T R0 (su_log s) d"
proof (cases "owned s name")
  case False
  with assms show ?thesis by (auto simp: supervised_def stoppable_def legitimate_def)
qed (use assms(3) in \<open>auto simp: owned_def legitimate_def\<close>)

lemma unlink_supervises:
  assumes "supervised M T R0 s" and "stoppable T s name" and "unlink_record M name s = (r, s')"
  shows "supervises M T R0 s s'"
proof -
  have c: "calm (ask_ok (mc_unlink M))" by (intro calms)
  from assms(3) show ?thesis
    unfolding unlink_record_def
  proof (cases rule: obind_cases)
    case (1 e)
    with calm_supervises [OF c assms(1)] show ?thesis by blast
  next
    case (2 x s1)
    from calm_supervises [OF c assms(1) 2(1)] have s1: "supervises M T R0 s s1" .
    have stop: "stoppable T s1 name" by (rule supervises_stoppable [OF s1 assms(2)])
    have owned: "owned s1 other \<Longrightarrow> owned (s1\<lparr>su_records := (su_records s1)(name := None)\<rparr>) other" for other
      by (auto simp: owned_def)
    have "supervises M T R0 s1 (s1\<lparr>su_records := (su_records s1)(name := None)\<rparr>)"
      using stop owned supervisesD [OF s1] by (auto simp: supervises_def supervised_def stoppable_def)
    with s1 2(2) show ?thesis using supervises_trans by (auto simp: op_simps)
  qed
qed

lemma supervises_bind:
  assumes "obind m f s = (r, s')" and "\<And>y s1. m s = (y, s1) \<Longrightarrow> supervises M T R0 s s1"
    and "\<And>x s1. m s = (Inr x, s1) \<Longrightarrow> supervises M T R0 s s1 \<Longrightarrow> f x s1 = (r, s') \<Longrightarrow> supervises M T R0 s1 s'"
  shows "supervises M T R0 s s'"
  using assms(1)
proof (cases rule: obind_cases)
  case (2 x s1)
  then show ?thesis using supervises_trans [OF assms(2) assms(3)] assms(2) by blast
qed (use assms(2) in blast)

text \<open>Looking for the members of a record and ending their group.\<close>

definition end_members :: "machine \<Rightarrow> string \<Rightarrow> jdict option \<Rightarrow> unit sup_op" where
  "end_members M name found = obind (members_of M found) (\<lambda>ms.
     case found of None \<Rightarrow> oreturn () | Some d \<Rightarrow> if ms = [] then oreturn () else end_group M name d)"

lemma stop_service_eq:
  "stop_service M K name = obind (read_record K name) (\<lambda>found. obind (end_members M name found) (\<lambda>_.
     obind (reap_child M name) (\<lambda>_. unlink_record M name)))"
  unfolding stop_service_def end_members_def by (auto simp: obind_def fun_eq_iff split: prod.split sum.split)

lemma end_members_supervises:
  assumes "supervised M T R0 s" and "\<And>d. found = Some d \<Longrightarrow> legitimate T R0 (su_log s) d" and "end_members M name found s = (r, s')"
  shows "supervises M T R0 s s'"
proof (cases "\<exists>d. found = Some d \<and> d \<noteq> []")
  case False
  then have "s' = s" using assms(3) by (auto simp: end_members_def members_of_def op_simps obind_def split: option.splits)
  with supervises_refl assms(1) show ?thesis by blast
next
  case True
  then obtain d where d: "found = Some d" "d \<noteq> []" by blast
  note legit = assms(2) [OF d(1)]
  let ?E = "ending_group M T R0 s"
  have "triple ?E (end_members M name found) (\<lambda>_. ?E) (\<lambda>_. ?E)"
    unfolding end_members_def d(1) members_of_def option.case using d(2)
    by (auto intro!: triple_bind [OF ending_look [OF legit]] triple_if triple_weaken [OF ending_end [OF legit]] triple_basic)
  moreover have "?E s" using assms(1) by (simp add: ending_group_def grows_refl supervised_def)
  ultimately have "?E s'" using tripleD [of ?E _ "\<lambda>_. ?E" "\<lambda>_. ?E"] assms(3) by (cases r) force+
  then show ?thesis using grows_supervises [OF assms(1)] by (simp add: ending_group_def)
qed

lemma stop_service_supervises:
  assumes "supervised M T R0 s" and "stoppable T s name" and "stop_service M K name s = (r, s')"
  shows "supervises M T R0 s s'"
  using assms(3) unfolding stop_service_eq
proof (rule supervises_bind)
  fix found s1
  assume "read_record K name s = (Inr found, s1)"
  then have s1: "s1 = s" "found = Some d \<Longrightarrow> su_records s name = Some (Stored (JObj d))" for d
    by (auto simp: read_record_def op_simps split: option.splits record_file.splits json.splits)
  assume "obind (end_members M name found) (\<lambda>_. obind (reap_child M name) (\<lambda>_. unlink_record M name)) s1 = (r, s')"
  then show "supervises M T R0 s1 s'"
    unfolding s1(1)
  proof (rule supervises_bind)
    show "supervises M T R0 s s2" if "end_members M name found s = (y, s2)" for y s2
      using end_members_supervises [OF assms(1) _ that] supervised_legitimate [OF assms(1,2)] s1(2) by blast
    show "supervises M T R0 s2 s'" if "supervises M T R0 s s2" "obind (reap_child M name) (\<lambda>_. unlink_record M name) s2 = (r, s')" for s2
      using that(2)
      by (rule supervises_bind) (use calm_supervises [OF calm_reap supervisesD [OF that(1)]]
        unlink_supervises supervisesD supervises_stoppable [OF _ supervises_stoppable [OF that(1) assms(2)]] in blast)+
  qed
qed (use calm_supervises [OF calm_running(3) assms(1)] in blast)

lemma attempt_Inr: "\<exists>z s'. attempt m s = (Inr z, s')"
  by (cases "m s"; cases "fst (m s)") (auto simp: attempt_def)

lemma attempt_supervises:
  assumes "\<And>r s1. m s = (r, s1) \<Longrightarrow> supervises M T R0 s s1" and "attempt m s = (r', s')"
  shows "supervises M T R0 s s'"
  using assms by (auto simp: attempt_def split: prod.splits sum.splits)

lemma stop_all_supervises:
  "supervised M T R0 s \<Longrightarrow> (\<And>name. name \<in> set names \<Longrightarrow> stoppable T s name) \<Longrightarrow> stop_all M K names s = (r, s')
    \<Longrightarrow> supervises M T R0 s s'"
proof (induction names arbitrary: s r s')
  case Nil then show ?case using supervises_refl by (simp add: op_simps)
next
  case (Cons name names)
  from Cons.prems(3) show ?case
    unfolding stop_all.simps
  proof (rule supervises_bind)
    show s1: "supervises M T R0 s s1" if "attempt (stop_service M K name) s = (y, s1)" for y s1
      by (rule attempt_supervises [OF _ that], rule stop_service_supervises) (use Cons.prems(1,2) in auto)
    fix failed s1
    assume s: "supervises M T R0 s s1" and run: "obind (stop_all M K names) (\<lambda>errors.
       oreturn ((case failed of None \<Rightarrow> [] | Some e \<Rightarrow> [name @ '': '' @ error_text e]) @ errors)) s1 = (r, s')"
    have rest: "stop_all M K names s1 = (y, s2) \<Longrightarrow> supervises M T R0 s1 s2" for y s2
      using Cons.IH [OF supervisesD [OF s]] supervises_stoppable [OF s] Cons.prems(2) by simp
    from run show "supervises M T R0 s1 s'"
      by (rule supervises_bind) (use rest supervises_refl supervisesD in \<open>auto simp: op_simps\<close>)
  qed
qed


lemma keycloak_supervises:
  assumes "supervised M T R0 s" shows "supervises M T R0 s (s\<lparr>su_records := (su_records s)(''keycloak'' := v)\<rparr>)"
proof -
  have "owned s name \<Longrightarrow> name \<noteq> ''keycloak'' \<Longrightarrow> owned (s\<lparr>su_records := (su_records s)(''keycloak'' := v)\<rparr>) name" for name
    by (auto simp: owned_def)
  with assms show ?thesis by (auto simp: supervises_def supervised_def)
qed

lemma keycloak_file_supervises:
  assumes "calm m" and "supervised M T R0 s" and "obind m (\<lambda>_. ochange (\<lambda>s. s\<lparr>su_records := (su_records s)(''keycloak'' := v)\<rparr>)) s = (r, s')"
  shows "supervises M T R0 s s'"
  using assms(3)
  by (rule supervises_bind) (use calm_supervises [OF assms(1,2)] keycloak_supervises supervisesD in \<open>auto simp: op_simps\<close>)

lemma stop_identity_supervises:
  assumes "supervised M T R0 s" and "stop_identity M K s = (r, s')"
  shows "supervises M T R0 s s'"
proof -
  have unlink: "supervises M T R0 s1 s2" if "supervised M T R0 s1" "unlink_record M ''keycloak'' s1 = (y, s2)" for s1 y s2
    using keycloak_file_supervises [OF calm_ask(2) that(1)] that(2) by (simp add: unlink_record_def)
  have dock: "supervises M T R0 s1 s2" if "supervised M T R0 s1"
    "obind (checked_command M c) (\<lambda>_. unlink_record M ''keycloak'') s1 = (y, s2)" for s1 c y s2
    using that(2) by (rule supervises_bind) (use that(1) calm_supervises [OF calm_commands(2)] unlink supervisesD in blast)+
  from assms(2) show ?thesis
    unfolding stop_identity_def
  proof (rule supervises_bind)
    fix found s1
    assume s1: "supervises M T R0 s s1" and run: "(case found of None \<Rightarrow> oreturn () | Some d \<Rightarrow> if d = [] then oreturn () else
       obind (oread (\<lambda>_. rbind (dindex d ''container_id'') (\<lambda>v. case v of JStr i \<Rightarrow> Inr i
          | _ \<Rightarrow> Inl (TypeError ''expected str, bytes or os.PathLike object'')))) (\<lambda>i.
       obind (checked_command M [''docker'', ''stop'', ''--time'', sk_stop_seconds K, i]) (\<lambda>_.
       unlink_record M ''keycloak''))) s1 = (r, s')"
    show "supervises M T R0 s1 s'"
    proof (cases "\<exists>d. found = Some d \<and> d \<noteq> []")
      case False
      with run s1 show ?thesis using supervises_refl supervisesD by (auto simp: op_simps split: option.splits)
    next
      case True
      with run have "obind (oread (\<lambda>_. rbind (dindex (the found) ''container_id'') (\<lambda>v. case v of JStr i \<Rightarrow> Inr i
          | _ \<Rightarrow> Inl (TypeError ''expected str, bytes or os.PathLike object'')))) (\<lambda>i.
       obind (checked_command M [''docker'', ''stop'', ''--time'', sk_stop_seconds K, i]) (\<lambda>_. unlink_record M ''keycloak'')) s1 = (r, s')"
        by auto
      then show ?thesis
        by (rule supervises_bind) (use dock calm_supervises [OF calm_basic(3)] supervisesD [OF s1] supervisesD in blast)+
    qed
  qed (use calm_supervises [OF calm_running(3) assms(1)] in blast)
qed

section \<open>Starting\<close>

definition starts_owned :: "supervisor \<Rightarrow> bool" where
  "starts_owned s \<longleftrightarrow> (\<forall>name \<in> set (su_started s). name \<noteq> ''keycloak'' \<and> owned s name)"

lemma starts_owned_supervises: "supervises M T R0 s s' \<Longrightarrow> su_started s' = su_started s \<Longrightarrow> starts_owned s \<Longrightarrow> starts_owned s'"
  by (auto simp: starts_owned_def supervises_def)

lemma start_service_supervises:
  assumes "supervised M T R0 s" and "start_service M svc s = (r, s')" and "ds_name svc \<noteq> ''keycloak''"
  shows "supervises M T R0 s s' \<and> su_started s' = su_started s \<and> (r = Inr () \<longrightarrow> owned s' (ds_name svc))"
proof (cases "mc_popen M (su_tick s) (ds_command svc)")
  case (Inl e)
  with assms(1,2) show ?thesis
    by (auto simp: start_service_def obind_def ask_def supervised_def grows_def intro!: grows_supervises)
next
  case (Inr pid)
  let ?name = "ds_name svc"
  have sound: "signals_justified M T R0 (su_log s @ [Launched ?name pid])"
    "signals_justified M T R0 (su_log s @ [Launched ?name pid, Signalled pid SIGKILL])"
    using assms(1) signals_justified_snoc [of M T R0 "su_log s @ [Launched ?name pid]" "Signalled pid SIGKILL"]
    by (auto simp: supervised_def signals_justified_snoc justified_def)
  have launched: "supervises M T R0 s s1" if "su_records s1 = su_records s" "su_started s1 = su_started s"
    "su_log s1 = su_log s @ [Launched ?name pid] \<or> su_log s1 = su_log s @ [Launched ?name pid, Signalled pid SIGKILL]" for s1
    using that sound by (intro grows_supervises [OF assms(1)]) (auto simp: grows_def)
  let ?d = "\<lambda>birth. [(''pid'', JInt pid), (''start_time'', JStr birth), (''boot_id'', JStr (mc_boot_id M))]"
  have recorded: "supervises M T R0 s s1 \<and> owned s1 ?name" if "su_records s1 = (su_records s)(?name \<mapsto> Stored (JObj (?d birth)))"
    "su_log s1 = su_log s @ [Launched ?name pid]" for s1 birth
  proof -
    have o: "owned s1 ?name" using that by (auto simp: owned_def group_id_def dindex_def int_value_def)
    moreover have "owned s name \<Longrightarrow> owned s1 name" for name
      using o that by (cases "name = ?name") (auto simp: owned_def)
    moreover have "owned s1 name \<or> su_records s1 name = su_records s name" for name using o that by (cases "name = ?name") auto
    ultimately show ?thesis using assms(1) sound(1) that by (auto simp: supervises_def supervised_def)
  qed
  from assms(2) Inr consider
    e where "r = Inl e" "su_records s' = su_records s" "su_started s' = su_started s"
      "su_log s' = su_log s @ [Launched ?name pid] \<or> su_log s' = su_log s @ [Launched ?name pid, Signalled pid SIGKILL]"
  | birth where "r = Inr ()" "su_records s' = (su_records s)(?name \<mapsto> Stored (JObj (?d birth)))" "su_started s' = su_started s"
      "su_log s' = su_log s @ [Launched ?name pid]"
    by (auto simp: start_service_def obind_def ask_def enter_def op_simps ocatch_def write_record_def ask_ok_def kill_child_def
      split: sum.splits option.splits kill_outcome.splits)
  then show ?thesis using launched recorded by cases auto
qed


definition advances :: "machine \<Rightarrow> string set \<Rightarrow> (string \<rightharpoonup> record_file) \<Rightarrow> supervisor \<Rightarrow> supervisor \<Rightarrow> bool" where
  "advances M T R0 s s' \<longleftrightarrow> supervises M T R0 s s' \<and> starts_owned s'"

lemma advances_bind:
  assumes "obind m f s = (r, s')" and "\<And>y s1. m s = (y, s1) \<Longrightarrow> advances M T R0 s s1"
    and "\<And>x s1. m s = (Inr x, s1) \<Longrightarrow> supervised M T R0 s1 \<Longrightarrow> starts_owned s1 \<Longrightarrow> f x s1 = (r, s') \<Longrightarrow> advances M T R0 s1 s'"
  shows "advances M T R0 s s'"
  using assms(1)
proof (cases rule: obind_cases)
  case (2 x s1)
  from assms(2) [OF 2(1)] have s1: "supervises M T R0 s s1" "starts_owned s1" by (simp_all add: advances_def)
  from assms(3) [OF 2(1) supervisesD [OF s1(1)] s1(2) 2(2)] s1(1) show ?thesis
    unfolding advances_def using supervises_trans by blast
qed (use assms(2) in blast)

lemma calm_advances: "calm m \<Longrightarrow> supervised M T R0 s \<Longrightarrow> starts_owned s \<Longrightarrow> m s = (r, s') \<Longrightarrow> advances M T R0 s s'"
  unfolding advances_def using calm_supervises [of m M T R0 s r s'] starts_owned_supervises [of M T R0 s s'] calmD [of m s r s']
  by (auto simp: calmly_def)

lemma start_services_advances:
  "supervised M T R0 s \<Longrightarrow> starts_owned s \<Longrightarrow> ''keycloak'' \<notin> ds_name ` set svcs \<Longrightarrow> start_services M K svcs s = (r, s')
    \<Longrightarrow> advances M T R0 s s'"
proof (induction svcs arbitrary: s)
  case Nil then show ?case using supervises_refl by (auto simp: op_simps advances_def)
next
  case (Cons svc rest)
  let ?launch = "\<lambda>up. if up then oreturn () else obind (start_service M svc) (\<lambda>_.
        ochange (\<lambda>s. s\<lparr>su_started := su_started s @ [ds_name svc]\<rparr>))"
  have launch': "advances M T R0 s1 s2" if "supervised M T R0 s1" "starts_owned s1" "?launch up s1 = (y, s2)" for up s1 y s2
  proof (cases up)
    case True with that show ?thesis using calm_advances [OF calm_basic(1)] by auto
  next
    case False
    obtain z s3 where z: "start_service M svc s1 = (z, s3)" by fastforce
    from start_service_supervises [OF that(1) z] Cons.prems(3)
    have s3: "supervises M T R0 s1 s3" "su_started s3 = su_started s1" "z = Inr () \<Longrightarrow> owned s3 (ds_name svc)" by auto
    have "supervised M T R0 (s3\<lparr>su_started := xs\<rparr>) = supervised M T R0 s3" "owned (s3\<lparr>su_started := xs\<rparr>) = owned s3" for xs
      by (simp_all add: supervised_def owned_def fun_eq_iff)
    then have started: "supervises M T R0 s1 (s3\<lparr>su_started := xs\<rparr>)" for xs using s3(1) by (simp add: supervises_def)
    from False that(3) z consider "s2 = s3" | "z = Inr ()" "s2 = s3\<lparr>su_started := su_started s3 @ [ds_name svc]\<rparr>"
      by (cases z) (auto simp: obind_def op_simps)
    then show ?thesis
    proof cases
      case 1 with s3 that(2) show ?thesis using starts_owned_supervises by (auto simp: advances_def)
    next
      case 2
      have "starts_owned s3" using starts_owned_supervises s3 that(2) by blast
      with 2 s3(3) started Cons.prems(3) show ?thesis by (auto simp: advances_def starts_owned_def owned_def)
    qed
  qed
  from Cons.prems(4) show ?case
    unfolding start_services.simps
  proof (rule advances_bind)
    fix up s1
    assume s1: "supervised M T R0 s1" "starts_owned s1"
    assume "obind (?launch up) (\<lambda>_. obind (wait_ready M K (ds_name svc) (ds_url svc) True) (\<lambda>_. start_services M K rest)) s1 = (r, s')"
    then show "advances M T R0 s1 s'"
    proof (rule advances_bind)
      fix u s2
      assume s2: "supervised M T R0 s2" "starts_owned s2"
        "obind (wait_ready M K (ds_name svc) (ds_url svc) True) (\<lambda>_. start_services M K rest) s2 = (r, s')"
      from s2(3) show "advances M T R0 s2 s'"
        by (rule advances_bind) (use calm_advances [OF calm_wait_ready s2(1,2)] Cons.IH Cons.prems(3) in auto)
    qed (use launch' s1 in blast)
  qed (use calm_advances [OF calm_running(1) Cons.prems(1,2)] in blast)
qed


lemma write_identity_advances:
  assumes "supervised M T R0 s" and "starts_owned s" and "write_record M ''keycloak'' d s = (r, s')"
  shows "advances M T R0 s s'"
proof -
  have "supervises M T R0 s s'"
    using assms(3) keycloak_file_supervises [OF calm_ask(2) assms(1)] by (simp add: write_record_def)
  moreover have "su_started s' = su_started s"
    using assms(3) by (auto simp: write_record_def obind_def ask_ok_def ask_def op_simps split: option.splits sum.splits prod.splits)
  ultimately show ?thesis using starts_owned_supervises assms(2) by (simp add: advances_def)
qed

lemma discover_advances:
  assumes "supervised M T R0 s" and "starts_owned s" and "discover_identity M K s = (r, s')"
  shows "advances M T R0 s s'"
  using assms(3) unfolding discover_identity_def
proof (rule advances_bind)
  fix x s1
  assume s1: "supervised M T R0 s1" "starts_owned s1"
  assume run: "(case x of (code, out) \<Rightarrow> let container = strip out in
     if code \<noteq> 0 \<or> container = [] then oreturn []
     else obind (write_record M ''keycloak'' [(''container_id'', JStr container)]) (\<lambda>_. oreturn container)) s1 = (r, s')"
  have stay: "advances M T R0 s2 s2" if "supervised M T R0 s2" "starts_owned s2" for s2
    using that supervises_refl by (simp add: advances_def)
  show "advances M T R0 s1 s'"
  proof (cases "fst x \<noteq> 0 \<or> strip (snd x) = []")
    case True with run stay [OF s1] show ?thesis by (auto simp: op_simps Let_def split: prod.splits)
  next
    case False
    with run have "obind (write_record M ''keycloak'' [(''container_id'', JStr (strip (snd x)))]) (\<lambda>_. oreturn (strip (snd x))) s1 = (r, s')"
      by (simp add: Let_def split: prod.splits)
    then show ?thesis
      by (rule advances_bind) (use write_identity_advances [OF s1] stay in \<open>auto simp: op_simps\<close>)
  qed
qed (use calm_advances [OF calm_commands(1) assms(1,2)] in blast)

lemma start_identity_advances:
  assumes "supervised M T R0 s" and "starts_owned s" and "start_identity M K s = (r, s')"
  shows "advances M T R0 s s'"
proof -
  obtain y s1 where y: "checked_command M (compose K [''up'', ''-d'', ''keycloak'']) s = (y, s1)" by fastforce
  from calm_advances [OF calm_commands(2) assms(1,2) y] have s1: "supervises M T R0 s s1" "starts_owned s1" by (simp_all add: advances_def)
  obtain z where "discover_identity M K s1 = (z, s')"
    using assms(3) y by (auto simp: start_identity_def obind_def op_simps split: sum.splits prod.splits)
  with discover_advances [OF supervisesD [OF s1(1)] s1(2)] s1(1) show ?thesis
    unfolding advances_def using supervises_trans by blast
qed

lemma calm_identity [calms]: "calm (ochange (\<lambda>s. s\<lparr>su_identity := v\<rparr>))"
  by (rule calmI) (simp add: op_simps calmly_def)

lemma identity_ready_advances:
  assumes "supervised M T R0 s" and "starts_owned s" and "identity_ready M K s = (r, s')"
  shows "advances M T R0 s s'"
proof -
  let ?ps = "\<lambda>out. let previous = strip out in
     if previous = [] then oreturn True else obind (container_running M (JStr previous)) (\<lambda>up. oreturn (\<not> up))"
  let ?wait = "\<lambda>container. obind (oguard (container \<noteq> []) (RuntimeError ''Compose did not return the Keycloak container ID'')) (\<lambda>_.
     wait_ready M K ''keycloak'' (sk_identity_url K) False)"
  let ?first = "obind (obind (checked_command M (compose K [''ps'', ''-q'', ''keycloak''])) ?ps)
     (\<lambda>fresh. ochange (\<lambda>s. s\<lparr>su_identity := fresh\<rparr>))"
  have eq: "identity_ready M K = obind ?first (\<lambda>_. obind (start_identity M K) ?wait)"
    by (auto simp: identity_ready_def Let_def obind_def fun_eq_iff split: prod.split sum.split)
  have calms': "calm ?first" "calm (?wait container)" for container unfolding Let_def by (intro calms)+
  from assms(3) show ?thesis
    unfolding eq
  proof (rule advances_bind)
    fix x s1
    assume s1: "supervised M T R0 s1" "starts_owned s1" "obind (start_identity M K) ?wait s1 = (r, s')"
    from s1(3) show "advances M T R0 s1 s'"
      by (rule advances_bind) (use start_identity_advances [OF s1(1,2)] calm_advances [OF calms'(2)] in blast)+
  qed (use calm_advances [OF calms'(1) assms(1,2)] in blast)
qed

lemma start_body_advances:
  assumes "supervised M T R0 s" and "starts_owned s" and "''keycloak'' \<notin> ds_name ` set (sk_services K)" and "start_body M K s = (r, s')"
  shows "advances M T R0 s s'"
  using assms(4) unfolding start_body_def
  by (rule advances_bind) (use identity_ready_advances [OF assms(1,2)] start_services_advances [OF _ _ assms(3)] in blast)+

lemma undo_start_supervises:
  assumes "supervised M T R0 s" and "starts_owned s" and "undo_start M K e s = (r, s')"
  shows "supervises M T R0 s s' \<and> r = Inl e"
proof -
  have tail: "supervises M T R0 s1 s' \<and> r = Inl e" if "supervised M T R0 s1"
    "obind (if b then obind (attempt (stop_identity M K)) (\<lambda>_. oreturn ()) else oreturn ()) (\<lambda>_. oraise e) s1 = (r, s')" for b s1
  proof -
    obtain z s2 where z: "attempt (stop_identity M K) s1 = (Inr z, s2)" using attempt_Inr by blast
    have "supervises M T R0 s1 s2" by (rule attempt_supervises [OF stop_identity_supervises z]) (use that(1) in auto)
    with that z show ?thesis using supervises_refl by (cases b) (auto simp: obind_def op_simps)
  qed
  obtain errors s1 where s1: "stop_all M K (rev (su_started s)) s = (errors, s1)" by fastforce
  have "supervises M T R0 s s1"
    by (rule stop_all_supervises [OF assms(1) _ s1]) (use assms(2) in \<open>auto simp: starts_owned_def stoppable_def\<close>)
  moreover have "stop_all M K names t = (Inl e', t') \<Longrightarrow> False" for names t e' t'
    by (induction names arbitrary: t) (auto simp: op_simps attempt_def elim!: obind_cases split: prod.splits sum.splits)
  ultimately show ?thesis
    using assms(3) s1 tail [OF supervisesD] supervises_trans
    by (cases errors) (force simp: undo_start_def obind_def)+
qed

lemma start_stack_supervises:
  assumes "supervised M T R0 s" and "''keycloak'' \<notin> ds_name ` set (sk_services K)" and "start_stack M K s = (r, s')"
  shows "supervises M T R0 s s'"
  using assms(3) unfolding start_stack_def
proof (rule supervises_bind)
  fix x s1
  assume s1: "supervises M T R0 s s1" "obind (ochange (\<lambda>s. s\<lparr>su_started := [], su_identity := False\<rparr>))
     (\<lambda>_. ocatch (start_body M K) (\<lambda>e. Some (undo_start M K e))) s1 = (r, s')"
  let ?s = "s1\<lparr>su_started := [], su_identity := False\<rparr>"
  have s2: "supervises M T R0 s1 ?s" "starts_owned ?s"
    using supervisesD [OF s1(1)] by (auto simp: supervises_def supervised_def owned_def starts_owned_def)
  obtain y s3 where y: "start_body M K ?s = (y, s3)" by fastforce
  from start_body_advances [OF supervisesD [OF s2(1)] s2(2) assms(2) y]
  have s3: "supervises M T R0 s1 s3" "starts_owned s3" using supervises_trans [OF s2(1)] by (auto simp: advances_def)
  from s1(2) y s3 show "supervises M T R0 s1 s'"
    using undo_start_supervises [OF supervisesD [OF s3(1)] s3(2)] supervises_trans [OF s3(1)]
    by (cases y) (auto simp: obind_def op_simps ocatch_def)
qed (use calm_supervises [OF calm_prerequisites assms(1)] in blast)

lemma stop_stack_supervises:
  assumes "supervised M UNIV R0 s" and "''keycloak'' \<notin> ds_name ` set (sk_services K)" and "stop_stack M K s = (r, s')"
  shows "supervises M UNIV R0 s s'"
  using assms(3) unfolding stop_stack_def
proof (rule supervises_bind)
  show "supervises M UNIV R0 s s1" if "stop_all M K (rev (map ds_name (sk_services K))) s = (y, s1)" for y s1
    by (rule stop_all_supervises [OF assms(1) _ that]) (use assms(2) in \<open>force simp: stoppable_def\<close>)
  fix errors s1
  assume s1: "supervises M UNIV R0 s s1" "obind (attempt (stop_identity M K)) (\<lambda>failed.
     let errors = errors @ (case failed of None \<Rightarrow> [] | Some e \<Rightarrow> [''keycloak: '' @ error_text e]) in
     oguard (errors = []) (RuntimeError (''Shutdown incomplete: '' @ join ''; '' errors))) s1 = (r, s')"
  have identity: "supervises M UNIV R0 s1 s2" if "attempt (stop_identity M K) s1 = (y, s2)" for y s2
    by (rule attempt_supervises [OF _ that]) (rule stop_identity_supervises [OF supervisesD [OF s1(1)]])
  from s1(2) show "supervises M UNIV R0 s1 s'"
    unfolding Let_def by (rule supervises_bind) (use identity calm_supervises [OF calm_basic(4)] supervisesD in blast)+
qed


lemma run_stack_supervises:
  assumes "supervised M UNIV R0 s" and "''keycloak'' \<notin> ds_name ` set (sk_services K)" and "run_stack M K command s = (r, s')"
  shows "supervises M UNIV R0 s s'"
  using assms(3) unfolding run_stack_def
proof (rule supervises_bind)
  show "supervises M UNIV R0 s s1" if "(if command \<in> {Stop, Restart} then stop_stack M K else oreturn ()) s = (y, s1)" for y s1
    using that stop_stack_supervises [OF assms(1,2)] supervises_refl [OF assms(1)] by (auto simp: op_simps split: if_splits)
  fix x s1
  assume s1: "supervises M UNIV R0 s s1" "obind (if command \<in> {Start, Restart} then start_stack M K else oreturn ()) (\<lambda>_.
     if command = Status then obind (stack_status M K) (\<lambda>healthy. oreturn (if healthy then 0 else 1)) else oreturn 0) s1 = (r, s')"
  have start: "supervises M UNIV R0 s1 s2"
    if "(if command \<in> {Start, Restart} then start_stack M K else oreturn ()) s1 = (y, s2)" for y s2
    using that start_stack_supervises [OF supervisesD [OF s1(1)] assms(2)] supervises_refl [OF supervisesD [OF s1(1)]]
    by (auto simp: op_simps split: if_splits)
  have rest: "calm (if command = Status then obind (stack_status M K) (\<lambda>healthy. oreturn (if healthy then 0 else 1)) else oreturn 0)"
    by (intro calms)
  from s1(2) show "supervises M UNIV R0 s1 s'"
    by (rule supervises_bind) (use start calm_supervises [OF rest] supervisesD in blast)+
qed

lemma stack_names: "new_stack M var base directory env_file timeout stop_seconds = Inr K \<Longrightarrow>
    map ds_name (sk_services K) = [''tools'', ''agents'', ''api'', ''ui'']"
  by (auto simp: new_stack_def stack_services_def rbind_eq_Inr Let_def)

lemma supervised_start: "su_log s = [] \<Longrightarrow> supervised M T (su_records s) s"
  by (simp add: supervised_def signals_justified_def)



text \<open>A machine on which the tools run as group 7, which ends at the first signal.\<close>

definition demo_columns :: string where
  "demo_columns = ''7 (tools) S 1 7 7 0 0 0 0 0 0 0 0 0 0 0 0 0 0 0 5''"

definition demo_machine :: machine where
  "demo_machine = \<lparr>mc_boot_id = ''b'', mc_leader = (\<lambda>n p. Inr (if n < 5 \<and> p = 7 then Some demo_columns else None)),
     mc_listing = (\<lambda>n. Inr (if n < 5 then [''7''] else [])), mc_stat = (\<lambda>n p. Inr (if n < 5 \<and> p = 7 then Some demo_columns else None)),
     mc_kill = (\<lambda>_ _ _. Delivered), mc_popen = (\<lambda>_ _. Inr 9), mc_wait = (\<lambda>_ _. None), mc_run = (\<lambda>_ _. Inr (0, [])),
     mc_http = (\<lambda>_ _. Inr 200), mc_connect = (\<lambda>_ _ _. Refused), mc_write = (\<lambda>_. None), mc_unlink = (\<lambda>_. None),
     mc_which = (\<lambda>_. True), mc_executable = (\<lambda>_. True), mc_exists = (\<lambda>_. True), mc_rounds = (\<lambda>_. 1), mc_literal = (\<lambda>_. False)\<rparr>"

definition demo_record :: jdict where
  "demo_record = [(''pid'', JInt 7), (''start_time'', JStr ''5''), (''boot_id'', JStr ''b'')]"

definition demo_supervisor :: supervisor where
  "demo_supervisor = \<lparr>su_tick = 0, su_records = [''tools'' \<mapsto> Stored (JObj demo_record)],
     su_children = [], su_started = [], su_identity = False, su_log = []\<rparr>"

definition demo_stack :: "stack result" where
  "demo_stack = new_stack demo_machine (\<lambda>_. None) ''/repo'' ''/repo/.aidlc-data/dev-services'' None ''120'' ''15''"

definition demo_parts :: "string list" where
  "demo_parts = [''S'', ''1'', ''7'', ''7''] @ replicate 15 ''0'' @ [''5'']"

lemma demo_stat: "process_stat (Inr (Some demo_columns)) = Inr (Some demo_parts)"
  by code_simp

lemma demo_texts: "py_int ''7'' = Inr 7" "py_int ''5'' = Inr 5" "int_str 7 = ''7''" "digit_name ''7''"
  by code_simp+

lemma demo_fields: "nth_field demo_parts 0 = Inr ''S''"
  "nth_field demo_parts 2 = Inr ''7''"
  "nth_field demo_parts 3 = Inr ''7''"
  "nth_field demo_parts 19 = Inr ''5''"
  by code_simp+

lemma demo_members: "process_members demo_machine n demo_record = Inr (if n < 5 then [7] else [])"
proof -
  have fields: "mc_boot_id demo_machine = ''b''" "mc_leader demo_machine n 7 = Inr (if n < 5 then Some demo_columns else None)"
    "mc_listing demo_machine n = Inr (if n < 5 then [''7''] else [])" "mc_stat demo_machine n 7 = Inr (if n < 5 then Some demo_columns else None)"
    by (simp_all add: demo_machine_def)
  have record': "dindex demo_record ''pid'' = Inr (JInt 7)" "dindex demo_record ''boot_id'' = Inr (JStr ''b'')"
    "dindex demo_record ''start_time'' = Inr (JStr ''5'')"
    by (simp_all add: demo_record_def dindex_def)
  have gone: "process_stat (Inr None) = Inr None" by (simp add: process_stat_def)
  have member: "n < 5 \<Longrightarrow> group_member demo_machine n 7 demo_record ''7'' = Inr [7]"
    by (simp add: group_member_def demo_texts fields demo_stat demo_fields record' int_of_value_def)
  show ?thesis
    by (simp add: process_members_def record' fields int_value_def demo_stat demo_fields gone demo_texts member)
qed

lemma stop_unknown:
  "su_records s name = None \<Longrightarrow> su_children s = [] \<Longrightarrow> stop_service demo_machine K name s
     = (Inr (), s\<lparr>su_tick := su_tick s + 1, su_records := (su_records s)(name := None)\<rparr>)"
  by (simp add: stop_service_def read_record_def obind_def op_simps members_of_def reap_child_def unlink_record_def ask_ok_def ask_def
      demo_machine_def)

lemma demo_look: "look demo_machine demo_record s = (Inr (if su_tick s < 5 then [7] else []),
    s\<lparr>su_tick := su_tick s + 1, su_log := su_log s @ [Looked demo_record (if su_tick s < 5 then [7] else [])]\<rparr>)"
  by (simp add: look_def obind_def ask_def enter_def op_simps demo_members)

lemma stop_demo:
  assumes "su_records s name = Some (Stored (JObj demo_record))" and "su_children s = []" and "su_tick s = 3"
  shows "\<exists>s'. stop_service demo_machine K name s = (Inr (), s') \<and> su_records s' = (su_records s)(name := None)
    \<and> su_children s' = [] \<and> Signalled 7 SIGTERM \<in> set (su_log s')"
proof -
  have d: "demo_record \<noteq> []" "group_id demo_record = Inr 7" by (simp_all add: demo_record_def group_id_def dindex_def int_value_def)
  have env: "mc_kill demo_machine n p sig = Delivered" "mc_rounds demo_machine n = Suc 0" "mc_unlink demo_machine n = None" for n p sig
    by (simp_all add: demo_machine_def)
  show ?thesis
    using assms d by (simp add: stop_service_def read_record_def obind_def op_simps members_of_def demo_look end_group_def
      signal_and_wait_def signal_group_def ask_def enter_def env reap_child_def unlink_record_def ask_ok_def)
qed

lemmas url_evaluation = urlsplit_def scheme_of_def trimmed_def netloc_of_def host_and_port_def bad_brackets_def rpartition_at_def
  rest_of_def lower_def is_alpha_def is_ascii_alnum_def is_digit_def starts_with_def ur_hostname_def ur_port_def ur_username_def
  host_info_def lower_char_def Let_def

lemma port_texts: "nat_str 8001 = ''8001''" "nat_str 8002 = ''8002''" "nat_str 8080 = ''8080''"
proof -
  have "char_of (48 :: nat) = CHR ''0''" "char_of (49 :: nat) = CHR ''1''" "char_of (50 :: nat) = CHR ''2''" "char_of (56 :: nat) = CHR ''8''"
    by code_simp+
  then show "nat_str 8001 = ''8001''" "nat_str 8002 = ''8002''" "nat_str 8080 = ''8080''" by (simp_all add: nat_str.simps)
qed

lemma stack_urls:
  "urlsplit (\<lambda>_. False) ''http://127.0.0.1:8001''
     = Inr \<lparr>ur_scheme = ''http'', ur_netloc = ''127.0.0.1:8001'', ur_path = [], ur_query = [], ur_fragment = []\<rparr>"
  "urlsplit (\<lambda>_. False) ''http://127.0.0.1:8002/mcp''
     = Inr \<lparr>ur_scheme = ''http'', ur_netloc = ''127.0.0.1:8002'', ur_path = ''/mcp'', ur_query = [], ur_fragment = []\<rparr>"
  "urlsplit (\<lambda>_. False) ''http://127.0.0.1:8080/realms/aidlc''
     = Inr \<lparr>ur_scheme = ''http'', ur_netloc = ''127.0.0.1:8080'', ur_path = ''/realms/aidlc'', ur_query = [], ur_fragment = []\<rparr>"
  by (simp_all add: url_evaluation)

lemma demo_stack_made: "\<exists>K. demo_stack = Inr K"
proof -
  have literal: "mc_literal demo_machine = (\<lambda>_. False)" by (simp add: demo_machine_def)
  have "local_url (\<lambda>_. False) ''http://127.0.0.1:8001'' 8001 = Inr ''http://127.0.0.1:8001''"
    "local_url (\<lambda>_. False) ''http://127.0.0.1:8002/mcp'' 8002 = Inr ''http://127.0.0.1:8002/mcp''"
    "local_url (\<lambda>_. False) ''http://127.0.0.1:8080/realms/aidlc'' 8080 = Inr ''http://127.0.0.1:8080/realms/aidlc''"
    by (simp_all add: local_url_def stack_urls url_evaluation guard_def port_texts)
  moreover have "ur_port \<lparr>ur_scheme = ''http'', ur_netloc = ''127.0.0.1:8080'', ur_path = ''/realms/aidlc'', ur_query = [], ur_fragment = []\<rparr>
      = Inr (Some 8080)"
    by (simp add: url_evaluation)
  ultimately show ?thesis by (simp add: demo_stack_def new_stack_def literal stack_urls guard_def)
qed

lemma demo_stopped: "\<exists>s'. main_services demo_machine demo_stack False Stop demo_supervisor = (Inr 0, s') \<and> Signalled 7 SIGTERM \<in> set (su_log s')"
proof -
  obtain K where K: "demo_stack = Inr K" using demo_stack_made by blast
  then have names: "map ds_name (sk_services K) = [''tools'', ''agents'', ''api'', ''ui'']" using stack_names by (simp add: demo_stack_def)
  let ?s = "demo_supervisor\<lparr>su_tick := Suc (Suc (Suc 0)), su_records := (su_records demo_supervisor)(''ui'' := None, ''api'' := None, ''agents'' := None)\<rparr>"
  obtain s1 where s1: "stop_service demo_machine K ''tools'' ?s = (Inr (), s1)" "su_records s1 = (su_records ?s)(''tools'' := None)"
    "su_children s1 = []" "Signalled 7 SIGTERM \<in> set (su_log s1)"
    using stop_demo [of ?s "''tools''" K] by (auto simp: demo_supervisor_def)
  have "stop_identity demo_machine K s1 = (Inr (), s1)"
    using s1(2) by (simp add: stop_identity_def read_record_def obind_def op_simps demo_supervisor_def)
  with s1 have "stop_stack demo_machine K demo_supervisor = (Inr (), s1)"
    by (simp add: stop_stack_def names obind_def attempt_def stop_unknown op_simps demo_supervisor_def)
  with s1(4) show ?thesis unfolding K by (simp add: main_services_def run_stack_def ocatch_def obind_def op_simps)
qed



section \<open>What a start accounts for\<close>

lemma ready_answered: "ready M url s = (Inr True, s') \<Longrightarrow> Answered url \<in> set (su_log s')"
  by (auto simp: ready_def obind_def ask_def enter_def op_simps split: sum.splits if_splits)

lemma wait_rounds_answered: "wait_rounds M K name url managed n s = (Inr x, s') \<Longrightarrow> Answered url \<in> set (su_log s')"
proof (induction n arbitrary: s)
  case (Suc n)
  then show ?case using ready_answered [of M url] by (fastforce simp: obind_Inr op_simps split: if_splits)
qed (simp add: op_simps)

lemma wait_ready_answered: "wait_ready M K name url managed s = (Inr x, s') \<Longrightarrow> Answered url \<in> set (su_log s')"
  unfolding wait_ready_def by (rule wait_rounds_answered)

lemma start_services_answered:
  "supervised M T R0 s \<Longrightarrow> starts_owned s \<Longrightarrow> ''keycloak'' \<notin> ds_name ` set svcs \<Longrightarrow> start_services M K svcs s = (Inr x, s')
    \<Longrightarrow> \<forall>svc \<in> set svcs. Answered (ds_url svc) \<in> set (su_log s')"
proof (induction svcs arbitrary: s)
  case (Cons svc rest)
  have split: "start_services M K (svc # rest) = obind (start_services M K [svc]) (\<lambda>_. start_services M K rest)"
    by (auto simp: obind_def fun_eq_iff op_simps split: prod.split sum.split)
  with Cons.prems(4) obtain y s1 where s1: "start_services M K [svc] s = (Inr y, s1)" "start_services M K rest s1 = (Inr x, s')"
    by (auto simp: obind_Inr simp del: start_services.simps)
  have "Answered (ds_url svc) \<in> set (su_log s1)"
    using s1(1) wait_ready_answered by (fastforce simp: obind_Inr op_simps)
  moreover have "advances M T R0 s s1" using start_services_advances [OF Cons.prems(1,2) _ s1(1)] Cons.prems(3) by simp
  then have s: "supervised M T R0 s1" "starts_owned s1" using supervisesD by (auto simp: advances_def)
  moreover have "\<exists>xs. su_log s' = su_log s1 @ xs"
    using start_services_advances [OF s _ s1(2)] Cons.prems(3) by (auto simp: advances_def supervises_def)
  ultimately show ?case using Cons.IH [OF s _ s1(2)] Cons.prems(3) by auto
qed simp

lemma identity_ready_answered: "identity_ready M K s = (Inr x, s') \<Longrightarrow> Answered (sk_identity_url K) \<in> set (su_log s')"
  using wait_ready_answered [of M K _ "sk_identity_url K"] by (fastforce simp: identity_ready_def Let_def obind_Inr)

lemma start_body_answered:
  assumes "supervised M T R0 s" and "starts_owned s" and "''keycloak'' \<notin> ds_name ` set (sk_services K)" and "start_body M K s = (Inr x, s')"
  shows "Answered (sk_identity_url K) \<in> set (su_log s') \<and> (\<forall>svc \<in> set (sk_services K). Answered (ds_url svc) \<in> set (su_log s'))"
proof -
  from assms(4) obtain y s1 where s1: "identity_ready M K s = (Inr y, s1)" "start_services M K (sk_services K) s1 = (Inr x, s')"
    by (auto simp: start_body_def obind_Inr)
  from identity_ready_advances [OF assms(1,2) s1(1)] have s: "supervised M T R0 s1" "starts_owned s1"
    by (auto simp: advances_def dest: supervisesD)
  have "\<exists>xs. su_log s' = su_log s1 @ xs"
    using start_services_advances [OF s assms(3) s1(2)] by (simp add: advances_def supervises_def)
  with identity_ready_answered [OF s1(1)] start_services_answered [OF s assms(3) s1(2)] show ?thesis by auto
qed

lemma fresh_locals: "supervised M T R0 s \<Longrightarrow> supervised M T R0 (s\<lparr>su_started := xs, su_identity := b\<rparr>)"
  by (simp add: supervised_def owned_def)

text \<open>The body of a start, and what its failure leads to.\<close>

lemma start_stack_body:
  assumes "supervised M T R0 s" and "check_prerequisites M K s = (Inr (), s0)"
    and "''keycloak'' \<notin> ds_name ` set (sk_services K)" and "start_stack M K s = (Inr x, s')"
  shows "\<exists>s1. supervised M T R0 s1 \<and> starts_owned s1 \<and> start_body M K s1 = (Inr x, s')"
proof -
  let ?s = "s0\<lparr>su_started := [], su_identity := False\<rparr>"
  from fresh_locals [OF supervisesD [OF calm_supervises [OF calm_prerequisites assms(1,2)]]]
  have s: "supervised M T R0 ?s" "starts_owned ?s" by (simp_all add: starts_owned_def)
  from assms(2,4) have run: "ocatch (start_body M K) (\<lambda>e. Some (undo_start M K e)) ?s = (Inr x, s')"
    by (simp add: start_stack_def obind_def op_simps)
  obtain y s2 where y: "start_body M K ?s = (y, s2)" by fastforce
  from start_body_advances [OF s assms(3) y] have s2: "supervised M T R0 s2" "starts_owned s2" by (auto simp: advances_def dest: supervisesD)
  have "y = Inr x \<and> s2 = s'"
  proof (cases y)
    case (Inl e)
    with run y have "undo_start M K e s2 = (Inr x, s')" by (simp add: ocatch_def)
    with undo_start_supervises [OF s2] show ?thesis by blast
  qed (use run y in \<open>simp add: ocatch_def\<close>)
  with s y show ?thesis by blast
qed


text \<open>The tools end as soon as they are launched: their record is gone again.\<close>

definition brief_machine :: machine where
  "brief_machine = demo_machine\<lparr>mc_leader := (\<lambda>_ _. Inr (Some demo_columns)), mc_listing := (\<lambda>_. Inr []), mc_run := (\<lambda>_ _. (Inr (0, ''c'')))\<rparr>"

definition brief_stack :: stack where
  "brief_stack = \<lparr>sk_root = ''/repo'', sk_directory = ''/data'', sk_env_file = None, sk_timeout = ''1'', sk_stop_seconds = ''1'',
     sk_identity_url = ''i'', sk_services = [\<lparr>ds_name = ''tools'', ds_command = [''t''], ds_url = ''u''\<rparr>]\<rparr>"

lemma brief_fields [simp]: "mc_leader brief_machine n p = Inr (Some demo_columns)" "mc_listing brief_machine n = Inr []"
  "mc_run brief_machine n c = Inr (0, ''c'')" "mc_boot_id brief_machine = ''b''" "mc_popen brief_machine n c = Inr 9"
  "mc_wait brief_machine n p = None" "mc_http brief_machine n u = Inr 200" "mc_connect brief_machine n h q = Refused"
  "mc_write brief_machine n = None" "mc_unlink brief_machine n = None" "mc_which brief_machine w = True"
  "mc_executable brief_machine w = True" "mc_exists brief_machine w = True" "mc_rounds brief_machine n = Suc 0"
  "mc_literal brief_machine t = False"
  by (simp_all add: brief_machine_def demo_machine_def)

lemma brief_members: "process_members brief_machine n [(''pid'', JInt 9), (''start_time'', JStr ''5''), (''boot_id'', JStr ''b'')] = Inr []"
  by (simp add: process_members_def dindex_def int_value_def demo_stat demo_fields)

lemmas brief_evaluation = obind_def op_simps ask_def enter_def ask_ok_def ocatch_def run_command_def checked_command_def read_record_def
  members_of_def running_def look_def write_record_def unlink_record_def wait_ready_def ready_def

lemma brief_identity:
  "\<exists>s1. identity_ready brief_machine brief_stack s = (Inr (), s1) \<and> su_identity s1 \<and> su_started s1 = su_started s
     \<and> su_children s1 = su_children s \<and> su_records s1 = (su_records s)(''keycloak'' \<mapsto> Stored (JObj [(''container_id'', JStr ''c'')]))"
proof -
  have "strip ''c'' = ''c''" by code_simp
  then show ?thesis
    by (simp add: identity_ready_def Let_def brief_evaluation container_running_def start_identity_def discover_identity_def)
qed

lemma brief_services:
  assumes "su_records s ''tools'' = None" and "su_children s = []" and "su_started s = []"
  shows "\<exists>s1 e. start_services brief_machine brief_stack (sk_services brief_stack) s = (Inl e, s1) \<and> su_started s1 = [''tools'']
    \<and> su_identity s1 = su_identity s \<and> Launched ''tools'' 9 \<in> set (su_log s1) \<and> su_children s1 = [(''tools'', 9)]
    \<and> su_records s1 = (su_records s)(''tools'' \<mapsto> Stored (JObj [(''pid'', JInt 9), (''start_time'', JStr ''5''), (''boot_id'', JStr ''b'')]))"
  using assms by (simp add: brief_stack_def brief_evaluation start_service_def demo_stat demo_fields brief_members)

lemma brief_undo:
  assumes "su_records s ''tools'' = Some (Stored (JObj [(''pid'', JInt 9), (''start_time'', JStr ''5''), (''boot_id'', JStr ''b'')]))"
    and "su_children s = [(''tools'', 9)]" and "su_started s = [''tools'']"
    and "su_records s ''keycloak'' = Some (Stored (JObj [(''container_id'', JStr ''c'')]))"
  shows "\<exists>s1. undo_start brief_machine brief_stack e s = (Inl e, s1) \<and> su_records s1 ''tools'' = None \<and> (\<exists>xs. su_log s1 = su_log s @ xs)"
  using assms by (simp add: undo_start_def brief_evaluation stop_service_def brief_members reap_child_def attempt_def stop_identity_def dindex_def)

lemma brief_start: "\<exists>s' e. start_stack brief_machine brief_stack (demo_supervisor\<lparr>su_records := Map.empty\<rparr>) = (Inl e, s')
    \<and> Launched ''tools'' 9 \<in> set (su_log s') \<and> su_records s' ''tools'' = None"
proof -
  let ?s = "demo_supervisor\<lparr>su_records := Map.empty\<rparr>"
  have url: "\<exists>u. urlsplit (mc_literal brief_machine) ''u'' = Inr u \<and> ur_port u = Inr None" by (simp add: url_evaluation)
  have pre: "check_prerequisites brief_machine brief_stack ?s = (Inr (), ?s\<lparr>su_tick := Suc 0\<rparr>)"
    using url by (auto simp: check_prerequisites_def brief_stack_def brief_evaluation demo_supervisor_def)
  let ?t = "?s\<lparr>su_tick := Suc 0, su_started := [], su_identity := False\<rparr>"
  obtain s1 where s1: "identity_ready brief_machine brief_stack ?t = (Inr (), s1)" "su_started s1 = []" "su_children s1 = []"
    "su_records s1 ''tools'' = None" "su_records s1 ''keycloak'' = Some (Stored (JObj [(''container_id'', JStr ''c'')]))"
    using brief_identity [of ?t] by (auto simp: demo_supervisor_def)
  obtain s2 e where s2: "start_services brief_machine brief_stack (sk_services brief_stack) s1 = (Inl e, s2)" "su_started s2 = [''tools'']"
    "Launched ''tools'' 9 \<in> set (su_log s2)" "su_children s2 = [(''tools'', 9)]"
    "su_records s2 ''tools'' = Some (Stored (JObj [(''pid'', JInt 9), (''start_time'', JStr ''5''), (''boot_id'', JStr ''b'')]))"
    "su_records s2 ''keycloak'' = Some (Stored (JObj [(''container_id'', JStr ''c'')]))"
    using brief_services [OF s1(4,3,2)] s1(5) by auto
  from brief_undo [OF s2(5,4,2,6), of e] obtain s3 where s3: "undo_start brief_machine brief_stack e s2 = (Inl e, s3)"
    "su_records s3 ''tools'' = None" "Launched ''tools'' 9 \<in> set (su_log s3)" using s2(3) by auto
  have "start_stack brief_machine brief_stack ?s = (Inl e, s3)"
    by (simp add: start_stack_def pre obind_def op_simps ocatch_def start_body_def s1(1) s2(1) s3(1))
  with s3 show ?thesis by blast
qed


end
