(* ===== verification/ToolsClient.thy ===== *)
theory ToolsClient
  imports ToolService
begin

text \<open>
  \<open>tools/client.py\<close>: the client of the tool service, which holds the credentials of the service account. The
  discovery of the token endpoint is that of \<open>tools/auth.py\<close>; the token endpoint and the MCP library are
  parameters, and what is sent to them is logged.
\<close>

section \<open>State and environment\<close>

text \<open>What leaves the process with a credential in it: a form, a call of a tool, the reading of a resource.\<close>

datatype sent_message =
    Posted string "(string \<times> string) list"
  | Called string string string jdict
  | Requested string string string

record client_state =
  cl_http :: verifier
  cl_sent :: "sent_message list"

text \<open>Contents of a resource: a text, or anything else.\<close>

datatype resource_content = Text_content string | Other_content

record gateway =
  gw_settings :: settings
  gw_oidc :: oidc
  gw_post :: "nat \<Rightarrow> string \<Rightarrow> (string \<times> string) list \<Rightarrow> json result"
  gw_connect :: "nat \<Rightarrow> string \<Rightarrow> string \<Rightarrow> string result"
  gw_call :: "nat \<Rightarrow> string \<Rightarrow> string \<Rightarrow> jdict \<Rightarrow> (bool \<times> json option) result"
  gw_read :: "nat \<Rightarrow> string \<Rightarrow> string \<Rightarrow> resource_content list result"
  gw_report :: "json \<Rightarrow> analysis_report result"
  gw_loads :: "string \<Rightarrow> json result"

type_synonym 'a client_op = "(client_state, 'a) op"

text \<open>\<open>ToolsClient.__init__\<close>: the validated addresses of the service and of the issuer.\<close>

definition client_addresses :: "(string \<Rightarrow> bool) \<Rightarrow> settings \<Rightarrow> (string \<times> string) result" where
  "client_addresses literal s =
     rbind (validate_service_url literal (cf_mcp_url s)) (\<lambda>resource.
     rbind (validate_service_url literal (cf_oidc_issuer s)) (\<lambda>issuer. Inr (resource, issuer)))"

text \<open>A message is sent at the next tick, and logged before its answer is known.\<close>

definition send_message :: "sent_message \<Rightarrow> (nat \<Rightarrow> 'a result) \<Rightarrow> 'a client_op" where
  "send_message m f = (\<lambda>s. let n = vf_tick (cl_http s) in
     (f n, s\<lparr>cl_http := (cl_http s)\<lparr>vf_tick := n + 1\<rparr>, cl_sent := cl_sent s @ [m]\<rparr>))"

section \<open>Tokens of the service account\<close>

definition token_form :: "gateway \<Rightarrow> string \<Rightarrow> (string \<times> string) list" where
  "token_form G scope =
     [(''grant_type'', ''client_credentials''), (''client_id'', cf_mcp_client_id (gw_settings G)),
      (''client_secret'', cf_mcp_client_secret (gw_settings G))]
     @ (if scope = [] then [] else [(''scope'', scope)]) @ [(''resource'', oi_resource (gw_oidc G))]"

text \<open>The token of an answer; \<open>get\<close> and \<open>lower\<close> only exist on dictionaries and texts.\<close>

definition token_of_payload :: "json \<Rightarrow> string result" where
  "token_of_payload payload = (case payload of
       JObj d \<Rightarrow> (case (case map_of d ''token_type'' of None \<Rightarrow> JStr [] | Some v \<Rightarrow> v) of
           JStr t \<Rightarrow> if lower t \<noteq> ''bearer'' then Inl (ValueError [])
             else rbind (dindex d ''access_token'') (\<lambda>v. case v of
                 JStr token \<Rightarrow> if token = [] then Inl (ValueError []) else Inr token
               | _ \<Rightarrow> Inl (ValueError []))
         | _ \<Rightarrow> Inl (AttributeError ''lower''))
     | _ \<Rightarrow> Inl (AttributeError ''get''))"

definition token_failure :: "py_error \<Rightarrow> bool" where
  "token_failure e = (case e of HTTPError _ \<Rightarrow> True | ValueError _ \<Rightarrow> True | KeyError _ \<Rightarrow> True | TypeError _ \<Rightarrow> True | _ \<Rightarrow> False)"

definition obtain_token :: "gateway \<Rightarrow> string \<Rightarrow> string client_op" where
  "obtain_token G scope =
     obind (ozoom cl_http (\<lambda>h s. s\<lparr>cl_http := h\<rparr>) (discover_oidc (gw_oidc G))) (\<lambda>metadata.
     obind (oread (\<lambda>_. rbind (dindex metadata ''token_endpoint'') (validate_json_url (oi_literal (gw_oidc G))))) (\<lambda>endpoint.
     obind (send_message (Posted endpoint (token_form G scope)) (\<lambda>n. gw_post G n endpoint (token_form G scope))) (\<lambda>payload.
     oread (\<lambda>_. token_of_payload payload))))"

definition service_token :: "gateway \<Rightarrow> string \<Rightarrow> string client_op" where
  "service_token G scope =
     obind (oguard (cf_mcp_client_secret (gw_settings G) \<noteq> [])
       (RuntimeError ''Set AIDLC_MCP_CLIENT_SECRET for the development service account'')) (\<lambda>_.
     ocatch (obtain_token G scope) (\<lambda>e. if token_failure e
       then Some (oraise (RuntimeError ''OIDC service-account token acquisition failed'')) else None))"

section \<open>Analyses and their results\<close>

text \<open>\<open>except Exception\<close>, which a cancellation passes.\<close>

definition any_exception :: "py_error \<Rightarrow> bool" where
  "any_exception e \<longleftrightarrow> e \<noteq> CancelledError"

definition request_dump :: "analysis_request \<Rightarrow> jdict" where
  "request_dump q = [(''artifact_id'', JStr (aq_artifact_id q)), (''content_sha256'', JStr (aq_content_sha256 q)),
     (''language'', JStr ''python''), (''ruleset'', JStr ''default''), (''timeout_seconds'', JInt (aq_timeout_seconds q))]"

text \<open>A session with the service, whose requests all carry the token.\<close>

definition connect_tools :: "gateway \<Rightarrow> string \<Rightarrow> string client_op" where
  "connect_tools G token = (let url = oi_resource (gw_oidc G) in
     send_message (Requested url token []) (\<lambda>n. gw_connect G n url token))"

definition call_analysis :: "gateway \<Rightarrow> string \<Rightarrow> analysis_request \<Rightarrow> analysis_report client_op" where
  "call_analysis G token q = (let url = oi_resource (gw_oidc G) in
     obind (connect_tools G token) (\<lambda>version.
     obind (oguard (version = ''2026-07-28'') (RuntimeError ''Unexpected MCP protocol version'')) (\<lambda>_.
     obind (send_message (Called url token ''analyze_code'' (request_dump q))
       (\<lambda>n. gw_call G n token ''analyze_code'' (request_dump q))) (\<lambda>(is_error, structured).
     case (is_error, structured) of
       (False, Some content) \<Rightarrow> oread (\<lambda>_. gw_report G content)
     | _ \<Rightarrow> oraise (RuntimeError ''MCP analysis was denied or failed'')))))"

definition client_analyze :: "gateway \<Rightarrow> analysis_request \<Rightarrow> analysis_report client_op" where
  "client_analyze G q =
     obind (service_token G ''analysis:run'') (\<lambda>token.
     ocatch (call_analysis G token q) (\<lambda>e. if any_exception e
       then Some (oraise (RuntimeError ''Authenticated MCP analysis failed; inspect the redacted tool audit'')) else None))"

definition read_resource :: "gateway \<Rightarrow> string \<Rightarrow> string \<Rightarrow> json client_op" where
  "read_resource G token analysis_id = (let url = oi_resource (gw_oidc G); uri = ''analysis://reports/'' @ analysis_id in
     obind (connect_tools G token) (\<lambda>_.
     obind (send_message (Requested url token uri) (\<lambda>n. gw_read G n token uri)) (\<lambda>contents.
     case contents of
       [] \<Rightarrow> oraise (IndexError ''list index out of range'')
     | Text_content t # _ \<Rightarrow> oread (\<lambda>_. gw_loads G t)
     | Other_content # _ \<Rightarrow> oraise (ValueError []))))"

definition client_read :: "gateway \<Rightarrow> string \<Rightarrow> json client_op" where
  "client_read G analysis_id =
     obind (oguard (REPORT_ID analysis_id) (ValueError ''Invalid analysis ID'')) (\<lambda>_.
     obind (service_token G ''analysis:read'') (\<lambda>token.
     ocatch (read_resource G token analysis_id) (\<lambda>e. if any_exception e
       then Some (oraise (RuntimeError ''Authenticated MCP result read failed'')) else None)))"

end
