(* ===== verification/ClientTrust.thy ===== *)
theory ClientTrust
  imports ToolsClient TokenTrust ToolAccess
begin

text \<open>
  The safety of the client of the tool service (\<open>tools/client.py\<close>): where its credentials go, and what its exceptions tell.
\<close>


text \<open>A token endpoint that a discovery document of the configured issuer named, and a token it granted.\<close>

definition token_endpoint :: "gateway \<Rightarrow> string \<Rightarrow> bool" where
  "token_endpoint G u \<longleftrightarrow> (\<exists>n d v. oi_get (gw_oidc G) n (discovery_url (gw_oidc G)) = Inr (JObj d)
     \<and> dget d ''issuer'' = JStr (oi_issuer (gw_oidc G)) \<and> dindex d ''token_endpoint'' = Inr v
     \<and> validate_json_url (oi_literal (gw_oidc G)) v = Inr u)"

definition granted_token :: "gateway \<Rightarrow> string \<Rightarrow> string \<Rightarrow> bool" where
  "granted_token G scope token \<longleftrightarrow> (\<exists>u n payload. token_endpoint G u \<and> gw_post G n u (token_form G scope) = Inr payload
     \<and> token_of_payload payload = Inr token)"

text \<open>Credentials go to such an endpoint, and its tokens to the tool service, each for the capability it was asked for.\<close>

fun proper_message :: "gateway \<Rightarrow> sent_message \<Rightarrow> bool" where
  "proper_message G (Posted u form) \<longleftrightarrow> token_endpoint G u \<and> (\<exists>scope \<in> {''analysis:run'', ''analysis:read''}. form = token_form G scope)"
| "proper_message G (Called u token tool arguments) \<longleftrightarrow>
     u = oi_resource (gw_oidc G) \<and> granted_token G ''analysis:run'' token \<and> tool = ''analyze_code''"
| "proper_message G (Requested u token uri) \<longleftrightarrow>
     u = oi_resource (gw_oidc G) \<and> (\<exists>scope \<in> {''analysis:run'', ''analysis:read''}. granted_token G scope token)"

definition discreet :: "gateway \<Rightarrow> client_state \<Rightarrow> bool" where
  "discreet G s \<longleftrightarrow> (\<forall>m \<in> set (cl_sent s). proper_message G m)"

inductive client_step :: "gateway \<Rightarrow> client_state \<Rightarrow> client_state \<Rightarrow> bool" for G where
  step_analyze: "client_analyze G q s = (r, s') \<Longrightarrow> client_step G s s'"
| step_read: "client_read G i s = (r, s') \<Longrightarrow> client_step G s s'"

inductive_cases client_stepE: "client_step G s s'"

lemma send_message_discreet:
  assumes "proper_message G m" and "\<And>n x. f n = Inr x \<Longrightarrow> triple (discreet G) (g x) Q (\<lambda>e s. discreet G s \<and> E e)"
    and "\<And>n e. f n = Inl e \<Longrightarrow> E e"
  shows "triple (discreet G) (obind (send_message m f) g) Q (\<lambda>e s. discreet G s \<and> E e)"
proof (rule tripleI)
  fix s r s'
  assume s: "discreet G s" "obind (send_message m f) g s = (r, s')"
  let ?n = "vf_tick (cl_http s)"
  let ?s = "s\<lparr>cl_http := (cl_http s)\<lparr>vf_tick := ?n + 1\<rparr>, cl_sent := cl_sent s @ [m]\<rparr>"
  have d: "discreet G ?s" using s(1) assms(1) by (auto simp: discreet_def)
  show "case r of Inl e \<Rightarrow> discreet G s' \<and> E e | Inr x \<Rightarrow> Q x s'"
  proof (cases "f ?n")
    case (Inl e)
    with s(2) d assms(3) show ?thesis by (auto simp: obind_def send_message_def Let_def)
  next
    case (Inr x)
    with s(2) have "g x ?s = (r, s')" by (simp add: obind_def send_message_def Let_def)
    with tripleD [OF assms(2) [OF Inr] d] show ?thesis by simp
  qed
qed

definition payload_error :: "py_error \<Rightarrow> bool" where
  "payload_error e \<longleftrightarrow> token_failure e \<or> e \<in> {AttributeError ''get'', AttributeError ''lower'', AttributeError ''decode''}"

lemma payload_errors [simp]: "payload_error (ValueError t)" "payload_error (KeyError t)" "payload_error (AttributeError ''get'')"
  "payload_error (AttributeError ''lower'')" "payload_error (AttributeError ''decode'')"
  by (simp_all add: payload_error_def token_failure_def)

lemma token_of_payload_error:
  assumes "token_of_payload p = Inl e" shows "payload_error e"
proof (cases p)
  case (JObj d)
  let ?v = "case map_of d ''token_type'' of None \<Rightarrow> JStr [] | Some v \<Rightarrow> v"
  show ?thesis
  proof (cases ?v)
    case (JStr t)
    show ?thesis
    proof (cases "map_of d ''access_token''")
      case None
      with assms JObj JStr show ?thesis by (auto simp: token_of_payload_def dindex_def simp del: payload_error_def split: if_split_asm)
    next
      case (Some w)
      with assms JObj JStr show ?thesis by (cases w) (auto simp: token_of_payload_def dindex_def split: if_split_asm)
    qed
  qed (use assms JObj in \<open>simp_all add: token_of_payload_def\<close>, auto)
qed (use assms in \<open>auto simp: token_of_payload_def\<close>)

lemma discover_discreet:
  assumes "\<And>n u e. oi_get (gw_oidc G) n u = Inl e \<Longrightarrow> token_failure e"
    and "\<And>n d. oi_get (gw_oidc G) n (discovery_url (gw_oidc G)) = Inr (JObj d) \<Longrightarrow> dget d ''issuer'' = JStr (oi_issuer (gw_oidc G))
      \<Longrightarrow> triple (discreet G) (g d) Q (\<lambda>e s. discreet G s \<and> payload_error e)"
  shows "triple (discreet G) (obind (ozoom cl_http (\<lambda>h s. s\<lparr>cl_http := h\<rparr>) (discover_oidc (gw_oidc G))) g) Q
    (\<lambda>e s. discreet G s \<and> payload_error e)"
proof (rule tripleI)
  fix s r s'
  assume s: "discreet G s" "obind (ozoom cl_http (\<lambda>h s. s\<lparr>cl_http := h\<rparr>) (discover_oidc (gw_oidc G))) g s = (r, s')"
  obtain y h where y: "discover_oidc (gw_oidc G) (cl_http s) = (y, h)" by fastforce
  have d: "discreet G (s\<lparr>cl_http := h\<rparr>)" using s(1) by (simp add: discreet_def)
  have mismatch: "payload_error (ValueError ''OIDC discovery issuer mismatch'')" by (simp add: payload_error_def token_failure_def)
  show "case r of Inl e \<Rightarrow> discreet G s' \<and> payload_error e | Inr x \<Rightarrow> Q x s'"
  proof (cases y)
    case (Inl e)
    have "payload_error e" using y Inl assms(1) mismatch
      by (auto simp: discover_oidc_def obind_def fetch_def op_simps payload_error_def split: sum.splits json.splits if_splits)
    with s(2) y Inl d show ?thesis by (auto simp: obind_def ozoom_def)
  next
    case (Inr m)
    then obtain n where "oi_get (gw_oidc G) n (discovery_url (gw_oidc G)) = Inr (JObj m)" "dget m ''issuer'' = JStr (oi_issuer (gw_oidc G))"
      using y by (auto simp: discover_oidc_def obind_def fetch_def op_simps discovery_url_def split: sum.splits json.splits if_splits)
    from tripleD [OF assms(2) [OF this] d] s(2) y Inr show ?thesis by (auto simp: obind_def ozoom_def)
  qed
qed

lemma obtain_token_discreet:
  assumes "\<And>n u e. oi_get (gw_oidc G) n u = Inl e \<Longrightarrow> token_failure e" and "\<And>n u f e. gw_post G n u f = Inl e \<Longrightarrow> token_failure e"
    and "scope \<in> {''analysis:run'', ''analysis:read''}"
  shows "triple (discreet G) (obtain_token G scope) (\<lambda>t s. discreet G s \<and> granted_token G scope t) (\<lambda>e s. discreet G s \<and> payload_error e)"
  unfolding obtain_token_def
proof (rule discover_discreet [OF assms(1)])
  fix n d
  assume d: "oi_get (gw_oidc G) n (discovery_url (gw_oidc G)) = Inr (JObj d)" "dget d ''issuer'' = JStr (oi_issuer (gw_oidc G))"
  show "triple (discreet G) (obind (oread (\<lambda>_. rbind (dindex d ''token_endpoint'') (validate_json_url (oi_literal (gw_oidc G))))) (\<lambda>endpoint.
     obind (send_message (Posted endpoint (token_form G scope)) (\<lambda>n. gw_post G n endpoint (token_form G scope))) (\<lambda>payload.
     oread (\<lambda>_. token_of_payload payload)))) (\<lambda>t s. discreet G s \<and> granted_token G scope t) (\<lambda>e s. discreet G s \<and> payload_error e)"
  proof (rule triple_read)
    fix s e
    assume "discreet G s" "rbind (dindex d ''token_endpoint'') (validate_json_url (oi_literal (gw_oidc G))) = Inl e"
    then show "discreet G s \<and> payload_error e"
      by (auto simp: rbind_eq_Inl dindex_def validate_json_url_def validate_service_url_def urlsplit_def payload_error_def token_failure_def
        split: option.splits json.splits if_splits prod.splits)
  next
    fix u
    have e: "token_endpoint G u" if "rbind (dindex d ''token_endpoint'') (validate_json_url (oi_literal (gw_oidc G))) = Inr u"
      using that d by (auto simp: token_endpoint_def rbind_eq_Inr)
    show "triple (\<lambda>s. discreet G s \<and> rbind (dindex d ''token_endpoint'') (validate_json_url (oi_literal (gw_oidc G))) = Inr u)
     (obind (send_message (Posted u (token_form G scope)) (\<lambda>n. gw_post G n u (token_form G scope))) (\<lambda>payload.
     oread (\<lambda>_. token_of_payload payload))) (\<lambda>t s. discreet G s \<and> granted_token G scope t) (\<lambda>e s. discreet G s \<and> payload_error e)"
    proof (cases "rbind (dindex d ''token_endpoint'') (validate_json_url (oi_literal (gw_oidc G))) = Inr u")
      case True
      have "triple (discreet G) (obind (send_message (Posted u (token_form G scope)) (\<lambda>n. gw_post G n u (token_form G scope))) (\<lambda>payload.
         oread (\<lambda>_. token_of_payload payload))) (\<lambda>t s. discreet G s \<and> granted_token G scope t) (\<lambda>e s. discreet G s \<and> payload_error e)"
      proof (rule send_message_discreet)
        show "proper_message G (Posted u (token_form G scope))" using e [OF True] assms(3) by auto
        show "triple (discreet G) (oread (\<lambda>_. token_of_payload payload)) (\<lambda>t s. discreet G s \<and> granted_token G scope t)
            (\<lambda>e s. discreet G s \<and> payload_error e)" if "gw_post G n u (token_form G scope) = Inr payload" for n payload
          using that e [OF True] token_of_payload_error [of payload]
          by (auto simp: triple_def op_simps granted_token_def split: sum.splits)
      qed (use assms(2) in \<open>auto simp: payload_error_def\<close>)
      then show ?thesis using True by simp
    qed (simp add: triple_def)
  qed
qed


text \<open>The exceptions that the client lets through: texts of its own, and how an odd answer of the issuer shows.\<close>

definition client_errors :: "py_error set" where
  "client_errors = {RuntimeError ''Set AIDLC_MCP_CLIENT_SECRET for the development service account'',
     RuntimeError ''OIDC service-account token acquisition failed'',
     RuntimeError ''Authenticated MCP analysis failed; inspect the redacted tool audit'',
     RuntimeError ''Authenticated MCP result read failed'', ValueError ''Invalid analysis ID'', CancelledError,
     AttributeError ''get'', AttributeError ''lower'', AttributeError ''decode''}"

definition documented_gateway :: "gateway \<Rightarrow> bool" where
  "documented_gateway G \<longleftrightarrow> (\<forall>n u e. oi_get (gw_oidc G) n u = Inl e \<longrightarrow> token_failure e) \<and> (\<forall>n u f e. gw_post G n u f = Inl e \<longrightarrow> token_failure e)"

lemma service_token_discreet:
  assumes "documented_gateway G" and "scope \<in> {''analysis:run'', ''analysis:read''}"
  shows "triple (discreet G) (service_token G scope) (\<lambda>t s. discreet G s \<and> granted_token G scope t)
    (\<lambda>e s. discreet G s \<and> e \<in> client_errors)"
  unfolding service_token_def
proof (rule triple_guard, simp add: client_errors_def, rule triple_catch)
  show "triple (discreet G) (obtain_token G scope) (\<lambda>t s. discreet G s \<and> granted_token G scope t) (\<lambda>e s. discreet G s \<and> payload_error e)"
    using assms obtain_token_discreet by (simp add: documented_gateway_def)
qed (auto simp: client_errors_def payload_error_def intro!: triple_basic split: if_split_asm)

lemma connect_discreet:
  assumes "\<exists>scope \<in> {''analysis:run'', ''analysis:read''}. granted_token G scope t"
    and "\<And>version. triple (discreet G) (g version) Q (\<lambda>_. discreet G)"
  shows "triple (discreet G) (obind (connect_tools G t) g) Q (\<lambda>_. discreet G)"
  unfolding connect_tools_def Let_def
  using send_message_discreet [of G _ "\<lambda>n. gw_connect G n (oi_resource (gw_oidc G)) t" g Q "\<lambda>_. True"] assms by simp

lemma call_analysis_discreet:
  assumes "granted_token G ''analysis:run'' t"
  shows "triple (discreet G) (call_analysis G t q) (\<lambda>x s. discreet G s \<and> (\<exists>n content.
      gw_call G n t ''analyze_code'' (request_dump q) = Inr (False, Some content) \<and> gw_report G content = Inr x)) (\<lambda>_. discreet G)"
  unfolding call_analysis_def Let_def
proof (rule connect_discreet)
  fix version
  let ?Q = "\<lambda>x s. discreet G s \<and> (\<exists>n content. gw_call G n t ''analyze_code'' (request_dump q) = Inr (False, Some content)
    \<and> gw_report G content = Inr x)"
  let ?g = "\<lambda>(is_error, structured). case (is_error, structured) of
       (False, Some content) \<Rightarrow> oread (\<lambda>_. gw_report G content)
     | _ \<Rightarrow> oraise (RuntimeError ''MCP analysis was denied or failed'')"
  have "triple (discreet G) (?g x) ?Q (\<lambda>e s. discreet G s \<and> True)"
    if "gw_call G n t ''analyze_code'' (request_dump q) = Inr x" for n x
    using that by (auto simp: triple_def op_simps split: sum.splits prod.splits bool.splits option.splits)
  then have "triple (discreet G) (obind (send_message (Called (oi_resource (gw_oidc G)) t ''analyze_code'' (request_dump q))
       (\<lambda>n. gw_call G n t ''analyze_code'' (request_dump q))) ?g) ?Q (\<lambda>e s. discreet G s \<and> True)"
    by (intro send_message_discreet) (use assms in auto)
  then show "triple (discreet G) (obind (oguard (version = ''2026-07-28'') (RuntimeError ''Unexpected MCP protocol version''))
      (\<lambda>_. obind (send_message (Called (oi_resource (gw_oidc G)) t ''analyze_code'' (request_dump q))
       (\<lambda>n. gw_call G n t ''analyze_code'' (request_dump q))) ?g)) ?Q (\<lambda>_. discreet G)"
    by (intro triple_guard) simp_all
qed (use assms in blast)

lemma read_resource_discreet:
  assumes "granted_token G ''analysis:read'' t"
  shows "triple (discreet G) (read_resource G t i) (\<lambda>_. discreet G) (\<lambda>_. discreet G)"
  unfolding read_resource_def Let_def
proof (rule connect_discreet)
  let ?g = "\<lambda>contents. case contents of [] \<Rightarrow> oraise (IndexError ''list index out of range'')
     | Text_content t # _ \<Rightarrow> oread (\<lambda>_. gw_loads G t) | Other_content # _ \<Rightarrow> oraise (ValueError [])"
  let ?uri = "''analysis://reports/'' @ i"
  have "triple (discreet G) (?g x) (\<lambda>_. discreet G) (\<lambda>e s. discreet G s \<and> True)" for x
    by (auto simp: triple_def op_simps split: sum.splits list.splits resource_content.splits)
  then have "triple (discreet G) (obind (send_message (Requested (oi_resource (gw_oidc G)) t ?uri) (\<lambda>n. gw_read G n t ?uri)) ?g)
      (\<lambda>_. discreet G) (\<lambda>e s. discreet G s \<and> True)"
    by (intro send_message_discreet) (use assms in auto)
  then show "triple (discreet G) (obind (send_message (Requested (oi_resource (gw_oidc G)) t ?uri) (\<lambda>n. gw_read G n t ?uri)) ?g)
      (\<lambda>_. discreet G) (\<lambda>_. discreet G)" by simp
qed (use assms in blast)

lemma client_analyze_discreet:
  assumes "documented_gateway G"
  shows "triple (discreet G) (client_analyze G q) (\<lambda>x s. discreet G s \<and> (\<exists>t n content. granted_token G ''analysis:run'' t
      \<and> gw_call G n t ''analyze_code'' (request_dump q) = Inr (False, Some content) \<and> gw_report G content = Inr x))
    (\<lambda>e s. discreet G s \<and> e \<in> client_errors)"
  unfolding client_analyze_def
proof (rule triple_bind [OF service_token_discreet [OF assms]])
  fix t
  let ?Q = "\<lambda>x s. discreet G s \<and> (\<exists>t n content. granted_token G ''analysis:run'' t
      \<and> gw_call G n t ''analyze_code'' (request_dump q) = Inr (False, Some content) \<and> gw_report G content = Inr x)"
  have "triple (discreet G) (ocatch (call_analysis G t q) (\<lambda>e. if any_exception e
       then Some (oraise (RuntimeError ''Authenticated MCP analysis failed; inspect the redacted tool audit'')) else None)) ?Q
      (\<lambda>e s. discreet G s \<and> e \<in> client_errors)" if t: "granted_token G ''analysis:run'' t"
  proof (rule triple_catch)
    show "triple (discreet G) (call_analysis G t q) ?Q (\<lambda>_. discreet G)"
      by (rule triple_weaken [OF call_analysis_discreet [OF t]]) (use t in blast)+
  qed (auto simp: client_errors_def any_exception_def intro!: triple_basic split: if_split_asm)
  then show "triple (\<lambda>s. discreet G s \<and> granted_token G ''analysis:run'' t) (ocatch (call_analysis G t q) (\<lambda>e. if any_exception e
       then Some (oraise (RuntimeError ''Authenticated MCP analysis failed; inspect the redacted tool audit'')) else None)) ?Q
      (\<lambda>e s. discreet G s \<and> e \<in> client_errors)" by (auto simp: triple_def)
qed simp

lemma client_read_discreet:
  assumes "documented_gateway G"
  shows "triple (discreet G) (client_read G i) (\<lambda>_. discreet G) (\<lambda>e s. discreet G s \<and> e \<in> client_errors)"
  unfolding client_read_def
proof (rule triple_guard, simp add: client_errors_def, rule triple_bind [OF service_token_discreet [OF assms]], simp)
  fix t
  have "triple (discreet G) (ocatch (read_resource G t i) (\<lambda>e. if any_exception e
       then Some (oraise (RuntimeError ''Authenticated MCP result read failed'')) else None)) (\<lambda>_. discreet G)
      (\<lambda>e s. discreet G s \<and> e \<in> client_errors)" if t: "granted_token G ''analysis:read'' t"
    by (rule triple_catch [OF read_resource_discreet [OF t]])
      (auto simp: client_errors_def any_exception_def intro!: triple_basic split: if_split_asm)
  then show "triple (\<lambda>s. discreet G s \<and> granted_token G ''analysis:read'' t) (ocatch (read_resource G t i) (\<lambda>e. if any_exception e
       then Some (oraise (RuntimeError ''Authenticated MCP result read failed'')) else None)) (\<lambda>_. discreet G)
      (\<lambda>e s. discreet G s \<and> e \<in> client_errors)" by (auto simp: triple_def)
qed


text \<open>A service account that obtains a token and an analysis.\<close>

definition demo_gateway_answer :: analysis_report where
  "demo_gateway_answer = analyzer_result.extend demo_analysis (analysis_report.fields [] [] [] [] [] 0 0)"

definition demo_gateway :: gateway where
  "demo_gateway = \<lparr>gw_settings = demo_settings\<lparr>cf_mcp_client_id := ''c'', cf_mcp_client_secret := ''s''\<rparr>,
     gw_oidc = demo_oidc\<lparr>oi_get := (\<lambda>_ _. Inr (JObj [(''issuer'', JStr ''https://i''), (''token_endpoint'', JStr ''https://i/keys'')]))\<rparr>,
     gw_post = (\<lambda>_ _ _. Inr (JObj [(''token_type'', JStr ''bearer''), (''access_token'', JStr ''t'')])),
     gw_connect = (\<lambda>_ _ _. Inr ''2026-07-28''), gw_call = (\<lambda>_ _ _ _. Inr (False, Some JNull)), gw_read = (\<lambda>_ _ _. Inr []),
     gw_report = (\<lambda>_. Inr demo_gateway_answer), gw_loads = (\<lambda>_. Inr JNull)\<rparr>"

definition demo_client :: client_state where
  "demo_client = \<lparr>cl_http = demo_verifier, cl_sent = []\<rparr>"

lemma demo_gateway_call: "\<exists>s. client_analyze demo_gateway demo_analysis_request demo_client = (Inr demo_gateway_answer, s)
    \<and> Posted ''https://i/keys'' (token_form demo_gateway ''analysis:run'') \<in> set (cl_sent s)"
proof -
  have fields: "gw_oidc demo_gateway = demo_oidc\<lparr>oi_get := (\<lambda>_ _. Inr (JObj [(''issuer'', JStr ''https://i''), (''token_endpoint'', JStr ''https://i/keys'')]))\<rparr>"
    "cf_mcp_client_secret (gw_settings demo_gateway) = ''s''" "gw_connect demo_gateway n u t = Inr ''2026-07-28''"
    "gw_post demo_gateway n u f = Inr (JObj [(''token_type'', JStr ''bearer''), (''access_token'', JStr ''t'')])"
    "gw_call demo_gateway n t tool a = Inr (False, Some JNull)" "gw_report demo_gateway j = Inr demo_gateway_answer" for n u f t tool a j
    by (simp_all add: demo_gateway_def)
  have "lower ''bearer'' = ''bearer''" by code_simp
  then have token: "token_of_payload (JObj [(''token_type'', JStr ''bearer''), (''access_token'', JStr ''t'')]) = Inr ''t''"
    by (simp add: token_of_payload_def dindex_def)
  have oidc: "oi_issuer demo_oidc = ''https://i''" "oi_literal demo_oidc = (\<lambda>_. False)" by (simp_all add: demo_oidc_def)
  have obtained: "\<exists>s. service_token demo_gateway ''analysis:run'' demo_client = (Inr ''t'', s)
      \<and> Posted ''https://i/keys'' (token_form demo_gateway ''analysis:run'') \<in> set (cl_sent s)"
    using demo_urls(2) token by (simp add: service_token_def obtain_token_def obind_def op_simps fields ocatch_def ozoom_def discover_oidc_def
        fetch_def send_message_def dget_def dindex_def validate_json_url_def oidc Let_def)
  then obtain s where s: "service_token demo_gateway ''analysis:run'' demo_client = (Inr ''t'', s)"
    "Posted ''https://i/keys'' (token_form demo_gateway ''analysis:run'') \<in> set (cl_sent s)" by blast
  then show ?thesis
    by (simp add: client_analyze_def obind_def ocatch_def call_analysis_def connect_tools_def send_message_def Let_def op_simps fields)
qed


end
