(* ===== verification/Worker.thy ===== *)
theory Worker
  imports SourceBundle Effects Config Sandbox
begin

text \<open>
  \<open>sandbox/worker.py\<close>: the trusted entry point inside the container. It receives one payload, writes its files into
  the workspace and runs a fixed command or the tests of the payload. The file system of the workspace is part of the
  state; the tools of the image are an environment, and the log holds what was run and on which files.
\<close>

section \<open>The workspace\<close>

text \<open>Paths are relative to \<open>/workspace\<close>.\<close>

datatype node = Folder | Text string | Link string

type_synonym tree = "string list \<rightharpoonup> node"

datatype worker_action =
    Ran "(string \<times> string) list" "string list" string tree
  | Compiled tree
  | Tested tree

record box =
  bx_tick :: nat
  bx_tree :: tree
  bx_log :: "worker_action list"

text \<open>Code of the payload that runs in the worker's own process may end that process.\<close>

datatype 'a in_process = Returned 'a | Process_ended int

text \<open>
  What the container provides: failures of writing, the trusted files, and the tools, which may change the workspace.
  The last fields are what the probe looks at.
\<close>

record toolbox =
  tb_loads :: "string \<Rightarrow> json result"
  tb_write :: "nat \<Rightarrow> py_error option"
  tb_trusted :: "nat \<Rightarrow> string \<Rightarrow> string result"
  tb_run :: "nat \<Rightarrow> string list \<Rightarrow> string \<Rightarrow> tree \<Rightarrow> (int \<times> tree) result"
  tb_compile :: "nat \<Rightarrow> tree \<Rightarrow> (bool \<times> tree) result"
  tb_discover :: "nat \<Rightarrow> tree \<Rightarrow> (nat \<times> tree) in_process result"
  tb_suite :: "nat \<Rightarrow> tree \<Rightarrow> (bool \<times> tree) in_process result"
  tb_uid :: int
  tb_status :: "string result"
  tb_environ :: "string list"
  tb_exists :: "string \<Rightarrow> bool"
  tb_touch :: "string \<Rightarrow> py_error option"
  tb_mounts :: "string result"
  tb_statvfs :: "string \<Rightarrow> (int \<times> int) result"
  tb_scratch :: "string \<Rightarrow> py_error option"
  tb_interfaces :: "string list result"
  tb_connect :: "int result"

type_synonym 'a work = "(box, 'a) op"

definition use :: "(nat \<Rightarrow> 'a result) \<Rightarrow> 'a work" where
  "use f = (\<lambda>s. (f (bx_tick s), s\<lparr>bx_tick := bx_tick s + 1\<rparr>))"

definition act :: "worker_action \<Rightarrow> unit work" where
  "act a = ochange (\<lambda>s. s\<lparr>bx_log := bx_log s @ [a]\<rparr>)"

text \<open>A tool that works on the files of the workspace.\<close>

definition with_tree :: "(nat \<Rightarrow> tree \<Rightarrow> ('a \<times> tree) result) \<Rightarrow> 'a work" where
  "with_tree f = (\<lambda>s. case f (bx_tick s) (bx_tree s) of
       Inl e \<Rightarrow> (Inl e, s\<lparr>bx_tick := bx_tick s + 1\<rparr>)
     | Inr (x, t) \<Rightarrow> (Inr x, s\<lparr>bx_tick := bx_tick s + 1, bx_tree := t\<rparr>))"

definition run_in_process :: "(nat \<Rightarrow> tree \<Rightarrow> ('a \<times> tree) in_process result) \<Rightarrow> 'a in_process work" where
  "run_in_process f = with_tree (\<lambda>n t. rbind (f n t) (\<lambda>r. case r of
       Process_ended c \<Rightarrow> Inr (Process_ended c, t) | Returned (x, t') \<Rightarrow> Inr (Returned x, t')))"

section \<open>Placing the payload\<close>

text \<open>\<open>mkdir(parents=True, exist_ok=True)\<close>, one directory after the other, outermost first.\<close>

fun make_dirs :: "string list \<Rightarrow> string list \<Rightarrow> unit work" where
  "make_dirs outer [] = oreturn ()"
| "make_dirs outer (d # ds) =
     obind (oread (\<lambda>s. Inr (bx_tree s (outer @ [d])))) (\<lambda>node.
     obind (case node of
         None \<Rightarrow> ochange (\<lambda>s. s\<lparr>bx_tree := (bx_tree s)(outer @ [d] \<mapsto> Folder)\<rparr>)
       | Some Folder \<Rightarrow> oreturn ()
       | Some _ \<Rightarrow> oraise (OSError ''File exists'')) (\<lambda>_.
     make_dirs (outer @ [d]) ds))"

definition write_text :: "toolbox \<Rightarrow> string list \<Rightarrow> string \<Rightarrow> unit work" where
  "write_text T p content =
     obind (oread (\<lambda>s. guard (bx_tree s p \<noteq> Some Folder) (OSError ''Is a directory''))) (\<lambda>_.
     obind (use (\<lambda>n. case tb_write T n of None \<Rightarrow> Inr () | Some e \<Rightarrow> Inl e)) (\<lambda>_.
     ochange (\<lambda>s. s\<lparr>bx_tree := (bx_tree s)(p \<mapsto> Text content)\<rparr>)))"

text \<open>The elements over which the payload's files are iterated, and \<open>len\<close> of them.\<close>

definition elements_of :: "json \<Rightarrow> json list result" where
  "elements_of v = (case v of
       JArr xs \<Rightarrow> Inr xs
     | JStr t \<Rightarrow> Inr (map (\<lambda>c. JStr [c]) t)
     | JObj d \<Rightarrow> Inr (map (JStr \<circ> fst) d)
     | _ \<Rightarrow> Inl (TypeError ''object has no len()''))"

text \<open>\<open>value[key]\<close> where a text is expected.\<close>

definition text_item :: "json \<Rightarrow> string \<Rightarrow> py_error \<Rightarrow> string result" where
  "text_item v k other = (case v of
       JObj d \<Rightarrow> rbind (dindex d k) (\<lambda>x. case x of JStr t \<Rightarrow> Inr t | _ \<Rightarrow> Inl other)
     | _ \<Rightarrow> Inl (TypeError ''indices must be integers''))"

definition content_size :: "json \<Rightarrow> nat result" where
  "content_size f = rbind (text_item f ''content'' (AttributeError ''encode'')) (\<lambda>c. Inr (utf8_length c))"

definition payload_files :: "toolbox \<Rightarrow> string \<Rightarrow> json list result" where
  "payload_files T raw = rbind (tb_loads T raw) (\<lambda>payload. case payload of
       JObj d \<Rightarrow> rbind (dindex d ''files'') elements_of
     | _ \<Rightarrow> Inl (TypeError ''indices must be integers''))"

text \<open>\<open>False\<close> is the exit code 2 of a rejected payload.\<close>

fun place_files :: "toolbox \<Rightarrow> json list \<Rightarrow> string list \<Rightarrow> bool work" where
  "place_files T [] seen = oreturn True"
| "place_files T (f # fs) seen =
     obind (oread (\<lambda>_. text_item f ''path'' (TypeError ''argument should be a str''))) (\<lambda>name.
     if bad_path WORKER_SUFFIXES name \<or> name \<in> set seen then oreturn False
     else
       let parts = split_on (CHR ''/'') name in
       obind (make_dirs [] (butlast parts)) (\<lambda>_.
       obind (oread (\<lambda>_. text_item f ''content'' (TypeError ''data must be str''))) (\<lambda>content.
       obind (write_text T parts content) (\<lambda>_.
       place_files T fs (name # seen)))))"

definition place_payload :: "toolbox \<Rightarrow> string \<Rightarrow> bool work" where
  "place_payload T raw =
     obind (oread (\<lambda>_. payload_files T raw)) (\<lambda>files.
     if \<not> (1 \<le> length files \<and> length files \<le> 50) then oreturn False
     else obind (oread (\<lambda>_. traverse content_size files)) (\<lambda>sizes.
       if 262144 < sum_list sizes then oreturn False else place_files T files []))"

section \<open>The jobs\<close>

definition WORKER_ENV :: "(string \<times> string) list" where
  "WORKER_ENV = [(''LANG'', ''C.UTF-8''), (''RAYON_NUM_THREADS'', ''1''), (''PATH'', ''/usr/local/bin:/usr/bin:/bin''), (''HOME'', ''/tmp'')]"

definition RUFF :: "string list" where
  "RUFF = [''/usr/local/bin/ruff'', ''check'', ''--isolated'', ''--no-cache'', ''--output-format=json'', ''--select=E4,E7,E9,F'',
     ''--target-version=py314'', ''.'']"

definition TYPE_CHECK :: "string list" where
  "TYPE_CHECK = [''node'', ''/opt/aidlc/react/node_modules/typescript/bin/tsc'', ''--noEmit'', ''-p'', ''/workspace/ui/tsconfig.json'']"

definition UI_BUILD :: "string list" where
  "UI_BUILD = [''node'', ''/opt/aidlc/react/node_modules/vite/bin/vite.js'', ''build'', ''/workspace/ui'', ''--config'',
     ''/opt/aidlc/react/vite.config.mjs'', ''--configLoader'', ''native'']"

definition run_tool :: "toolbox \<Rightarrow> string list \<Rightarrow> string \<Rightarrow> int work" where
  "run_tool T command cwd = obind (oread (\<lambda>s. Inr (bx_tree s))) (\<lambda>t.
     obind (act (Ran WORKER_ENV command cwd t)) (\<lambda>_. with_tree (\<lambda>n. tb_run T n command cwd)))"

definition REACT_FILES :: "string list" where
  "REACT_FILES = [''package.json'', ''package-lock.json'', ''tsconfig.json'']"

text \<open>The trusted files replace those of the payload.\<close>

fun copy_trusted :: "toolbox \<Rightarrow> string list \<Rightarrow> unit work" where
  "copy_trusted T [] = oreturn ()"
| "copy_trusted T (name # names) =
     obind (use (\<lambda>n. tb_trusted T n name)) (\<lambda>content.
     obind (write_text T [''ui'', name] content) (\<lambda>_. copy_trusted T names))"

definition link_modules :: "unit work" where
  "link_modules = obind (oread (\<lambda>s. guard (bx_tree s [''ui'', ''node_modules''] = None) (OSError ''File exists''))) (\<lambda>_.
     ochange (\<lambda>s. s\<lparr>bx_tree := (bx_tree s)([''ui'', ''node_modules''] \<mapsto> Link ''/opt/aidlc/react/node_modules'')\<rparr>))"

definition is_text :: "tree \<Rightarrow> string list \<Rightarrow> bool" where
  "is_text t p \<longleftrightarrow> (case t p of Some (Text _) \<Rightarrow> True | _ \<Rightarrow> False)"

definition build_react :: "toolbox \<Rightarrow> int work" where
  "build_react T = obind (oread (\<lambda>s. Inr (bx_tree s))) (\<lambda>t.
     if t [''ui''] = None then oreturn 0
     else if \<not> is_text t [''ui'', ''index.html''] \<or> \<not> is_text t [''ui'', ''src'', ''main.tsx''] then oreturn 2
     else
       obind (copy_trusted T REACT_FILES) (\<lambda>_.
       obind link_modules (\<lambda>_.
       obind (run_tool T TYPE_CHECK ''/workspace/ui'') (\<lambda>code.
       if code \<noteq> 0 then oreturn code else run_tool T UI_BUILD ''/workspace/ui''))))"

definition build_job :: "toolbox \<Rightarrow> int work" where
  "build_job T = obind (oread (\<lambda>s. Inr (bx_tree s))) (\<lambda>t.
     obind (act (Compiled t)) (\<lambda>_.
     obind (with_tree (tb_compile T)) (\<lambda>compiled.
     if \<not> compiled then oreturn 1 else build_react T)))"

definition run_suite :: "toolbox \<Rightarrow> int work" where
  "run_suite T = obind (run_in_process (tb_discover T)) (\<lambda>found. case found of
       Process_ended c \<Rightarrow> oreturn c
     | Returned cases \<Rightarrow>
         if cases = 0 then oreturn 2
         else obind (run_in_process (tb_suite T)) (\<lambda>outcome. oreturn (case outcome of
             Process_ended c \<Rightarrow> c | Returned passed \<Rightarrow> if passed then 0 else 1)))"

definition test_job :: "toolbox \<Rightarrow> int work" where
  "test_job T = obind (build_react T) (\<lambda>code.
     if code \<noteq> 0 then oreturn 1
     else obind (oread (\<lambda>s. Inr (bx_tree s))) (\<lambda>t. obind (act (Tested t)) (\<lambda>_. run_suite T)))"

section \<open>The probe\<close>

definition ALLOWED_ENVIRON :: "string list" where
  "ALLOWED_ENVIRON = [''PATH'', ''LANG'', ''RAYON_NUM_THREADS'', ''PYTHONDONTWRITEBYTECODE'', ''HOSTNAME'', ''HOME'', ''LC_CTYPE'',
     ''PYTHON_VERSION'', ''PYTHON_SHA256'']"

definition nth_word :: "string list \<Rightarrow> nat \<Rightarrow> string result" where
  "nth_word ws n = (if n < length ws then Inr (ws ! n) else Inl (IndexError ''list index out of range''))"

text \<open>Whether some line of the mount table mounts the root read-only; later lines are not looked at.\<close>

fun root_read_only :: "string list \<Rightarrow> bool result" where
  "root_read_only [] = Inr False"
| "root_read_only (l # ls) = (let ws = words_from [] l in
     rbind (nth_word ws 1) (\<lambda>target.
     rbind (if target = ''/'' then rbind (nth_word ws 3) (\<lambda>options. Inr (''ro'' \<in> set (split_on (CHR '','') options))) else Inr False) (\<lambda>found.
     if found then Inr True else root_read_only ls)))"

definition bounded_mount :: "toolbox \<Rightarrow> string \<Rightarrow> bool result" where
  "bounded_mount T target = rbind (tb_statvfs T target) (\<lambda>(blocks, size).
     rbind (case tb_scratch T target of None \<Rightarrow> Inr () | Some e \<Rightarrow> Inl e) (\<lambda>_. Inr (blocks * size \<le> 16 * 1024 ^ 2)))"

definition probe_results :: "toolbox \<Rightarrow> (string \<times> bool) list result" where
  "probe_results T =
     rbind (tb_status T) (\<lambda>status.
     rbind (case tb_touch T ''/opt/aidlc/probe'' of None \<Rightarrow> Inr False | Some e \<Rightarrow> if os_error e then Inr True else Inl e) (\<lambda>read_only.
     rbind (tb_mounts T) (\<lambda>mounts.
     rbind (root_read_only (splitlines mounts)) (\<lambda>root_mount.
     rbind (bounded_mount T ''/workspace'') (\<lambda>workspace.
     rbind (bounded_mount T ''/tmp'') (\<lambda>tmp.
     rbind (tb_interfaces T) (\<lambda>interfaces.
     rbind (tb_connect T) (\<lambda>connection. Inr
       [(''non_root'', tb_uid T = 65532),
        (''no_capabilities'', contains_text (''CapEff:'' @ [CHR 0x09] @ ''0000000000000000'') status),
        (''no_new_privileges'', contains_text (''NoNewPrivs:'' @ [CHR 0x09] @ ''1'') status),
        (''no_credentials'', set (tb_environ T) \<subseteq> set ALLOWED_ENVIRON),
        (''no_host_sockets'', \<not> tb_exists T ''/var/run/docker.sock''),
        (''no_host_home'', \<not> tb_exists T ''/root/.ssh'' \<and> \<not> tb_exists T ''/root/.aws''),
        (''root_read_only'', read_only),
        (''root_mount_read_only'', root_mount),
        (''bounded_tmpfs:/workspace'', workspace),
        (''bounded_tmpfs:/tmp'', tmp),
        (''network_interfaces'', set interfaces = {''lo''}),
        (''network_denied'', connection \<noteq> 0)]))))))))"

definition probe :: "toolbox \<Rightarrow> ((string \<times> bool) list \<times> int) result" where
  "probe T = rbind (probe_results T) (\<lambda>checks. Inr (checks, if list_all snd checks then 0 else 1))"

section \<open>The entry point\<close>

text \<open>The first argument after the program's name, if it is the only one.\<close>

definition mode_of :: "string list \<Rightarrow> string" where
  "mode_of argv = (case argv of [_, mode] \<Rightarrow> mode | _ \<Rightarrow> [])"

definition worker_job :: "toolbox \<Rightarrow> string \<Rightarrow> string \<Rightarrow> int work" where
  "worker_job T mode raw =
     (if 1048576 < length raw then oreturn 2
      else obind (place_payload T raw) (\<lambda>placed.
        if \<not> placed then oreturn 2
        else if mode = ''analyze'' then run_tool T RUFF ''/workspace''
        else if mode = ''build'' then build_job T else test_job T))"

definition worker_main :: "toolbox \<Rightarrow> string list \<Rightarrow> string \<Rightarrow> int work" where
  "worker_main T argv raw = (let mode = mode_of argv in
     if mode = ''probe'' then oread (\<lambda>_. rbind (probe T) (\<lambda>(_, code). Inr code))
     else if mode \<notin> {''analyze'', ''build'', ''test''} then oreturn 2
     else worker_job T mode raw)"

text \<open>\<open>raise SystemExit(main())\<close>: an exception that is not handled ends the process with 1.\<close>

definition exit_status :: "int result \<Rightarrow> int" where
  "exit_status r = (case r of Inl _ \<Rightarrow> 1 | Inr code \<Rightarrow> code)"

end
