(* ===== verification/WorkerTrust.thy ===== *)
theory WorkerTrust
  imports Worker Qualification Confinement
begin

text \<open>
  What a success of the trusted worker stands for, what it can be made to run, and that the host reads from its probe what the
  probe found.
\<close>


definition empty_box :: box where
  "empty_box = \<lparr>bx_tick = 0, bx_tree = Map.empty, bx_log = []\<rparr>"

section \<open>What was received\<close>

definition payload_source :: "json \<Rightarrow> source_file result" where
  "payload_source f = rbind (text_item f ''path'' (TypeError ''argument should be a str'')) (\<lambda>p.
     rbind (text_item f ''content'' (TypeError ''data must be str'')) (\<lambda>c. Inr \<lparr>sf_path = p, sf_content = c\<rparr>))"

definition written_as :: "source_file \<Rightarrow> string \<times> string" where
  "written_as f = (sf_path f, sf_content f)"

definition received :: "toolbox \<Rightarrow> string \<Rightarrow> source_file list \<Rightarrow> bool" where
  "received T raw gs \<longleftrightarrow> length raw \<le> 1048576
     \<and> (\<exists>files. payload_files T raw = Inr files \<and> traverse payload_source files = Inr gs)
     \<and> worker_accepts gs = Inr (map written_as gs)"

text \<open>The workspace holds the given files, unchanged and nothing else, except for the directories around them.\<close>

definition holds_only :: "source_file list \<Rightarrow> tree \<Rightarrow> bool" where
  "holds_only gs t \<longleftrightarrow> (\<forall>p c. t p = Some (Text c) \<longleftrightarrow> (\<exists>f \<in> set gs. split_on (CHR ''/'') (sf_path f) = p \<and> sf_content f = c))
     \<and> (\<forall>p l. t p \<noteq> Some (Link l))"

lemma holds_only_empty: "holds_only [] Map.empty"
  by (simp add: holds_only_def)

lemma make_dirs_holds:
  "make_dirs outer ds s = (r, s') \<Longrightarrow> holds_only gs (bx_tree s) \<Longrightarrow> holds_only gs (bx_tree s') \<and> bx_log s' = bx_log s"
proof (induction outer ds arbitrary: s rule: make_dirs.induct)
  case (1 outer)
  then show ?case by (simp add: oreturn_def)
next
  case (2 outer d ds)
  show ?case
  proof (cases "bx_tree s (outer @ [d])")
    case None
    let ?s = "s\<lparr>bx_tree := (bx_tree s)(outer @ [d] \<mapsto> Folder)\<rparr>"
    have "make_dirs (outer @ [d]) ds ?s = (r, s')" using "2.prems"(1) None by (simp add: obind_def oread_def ochange_def)
    moreover have "holds_only gs (bx_tree ?s)" using "2.prems"(2) None unfolding holds_only_def by (auto split: if_splits) (metis option.distinct(1))
    ultimately show ?thesis using "2.IH" by fastforce
  next
    case (Some node)
    with 2 show ?thesis by (cases node) (auto simp: obind_def oread_def oreturn_def oraise_def)
  qed
qed

lemma write_text_holds:
  assumes "write_text T p c s = (r, s')"
  shows "bx_log s' = bx_log s \<and> (case r of Inl e \<Rightarrow> bx_tree s' = bx_tree s
    | Inr _ \<Rightarrow> bx_tree s p \<noteq> Some Folder \<and> bx_tree s' = (bx_tree s)(p \<mapsto> Text c))"
  using assms by (auto simp: write_text_def obind_def oread_def use_def ochange_def guard_def split: if_splits option.splits)

lemma text_item_content: "text_item f ''content'' e = Inr c \<Longrightarrow> text_item f ''content'' e' = Inr c"
  by (auto simp: text_item_def rbind_eq_Inr split: json.splits)

text \<open>Placing succeeds only with the files the payload's check accepts; then they are what the workspace holds.\<close>

lemma place_files_holds:
  "place_files T fs seen s = (Inr True, s') \<Longrightarrow> holds_only past (bx_tree s) \<Longrightarrow> set seen = sf_path ` set past \<Longrightarrow>
     \<exists>gs. traverse payload_source fs = Inr gs \<and> holds_only (past @ gs) (bx_tree s')
       \<and> (\<forall>w. worker_files gs seen w = Inr (w @ map written_as gs))"
proof (induction T fs seen arbitrary: s past rule: place_files.induct)
  case (1 T seen)
  then show ?case by (simp add: oreturn_def)
next
  case (2 T f fs seen)
  from "2.prems"(1) obtain name where name: "text_item f ''path'' (TypeError ''argument should be a str'') = Inr name"
    by (auto simp: obind_Inr oread_def)
  let ?parts = "split_on (CHR ''/'') name"
  from "2.prems"(1) name have ok: "\<not> bad_path WORKER_SUFFIXES name" "name \<notin> set seen"
    by (auto simp: obind_Inr oread_def oreturn_def split: if_splits)
  from "2.prems"(1) name ok obtain s1 content s2 where
    dirs: "make_dirs [] (butlast ?parts) s = (Inr (), s1)"
    and content: "text_item f ''content'' (TypeError ''data must be str'') = Inr content"
    and wr: "write_text T ?parts content s1 = (Inr (), s2)"
    and rest: "place_files T fs (name # seen) s2 = (Inr True, s')"
    by (auto simp: obind_Inr oread_def Let_def)
  let ?g = "\<lparr>sf_path = name, sf_content = content\<rparr>"
  have h1: "holds_only past (bx_tree s1)" using make_dirs_holds [OF dirs "2.prems"(2)] by simp
  have fresh: "split_on (CHR ''/'') (sf_path g) \<noteq> ?parts" if "g \<in> set past" for g
    using split_on_inj that ok(2) "2.prems"(3) by (metis image_eqI)
  from write_text_holds [OF wr] have "bx_tree s2 = (bx_tree s1)(?parts \<mapsto> Text content)" by simp
  then have "holds_only (past @ [?g]) (bx_tree s2)" using h1 fresh unfolding holds_only_def by auto
  moreover have "set (name # seen) = sf_path ` set (past @ [?g])" using "2.prems"(3) by auto
  ultimately obtain gs where gs: "traverse payload_source fs = Inr gs" "holds_only ((past @ [?g]) @ gs) (bx_tree s')"
    "\<And>w. worker_files gs (name # seen) w = Inr (w @ map written_as gs)"
    using "2.IH" [OF _ refl rest, of "past @ [?g]"] ok by blast
  have "payload_source f = Inr ?g" using name content by (simp add: payload_source_def)
  with gs ok show ?case by (intro exI [of _ "?g # gs"]) (auto simp: written_as_def)
qed


section \<open>What was run\<close>

named_theorems silent_rules "operations that run nothing"

definition silent :: "'a work \<Rightarrow> bool" where
  "silent m \<longleftrightarrow> (\<forall>s r s'. m s = (r, s') \<longrightarrow> bx_log s' = bx_log s)"

lemma silentD: "silent m \<Longrightarrow> m s = (r, s') \<Longrightarrow> bx_log s' = bx_log s"
  by (auto simp: silent_def)

lemma silent_basic [silent_rules]: "silent (oreturn x)" "silent (oraise e)" "silent (oread f)" "silent (use g)" "silent (with_tree h)"
  "(\<And>s. bx_log (c s) = bx_log s) \<Longrightarrow> silent (ochange c)"
  by (auto simp: silent_def op_simps use_def with_tree_def split: sum.splits prod.splits)

lemma silent_bind [silent_rules]:
  assumes "silent m" and "\<And>x. silent (f x)"
  shows "silent (obind m f)"
  unfolding silent_def by (auto elim!: obind_cases dest!: silentD [OF assms(1)] silentD [OF assms(2)])

lemma silent_if [silent_rules]: "(b \<Longrightarrow> silent m) \<Longrightarrow> (\<not> b \<Longrightarrow> silent n) \<Longrightarrow> silent (if b then m else n)"
  by simp

lemma silent_dirs [silent_rules]: "silent (make_dirs outer ds)"
  by (induction outer ds rule: make_dirs.induct) (auto intro!: silent_rules split: option.splits node.splits)

lemma silent_write [silent_rules]: "silent (write_text T p c)"
  unfolding write_text_def by (intro silent_rules) simp

lemma silent_files [silent_rules]: "silent (place_files T fs seen)"
  by (induction T fs seen rule: place_files.induct) (simp_all add: silent_rules Let_def)

lemma silent_payload [silent_rules]: "silent (place_payload T raw)"
  unfolding place_payload_def by (intro silent_rules)

lemma silent_ui [silent_rules]: "silent (copy_trusted T names)" "silent link_modules" "silent (run_in_process f)"
proof -
  show "silent (copy_trusted T names)"
    by (induction T names rule: copy_trusted.induct) (auto intro!: silent_rules)
  show "silent link_modules" unfolding link_modules_def by (intro silent_rules) simp
  show "silent (run_in_process f)" unfolding run_in_process_def by (intro silent_rules)
qed

text \<open>The only commands, each with the clean environment.\<close>

definition fixed_action :: "worker_action \<Rightarrow> bool" where
  "fixed_action a \<longleftrightarrow> (case a of
       Ran env command cwd _ \<Rightarrow> env = WORKER_ENV \<and> (command, cwd) \<in> {(RUFF, ''/workspace''), (TYPE_CHECK, ''/workspace/ui''), (UI_BUILD, ''/workspace/ui'')}
     | _ \<Rightarrow> True)"

definition runs_fixed :: "'a work \<Rightarrow> bool" where
  "runs_fixed m \<longleftrightarrow> (\<forall>s r s'. m s = (r, s') \<longrightarrow> (\<exists>W. bx_log s' = bx_log s @ W \<and> list_all fixed_action W))"

lemma silent_fixed: "silent m \<Longrightarrow> runs_fixed m"
  by (auto simp: silent_def runs_fixed_def)

lemma fixed_act: "fixed_action a \<Longrightarrow> runs_fixed (act a)"
  by (auto simp: runs_fixed_def act_def op_simps)

lemma fixed_bind:
  assumes "runs_fixed m" and "\<And>x. runs_fixed (f x)"
  shows "runs_fixed (obind m f)"
proof -
  have "\<exists>W. bx_log s' = bx_log s @ W \<and> list_all fixed_action W" if "obind m f s = (r, s')" for s r s'
    using that
  proof (cases rule: obind_cases)
    case (1 e)
    with assms(1) show ?thesis by (auto simp: runs_fixed_def)
  next
    case (2 x s1)
    from assms(1) 2(1) obtain W where "bx_log s1 = bx_log s @ W" "list_all fixed_action W" unfolding runs_fixed_def by blast
    moreover from assms(2) [of x] 2(2) obtain V where "bx_log s' = bx_log s1 @ V" "list_all fixed_action V" unfolding runs_fixed_def by blast
    ultimately show ?thesis by (intro exI [of _ "W @ V"]) simp
  qed
  then show ?thesis by (simp add: runs_fixed_def)
qed

lemma fixed_if: "runs_fixed m \<Longrightarrow> runs_fixed n \<Longrightarrow> runs_fixed (if b then m else n)"
  by simp

lemma fixed_in_process: "(\<And>c. runs_fixed (f c)) \<Longrightarrow> (\<And>x. runs_fixed (g x)) \<Longrightarrow>
    runs_fixed (case r of Process_ended c \<Rightarrow> f c | Returned x \<Rightarrow> g x)"
  by (cases r) simp_all

lemma run_tool_fixed: "fixed_action (Ran WORKER_ENV command cwd Map.empty) \<Longrightarrow> runs_fixed (run_tool T command cwd)"
  unfolding run_tool_def by (intro fixed_bind fixed_act silent_fixed silent_rules) (simp add: fixed_action_def)

lemma worker_main_fixed: "runs_fixed (worker_main T argv raw)"
proof -
  have tools: "runs_fixed (run_tool T RUFF ''/workspace'')" "runs_fixed (run_tool T TYPE_CHECK ''/workspace/ui'')"
    "runs_fixed (run_tool T UI_BUILD ''/workspace/ui'')"
    by (intro run_tool_fixed; simp add: fixed_action_def)+
  have react: "runs_fixed (build_react T)"
    unfolding build_react_def by (intro fixed_bind fixed_if tools silent_fixed silent_rules)
  have "runs_fixed (build_job T)" "runs_fixed (test_job T)"
    unfolding build_job_def test_job_def run_suite_def
    by (intro fixed_bind fixed_if fixed_in_process fixed_act react silent_fixed [OF silent_basic(1)] silent_fixed [OF silent_basic(3)]
        silent_fixed [OF silent_basic(5)] silent_fixed [OF silent_ui(3)]; simp add: fixed_action_def)+
  then show ?thesis
    unfolding worker_main_def worker_job_def Let_def
    by (intro fixed_bind fixed_if tools silent_fixed [OF silent_basic(1)] silent_fixed [OF silent_basic(3)] silent_fixed [OF silent_payload])
qed


section \<open>What a success stands for\<close>

text \<open>The user interface with the trusted files in place, and the module directory linked.\<close>

fun overlay :: "(string \<times> string) list \<Rightarrow> tree \<Rightarrow> tree" where
  "overlay [] t = t"
| "overlay ((name, c) # contents) t = overlay contents (t([''ui'', name] \<mapsto> Text c))"

definition dressed :: "(string \<times> string) list \<Rightarrow> tree \<Rightarrow> tree" where
  "dressed contents t = (overlay contents t)([''ui'', ''node_modules''] \<mapsto> Link ''/opt/aidlc/react/node_modules'')"

definition ui_built :: "toolbox \<Rightarrow> tree \<Rightarrow> worker_action list \<Rightarrow> tree \<Rightarrow> bool" where
  "ui_built T t W u \<longleftrightarrow>
     t [''ui''] = None \<and> W = [] \<and> u = t
     \<or> is_text t [''ui'', ''index.html''] \<and> is_text t [''ui'', ''src'', ''main.tsx'']
       \<and> (\<exists>contents n m t1 t2. map fst contents = REACT_FILES \<and> (\<forall>(name, c) \<in> set contents. \<exists>k. tb_trusted T k name = Inr c)
          \<and> t1 = dressed contents t \<and> W = [Ran WORKER_ENV TYPE_CHECK ''/workspace/ui'' t1, Ran WORKER_ENV UI_BUILD ''/workspace/ui'' t2]
          \<and> tb_run T n TYPE_CHECK ''/workspace/ui'' t1 = Inr (0, t2) \<and> tb_run T m UI_BUILD ''/workspace/ui'' t2 = Inr (0, u))"

definition suite_passed :: "toolbox \<Rightarrow> tree \<Rightarrow> bool" where
  "suite_passed T t \<longleftrightarrow> (\<exists>n. tb_discover T n t = Inr (Process_ended 0))
     \<or> (\<exists>n cases u. tb_discover T n t = Inr (Returned (cases, u)) \<and> 0 < cases
         \<and> (\<exists>m. tb_suite T m u = Inr (Process_ended 0) \<or> (\<exists>v. tb_suite T m u = Inr (Returned (True, v)))))"

definition job_passed :: "toolbox \<Rightarrow> string \<Rightarrow> tree \<Rightarrow> worker_action list \<Rightarrow> bool" where
  "job_passed T mode t W \<longleftrightarrow>
     mode = ''analyze'' \<and> W = [Ran WORKER_ENV RUFF ''/workspace'' t] \<and> (\<exists>n u. tb_run T n RUFF ''/workspace'' t = Inr (0, u))
     \<or> mode = ''build'' \<and> (\<exists>n u V v. tb_compile T n t = Inr (True, u) \<and> W = Compiled t # V \<and> ui_built T u V v)
     \<or> mode = ''test'' \<and> (\<exists>V u. ui_built T t V u \<and> W = V @ [Tested u] \<and> suite_passed T u)"

lemma with_tree_Inr: "with_tree f s = (Inr x, s') \<longleftrightarrow>
    (\<exists>t. f (bx_tick s) (bx_tree s) = Inr (x, t) \<and> s' = s\<lparr>bx_tick := bx_tick s + 1, bx_tree := t\<rparr>)"
  by (auto simp: with_tree_def split: sum.splits prod.splits)

lemma in_process_Inr: "run_in_process f s = (Inr r, s') \<Longrightarrow> bx_log s' = bx_log s \<and> (case r of
      Process_ended c \<Rightarrow> f (bx_tick s) (bx_tree s) = Inr (Process_ended c)
    | Returned x \<Rightarrow> f (bx_tick s) (bx_tree s) = Inr (Returned (x, bx_tree s')))"
  by (cases "f (bx_tick s) (bx_tree s)") (auto simp: run_in_process_def with_tree_def rbind_def split: in_process.splits)

lemma run_tool_Inr: "run_tool T command cwd s = (Inr c, s') \<Longrightarrow>
    \<exists>n. tb_run T n command cwd (bx_tree s) = Inr (c, bx_tree s') \<and> bx_log s' = bx_log s @ [Ran WORKER_ENV command cwd (bx_tree s)]"
  by (auto simp: run_tool_def obind_Inr oread_def act_def ochange_def with_tree_Inr)

lemma copy_trusted_Inr:
  "copy_trusted T names s = (Inr (), s') \<Longrightarrow>
     \<exists>contents. map fst contents = names \<and> (\<forall>(name, c) \<in> set contents. \<exists>k. tb_trusted T k name = Inr c)
       \<and> bx_tree s' = overlay contents (bx_tree s) \<and> bx_log s' = bx_log s"
proof (induction T names arbitrary: s rule: copy_trusted.induct)
  case (1 T)
  then show ?case by (simp add: oreturn_def)
next
  case (2 T name names)
  from "2.prems" obtain c s1 s2 where c: "tb_trusted T (bx_tick s) name = Inr c" and s1: "s1 = s\<lparr>bx_tick := bx_tick s + 1\<rparr>"
    and wr: "write_text T [''ui'', name] c s1 = (Inr (), s2)" and rest: "copy_trusted T names s2 = (Inr (), s')"
    by (auto simp: obind_Inr use_def)
  from "2.IH" [OF rest] obtain contents where "map fst contents = names"
    "\<forall>(name, c) \<in> set contents. \<exists>k. tb_trusted T k name = Inr c"
    "bx_tree s' = overlay contents (bx_tree s2)" "bx_log s' = bx_log s2" by blast
  with c write_text_holds [OF wr] s1 show ?case by (intro exI [of _ "(name, c) # contents"]) auto
qed

lemma build_react_passed:
  assumes "build_react T s = (Inr 0, s')"
  shows "\<exists>W. bx_log s' = bx_log s @ W \<and> ui_built T (bx_tree s) W (bx_tree s')"
proof (cases "bx_tree s [''ui''] = None")
  case True
  with assms show ?thesis by (auto simp: build_react_def obind_Inr oread_def oreturn_def ui_built_def)
next
  case False
  with assms obtain s1 s2 code s3 where texts: "is_text (bx_tree s) [''ui'', ''index.html'']" "is_text (bx_tree s) [''ui'', ''src'', ''main.tsx'']"
    and copied: "copy_trusted T REACT_FILES s = (Inr (), s1)" and linked: "link_modules s1 = (Inr (), s2)"
    and tsc: "run_tool T TYPE_CHECK ''/workspace/ui'' s2 = (Inr code, s3)"
    and rest: "(if code \<noteq> 0 then oreturn code else run_tool T UI_BUILD ''/workspace/ui'') s3 = (Inr 0, s')"
    by (auto simp: build_react_def obind_Inr oread_def oreturn_def split: if_splits)
  from rest have code: "code = 0" and vite: "run_tool T UI_BUILD ''/workspace/ui'' s3 = (Inr 0, s')"
    by (auto simp: oreturn_def split: if_splits)
  from copy_trusted_Inr [OF copied] obtain contents where c: "map fst contents = REACT_FILES"
    "\<forall>(name, c) \<in> set contents. \<exists>k. tb_trusted T k name = Inr c"
    "bx_tree s1 = overlay contents (bx_tree s)" "bx_log s1 = bx_log s" by blast
  from linked have l: "bx_tree s2 = dressed contents (bx_tree s)" "bx_log s2 = bx_log s1"
    by (auto simp: link_modules_def obind_Inr oread_def ochange_def dressed_def c(3))
  show ?thesis
    using texts c l run_tool_Inr [OF tsc] run_tool_Inr [OF vite] code unfolding ui_built_def by fastforce
qed

lemma content_sizes:
  "traverse content_size files = Inr sizes \<Longrightarrow> traverse payload_source files = Inr gs \<Longrightarrow> sizes = map (utf8_length \<circ> sf_content) gs"
proof (induction files arbitrary: sizes gs)
  case Nil
  then show ?case by simp
next
  case (Cons f files)
  from Cons.prems obtain n ns g hs where n: "content_size f = Inr n" and g: "payload_source f = Inr g"
    and rest: "traverse content_size files = Inr ns" "traverse payload_source files = Inr hs" and eqs: "sizes = n # ns" "gs = g # hs"
    by (auto simp: rbind_eq_Inr)
  from n obtain c where "text_item f ''content'' (AttributeError ''encode'') = Inr c" "n = utf8_length c"
    by (auto simp: content_size_def rbind_eq_Inr)
  moreover from g obtain d where "text_item f ''content'' (TypeError ''data must be str'') = Inr d" "sf_content g = d"
    by (auto simp: payload_source_def rbind_eq_Inr)
  ultimately have "n = utf8_length (sf_content g)" using text_item_content [of f "AttributeError ''encode''" c "TypeError ''data must be str''"] by simp
  with Cons.IH [OF rest] eqs show ?case by simp
qed

lemma place_payload_received:
  assumes "place_payload T raw empty_box = (Inr True, s)" and "length raw \<le> 1048576"
  shows "\<exists>gs. received T raw gs \<and> holds_only gs (bx_tree s) \<and> bx_log s = []"
proof -
  from assms(1) obtain files sizes where files: "payload_files T raw = Inr files" "1 \<le> length files" "length files \<le> 50"
    and sizes: "traverse content_size files = Inr sizes" "sum_list sizes \<le> 262144"
    and run: "place_files T files [] empty_box = (Inr True, s)"
    by (auto simp: place_payload_def obind_Inr oread_def oreturn_def split: if_splits)
  from place_files_holds [OF run, of "[]"] obtain gs where gs: "traverse payload_source files = Inr gs" "holds_only gs (bx_tree s)"
    "worker_files gs [] [] = Inr (map written_as gs)"
    by (auto simp: empty_box_def holds_only_empty)
  have "length gs = length files" using traverse_length [OF gs(1)] .
  moreover have "sizes = map (utf8_length \<circ> sf_content) gs"
    using sizes(1) gs(1) by (rule content_sizes)
  ultimately have "worker_accepts gs = Inr (map written_as gs)" using files(2,3) sizes(2) gs(3) by (simp add: worker_accepts_def)
  with files(1) gs assms(2) silentD [OF silent_payload assms(1)] show ?thesis unfolding received_def by (auto simp: empty_box_def)
qed

lemma run_suite_passed:
  assumes "run_suite T s = (Inr 0, s')"
  shows "suite_passed T (bx_tree s) \<and> bx_log s' = bx_log s"
proof -
  from assms obtain found s1 where found: "run_in_process (tb_discover T) s = (Inr found, s1)"
    and rest: "(case found of Process_ended c \<Rightarrow> oreturn c | Returned cases \<Rightarrow> if cases = 0 then oreturn 2
      else obind (run_in_process (tb_suite T)) (\<lambda>outcome. oreturn (case outcome of Process_ended c \<Rightarrow> c | Returned passed \<Rightarrow> if passed then 0 else 1))) s1
      = (Inr 0, s')"
    unfolding run_suite_def obind_Inr by blast
  note d = in_process_Inr [OF found]
  show ?thesis
  proof (cases found)
    case (Process_ended c)
    with d rest show ?thesis by (auto simp: suite_passed_def oreturn_def)
  next
    case (Returned cases)
    with rest have n: "0 < cases" by (cases "cases = 0") (simp_all add: oreturn_def)
    with Returned rest obtain outcome s2 where suite: "run_in_process (tb_suite T) s1 = (Inr outcome, s2)"
      and code: "(case outcome of Process_ended c \<Rightarrow> c | Returned passed \<Rightarrow> if passed then 0 else 1) = (0::int)" and eq: "s' = s2"
      by (auto simp: obind_Inr oreturn_def)
    note e = in_process_Inr [OF suite]
    have "tb_suite T (bx_tick s1) (bx_tree s1) = Inr (Process_ended 0) \<or> (\<exists>v. tb_suite T (bx_tick s1) (bx_tree s1) = Inr (Returned (True, v)))"
      using e code by (cases outcome) (auto split: if_splits)
    moreover have "tb_discover T (bx_tick s) (bx_tree s) = Inr (Returned (cases, bx_tree s1))" using d Returned by simp
    ultimately have "suite_passed T (bx_tree s)" using n unfolding suite_passed_def by blast
    then show ?thesis using d e eq by simp
  qed
qed

lemma test_job_passed:
  assumes "test_job T s = (Inr 0, s')"
  shows "\<exists>V u. ui_built T (bx_tree s) V u \<and> bx_log s' = bx_log s @ V @ [Tested u] \<and> suite_passed T u"
proof -
  from assms obtain s1 where react: "build_react T s = (Inr 0, s1)"
    and rest: "obind (act (Tested (bx_tree s1))) (\<lambda>_. run_suite T) s1 = (Inr 0, s')"
    by (auto simp: test_job_def obind_Inr oread_def oreturn_def split: if_splits)
  from rest have "run_suite T (s1\<lparr>bx_log := bx_log s1 @ [Tested (bx_tree s1)]\<rparr>) = (Inr 0, s')"
    by (auto simp: obind_Inr act_def ochange_def)
  from run_suite_passed [OF this] build_react_passed [OF react] show ?thesis by auto
qed

lemma build_job_passed:
  assumes "build_job T s = (Inr 0, s')"
  shows "\<exists>n u V. tb_compile T n (bx_tree s) = Inr (True, u) \<and> bx_log s' = bx_log s @ Compiled (bx_tree s) # V \<and> ui_built T u V (bx_tree s')"
proof -
  let ?s = "s\<lparr>bx_log := bx_log s @ [Compiled (bx_tree s)]\<rparr>"
  from assms obtain compiled s1 where c: "with_tree (tb_compile T) ?s = (Inr compiled, s1)"
    and rest: "(if \<not> compiled then oreturn 1 else build_react T) s1 = (Inr 0, s')"
    by (auto simp: build_job_def obind_Inr oread_def act_def ochange_def)
  from rest have ok: compiled and react: "build_react T s1 = (Inr 0, s')" by (auto simp: oreturn_def split: if_splits)
  from c ok obtain u where "tb_compile T (bx_tick s) (bx_tree s) = Inr (True, u)" "bx_tree s1 = u" "bx_log s1 = bx_log ?s"
    by (auto simp: with_tree_Inr)
  with build_react_passed [OF react] show ?thesis by auto
qed

lemma worker_job_passed:
  assumes "worker_job T mode raw empty_box = (Inr 0, s')" and "mode \<in> {''analyze'', ''build'', ''test''}"
  shows "\<exists>gs t. received T raw gs \<and> holds_only gs t \<and> job_passed T mode t (bx_log s')"
proof -
  from assms(1) obtain s where len: "length raw \<le> 1048576" and placed: "place_payload T raw empty_box = (Inr True, s)"
    and job: "(if mode = ''analyze'' then run_tool T RUFF ''/workspace'' else if mode = ''build'' then build_job T else test_job T) s = (Inr 0, s')"
    by (auto simp: worker_job_def obind_Inr oreturn_def split: if_splits)
  from place_payload_received [OF placed len] obtain gs where gs: "received T raw gs" "holds_only gs (bx_tree s)" "bx_log s = []" by blast
  consider "mode = ''analyze''" | "mode = ''build''" | "mode = ''test''" using assms(2) by blast
  then have "job_passed T mode (bx_tree s) (bx_log s')"
  proof cases
    case 1
    with job have "run_tool T RUFF ''/workspace'' s = (Inr 0, s')" by simp
    from run_tool_Inr [OF this] 1 gs(3) show ?thesis unfolding job_passed_def by auto
  next
    case 2
    with job have "build_job T s = (Inr 0, s')" by simp
    from build_job_passed [OF this] 2 gs(3) show ?thesis unfolding job_passed_def by auto
  next
    case 3
    with job have "test_job T s = (Inr 0, s')" by simp
    from test_job_passed [OF this] 3 gs(3) show ?thesis unfolding job_passed_def by auto
  qed
  with gs show ?thesis by blast
qed

text \<open>
  C35. A success of the trusted worker is earned. Whatever payload it receives and whatever the tools answer, the worker runs only its
  own three commands, each with a clean environment. If it ends with 0, the payload was within the limits and acceptable, the workspace
  held exactly its files, and the job of the mode succeeded on them: the linter, compilation and, if there is a user interface, type check
  and production build with the trusted configuration in place, or a test suite that is not empty. The only other way to 0 is that the
  code under test, which runs in the worker's process, ends that process itself.
\<close>

theorem worker_success_earned:
  assumes "worker_main T argv raw empty_box = (r, s')"
  shows "list_all fixed_action (bx_log s')
    \<and> (r = Inr 0 \<and> mode_of argv \<noteq> ''probe''
        \<longrightarrow> (\<exists>gs t. received T raw gs \<and> holds_only gs t \<and> job_passed T (mode_of argv) t (bx_log s')))"
proof -
  have "list_all fixed_action (bx_log s')"
    using worker_main_fixed assms unfolding runs_fixed_def by (fastforce simp: empty_box_def)
  moreover have "\<exists>gs t. received T raw gs \<and> holds_only gs t \<and> job_passed T (mode_of argv) t (bx_log s')"
    if "r = Inr 0" "mode_of argv \<noteq> ''probe''"
  proof (rule worker_job_passed)
    from assms that show "worker_job T (mode_of argv) raw empty_box = (Inr 0, s')" "mode_of argv \<in> {''analyze'', ''build'', ''test''}"
      by (auto simp: worker_main_def Let_def oreturn_def split: if_splits)
  qed
  ultimately show ?thesis by blast
qed

definition demo_path :: string where "demo_path = ''test_a.py''"

definition demo_text :: string where "demo_text = ''x = 1''"

definition demo_toolbox :: toolbox where
  "demo_toolbox = \<lparr>tb_loads = (\<lambda>_. Inr (JObj [(''files'', JArr [JObj [(''path'', JStr demo_path), (''content'', JStr demo_text)]])])),
     tb_write = (\<lambda>_. None), tb_trusted = (\<lambda>_ _. Inr []), tb_run = (\<lambda>_ _ _ t. Inr (0, t)), tb_compile = (\<lambda>_ t. Inr (True, t)),
     tb_discover = (\<lambda>_ t. Inr (Returned (1, t))), tb_suite = (\<lambda>_ t. Inr (Returned (True, t))), tb_uid = 65532,
     tb_status = Inr (''CapEff:'' @ [CHR 0x09] @ ''0000000000000000'' @ [CHR 0x0A] @ ''NoNewPrivs:'' @ [CHR 0x09] @ ''1''),
     tb_environ = [''PATH''], tb_exists = (\<lambda>_. False), tb_touch = (\<lambda>_. Some (OSError ''Read-only file system'')),
     tb_mounts = Inr ''overlay / overlay ro,relatime 0 0'', tb_statvfs = (\<lambda>_. Inr (4096, 4096)), tb_scratch = (\<lambda>_. None),
     tb_interfaces = Inr [''lo''], tb_connect = Inr 101\<rparr>"

lemma demo_toolbox_fields:
  "tb_loads demo_toolbox t = Inr (JObj [(''files'', JArr [JObj [(''path'', JStr demo_path), (''content'', JStr demo_text)]])])"
  "tb_write demo_toolbox n = None" "tb_discover demo_toolbox n u = Inr (Returned (1, u))" "tb_suite demo_toolbox n u = Inr (Returned (True, u))"
  by (simp_all add: demo_toolbox_def)

lemma demo_worked:
  "\<exists>s. worker_main demo_toolbox [''worker.py'', ''test''] [] empty_box = (Inr 0, s)"
proof -
  have "\<not> bad_path WORKER_SUFFIXES demo_path" "split_on (CHR ''/'') demo_path = [demo_path]" "utf8_length demo_text = 5"
    "demo_path \<noteq> ''ui''" "''ui'' \<noteq> demo_path"
    by code_simp+
  then show ?thesis
    by (simp add: worker_main_def mode_of_def worker_job_def place_payload_def payload_files_def elements_of_def demo_toolbox_fields
        content_size_def text_item_def dindex_def obind_def oread_def oreturn_def write_text_def use_def ochange_def empty_box_def
        test_job_def build_react_def run_suite_def run_in_process_def with_tree_def act_def Let_def)
qed

theorem worker_success_earned_witness:
  "\<exists>s gs t. worker_main demo_toolbox [''worker.py'', ''test''] [] empty_box = (Inr 0, s)
     \<and> received demo_toolbox [] gs \<and> holds_only gs t \<and> job_passed demo_toolbox ''test'' t (bx_log s)"
proof -
  obtain s where run: "worker_main demo_toolbox [''worker.py'', ''test''] [] empty_box = (Inr 0, s)" using demo_worked by blast
  have "mode_of [''worker.py'', ''test''] = ''test''" by (simp add: mode_of_def)
  with worker_success_earned [OF run] run show ?thesis by auto
qed

section \<open>The probe as the host reads it\<close>

definition printed :: "(string \<times> bool) list \<Rightarrow> json" where
  "printed checks = JObj (map (\<lambda>(k, b). (k, JBool b)) checks)"

text \<open>
  The host reads what the probe found. Whenever the worker's probe ends with an exit code and its output is decoded as it was
  printed, the host finds exactly the checks that it expects, each with the result of the probe, and all of them hold if and only if the
  exit code is 0.
\<close>

theorem probe_read_back:
  assumes "probe T = Inr (checks, code)" and "dh_loads H (sb_stdout r) = Inr (printed checks)"
  shows "\<exists>seen. probe_checks H r = Inr seen \<and> map fst seen = PROBE_CHECKS \<and> set seen = set checks \<and> (code = 0 \<longleftrightarrow> list_all snd seen)"
proof -
  from assms(1) obtain b1 b2 b3 b4 b5 b6 b7 b8 b9 b10 b11 b12 where c: "checks =
       [(''non_root'', b1), (''no_capabilities'', b2), (''no_new_privileges'', b3), (''no_credentials'', b4), (''no_host_sockets'', b5),
        (''no_host_home'', b6), (''root_read_only'', b7), (''root_mount_read_only'', b8), (''bounded_tmpfs:/workspace'', b9),
        (''bounded_tmpfs:/tmp'', b10), (''network_interfaces'', b11), (''network_denied'', b12)]"
    and code: "code = (if list_all snd checks then 0 else 1)"
    by (auto simp: probe_def probe_results_def rbind_eq_Inr split: prod.splits)
  define seen where "seen = map (\<lambda>k. (k, dget (map (\<lambda>(k, b). (k, JBool b)) checks) k = JBool True)) PROBE_CHECKS"
  have "probe_checks H r = Inr seen" using assms(2) by (simp add: probe_checks_def printed_def seen_def)
  moreover have "map fst seen = PROBE_CHECKS" by (simp add: seen_def o_def)
  moreover have "set seen = set checks" by (auto simp: seen_def PROBE_CHECKS_def c dget_def)
  moreover from this have "list_all snd seen = list_all snd checks" by (auto simp: list_all_iff)
  ultimately show ?thesis using code by (intro exI [of _ seen]) auto
qed

theorem probe_read_back_witness:
  "\<exists>checks H r seen. probe demo_toolbox = Inr (checks, 0) \<and> probe_checks H r = Inr seen \<and> map fst seen = PROBE_CHECKS \<and> list_all snd seen"
proof -
  have "probe demo_toolbox = Inr (map (\<lambda>k. (k, True)) [''non_root'', ''no_capabilities'', ''no_new_privileges'', ''no_credentials'',
     ''no_host_sockets'', ''no_host_home'', ''root_read_only'', ''root_mount_read_only'', ''bounded_tmpfs:/workspace'', ''bounded_tmpfs:/tmp'',
     ''network_interfaces'', ''network_denied''], 0)" (is "_ = Inr (?checks, _)")
    by code_simp
  moreover define H :: docker_host where "H = demo_docker\<lparr>dh_loads := (\<lambda>_. Inr (printed ?checks))\<rparr>"
  ultimately show ?thesis using probe_read_back [of demo_toolbox ?checks 0 H "new_result H demo_job ''runc''"] by auto
qed

end
