(* ===== verification/Diagnostics.thy ===== *)
theory Diagnostics
  imports Finops Config Url Storage
begin

text \<open>
  \<open>agents/observability.py\<close>: the diagnostics of a model invocation. Callbacks of the model library append redacted lines to one
  file. The values that are recorded are those the recursion of \<open>_redact\<close> distinguishes; the clock, the time stamps and failures
  of writing are an environment. The lock makes each callback one step.
\<close>

section \<open>Redaction\<close>

text \<open>A Pydantic model is the value of its dump; any other object is its text. Keys are the texts of the keys.\<close>

datatype trace_value =
    TV_model trace_value
  | TV_dict "(string \<times> trace_value) list"
  | TV_list "trace_value list"
  | TV_text string
  | TV_none
  | TV_bool bool
  | TV_int int
  | TV_float rat
  | TV_other string

definition SECRET_KEYS :: "string list" where
  "SECRET_KEYS = [''authorization'', ''api_key'', ''apikey'', ''password'', ''secret'', ''access_token'', ''refresh_token'', ''id_token'',
     ''client_secret'', ''encrypted_content'', ''headers'']"

definition REDACTED :: string where
  "REDACTED = ''[redacted]''"

text \<open>\<open>text.replace(old, new)\<close> of a text that is not empty.\<close>

function replace_text :: "string \<Rightarrow> string \<Rightarrow> string \<Rightarrow> string" where
  "replace_text old new [] = []"
| "replace_text old new (c # cs) =
     (if old \<noteq> [] \<and> starts_with (c # cs) old then new @ replace_text old new (drop (length old) (c # cs))
      else c # replace_text old new cs)"
  by pat_completeness auto
termination by (relation "measure (\<lambda>(old, new, s). length s)") (auto simp: Suc_diff_le)

text \<open>The alphanumeric characters of the first 256 and the underscore, \<open>\w\<close>.\<close>

definition word_char :: "char \<Rightarrow> bool" where
  "word_char c = (let n = (of_char c :: nat) in
     is_ascii_alnum c \<or> c = CHR ''_'' \<or> n \<in> {170, 178, 179, 181, 185, 186, 188, 189, 190} \<or> 192 \<le> n \<and> n \<noteq> 215 \<and> n \<noteq> 247)"

definition bearer_char :: "char \<Rightarrow> bool" where
  "bearer_char c \<longleftrightarrow> is_ascii_alnum c \<or> c \<in> set ''._~+/=-''"

definition key_char :: "char \<Rightarrow> bool" where
  "key_char c \<longleftrightarrow> is_ascii_alnum c \<or> c = CHR ''_'' \<or> c = CHR ''-''"

text \<open>
  The length of the match at the beginning of a text, 0 if there is none: \<open>Bearer\<close>, white space and a token, or \<open>sk-\<close> at a
  word boundary and a token, both in any case. The first argument says whether a word character precedes.
\<close>

definition bearer_length :: "string \<Rightarrow> nat" where
  "bearer_length s = (let spaces = length (takeWhile is_space (drop 6 s));
       token = length (takeWhile bearer_char (drop (6 + spaces) s)) in
     if lower (take 6 s) = ''bearer'' \<and> 0 < spaces \<and> 0 < token then 6 + spaces + token else 0)"

definition key_length :: "bool \<Rightarrow> string \<Rightarrow> nat" where
  "key_length after s = (let token = length (takeWhile key_char (drop 3 s)) in
     if \<not> after \<and> lower (take 3 s) = ''sk-'' \<and> 0 < token then 3 + token else 0)"

definition match_length :: "bool \<Rightarrow> string \<Rightarrow> nat" where
  "match_length after s = (if 0 < bearer_length s then bearer_length s else key_length after s)"

text \<open>\<open>re.sub\<close> from left to right.\<close>

function hide_tokens :: "bool \<Rightarrow> string \<Rightarrow> string" where
  "hide_tokens after [] = []"
| "hide_tokens after (c # cs) = (let n = match_length after (c # cs) in
     if 0 < n then REDACTED @ hide_tokens (word_char (last (take n (c # cs)))) (drop n (c # cs))
     else c # hide_tokens (word_char c) cs)"
  by pat_completeness auto
termination by (relation "measure (\<lambda>(after, s). length s)") auto

definition scrub :: "string list \<Rightarrow> string \<Rightarrow> string" where
  "scrub secrets t = hide_tokens False (fold (\<lambda>secret v. replace_text secret REDACTED v) secrets t)"

fun redact :: "string list \<Rightarrow> trace_value \<Rightarrow> json" where
  "redact secrets (TV_model v) = redact secrets v"
| "redact secrets (TV_dict d) = JObj (fold (\<lambda>(k, v). dict_set k v)
     (map (\<lambda>(k, v). (k, if lower k \<in> set SECRET_KEYS then JStr REDACTED else redact secrets v)) d) [])"
| "redact secrets (TV_list vs) = JArr (map (redact secrets) vs)"
| "redact secrets (TV_text t) = JStr (scrub secrets t)"
| "redact secrets TV_none = JNull"
| "redact secrets (TV_bool b) = JBool b"
| "redact secrets (TV_int n) = JInt n"
| "redact secrets (TV_float q) = JFloat q"
| "redact secrets (TV_other t) = JStr (scrub secrets t)"

section \<open>The trace of one invocation\<close>

datatype message_role = AI_role | Tool_role | Other_role

record trace_message =
  tm_role :: message_role
  tm_dump :: trace_value
  tm_usage :: "(int \<times> int) option"

text \<open>Generations of a chat model carry a message, others do not.\<close>

datatype generation = Chat_generation trace_message | Plain_generation

record model_trace =
  mt_execution_id :: string
  mt_path :: "string list option"
  mt_identity :: "(string \<times> trace_value) list"
  mt_started :: rat
  mt_calls :: "(string \<times> rat) list"
  mt_llm_calls :: int
  mt_input_tokens :: int
  mt_output_tokens :: int
  mt_secrets :: "string list"
  mt_tick :: nat
  mt_lines :: "json list"

text \<open>The \<open>n\<close>-th reading of the clock, time stamp, and attempt to dump and append a line.\<close>

record trace_host =
  th_clock :: "nat \<Rightarrow> rat"
  th_stamp :: "nat \<Rightarrow> string"
  th_write :: "nat \<Rightarrow> py_error option"

definition secret_values :: "(string \<times> string) list \<Rightarrow> string list" where
  "secret_values environ = map snd (filter (\<lambda>(k, v). 8 \<le> length v
     \<and> list_ex (ends_with k) [''API_KEY'', ''TOKEN'', ''SECRET'', ''PASSWORD'']) environ)"

definition new_trace :: "trace_host \<Rightarrow> settings \<Rightarrow> agent_context \<Rightarrow> string \<Rightarrow> string \<Rightarrow> (string \<times> string) list \<Rightarrow> model_trace" where
  "new_trace H s cx agent uid environ =
     \<lparr>mt_execution_id = uid,
      mt_path = (if cf_llm_logging_enabled s
        then Some (cf_data_dir s @ [''logs'', cx_project_id cx, stage_value (cx_stage cx), agent, uid @ ''.jsonl'']) else None),
      mt_identity = [(''project_id'', TV_text (cx_project_id cx)), (''workflow_run_id'', TV_text (cx_run_id cx)), (''execution_id'', TV_text uid),
        (''stage'', TV_text (stage_value (cx_stage cx))), (''agent'', TV_text agent), (''model'', TV_text (cf_model s)),
        (''repair_attempt'', TV_int (int (cx_repair_attempt cx))), (''retry_attempt'', TV_int (int (cx_retry_attempt cx)))],
      mt_started = th_clock H 0, mt_calls = [], mt_llm_calls = 0, mt_input_tokens = 0, mt_output_tokens = 0,
      mt_secrets = secret_values environ, mt_tick = 1, mt_lines = []\<rparr>"

definition merged :: "(string \<times> trace_value) list \<Rightarrow> (string \<times> trace_value) list \<Rightarrow> (string \<times> trace_value) list" where
  "merged d e = fold (\<lambda>(k, v). dict_set k v) e d"

definition recorded_failure :: "py_error \<Rightarrow> bool" where
  "recorded_failure e \<longleftrightarrow> os_error e \<or> (case e of TypeError _ \<Rightarrow> True | ValueError _ \<Rightarrow> True | _ \<Rightarrow> False)"

text \<open>\<open>record\<close>: the later entries of the literal replace earlier ones with the same key.\<close>

definition trace_line :: "trace_host \<Rightarrow> string \<Rightarrow> (string \<times> trace_value) list \<Rightarrow> model_trace \<Rightarrow> json" where
  "trace_line H name details t = redact (mt_secrets t)
     (TV_dict (merged (merged (merged [(''timestamp'', TV_text (th_stamp H (mt_tick t)))] (mt_identity t)) [(''event'', TV_text name)]) details))"

definition record_event :: "trace_host \<Rightarrow> string \<Rightarrow> (string \<times> trace_value) list \<Rightarrow> model_trace \<Rightarrow> unit result \<times> model_trace" where
  "record_event H name details t =
     (if mt_path t = None then (Inr (), t)
      else case th_write H (mt_tick t) of
          None \<Rightarrow> (Inr (), t\<lparr>mt_tick := mt_tick t + 1, mt_lines := mt_lines t @ [trace_line H name details t]\<rparr>)
        | Some e \<Rightarrow> (if recorded_failure e then Inr () else Inl e, t\<lparr>mt_tick := mt_tick t + 1\<rparr>))"

definition read_clock :: "trace_host \<Rightarrow> model_trace \<Rightarrow> rat \<times> model_trace" where
  "read_clock H t = (th_clock H (mt_tick t), t\<lparr>mt_tick := mt_tick t + 1\<rparr>)"

definition on_chat_model_start :: "trace_host \<Rightarrow> string \<Rightarrow> trace_message list list \<Rightarrow> model_trace \<Rightarrow> unit result \<times> model_trace" where
  "on_chat_model_start H call batches t =
     (let t1 = t\<lparr>mt_llm_calls := mt_llm_calls t + 1\<rparr>; (now, t2) = read_clock H t1; t3 = t2\<lparr>mt_calls := dict_set call now (mt_calls t2)\<rparr> in
      record_event H ''llm.started''
        [(''callback_run_id'', TV_text call), (''call_number'', TV_int (mt_llm_calls t3)),
         (''input_message_count'', TV_int (int (sum_list (map length batches))))] t3)"

text \<open>The start of a call is forgotten when it ends; a call that is not known has no duration.\<close>

definition end_call :: "trace_host \<Rightarrow> string \<Rightarrow> model_trace \<Rightarrow> trace_value \<times> model_trace" where
  "end_call H call t = (let t1 = t\<lparr>mt_calls := filter (\<lambda>(k, _). k \<noteq> call) (mt_calls t)\<rparr> in
     case map_of (mt_calls t) call of
       None \<Rightarrow> (TV_none, t1)
     | Some started \<Rightarrow> (case read_clock H t1 of (now, t2) \<Rightarrow> (TV_float (rounded (now - started)), t2)))"

definition chat_messages :: "generation list list \<Rightarrow> trace_message list" where
  "chat_messages generations = concat (map (\<lambda>g. case g of Chat_generation m \<Rightarrow> [m] | Plain_generation \<Rightarrow> []) (concat generations))"

definition reported_usage :: "trace_message list \<Rightarrow> (int \<times> int) list" where
  "reported_usage ms = concat (map (\<lambda>m. case tm_usage m of Some u \<Rightarrow> if tm_role m = AI_role then [u] else [] | None \<Rightarrow> []) ms)"

definition on_llm_end :: "trace_host \<Rightarrow> string \<Rightarrow> generation list list \<Rightarrow> model_trace \<Rightarrow> unit result \<times> model_trace" where
  "on_llm_end H call generations t =
     (let ms = chat_messages generations; used = reported_usage ms;
          t1 = t\<lparr>mt_input_tokens := mt_input_tokens t + sum_list (map fst used), mt_output_tokens := mt_output_tokens t + sum_list (map snd used)\<rparr>;
          (duration, t2) = end_call H call t1 in
      record_event H ''llm.completed''
        [(''callback_run_id'', TV_text call), (''duration_seconds'', duration), (''messages'', TV_list (map (TV_model \<circ> tm_dump) ms))] t2)"

definition on_llm_error :: "trace_host \<Rightarrow> string \<Rightarrow> string \<times> string \<Rightarrow> model_trace \<Rightarrow> unit result \<times> model_trace" where
  "on_llm_error H call error t =
     (let (duration, t1) = end_call H call t in
      record_event H ''llm.failed''
        [(''callback_run_id'', TV_text call), (''duration_seconds'', duration), (''error_type'', TV_text (fst error)), (''error'', TV_text (snd error))] t1)"

definition graph_result :: "trace_host \<Rightarrow> trace_value option \<Rightarrow> trace_message list \<Rightarrow> int \<Rightarrow> model_trace \<Rightarrow> unit result \<times> model_trace" where
  "graph_result H structured ms attempt = record_event H ''graph.completed''
     [(''structured_output_attempt'', TV_int attempt), (''structured_response'', case structured of None \<Rightarrow> TV_none | Some v \<Rightarrow> v),
      (''messages'', TV_list (map (TV_model \<circ> tm_dump) (filter (\<lambda>m. tm_role m \<noteq> Other_role) ms)))]"

text \<open>The error is its class, its text and its formatted traceback.\<close>

definition finish_trace :: "trace_host \<Rightarrow> string \<Rightarrow> (string \<times> string \<times> string) option \<Rightarrow> model_trace \<Rightarrow> unit result \<times> model_trace" where
  "finish_trace H name error t =
     (let (now, t1) = read_clock H t in
      record_event H name
        ([(''duration_seconds'', TV_float (rounded (now - mt_started t1))), (''llm_calls'', TV_int (mt_llm_calls t1)),
          (''input_tokens'', TV_int (mt_input_tokens t1)), (''output_tokens'', TV_int (mt_output_tokens t1))]
         @ (case error of None \<Rightarrow> [] | Some (class', text', traceback) \<Rightarrow>
             [(''error_type'', TV_text class'), (''error'', TV_text text'), (''traceback'', TV_text traceback)])) t1)"

end
