(* ===== verification/DiagnosticsTrust.thy ===== *)
theory DiagnosticsTrust
  imports Diagnostics Interaction Gates
begin

text \<open>
  What the redaction of diagnostics guarantees: masking a text only replaces pieces of it by the mark (\<open>masked\<close>), so a secret or token
  that is left would have been in the original at the same place.
\<close>

section \<open>Masked texts\<close>

text \<open>The second text is the first with pieces replaced by the mark.\<close>

inductive masked :: "string \<Rightarrow> string \<Rightarrow> bool" where
  masked_Nil: "masked [] []"
| masked_keep: "masked s t \<Longrightarrow> masked (c # s) (c # t)"
| masked_hide: "masked s t \<Longrightarrow> masked (x @ s) (REDACTED @ t)"

lemma masked_refl: "masked s s"
  by (induction s) (auto intro: masked.intros)

lemma masked_trans_hide: "masked s t \<Longrightarrow> masked (x @ s) (REDACTED @ t)"
  by (rule masked_hide)

lemma masked_replace: "masked s (replace_text old REDACTED s)"
proof (induction old REDACTED s rule: replace_text.induct)
  case (1 old)
  then show ?case by (simp add: masked_Nil)
next
  case (2 old c cs)
  show ?case
  proof (cases "old \<noteq> [] \<and> starts_with (c # cs) old")
    case True
    then obtain rest where rest: "c # cs = old @ rest" by (auto simp: starts_with_iff)
    with 2(1) [OF True] have "masked rest (replace_text old REDACTED rest)" by simp
    moreover have "replace_text old REDACTED (c # cs) = REDACTED @ replace_text old REDACTED rest"
      using True by (simp only: replace_text.simps if_True) (simp add: rest)
    ultimately show ?thesis using masked_hide [of rest _ old] rest by metis
  next
    case False
    with 2(2) show ?thesis by (auto intro: masked_keep)
  qed
qed

lemma masked_tokens: "masked s (hide_tokens w s)"
proof (induction w s rule: hide_tokens.induct)
  case (1 w)
  then show ?case by (simp add: masked_Nil)
next
  case (2 w c cs)
  let ?n = "match_length w (c # cs)"
  show ?case
  proof (cases "0 < ?n")
    case True
    from masked_hide [OF 2(1) [OF refl True], of "take ?n (c # cs)"] True show ?thesis by (simp add: Let_def)
  next
    case False
    with 2(2) [OF refl False] show ?thesis by (simp add: Let_def masked_keep)
  qed
qed

section \<open>Secrets\<close>

definition occurs_in :: "string \<Rightarrow> string \<Rightarrow> bool" where
  "occurs_in a t \<longleftrightarrow> (\<exists>u v. t = u @ a @ v)"

text \<open>A secret that cannot be confused with the mark that replaces it.\<close>

definition plain_secret :: "string \<Rightarrow> bool" where
  "plain_secret a \<longleftrightarrow> 8 \<le> length a \<and> CHR ''['' \<notin> set a \<and> CHR '']'' \<notin> set a \<and> a \<noteq> ''redacted''"

lemma plain_secretD: "plain_secret a \<Longrightarrow> a \<noteq> [] \<and> 8 \<le> length a \<and> hd a \<noteq> CHR ''['' \<and> CHR '']'' \<notin> set a"
  by (cases a) (auto simp: plain_secret_def)

lemma masked_prefix: "masked s t \<Longrightarrow> plain_secret b \<Longrightarrow> b = p @ a \<Longrightarrow> t = a @ v \<Longrightarrow> \<exists>w. s = a @ w"
proof (induction arbitrary: p a rule: masked.induct)
  case masked_Nil
  then show ?case by simp
next
  case (masked_keep s t c)
  show ?case
  proof (cases a)
    case Nil
    then show ?thesis by simp
  next
    case (Cons d a')
    with masked_keep.prems have "t = a' @ v" "c = d" "b = (p @ [c]) @ a'" by auto
    with masked_keep.IH [OF masked_keep.prems(1), of "p @ [c]" a'] Cons show ?thesis by simp
  qed
next
  case (masked_hide s t x)
  then show ?case by (cases a) (auto simp: REDACTED_def plain_secret_def)
qed

lemma mark_hides:
  assumes "REDACTED @ t = u @ a @ v" and "plain_secret a"
  shows "occurs_in a t"
proof (cases "length REDACTED \<le> length u")
  case True
  with assms(1) obtain u' where "u = REDACTED @ u'" by (metis append_eq_append_conv_if append_take_drop_id)
  with assms(1) show ?thesis by (auto simp: occurs_in_def)
next
  case False
  then have u: "length u < 10" by (simp add: REDACTED_def)
  note a = plain_secretD [OF assms(2)]
  have "\<not> 9 < length u + length a"
  proof
    assume "9 < length u + length a"
    with u have "(u @ a @ v) ! 9 = a ! (9 - length u)" "9 - length u < length a" by (auto simp: nth_append)
    moreover have "(REDACTED @ t) ! 9 = CHR '']''" by (simp add: REDACTED_def)
    ultimately have "CHR '']'' \<in> set a" using assms(1) by (metis nth_mem)
    with a show False by blast
  qed
  with a u have len: "length u \<le> 1" "length a \<le> 9 - length u" by auto
  show ?thesis
  proof (cases u)
    case Nil
    with assms(1) a show ?thesis by (cases a) (auto simp: REDACTED_def)
  next
    case (Cons c u')
    with len a have "length a = 8" "u = [c]" by auto
    with assms(1) have "a = take 8 (''redacted]'' @ t)" by (simp add: REDACTED_def)
    with assms(2) show ?thesis by (simp add: plain_secret_def)
  qed
qed

lemma masked_occurs: "masked s t \<Longrightarrow> plain_secret a \<Longrightarrow> occurs_in a t \<Longrightarrow> occurs_in a s"
proof (induction rule: masked.induct)
  case masked_Nil
  then show ?case by simp
next
  case (masked_keep s t c)
  from masked_keep.prems(2) obtain u v where uv: "c # t = u @ a @ v" by (auto simp: occurs_in_def)
  show ?case
  proof (cases u)
    case Nil
    with uv masked_prefix [OF masked.masked_keep [OF masked_keep.hyps] masked_keep.prems(1), where p = "[]" and a = a and v = v]
    obtain w where "c # s = a @ w" by auto
    then show ?thesis unfolding occurs_in_def by (metis append_Nil)
  next
    case (Cons d u')
    with uv have "occurs_in a t" by (auto simp: occurs_in_def)
    with masked_keep obtain u2 v2 where "s = u2 @ a @ v2" by (auto simp: occurs_in_def)
    then show ?thesis unfolding occurs_in_def by (metis append_Cons)
  qed
next
  case (masked_hide s t x)
  from masked_hide.prems(2) obtain u v where "REDACTED @ t = u @ a @ v" by (auto simp: occurs_in_def)
  from mark_hides [OF this masked_hide.prems(1)] masked_hide obtain u2 v2 where "s = u2 @ a @ v2" by (auto simp: occurs_in_def)
  then show ?case unfolding occurs_in_def by (metis append.assoc)
qed

lemma replaced_hidden: "plain_secret a \<Longrightarrow> \<not> occurs_in a (replace_text a REDACTED s)"
proof (induction a REDACTED s rule: replace_text.induct)
  case (1 a)
  then show ?case by (auto simp: occurs_in_def plain_secret_def)
next
  case (2 a c cs)
  show ?case
  proof (cases "a \<noteq> [] \<and> starts_with (c # cs) a")
    case True
    with 2(1) [OF True 2(3)] 2(3) show ?thesis by (auto simp: occurs_in_def dest: mark_hides)
  next
    case False
    have "\<not> occurs_in a (c # replace_text a REDACTED cs)"
    proof
      assume "occurs_in a (c # replace_text a REDACTED cs)"
      then obtain u v where uv: "c # replace_text a REDACTED cs = u @ a @ v" by (auto simp: occurs_in_def)
      show False
      proof (cases u)
        case Nil
        with uv masked_prefix [OF masked_keep [OF masked_replace] 2(3), where p = "[]" and a = a and v = v] have "starts_with (c # cs) a"
          by (auto simp: starts_with_iff)
        with False plain_secretD [OF 2(3)] show False by blast
      next
        case (Cons d u')
        with uv have "occurs_in a (replace_text a REDACTED cs)" by (auto simp: occurs_in_def)
        with 2(2) [OF False 2(3)] show False by blast
      qed
    qed
    with False show ?thesis by auto
  qed
qed

lemma scrub_hides:
  assumes "a \<in> set secrets" and "plain_secret a"
  shows "\<not> occurs_in a (scrub secrets t)"
proof -
  have later: "occurs_in a t'" if "occurs_in a (fold (\<lambda>secret v. replace_text secret REDACTED v) rest t')" for rest t'
    using that by (induction rest arbitrary: t') (auto dest: masked_occurs [OF masked_replace assms(2)])
  from assms(1) obtain before rest where s: "secrets = before @ a # rest" by (auto simp: in_set_conv_decomp)
  let ?t = "fold (\<lambda>secret v. replace_text secret REDACTED v) before t"
  have "\<not> occurs_in a (fold (\<lambda>secret v. replace_text secret REDACTED v) rest (replace_text a REDACTED ?t))"
    using later replaced_hidden [OF assms(2)] by blast
  then show ?thesis using masked_occurs [OF masked_tokens assms(2)] unfolding scrub_def s by auto
qed

section \<open>Tokens\<close>

fun token_free :: "bool \<Rightarrow> string \<Rightarrow> bool" where
  "token_free after [] \<longleftrightarrow> True"
| "token_free after (c # cs) \<longleftrightarrow> match_length after (c # cs) = 0 \<and> token_free (word_char c) cs"

lemma bearer_not_space: "bearer_char c \<Longrightarrow> \<not> is_space c"
  by (auto simp: bearer_char_def is_space_def is_ascii_alnum_def is_digit_def Let_def)

lemma lower_length: "length (lower s) = length s"
  by (simp add: lower_def)

lemma takeWhile_all: "list_all P b \<Longrightarrow> takeWhile P (b @ r) = b @ takeWhile P r"
  by (induction b) auto

lemma bearer_length_pos:
  "0 < bearer_length s \<longleftrightarrow> (\<exists>a b e r. s = a @ b @ e # r \<and> lower a = ''bearer'' \<and> b \<noteq> [] \<and> list_all is_space b \<and> bearer_char e)"
proof
  assume "0 < bearer_length s"
  then have m: "lower (take 6 s) = ''bearer''" "takeWhile is_space (drop 6 s) \<noteq> []"
    "takeWhile bearer_char (drop (6 + length (takeWhile is_space (drop 6 s))) s) \<noteq> []"
    by (auto simp: bearer_length_def Let_def split: if_splits)
  let ?b = "takeWhile is_space (drop 6 s)" and ?r = "drop (6 + length (takeWhile is_space (drop 6 s))) s"
  from m(3) obtain e r where e: "?r = e # r" "bearer_char e" by (cases ?r) (auto split: if_splits)
  have "drop 6 s = ?b @ ?r" by (metis add.commute drop_drop dropWhile_eq_drop takeWhile_dropWhile_id)
  then have "s = take 6 s @ ?b @ e # r" using e(1) by (metis append_take_drop_id)
  moreover have "list_all is_space ?b" by (auto simp: list_all_iff dest: set_takeWhileD)
  ultimately show "\<exists>a b e r. s = a @ b @ e # r \<and> lower a = ''bearer'' \<and> b \<noteq> [] \<and> list_all is_space b \<and> bearer_char e"
    using m e(2) by blast
next
  assume "\<exists>a b e r. s = a @ b @ e # r \<and> lower a = ''bearer'' \<and> b \<noteq> [] \<and> list_all is_space b \<and> bearer_char e"
  then obtain a b e r where s: "s = a @ b @ e # r" "lower a = ''bearer''" "b \<noteq> []" "list_all is_space b" "bearer_char e" by blast
  have len: "length a = 6" using arg_cong [OF s(2), of length] by (simp add: lower_length)
  then have "takeWhile is_space (drop 6 s) = b" using s bearer_not_space by (simp add: takeWhile_all)
  with s len show "0 < bearer_length s" by (simp add: bearer_length_def Let_def)
qed

lemma key_length_pos:
  "0 < key_length w s \<longleftrightarrow> \<not> w \<and> (\<exists>a e r. s = a @ e # r \<and> lower a = ''sk-'' \<and> key_char e)"
proof
  assume "0 < key_length w s"
  then have m: "\<not> w" "lower (take 3 s) = ''sk-''" "takeWhile key_char (drop 3 s) \<noteq> []"
    by (auto simp: key_length_def Let_def split: if_splits)
  from m(3) obtain e r where e: "drop 3 s = e # r" "key_char e" by (cases "drop 3 s") (auto split: if_splits)
  then have "s = take 3 s @ e # r" by (metis append_take_drop_id)
  with m e(2) show "\<not> w \<and> (\<exists>a e r. s = a @ e # r \<and> lower a = ''sk-'' \<and> key_char e)" by blast
next
  assume "\<not> w \<and> (\<exists>a e r. s = a @ e # r \<and> lower a = ''sk-'' \<and> key_char e)"
  then obtain a e r where s: "\<not> w" "s = a @ e # r" "lower a = ''sk-''" "key_char e" by blast
  have "length a = 3" using arg_cong [OF s(3), of length] by (simp add: lower_length)
  with s show "0 < key_length w s" by (simp add: key_length_def Let_def)
qed

lemma match_length_pos: "0 < match_length w s \<longleftrightarrow> 0 < bearer_length s \<or> 0 < key_length w s"
  by (simp add: match_length_def)

lemma masked_take: "masked s t \<Longrightarrow> CHR ''['' \<notin> set (take m t) \<Longrightarrow> take m s = take m t"
proof (induction arbitrary: m rule: masked.induct)
  case masked_Nil
  then show ?case by simp
next
  case (masked_keep s t c)
  then show ?case by (cases m) auto
next
  case (masked_hide s t x)
  then show ?case by (cases m) (auto simp: REDACTED_def)
qed

lemma masked_same_prefix:
  assumes "masked s (p @ r)" and "CHR ''['' \<notin> set p"
  shows "\<exists>r'. s = p @ r'"
  using masked_take [OF assms(1), of "length p"] assms(2) by (auto intro: exI [of _ "drop (length p) s"]) (metis append_take_drop_id)

lemma mark_lower: "CHR ''['' \<in> set a \<Longrightarrow> CHR ''['' \<in> set (lower a)"
  by (force simp: lower_def lower_char_def)

text \<open>A token in a masked text was already one in the original.\<close>

lemma match_unmasked:
  assumes "masked s t" and "0 < match_length w t"
  shows "0 < match_length w s"
  using assms(2) unfolding match_length_pos
proof (elim disjE)
  assume "0 < bearer_length t"
  then obtain a b e r where t: "t = a @ b @ e # r" "lower a = ''bearer''" "b \<noteq> []" "list_all is_space b" "bearer_char e"
    unfolding bearer_length_pos by blast
  have "CHR ''['' \<notin> set (a @ b @ [e])"
    using t mark_lower [of a] by (auto simp: list_all_iff is_space_def bearer_char_def is_ascii_alnum_def is_digit_def Let_def)
  then obtain r' where "s = (a @ b @ [e]) @ r'" using masked_same_prefix [of s "a @ b @ [e]" r] assms(1) t(1) by auto
  then have "s = a @ b @ e # r'" by simp
  with t have "0 < bearer_length s" unfolding bearer_length_pos by blast
  then show "0 < bearer_length s \<or> 0 < key_length w s" ..
next
  assume "0 < key_length w t"
  then obtain a e r where t: "\<not> w" "t = a @ e # r" "lower a = ''sk-''" "key_char e" unfolding key_length_pos by blast
  have "CHR ''['' \<notin> set (a @ [e])" using t mark_lower [of a] by (auto simp: key_char_def is_ascii_alnum_def is_digit_def)
  then obtain r' where "s = (a @ [e]) @ r'" using masked_same_prefix [of s "a @ [e]" r] assms(1) t(2) by auto
  then have "s = a @ e # r'" by simp
  with t have "0 < key_length w s" unfolding key_length_pos by blast
  then show "0 < bearer_length s \<or> 0 < key_length w s" ..
qed

lemma after_match:
  assumes "0 < match_length w s" and "drop (match_length w s) s = d # r"
  shows "\<not> is_ascii_alnum d"
proof (cases "0 < bearer_length s")
  case True
  let ?sp = "length (takeWhile is_space (drop 6 s))"
  from True have "match_length w s = (6 + ?sp) + length (takeWhile bearer_char (drop (6 + ?sp) s))"
    by (auto simp: match_length_def bearer_length_def Let_def split: if_splits)
  with assms(2) have "dropWhile bearer_char (drop (6 + ?sp) s) = d # r" by (simp add: dropWhile_eq_drop add.commute add.left_commute)
  then have "\<not> bearer_char d" using hd_dropWhile [of bearer_char "drop (6 + ?sp) s"] by simp
  then show ?thesis by (simp add: bearer_char_def)
next
  case False
  with assms(1) have "match_length w s = 3 + length (takeWhile key_char (drop 3 s))"
    by (auto simp: match_length_def key_length_def Let_def split: if_splits)
  with assms(2) have "dropWhile key_char (drop 3 s) = d # r" by (simp add: dropWhile_eq_drop add.commute)
  then have "\<not> key_char d" using hd_dropWhile [of key_char "drop 3 s"] by simp
  then show ?thesis by (simp add: key_char_def)
qed

lemma match_first:
  assumes "0 < match_length w (c # cs)"
  shows "lower_char c = CHR ''b'' \<or> lower_char c = CHR ''s''"
proof -
  have first: "lower_char c = d" if "c # cs = a @ r" "lower a = d # ds" for a r d ds
    using that by (cases a) (auto simp: lower_def)
  from assms show ?thesis
    unfolding match_length_pos
  proof (elim disjE)
    assume "0 < bearer_length (c # cs)"
    then obtain a b e r where "c # cs = a @ (b @ e # r)" "lower a = CHR ''b'' # ''earer''" unfolding bearer_length_pos by blast
    then show ?thesis using first by blast
  next
    assume "0 < key_length w (c # cs)"
    then obtain a e r where "c # cs = a @ (e # r)" "lower a = CHR ''s'' # ''k-''" unfolding key_length_pos by blast
    then show ?thesis using first by blast
  qed
qed

lemma mark_token_free: "token_free w (REDACTED @ t) \<longleftrightarrow> token_free False t"
proof -
  have no: "match_length w (c # cs) = 0" if "lower_char c \<noteq> CHR ''b''" "lower_char c \<noteq> CHR ''s''" for w c cs
    using match_first [of w c cs] that by (cases "0 < match_length w (c # cs)") simp_all
  have "word_char (CHR '']'') = False" by code_simp
  then show ?thesis by (simp add: REDACTED_def no lower_char_def)
qed

lemma hidden_tokens_free: "token_free w (hide_tokens w s)"
proof (induction w s rule: hide_tokens.induct)
  case (1 w)
  then show ?case by simp
next
  case (2 w c cs)
  let ?n = "match_length w (c # cs)"
  show ?case
  proof (cases "0 < ?n")
    case True
    let ?rest = "drop ?n (c # cs)" and ?v = "word_char (last (take ?n (c # cs)))"
    have IH: "token_free ?v (hide_tokens ?v ?rest)" using 2(1) [OF refl True] .
    have "token_free False (hide_tokens ?v ?rest)"
    proof (cases "hide_tokens ?v ?rest")
      case (Cons d r)
      have "match_length False (d # r) = 0"
      proof (rule ccontr)
        assume "match_length False (d # r) \<noteq> 0"
        then have pos: "0 < match_length False ?rest" using match_unmasked [OF masked_tokens, of False ?v ?rest] Cons by simp
        then obtain e r' where e: "?rest = e # r'" by (cases ?rest) (auto simp: match_length_pos bearer_length_pos key_length_pos)
        from match_first [of False e r'] pos e have "is_ascii_alnum e"
          by (auto simp: lower_char_def is_ascii_alnum_def is_digit_def split: if_splits)
        with after_match [OF True e] show False by blast
      qed
      with IH Cons show ?thesis by simp
    qed simp
    with True show ?thesis by (simp add: Let_def mark_token_free)
  next
    case False
    have "match_length w (c # hide_tokens (word_char c) cs) = 0"
      using match_unmasked [OF masked_keep [OF masked_tokens], of w c "word_char c" cs] False by auto
    with False 2(2) [OF refl False] show ?thesis by (simp add: Let_def)
  qed
qed

section \<open>Lines\<close>

fun texts :: "json \<Rightarrow> string list" where
  "texts (JStr t) = [t]"
| "texts (JArr vs) = concat (map texts vs)"
| "texts (JObj d) = concat (map (\<lambda>(_, v). texts v) d)"
| "texts _ = []"

text \<open>The entries of all dictionaries in a value, at any depth.\<close>

fun entries :: "json \<Rightarrow> (string \<times> json) list" where
  "entries (JArr vs) = concat (map entries vs)"
| "entries (JObj d) = d @ concat (map (\<lambda>(_, v). entries v) d)"
| "entries _ = []"

lemma dict_set_subset: "set (dict_set k v d) \<subseteq> insert (k, v) (set d)"
  by (induction d) auto

lemma dict_fold_subset: "set (fold (\<lambda>(k, v). dict_set k v) xs d) \<subseteq> set xs \<union> set d"
proof (induction xs arbitrary: d)
  case Nil
  then show ?case by simp
next
  case (Cons x xs)
  obtain k v where x: "x = (k, v)" by force
  from Cons [of "dict_set k v d"] dict_set_subset [of k v d] show ?case unfolding x by auto
qed

definition clean_entry :: "string list \<Rightarrow> string \<times> trace_value \<Rightarrow> string \<times> json" where
  "clean_entry secrets = (\<lambda>(k, v). (k, if lower k \<in> set SECRET_KEYS then JStr REDACTED else redact secrets v))"

lemma redact_dict: "redact secrets (TV_dict d) = JObj (fold (\<lambda>(k, v). dict_set k v) (map (clean_entry secrets) d) [])"
  by (simp add: clean_entry_def)

lemma redacted_member: "redact secrets (TV_dict d) = JObj e \<Longrightarrow> (k, x) \<in> set e \<Longrightarrow> \<exists>v. (k, v) \<in> set d \<and> (k, x) = clean_entry secrets (k, v)"
  using dict_fold_subset [of "map (clean_entry secrets) d" "[]"] unfolding redact_dict by (fastforce simp: clean_entry_def)

lemma redact_texts: "t \<in> set (texts (redact secrets v)) \<Longrightarrow> t = REDACTED \<or> (\<exists>u. t = scrub secrets u)"
proof (induction secrets v arbitrary: t rule: redact.induct)
  case (2 secrets d)
  obtain e where e: "redact secrets (TV_dict d) = JObj e" by simp
  with "2.prems" obtain k x where "(k, x) \<in> set e" "t \<in> set (texts x)" by auto
  with redacted_member [OF e] obtain v where "(k, v) \<in> set d" "x = (if lower k \<in> set SECRET_KEYS then JStr REDACTED else redact secrets v)"
    "t \<in> set (texts x)" by (auto simp: clean_entry_def)
  then show ?case using "2.IH" [of "(k, v)" k v t] by (auto split: if_splits)
qed auto

lemma redact_entries: "(k, x) \<in> set (entries (redact secrets v)) \<Longrightarrow> lower k \<in> set SECRET_KEYS \<Longrightarrow> x = JStr REDACTED"
proof (induction secrets v arbitrary: k x rule: redact.induct)
  case (2 secrets d)
  obtain e where e: "redact secrets (TV_dict d) = JObj e" by simp
  with "2.prems" consider "(k, x) \<in> set e" | k' y where "(k', y) \<in> set e" "(k, x) \<in> set (entries y)" by auto
  then show ?case
  proof cases
    case 1
    with redacted_member [OF e] "2.prems"(2) show ?thesis by (fastforce simp: clean_entry_def)
  next
    case 2
    with redacted_member [OF e] obtain v where "(k', v) \<in> set d" "y = (if lower k' \<in> set SECRET_KEYS then JStr REDACTED else redact secrets v)"
      "(k, x) \<in> set (entries y)" by (fastforce simp: clean_entry_def)
    then show ?thesis using "2.IH" [of "(k', v)" k' v k x] "2.prems"(2) by (auto split: if_splits)
  qed
qed auto

text \<open>One callback, or one event that the agent records itself.\<close>

inductive trace_step :: "trace_host \<Rightarrow> model_trace \<Rightarrow> model_trace \<Rightarrow> bool" for H :: trace_host where
  step_start: "trace_step H t (snd (on_chat_model_start H call batches t))"
| step_end: "trace_step H t (snd (on_llm_end H call generations t))"
| step_error: "trace_step H t (snd (on_llm_error H call error t))"
| step_graph: "trace_step H t (snd (graph_result H structured ms attempt t))"
| step_finish: "trace_step H t (snd (finish_trace H name failure t))"
| step_record: "trace_step H t (snd (record_event H name details t))"

definition redacted_lines :: "settings \<Rightarrow> string list \<Rightarrow> model_trace \<Rightarrow> bool" where
  "redacted_lines s secrets t \<longleftrightarrow> mt_secrets t = secrets \<and> (mt_path t = None \<longleftrightarrow> \<not> cf_llm_logging_enabled s)
     \<and> (\<forall>line \<in> set (mt_lines t). cf_llm_logging_enabled s \<and> (\<exists>d. line = redact secrets (TV_dict d)))"

lemma record_redacted: "redacted_lines s secrets t \<Longrightarrow> redacted_lines s secrets (snd (record_event H name details t))"
  by (auto simp: redacted_lines_def record_event_def trace_line_def simp del: redact.simps split: option.splits)

lemma end_call_redacted: "redacted_lines s secrets t \<Longrightarrow> redacted_lines s secrets (snd (end_call H call t))"
  by (auto simp: redacted_lines_def end_call_def read_clock_def Let_def simp del: redact.simps split: option.splits)

lemma record_ended_redacted:
  "redacted_lines s secrets t \<Longrightarrow> redacted_lines s secrets (snd (case end_call H call t of (x, u) \<Rightarrow> record_event H name (f x) u))"
  using end_call_redacted [of s secrets t H call] by (cases "end_call H call t") (simp add: record_redacted)

lemma step_redacted: "trace_step H t t' \<Longrightarrow> redacted_lines s secrets t \<Longrightarrow> redacted_lines s secrets t'"
proof (induction rule: trace_step.induct)
  case (step_start t call batches)
  then have "redacted_lines s secrets (t\<lparr>mt_llm_calls := a, mt_tick := b, mt_calls := c\<rparr>)" for a b c
    by (simp add: redacted_lines_def del: redact.simps)
  then show ?case by (simp add: on_chat_model_start_def read_clock_def Let_def record_redacted)
next
  case (step_end t call generations)
  then have "redacted_lines s secrets (t\<lparr>mt_input_tokens := a, mt_output_tokens := b\<rparr>)" for a b
    by (simp add: redacted_lines_def del: redact.simps)
  from record_ended_redacted [OF this] show ?case by (simp add: on_llm_end_def Let_def)
next
  case (step_error t call error)
  from record_ended_redacted [OF step_error] show ?case by (simp add: on_llm_error_def Let_def)
next
  case (step_graph t structured ms attempt)
  then show ?case by (simp add: graph_result_def record_redacted)
next
  case (step_finish t name failure)
  then have "redacted_lines s secrets (t\<lparr>mt_tick := b\<rparr>)" for b by (simp add: redacted_lines_def del: redact.simps)
  then show ?case by (simp add: finish_trace_def read_clock_def Let_def record_redacted)
next
  case (step_record t name details)
  then show ?case by (rule record_redacted)
qed

lemma steps_redacted: "(trace_step H)\<^sup>*\<^sup>* t t' \<Longrightarrow> redacted_lines s secrets t \<Longrightarrow> redacted_lines s secrets t'"
  by (induction rule: rtranclp_induct) (auto dest: step_redacted)


definition demo_trace_host :: trace_host where
  "demo_trace_host = \<lparr>th_clock = (\<lambda>n. rat_of_nat n), th_stamp = (\<lambda>_. ''now''), th_write = (\<lambda>_. None)\<rparr>"

definition demo_trace :: model_trace where
  "demo_trace = new_trace demo_trace_host (demo_settings\<lparr>cf_llm_logging_enabled := True\<rparr>) demo_gate_context ''intake-agent'' ''e''
     [(''PATH'', ''/usr/bin''), (''OPENAI_API_KEY'', ''opensesame'')]"


text \<open>
  Secrets are replaced one after the other: where one is the beginning of another, the rest of the longer one stays in the log.
\<close>

lemma overlapping_secret_leaks:
  "scrub [''abcdefgh'', ''abcdefgh-1234''] ''key abcdefgh-1234'' = ''key [redacted]-1234''"
  by code_simp

end
