(* ===== verification/Provisioning.thy ===== *)
theory Provisioning
  imports Sandbox Effects
begin

text \<open>
  \<open>sandbox/provisioning.py\<close>: a runtime archive is fetched, compared with the pinned digest, unpacked within limits and staged, and the
  configuration of the Docker daemon is planned. What was staged before and the plans are the state; the host, the network and the
  archive library are an environment.
\<close>

definition MAX_ARCHIVE_BYTES :: nat where
  "MAX_ARCHIVE_BYTES = 2 * 1024 ^ 3"

definition MAX_EXTRACTED_BYTES :: int where
  "MAX_EXTRACTED_BYTES = 8 * 1024 ^ 3"

definition MAX_MEMBERS :: nat where
  "MAX_MEMBERS = 100000"

section \<open>Environment and state\<close>

datatype staged_entry = Symlink string | Regular string nat | Directory

text \<open>The entries below a directory with their relative names, in the order of \<open>sorted(directory.rglob("*"))\<close>.\<close>

type_synonym payload = "(string \<times> staged_entry) list"

record tar_member =
  tm_name :: string
  tm_size :: int

text \<open>A source of pieces may fail after some of them: chunks of a download, members of an archive.\<close>

record provision_host =
  ph_py :: pyenv
  ph_system :: string
  ph_machine :: string
  ph_lock :: "json result"
  ph_kvm :: bool
  ph_download :: "nat \<Rightarrow> json \<Rightarrow> string list \<times> py_error option"
  ph_digest :: "json \<Rightarrow> string \<Rightarrow> string result"
  ph_members :: "string \<Rightarrow> tar_member list \<times> py_error option"
  ph_extract :: "nat \<Rightarrow> tar_member \<Rightarrow> payload \<Rightarrow> payload result"
  ph_exists :: "payload \<Rightarrow> string \<Rightarrow> bool"
  ph_sha256 :: "string \<Rightarrow> string"
  ph_os :: "nat \<Rightarrow> py_error option"
  ph_stamp :: "nat \<Rightarrow> string"
  ph_root :: string

text \<open>A local archive: whether it is a file, its size and its content.\<close>

record local_archive =
  la_is_file :: bool
  la_size :: nat
  la_content :: "string result"

record provision_state =
  pr_tick :: nat
  pr_staged :: "(string \<times> payload) list"
  pr_plans :: "(string \<times> jdict) list"
  pr_daemons :: "(string \<times> jdict) list"

type_synonym 'a provision = "(provision_state, 'a) op"

definition at_tick :: "(nat \<Rightarrow> 'a result) \<Rightarrow> 'a provision" where
  "at_tick f = (\<lambda>s. (f (pr_tick s), s\<lparr>pr_tick := pr_tick s + 1\<rparr>))"

definition os_step :: "provision_host \<Rightarrow> unit provision" where
  "os_step H = at_tick (\<lambda>n. case ph_os H n of None \<Rightarrow> Inr () | Some e \<Rightarrow> Inl e)"

section \<open>The lock and the configuration of the daemon\<close>

definition runtime_lock :: "provision_host \<Rightarrow> string \<Rightarrow> json result" where
  "runtime_lock H runtime = (case rbind (ph_lock H) (\<lambda>v. json_key v runtime) of
       Inl e \<Rightarrow> if os_error e \<or> (case e of ValueError _ \<Rightarrow> True | KeyError _ \<Rightarrow> True | TypeError _ \<Rightarrow> True | _ \<Rightarrow> False)
         then Inl (ValueError ''Run prepare-runtime from a checkout containing dev/runtime-lock.json'') else Inl e
     | Inr pin \<Rightarrow> Inr pin)"

definition runtime_entry :: "string \<Rightarrow> json" where
  "runtime_entry runtime = JObj [if runtime = ''runsc'' then (''path'', JStr ''/opt/aidlc/runsc-release-20260907.0/runsc'')
     else (''runtimeType'', JStr ''/opt/kata/bin/containerd-shim-kata-v2'')]"

definition daemon_config :: "jdict \<Rightarrow> string \<Rightarrow> jdict result" where
  "daemon_config existing runtime =
     rbind (guard (runtime \<in> {''runsc'', ''kata''}) (ValueError ''Unsupported runtime registration'')) (\<lambda>_.
     case (case map_of existing ''runtimes'' of None \<Rightarrow> JObj [] | Some v \<Rightarrow> v) of
       JObj runtimes \<Rightarrow>
         rbind (guard (case map_of runtimes runtime of None \<Rightarrow> True | Some v \<Rightarrow> py_eq v (runtime_entry runtime))
           (ValueError (''Existing '' @ runtime @ '' registration conflicts with the pinned plan''))) (\<lambda>_.
         Inr (dict_set ''runtimes'' (JObj (dict_set runtime (runtime_entry runtime) runtimes)) existing))
     | _ \<Rightarrow> Inl (ValueError ''Existing Docker runtimes must be an object''))"

section \<open>Archives\<close>

text \<open>Chunks are written as long as the limit holds; the failure of the source is only met after the last of them.\<close>

fun collect_chunks :: "string list \<Rightarrow> py_error option \<Rightarrow> string \<Rightarrow> string result" where
  "collect_chunks [] failure got = (case failure of None \<Rightarrow> Inr got | Some e \<Rightarrow> Inl e)"
| "collect_chunks (c # cs) failure got =
     (if MAX_ARCHIVE_BYTES < length (got @ c) then Inl (ValueError ''Runtime archive exceeds download limit'')
      else collect_chunks cs failure (got @ c))"

definition fetch_archive :: "provision_host \<Rightarrow> json \<Rightarrow> local_archive option \<Rightarrow> string provision" where
  "fetch_archive H pin archive = (case archive of
       None \<Rightarrow> obind (oread (\<lambda>_. json_key pin ''url'')) (\<lambda>url.
         at_tick (\<lambda>n. case ph_download H n url of (chunks, failure) \<Rightarrow> collect_chunks chunks failure []))
     | Some a \<Rightarrow> obind (oread (\<lambda>_. guard (la_is_file a \<and> la_size a \<le> MAX_ARCHIVE_BYTES)
           (ValueError ''Runtime archive is absent or exceeds size limit''))) (\<lambda>_.
         oread (\<lambda>_. la_content a)))"

fun extract_members :: "provision_host \<Rightarrow> tar_member list \<Rightarrow> py_error option \<Rightarrow> int \<Rightarrow> string list \<Rightarrow> payload \<Rightarrow> payload provision" where
  "extract_members H [] failure volume seen files = (case failure of None \<Rightarrow> oreturn files | Some e \<Rightarrow> oraise e)"
| "extract_members H (m # ms) failure volume seen files =
     (if MAX_EXTRACTED_BYTES < volume + tm_size m \<or> MAX_MEMBERS \<le> length seen
      then oraise (ValueError ''Runtime archive exceeds extraction limits'')
      else if tm_name m \<in> set seen then oraise (ValueError ''Duplicate runtime archive member'')
      else obind (at_tick (\<lambda>n. ph_extract H n m files)) (\<lambda>files'.
        extract_members H ms failure (volume + tm_size m) (tm_name m # seen) files'))"

definition extract_archive :: "provision_host \<Rightarrow> string \<Rightarrow> payload provision" where
  "extract_archive H archive = (case ph_members H archive of (ms, failure) \<Rightarrow> extract_members H ms failure 0 [] [])"

fun octal :: "nat \<Rightarrow> string" where
  "octal n = (if n < 8 then nat_str n else octal (n div 8) @ nat_str (n mod 8))"

text \<open>Links are described by their target, files by their digest and permissions; directories are left out.\<close>

definition staged_inputs :: "provision_host \<Rightarrow> payload \<Rightarrow> (string \<times> string) list" where
  "staged_inputs H files = concat (map (\<lambda>(name, e). case e of
       Symlink goal \<Rightarrow> [(name, ''symlink:'' @ goal)]
     | Regular content mode \<Rightarrow> [(name, ''sha256:'' @ ph_sha256 H content @ '':mode='' @ octal (mode mod 512))]
     | Directory \<Rightarrow> []) files)"

section \<open>Preparing a runtime\<close>

definition required_paths :: "string \<Rightarrow> string list" where
  "required_paths runtime = (if runtime = ''runsc'' then [''runsc'', ''containerd-shim-runsc-v1'', ''gvisor-bin'']
     else [''opt/kata/bin/containerd-shim-kata-v2'', ''opt/kata/share/defaults''])"

text \<open>The content of a verified archive.\<close>

definition unpack_pinned :: "provision_host \<Rightarrow> string \<Rightarrow> json \<Rightarrow> local_archive option \<Rightarrow> payload provision" where
  "unpack_pinned H runtime pin archive =
     obind (fetch_archive H pin archive) (\<lambda>bytes.
     obind (oread (\<lambda>_. rbind (json_key pin ''algorithm'') (\<lambda>algorithm. ph_digest H algorithm bytes))) (\<lambda>digest.
     obind (oread (\<lambda>_. rbind (json_key pin ''digest'') (\<lambda>pinned.
       guard (pinned = JStr digest) (ValueError ''Runtime archive checksum differs from dev/runtime-lock.json'')))) (\<lambda>_.
     obind (extract_archive H bytes) (\<lambda>files.
     obind (oguard (list_all (ph_exists H files) (required_paths runtime))
       (ValueError ''Pinned runtime archive is missing required binaries or sidecars'')) (\<lambda>_.
     oreturn files)))))"

text \<open>A directory that is staged already is compared, never replaced; two dictionaries are equal if their items are.\<close>

definition stage_files :: "provision_host \<Rightarrow> string \<Rightarrow> payload \<Rightarrow> unit provision" where
  "stage_files H target files =
     obind (oread (\<lambda>s. Inr (map_of (pr_staged s) target))) (\<lambda>staged. case staged of
       Some present \<Rightarrow> oguard (set (staged_inputs H present) = set (staged_inputs H files))
         (ValueError ''Staged runtime was modified; select a clean data directory'')
     | None \<Rightarrow> obind (os_step H) (\<lambda>_. ochange (\<lambda>s. s\<lparr>pr_staged := pr_staged s @ [(target, files)]\<rparr>)))"

definition preparation_report :: "provision_host \<Rightarrow> string \<Rightarrow> json \<Rightarrow> json \<Rightarrow> string \<Rightarrow> string \<Rightarrow> payload \<Rightarrow> jdict \<Rightarrow> jdict" where
  "preparation_report H runtime version pin target stamp files configuration =
     [(''status'', JStr ''prepared''), (''runtime'', JStr runtime), (''version'', version), (''prepared_at'', JStr stamp), (''archive'', pin),
      (''staged_directory'', JStr target), (''inputs'', JObj (map (\<lambda>(k, v). (k, JStr v)) (staged_inputs H files))),
      (''daemon_config'', JObj configuration),
      (''install_destination'', JStr (if runtime = ''runsc'' then ''/opt/aidlc/runsc-release-20260907.0'' else ''/'')),
      (''qualification_required'', JBool True)]"

definition publish_plan :: "provision_host \<Rightarrow> string \<Rightarrow> jdict \<Rightarrow> jdict \<Rightarrow> unit provision" where
  "publish_plan H runtime report configuration =
     obind (os_step H) (\<lambda>_.
     obind (ochange (\<lambda>s. s\<lparr>pr_plans := dict_set runtime report (pr_plans s)\<rparr>)) (\<lambda>_.
     obind (os_step H) (\<lambda>_.
     ochange (\<lambda>s. s\<lparr>pr_daemons := dict_set runtime configuration (pr_daemons s)\<rparr>))))"

text \<open>The existing configuration of the daemon is the parsed content of a file, if one is given.\<close>

definition existing_config :: "json result option \<Rightarrow> jdict result" where
  "existing_config existing = (case existing of
       None \<Rightarrow> Inr []
     | Some r \<Rightarrow> rbind r (\<lambda>v. case v of JObj d \<Rightarrow> Inr d | _ \<Rightarrow> Inl (ValueError ''Existing Docker configuration must be an object'')))"

definition prepare_pinned :: "provision_host \<Rightarrow> string \<Rightarrow> json \<Rightarrow> local_archive option \<Rightarrow> jdict \<Rightarrow> jdict provision" where
  "prepare_pinned H runtime pin archive configuration =
     obind (os_step H) (\<lambda>_.
     obind (oread (\<lambda>_. json_key pin ''version'')) (\<lambda>version.
     let target = ph_root H @ ''/'' @ runtime @ ''-'' @ py_str (ph_py H) version in
     obind (unpack_pinned H runtime pin archive) (\<lambda>files.
     obind (stage_files H target files) (\<lambda>_.
     obind (at_tick (\<lambda>n. Inr (ph_stamp H n))) (\<lambda>stamp.
     let report = preparation_report H runtime version pin target stamp files configuration in
     obind (publish_plan H runtime report configuration) (\<lambda>_. oreturn report))))))"

definition prepare_runtime :: "provision_host \<Rightarrow> string \<Rightarrow> local_archive option \<Rightarrow> json result option \<Rightarrow> jdict provision" where
  "prepare_runtime H runtime archive existing =
     obind (oguard (runtime \<in> {''runsc'', ''kata''}) (ValueError ''Only runsc and Kata archives are provisioned'')) (\<lambda>_.
     obind (oguard (ph_system H = ''Linux'' \<and> ph_machine H \<in> {''x86_64'', ''amd64''}) (ValueError ''Runtime provisioning requires Linux amd64'')) (\<lambda>_.
     obind (oread (\<lambda>_. runtime_lock H runtime)) (\<lambda>pin.
     if runtime = ''kata'' \<and> \<not> ph_kvm H
     then obind (oread (\<lambda>_. json_key pin ''version'')) (\<lambda>version.
       oreturn [(''status'', JStr ''unavailable''), (''runtime'', JStr runtime), (''version'', version),
         (''reason'', JStr ''Kata provisioning skipped: /dev/kvm is not usable by the sandbox service'')])
     else obind (oread (\<lambda>_. rbind (existing_config existing) (\<lambda>d. daemon_config d runtime))) (prepare_pinned H runtime pin archive))))"

end
