(* ===== verification/ProvisioningTrust.thy ===== *)
theory ProvisioningTrust
  imports Provisioning Storage
begin

text \<open>
  Only a verified archive is staged, what is staged never changes, and the plan for the daemon keeps what it finds.
\<close>

section \<open>The plan for the daemon\<close>

text \<open>The plan adds one registration and keeps everything else; planning once more changes nothing.\<close>

lemma daemon_config_preserves:
  assumes "daemon_config existing runtime = Inr plan"
  shows "runtime \<in> {''runsc'', ''kata''}
    \<and> (\<exists>before. (map_of existing ''runtimes'' = Some (JObj before) \<or> map_of existing ''runtimes'' = None \<and> before = [])
        \<and> (map_of before runtime = None \<or> (\<exists>v. map_of before runtime = Some v \<and> py_eq v (runtime_entry runtime)))
        \<and> map_of plan ''runtimes'' = Some (JObj (dict_set runtime (runtime_entry runtime) before)))
    \<and> (\<forall>k. k \<noteq> ''runtimes'' \<longrightarrow> map_of plan k = map_of existing k)"
  using assms by (auto simp: daemon_config_def rbind_eq_Inr guard_eq update_conv' split: option.splits json.splits)

lemma dict_set_same: "map_of d k = Some v \<Longrightarrow> dict_set k v d = d"
  by (induction d) auto

lemma runtime_entry_equal: "runtime \<in> {''runsc'', ''kata''} \<Longrightarrow> py_eq (runtime_entry runtime) (runtime_entry runtime)"
proof -
  have "py_eq (runtime_entry ''runsc'') (runtime_entry ''runsc'')" "py_eq (runtime_entry ''kata'') (runtime_entry ''kata'')" by code_simp+
  then show "runtime \<in> {''runsc'', ''kata''} \<Longrightarrow> ?thesis" by blast
qed

lemma daemon_config_idempotent:
  assumes "daemon_config existing runtime = Inr plan"
  shows "daemon_config plan runtime = Inr plan"
proof -
  from daemon_config_preserves [OF assms] obtain before where "runtime \<in> {''runsc'', ''kata''}"
    "map_of plan ''runtimes'' = Some (JObj (dict_set runtime (runtime_entry runtime) before))" by blast
  then show ?thesis
    using runtime_entry_equal [of runtime]
    by (simp add: daemon_config_def guard_def dict_set_same update_conv' del: insert_iff)
qed

section \<open>What is unpacked\<close>

fun total_size :: "tar_member list \<Rightarrow> int" where
  "total_size [] = 0"
| "total_size (m # ms) = tm_size m + total_size ms"

text \<open>The payload that the archive library makes of the members, one after the other.\<close>

fun unpacks :: "provision_host \<Rightarrow> tar_member list \<Rightarrow> payload \<Rightarrow> payload \<Rightarrow> bool" where
  "unpacks H [] files files' \<longleftrightarrow> files' = files"
| "unpacks H (m # ms) files files' \<longleftrightarrow> (\<exists>n next'. ph_extract H n m files = Inr next' \<and> unpacks H ms next' files')"

lemma at_tick_Inr: "at_tick f s = (Inr x, s') \<longleftrightarrow> f (pr_tick s) = Inr x \<and> s' = s\<lparr>pr_tick := pr_tick s + 1\<rparr>"
  by (auto simp: at_tick_def)

lemma extract_members_Inr:
  "extract_members H ms failure volume seen files s = (Inr files', s') \<Longrightarrow> length seen \<le> MAX_MEMBERS \<Longrightarrow> volume \<le> MAX_EXTRACTED_BYTES \<Longrightarrow>
     failure = None \<and> unpacks H ms files files' \<and> distinct (map tm_name ms) \<and> set (map tm_name ms) \<inter> set seen = {}
     \<and> length seen + length ms \<le> MAX_MEMBERS \<and> volume + total_size ms \<le> MAX_EXTRACTED_BYTES"
proof (induction H ms failure volume seen files arbitrary: s rule: extract_members.induct)
  case (1 H failure volume seen files)
  then show ?case by (auto simp: oreturn_def oraise_def split: option.splits)
next
  case (2 H m ms failure volume seen files)
  from "2.prems"(1) have g: "volume + tm_size m \<le> MAX_EXTRACTED_BYTES" "length seen < MAX_MEMBERS" "tm_name m \<notin> set seen"
    by (auto simp: oraise_def split: if_splits)
  with "2.prems"(1) obtain next' s1 where step: "ph_extract H (pr_tick s) m files = Inr next'"
    and rest: "extract_members H ms failure (volume + tm_size m) (tm_name m # seen) next' s1 = (Inr files', s')"
    by (auto simp: obind_Inr at_tick_Inr)
  have "\<not> (MAX_EXTRACTED_BYTES < volume + tm_size m \<or> MAX_MEMBERS \<le> length seen)" using g by auto
  from "2.IH" [OF this g(3) rest] g step show ?case by auto
qed

text \<open>Bytes with the pinned digest that unpack, within the limits, to the payload with all that is required.\<close>

definition pinned_payload :: "provision_host \<Rightarrow> string \<Rightarrow> payload \<Rightarrow> bool" where
  "pinned_payload H runtime files \<longleftrightarrow> (\<exists>pin algorithm digest bytes ms. runtime_lock H runtime = Inr pin
     \<and> json_key pin ''algorithm'' = Inr algorithm \<and> ph_digest H algorithm bytes = Inr digest \<and> json_key pin ''digest'' = Inr (JStr digest)
     \<and> ph_members H bytes = (ms, None) \<and> unpacks H ms [] files \<and> distinct (map tm_name ms) \<and> length ms \<le> MAX_MEMBERS
     \<and> total_size ms \<le> MAX_EXTRACTED_BYTES \<and> list_all (ph_exists H files) (required_paths runtime))"

lemma unpack_pinned_Inr:
  assumes "unpack_pinned H runtime pin archive s = (Inr files, s')" and "runtime_lock H runtime = Inr pin"
  shows "pinned_payload H runtime files"
proof -
  from assms(1) obtain bytes algorithm digest s1 where d: "json_key pin ''algorithm'' = Inr algorithm" "ph_digest H algorithm bytes = Inr digest"
    "json_key pin ''digest'' = Inr (JStr digest)" and e: "extract_archive H bytes s1 = (Inr files, s')"
    and req: "list_all (ph_exists H files) (required_paths runtime)"
    by (auto simp: unpack_pinned_def obind_Inr oread_def oguard_def oreturn_def oraise_def rbind_eq_Inr guard_eq split: if_splits)
  obtain ms failure where m: "ph_members H bytes = (ms, failure)" by force
  from e m have "extract_members H ms failure 0 [] [] s1 = (Inr files, s')" by (simp add: extract_archive_def)
  from extract_members_Inr [OF this] have "failure = None" "unpacks H ms [] files" "distinct (map tm_name ms)" "length ms \<le> MAX_MEMBERS"
    "total_size ms \<le> MAX_EXTRACTED_BYTES" by (simp_all add: MAX_EXTRACTED_BYTES_def)
  with d m req assms(2) show ?thesis unfolding pinned_payload_def by blast
qed

section \<open>What is staged\<close>

text \<open>Nothing that is staged changes, and what is added is a pinned payload.\<close>

definition stages :: "provision_host \<Rightarrow> string \<Rightarrow> provision_state \<Rightarrow> provision_state \<Rightarrow> bool" where
  "stages H runtime s s' \<longleftrightarrow> (\<exists>added. pr_staged s' = pr_staged s @ added
     \<and> (\<forall>(name, files) \<in> set added. map_of (pr_staged s) name = None \<and> pinned_payload H runtime files))"

definition unstaging :: "'a provision \<Rightarrow> bool" where
  "unstaging m \<longleftrightarrow> (\<forall>s r s'. m s = (r, s') \<longrightarrow> pr_staged s' = pr_staged s)"

lemma unstagingD: "unstaging m \<Longrightarrow> m s = (r, s') \<Longrightarrow> pr_staged s' = pr_staged s"
  by (simp add: unstaging_def)

named_theorems unstaging_rules "operations that stage nothing"

lemma unstaging_basic [unstaging_rules]: "unstaging (oreturn x)" "unstaging (oraise e)" "unstaging (oread f)" "unstaging (at_tick g)"
  "unstaging (oguard b e)" "unstaging (os_step H)" "(\<And>s. pr_staged (c s) = pr_staged s) \<Longrightarrow> unstaging (ochange c)"
  by (auto simp: unstaging_def op_simps at_tick_def os_step_def)

lemma unstaging_bind [unstaging_rules]:
  assumes "unstaging m" and "\<And>x. unstaging (f x)"
  shows "unstaging (obind m f)"
  unfolding unstaging_def by (auto elim!: obind_cases dest!: unstagingD [OF assms(1)] unstagingD [OF assms(2)])

lemma unstaging_if [unstaging_rules]: "(b \<Longrightarrow> unstaging m) \<Longrightarrow> (\<not> b \<Longrightarrow> unstaging n) \<Longrightarrow> unstaging (if b then m else n)"
  by simp

lemma unstaging_members [unstaging_rules]: "unstaging (extract_members H ms failure volume seen files)"
  by (induction H ms failure volume seen files rule: extract_members.induct) (auto simp: unstaging_rules split: option.split)

lemma unstaging_unpack [unstaging_rules]: "unstaging (unpack_pinned H runtime pin archive)"
proof -
  have "unstaging (fetch_archive H pin archive)"
    unfolding fetch_archive_def by (cases archive) (simp_all add: unstaging_rules)
  moreover have "unstaging (extract_archive H bytes)" for bytes
    unfolding extract_archive_def by (simp add: unstaging_rules split: prod.split)
  ultimately show ?thesis unfolding unpack_pinned_def by (intro unstaging_rules)
qed

lemma unstaging_plan [unstaging_rules]: "unstaging (publish_plan H runtime report configuration)"
  unfolding publish_plan_def by (intro unstaging_rules) simp_all

lemma stages_same: "pr_staged s' = pr_staged s \<Longrightarrow> stages H runtime s s'"
  by (simp add: stages_def)

lemma stage_files_stages:
  assumes "stage_files H target files s = (r, s')" and "pinned_payload H runtime files"
  shows "stages H runtime s s' \<and> (r = Inr () \<longrightarrow> (\<exists>present. map_of (pr_staged s') target = Some present
    \<and> set (staged_inputs H present) = set (staged_inputs H files)))"
proof (cases "map_of (pr_staged s) target")
  case None
  with assms(1) have "obind (os_step H) (\<lambda>_. ochange (\<lambda>s. s\<lparr>pr_staged := pr_staged s @ [(target, files)]\<rparr>)) s = (r, s')"
    by (simp add: stage_files_def obind_def oread_def)
  then show ?thesis
  proof (cases rule: obind_cases)
    case (1 e)
    then show ?thesis using unstagingD [OF unstaging_basic(6)] stages_same by blast
  next
    case (2 x s1)
    from unstagingD [OF unstaging_basic(6) 2(1)] 2(2) have "pr_staged s' = pr_staged s @ [(target, files)]" by (auto simp: ochange_def)
    with None assms(2) show ?thesis by (auto simp: stages_def map_add_def)
  qed
next
  case (Some present)
  with assms(1) have "s' = s" "r = Inr () \<longrightarrow> set (staged_inputs H present) = set (staged_inputs H files)"
    by (auto simp: stage_files_def obind_def oread_def oguard_def oreturn_def oraise_def split: if_splits)
  with Some stages_same show ?thesis by blast
qed

lemma prepare_pinned_stages:
  assumes "prepare_pinned H runtime pin archive configuration s = (r, s')" and "runtime_lock H runtime = Inr pin"
  shows "stages H runtime s s' \<and> (\<forall>report. r = Inr report \<longrightarrow> (\<exists>version stamp target files present.
      report = preparation_report H runtime version pin target stamp files configuration \<and> pinned_payload H runtime files
      \<and> map_of (pr_staged s') target = Some present \<and> set (staged_inputs H present) = set (staged_inputs H files)))"
proof -
  let ?after = "\<lambda>version target files. obind (at_tick (\<lambda>n. Inr (ph_stamp H n))) (\<lambda>stamp.
     let report = preparation_report H runtime version pin target stamp files configuration in
     obind (publish_plan H runtime report configuration) (\<lambda>_. oreturn report))"
  from assms(1) [unfolded prepare_pinned_def] show ?thesis
  proof (cases rule: obind_cases)
    case (1 e)
    then show ?thesis using unstagingD [OF unstaging_basic(6)] stages_same by blast
  next
    case (2 u s1)
    have s1: "pr_staged s1 = pr_staged s" using unstagingD [OF unstaging_basic(6) 2(1)] .
    from 2(2) show ?thesis
    proof (cases rule: obind_cases)
      case (1 e)
      then show ?thesis using stages_same s1 by (auto simp: oread_def)
    next
      case (2 version s2)
      define target where "target = ph_root H @ ''/'' @ runtime @ ''-'' @ py_str (ph_py H) version"
      have s2: "pr_staged s2 = pr_staged s" using unstagingD [OF unstaging_basic(3) 2(1)] s1 by simp
      from 2(2) [unfolded Let_def, folded destination_def] show ?thesis
      proof (cases rule: obind_cases)
        case (1 e)
        then show ?thesis using unstagingD [OF unstaging_unpack 1(1)] s2 stages_same [of s' s] by simp
      next
        case (2 files s3)
        have s3: "pr_staged s3 = pr_staged s" using unstagingD [OF unstaging_unpack 2(1)] s2 by simp
        note pinned = unpack_pinned_Inr [OF 2(1) assms(2)]
        from 2(2) show ?thesis
        proof (cases rule: obind_cases)
          case (1 e)
          with stage_files_stages [OF 1(1) pinned] s3 show ?thesis by (simp add: stages_def)
        next
          case (2 v s4)
          from stage_files_stages [OF 2(1) pinned] have st: "stages H runtime s3 s4" and staged: "\<exists>present. map_of (pr_staged s4) target = Some present
              \<and> set (staged_inputs H present) = set (staged_inputs H files)" by (simp_all add: target_def)
          have staged': "stages H runtime s s4" using st unfolding stages_def s3 .
          have "unstaging (?after version target files)" unfolding Let_def by (intro unstaging_rules)
          then have same: "pr_staged s' = pr_staged s4" using unstagingD 2(2) unfolding Let_def target_def by blast
          have "\<exists>stamp. report = preparation_report H runtime version pin target stamp files configuration" if "r = Inr report" for report
            using 2(2) that by (auto simp: obind_Inr oreturn_def target_def)
          moreover have "stages H runtime s s'" using staged' unfolding stages_def same .
          ultimately show ?thesis using staged [folded same] pinned by blast
        qed
      qed
    qed
  qed
qed

lemma obind_return: "obind (oreturn x) f = f x"
  by (simp add: obind_def oreturn_def fun_eq_iff)

lemma prepare_runtime_cases:
  assumes "prepare_runtime H runtime archive existing s = (r, s')"
  shows "(\<exists>e. r = Inl e) \<and> s' = s \<or> (\<exists>report. r = Inr report \<and> dget report ''status'' = JStr ''unavailable'') \<and> s' = s
    \<or> (\<exists>pin before configuration. runtime_lock H runtime = Inr pin \<and> existing_config existing = Inr before
        \<and> daemon_config before runtime = Inr configuration \<and> prepare_pinned H runtime pin archive configuration s = (r, s'))"
proof (cases "runtime \<in> {''runsc'', ''kata''} \<and> ph_system H = ''Linux'' \<and> ph_machine H \<in> {''x86_64'', ''amd64''}")
  case False
  have "(\<exists>e. r = Inl e) \<and> s' = s"
  proof (cases "runtime \<in> {''runsc'', ''kata''}")
    case True
    with False have "\<not> (ph_system H = ''Linux'' \<and> ph_machine H \<in> {''x86_64'', ''amd64''})" by blast
    with assms show ?thesis
      unfolding prepare_runtime_def by (simp only: oguard_def True if_True if_False obind_def oreturn_def oraise_def prod.case sum.case prod.inject) blast
  next
    case False
    with assms show ?thesis
      unfolding prepare_runtime_def by (simp only: oguard_def if_False obind_def oraise_def prod.case sum.case prod.inject) blast
  qed
  then show ?thesis by blast
next
  case True
  with assms have run: "obind (oread (\<lambda>_. runtime_lock H runtime)) (\<lambda>pin.
     if runtime = ''kata'' \<and> \<not> ph_kvm H
     then obind (oread (\<lambda>_. json_key pin ''version'')) (\<lambda>version.
       oreturn [(''status'', JStr ''unavailable''), (''runtime'', JStr runtime), (''version'', version),
         (''reason'', JStr ''Kata provisioning skipped: /dev/kvm is not usable by the sandbox service'')])
     else obind (oread (\<lambda>_. rbind (existing_config existing) (\<lambda>d. daemon_config d runtime))) (prepare_pinned H runtime pin archive)) s = (r, s')"
    unfolding prepare_runtime_def by (simp only: oguard_def if_True obind_return simp_thms)
  show ?thesis
  proof (cases "runtime_lock H runtime")
    case (Inl e)
    with run have "r = Inl e" "s' = s" by (simp_all add: obind_def oread_def)
    then show ?thesis by blast
  next
    case (Inr pin)
    show ?thesis
    proof (cases "runtime = ''kata'' \<and> \<not> ph_kvm H")
      case True
      with run Inr have "obind (oread (\<lambda>_. json_key pin ''version'')) (\<lambda>version.
         oreturn [(''status'', JStr ''unavailable''), (''runtime'', JStr runtime), (''version'', version),
           (''reason'', JStr ''Kata provisioning skipped: /dev/kvm is not usable by the sandbox service'')]) s = (r, s')"
        by (simp add: obind_def oread_def)
      then show ?thesis by (cases "json_key pin ''version''") (auto simp: obind_def oread_def oreturn_def dget_def)
    next
      case False
      with run Inr have rest: "obind (oread (\<lambda>_. rbind (existing_config existing) (\<lambda>d. daemon_config d runtime))) (prepare_pinned H runtime pin archive) s = (r, s')"
        by (auto simp: obind_def oread_def)
      show ?thesis
      proof (cases "rbind (existing_config existing) (\<lambda>d. daemon_config d runtime)")
        case (Inl e)
        with rest have "r = Inl e" "s' = s" by (simp_all add: obind_def oread_def)
        then show ?thesis by blast
      next
        case conf: (Inr configuration)
        with rest have "prepare_pinned H runtime pin archive configuration s = (r, s')" by (simp add: obind_def oread_def)
        with conf Inr show ?thesis by (auto simp: rbind_eq_Inr)
      qed
    qed
  qed
qed


text \<open>A host that stages a small archive.\<close>

definition demo_pin :: json where
  "demo_pin = JObj [(''version'', JStr ''1''), (''algorithm'', JStr ''sha512''), (''digest'', JStr ''d''), (''url'', JStr ''u'')]"

definition demo_provision :: provision_host where
  "demo_provision = \<lparr>ph_py = demo_env, ph_system = ''Linux'', ph_machine = ''x86_64'', ph_lock = Inr (JObj [(''runsc'', demo_pin)]), ph_kvm = False,
     ph_download = (\<lambda>_ _. ([], None)), ph_digest = (\<lambda>_ _. Inr ''d''), ph_members = (\<lambda>_. ([\<lparr>tm_name = ''runsc'', tm_size = 1\<rparr>], None)),
     ph_extract = (\<lambda>_ m files. Inr (files @ [(tm_name m, Regular ''x'' 493)])), ph_exists = (\<lambda>_ _. True), ph_sha256 = (\<lambda>_. ''e''),
     ph_os = (\<lambda>_. None), ph_stamp = (\<lambda>_. ''now''), ph_root = ''/data''\<rparr>"

definition unprepared :: provision_state where
  "unprepared = \<lparr>pr_tick = 0, pr_staged = [], pr_plans = [], pr_daemons = []\<rparr>"

lemma demo_provision_fields:
  "ph_system demo_provision = ''Linux''" "ph_machine demo_provision = ''x86_64''" "runtime_lock demo_provision ''runsc'' = Inr demo_pin"
  "ph_download demo_provision n u = ([], None)" "ph_digest demo_provision a bytes = Inr ''d''"
  "ph_members demo_provision bytes = ([\<lparr>tm_name = ''runsc'', tm_size = 1\<rparr>], None)"
  "ph_extract demo_provision n m files = Inr (files @ [(tm_name m, Regular ''x'' 493)])" "ph_exists demo_provision files p" "ph_os demo_provision n = None"
  by (simp_all add: demo_provision_def runtime_lock_def json_key_def dindex_def)

lemma demo_pin_keys: "json_key demo_pin ''version'' = Inr (JStr ''1'')" "json_key demo_pin ''algorithm'' = Inr (JStr ''sha512'')"
  "json_key demo_pin ''digest'' = Inr (JStr ''d'')" "json_key demo_pin ''url'' = Inr (JStr ''u'')"
  by (simp_all add: demo_pin_def json_key_def dindex_def)

lemma demo_unpacked: "unpack_pinned demo_provision ''runsc'' demo_pin None s = (Inr [(''runsc'', Regular ''x'' 493)], s\<lparr>pr_tick := pr_tick s + 2\<rparr>)"
proof -
  have "\<not> MAX_EXTRACTED_BYTES < 1" "MAX_MEMBERS \<noteq> 0" by (simp_all add: MAX_EXTRACTED_BYTES_def MAX_MEMBERS_def)
  then show ?thesis
    by (simp add: unpack_pinned_def fetch_archive_def extract_archive_def required_paths_def obind_def oread_def oguard_def oreturn_def at_tick_def
        demo_provision_fields demo_pin_keys)
qed

lemma demo_prepared: "\<exists>report s. prepare_runtime demo_provision ''runsc'' None None unprepared = (Inr report, s)
    \<and> dget report ''status'' = JStr ''prepared''"
  by (simp add: prepare_runtime_def prepare_pinned_def demo_unpacked stage_files_def publish_plan_def
        daemon_config_def existing_config_def os_step_def obind_def oread_def oguard_def oreturn_def ochange_def at_tick_def demo_provision_fields
        demo_pin_keys unprepared_def Let_def preparation_report_def dget_def guard_def)


end
