(* ===== verification/ToolPolicy.thy ===== *)
theory ToolPolicy
  imports AgentRuntime
begin

text \<open>
  \<open>agents/deep.py\<close>, the construction of a specialist's graph: the policy on its tools, the limits of its model and the
  handler of malformed output. The text of the prompt is a parameter, a new model is described by the options it is made with, and the
  graph that the library makes of the plan is the environment of \<open>AgentRuntime\<close>.
\<close>

section \<open>The tool policy\<close>

text \<open>A tool is a dictionary, or an object that may have a \<open>name\<close> and a \<open>__name__\<close>.\<close>

datatype agent_tool = Dict_tool jdict | Object_tool "json option" "json option"

definition tool_name :: "agent_tool \<Rightarrow> json result" where
  "tool_name t = (case t of
       Dict_tool d \<Rightarrow>
         if truthy (dget d ''name'') then Inr (dget d ''name'')
         else (case map_of d ''function'' of
             None \<Rightarrow> Inr JNull
           | Some (JObj f) \<Rightarrow> Inr (dget f ''name'')
           | Some _ \<Rightarrow> Inl (AttributeError ''get''))
     | Object_tool (Some name) _ \<Rightarrow> Inr name
     | Object_tool None (Some name) \<Rightarrow> Inr name
     | Object_tool None None \<Rightarrow> Inr JNull)"

text \<open>The names of the configured tools as a set, from which \<open>None\<close> and the delegation tool are taken.\<close>

definition allowed_names :: "agent_tool list \<Rightarrow> json list result" where
  "allowed_names configured = rbind (traverse (\<lambda>t. rbind (tool_name t) (\<lambda>name. rbind (hashed_in [] name) (\<lambda>_. Inr name))) configured)
     (\<lambda>names. Inr (filter (\<lambda>name. \<not> py_eq name JNull \<and> \<not> py_eq name (JStr ''task'')) names))"

record model_request =
  rq_tools :: "agent_tool list"
  rq_system :: string
  rq_messages :: "json list"

fun allowed_tools :: "json list \<Rightarrow> agent_tool list \<Rightarrow> agent_tool list result" where
  "allowed_tools allowed [] = Inr []"
| "allowed_tools allowed (t # ts) =
     rbind (tool_name t) (\<lambda>name. rbind (hashed_in allowed name) (\<lambda>kept.
     rbind (allowed_tools allowed ts) (\<lambda>rest. Inr (if kept then t # rest else rest))))"

text \<open>The middleware: what the handler of the library is called with.\<close>

definition configured_tools_only :: "json list \<Rightarrow> string \<Rightarrow> model_request \<Rightarrow> model_request result" where
  "configured_tools_only allowed system_prompt request =
     rbind (allowed_tools allowed (rq_tools request)) (\<lambda>ts. Inr (request\<lparr>rq_tools := ts, rq_system := system_prompt\<rparr>))"

definition specialist_tool_policy :: "agent_tool list \<Rightarrow> string \<Rightarrow> (model_request \<Rightarrow> model_request result) result" where
  "specialist_tool_policy configured system_prompt =
     rbind (allowed_names configured) (\<lambda>allowed. Inr (configured_tools_only allowed system_prompt))"

section \<open>The graph\<close>

text \<open>What the library is asked to build. \<open>gp_model\<close> is the given model, or the settings of a new one.\<close>

record model_options =
  mo_model :: string
  mo_max_tokens :: int
  mo_max_retries :: nat
  mo_responses_api :: bool

record 'm graph_plan =
  gp_model :: "'m + model_options"
  gp_name :: string
  gp_system_prompt :: string
  gp_tools :: "agent_tool list"
  gp_run_limit :: nat
  gp_schema :: output_schema
  gp_policy :: "model_request \<Rightarrow> model_request result"

definition model_options_of :: "settings \<Rightarrow> stage_name \<Rightarrow> model_options" where
  "model_options_of S stage =
     \<lparr>mo_model = cf_model S,
      mo_max_tokens = (if stage = IMPLEMENTATION then cf_max_implementation_output_tokens S else cf_max_model_output_tokens S),
      mo_max_retries = 0, mo_responses_api = starts_with (cf_model S) ''openai:''\<rparr>"

definition build_graph :: "settings \<Rightarrow> stage_name \<Rightarrow> string \<Rightarrow> (string \<Rightarrow> string result) \<Rightarrow> 'm option \<Rightarrow> agent_tool list \<Rightarrow> 'm graph_plan result" where
  "build_graph S stage name prompt_for model tools =
     rbind (guard (\<not> cf_general_purpose_subagent_enabled S)
       (ValueError ''Native Deep Agents delegation is disabled: agent calls must use A2A'')) (\<lambda>_.
     rbind (agent_profile stage name) (\<lambda>(schema, _).
     rbind (prompt_for name) (\<lambda>prompt.
     rbind (specialist_tool_policy tools prompt) (\<lambda>policy.
     Inr \<lparr>gp_model = (case model of Some m \<Rightarrow> Inl m | None \<Rightarrow> Inr (model_options_of S stage)),
       gp_name = name, gp_system_prompt = prompt, gp_tools = tools, gp_run_limit = cf_max_agent_steps S,
       gp_schema = schema, gp_policy = policy\<rparr>))))"

text \<open>The handler of output that does not match the schema, with the number of repairs so far.\<close>

definition repair_output :: "settings \<Rightarrow> nat \<Rightarrow> string result \<times> nat" where
  "repair_output S repairs = (if cf_max_repair_attempts S < int (repairs + 1) then Inl (ValueError ''Structured-output repair limit exceeded'')
     else Inr ''Output did not match the schema. Correct the fields and return structured output.'', repairs + 1)"

section \<open>Properties\<close>

lemma hashed_in_Inr: "hashed_in xs v = Inr b \<Longrightarrow> b = (\<exists>x \<in> set xs. py_eq v x)"
  by (auto simp: hashed_in_def list_ex_iff split: json.splits)

text \<open>What is kept of the tools of a request, in their order.\<close>

definition allowed_tool :: "json list \<Rightarrow> agent_tool \<Rightarrow> bool" where
  "allowed_tool allowed t \<longleftrightarrow> (\<exists>name. tool_name t = Inr name \<and> (\<exists>a \<in> set allowed. py_eq name a))"

lemma allowed_tools_Inr: "allowed_tools allowed ts = Inr kept \<Longrightarrow> kept = filter (allowed_tool allowed) ts"
proof (induction ts arbitrary: kept)
  case Nil
  then show ?case by simp
next
  case (Cons t ts)
  from Cons.prems obtain name where name: "tool_name t = Inr name" by (cases "tool_name t") simp_all
  with Cons.prems obtain b where b: "hashed_in allowed name = Inr b" by (cases "hashed_in allowed name") simp_all
  from Cons.prems name b obtain rest where rest: "allowed_tools allowed ts = Inr rest" by (cases "allowed_tools allowed ts") simp_all
  from Cons.prems name b rest have kept: "kept = (if b then t # rest else rest)" by simp
  have "allowed_tool allowed t = b" using name hashed_in_Inr [OF b] by (simp add: allowed_tool_def)
  with Cons.IH [OF rest] kept show ?case by simp
qed

lemma allowed_names_Inr:
  assumes "allowed_names configured = Inr names" and "a \<in> set names"
  shows "\<not> py_eq a JNull \<and> \<not> py_eq a (JStr ''task'') \<and> (\<exists>t \<in> set configured. tool_name t = Inr a)"
proof -
  let ?f = "\<lambda>t. rbind (tool_name t) (\<lambda>name. rbind (hashed_in [] name) (\<lambda>_. Inr name))"
  from assms(1) obtain all where all: "traverse ?f configured = Inr all"
    "names = filter (\<lambda>name. \<not> py_eq name JNull \<and> \<not> py_eq name (JStr ''task'')) all"
    by (cases "traverse ?f configured") (simp_all add: allowed_names_def)
  with assms(2) have a: "a \<in> set all" "\<not> py_eq a JNull" "\<not> py_eq a (JStr ''task'')" by auto
  have named: "tool_name t = Inr name" if "?f t = Inr name" for t name
    using that by (cases "tool_name t"; cases "hashed_in [] (projr (tool_name t))") simp_all
  have "list_all2 (\<lambda>t name. tool_name t = Inr name) configured all"
    using all(1) unfolding traverse_Inr_iff by (rule list_all2_mono) (rule named)
  moreover obtain i where "i < length all" "all ! i = a" using a(1) by (auto simp only: in_set_conv_nth)
  ultimately have "i < length configured" "tool_name (configured ! i) = Inr a" by (auto simp: list_all2_conv_all_nth)
  then have "\<exists>t \<in> set configured. tool_name t = Inr a" using nth_mem by blast
  with a show ?thesis by blast
qed

text \<open>
  C39. A specialist only sees its own tools. A graph is built only with native delegation switched off. Whatever tools the library adds to
  a request, the model is called with the specialist's system prompt and, in their order, exactly those tools of the request whose name
  is that of a configured tool; a tool without a name and the delegation tool are never among them, not even if configured.
\<close>

theorem specialist_tools_restricted:
  assumes "build_graph S stage name prompt_for model tools = Inr g" and "gp_policy g request = Inr sent"
  shows "\<not> cf_general_purpose_subagent_enabled S \<and> gp_run_limit g = cf_max_agent_steps S
    \<and> prompt_for name = Inr (rq_system sent) \<and> rq_messages sent = rq_messages request
    \<and> (\<exists>names. allowed_names tools = Inr names \<and> rq_tools sent = filter (allowed_tool names) (rq_tools request))
    \<and> (\<forall>t \<in> set (rq_tools sent). \<exists>own c offered. c \<in> set tools \<and> tool_name c = Inr own \<and> tool_name t = Inr offered \<and> py_eq offered own
        \<and> \<not> py_eq offered JNull \<and> \<not> py_eq offered (JStr ''task''))"
proof -
  from assms(1) obtain names prompt where g: "\<not> cf_general_purpose_subagent_enabled S" "gp_run_limit g = cf_max_agent_steps S"
    "allowed_names tools = Inr names" "gp_policy g = configured_tools_only names prompt" "prompt_for name = Inr prompt"
    by (auto simp: build_graph_def specialist_tool_policy_def rbind_eq_Inr guard_eq split: prod.splits)
  from assms(2) g(4) obtain ts where ts: "allowed_tools names (rq_tools request) = Inr ts" "sent = request\<lparr>rq_tools := ts, rq_system := prompt\<rparr>"
    by (auto simp: configured_tools_only_def rbind_eq_Inr)
  note kept = allowed_tools_Inr [OF ts(1)]
  have "\<exists>own c offered. c \<in> set tools \<and> tool_name c = Inr own \<and> tool_name t = Inr offered \<and> py_eq offered own
        \<and> \<not> py_eq offered JNull \<and> \<not> py_eq offered (JStr ''task'')" if "t \<in> set ts" for t
  proof -
    from that kept obtain offered a where a: "tool_name t = Inr offered" "a \<in> set names" "py_eq offered a" by (auto simp: allowed_tool_def)
    with allowed_names_Inr [OF g(3) a(2)] show ?thesis by (meson py_eq_equiv)
  qed
  with g ts kept show ?thesis by simp
qed

definition demo_tool_request :: model_request where
  "demo_tool_request = \<lparr>rq_tools = [Object_tool (Some (JStr ''task'')) None, Object_tool (Some (JStr ''write_file'')) None,
     Object_tool None (Some (JStr ''analyze_code''))], rq_system = ''files'', rq_messages = []\<rparr>"

theorem specialist_tools_restricted_witness:
  "\<exists>g sent. build_graph demo_settings IMPLEMENTATION ''backend-agent'' Inr (Some ()) [Object_tool (Some (JStr ''analyze_code'')) None] = Inr g
     \<and> gp_policy g demo_tool_request = Inr sent \<and> rq_system sent = ''backend-agent''
     \<and> rq_tools sent = [Object_tool None (Some (JStr ''analyze_code''))]"
proof -
  have "\<not> cf_general_purpose_subagent_enabled demo_settings" by (simp add: demo_settings_def)
  then obtain g where g: "build_graph demo_settings IMPLEMENTATION ''backend-agent'' Inr (Some ())
      [Object_tool (Some (JStr ''analyze_code'')) None] = Inr g"
    "gp_policy g = configured_tools_only [JStr ''analyze_code''] ''backend-agent''"
    by (simp add: build_graph_def guard_def agent_profile_def SPECIALISTS_def specialist_tool_policy_def allowed_names_def tool_name_def
        hashed_in_def py_eq_def)
  then obtain sent where sent: "gp_policy g demo_tool_request = Inr sent" "rq_tools sent = [Object_tool None (Some (JStr ''analyze_code''))]"
    by (simp add: configured_tools_only_def demo_tool_request_def tool_name_def hashed_in_def py_eq_def)
  have "rq_system sent = ''backend-agent''" using specialist_tools_restricted [OF g(1) sent(1)] by simp
  then show ?thesis using g(1) sent by blast
qed

end
