(* ===== verification/Spec2Isabelle.thy ===== *)
theory Spec2Isabelle
  imports Execution Finops Reconciliation OrphanRecovery TokenTrust ToolAccess AgentContract HostCheck ApiContract
    EvidenceTrust QualificationTrust ServicesContract ClientTrust WorkerTrust DiagnosticsTrust ProvisioningTrust ToolPolicy
begin

text \<open>
  A model of a multi-agent development lifecycle system written in Python (\<open>src/src/aidlc\<close>),
  together with the properties that make it correct. A hub drives a fixed pipeline of nine stages;
  specialist agents, reached over the agent-to-agent protocol, produce artifacts; deterministic
  quality gates and people decide whether the result is released.

  \<^bold>\<open>Conventions.\<close> A class is a record whose field names carry a prefix, an enumeration or a union is a
  datatype, and a Python exception is a value of \<open>py_error\<close> with the text of the exception. An
  operation that may raise returns \<open>py_error + 'a\<close>; a stateful operation is a function from
  the state to a result and the new state, and what it changed before it raised stays changed. Python's
  unbounded integers are \<open>int\<close>, finite floats are the rationals they denote, with rounding to
  binary64 where the code computes with them (\<open>Evaluation.double\<close>, \<open>Finops.rounded\<close>). Dictionaries keep
  their insertion order. Strings are lists of characters below 256.

  \<^bold>\<open>Foundations.\<close>
  \<^item> \<open>Prelude\<close>: exceptions, results, ordered dictionaries, string operations.
  \<^item> \<open>Json\<close>: JSON values with Python's equality and truth value, the canonical rendering whose digest
    identifies an artifact, \<open>repr\<close> and \<open>str\<close>.
  \<^item> \<open>Domain\<close>: \<open>domain/models.py\<close>, the shared data model with its validators and dumps.
  \<^item> \<open>Snapshots\<close>: \<open>storage/snapshots.py\<close>, which kinds a new snapshot invalidates; it is a strict order.
  \<^item> \<open>Config\<close>: \<open>config.py\<close>, all settings, their environment variables and their validation.
  \<^item> \<open>Effects\<close>: operations on an arbitrary state that may raise, with the Hoare triple \<open>triple\<close> for results and errors.
    \<open>Url\<close>: \<open>urllib.parse.urlsplit\<close> and the parts of its result.

  \<^bold>\<open>Storage.\<close>
  \<^item> \<open>SourceBundle\<close>: \<open>tools/models.py\<close> (source files and bundles) and the acceptance of a payload by
    \<open>sandbox/worker.py\<close>: containment of paths, round trip, and where hub and worker disagree.
  \<^item> \<open>Storage\<close>: \<open>storage/artifacts.py\<close>, publication with invalidation and verified reads.
  \<^item> \<open>Database\<close>: \<open>storage/database.py\<close>, the tables and every operation of the repository. \<open>db_step\<close> is one
    operation, \<open>db_reachable\<close> its closure, \<open>db_wf\<close> the invariant that all reachable states satisfy.
  \<^item> \<open>Hub\<close>: store and index together (\<open>orchestration/workflow.py\<close>); \<open>hub_wf\<close> and \<open>hub_ok\<close> are the
    invariants, \<open>keeps\<close> the calculus that carries them through the operations.
  \<^item> The interfaces are locales: \<open>publication\<close> (what a client of the store relies on), \<open>hub_invariant\<close> (what
    the basic operations keep) and its extensions \<open>service_invariant\<close> and \<open>workflow_invariant\<close>, in which everything
    built from these operations keeps it too; they are interpreted on three invariants of the hub.

  \<^bold>\<open>Decisions.\<close>
  \<^item> \<open>Catalog\<close>: \<open>agents/catalog.py\<close>, the table of agents. \<open>AgentContext\<close>: \<open>orchestration/context.py\<close>, what an agent
    sees. \<open>Evaluation\<close>: \<open>evaluation/models.py\<close>, scores and repair decisions. \<open>Gates\<close>:
    \<open>evaluation/gates.py\<close>. \<open>Sources\<close>: \<open>agents/source.py\<close>, integration and release.
  \<^item> \<open>Interaction\<close>: \<open>human.py\<close> and the parts of \<open>workflow.py\<close> on human answers and the token budget.

  \<^bold>\<open>Orchestration.\<close>
  \<^item> \<open>Workflow\<close>: \<open>orchestration/workflow.py\<close>, stages, the concurrent fan-out, the evaluation loop, execution,
    retry and cancellation. \<open>Execution\<close>: its properties. The scheduler of the fan-out is explicit: a
    stage runs under a schedule of begin and finish actions, \<open>stage_step\<close> is one action, and
    the properties quantify over all schedules. Calls of agents, of the host check and of people are
    arguments of \<open>orchestrator\<close>; the repair loop needs no fuel beyond the repair limit.
  \<^item> \<open>Finops\<close>: \<open>orchestration/finops.py\<close>, the usage report over the event log.

  \<^bold>\<open>Protocol.\<close>
  \<^item> \<open>TaskStore\<close>: \<open>a2a/task_store.py\<close>; \<open>ts_step\<close> is one operation, \<open>ts_wf\<close> its invariant.
  \<^item> \<open>A2AServer\<close>: \<open>a2a/server.py\<close>, the executor, the idempotent handler, replay and the fleet. Polls of
    the store are a list of the states seen; \<open>None\<close> stands for waiting when the list ends.
  \<^item> \<open>A2AClient\<close> and \<open>Reconciliation\<close>: \<open>a2a/client.py\<close>. The network answers the \<open>n\<close>-th exchange; a deadline or
    a cancellation is an exchange that raises. \<open>nt_polls\<close> is the number of polls until the deadline of
    an invocation, \<open>nt_answers\<close> the number of human answers until the process stops; the theorems hold for
    all values of both. \<open>cvalid\<close> is a Hoare triple with a postcondition for results and one for errors.

  \<^bold>\<open>Sandbox.\<close>
  \<^item> \<open>Sandbox\<close>: \<open>sandbox/runner.py\<close>, \<open>leases.py\<close>, \<open>models.py\<close> and \<open>recovery.py\<close>. The Docker daemon replies to the
    \<open>n\<close>-th command; an operation returns or is interrupted by an exception or a deadline, and the commands sent
    are logged. \<open>Confinement\<close> shows what is started and torn down, \<open>OrphanRecovery\<close> what is removed.
  \<^item> \<open>Worker\<close>: \<open>sandbox/worker.py\<close>, the entry point inside the container. The workspace is a map from paths to nodes; tools
    answer the \<open>n\<close>-th use and may change it, and the log holds what was run on which files. \<open>WorkerTrust\<close>: what its exit code
    stands for, and that the host (\<open>Qualification\<close>) reads from the probe what it found.
  \<^item> \<open>Provisioning\<close>: \<open>sandbox/provisioning.py\<close>, the preparation of a pinned runtime. What is staged and the plans are the state;
    network, archive library and host answer the \<open>n\<close>-th question. \<open>ProvisioningTrust\<close>: only payloads of pinned bytes are staged, and
    \<open>daemon_config\<close> keeps the existing configuration.

  \<^bold>\<open>Agents.\<close>
  \<^item> \<open>AgentRuntime\<close>: \<open>agents/deep.py\<close>, the loops around the model of a specialist. The graph answers the \<open>n\<close>-th
    invocation, which the log records; both loops recurse on the attempts that the repair limit leaves.
    \<open>AgentContract\<close>: what a result guarantees whatever the model answers.
  \<^item> \<open>ToolPolicy\<close>: \<open>build_graph\<close> and \<open>specialist_tool_policy\<close> of the same file, which tools a model can be called with.
  \<^item> \<open>Diagnostics\<close>: \<open>agents/observability.py\<close>, the log of the model's calls with its redaction. \<open>DiagnosticsTrust\<close>: \<open>trace_step\<close> is one
    callback, and no reachable line carries a secret; the regular expression for tokens is a scan with a match length.

  \<^bold>\<open>Tools.\<close>
  \<^item> \<open>Tokens\<close>: \<open>tools/auth.py\<close>, the verifier of access tokens. \<open>TokenTrust\<close>: its invariant over all sequences of
    verifications (\<open>verifier_reachable\<close>).
  \<^item> \<open>ToolService\<close>: \<open>tools/server.py\<close>, \<open>tools/repository.py\<close>, \<open>tools/analyzer.py\<close>, \<open>sandbox/analyzer.py\<close> and the models of
    analyses. \<open>ToolAccess\<close>: owners, sources and permissions; \<open>tool_step\<close> is one operation of the service or of the hub
    beside it.

  \<^bold>\<open>Surroundings.\<close>
  \<^item> \<open>HostCheck\<close>: \<open>platform/preflight.py\<close>, the inspection of the host whose report the orchestrator publishes;
    \<open>system_suffices\<close> and \<open>sandbox_suffices\<close> say without the list of checks when it is ready.
  \<^item> \<open>Api\<close>: \<open>main.py\<close>, the handlers of the HTTP interface. A stream of events sees a list of polls of the repository.
    \<open>ApiContract\<close>: what a stream delivers and which requests are refused.
  \<^item> \<open>Evidence\<close>: \<open>execute_artifact\<close> of \<open>sandbox/cli.py\<close>, \<open>agents/execution.py\<close>, \<open>agents/analysis.py\<close> and \<open>agents/live.py\<close>.
    \<open>EvidenceTrust\<close>: what a report of an execution agent stands for.
  \<^item> \<open>Qualification\<close>: \<open>sandbox/comparison.py\<close>, the qualification in \<open>sandbox/cli.py\<close>, and \<open>evaluation/cli.py\<close>. Trials run the
    \<open>Sandbox\<close> operations, so what \<open>Confinement\<close> shows holds of each of their jobs (\<open>QualificationTrust\<close>).
  \<^item> \<open>ToolsClient\<close>: \<open>tools/client.py\<close>, with a log of what is sent. \<open>ClientTrust\<close>: where the credentials go.
  \<^item> \<open>Services\<close>: \<open>scripts/services.py\<close>. The operating system answers the \<open>n\<close>-th question, and a number of rounds stands
    for the time until a deadline. \<open>ServicesContract\<close>: which processes are signalled, and what a start leaves behind.

  \<^bold>\<open>Groups of properties.\<close> Executions settle, only release accepted work, and are isolated (\<open>Execution\<close>);
  events, answers and interrupted runs in the repository (\<open>Database\<close>); publication and reading (\<open>Storage\<close>,
  \<open>Hub\<close>); gates, scores, ownership and release (\<open>Gates\<close>, \<open>Evaluation\<close>, \<open>Sources\<close>); one task per message, one
  message per invocation, human gates over the protocol, and reconciliation before a retry (\<open>TaskStore\<close>,
  \<open>A2AServer\<close>, \<open>A2AClient\<close>, \<open>Reconciliation\<close>); accounting (\<open>Interaction\<close>, \<open>Finops\<close>); confinement and
  recovery of workloads (\<open>Confinement\<close>, \<open>OrphanRecovery\<close>); tokens, capabilities and owners (\<open>TokenTrust\<close>,
  \<open>ToolAccess\<close>); contracts of agents, their tools and their log (\<open>AgentContract\<close>, \<open>ToolPolicy\<close>, \<open>DiagnosticsTrust\<close>); staged runtimes (\<open>ProvisioningTrust\<close>);
  the host, the event stream, guarded requests and genuine evidence (\<open>HostCheck\<close>, \<open>ApiContract\<close>, \<open>EvidenceTrust\<close>,
  \<open>QualificationTrust\<close>); the worker inside the container (\<open>WorkerTrust\<close>); credentials and processes of the development stack (\<open>ClientTrust\<close>, \<open>ServicesContract\<close>).

  \<^bold>\<open>Not modelled.\<close> The model, its prompts and output schemas (\<open>agents/profiles.py\<close>, the texts in \<open>agents/deep.py\<close>), image building
  and the command line (the rest of \<open>sandbox/cli.py\<close>), the wiring of the MCP application, and routing and encoding of HTTP. The A2A, MCP, JWT and database libraries,
  cryptographic hashing, time and unique identifiers are parameters.
\<close>

end
